(* ===== verification/Prelude.thy ===== *)
theory Prelude
  imports Main "HOL-Library.Char_ord" "HOL-Library.List_Lexorder" "HOL-Library.Sublist"
begin

text \<open>
  Shared vocabulary of the development: the collections its proofs draw on, and generic facts
  on lists that several components use. Tables of the database are lists of rows, so most of
  the facts are about \<open>map\<close>, \<open>filter\<close> and uniqueness of a row.
\<close>

named_theorems frames \<open>what an operation leaves unchanged\<close>
named_theorems keeps \<open>introduction rules for invariants kept by a program\<close>

section \<open>At most one element of a list satisfies a predicate\<close>

text \<open>
  The unique indexes of the schema say that at most one row of a table satisfies a condition.
\<close>

definition at_most_one :: "('a \<Rightarrow> bool) \<Rightarrow> 'a list \<Rightarrow> bool" where
  "at_most_one P xs \<longleftrightarrow> length (filter P xs) \<le> 1"

lemma at_most_one_Nil [simp]: "at_most_one P []"
  by (simp add: at_most_one_def)

lemma at_most_one_none: "filter P xs = [] \<Longrightarrow> at_most_one P xs"
  by (simp add: at_most_one_def)

lemma filter_map_never: "(\<And>x. \<not> P (f x)) \<Longrightarrow> filter P (map f xs) = []"
  by (induction xs) auto

lemma filter_map_same: "(\<And>x. P (f x) = P x) \<Longrightarrow> length (filter P (map f xs)) = length (filter P xs)"
  by (induction xs) auto

lemma length_filter_weaken:
  "(\<And>x. x \<in> set xs \<Longrightarrow> P x \<Longrightarrow> Q x) \<Longrightarrow> length (filter P xs) \<le> length (filter Q xs)"
  by (induction xs) (auto intro: le_SucI)

lemma at_most_one_weaken:
  "at_most_one Q xs \<Longrightarrow> (\<And>x. x \<in> set xs \<Longrightarrow> P x \<Longrightarrow> Q x) \<Longrightarrow> at_most_one P xs"
  unfolding at_most_one_def using length_filter_weaken [of xs P Q] by (meson le_trans)

lemma at_most_one_map_weaken:
  assumes "at_most_one P xs" and "\<And>x. x \<in> set xs \<Longrightarrow> P (f x) \<Longrightarrow> P x"
  shows "at_most_one P (map f xs)"
proof -
  have "length (filter P (map f xs)) = length (filter (P \<circ> f) xs)"
    by (simp add: filter_map)
  also have "\<dots> \<le> length (filter P xs)"
    using assms(2) by (intro length_filter_weaken) auto
  finally show ?thesis using assms(1) by (simp add: at_most_one_def)
qed

lemma at_most_one_filter: "at_most_one P xs \<Longrightarrow> at_most_one P (filter Q xs)"
proof -
  assume a: "at_most_one P xs"
  have "length (filter P (filter Q xs)) = length (filter (\<lambda>x. P x \<and> Q x) xs)"
    by (simp add: conj_commute)
  also have "\<dots> \<le> length (filter P xs)"
    by (rule length_filter_weaken) simp
  finally show "at_most_one P (filter Q xs)"
    using a by (simp add: at_most_one_def)
qed

lemma at_most_one_unique:
  assumes "at_most_one P xs" and "x \<in> set xs" "P x" "y \<in> set xs" "P y"
  shows "x = y"
proof -
  have "x \<in> set (filter P xs)" and "y \<in> set (filter P xs)" using assms by auto
  then show ?thesis
    using assms(1) unfolding at_most_one_def
    by (cases "filter P xs") (auto simp: le_Suc_eq)
qed

lemma at_most_one_append1:
  "filter P xs = [] \<Longrightarrow> at_most_one P (xs @ [y])"
  by (simp add: at_most_one_def)

lemma at_most_one_append_other:
  "at_most_one P xs \<Longrightarrow> \<not> P y \<Longrightarrow> at_most_one P (xs @ [y])"
  by (simp add: at_most_one_def)

section \<open>First match and distinct keys\<close>

lemma find_SomeD: "find P xs = Some x \<Longrightarrow> x \<in> set xs \<and> P x"
  by (induction xs) (auto split: if_splits)

lemma find_NoneD: "find P xs = None \<Longrightarrow> x \<in> set xs \<Longrightarrow> \<not> P x"
  by (induction xs) (auto split: if_splits)

lemma find_map: "find P (map f xs) = map_option f (find (P \<circ> f) xs)"
  by (induction xs) auto

lemma find_append: "find P (xs @ ys) = (case find P xs of None \<Rightarrow> find P ys | Some x \<Rightarrow> Some x)"
  by (induction xs) auto

lemma distinct_map_unique: "distinct (map f xs) \<Longrightarrow> x \<in> set xs \<Longrightarrow> y \<in> set xs \<Longrightarrow> f x = f y \<Longrightarrow> x = y"
  by (meson distinct_map inj_onD)

lemma distinct_map_filterI: "distinct (map f xs) \<Longrightarrow> distinct (map f (filter P xs))"
  by (rule distinct_map_filter)

lemma map_map_same_key: "(\<And>x. k (f x) = k x) \<Longrightarrow> map k (map f xs) = map k xs"
  by simp

end
