(* ===== verification/GoLib.thy ===== *)
theory GoLib
  imports Prelude "HOL-Library.Word"
begin

text \<open>
  The parts of Go's standard library that the modelled code calls, on byte strings
  (\<open>string\<close>, one \<open>char\<close> per byte): the \<open>strings\<close> package, \<open>strconv\<close>, \<open>filepath\<close> and
  \<open>encoding/hex\<close>. White space and letter case are those of ASCII. A Go slice is a list, a
  Go \<open>map[string]string\<close> is \<open>smap\<close>, and an \<open>int64\<close> is a \<open>64 word\<close> read with \<open>sint\<close>.
\<close>

type_synonym bytes = string
type_synonym smap = "string \<rightharpoonup> string"
type_synonym i64 = "64 word"

section \<open>Package strings\<close>

definition is_space :: "char \<Rightarrow> bool" where
  "is_space c \<longleftrightarrow> c \<in> set [CHR 0x09, CHR 0x0A, CHR 0x0B, CHR 0x0C, CHR 0x0D, CHR '' '']"

definition trim_right_by :: "(char \<Rightarrow> bool) \<Rightarrow> string \<Rightarrow> string" where
  "trim_right_by p s = rev (dropWhile p (rev s))"

definition trim_space :: "string \<Rightarrow> string" where
  "trim_space s = trim_right_by is_space (dropWhile is_space s)"

definition lower_char :: "char \<Rightarrow> char" where
  "lower_char c = (let n = (of_char c :: nat) in if 65 \<le> n \<and> n \<le> 90 then char_of (n + 32) else c)"

definition upper_char :: "char \<Rightarrow> char" where
  "upper_char c = (let n = (of_char c :: nat) in if 97 \<le> n \<and> n \<le> 122 then char_of (n - 32) else c)"

definition to_lower :: "string \<Rightarrow> string" where
  "to_lower s = map lower_char s"

definition to_upper :: "string \<Rightarrow> string" where
  "to_upper s = map upper_char s"

definition equal_fold :: "string \<Rightarrow> string \<Rightarrow> bool" where
  "equal_fold a b \<longleftrightarrow> to_lower a = to_lower b"

definition has_prefix :: "string \<Rightarrow> string \<Rightarrow> bool" where
  "has_prefix s p \<longleftrightarrow> take (length p) s = p"

definition has_suffix :: "string \<Rightarrow> string \<Rightarrow> bool" where
  "has_suffix s p \<longleftrightarrow> length p \<le> length s \<and> drop (length s - length p) s = p"

definition trim_suffix :: "string \<Rightarrow> string \<Rightarrow> string" where
  "trim_suffix s p = (if has_suffix s p then take (length s - length p) s else s)"

definition trim_prefix :: "string \<Rightarrow> string \<Rightarrow> string" where
  "trim_prefix s p = (if has_prefix s p then drop (length p) s else s)"

definition contains_any :: "string \<Rightarrow> string \<Rightarrow> bool" where
  "contains_any s cs \<longleftrightarrow> list_ex (\<lambda>c. c \<in> set cs) s"

fun split_on :: "char \<Rightarrow> string \<Rightarrow> string list" where
  "split_on c [] = [[]]"
| "split_on c (x # xs) =
     (if x = c then [] # split_on c xs
      else (case split_on c xs of [] \<Rightarrow> [[x]] | y # ys \<Rightarrow> (x # y) # ys))"

fun split_first :: "char \<Rightarrow> string \<Rightarrow> (string \<times> string) option" where
  "split_first c [] = None"
| "split_first c (x # xs) =
     (if x = c then Some ([], xs)
      else map_option (\<lambda>(a, b). (x # a, b)) (split_first c xs))"

fun join_with :: "string \<Rightarrow> string list \<Rightarrow> string" where
  "join_with sep [] = []"
| "join_with sep [x] = x"
| "join_with sep (x # y # zs) = x @ sep @ join_with sep (y # zs)"

lemma split_on_nonempty [simp]: "split_on c s \<noteq> []"
  by (induction s) (auto split: list.splits)

lemma split_on_no_sep: "c \<notin> set s \<Longrightarrow> split_on c s = [s]"
  by (induction s) auto

lemma split_on_append: "split_on c (a @ c # b) = split_on c a @ split_on c b"
proof (induction a)
  case Nil
  then show ?case by simp
next
  case (Cons x xs)
  then show ?case by (cases "split_on c xs") (auto simp: neq_Nil_conv)
qed

lemma split_on_join:
  "xs \<noteq> [] \<Longrightarrow> (\<And>x. x \<in> set xs \<Longrightarrow> c \<notin> set x) \<Longrightarrow> split_on c (join_with [c] xs) = xs"
proof (induction "[c]" xs rule: join_with.induct)
  case (3 x y zs)
  then have "split_on c (join_with [c] (y # zs)) = y # zs" by simp
  with 3 show ?case by (simp add: split_on_append split_on_no_sep)
qed (simp_all add: split_on_no_sep)

lemma has_prefix_append [simp]: "has_prefix (p @ s) p"
  by (simp add: has_prefix_def)

lemma has_prefix_iff: "has_prefix s p \<longleftrightarrow> (\<exists>t. s = p @ t)"
  by (metis append_eq_conv_conj has_prefix_def append_take_drop_id)

lemma has_suffix_iff: "has_suffix s p \<longleftrightarrow> (\<exists>t. s = t @ p)"
proof
  assume h: "has_suffix s p"
  then have "s = take (length s - length p) s @ p"
    by (metis append_take_drop_id has_suffix_def)
  then show "\<exists>t. s = t @ p" by blast
qed (auto simp: has_suffix_def)

lemma trim_suffix_append [simp]: "trim_suffix (s @ p) p = s"
  by (simp add: trim_suffix_def has_suffix_iff)

lemma equal_fold_refl [simp]: "equal_fold a a"
  by (simp add: equal_fold_def)

lemma trim_space_Nil [simp]: "trim_space [] = []"
  by (simp add: trim_space_def trim_right_by_def)

section \<open>Package strconv, package encoding/hex\<close>

definition digit_char :: "nat \<Rightarrow> char" where
  "digit_char d = (if d < 10 then char_of (48 + d) else char_of (87 + d))"

fun itoa_nat :: "nat \<Rightarrow> string" where
  "itoa_nat n = (if n < 10 then [digit_char n] else itoa_nat (n div 10) @ [digit_char (n mod 10)])"

declare itoa_nat.simps [simp del]

definition itoa :: "int \<Rightarrow> string" where
  "itoa i = (if i < 0 then CHR ''-'' # itoa_nat (nat (- i)) else itoa_nat (nat i))"

definition hex_byte :: "char \<Rightarrow> string" where
  "hex_byte c = [digit_char (of_char c div 16), digit_char (of_char c mod 16)]"

definition hex_encode :: "bytes \<Rightarrow> string" where
  "hex_encode b = concat (map hex_byte b)"

text \<open>\<open>strconv.Atoi\<close> and \<open>strconv.ParseInt\<close>, base 10, 64 bits: an optional sign, then digits only.\<close>

definition digit_val :: "char \<Rightarrow> nat option" where
  "digit_val c = (let n = (of_char c :: nat) in if 48 \<le> n \<and> n \<le> 57 then Some (n - 48) else None)"

fun parse_digits :: "nat \<Rightarrow> string \<Rightarrow> nat option" where
  "parse_digits acc [] = Some acc"
| "parse_digits acc (c # cs) =
     (case digit_val c of None \<Rightarrow> None | Some d \<Rightarrow> parse_digits (acc * 10 + d) cs)"

definition int64_of :: "int \<Rightarrow> int option" where
  "int64_of i = (if - (2 ^ 63) \<le> i \<and> i < 2 ^ 63 then Some i else None)"

definition parse_int :: "string \<Rightarrow> int option" where
  "parse_int s =
     (let neg = (case s of c # _ \<Rightarrow> c = CHR ''-'' | [] \<Rightarrow> False);
          rest = (case s of c # cs \<Rightarrow> if c = CHR ''-'' \<or> c = CHR ''+'' then cs else s | [] \<Rightarrow> [])
      in if rest = [] then None
         else Option.bind (parse_digits 0 rest)
                (\<lambda>n. int64_of (if neg then - int n else int n)))"

lemma parse_int_empty [simp]: "parse_int [] = None"
  by (simp add: parse_int_def)

lemma parse_int_range: "parse_int s = Some i \<Longrightarrow> - (2 ^ 63) \<le> i \<and> i < 2 ^ 63"
  by (auto simp: parse_int_def int64_of_def Let_def split: if_splits Option.bind_splits list.splits)

section \<open>Package filepath\<close>

text \<open>
  \<open>filepath.Join\<close> puts the non-empty elements together with slashes and cleans the result:
  empty and \<open>.\<close> elements go, \<open>..\<close> takes the element before it away.
\<close>

definition slash :: char where
  "slash = CHR ''/''"

fun clean_elems :: "bool \<Rightarrow> string list \<Rightarrow> string list \<Rightarrow> string list" where
  "clean_elems rooted acc [] = rev acc"
| "clean_elems rooted acc (e # es) =
     (if e = [] \<or> e = ''.'' then clean_elems rooted acc es
      else if e = ''..'' then
        (case acc of
           [] \<Rightarrow> clean_elems rooted (if rooted then [] else [e]) es
         | a # as \<Rightarrow> if a = ''..'' then clean_elems rooted (e # acc) es
                     else clean_elems rooted as es)
      else clean_elems rooted (e # acc) es)"

definition clean_path :: "string \<Rightarrow> string" where
  "clean_path p =
     (let rooted = has_prefix p ''/'';
          es = clean_elems rooted [] (split_on slash p)
      in if rooted then slash # join_with [slash] es
         else if es = [] then ''.'' else join_with [slash] es)"

definition filepath_join :: "string list \<Rightarrow> string" where
  "filepath_join es =
     (let ne = filter (\<lambda>e. e \<noteq> []) es in if ne = [] then [] else clean_path (join_with [slash] ne))"

text \<open>A plain element is one that cleaning keeps; a plain path is a list of them.\<close>

definition plain_elem :: "string \<Rightarrow> bool" where
  "plain_elem e \<longleftrightarrow> e \<noteq> [] \<and> e \<noteq> ''.'' \<and> e \<noteq> ''..'' \<and> slash \<notin> set e"

definition plain_path :: "string \<Rightarrow> bool" where
  "plain_path p \<longleftrightarrow> list_all plain_elem (split_on slash p)"

lemma clean_elems_plain:
  "list_all plain_elem es \<Longrightarrow> clean_elems r acc es = rev acc @ es"
  by (induction es arbitrary: acc) (auto simp: plain_elem_def)

lemma clean_elems_append_plain:
  "list_all plain_elem ps \<Longrightarrow> clean_elems r acc (es @ ps) = clean_elems r acc es @ ps"
  by (induction r acc es rule: clean_elems.induct) (auto simp: clean_elems_plain split: list.splits)

lemma clean_elems_noslash:
  "(\<forall>e \<in> set acc. slash \<notin> set e) \<Longrightarrow> (\<forall>e \<in> set es. slash \<notin> set e) \<Longrightarrow>
   \<forall>e \<in> set (clean_elems r acc es). slash \<notin> set e"
  by (induction r acc es rule: clean_elems.induct) (auto simp: slash_def split: list.splits)

lemma split_on_pieces: "\<forall>e \<in> set (split_on c s). c \<notin> set e"
  by (induction s) (auto split: list.splits)

lemma join_with_inj:
  assumes "join_with [c] xs = join_with [c] ys" "xs \<noteq> []" "ys \<noteq> []"
    and "\<And>x. x \<in> set xs \<Longrightarrow> c \<notin> set x" "\<And>y. y \<in> set ys \<Longrightarrow> c \<notin> set y"
  shows "xs = ys"
  using assms split_on_join by metis

lemma plain_path_nonempty: "plain_path p \<Longrightarrow> p \<noteq> []"
  by (auto simp: plain_path_def plain_elem_def)

lemma join_split [simp]: "join_with [c] (split_on c s) = s"
proof (induction s)
  case (Cons x xs)
  obtain y ys where y: "split_on c xs = y # ys" by (cases "split_on c xs") auto
  have "join_with [c] ((x # y) # ys) = x # join_with [c] (y # ys)" by (cases ys) auto
  moreover have "join_with [c] ([] # y # ys) = c # join_with [c] (y # ys)" by simp
  ultimately show ?case using Cons y by simp
qed simp

text \<open>Joining a fixed root with plain paths is injective, so distinct blobs get distinct files.\<close>

lemma filepath_join_root:
  assumes "plain_path p" "root \<noteq> []"
  shows "filepath_join [root, p] =
    (let r = has_prefix root ''/'' in
     (if r then [slash] else []) @
     join_with [slash] (clean_elems r [] (split_on slash root) @ split_on slash p))"
proof -
  have p: "p \<noteq> []" using assms(1) by (rule plain_path_nonempty)
  have hp: "has_prefix (root @ slash # p) ''/'' = has_prefix root ''/''"
    using assms(2) by (cases root) (auto simp: has_prefix_def)
  have ce: "clean_elems r [] (split_on slash root @ split_on slash p)
      = clean_elems r [] (split_on slash root) @ split_on slash p" for r
    using assms(1) by (simp add: plain_path_def clean_elems_append_plain)
  show ?thesis
    using assms(2) p by (simp add: filepath_join_def clean_path_def hp ce split_on_append Let_def)
qed

lemma filepath_join_inj:
  assumes "plain_path p" "plain_path q" "root \<noteq> []"
    and "filepath_join [root, p] = filepath_join [root, q]"
  shows "p = q"
proof -
  let ?r = "has_prefix root ''/''"
  let ?re = "clean_elems ?r [] (split_on slash root)"
  have "join_with [slash] (?re @ split_on slash p) = join_with [slash] (?re @ split_on slash q)"
    using assms(4) filepath_join_root [OF assms(1,3)] filepath_join_root [OF assms(2,3)]
    by (simp add: Let_def split: if_splits)
  moreover have "\<forall>e \<in> set (?re @ split_on slash x). slash \<notin> set e" for x
    using clean_elems_noslash [of "[]" "split_on slash root" ?r] split_on_pieces [of slash]
    by auto
  ultimately have "?re @ split_on slash p = ?re @ split_on slash q"
    by (intro join_with_inj [of slash]) auto
  then have "split_on slash p = split_on slash q" by simp
  then show ?thesis by (metis join_split)
qed

lemma filepath_join_plain:
  assumes "es \<noteq> []" "list_all plain_elem es"
  shows "filepath_join es = join_with [slash] es \<and> plain_path (filepath_join es)"
proof -
  have ne: "filter (\<lambda>e. e \<noteq> []) es = es"
    using assms(2) by (auto simp: filter_id_conv list_all_iff plain_elem_def)
  have sp: "split_on slash (join_with [slash] es) = es"
    using assms by (intro split_on_join) (auto simp: list_all_iff plain_elem_def)
  obtain e es' where es: "es = e # es'" using assms(1) by (cases es) auto
  have "\<not> has_prefix (join_with [slash] es) ''/''"
  proof -
    have "e \<noteq> []" "slash \<notin> set e" using assms(2) es by (auto simp: plain_elem_def)
    then show ?thesis unfolding es by (cases es'; cases e) (auto simp: has_prefix_def slash_def)
  qed
  then show ?thesis
    using assms by (simp add: filepath_join_def ne clean_path_def sp clean_elems_plain plain_path_def)
qed

section \<open>Package net/url: path segments\<close>

definition url_safe :: "char \<Rightarrow> bool" where
  "url_safe c \<longleftrightarrow>
     (let n = (of_char c :: nat) in
        (97 \<le> n \<and> n \<le> 122) \<or> (65 \<le> n \<and> n \<le> 90) \<or> (48 \<le> n \<and> n \<le> 57)) \<or> c \<in> set ''-_.~$&+:=@''"

definition hex_upper :: "nat \<Rightarrow> char" where
  "hex_upper d = (if d < 10 then char_of (48 + d) else char_of (55 + d))"

definition hex_val :: "char \<Rightarrow> nat option" where
  "hex_val c = (let n = (of_char c :: nat) in
     if 48 \<le> n \<and> n \<le> 57 then Some (n - 48)
     else if 97 \<le> n \<and> n \<le> 102 then Some (n - 87)
     else if 65 \<le> n \<and> n \<le> 70 then Some (n - 55) else None)"

definition escape_char :: "char \<Rightarrow> string" where
  "escape_char c = (if url_safe c then [c]
     else [CHR ''%'', hex_upper (of_char c div 16), hex_upper (of_char c mod 16)])"

definition path_escape :: "string \<Rightarrow> string" where
  "path_escape s = concat (map escape_char s)"

fun path_unescape :: "string \<Rightarrow> string option" where
  "path_unescape [] = Some []"
| "path_unescape (c # cs) =
     (if c = CHR ''%'' then
        (case cs of
           a # b # rest \<Rightarrow>
             (case (hex_val a, hex_val b) of
                (Some h, Some l) \<Rightarrow> map_option ((#) (char_of (16 * h + l))) (path_unescape rest)
              | _ \<Rightarrow> None)
         | _ \<Rightarrow> None)
      else map_option ((#) c) (path_unescape cs))"

lemma hex_val_upper: "d < 16 \<Longrightarrow> hex_val (hex_upper d) = Some d"
  by (auto simp: hex_val_def hex_upper_def Let_def)

lemma unescape_escape_char: "path_unescape (escape_char c @ s) = map_option ((#) c) (path_unescape s)"
proof -
  have "of_char c div 16 < (16 :: nat)" using nat_of_char_less_256 [of c] by linarith
  moreover have "\<not> url_safe (CHR ''%'')" by (simp add: url_safe_def)
  ultimately show ?thesis by (auto simp: escape_char_def hex_val_upper mult.commute)
qed

lemma path_unescape_escape [simp]: "path_unescape (path_escape s) = Some s"
  by (induction s) (simp_all add: path_escape_def unescape_escape_char)

lemma escape_chars:
  assumes "x \<in> set (path_escape s)"
  shows "\<not> is_space x \<and> x \<noteq> slash"
proof -
  obtain c where c: "c \<in> set s" "x \<in> set (escape_char c)" using assms by (auto simp: path_escape_def)
  have sp: "is_space y \<Longrightarrow> of_char y \<in> {9, 10, 11, 12, 13, 32 :: nat}" "y = slash \<Longrightarrow> of_char y = (47 :: nat)" for y
    by (auto simp: is_space_def slash_def)
  have hd: "(of_char c :: nat) div 16 < 16" using nat_of_char_less_256 [of c] by linarith
  have hx: "(of_char (hex_upper d) :: nat) \<ge> 48" if "d < 16" for d
    using that by (auto simp: hex_upper_def)
  show ?thesis
  proof (cases "url_safe c")
    case True
    then have "x = c" using c by (simp add: escape_char_def)
    then show ?thesis using True by (auto simp: url_safe_def is_space_def slash_def Let_def)
  next
    case False
    then have "x = CHR ''%'' \<or> (of_char x :: nat) \<ge> 48"
      using c hx [OF hd] hx [of "of_char c mod 16"] by (auto simp: escape_char_def)
    then show ?thesis using sp [of x] by (auto simp: is_space_def slash_def)
  qed
qed

lemma trim_space_clean: "(\<And>x. x \<in> set s \<Longrightarrow> \<not> is_space x) \<Longrightarrow> trim_space s = s"
proof -
  assume a: "\<And>x. x \<in> set s \<Longrightarrow> \<not> is_space x"
  have "dropWhile is_space t = t" if "set t \<subseteq> set s" for t
    using that a by (cases t) auto
  then show ?thesis by (simp add: trim_space_def trim_right_by_def)
qed

lemma trim_space_path_escape [simp]: "trim_space (path_escape s) = path_escape s"
  by (rule trim_space_clean) (blast dest: escape_chars)

lemma trim_prefix_path_escape [simp]: "trim_prefix (path_escape s) ''/'' = path_escape s"
proof -
  have "slash \<notin> set (path_escape s)" by (blast dest: escape_chars)
  then show ?thesis by (cases "path_escape s") (auto simp: trim_prefix_def has_prefix_def slash_def)
qed

section \<open>Numbers and hexadecimal text\<close>

lemma digit_char_val: "d < 10 \<Longrightarrow> digit_val (digit_char d) = Some d"
  by (auto simp: digit_val_def digit_char_def Let_def)

lemma parse_digits_append:
  "parse_digits acc (xs @ ys) = Option.bind (parse_digits acc xs) (\<lambda>n. parse_digits n ys)"
  by (induction acc xs rule: parse_digits.induct) (auto split: option.splits)

lemma parse_digits_itoa: "parse_digits 0 (itoa_nat n) = Some n"
proof (induction n rule: itoa_nat.induct)
  case (1 n)
  then show ?case
    by (cases "n < 10") (simp_all add: itoa_nat.simps [of n] parse_digits_append digit_char_val)
qed

lemma itoa_nat_chars: "x \<in> set (itoa_nat n) \<Longrightarrow> (48 :: nat) \<le> of_char x \<and> of_char x \<le> (57 :: nat)"
proof (induction n rule: itoa_nat.induct)
  case (1 n)
  then show ?case
    by (cases "n < 10") (auto simp: itoa_nat.simps [of n] digit_char_def)
qed

lemma itoa_nat_nonempty [simp]: "itoa_nat n \<noteq> []"
  by (cases "n < 10") (simp_all add: itoa_nat.simps [of n])

lemma parse_int_itoa: "0 \<le> i \<Longrightarrow> i < 2 ^ 63 \<Longrightarrow> parse_int (itoa i) = Some i"
proof -
  assume i: "0 \<le> i" "i < 2 ^ 63"
  obtain c cs where cs: "itoa_nat (nat i) = c # cs" by (cases "itoa_nat (nat i)") auto
  have "(48 :: nat) \<le> of_char c" using itoa_nat_chars [of c "nat i"] cs by simp
  then have "c \<noteq> CHR ''-''" "c \<noteq> CHR ''+''" by auto
  then show ?thesis
    using i cs parse_digits_itoa [of "nat i"] by (simp add: parse_int_def itoa_def int64_of_def)
qed

lemma digit_char_ge: "d < 16 \<Longrightarrow> (48 :: nat) \<le> of_char (digit_char d)"
  by (auto simp: digit_char_def)

lemma hex_chars: "x \<in> set (hex_encode b) \<Longrightarrow> (48 :: nat) \<le> of_char x"
proof -
  assume "x \<in> set (hex_encode b)"
  then obtain c where c: "x = digit_char (of_char c div 16) \<or> x = digit_char (of_char c mod 16)"
    by (auto simp: hex_encode_def hex_byte_def)
  have "(of_char c :: nat) div 16 < 16" using nat_of_char_less_256 [of c] by linarith
  then show ?thesis using c digit_char_ge by auto
qed

lemma not_space_ge: "(48 :: nat) \<le> of_char x \<Longrightarrow> \<not> is_space x"
  by (auto simp: is_space_def)

lemma trim_space_hex [simp]: "trim_space (hex_encode b) = hex_encode b"
  by (rule trim_space_clean) (blast dest: hex_chars not_space_ge)

lemma trim_space_itoa [simp]: "0 \<le> i \<Longrightarrow> trim_space (itoa i) = itoa i"
  by (rule trim_space_clean) (auto simp: itoa_def dest: itoa_nat_chars not_space_ge)

lemma itoa_nonempty [simp]: "itoa i \<noteq> []"
  by (simp add: itoa_def)

lemma hex_nonempty [simp]: "hex_encode b = [] \<longleftrightarrow> b = []"
  by (cases b) (simp_all add: hex_encode_def hex_byte_def)

lemma digit_char_inj: "d < 16 \<Longrightarrow> d' < 16 \<Longrightarrow> digit_char d = digit_char d' \<Longrightarrow> d = d'"
  by (auto simp: digit_char_def split: if_splits)

lemma hex_byte_inj: "hex_byte c = hex_byte d \<Longrightarrow> c = d"
proof -
  assume h: "hex_byte c = hex_byte d"
  have b: "(of_char x :: nat) div 16 < 16" for x using nat_of_char_less_256 [of x] by linarith
  have "(of_char c :: nat) div 16 = of_char d div 16" "(of_char c :: nat) mod 16 = of_char d mod 16"
    using h b [of c] b [of d] digit_char_inj by (auto simp: hex_byte_def)
  then have "(of_char c :: nat) = of_char d" by (metis div_mult_mod_eq)
  then show ?thesis by simp
qed

lemma hex_encode_inj: "hex_encode a = hex_encode b \<Longrightarrow> a = b"
proof (induction a arbitrary: b)
  case Nil
  then show ?case by (metis hex_nonempty)
next
  case (Cons c cs)
  then obtain d ds where b: "b = d # ds" by (cases b) (auto simp: hex_encode_def hex_byte_def)
  have "hex_byte c = hex_byte d \<and> hex_encode cs = hex_encode ds"
    using Cons.prems unfolding b by (auto simp: hex_encode_def hex_byte_def)
  then show ?case using Cons.IH b hex_byte_inj by blast
qed

end
