(* ===== verification/World.thy ===== *)
theory World
  imports GoLib
begin

text \<open>
  The state the services act on, and programs over it. A Go method that returns
  \<open>(T, error)\<close> is a program: a function from the world to a result (\<open>Inl\<close> an error,
  \<open>Inr\<close> the value) and the next world. The world holds the database (one list of rows per
  table, columns as in \<open>backend/migrations\<close>), the disks of the API host and of the blob
  nodes, and the environment: a clock, the position in the supply of random values, and a
  script that says for each call that leaves the process (a statement, a file operation, an
  HTTP request) whether it succeeds, is lost before it has an effect, or takes effect and then
  reports an error, and how long it takes. Theorems hold for every script.

  \<open>ext\<close> collects the code the repository calls and does not contain: hashes, the AEAD cipher,
  base64, PostgreSQL's \<open>uuid\<close> casts, the sources of randomness. \<open>good_ext\<close> states the
  documented facts about it that some theorems rely on.
\<close>

section \<open>Errors\<close>

datatype err =
    Unavailable                  \<comment> \<open>a statement, file operation or request failed\<close>
  | PgNoRows | PgUniqueViolation | PgForeignKeyViolation | PgBadUUID | PgOutOfRange
  | NotExist                     \<comment> \<open>\<open>os.ErrNotExist\<close>\<close>
  | HttpStatus nat
  | ErrQuotaExceeded
  | ErrIncompleteBody | ErrInvalidDigest | ErrBadDigest | ErrRetentionActive
  | ErrLegalHoldActive | ErrNoRestorableVersion | ErrVersionNotFound
  | ErrInvalidPart | ErrInvalidPartOrder
  | ErrBucketNotEmpty | ErrBucketNotFound
  | ErrInvalidRoleName | ErrInvalidEffect | ErrInvalidAction | ErrInvalidResource
  | ErrInvalidSubjectID | ErrInvalidSubjectType | ErrProtectedRoleStatement
  | ErrStatementNotFound | ErrBindingNotFound
  | ErrBucketPolicyNotFound | ErrInvalidBucketPolicy
  | ErrForbidden
  | ErrInvalidOperatorState | ErrJoinTokenInvalid | ErrJoinTokenUsed
  | ErrNodeTLSIdentityUnavailable
  | ErrNoDueJobs
  | ErrInvalidCredentials | ErrInvalidToken
  | Failure string               \<comment> \<open>\<open>errors.New\<close> or \<open>fmt.Errorf\<close> with this text\<close>

section \<open>JSON values\<close>

datatype json =
    JNull | JBool bool | JNum int | JStr string | JArr "json list" | JObj "(string \<times> json) list"

lemma size_member [termination_simp]: "(k, v) \<in> set ms \<Longrightarrow> size v < Suc (size_list (size_prod (\<lambda>_. 0) size) ms)"
  by (induction ms) auto

section \<open>Rows\<close>

record object_row =
  o_id :: string
  o_bucket :: string
  o_key :: string
  o_version :: string
  o_latest :: bool
  o_marker :: bool
  o_size :: int
  o_etag :: string
  o_ctype :: string
  o_cache :: string
  o_disp :: string
  o_enc :: string
  o_meta :: smap
  o_tags :: smap
  o_path :: string
  o_backend :: string
  o_owner :: "string option"
  o_retain :: "int option"
  o_expire :: "int option"
  o_deleted :: "int option"
  o_scan :: string
  o_hold :: bool
  o_created :: int

record bucket_row =
  b_id :: string
  b_name :: string
  b_tenant :: string
  b_class :: string
  b_replicas :: "int option"
  b_owner :: "string option"
  b_created :: int

record bucket_quota_row =
  bq_bucket :: string
  bq_max_bytes :: "int option"
  bq_max_objects :: "int option"
  bq_warn :: "int option"
  bq_cur_bytes :: int
  bq_cur_objects :: int
  bq_recalc :: "int option"

record user_quota_row =
  uq_user :: string
  uq_max_bytes :: "int option"
  uq_warn :: "int option"
  uq_cur_bytes :: int
  uq_recalc :: "int option"

record user_row =
  u_id :: string
  u_email :: string
  u_role :: string
  u_hash :: string
  u_must_change :: bool
  u_provider :: string
  u_subject :: string
  u_created :: int

record refresh_row =
  rt_user :: string
  rt_hash :: string
  rt_expires :: int

record admin_token_row =
  at_id :: string
  at_creator :: "string option"
  at_role :: string
  at_hash :: string
  at_desc :: string
  at_last_used :: "int option"
  at_expires :: int
  at_revoked :: "int option"
  at_created :: int

record audit_row =
  au_actor :: string
  au_action :: string
  au_resource :: string
  au_outcome :: string
  au_request :: string
  au_detail :: json
  au_created :: int

record target_row =
  et_id :: string
  et_name :: string
  et_type :: string
  et_url :: string
  et_cipher :: string
  et_events :: "string list"
  et_enabled :: bool
  et_created :: int

record delivery_row =
  dl_id :: string
  dl_target :: string
  dl_event :: string
  dl_payload :: json
  dl_status :: string
  dl_attempts :: int
  dl_next :: int
  dl_error :: string
  dl_code :: "int option"
  dl_created :: int
  dl_updated :: int

record oidc_row =
  oi_enabled :: bool
  oi_issuer :: string
  oi_client :: string
  oi_cipher :: string
  oi_redirect :: string
  oi_scopes :: "string list"
  oi_claim :: string
  oi_default :: string
  oi_roles :: smap

record setup_row =
  su_completed :: bool
  su_backend :: string
  su_scope :: string
  su_remote :: "string list"

record node_row =
  n_id :: string
  n_name :: string
  n_endpoint :: string
  n_zone :: string
  n_status :: string
  n_state :: string
  n_capacity :: int
  n_used :: int
  n_meta :: "(string \<times> json) list"
  n_rpc_hash :: string
  n_rpc_cipher :: string
  n_heartbeat :: "int option"
  n_created :: int

record placement_row =
  p_id :: string
  p_object :: string
  p_index :: int
  p_node :: "string option"
  p_locator :: string
  p_state :: string
  p_endpoint :: string
  p_created :: int
  p_updated :: int

record join_token_row =
  j_id :: string
  j_hash :: string
  j_desc :: string
  j_name :: string
  j_endpoint :: string
  j_zone :: string
  j_expires :: int
  j_used :: "int option"

record upload_row =
  m_id :: string
  m_bucket :: string
  m_key :: string
  m_by :: "string option"
  m_ctype :: string
  m_cache :: string
  m_disp :: string
  m_enc :: string
  m_meta :: smap
  m_expires :: int
  m_created :: int

record part_row =
  pt_upload :: string
  pt_number :: int
  pt_size :: int
  pt_etag :: string
  pt_path :: string

record role_row =
  r_name :: string
  r_desc :: string
  r_builtin :: bool

record statement_row =
  s_id :: string
  s_role :: string
  s_action :: string
  s_resource :: string
  s_effect :: string
  s_conds :: smap

record binding_row =
  bd_id :: string
  bd_type :: string
  bd_subject :: string
  bd_resource :: string
  bd_role :: string
  bd_created :: int

record policy_row =
  bp_bucket :: string
  bp_document :: json

record credential_row =
  c_user :: "string option"
  c_access :: string
  c_hash :: string
  c_cipher :: string
  c_desc :: string
  c_role :: string
  c_last_used :: "int option"
  c_created :: int

record job_row =
  jb_id :: string
  jb_type :: string
  jb_payload :: json
  jb_status :: string
  jb_attempts :: int
  jb_next :: int
  jb_error :: string
  jb_created :: int
  jb_updated :: int

record storage_policy_row =
  sp_default :: string
  sp_standard :: int
  sp_reduced :: int
  sp_archive :: int

record database =
  t_objects :: "object_row list"
  t_buckets :: "bucket_row list"
  t_bucket_quotas :: "bucket_quota_row list"
  t_user_quotas :: "user_quota_row list"
  t_users :: "user_row list"
  t_nodes :: "node_row list"
  t_placements :: "placement_row list"
  t_join_tokens :: "join_token_row list"
  t_uploads :: "upload_row list"
  t_parts :: "part_row list"
  t_roles :: "role_row list"
  t_statements :: "statement_row list"
  t_bindings :: "binding_row list"
  t_policies :: "policy_row list"
  t_credentials :: "credential_row list"
  t_jobs :: "job_row list"
  t_storage_policy :: "storage_policy_row option"
  t_malware_mode :: "string option"
  t_refresh :: "refresh_row list"
  t_admin_tokens :: "admin_token_row list"
  t_audit :: "audit_row list"
  t_targets :: "target_row list"
  t_deliveries :: "delivery_row list"
  t_oidc :: "oidc_row option"
  t_setup :: "setup_row option"

section \<open>The world\<close>

datatype host = ApiHost | NodeHost string

datatype fate = Done | Lost | Late

record world =
  db :: database
  disks :: "host \<Rightarrow> string \<Rightarrow> bytes option"
  dist_endpoints :: "string list"
  dist_tokens :: smap
  node_token :: "string \<Rightarrow> string"
  node_seen :: "string \<Rightarrow> (string \<rightharpoonup> int)"
  script :: "(fate \<times> nat) list"
  clock :: int
  rnd_pos :: nat

record ext =
  sha256 :: "bytes \<Rightarrow> bytes"
  md5sum :: "bytes \<Rightarrow> bytes"
  hmac_sha256 :: "bytes \<Rightarrow> bytes \<Rightarrow> bytes"
  b64_decode :: "string \<Rightarrow> bytes option"
  b64_encode :: "bytes \<Rightarrow> string"
  aead_seal :: "host \<Rightarrow> bytes \<Rightarrow> bytes \<Rightarrow> bytes"
  aead_open :: "host \<Rightarrow> bytes \<Rightarrow> bytes \<Rightarrow> bytes option"
  rnd_uuid :: "nat \<Rightarrow> string"
  rnd_bytes :: "nat \<Rightarrow> nat \<Rightarrow> bytes"
  pg_uuid :: "string \<Rightarrow> string option"
  go_uuid :: "string \<Rightarrow> bool"
  disk_root :: "host \<Rightarrow> string"
  shared_token :: string
  node_secret :: "string \<Rightarrow> string"
  client_tls_missing :: "string \<Rightarrow> bool"
  url_param :: "string \<Rightarrow> string"
  bcrypt_hash :: "nat \<Rightarrow> string \<Rightarrow> err + string"     \<comment> \<open>the salt is random\<close>
  bcrypt_ok :: "string \<Rightarrow> string \<Rightarrow> bool"
  jwt_sign :: "string \<Rightarrow> json \<Rightarrow> string"           \<comment> \<open>secret, claims\<close>
  jwt_open :: "string \<Rightarrow> string \<Rightarrow> json option"    \<comment> \<open>the claims of a token with a good signature\<close>

definition good_ext :: "ext \<Rightarrow> bool" where
  "good_ext E \<longleftrightarrow>
     (\<forall>h n p. aead_open E h n (aead_seal E h n p) = Some p) \<and>
     (\<forall>h n. aead_open E h n [] = None) \<and>
     (\<forall>k n. length (rnd_bytes E k n) = n) \<and>
     (\<forall>k b. hmac_sha256 E k b \<noteq> []) \<and> (\<forall>b. sha256 E b \<noteq> []) \<and>
     inj (rnd_uuid E) \<and> (\<forall>n. plain_elem (rnd_uuid E n)) \<and>
     (\<forall>s u. pg_uuid E s = Some u \<longrightarrow> plain_elem s \<and> plain_elem u) \<and>
     (\<forall>h. disk_root E h \<noteq> []) \<and>
     (\<forall>p. slash \<in> set p \<longrightarrow> url_param E (path_escape p) = path_escape p)"

section \<open>Programs\<close>

type_synonym 'a prog = "world \<Rightarrow> (err + 'a) \<times> world"

definition ret :: "'a \<Rightarrow> 'a prog" where
  "ret x = (\<lambda>w. (Inr x, w))"

definition fail :: "err \<Rightarrow> 'a prog" where
  "fail e = (\<lambda>w. (Inl e, w))"

definition bnd :: "'a prog \<Rightarrow> ('a \<Rightarrow> 'b prog) \<Rightarrow> 'b prog" where
  "bnd m f = (\<lambda>w. case m w of (Inl e, w') \<Rightarrow> (Inl e, w') | (Inr x, w') \<Rightarrow> f x w')"

definition attempt :: "'a prog \<Rightarrow> (err + 'a) prog" where
  "attempt m = (\<lambda>w. case m w of (r, w') \<Rightarrow> (Inr r, w'))"

definition ignore_error :: "'a prog \<Rightarrow> unit prog" where
  "ignore_error m = bnd (attempt m) (\<lambda>_. ret ())"

definition of_result :: "err + 'a \<Rightarrow> 'a prog" where
  "of_result r = (\<lambda>w. (r, w))"

definition guard :: "bool \<Rightarrow> err \<Rightarrow> unit prog" where
  "guard b e = (if b then ret () else fail e)"

fun for_each :: "('a \<Rightarrow> unit prog) \<Rightarrow> 'a list \<Rightarrow> unit prog" where
  "for_each f [] = ret ()"
| "for_each f (x # xs) = bnd (f x) (\<lambda>_. for_each f xs)"

text \<open>
  A loop that counts its rounds and returns the count with the first error, as
  \<open>return n, err\<close> inside a \<open>for\<close> does; \<open>f\<close> says by how much a round counts.
\<close>

fun count_each :: "('a \<Rightarrow> int prog) \<Rightarrow> int \<Rightarrow> 'a list \<Rightarrow> (int \<times> err option) prog" where
  "count_each f n [] = ret (n, None)"
| "count_each f n (x # xs) =
     bnd (attempt (f x)) (\<lambda>r. case r of
        Inl e \<Rightarrow> ret (n, Some e)
      | Inr k \<Rightarrow> count_each f (n + k) xs)"

text \<open>A call that leaves the process consumes one entry of the script; an empty script lets
  every call succeed in no time.\<close>

definition external :: "'a prog \<Rightarrow> 'a prog" where
  "external act = (\<lambda>w. case script w of
      [] \<Rightarrow> act w
    | (f, dt) # rest \<Rightarrow>
        (let w' = w\<lparr>script := rest, clock := clock w + int dt\<rparr> in
         case f of
           Done \<Rightarrow> act w'
         | Lost \<Rightarrow> (Inl Unavailable, w')
         | Late \<Rightarrow> (Inl Unavailable, snd (act w'))))"

definition query :: "(database \<Rightarrow> err + 'a) \<Rightarrow> 'a prog" where
  "query q = external (\<lambda>w. (q (db w), w))"

text \<open>A statement computes a result and the next database; \<open>now\<close> is its \<open>NOW()\<close>. A
  statement that fails changes nothing.\<close>

definition exec :: "(int \<Rightarrow> database \<Rightarrow> err + ('a \<times> database)) \<Rightarrow> 'a prog" where
  "exec q = external (\<lambda>w. case q (clock w) (db w) of
      Inl e \<Rightarrow> (Inl e, w)
    | Inr (x, d) \<Rightarrow> (Inr x, w\<lparr>db := d\<rparr>))"

definition now :: "int prog" where
  "now = (\<lambda>w. (Inr (clock w), w))"

definition new_uuid :: "ext \<Rightarrow> string prog" where
  "new_uuid E = (\<lambda>w. (Inr (rnd_uuid E (rnd_pos w)), w\<lparr>rnd_pos := Suc (rnd_pos w)\<rparr>))"

definition random_bytes :: "ext \<Rightarrow> nat \<Rightarrow> bytes prog" where
  "random_bytes E n = external (\<lambda>w. (Inr (rnd_bytes E (rnd_pos w) n), w\<lparr>rnd_pos := Suc (rnd_pos w)\<rparr>))"

text \<open>The cast of a parameter to \<open>uuid\<close> in a statement.\<close>

definition cast_uuid :: "ext \<Rightarrow> string \<Rightarrow> string prog" where
  "cast_uuid E s = (case pg_uuid E s of None \<Rightarrow> fail PgBadUUID | Some u \<Rightarrow> ret u)"

text \<open>
  \<open>Begin\<close>, the statements, \<open>Commit\<close>, with the deferred \<open>Rollback\<close>: an error in the body or a
  commit that is lost puts the database back; a commit that is late has taken effect. The body
  gets the transaction's \<open>NOW()\<close>.
\<close>

definition transaction :: "(int \<Rightarrow> 'a prog) \<Rightarrow> 'a prog" where
  "transaction body = bnd (external now) (\<lambda>t w.
     case body t w of
       (Inl e, w') \<Rightarrow> (Inl e, w'\<lparr>db := db w\<rparr>)
     | (Inr x, w') \<Rightarrow>
         (case script w' of
            (Lost, dt) # rest \<Rightarrow>
              (Inl Unavailable, w'\<lparr>db := db w, script := rest, clock := clock w' + int dt\<rparr>)
          | _ \<Rightarrow> external (ret x) w'))"

section \<open>Results of programs\<close>

lemma ret_simps [simp]: "ret x w = (Inr x, w)"
  by (simp add: ret_def)

lemma fail_simps [simp]: "fail e w = (Inl e, w)"
  by (simp add: fail_def)

lemma of_result_simps [simp]: "of_result r w = (r, w)"
  by (simp add: of_result_def)

lemma attempt_simps [simp]: "attempt m w = (Inr (fst (m w)), snd (m w))"
  by (simp add: attempt_def split: prod.splits)

lemma now_simps [simp]: "now w = (Inr (clock w), w)"
  by (simp add: now_def)

lemma guard_simps [simp]: "guard True e = ret ()" "guard False e = fail e"
  by (simp_all add: guard_def)

lemma bnd_Inr_iff:
  "bnd m f w = (Inr y, w') \<longleftrightarrow> (\<exists>x w1. m w = (Inr x, w1) \<and> f x w1 = (Inr y, w'))"
  by (auto simp: bnd_def split: prod.splits sum.splits)

lemma bnd_Inl_iff:
  "bnd m f w = (Inl e, w') \<longleftrightarrow>
     m w = (Inl e, w') \<or> (\<exists>x w1. m w = (Inr x, w1) \<and> f x w1 = (Inl e, w'))"
  by (auto simp: bnd_def split: prod.splits sum.splits)

lemma bnd_step: "m w = (Inr x, w1) \<Longrightarrow> bnd m f w = f x w1"
  by (simp add: bnd_def)

lemma bnd_stop: "m w = (Inl e, w1) \<Longrightarrow> bnd m f w = (Inl e, w1)"
  by (simp add: bnd_def)

lemma bnd_ret [simp]: "bnd (ret x) f = f x"
  by (rule ext) (simp add: bnd_def)

lemma bnd_fail [simp]: "bnd (fail e) f = fail e"
  by (rule ext) (simp add: bnd_def)

lemma bnd_of_Inr [simp]: "bnd (of_result (Inr x)) f = f x"
  by (rule ext) (simp add: bnd_def)

lemma bnd_of_Inl [simp]: "bnd (of_result (Inl e)) f = fail e"
  by (rule ext) (simp add: bnd_def)

lemma bnd_assoc: "bnd (bnd m f) g = bnd m (\<lambda>x. bnd (f x) g)"
  by (rule ext) (simp add: bnd_def split: prod.splits sum.splits)

lemma guard_Inr_iff: "guard b e w = (Inr u, w') \<longleftrightarrow> b \<and> w' = w"
  by (cases b) auto

lemma cast_uuid_Inr_iff: "cast_uuid E s w = (Inr u, w') \<longleftrightarrow> pg_uuid E s = Some u \<and> w' = w"
  by (auto simp: cast_uuid_def split: option.splits)

text \<open>With an empty script every call succeeds.\<close>

lemma external_calm [simp]: "script w = [] \<Longrightarrow> external act w = act w"
  by (simp add: external_def)

lemma external_Inr:
  assumes "external act w = (Inr x, w')"
  obtains s c where "act (w\<lparr>script := s, clock := c\<rparr>) = (Inr x, w')" "clock w \<le> c"
proof (cases "script w")
  case Nil
  have "w\<lparr>script := script w, clock := clock w\<rparr> = w" by simp
  with assms Nil have "act (w\<lparr>script := script w, clock := clock w\<rparr>) = (Inr x, w')" by (metis external_calm)
  then show ?thesis by (rule that) simp
next
  case (Cons a s)
  obtain f dt where a: "a = (f, dt)" by (cases a)
  from assms Cons a have "act (w\<lparr>script := s, clock := clock w + int dt\<rparr>) = (Inr x, w')"
    by (cases f) (auto simp: external_def Let_def)
  then show ?thesis by (rule that) simp
qed

section \<open>Invariants of programs\<close>

text \<open>
  \<open>env_step\<close> relates worlds that differ in the environment only; an invariant that such steps
  keep is stable. \<open>keeps_inv I m\<close> says that \<open>m\<close> keeps \<open>I\<close>, whether it succeeds or not.
\<close>

definition env_step :: "world \<Rightarrow> world \<Rightarrow> bool" where
  "env_step w w' \<longleftrightarrow>
     (\<exists>s c r. w' = w\<lparr>script := s, clock := c, rnd_pos := r\<rparr> \<and> clock w \<le> c \<and> rnd_pos w \<le> r)"

definition stable :: "(world \<Rightarrow> bool) \<Rightarrow> bool" where
  "stable I \<longleftrightarrow> (\<forall>w w'. env_step w w' \<longrightarrow> I w \<longrightarrow> I w')"

definition keeps_inv :: "(world \<Rightarrow> bool) \<Rightarrow> 'a prog \<Rightarrow> bool" where
  "keeps_inv I m \<longleftrightarrow> (\<forall>w. I w \<longrightarrow> I (snd (m w)))"

text \<open>A program that touches the database and the environment only.\<close>

definition db_only :: "'a prog \<Rightarrow> bool" where
  "db_only m \<longleftrightarrow> (\<forall>w. env_step w ((snd (m w))\<lparr>db := db w\<rparr>))"

lemma env_step_refl [simp]: "env_step w w"
proof -
  have "w = w\<lparr>script := script w, clock := clock w, rnd_pos := rnd_pos w\<rparr>" by simp
  then show ?thesis unfolding env_step_def by blast
qed

lemma env_step_fields:
  "env_step w w' \<longleftrightarrow> db w' = db w \<and> disks w' = disks w \<and> dist_endpoints w' = dist_endpoints w \<and>
     dist_tokens w' = dist_tokens w \<and> node_token w' = node_token w \<and> node_seen w' = node_seen w \<and>
     clock w \<le> clock w' \<and> rnd_pos w \<le> rnd_pos w'"
  unfolding env_step_def
  by (cases w; cases w') (auto simp: world.defs)

lemma env_step_trans: "env_step a b \<Longrightarrow> env_step b c \<Longrightarrow> env_step a c"
  by (simp add: env_step_fields)

lemma env_stepI [intro]: "clock w \<le> c \<Longrightarrow> env_step w (w\<lparr>script := s, clock := c\<rparr>)"
  by (simp add: env_step_fields)

lemma stableD: "stable I \<Longrightarrow> I w \<Longrightarrow> env_step w w' \<Longrightarrow> I w'"
  by (auto simp: stable_def)

lemma keeps_invD: "keeps_inv I m \<Longrightarrow> I w \<Longrightarrow> m w = (r, w') \<Longrightarrow> I w'"
  by (metis keeps_inv_def snd_conv)

lemma keeps_ret [keeps]: "keeps_inv I (ret x)"
  by (simp add: keeps_inv_def)

lemma keeps_fail [keeps]: "keeps_inv I (fail e)"
  by (simp add: keeps_inv_def)

lemma keeps_of_result [keeps]: "keeps_inv I (of_result r)"
  by (simp add: keeps_inv_def)

lemma keeps_now [keeps]: "keeps_inv I now"
  by (simp add: keeps_inv_def)

lemma keeps_guard [keeps]: "keeps_inv I (guard b e)"
  by (cases b) (simp_all add: keeps_inv_def)

lemma keeps_cast [keeps]: "keeps_inv I (cast_uuid E s)"
  by (simp add: keeps_inv_def cast_uuid_def split: option.splits)

lemma keeps_bnd [keeps]:
  "keeps_inv I m \<Longrightarrow> (\<And>x. keeps_inv I (f x)) \<Longrightarrow> keeps_inv I (bnd m f)"
  by (auto simp: keeps_inv_def bnd_def split: prod.splits sum.splits)

lemma keeps_attempt [keeps]: "keeps_inv I m \<Longrightarrow> keeps_inv I (attempt m)"
  by (simp add: keeps_inv_def)

lemma keeps_ignore [keeps]: "keeps_inv I m \<Longrightarrow> keeps_inv I (ignore_error m)"
  unfolding ignore_error_def by (intro keeps)

lemma keeps_if [keeps]: "(b \<Longrightarrow> keeps_inv I m) \<Longrightarrow> (\<not> b \<Longrightarrow> keeps_inv I m') \<Longrightarrow> keeps_inv I (if b then m else m')"
  by simp

lemma keeps_option [keeps]:
  "(x = None \<Longrightarrow> keeps_inv I m) \<Longrightarrow> (\<And>y. x = Some y \<Longrightarrow> keeps_inv I (f y)) \<Longrightarrow>
   keeps_inv I (case x of None \<Rightarrow> m | Some y \<Rightarrow> f y)"
  by (cases x) auto

lemma keeps_sum [keeps]:
  "(\<And>e. x = Inl e \<Longrightarrow> keeps_inv I (f e)) \<Longrightarrow> (\<And>y. x = Inr y \<Longrightarrow> keeps_inv I (g y)) \<Longrightarrow>
   keeps_inv I (case x of Inl e \<Rightarrow> f e | Inr y \<Rightarrow> g y)"
  by (cases x) auto

lemma keeps_list [keeps]:
  "(x = [] \<Longrightarrow> keeps_inv I m) \<Longrightarrow> (\<And>y ys. x = y # ys \<Longrightarrow> keeps_inv I (f y ys)) \<Longrightarrow>
   keeps_inv I (case x of [] \<Rightarrow> m | y # ys \<Rightarrow> f y ys)"
  by (cases x) auto

lemma keeps_prod [keeps]:
  "(\<And>a b. x = (a, b) \<Longrightarrow> keeps_inv I (f a b)) \<Longrightarrow> keeps_inv I (case x of (a, b) \<Rightarrow> f a b)"
  by (cases x) auto

lemma keeps_let [keeps]: "(\<And>x. x = t \<Longrightarrow> keeps_inv I (f x)) \<Longrightarrow> keeps_inv I (let x = t in f x)"
  by simp

lemma keeps_ball: "(\<And>r. r \<in> S \<Longrightarrow> keeps_inv (P r) m) \<Longrightarrow> keeps_inv (\<lambda>w. \<forall>r \<in> S. P r w) m"
  by (auto simp: keeps_inv_def)

lemma keeps_conj_const: "(b \<Longrightarrow> keeps_inv P m) \<Longrightarrow> keeps_inv (\<lambda>w. b \<and> P w) m"
  by (auto simp: keeps_inv_def)

lemma keeps_conj: "keeps_inv P m \<Longrightarrow> keeps_inv Q m \<Longrightarrow> keeps_inv (\<lambda>w. P w \<and> Q w) m"
  by (auto simp: keeps_inv_def)

lemma keeps_for_each [keeps]: "(\<And>x. keeps_inv I (f x)) \<Longrightarrow> keeps_inv I (for_each f xs)"
  by (induction xs) (auto intro: keeps)

lemma keeps_count_each [keeps]: "(\<And>x. keeps_inv I (f x)) \<Longrightarrow> keeps_inv I (count_each f n xs)"
  by (induction xs arbitrary: n) (auto intro!: keeps)

lemma keeps_external:
  assumes "stable I" "keeps_inv I act"
  shows "keeps_inv I (external act)"
proof -
  have 1: "I (w\<lparr>script := s, clock := clock w + int dt\<rparr>)" if "I w" for w s dt
    using assms(1) that by (rule stableD) (simp add: env_step_fields)
  have 2: "I (snd (act w))" if "I w" for w
    using assms(2) that by (simp add: keeps_inv_def)
  show ?thesis
    unfolding keeps_inv_def external_def
    by (auto simp: Let_def 1 2 split: list.splits fate.splits prod.splits)
qed

lemma keeps_query [keeps]: "stable I \<Longrightarrow> keeps_inv I (query q)"
  unfolding query_def by (rule keeps_external) (auto simp: keeps_inv_def)

lemma keeps_exec:
  assumes "stable I" "\<And>w x d. I w \<Longrightarrow> q (clock w) (db w) = Inr (x, d) \<Longrightarrow> I (w\<lparr>db := d\<rparr>)"
  shows "keeps_inv I (exec q)"
  unfolding exec_def
  by (rule keeps_external [OF assms(1)])
     (auto simp: keeps_inv_def assms(2) split: sum.splits prod.splits)

lemma keeps_new_uuid [keeps]: "stable I \<Longrightarrow> keeps_inv I (new_uuid E)"
  unfolding keeps_inv_def new_uuid_def by (auto elim!: stableD simp: env_step_fields)

lemma keeps_random [keeps]: "stable I \<Longrightarrow> keeps_inv I (random_bytes E n)"
  unfolding random_bytes_def
  by (rule keeps_external) (auto simp: keeps_inv_def env_step_fields elim!: stableD)

lemma keeps_transaction:
  assumes "stable I" "\<And>t. keeps_inv I (body t)" "\<And>t. db_only (body t)"
  shows "keeps_inv I (transaction body)"
  unfolding transaction_def
proof (intro keeps_bnd keeps_external [OF assms(1)] keeps_now)
  fix t
  show "keeps_inv I (\<lambda>w. case body t w of
      (Inl e, w') \<Rightarrow> (Inl e, w'\<lparr>db := db w\<rparr>)
    | (Inr x, w') \<Rightarrow> (case script w' of
          (Lost, dt) # rest \<Rightarrow>
            (Inl Unavailable, w'\<lparr>db := db w, script := rest, clock := clock w' + int dt\<rparr>)
        | _ \<Rightarrow> external (ret x) w'))"
    unfolding keeps_inv_def
  proof (intro allI impI)
    fix w assume w: "I w"
    obtain r w' where b: "body t w = (r, w')" by (cases "body t w")
    have I': "I w'" using assms(2) w b by (rule keeps_invD)
    have es: "env_step w (w'\<lparr>db := db w\<rparr>)" using assms(3) b by (metis db_only_def snd_conv)
    have undone: "I (w'\<lparr>db := db w\<rparr>)" using assms(1) w es by (rule stableD)
    have undone2: "I (w'\<lparr>db := db w, script := s, clock := clock w' + int dt\<rparr>)" for s dt
      using stableD [OF assms(1) undone] by (auto simp: env_step_fields)
    have outside: "I (snd (external (ret x) w'))" for x :: 'a
      using keeps_external [OF assms(1) keeps_ret, of x] I' by (simp add: keeps_inv_def)
    show "I (snd (case body t w of
        (Inl e, w') \<Rightarrow> (Inl e, w'\<lparr>db := db w\<rparr>)
      | (Inr x, w') \<Rightarrow> (case script w' of
            (Lost, dt) # rest \<Rightarrow>
              (Inl Unavailable, w'\<lparr>db := db w, script := rest, clock := clock w' + int dt\<rparr>)
          | _ \<Rightarrow> external (ret x) w')))"
      using b undone undone2 outside by (auto split: sum.splits list.splits prod.splits fate.splits)
  qed
qed

subsection \<open>Programs that touch the database only\<close>

lemma env_step_db: "env_step w (w1\<lparr>db := db w\<rparr>) \<Longrightarrow> env_step w1 (w2\<lparr>db := db w1\<rparr>) \<Longrightarrow> env_step w (w2\<lparr>db := db w\<rparr>)"
  by (simp add: env_step_fields)

lemma db_only_ret [keeps]: "db_only (ret x)"
  by (simp add: db_only_def)

lemma db_only_fail [keeps]: "db_only (fail e)"
  by (simp add: db_only_def)

lemma db_only_of_result [keeps]: "db_only (of_result r)"
  by (simp add: db_only_def)

lemma db_only_now [keeps]: "db_only now"
  by (simp add: db_only_def)

lemma db_only_guard [keeps]: "db_only (guard b e)"
  by (cases b) (simp_all add: db_only_def)

lemma db_only_cast [keeps]: "db_only (cast_uuid E s)"
  by (simp add: db_only_def cast_uuid_def split: option.splits)

lemma db_only_new_uuid [keeps]: "db_only (new_uuid E)"
  by (simp add: db_only_def new_uuid_def env_step_fields)

lemma db_only_bnd [keeps]:
  assumes "db_only m" "\<And>x. db_only (f x)"
  shows "db_only (bnd m f)"
  unfolding db_only_def
proof
  fix w
  obtain r w1 where m: "m w = (r, w1)" by (cases "m w")
  have 1: "env_step w (w1\<lparr>db := db w\<rparr>)" using assms(1) m by (metis db_only_def snd_conv)
  show "env_step w ((snd (bnd m f w))\<lparr>db := db w\<rparr>)"
  proof (cases r)
    case (Inr x)
    have "env_step w1 ((snd (f x w1))\<lparr>db := db w1\<rparr>)" using assms(2) by (simp add: db_only_def)
    then show ?thesis using env_step_db [OF 1] m Inr by (simp add: bnd_def)
  qed (simp add: bnd_def m 1)
qed

lemma db_only_attempt [keeps]: "db_only m \<Longrightarrow> db_only (attempt m)"
  by (simp add: db_only_def)

lemma db_only_if [keeps]: "(b \<Longrightarrow> db_only m) \<Longrightarrow> (\<not> b \<Longrightarrow> db_only m') \<Longrightarrow> db_only (if b then m else m')"
  by simp

lemma db_only_option [keeps]:
  "db_only m \<Longrightarrow> (\<And>y. db_only (f y)) \<Longrightarrow> db_only (case x of None \<Rightarrow> m | Some y \<Rightarrow> f y)"
  by (cases x) auto

lemma db_only_sum [keeps]:
  "(\<And>y. db_only (f y)) \<Longrightarrow> (\<And>y. db_only (g y)) \<Longrightarrow> db_only (case x of Inl y \<Rightarrow> f y | Inr y \<Rightarrow> g y)"
  by (cases x) auto

lemma db_only_prod [keeps]: "(\<And>a b. db_only (f a b)) \<Longrightarrow> db_only (case x of (a, b) \<Rightarrow> f a b)"
  by (cases x) auto

lemma db_only_for_each [keeps]: "(\<And>x. db_only (f x)) \<Longrightarrow> db_only (for_each f xs)"
  by (induction xs) (auto intro: keeps)

lemma db_only_external:
  assumes "\<And>w. env_step w ((snd (act w))\<lparr>db := db w\<rparr>)"
  shows "db_only (external act)"
  unfolding db_only_def
proof
  fix w
  have "env_step w ((snd (act (w\<lparr>script := s, clock := clock w + int dt\<rparr>)))\<lparr>db := db w\<rparr>)" for s dt
    using assms [of "w\<lparr>script := s, clock := clock w + int dt\<rparr>"] by (auto simp: env_step_fields)
  then show "env_step w ((snd (external act w))\<lparr>db := db w\<rparr>)"
    using assms [of w]
    by (auto simp: external_def Let_def env_step_fields split: list.splits fate.splits prod.splits)
qed

lemma db_only_query [keeps]: "db_only (query q)"
  unfolding query_def by (rule db_only_external) simp

lemma db_only_exec [keeps]: "db_only (exec q)"
  unfolding exec_def by (rule db_only_external) (auto split: sum.splits)

section \<open>Triples\<close>

text \<open>
  \<open>triple P m Q X\<close>: from a world where \<open>P\<close> holds, \<open>m\<close> ends with a value and \<open>Q\<close> of it, or
  with an error and \<open>X\<close>. Invariants that depend on a value read earlier need them.
\<close>

definition triple ::
    "(world \<Rightarrow> bool) \<Rightarrow> 'a prog \<Rightarrow> ('a \<Rightarrow> world \<Rightarrow> bool) \<Rightarrow> (world \<Rightarrow> bool) \<Rightarrow> bool" where
  "triple P m Q X \<longleftrightarrow>
     (\<forall>w. P w \<longrightarrow> (case m w of (Inr x, w') \<Rightarrow> Q x w' | (Inl e, w') \<Rightarrow> X w'))"

lemma tripleD_Inr: "triple P m Q X \<Longrightarrow> P w \<Longrightarrow> m w = (Inr x, w') \<Longrightarrow> Q x w'"
  unfolding triple_def by (metis (no_types, lifting) old.prod.case old.sum.simps(6))

lemma tripleD_Inl: "triple P m Q X \<Longrightarrow> P w \<Longrightarrow> m w = (Inl e, w') \<Longrightarrow> X w'"
  unfolding triple_def by (metis (no_types, lifting) old.prod.case old.sum.simps(5))

lemma keeps_inv_triple: "keeps_inv I m \<longleftrightarrow> triple I m (\<lambda>_. I) I"
proof -
  have "I (snd (m w)) \<longleftrightarrow> (case m w of (Inr x, w') \<Rightarrow> I w' | (Inl e, w') \<Rightarrow> I w')" for w
    by (simp split: prod.splits sum.splits)
  then show ?thesis by (simp add: keeps_inv_def triple_def)
qed

lemma triple_weaken:
  "triple P' m Q' X' \<Longrightarrow> (\<And>w. P w \<Longrightarrow> P' w) \<Longrightarrow> (\<And>x w. Q' x w \<Longrightarrow> Q x w) \<Longrightarrow> (\<And>w. X' w \<Longrightarrow> X w) \<Longrightarrow>
   triple P m Q X"
  by (fastforce simp: triple_def split: prod.splits sum.splits)

lemma triple_of_keeps: "keeps_inv I m \<Longrightarrow> (\<And>w. I w \<Longrightarrow> X w) \<Longrightarrow> triple I m (\<lambda>_. I) X"
  by (auto simp: keeps_inv_triple elim!: triple_weaken)

lemma triple_ret: "(\<And>w. P w \<Longrightarrow> Q x w) \<Longrightarrow> triple P (ret x) Q X"
  by (simp add: triple_def)

lemma triple_fail: "(\<And>w. P w \<Longrightarrow> X w) \<Longrightarrow> triple P (fail e) Q X"
  by (simp add: triple_def)

lemma triple_bnd:
  "triple P m Q X \<Longrightarrow> (\<And>x. triple (Q x) (f x) R X) \<Longrightarrow> triple P (bnd m f) R X"
  by (fastforce simp: triple_def bnd_def split: prod.splits sum.splits)

lemma triple_guard: "(\<And>w. P w \<Longrightarrow> X w) \<Longrightarrow> triple P (guard b e) (\<lambda>_ w. P w \<and> b) X"
  by (cases b) (simp_all add: triple_def)

lemma triple_external:
  assumes "stable P" "\<And>w. P w \<Longrightarrow> case act w of (Inr x, w') \<Rightarrow> Q x w' \<and> X w' | (Inl e, w') \<Rightarrow> X w'"
    "\<And>w. P w \<Longrightarrow> X w"
  shows "triple P (external act) Q X"
proof -
  have 1: "P (w\<lparr>script := s, clock := clock w + int dt\<rparr>)" if "P w" for w s dt
    using assms(1) that by (rule stableD) (simp add: env_step_fields)
  show ?thesis
    unfolding triple_def external_def Let_def
  proof (intro allI impI)
    fix w assume w: "P w"
    show "case (case script w of [] \<Rightarrow> act w
        | (f, dt) # rest \<Rightarrow> (case f of
             Done \<Rightarrow> act (w\<lparr>script := rest, clock := clock w + int dt\<rparr>)
           | Lost \<Rightarrow> (Inl Unavailable, w\<lparr>script := rest, clock := clock w + int dt\<rparr>)
           | Late \<Rightarrow> (Inl Unavailable, snd (act (w\<lparr>script := rest, clock := clock w + int dt\<rparr>))))) of
       (Inr x, w') \<Rightarrow> Q x w' | (Inl e, w') \<Rightarrow> X w'"
    proof (cases "script w")
      case Nil
      then show ?thesis using assms(2) [OF w] by (auto split: prod.splits sum.splits)
    next
      case (Cons a rest)
      obtain f dt where a: "a = (f, dt)" by (cases a)
      show ?thesis
        using assms(2) [OF 1 [OF w, where s = rest and dt = dt]] assms(3) [OF 1 [OF w, where s = rest and dt = dt]] Cons a
        by (cases f) (auto split: prod.splits sum.splits)
    qed
  qed
qed

lemma triple_query:
  assumes "stable P" "\<And>w x. P w \<Longrightarrow> q (db w) = Inr x \<Longrightarrow> Q x w" "\<And>w. P w \<Longrightarrow> X w"
  shows "triple P (query q) Q X"
  unfolding query_def
  by (rule triple_external [OF assms(1)]) (auto simp: assms split: sum.splits)

lemma triple_exec:
  assumes "stable P" "\<And>w x d. P w \<Longrightarrow> q (clock w) (db w) = Inr (x, d) \<Longrightarrow> Q x (w\<lparr>db := d\<rparr>) \<and> X (w\<lparr>db := d\<rparr>)"
    "\<And>w. P w \<Longrightarrow> X w"
  shows "triple P (exec q) Q X"
  unfolding exec_def
  by (rule triple_external [OF assms(1)]) (auto simp: assms split: sum.splits prod.splits)

lemma triple_cast: "(\<And>w. P w \<Longrightarrow> X w) \<Longrightarrow> triple P (cast_uuid E s) (\<lambda>u w. P w \<and> pg_uuid E s = Some u) X"
  by (auto simp: cast_uuid_def triple_def split: option.splits)

text \<open>Invariants of the database alone are stable.\<close>

lemma stable_db: "stable (\<lambda>w. P (db w))"
  by (auto simp: stable_def env_step_fields)

lemma query_step: "query f w = (Inr x, w') \<Longrightarrow> f (db w) = Inr x \<and> env_step w w'"
  unfolding query_def by (auto elim!: external_Inr simp: env_step_fields)

lemma exec_calm: "script w = [] \<Longrightarrow> exec q w = (case q (clock w) (db w) of Inl e \<Rightarrow> (Inl e, w) | Inr (x, d) \<Rightarrow> (Inr x, w\<lparr>db := d\<rparr>))"
  by (simp add: exec_def)

lemma query_calm: "script w = [] \<Longrightarrow> query q w = (q (db w), w)"
  by (simp add: query_def)

section \<open>Triples of transactions and loops\<close>

lemma triple_transaction:
  assumes "stable P" "\<And>t. triple P (body t) Q Y" "\<And>t. db_only (body t)"
    and "\<And>x. stable (Q x)" "\<And>x w. Q x w \<Longrightarrow> X w" "\<And>w. P w \<Longrightarrow> X w"
  shows "triple P (transaction body) Q X"
  unfolding transaction_def
proof (rule triple_bnd [where Q = "\<lambda>_. P"])
  show "triple P (external now) (\<lambda>_. P) X"
    by (rule triple_external [OF assms(1)]) (auto simp: assms(6))
next
  fix t
  show "triple P (\<lambda>w. case body t w of
      (Inl e, w') \<Rightarrow> (Inl e, w'\<lparr>db := db w\<rparr>)
    | (Inr x, w') \<Rightarrow> (case script w' of
          (Lost, dt) # rest \<Rightarrow>
            (Inl Unavailable, w'\<lparr>db := db w, script := rest, clock := clock w' + int dt\<rparr>)
        | _ \<Rightarrow> external (ret x) w')) Q X"
    unfolding triple_def
  proof (intro allI impI)
    fix w assume w: "P w"
    obtain r w' where b: "body t w = (r, w')" by (cases "body t w")
    have es: "env_step w (w'\<lparr>db := db w\<rparr>)" using assms(3) b by (metis db_only_def snd_conv)
    have undone: "X (w'\<lparr>db := db w\<rparr>)" using stableD [OF assms(1) w es] by (rule assms(6))
    have undone2: "X (w'\<lparr>db := db w, script := s, clock := clock w' + int dt\<rparr>)" for s dt
      using stableD [OF assms(1) w, of "w'\<lparr>db := db w, script := s, clock := clock w' + int dt\<rparr>"] es
      by (intro assms(6)) (auto simp: env_step_fields)
    have fin: "case external (ret x) w' of (Inr y, v) \<Rightarrow> Q y v | (Inl e, v) \<Rightarrow> X v" if "r = Inr x" for x
    proof -
      have q: "Q x w'" using tripleD_Inr [OF assms(2) w] b that by blast
      have "triple (Q x) (external (ret x)) Q X"
        by (rule triple_external [OF assms(4)]) (auto simp: assms(5))
      then show ?thesis using q by (simp add: triple_def)
    qed
    show "case (case body t w of
        (Inl e, w') \<Rightarrow> (Inl e, w'\<lparr>db := db w\<rparr>)
      | (Inr x, w') \<Rightarrow> (case script w' of
            (Lost, dt) # rest \<Rightarrow>
              (Inl Unavailable, w'\<lparr>db := db w, script := rest, clock := clock w' + int dt\<rparr>)
          | _ \<Rightarrow> external (ret x) w')) of (Inr x, w') \<Rightarrow> Q x w' | (Inl e, w') \<Rightarrow> X w'"
      using b undone undone2 fin
      by (cases r) (auto split: list.splits prod.splits fate.splits)
  qed
qed

text \<open>A counting loop whose invariant depends on the items to come.\<close>

lemma triple_count_each:
  assumes "\<And>x xs. triple (P (x # xs)) (f x) (\<lambda>_. P xs) X" "\<And>xs w. P xs w \<Longrightarrow> X w"
  shows "triple (P xs) (count_each f n xs) (\<lambda>_. X) X"
proof (induction xs arbitrary: n)
  case (Cons x xs)
  have a: "triple (P (x # xs)) (attempt (f x)) (\<lambda>r w. case r of Inl _ \<Rightarrow> X w | Inr _ \<Rightarrow> P xs w) X"
    using assms(1) [of x xs] by (fastforce simp: triple_def split: prod.splits sum.splits)
  show ?case
    unfolding count_each.simps
  proof (rule triple_bnd [OF a])
    fix r :: "err + int"
    show "triple (\<lambda>w. case r of Inl _ \<Rightarrow> X w | Inr _ \<Rightarrow> P xs w)
        (case r of Inl e \<Rightarrow> ret (n, Some e) | Inr k \<Rightarrow> count_each f (n + k) xs) (\<lambda>_. X) X"
      using Cons.IH by (cases r) (auto intro: triple_ret)
  qed
qed (auto simp: triple_def assms(2))

lemma triple_snd: "triple P m (\<lambda>_. I) I \<Longrightarrow> P w \<Longrightarrow> I (snd (m w))"
  by (cases "m w"; cases "fst (m w)") (auto simp: triple_def)

lemma triple_attempt_both:
  assumes "triple P m (\<lambda>x. Q (Inr x)) (\<lambda>w. \<forall>e. Q (Inl e) w)"
  shows "triple P (attempt m) Q X"
  unfolding triple_def
proof (intro allI impI)
  fix w assume "P w"
  then show "case attempt m w of (Inr x, w') \<Rightarrow> Q x w' | (Inl e, w') \<Rightarrow> X w'"
    using assms by (cases "m w"; cases "fst (m w)") (auto simp: triple_def)
qed


section \<open>Concrete worlds\<close>

text \<open>
  An empty database, a world around a database where every call succeeds, and an instance of
  \<open>ext\<close> that satisfies \<open>good_ext\<close>; the examples of the development are built from them.
\<close>

definition empty_db :: database where
  "empty_db = \<lparr>t_objects = [], t_buckets = [], t_bucket_quotas = [], t_user_quotas = [],
     t_users = [], t_nodes = [], t_placements = [], t_join_tokens = [], t_uploads = [],
     t_parts = [], t_roles = [], t_statements = [], t_bindings = [], t_policies = [],
     t_credentials = [], t_jobs = [], t_storage_policy = None, t_malware_mode = None, t_refresh = [],
     t_admin_tokens = [], t_audit = [], t_targets = [], t_deliveries = [], t_oidc = None, t_setup = None\<rparr>"

definition calm_world :: "database \<Rightarrow> world" where
  "calm_world d = \<lparr>db = d, disks = (\<lambda>_ _. None), dist_endpoints = [], dist_tokens = Map.empty,
     node_token = (\<lambda>_. []), node_seen = (\<lambda>_. Map.empty), script = [], clock = 0, rnd_pos = 0\<rparr>"

lemma calm_world_simps [simp]:
  "db (calm_world d) = d" "script (calm_world d) = []" "clock (calm_world d) = 0"
  "rnd_pos (calm_world d) = 0" "disks (calm_world d) = (\<lambda>_ _. None)"
  "dist_endpoints (calm_world d) = []" "dist_tokens (calm_world d) = Map.empty"
  "node_token (calm_world d) = (\<lambda>_. [])" "node_seen (calm_world d) = (\<lambda>_. Map.empty)"
  by (simp_all add: calm_world_def)

definition plain_ext :: ext where
  "plain_ext = \<lparr>sha256 = (\<lambda>b. CHR ''h'' # b), md5sum = (\<lambda>b. b), hmac_sha256 = (\<lambda>k b. CHR ''m'' # k @ b),
     b64_decode = Some, b64_encode = (\<lambda>b. b),
     aead_seal = (\<lambda>h n p. CHR ''t'' # p),
     aead_open = (\<lambda>h n c. case c of [] \<Rightarrow> None | _ # p \<Rightarrow> Some p),
     rnd_uuid = (\<lambda>n. CHR ''u'' # replicate n (CHR ''x'')),
     rnd_bytes = (\<lambda>k n. replicate n (if k = 0 then CHR ''r'' else CHR ''s'')),
     pg_uuid = (\<lambda>s. if plain_elem s then Some s else None), go_uuid = plain_elem, disk_root = (\<lambda>_. ''/data''),
     shared_token = ''secret'', node_secret = (\<lambda>_. ''secret''),
     client_tls_missing = (\<lambda>_. False), url_param = (\<lambda>s. s),
     bcrypt_hash = (\<lambda>k p. Inr (CHR ''$'' # p)), bcrypt_ok = (\<lambda>h p. h = CHR ''$'' # p),
     jwt_sign = (\<lambda>s c. CHR ''j'' # s), jwt_open = (\<lambda>s t. None)\<rparr>"

lemma good_plain_ext: "good_ext plain_ext"
  by (auto simp: good_ext_def plain_ext_def plain_elem_def slash_def inj_def)

end
