(* ===== verification/BlobStore.thy ===== *)
theory BlobStore
  imports World
begin

text \<open>
  Blob storage: \<open>backend/internal/storage/storage.go\<close> and the request handling of
  \<open>backend/cmd/blobnode/main.go\<close>. A file system is a function from full paths to contents;
  directories are not represented. Every file operation, and every request to a node, is a call
  that can fail or take effect and report a failure. The node that an endpoint reaches is the
  host named by the endpoint; a request runs the node's whole handler. The body of a response
  arrives with it. \<open>blob_value\<close> is the abstraction: what a file decodes to.
\<close>

section \<open>LocalStore\<close>

definition file_magic :: bytes where
  "file_magic = ''HSENC1''"

definition nonce_size :: nat where
  "nonce_size = 12"

definition blob_file :: "ext \<Rightarrow> host \<Rightarrow> string \<Rightarrow> string" where
  "blob_file E h path = filepath_join [disk_root E h, path]"

definition set_file :: "host \<Rightarrow> string \<Rightarrow> bytes option \<Rightarrow> world \<Rightarrow> world" where
  "set_file h f c w = w\<lparr>disks := (disks w)(h := (disks w h)(f := c))\<rparr>"

definition create_file :: "host \<Rightarrow> string \<Rightarrow> unit prog" where
  "create_file h f = external (\<lambda>w. (Inr (), set_file h f (Some []) w))"

definition write_file :: "host \<Rightarrow> string \<Rightarrow> bytes \<Rightarrow> unit prog" where
  "write_file h f b = external (\<lambda>w. (Inr (),
     set_file h f (Some ((case disks w h f of None \<Rightarrow> [] | Some c \<Rightarrow> c) @ b)) w))"

definition local_put :: "ext \<Rightarrow> host \<Rightarrow> string \<Rightarrow> bytes \<Rightarrow> unit prog" where
  "local_put E h path plaintext =
     (let f = blob_file E h path in
      bnd (external (ret ())) (\<lambda>_.
      bnd (create_file h f) (\<lambda>_.
      bnd (random_bytes E nonce_size) (\<lambda>nonce.
      bnd (write_file h f file_magic) (\<lambda>_.
      bnd (write_file h f nonce) (\<lambda>_.
        write_file h f (aead_seal E h nonce plaintext)))))))"

definition decode_blob :: "ext \<Rightarrow> host \<Rightarrow> bytes \<Rightarrow> err + bytes" where
  "decode_blob E h payload =
     (let nonce_offset = length file_magic; ciphertext_offset = nonce_offset + nonce_size in
      if length payload < ciphertext_offset then Inl (Failure ''encrypted blob payload is too short'')
      else if take nonce_offset payload \<noteq> file_magic then Inl (Failure ''encrypted blob header mismatch'')
      else case aead_open E h (take nonce_size (drop nonce_offset payload)) (drop ciphertext_offset payload) of
             None \<Rightarrow> Inl (Failure ''decrypt blob'')
           | Some plaintext \<Rightarrow> Inr plaintext)"

definition read_file :: "host \<Rightarrow> string \<Rightarrow> bytes prog" where
  "read_file h f = external (\<lambda>w. (case disks w h f of None \<Rightarrow> Inl NotExist | Some c \<Rightarrow> Inr c, w))"

definition local_get :: "ext \<Rightarrow> host \<Rightarrow> string \<Rightarrow> bytes prog" where
  "local_get E h path =
     bnd (read_file h (blob_file E h path)) (\<lambda>payload. of_result (decode_blob E h payload))"

definition remove_file :: "host \<Rightarrow> string \<Rightarrow> unit prog" where
  "remove_file h f = external (\<lambda>w. case disks w h f of
     None \<Rightarrow> (Inl NotExist, w) | Some _ \<Rightarrow> (Inr (), set_file h f None w))"

definition local_delete :: "ext \<Rightarrow> host \<Rightarrow> string \<Rightarrow> unit prog" where
  "local_delete E h path =
     bnd (attempt (remove_file h (blob_file E h path))) (\<lambda>r. case r of
       Inl e \<Rightarrow> if e = NotExist then ret () else fail e
     | Inr _ \<Rightarrow> ret ())"

section \<open>Signed requests between the API and the nodes\<close>

record http_request =
  hq_method :: string
  hq_path :: string
  hq_timestamp :: string
  hq_nonce :: string
  hq_hash :: string
  hq_signature :: string
  hq_body :: bytes

record http_response =
  hr_status :: nat
  hr_body :: bytes

definition signature_tolerance :: int where
  "signature_tolerance = 5 * 60 * 1000000000"

definition newline :: string where
  "newline = [CHR 0x0A]"

definition sign_blob_node_request ::
    "ext \<Rightarrow> string \<Rightarrow> string \<Rightarrow> string \<Rightarrow> string \<Rightarrow> string \<Rightarrow> string \<Rightarrow> string" where
  "sign_blob_node_request E request_method escaped_path timestamp nonce payload_hash token =
     hex_encode (hmac_sha256 E token (to_upper request_method @ newline @ escaped_path @ newline @
       timestamp @ newline @ nonce @ newline @ payload_hash))"

definition blob_node_payload_hash :: "ext \<Rightarrow> bytes \<Rightarrow> string" where
  "blob_node_payload_hash E payload =
     (if payload = [] then ''UNSIGNED-PAYLOAD'' else hex_encode (sha256 E payload))"

definition new_blob_node_nonce :: "ext \<Rightarrow> string prog" where
  "new_blob_node_nonce E =
     bnd (attempt (random_bytes E 16)) (\<lambda>r. case r of
       Inr value \<Rightarrow> ret (hex_encode value)
     | Inl _ \<Rightarrow> bnd now (\<lambda>t. ret (hex_encode (take 16 (sha256 E (itoa t))))))"

definition unix_seconds :: "int \<Rightarrow> int" where
  "unix_seconds t = t div 1000000000"

definition write_blob_node_auth_headers ::
    "ext \<Rightarrow> string \<Rightarrow> string \<Rightarrow> string \<Rightarrow> int \<Rightarrow> bytes \<Rightarrow> http_request prog" where
  "write_blob_node_auth_headers E request_method escaped_path token t payload =
     bnd (new_blob_node_nonce E) (\<lambda>nonce.
       let timestamp = itoa (unix_seconds t); payload_hash = blob_node_payload_hash E payload in
       ret \<lparr>hq_method = request_method, hq_path = escaped_path, hq_timestamp = timestamp, hq_nonce = nonce,
            hq_hash = payload_hash,
            hq_signature = sign_blob_node_request E request_method escaped_path timestamp nonce payload_hash token,
            hq_body = payload\<rparr>)"

definition verify_blob_node_auth_request :: "ext \<Rightarrow> http_request \<Rightarrow> string \<Rightarrow> int \<Rightarrow> int \<Rightarrow> bool" where
  "verify_blob_node_auth_request E req token t tolerance0 =
     (let tolerance = (if tolerance0 \<le> 0 then signature_tolerance else tolerance0);
          timestamp = trim_space (hq_timestamp req);
          nonce = trim_space (hq_nonce req);
          signature = trim_space (hq_signature req);
          payload_hash = trim_space (hq_hash req) in
      if timestamp = [] \<or> nonce = [] \<or> signature = [] \<or> payload_hash = [] \<or> trim_space token = [] then False
      else case parse_int timestamp of
        None \<Rightarrow> False
      | Some seconds \<Rightarrow>
          let request_time = seconds * 1000000000 in
          if request_time < t - tolerance \<or> request_time > t + tolerance then False
          else sign_blob_node_request E (hq_method req) (hq_path req) timestamp nonce payload_hash token
                 = signature)"

definition verify_blob_node_payload :: "ext \<Rightarrow> bytes \<Rightarrow> string \<Rightarrow> bool" where
  "verify_blob_node_payload E body header_value =
     equal_fold (trim_space header_value) (blob_node_payload_hash E body)"

section \<open>The blob node\<close>

definition nonce_guard_accept ::
    "(string \<rightharpoonup> int) \<Rightarrow> string \<Rightarrow> int \<Rightarrow> int \<Rightarrow> bool \<times> (string \<rightharpoonup> int)" where
  "nonce_guard_accept seen nonce0 t ttl0 =
     (let nonce = trim_space nonce0 in
      if nonce = [] then (False, seen)
      else let ttl = (if ttl0 \<le> 0 then signature_tolerance else ttl0);
               kept = (\<lambda>key. case seen key of None \<Rightarrow> None
                                | Some expiry \<Rightarrow> if expiry > t then Some expiry else None) in
           case kept nonce of
             Some expiry \<Rightarrow> if expiry > t then (False, kept) else (True, kept(nonce \<mapsto> t + ttl))
           | None \<Rightarrow> (True, kept(nonce \<mapsto> t + ttl)))"

definition normalize_path :: "string \<Rightarrow> string" where
  "normalize_path value0 =
     (let value = trim_prefix (trim_space value0) ''/'' in
      case path_unescape value of Some decoded \<Rightarrow> decoded | None \<Rightarrow> value)"

definition http_reply :: "nat \<Rightarrow> http_response prog" where
  "http_reply status = ret \<lparr>hr_status = status, hr_body = []\<rparr>"

definition guard_request :: "string \<Rightarrow> http_request \<Rightarrow> bool prog" where
  "guard_request node req = (\<lambda>w.
     case nonce_guard_accept (node_seen w node) (hq_nonce req) (clock w) signature_tolerance of
       (fresh, seen) \<Rightarrow> (Inr fresh, w\<lparr>node_seen := (node_seen w)(node := seen)\<rparr>))"

definition expected_token :: "ext \<Rightarrow> string \<Rightarrow> string prog" where
  "expected_token E node = (\<lambda>w.
     (Inr (if trim_space (node_token w node) \<noteq> [] then node_token w node else node_secret E node), w))"

definition serve_blob :: "ext \<Rightarrow> string \<Rightarrow> http_request \<Rightarrow> string \<Rightarrow> http_response prog" where
  "serve_blob E node req path =
     (if hq_method req = ''PUT'' then
        bnd (attempt (external (ret (hq_body req)))) (\<lambda>r. case r of
          Inl _ \<Rightarrow> http_reply 400
        | Inr body \<Rightarrow>
            if \<not> verify_blob_node_payload E body (hq_hash req) then http_reply 401
            else bnd (attempt (local_put E (NodeHost node) path body)) (\<lambda>r. case r of
                   Inl _ \<Rightarrow> http_reply 500 | Inr _ \<Rightarrow> http_reply 204))
      else if hq_method req = ''HEAD'' then
        bnd (attempt (local_get E (NodeHost node) path)) (\<lambda>r. case r of
          Inl e \<Rightarrow> if e = NotExist then http_reply 404 else http_reply 500
        | Inr _ \<Rightarrow> http_reply 200)
      else if hq_method req = ''GET'' then
        bnd (attempt (local_get E (NodeHost node) path)) (\<lambda>r. case r of
          Inl e \<Rightarrow> if e = NotExist then http_reply 404 else http_reply 500
        | Inr body \<Rightarrow> ret \<lparr>hr_status = 200, hr_body = body\<rparr>)
      else if hq_method req = ''DELETE'' then
        bnd (attempt (local_delete E (NodeHost node) path)) (\<lambda>r. case r of
          Inl _ \<Rightarrow> http_reply 500 | Inr _ \<Rightarrow> http_reply 204)
      else http_reply 405)"

definition handle_blob :: "ext \<Rightarrow> string \<Rightarrow> http_request \<Rightarrow> http_response prog" where
  "handle_blob E node req =
     (if \<not> has_prefix (hq_path req) ''/blobs/'' then http_reply 404
      else
      bnd (expected_token E node) (\<lambda>token.
      bnd now (\<lambda>t.
        if \<not> verify_blob_node_auth_request E req token t signature_tolerance then http_reply 401
        else if client_tls_missing E node then http_reply 401
        else bnd (guard_request node req) (\<lambda>fresh.
          if \<not> fresh then http_reply 401
          else serve_blob E node req (normalize_path (url_param E (trim_prefix (hq_path req) ''/blobs/'')))))))"

section \<open>DistributedStore\<close>

definition trim_endpoint :: "string \<Rightarrow> string" where
  "trim_endpoint endpoint = trim_right_by (\<lambda>c. c = slash) (trim_space endpoint)"

definition new_distributed :: "string list \<Rightarrow> int \<Rightarrow> string list" where
  "new_distributed endpoints replicas =
     (let normalized = filter (\<lambda>e. e \<noteq> []) (map trim_endpoint endpoints) in
      if replicas > 0 \<and> replicas < int (length normalized) then take (nat replicas) normalized
      else normalized)"

fun dedupe_endpoints :: "string list \<Rightarrow> string list \<Rightarrow> string list" where
  "dedupe_endpoints seen [] = []"
| "dedupe_endpoints seen (endpoint # es) =
     (let e = trim_endpoint endpoint in
      if e = [] then dedupe_endpoints seen es
      else if List.member seen e then dedupe_endpoints seen es
      else e # dedupe_endpoints (e # seen) es)"

definition current_endpoints :: "string list prog" where
  "current_endpoints = (\<lambda>w. (Inr (dist_endpoints w), w))"

definition replace_endpoints :: "string list \<Rightarrow> unit prog" where
  "replace_endpoints endpoints = (\<lambda>w. (Inr (), w\<lparr>dist_endpoints := dedupe_endpoints [] endpoints\<rparr>))"

definition set_endpoint_token :: "string \<Rightarrow> string \<Rightarrow> unit prog" where
  "set_endpoint_token endpoint0 token =
     (let endpoint = trim_endpoint endpoint0 in
      if endpoint = [] then ret ()
      else if trim_space token = [] then (\<lambda>w. (Inr (), w\<lparr>dist_tokens := (dist_tokens w)(endpoint := None)\<rparr>))
      else (\<lambda>w. (Inr (), w\<lparr>dist_tokens := (dist_tokens w)(endpoint \<mapsto> token)\<rparr>)))"

definition token_for_endpoint :: "ext \<Rightarrow> string \<Rightarrow> string prog" where
  "token_for_endpoint E endpoint = (\<lambda>w.
     (Inr (case dist_tokens w (trim_endpoint endpoint) of
             Some token \<Rightarrow> if token \<noteq> [] then token else shared_token E
           | None \<Rightarrow> shared_token E), w))"

definition blob_node_url_path :: "string \<Rightarrow> string" where
  "blob_node_url_path path = ''/blobs/'' @ path_escape (dropWhile (\<lambda>c. c = slash) path)"

definition node_of_endpoint :: "string \<Rightarrow> string" where
  "node_of_endpoint endpoint = trim_right_by (\<lambda>c. c = slash) endpoint"

definition blob_node_do :: "ext \<Rightarrow> string \<Rightarrow> string \<Rightarrow> string \<Rightarrow> bytes \<Rightarrow> http_response prog" where
  "blob_node_do E request_method endpoint path payload =
     bnd (token_for_endpoint E endpoint) (\<lambda>token.
     bnd now (\<lambda>t.
     bnd (write_blob_node_auth_headers E request_method (blob_node_url_path path) token t payload) (\<lambda>req.
       external (handle_blob E (node_of_endpoint endpoint) req))))"

definition put_one :: "ext \<Rightarrow> string \<Rightarrow> string \<Rightarrow> bytes \<Rightarrow> unit prog" where
  "put_one E endpoint path payload =
     bnd (blob_node_do E ''PUT'' endpoint path payload) (\<lambda>resp.
       guard (hr_status resp = 204) (Failure ''blob node put failed''))"

definition get_one :: "ext \<Rightarrow> string \<Rightarrow> string \<Rightarrow> bytes prog" where
  "get_one E endpoint path =
     bnd (blob_node_do E ''GET'' endpoint path []) (\<lambda>resp.
       if hr_status resp = 404 then fail NotExist
       else if hr_status resp \<noteq> 200 then fail (Failure ''blob node get failed'')
       else ret (hr_body resp))"

definition delete_one :: "ext \<Rightarrow> string \<Rightarrow> string \<Rightarrow> unit prog" where
  "delete_one E endpoint path =
     bnd (blob_node_do E ''DELETE'' endpoint path []) (\<lambda>resp.
       if hr_status resp = 204 \<or> hr_status resp = 404 then ret ()
       else fail (Failure ''blob node delete failed''))"

definition exists_on_endpoint :: "ext \<Rightarrow> string \<Rightarrow> string \<Rightarrow> bool prog" where
  "exists_on_endpoint E endpoint path =
     bnd (blob_node_do E ''HEAD'' endpoint path []) (\<lambda>resp.
       if hr_status resp = 404 then ret False
       else if hr_status resp \<noteq> 200 then fail (Failure ''blob node head failed'')
       else ret True)"

definition copy_between_endpoints :: "ext \<Rightarrow> string \<Rightarrow> string \<Rightarrow> string \<Rightarrow> unit prog" where
  "copy_between_endpoints E source_endpoint target_endpoint path =
     bnd (get_one E source_endpoint path) (\<lambda>payload. put_one E target_endpoint path payload)"

definition normalize_target_endpoints :: "string list \<Rightarrow> string list \<Rightarrow> string list" where
  "normalize_target_endpoints current endpoints =
     (if endpoints = [] then current
      else let out = filter (\<lambda>e. e \<noteq> [] \<and> List.member current e) (map trim_endpoint endpoints) in
           if out = [] then current else out)"

fun put_targets :: "ext \<Rightarrow> string \<Rightarrow> bytes \<Rightarrow> string list \<Rightarrow> string list \<Rightarrow> unit prog" where
  "put_targets E path payload written [] = ret ()"
| "put_targets E path payload written (endpoint # es) =
     bnd (attempt (put_one E endpoint path payload)) (\<lambda>r. case r of
       Inl e \<Rightarrow> bnd (for_each (\<lambda>w. ignore_error (delete_one E w path)) written) (\<lambda>_. fail e)
     | Inr _ \<Rightarrow> put_targets E path payload (written @ [endpoint]) es)"

definition put_to_endpoints :: "ext \<Rightarrow> string \<Rightarrow> bytes \<Rightarrow> string list \<Rightarrow> unit prog" where
  "put_to_endpoints E path payload endpoints =
     bnd current_endpoints (\<lambda>current.
       put_targets E path payload [] (normalize_target_endpoints current endpoints))"

definition dist_put :: "ext \<Rightarrow> string \<Rightarrow> bytes \<Rightarrow> unit prog" where
  "dist_put E path payload = bnd current_endpoints (put_to_endpoints E path payload)"

fun get_first :: "ext \<Rightarrow> string \<Rightarrow> err option \<Rightarrow> string list \<Rightarrow> bytes prog" where
  "get_first E path last_err [] = fail (case last_err of None \<Rightarrow> NotExist | Some e \<Rightarrow> e)"
| "get_first E path last_err (endpoint # es) =
     bnd (attempt (get_one E endpoint path)) (\<lambda>r. case r of
       Inr body \<Rightarrow> ret body | Inl e \<Rightarrow> get_first E path (Some e) es)"

definition dist_get :: "ext \<Rightarrow> string \<Rightarrow> bytes prog" where
  "dist_get E path = bnd current_endpoints (get_first E path None)"

fun delete_all :: "ext \<Rightarrow> string \<Rightarrow> err option \<Rightarrow> string list \<Rightarrow> unit prog" where
  "delete_all E path last_err [] = (case last_err of None \<Rightarrow> ret () | Some e \<Rightarrow> fail e)"
| "delete_all E path last_err (endpoint # es) =
     bnd (attempt (delete_one E endpoint path)) (\<lambda>r. case r of
       Inl e \<Rightarrow> delete_all E path (Some e) es | Inr _ \<Rightarrow> delete_all E path last_err es)"

definition dist_delete :: "ext \<Rightarrow> string \<Rightarrow> unit prog" where
  "dist_delete E path = bnd current_endpoints (delete_all E path None)"

section \<open>What a store holds\<close>

definition blob_value :: "ext \<Rightarrow> host \<Rightarrow> world \<Rightarrow> string \<Rightarrow> bytes option" where
  "blob_value E h w path = (case disks w h (blob_file E h path) of
     None \<Rightarrow> None
   | Some c \<Rightarrow> (case decode_blob E h c of Inl _ \<Rightarrow> None | Inr x \<Rightarrow> Some x))"

text \<open>A file as \<open>local_put\<close> leaves it after each of its writes.\<close>

definition sealed :: "ext \<Rightarrow> host \<Rightarrow> bytes \<Rightarrow> bytes \<Rightarrow> bytes" where
  "sealed E h nonce x = file_magic @ nonce @ aead_seal E h nonce x"

lemma decode_sealed:
  "good_ext E \<Longrightarrow> length nonce = nonce_size \<Longrightarrow> decode_blob E h (sealed E h nonce x) = Inr x"
  by (simp add: decode_blob_def sealed_def good_ext_def Let_def)

lemma decode_torn:
  "decode_blob E h [] = Inl (Failure ''encrypted blob payload is too short'')"
  "decode_blob E h file_magic = Inl (Failure ''encrypted blob payload is too short'')"
  "good_ext E \<Longrightarrow> length nonce = nonce_size \<Longrightarrow>
     decode_blob E h (file_magic @ nonce) = Inl (Failure ''decrypt blob'')"
  by (simp_all add: decode_blob_def file_magic_def nonce_size_def good_ext_def Let_def)

lemma set_file_fields [simp]:
  "db (set_file h f c w) = db w" "script (set_file h f c w) = script w" "clock (set_file h f c w) = clock w"
  "rnd_pos (set_file h f c w) = rnd_pos w" "dist_endpoints (set_file h f c w) = dist_endpoints w"
  "node_seen (set_file h f c w) = node_seen w" "node_token (set_file h f c w) = node_token w"
  "dist_tokens (set_file h f c w) = dist_tokens w"
  "disks (set_file h f c w) = (disks w)(h := (disks w h)(f := c))"
  by (simp_all add: set_file_def)

lemma stable_disks: "stable (\<lambda>w. P (disks w))"
  by (auto simp: stable_def env_step_fields)

lemma stable_const [intro]: "stable (\<lambda>w. b)"
  by (simp add: stable_def)

lemma stable_conj: "stable P \<Longrightarrow> stable Q \<Longrightarrow> stable (\<lambda>w. P w \<and> Q w)"
  by (auto simp: stable_def)

lemma blob_value_disks: "disks w h = disks w' h \<Longrightarrow> blob_value E h w p = blob_value E h w' p"
  by (simp add: blob_value_def)

lemma stable_blob_value: "stable (\<lambda>w. P (blob_value E h w p))"
  by (auto simp: stable_def env_step_fields blob_value_def)

subsection \<open>Programs that write one blob only\<close>

text \<open>
  \<open>unmoved E H p I\<close>: the invariant \<open>I\<close> depends neither on the file of blob \<open>p\<close> on the hosts
  \<open>H\<close> nor on the replay tables of the nodes.
\<close>

definition unmoved :: "ext \<Rightarrow> host set \<Rightarrow> string \<Rightarrow> (world \<Rightarrow> bool) \<Rightarrow> bool" where
  "unmoved E H p I \<longleftrightarrow> stable I \<and>
     (\<forall>w h c. h \<in> H \<longrightarrow> I w \<longrightarrow> I (set_file h (blob_file E h p) c w)) \<and>
     (\<forall>w s. I w \<longrightarrow> I (w\<lparr>node_seen := s\<rparr>))"

lemma unmoved_stable: "unmoved E H p I \<Longrightarrow> stable I"
  by (simp add: unmoved_def)

lemma unmoved_mono: "unmoved E H p I \<Longrightarrow> H' \<subseteq> H \<Longrightarrow> unmoved E H' p I"
  by (auto simp: unmoved_def)

lemma blob_file_inj:
  "good_ext E \<Longrightarrow> plain_path p \<Longrightarrow> plain_path q \<Longrightarrow> blob_file E h p = blob_file E h q \<Longrightarrow> p = q"
  unfolding blob_file_def by (rule filepath_join_inj) (auto simp: good_ext_def)

lemma unmoved_other_blob:
  assumes "good_ext E" "plain_path p" "plain_path q" "p \<noteq> q"
  shows "unmoved E H p (\<lambda>w. P (blob_value E h w q))"
proof -
  have "blob_file E h q \<noteq> blob_file E h p" using assms blob_file_inj by blast
  then show ?thesis
    by (simp add: unmoved_def stable_blob_value) (simp add: blob_value_def)
qed

lemma unmoved_other_host: "h \<notin> H \<Longrightarrow> unmoved E H p (\<lambda>w. P (blob_value E h w q))"
  by (simp add: unmoved_def stable_blob_value) (auto simp: blob_value_def)

lemma unmoved_db: "unmoved E H p (\<lambda>w. P (db w))"
  by (auto simp: unmoved_def stable_db)

lemma unmoved_conj: "unmoved E H p I \<Longrightarrow> unmoved E H p J \<Longrightarrow> unmoved E H p (\<lambda>w. I w \<and> J w)"
  by (auto simp: unmoved_def stable_conj)

lemma keeps_create: "unmoved E H p I \<Longrightarrow> h \<in> H \<Longrightarrow> keeps_inv I (create_file h (blob_file E h p))"
  unfolding create_file_def
  by (intro keeps_external) (auto simp: unmoved_def keeps_inv_def)

lemma keeps_write: "unmoved E H p I \<Longrightarrow> h \<in> H \<Longrightarrow> keeps_inv I (write_file h (blob_file E h p) b)"
  unfolding write_file_def
  by (intro keeps_external) (auto simp: unmoved_def keeps_inv_def)

lemma keeps_remove: "unmoved E H p I \<Longrightarrow> h \<in> H \<Longrightarrow> keeps_inv I (remove_file h (blob_file E h p))"
  unfolding remove_file_def
  by (intro keeps_external) (auto simp: unmoved_def keeps_inv_def split: option.splits)

lemma keeps_local_put: "unmoved E H p I \<Longrightarrow> h \<in> H \<Longrightarrow> keeps_inv I (local_put E h p x)"
  unfolding local_put_def Let_def
  by (intro keeps keeps_external keeps_create keeps_write unmoved_stable) auto

lemma keeps_local_delete: "unmoved E H p I \<Longrightarrow> h \<in> H \<Longrightarrow> keeps_inv I (local_delete E h p)"
  unfolding local_delete_def by (intro keeps keeps_remove) auto

lemma keeps_read [keeps]: "stable I \<Longrightarrow> keeps_inv I (read_file h f)"
  unfolding read_file_def by (rule keeps_external) (auto simp: keeps_inv_def)

lemma keeps_local_get [keeps]: "stable I \<Longrightarrow> keeps_inv I (local_get E h p)"
  unfolding local_get_def by (intro keeps)

subsection \<open>What a put leaves behind\<close>

lemma triple_create:
  assumes "stable P" "\<And>w. P w \<Longrightarrow> X w" "\<And>w. disks w h f = Some [] \<Longrightarrow> X w"
  shows "triple P (create_file h f) (\<lambda>_ w. disks w h f = Some []) X"
  unfolding create_file_def by (rule triple_external [OF assms(1)]) (auto simp: assms)

lemma triple_write:
  assumes "\<And>w. disks w h f = Some c \<Longrightarrow> X w" "\<And>w. disks w h f = Some (c @ d) \<Longrightarrow> X w"
  shows "triple (\<lambda>w. disks w h f = Some c) (write_file h f d) (\<lambda>_ w. disks w h f = Some (c @ d)) X"
  unfolding write_file_def
  by (rule triple_external [OF stable_disks]) (auto simp: assms)

lemma triple_random:
  assumes "stable P" "\<And>w. P w \<Longrightarrow> X w" "good_ext E"
  shows "triple P (random_bytes E n) (\<lambda>b w. P w \<and> length b = n) X"
  unfolding random_bytes_def
proof (rule triple_external [OF assms(1) _ assms(2)])
  fix w assume "P w"
  then have "P (w\<lparr>rnd_pos := Suc (rnd_pos w)\<rparr>)"
    by (rule stableD [OF assms(1)]) (simp add: env_step_fields)
  then show "case (Inr (rnd_bytes E (rnd_pos w) n), w\<lparr>rnd_pos := Suc (rnd_pos w)\<rparr>) of
      (Inr x, w') \<Rightarrow> (P w' \<and> length x = n) \<and> X w' | (Inl e, w') \<Rightarrow> X w'"
    using assms by (simp add: good_ext_def)
qed

lemma triple_conj_const: "(b \<Longrightarrow> triple P m Q X) \<Longrightarrow> triple (\<lambda>w. P w \<and> b) m Q X"
  by (auto simp: triple_def)

lemma blob_value_file:
  "disks w h (blob_file E h p) = Some c \<Longrightarrow>
   blob_value E h w p = (case decode_blob E h c of Inl _ \<Rightarrow> None | Inr x \<Rightarrow> Some x)"
  by (simp add: blob_value_def)

lemma triple_local_put:
  assumes "good_ext E"
  shows "triple (\<lambda>w. blob_value E h w p = v) (local_put E h p x)
    (\<lambda>_ w. blob_value E h w p = Some x) (\<lambda>w. blob_value E h w p \<in> {v, None, Some x})"
    (is "triple _ _ ?Q ?X")
proof -
  let ?f = "blob_file E h p"
  let ?at = "\<lambda>c w. disks w h ?f = Some c"
  have torn: "?at c w \<Longrightarrow> decode_blob E h c = Inl e \<Longrightarrow> ?X w" for c e w
    by (simp add: blob_value_file)
  have start: "triple (\<lambda>w. blob_value E h w p = v) (external (ret ())) (\<lambda>_ w. blob_value E h w p = v) ?X"
    by (rule triple_of_keeps) (auto intro!: keeps_external keeps_ret stable_blob_value)
  have create: "triple (\<lambda>w. blob_value E h w p = v) (create_file h ?f) (\<lambda>_. ?at []) ?X"
    by (rule triple_create) (auto simp: stable_blob_value [where P = "\<lambda>b. b = v"] blob_value_file decode_torn)
  have random: "triple (?at []) (random_bytes E nonce_size) (\<lambda>n w. ?at [] w \<and> length n = nonce_size) ?X"
    by (rule triple_random) (auto simp: stable_disks [where P = "\<lambda>d. d h ?f = Some []"] assms blob_value_file decode_torn)
  have magic: "triple (?at []) (write_file h ?f file_magic) (\<lambda>_. ?at file_magic) ?X"
    using triple_write [of h ?f "[]" ?X file_magic] torn decode_torn by (fastforce simp: blob_value_file)
  have nonce: "triple (?at file_magic) (write_file h ?f n) (\<lambda>_. ?at (file_magic @ n)) ?X"
    if "length n = nonce_size" for n
    using triple_write [of h ?f file_magic ?X n] decode_torn that assms by (fastforce simp: blob_value_file)
  have seal: "triple (?at (file_magic @ n)) (write_file h ?f (aead_seal E h n x)) ?Q ?X"
    if "length n = nonce_size" for n
  proof (rule triple_weaken)
    show "triple (?at (file_magic @ n)) (write_file h ?f (aead_seal E h n x))
        (\<lambda>_. ?at ((file_magic @ n) @ aead_seal E h n x)) ?X"
      using decode_torn(3) [OF assms that] decode_sealed [OF assms that, unfolded sealed_def]
      by (intro triple_write) (auto simp: blob_value_file)
  qed (use decode_sealed [OF assms that, unfolded sealed_def] in \<open>auto simp: blob_value_file\<close>)
  show ?thesis
    unfolding local_put_def Let_def
    by (rule triple_bnd [OF start triple_bnd [OF create triple_bnd [OF random triple_conj_const]]])
       (rule triple_bnd [OF magic triple_bnd [OF nonce seal]])
qed

text \<open>Reading returns the abstract value, and never anything else.\<close>

lemma local_get_value:
  assumes "local_get E h p w = (Inr y, w')"
  shows "blob_value E h w p = Some y"
proof -
  obtain c w1 where r: "read_file h (blob_file E h p) w = (Inr c, w1)" and d: "decode_blob E h c = Inr y"
    using assms by (auto simp: local_get_def bnd_Inr_iff)
  have "disks w h (blob_file E h p) = Some c"
    using r unfolding read_file_def by (auto elim!: external_Inr split: option.splits)
  then show ?thesis using d by (simp add: blob_value_def)
qed

lemma local_get_calm:
  "script w = [] \<Longrightarrow> blob_value E h w p = Some y \<Longrightarrow> local_get E h p w = (Inr y, w)"
  by (auto simp: local_get_def read_file_def blob_value_def bnd_def split: option.splits sum.splits)

lemma local_get_missing:
  assumes "local_get E h p w = (Inl NotExist, w')"
  shows "disks w h (blob_file E h p) = None"
  using assms
  by (auto simp: local_get_def bnd_Inl_iff read_file_def external_def decode_blob_def Let_def
      split: list.splits fate.splits option.splits if_splits prod.splits)

lemma triple_local_delete:
  "triple (\<lambda>w. blob_value E h w p = v) (local_delete E h p)
     (\<lambda>_ w. blob_value E h w p = None) (\<lambda>w. blob_value E h w p \<in> {v, None})"
proof -
  let ?f = "blob_file E h p"
  have "triple (\<lambda>w. blob_value E h w p = v) (attempt (remove_file h ?f))
      (\<lambda>r w. case r of Inr _ \<Rightarrow> blob_value E h w p = None
         | Inl e \<Rightarrow> blob_value E h w p \<in> {v, None} \<and> (e = NotExist \<longrightarrow> blob_value E h w p = None))
      (\<lambda>w. blob_value E h w p \<in> {v, None})"
    unfolding triple_def remove_file_def external_def
    by (auto simp: blob_value_def Let_def split: list.splits fate.splits option.splits prod.splits)
  then show ?thesis
    unfolding local_delete_def
    by (rule triple_bnd) (auto simp: triple_def split: sum.splits)
qed

section \<open>Requests to a node\<close>

definition store_path :: "string \<Rightarrow> bool" where
  "store_path p \<longleftrightarrow> plain_path p \<and> slash \<in> set p"

abbreviation node_value :: "ext \<Rightarrow> string \<Rightarrow> world \<Rightarrow> string \<Rightarrow> bytes option" where
  "node_value E endpoint \<equiv> blob_value E (NodeHost (node_of_endpoint endpoint))"

lemma plain_path_head: "plain_path p \<Longrightarrow> dropWhile (\<lambda>c. c = slash) p = p"
  by (cases p) (auto simp: plain_path_def plain_elem_def)

lemma node_resolves:
  assumes "good_ext E" "store_path p"
  shows "normalize_path (url_param E (trim_prefix (blob_node_url_path p) ''/blobs/'')) = p"
proof -
  have "trim_prefix (blob_node_url_path p) ''/blobs/'' = path_escape p"
    using assms plain_path_head by (simp add: store_path_def blob_node_url_path_def trim_prefix_def has_prefix_def)
  moreover have "url_param E (path_escape p) = path_escape p"
    using assms by (simp add: store_path_def good_ext_def)
  ultimately show ?thesis by (simp add: normalize_path_def Let_def)
qed

lemma triple_external_prog:
  assumes "stable P" "triple P m Q X" "\<And>x w. Q x w \<Longrightarrow> X w" "\<And>w. P w \<Longrightarrow> X w"
  shows "triple P (external m) Q X"
  by (rule triple_external [OF assms(1) _ assms(4)])
     (use assms(2,3) in \<open>fastforce simp: triple_def split: prod.splits sum.splits\<close>)

lemma keeps_reply [keeps]: "keeps_inv I (http_reply n)"
  by (simp add: http_reply_def keeps)

lemma keeps_guard_request: "(\<And>w s. I w \<Longrightarrow> I (w\<lparr>node_seen := s\<rparr>)) \<Longrightarrow> keeps_inv I (guard_request node req)"
  by (auto simp: keeps_inv_def guard_request_def split: prod.splits)

lemma keeps_expected_token [keeps]: "keeps_inv I (expected_token E node)"
  by (simp add: keeps_inv_def expected_token_def)

lemma keeps_token_for [keeps]: "keeps_inv I (token_for_endpoint E e)"
  by (simp add: keeps_inv_def token_for_endpoint_def)

lemma keeps_current [keeps]: "keeps_inv I current_endpoints"
  by (simp add: keeps_inv_def current_endpoints_def)

lemma keeps_headers [keeps]:
  "stable I \<Longrightarrow> keeps_inv I (write_blob_node_auth_headers E m path token t x)"
  unfolding write_blob_node_auth_headers_def new_blob_node_nonce_def by (intro keeps)

lemma keeps_serve:
  "unmoved E H p I \<Longrightarrow> NodeHost node \<in> H \<Longrightarrow> keeps_inv I (serve_blob E node req p)"
  unfolding serve_blob_def
  by (intro keeps keeps_external keeps_local_put keeps_local_delete) (auto dest: unmoved_stable)

lemma keeps_handle:
  assumes "unmoved E H p I" "NodeHost node \<in> H"
    "normalize_path (url_param E (trim_prefix (hq_path req) ''/blobs/'')) = p"
  shows "keeps_inv I (handle_blob E node req)"
  unfolding handle_blob_def assms(3)
  by (intro keeps keeps_guard_request keeps_serve [OF assms(1,2)]) (use assms(1) in \<open>auto simp: unmoved_def\<close>)

text \<open>The request a client builds.\<close>

lemma headers_result:
  "write_blob_node_auth_headers E m path token t x w = (Inr req, w') \<Longrightarrow>
   hq_method req = m \<and> hq_path req = path \<and> hq_body req = x \<and> hq_hash req = blob_node_payload_hash E x"
  unfolding write_blob_node_auth_headers_def by (auto simp: bnd_Inr_iff Let_def)

lemma triple_headers:
  assumes "stable P" "\<And>w. P w \<Longrightarrow> X w"
  shows "triple P (write_blob_node_auth_headers E m path token t x)
    (\<lambda>req w. P w \<and> (hq_method req = m \<and> hq_path req = path \<and> hq_body req = x \<and>
       hq_hash req = blob_node_payload_hash E x)) X"
proof -
  have k: "keeps_inv P (write_blob_node_auth_headers E m path token t x)" using assms(1) by (rule keeps_headers)
  show ?thesis
    unfolding triple_def
  proof (intro allI impI)
    fix w assume w: "P w"
    obtain r w' where m: "write_blob_node_auth_headers E m path token t x w = (r, w')" by fastforce
    show "case write_blob_node_auth_headers E m path token t x w of
        (Inr req, w') \<Rightarrow> P w' \<and> hq_method req = m \<and> hq_path req = path \<and> hq_body req = x \<and>
          hq_hash req = blob_node_payload_hash E x
      | (Inl e, w') \<Rightarrow> X w'"
      using keeps_invD [OF k w m] assms(2) headers_result m by (cases r) auto
  qed
qed

lemma triple_node_do:
  assumes "stable P" "\<And>w. P w \<Longrightarrow> X w" "\<And>resp w. Q resp w \<Longrightarrow> X w"
    and "\<And>req. hq_method req = m \<Longrightarrow> hq_path req = blob_node_url_path path \<Longrightarrow> hq_body req = x \<Longrightarrow>
      hq_hash req = blob_node_payload_hash E x \<Longrightarrow>
      triple P (handle_blob E (node_of_endpoint e) req) Q X"
  shows "triple P (blob_node_do E m e path x) Q X"
  unfolding blob_node_do_def
proof (rule triple_bnd)
  show "triple P (token_for_endpoint E e) (\<lambda>_. P) X"
    by (rule triple_of_keeps) (auto intro: keeps assms(2))
  show "triple P (bnd now (\<lambda>t. bnd (write_blob_node_auth_headers E m (blob_node_url_path path) token t x)
      (\<lambda>req. external (handle_blob E (node_of_endpoint e) req)))) Q X" for token
  proof (rule triple_bnd)
    show "triple P now (\<lambda>_. P) X" by (rule triple_of_keeps) (auto intro: keeps assms(2))
    show "triple P (bnd (write_blob_node_auth_headers E m (blob_node_url_path path) token t x)
        (\<lambda>req. external (handle_blob E (node_of_endpoint e) req))) Q X" for t
      by (rule triple_bnd [OF triple_headers [OF assms(1,2)] triple_conj_const])
         (assumption, rule triple_external_prog [OF assms(1) _ assms(3) assms(2)], auto intro: assms(4))
  qed
qed

text \<open>What the node does with it.\<close>

lemma triple_attempt:
  "triple P m Q X \<Longrightarrow> triple P (attempt m) (\<lambda>r w. case r of Inr x \<Rightarrow> Q x w | Inl e \<Rightarrow> X w) Y"
  unfolding triple_def by (auto split: prod.splits sum.splits)

lemma triple_sum:
  "(\<And>e. r = Inl e \<Longrightarrow> triple P (f e) Q X) \<Longrightarrow> (\<And>x. r = Inr x \<Longrightarrow> triple P (g x) Q X) \<Longrightarrow>
   triple P (case r of Inl e \<Rightarrow> f e | Inr x \<Rightarrow> g x) Q X"
  by (cases r) auto

lemma triple_if:
  "(b \<Longrightarrow> triple P m Q X) \<Longrightarrow> (\<not> b \<Longrightarrow> triple P m' Q X) \<Longrightarrow> triple P (if b then m else m') Q X"
  by simp

lemma triple_handle:
  assumes I: "stable P" "\<And>w s. P w \<Longrightarrow> P (w\<lparr>node_seen := s\<rparr>)" and X: "\<And>w. P w \<Longrightarrow> X w"
    and refused: "\<And>w n. P w \<Longrightarrow> n = 401 \<or> n = 404 \<and> \<not> has_prefix (hq_path req) ''/blobs/'' \<Longrightarrow>
      Q \<lparr>hr_status = n, hr_body = []\<rparr> w"
    and serve: "triple P (serve_blob E node req (normalize_path (url_param E (trim_prefix (hq_path req) ''/blobs/'')))) Q X"
  shows "triple P (handle_blob E node req) Q X"
  unfolding handle_blob_def
proof (intro triple_if)
  have r: "triple P (http_reply n) Q X" if "n = 401 \<or> n = 404 \<and> \<not> has_prefix (hq_path req) ''/blobs/''" for n
    using refused that by (simp add: http_reply_def triple_def)
  have k: "triple P m (\<lambda>_. P) X" if "keeps_inv P m" for m :: "'b prog"
    using that X by (rule triple_of_keeps)
  show "triple P (http_reply 404) Q X" if "\<not> has_prefix (hq_path req) ''/blobs/''"
    using that by (intro r) simp
  show "triple P (bnd (expected_token E node) (\<lambda>token. bnd now (\<lambda>t.
      if \<not> verify_blob_node_auth_request E req token t signature_tolerance then http_reply 401
      else if client_tls_missing E node then http_reply 401
      else bnd (guard_request node req) (\<lambda>fresh. if \<not> fresh then http_reply 401
        else serve_blob E node req (normalize_path (url_param E (trim_prefix (hq_path req) ''/blobs/''))))))) Q X"
    by (intro triple_bnd [where Q = "\<lambda>_. P"] triple_if r serve k keeps keeps_guard_request I) auto
qed

lemma node_value_seen [simp]: "blob_value E h (w\<lparr>node_seen := s\<rparr>) p = blob_value E h w p"
  by (simp add: blob_value_def)

lemma triple_reply: "(\<And>w. P w \<Longrightarrow> Q \<lparr>hr_status = n, hr_body = []\<rparr> w) \<Longrightarrow> triple P (http_reply n) Q X"
  by (simp add: http_reply_def triple_def)

lemma triple_body:
  "stable P \<Longrightarrow> triple P (attempt (external (ret x))) (\<lambda>r w. P w \<and> (\<forall>y. r = Inr y \<longrightarrow> y = x)) X"
  unfolding triple_def
  using keeps_external [of P "ret x"]
  by (auto simp: keeps keeps_inv_def external_def Let_def split: list.splits fate.splits prod.splits)

lemma method_names:
  "(''HEAD'' = ''PUT'') = False" "(''GET'' = ''PUT'') = False" "(''GET'' = ''HEAD'') = False"
  "(''DELETE'' = ''PUT'') = False" "(''DELETE'' = ''HEAD'') = False" "(''DELETE'' = ''GET'') = False"
  by simp_all

lemma serve_put:
  "hq_method req = ''PUT'' \<Longrightarrow> serve_blob E node req path =
     bnd (attempt (external (ret (hq_body req)))) (\<lambda>r. case r of
       Inl _ \<Rightarrow> http_reply 400
     | Inr body \<Rightarrow>
         if \<not> verify_blob_node_payload E body (hq_hash req) then http_reply 401
         else bnd (attempt (local_put E (NodeHost node) path body)) (\<lambda>r. case r of
                Inl _ \<Rightarrow> http_reply 500 | Inr _ \<Rightarrow> http_reply 204))"
  by (simp only: serve_blob_def method_names if_True if_False simp_thms)

lemma serve_head:
  "hq_method req = ''HEAD'' \<Longrightarrow> serve_blob E node req path =
     bnd (attempt (local_get E (NodeHost node) path)) (\<lambda>r. case r of
       Inl e \<Rightarrow> if e = NotExist then http_reply 404 else http_reply 500
     | Inr _ \<Rightarrow> http_reply 200)"
  by (simp only: serve_blob_def method_names if_True if_False simp_thms)

lemma serve_get:
  "hq_method req = ''GET'' \<Longrightarrow> serve_blob E node req path =
     bnd (attempt (local_get E (NodeHost node) path)) (\<lambda>r. case r of
       Inl e \<Rightarrow> if e = NotExist then http_reply 404 else http_reply 500
     | Inr body \<Rightarrow> ret \<lparr>hr_status = 200, hr_body = body\<rparr>)"
  by (simp only: serve_blob_def method_names if_True if_False simp_thms)

lemma serve_delete:
  "hq_method req = ''DELETE'' \<Longrightarrow> serve_blob E node req path =
     bnd (attempt (local_delete E (NodeHost node) path)) (\<lambda>r. case r of
       Inl _ \<Rightarrow> http_reply 500 | Inr _ \<Rightarrow> http_reply 204)"
  by (simp only: serve_blob_def method_names if_True if_False simp_thms)

lemma triple_put_one:
  assumes "good_ext E" "store_path p"
  shows "triple (\<lambda>w. node_value E e w p = v) (put_one E e p x)
    (\<lambda>_ w. node_value E e w p = Some x) (\<lambda>w. node_value E e w p \<in> {v, None, Some x})"
    (is "triple ?P _ ?Q ?X")
proof -
  let ?R = "\<lambda>resp w. ?X w \<and> (hr_status resp = 204 \<longrightarrow> node_value E e w p = Some x)"
  have st: "stable ?P" by (rule stable_blob_value)
  have put: "triple ?P (bnd (attempt (local_put E (NodeHost (node_of_endpoint e)) p x))
      (\<lambda>r. case r of Inl _ \<Rightarrow> http_reply 500 | Inr _ \<Rightarrow> http_reply 204)) ?R ?X"
    by (rule triple_bnd [OF triple_attempt [OF triple_local_put [OF assms(1), where x = x]]])
       (auto intro!: triple_sum triple_reply)
  have serve: "triple ?P (serve_blob E (node_of_endpoint e) req p) ?R ?X"
    if "hq_method req = ''PUT''" "hq_body req = x" for req
    unfolding serve_put [OF that(1)] that(2)
  proof (rule triple_bnd [OF triple_body [OF st] triple_conj_const])
    fix r :: "err + bytes" assume r: "\<forall>y. r = Inr y \<longrightarrow> y = x"
    show "triple ?P (case r of Inl _ \<Rightarrow> http_reply 400
      | Inr body \<Rightarrow> if \<not> verify_blob_node_payload E body (hq_hash req) then http_reply 401
          else bnd (attempt (local_put E (NodeHost (node_of_endpoint e)) p body))
            (\<lambda>r. case r of Inl _ \<Rightarrow> http_reply 500 | Inr _ \<Rightarrow> http_reply 204)) ?R ?X"
      using r put by (cases r) (auto intro: triple_reply)
  qed
  have "triple ?P (blob_node_do E ''PUT'' e p x) ?R ?X"
  proof (rule triple_node_do [OF st])
    fix req :: http_request assume r: "hq_method req = ''PUT''" "hq_path req = blob_node_url_path p" "hq_body req = x"
    show "triple ?P (handle_blob E (node_of_endpoint e) req) ?R ?X"
      using serve [OF r(1,3)] by (intro triple_handle [OF st]) (auto simp: r node_resolves [OF assms])
  qed auto
  then show ?thesis
    unfolding put_one_def by (rule triple_bnd) (auto simp: triple_def guard_def)
qed

lemma url_path_prefix [simp]: "has_prefix (blob_node_url_path p) ''/blobs/''"
  by (simp add: blob_node_url_path_def has_prefix_def)

lemma triple_delete_one:
  assumes "good_ext E" "store_path p"
  shows "triple (\<lambda>w. node_value E e w p = v) (delete_one E e p)
    (\<lambda>_ w. node_value E e w p = None) (\<lambda>w. node_value E e w p \<in> {v, None})"
    (is "triple ?P _ ?Q ?X")
proof -
  let ?R = "\<lambda>resp w. ?X w \<and> (hr_status resp = 204 \<longrightarrow> node_value E e w p = None) \<and> hr_status resp \<noteq> 404"
  have st: "stable ?P" by (rule stable_blob_value)
  have serve: "triple ?P (serve_blob E (node_of_endpoint e) req p) ?R ?X"
    if "hq_method req = ''DELETE''" for req
    unfolding serve_delete [OF that]
    by (rule triple_bnd [OF triple_attempt [OF triple_local_delete]])
       (auto intro!: triple_sum triple_reply)
  have "triple ?P (blob_node_do E ''DELETE'' e p []) ?R ?X"
  proof (rule triple_node_do [OF st])
    fix req :: http_request assume r: "hq_method req = ''DELETE''" "hq_path req = blob_node_url_path p"
    show "triple ?P (handle_blob E (node_of_endpoint e) req) ?R ?X"
      using serve [OF r(1)] by (intro triple_handle [OF st]) (auto simp: r node_resolves [OF assms])
  qed auto
  then show ?thesis
    unfolding delete_one_def by (rule triple_bnd) (auto simp: triple_def)
qed

lemma keeps_node_do:
  assumes "unmoved E H p I" "NodeHost (node_of_endpoint e) \<in> H" "good_ext E" "store_path p"
  shows "keeps_inv I (blob_node_do E m e p x)"
proof -
  have I: "stable I" using assms(1) by (rule unmoved_stable)
  have "triple I (handle_blob E (node_of_endpoint e) req) (\<lambda>_. I) I"
    if "hq_path req = blob_node_url_path p" for req
    using keeps_handle [OF assms(1,2), of req] that node_resolves [OF assms(3,4)]
    by (simp add: keeps_inv_triple)
  then show ?thesis
    unfolding keeps_inv_triple by (intro triple_node_do [OF I]) auto
qed

lemma keeps_put_one:
  "unmoved E H p I \<Longrightarrow> NodeHost (node_of_endpoint e) \<in> H \<Longrightarrow> good_ext E \<Longrightarrow> store_path p \<Longrightarrow>
   keeps_inv I (put_one E e p x)"
  unfolding put_one_def by (intro keeps keeps_node_do)

lemma keeps_delete_one:
  "unmoved E H p I \<Longrightarrow> NodeHost (node_of_endpoint e) \<in> H \<Longrightarrow> good_ext E \<Longrightarrow> store_path p \<Longrightarrow>
   keeps_inv I (delete_one E e p)"
  unfolding delete_one_def by (intro keeps keeps_node_do)

text \<open>Reading requests leave every file alone.\<close>

definition seen_free :: "(world \<Rightarrow> bool) \<Rightarrow> bool" where
  "seen_free I \<longleftrightarrow> stable I \<and> (\<forall>w s. I w \<longrightarrow> I (w\<lparr>node_seen := s\<rparr>))"

lemma keeps_node_read:
  assumes "seen_free I" "m = ''GET'' \<or> m = ''HEAD''"
  shows "keeps_inv I (blob_node_do E m e p x)"
proof -
  have I: "stable I" "\<And>w s. I w \<Longrightarrow> I (w\<lparr>node_seen := s\<rparr>)" using assms(1) by (auto simp: seen_free_def)
  have "keeps_inv I (serve_blob E node req path)" if "hq_method req = m" for node req path
    using that assms(2) by (auto simp: serve_get serve_head intro!: keeps I)
  then have "keeps_inv I (handle_blob E node req)" if "hq_method req = m" for node req
    unfolding handle_blob_def using that by (intro keeps keeps_guard_request I) auto
  then show ?thesis
    unfolding keeps_inv_triple by (intro triple_node_do [OF I(1)]) auto
qed

lemma keeps_get_one: "seen_free I \<Longrightarrow> keeps_inv I (get_one E e p)"
  unfolding get_one_def by (intro keeps keeps_node_read) auto

lemma keeps_exists: "seen_free I \<Longrightarrow> keeps_inv I (exists_on_endpoint E e p)"
  unfolding exists_on_endpoint_def by (intro keeps keeps_node_read) auto

lemma seen_free_value: "seen_free (\<lambda>w. P (blob_value E h w p))"
  by (simp add: seen_free_def stable_blob_value)

lemma triple_get_one:
  "triple (\<lambda>w. node_value E e w p = v) (get_one E e p)
     (\<lambda>y w. node_value E e w p = v \<and> (store_path p \<and> good_ext E \<longrightarrow> v = Some y)) (\<lambda>w. node_value E e w p = v)"
    (is "triple ?P _ ?Q _")
proof (cases "store_path p \<and> good_ext E")
  case False
  have k: "keeps_inv ?P (get_one E e p)" by (rule keeps_get_one [OF seen_free_value])
  show ?thesis using triple_of_keeps [OF k] by (simp add: False)
next
  case True
  let ?R = "\<lambda>resp w. ?P w \<and> (hr_status resp = 200 \<longrightarrow> v = Some (hr_body resp))"
  have st: "stable ?P" by (rule stable_blob_value)
  have get: "triple ?P (attempt (local_get E (NodeHost (node_of_endpoint e)) p))
      (\<lambda>r w. ?P w \<and> (\<forall>y. r = Inr y \<longrightarrow> v = Some y)) ?P"
    unfolding triple_def
  proof (intro allI impI)
    fix w assume w: "?P w"
    obtain r w' where g: "local_get E (NodeHost (node_of_endpoint e)) p w = (r, w')" by fastforce
    have "?P w'" using keeps_invD [OF keeps_local_get [OF st] w g] .
    moreover have "v = Some y" if "r = Inr y" for y
      using local_get_value [OF g [unfolded that]] w by simp
    ultimately show "case attempt (local_get E (NodeHost (node_of_endpoint e)) p) w of
        (Inr r, w') \<Rightarrow> ?P w' \<and> (\<forall>y. r = Inr y \<longrightarrow> v = Some y) | (Inl e, w') \<Rightarrow> ?P w'"
      by (simp add: g)
  qed
  have serve: "triple ?P (serve_blob E (node_of_endpoint e) req p) ?R ?P" if "hq_method req = ''GET''" for req
    unfolding serve_get [OF that]
  proof (rule triple_bnd [OF get triple_conj_const])
    fix r :: "err + bytes" assume "\<forall>y. r = Inr y \<longrightarrow> v = Some y"
    then show "triple ?P (case r of Inl e \<Rightarrow> if e = NotExist then http_reply 404 else http_reply 500
        | Inr body \<Rightarrow> ret \<lparr>hr_status = 200, hr_body = body\<rparr>) ?R ?P"
      by (cases r) (auto intro: triple_reply triple_ret)
  qed
  have "triple ?P (blob_node_do E ''GET'' e p []) ?R ?P"
  proof (rule triple_node_do [OF st])
    fix req :: http_request assume r: "hq_method req = ''GET''" "hq_path req = blob_node_url_path p"
    show "triple ?P (handle_blob E (node_of_endpoint e) req) ?R ?P"
      using serve [OF r(1)] True by (intro triple_handle [OF st]) (auto simp: r node_resolves)
  qed auto
  then show ?thesis
    unfolding get_one_def by (rule triple_bnd) (auto simp: triple_def True)
qed

lemma get_one_value:
  "store_path p \<Longrightarrow> good_ext E \<Longrightarrow> get_one E e p w = (Inr y, w') \<Longrightarrow> node_value E e w p = Some y"
  using tripleD_Inr [OF triple_get_one refl] by blast

section \<open>The distributed store\<close>

lemma get_first_value:
  assumes "store_path p" "good_ext E" "get_first E p le es w = (Inr y, w')"
  shows "\<exists>e \<in> set es. node_value E e w p = Some y"
  using assms(3)
proof (induction es arbitrary: le w)
  case (Cons e es)
  obtain r w1 where g: "get_one E e p w = (r, w1)" by fastforce
  show ?case
  proof (cases r)
    case (Inr b)
    then show ?thesis using Cons.prems g get_one_value [OF assms(1,2)] by (auto simp: bnd_def)
  next
    case (Inl er)
    then have "\<exists>e \<in> set es. node_value E e w1 p = Some y"
      using Cons g by (auto simp: bnd_def)
    moreover have "node_value E e' w1 p = node_value E e' w p" for e'
      using keeps_invD [OF keeps_get_one [OF seen_free_value [where P = "\<lambda>v. v = node_value E e' w p"]] refl g] .
    ultimately show ?thesis by auto
  qed
qed simp

lemma other_node:
  "node_of_endpoint e' \<noteq> node_of_endpoint e \<Longrightarrow>
   unmoved E {NodeHost (node_of_endpoint e)} p (\<lambda>w. node_value E e' w q = v)"
  by (rule unmoved_other_host) simp

lemma put_one_stores:
  assumes "good_ext E" "store_path p" "put_one E e p x w = (r, w')"
  shows "(isl r \<or> node_value E e w' p = Some x) \<and>
    (\<forall>e'. node_value E e' w' p = node_value E e' w p \<or> node_value E e' w' p = None \<or> node_value E e' w' p = Some x) \<and>
    (\<forall>e'. \<not> isl r \<longrightarrow> node_value E e' w p = Some x \<longrightarrow> node_value E e' w' p = Some x)"
proof -
  note t = triple_put_one [OF assms(1,2), of e "node_value E e w p" x]
  have own: "node_value E e w' p \<in> {node_value E e w p, None, Some x}" "\<not> isl r \<Longrightarrow> node_value E e w' p = Some x"
    using tripleD_Inl [OF t refl] tripleD_Inr [OF t refl] assms(3) by (cases r; auto)+
  have other: "node_value E e' w' p = node_value E e' w p" if "node_of_endpoint e' \<noteq> node_of_endpoint e" for e'
    using keeps_invD [OF keeps_put_one [OF other_node [OF that]] refl assms(3)] assms(1,2) by simp
  have "node_value E e' = node_value E e" if "node_of_endpoint e' = node_of_endpoint e" for e'
    using that by simp
  then show ?thesis using own other by (metis insertE empty_iff)
qed

lemma delete_one_removes:
  assumes "good_ext E" "store_path p" "delete_one E e p w = (r, w')"
  shows "(isl r \<or> node_value E e w' p = None) \<and>
    (\<forall>e'. node_value E e' w' p = node_value E e' w p \<or> node_value E e' w' p = None)"
proof -
  note t = triple_delete_one [OF assms(1,2), of e "node_value E e w p"]
  have own: "node_value E e w' p \<in> {node_value E e w p, None}" "\<not> isl r \<Longrightarrow> node_value E e w' p = None"
    using tripleD_Inl [OF t refl] tripleD_Inr [OF t refl] assms(3) by (cases r; auto)+
  have other: "node_value E e' w' p = node_value E e' w p" if "node_of_endpoint e' \<noteq> node_of_endpoint e" for e'
    using keeps_invD [OF keeps_delete_one [OF other_node [OF that]] refl assms(3)] assms(1,2) by simp
  have "node_value E e' = node_value E e" if "node_of_endpoint e' = node_of_endpoint e" for e'
    using that by simp
  then show ?thesis using own other by (metis insertE empty_iff)
qed

definition vacant :: "ext \<Rightarrow> world \<Rightarrow> string \<Rightarrow> bool" where
  "vacant E w p \<longleftrightarrow> (\<forall>e. node_value E e w p = None)"

definition no_other :: "ext \<Rightarrow> bytes \<Rightarrow> string \<Rightarrow> world \<Rightarrow> bool" where
  "no_other E x p w \<longleftrightarrow> (\<forall>e. node_value E e w p = None \<or> node_value E e w p = Some x)"

definition dist_holds :: "ext \<Rightarrow> world \<Rightarrow> string \<Rightarrow> bytes \<Rightarrow> bool" where
  "dist_holds E w p x \<longleftrightarrow>
     (\<exists>e \<in> set (dist_endpoints w). node_value E e w p = Some x) \<and> no_other E x p w"

lemma keeps_no_other_put: "good_ext E \<Longrightarrow> store_path p \<Longrightarrow> keeps_inv (no_other E x p) (put_one E e p x)"
  unfolding keeps_inv_def no_other_def using put_one_stores by (metis prod.collapse)

lemma keeps_no_other_delete: "good_ext E \<Longrightarrow> store_path p \<Longrightarrow> keeps_inv (no_other E x p) (delete_one E e p)"
  unfolding keeps_inv_def no_other_def using delete_one_removes by (metis prod.collapse)

lemma keeps_vacant_delete: "good_ext E \<Longrightarrow> store_path p \<Longrightarrow> keeps_inv (\<lambda>w. vacant E w p) (delete_one E e p)"
  unfolding keeps_inv_def vacant_def using delete_one_removes by (metis prod.collapse)

lemma keeps_put_targets:
  assumes "\<And>e. keeps_inv I (put_one E e p x)" "\<And>e. keeps_inv I (delete_one E e p)"
  shows "keeps_inv I (put_targets E p x written es)"
  by (induction es arbitrary: written) (auto intro!: keeps assms)

lemma keeps_put_to_endpoints:
  assumes "\<And>e. keeps_inv I (put_one E e p x)" "\<And>e. keeps_inv I (delete_one E e p)"
  shows "keeps_inv I (put_to_endpoints E p x es)"
  unfolding put_to_endpoints_def by (intro keeps keeps_put_targets assms)

lemma keeps_delete_all:
  assumes "\<And>e. keeps_inv I (delete_one E e p)"
  shows "keeps_inv I (delete_all E p le es)"
  by (induction es arbitrary: le) (auto intro!: keeps assms split: option.splits)

lemma keeps_dist_delete:
  assumes "\<And>e. keeps_inv I (delete_one E e p)"
  shows "keeps_inv I (dist_delete E p)"
  unfolding dist_delete_def by (intro keeps keeps_delete_all assms)

lemma keeps_get_first:
  assumes "\<And>e. keeps_inv I (get_one E e p)"
  shows "keeps_inv I (get_first E p le es)"
  by (induction es arbitrary: le) (auto intro!: keeps assms)

lemma keeps_dist_get: "seen_free I \<Longrightarrow> keeps_inv I (dist_get E p)"
  unfolding dist_get_def by (intro keeps keeps_get_first keeps_get_one)

definition any_node :: "host set" where
  "any_node = range NodeHost"

lemma keeps_put_to_endpoints_unmoved:
  "unmoved E any_node p I \<Longrightarrow> good_ext E \<Longrightarrow> store_path p \<Longrightarrow> keeps_inv I (put_to_endpoints E p x es)"
  by (intro keeps_put_to_endpoints keeps_put_one keeps_delete_one) (auto simp: any_node_def)

lemma keeps_dist_delete_unmoved:
  "unmoved E any_node p I \<Longrightarrow> good_ext E \<Longrightarrow> store_path p \<Longrightarrow> keeps_inv I (dist_delete E p)"
  by (intro keeps_dist_delete keeps_delete_one) (auto simp: any_node_def)

lemma put_targets_stores:
  assumes "good_ext E" "store_path p" "put_targets E p x written es w = (Inr u, w')"
    and "\<forall>e \<in> set written. node_value E e w p = Some x"
  shows "\<forall>e \<in> set written \<union> set es. node_value E e w' p = Some x"
  using assms(3,4)
proof (induction es arbitrary: written w)
  case (Cons e es)
  obtain r w1 where g: "put_one E e p x w = (r, w1)" by fastforce
  show ?case
  proof (cases r)
    case (Inr b)
    then have "put_targets E p x (written @ [e]) es w1 = (Inr u, w')"
      using Cons.prems g by (simp add: bnd_def)
    moreover have "\<forall>e' \<in> set (written @ [e]). node_value E e' w1 p = Some x"
      using put_one_stores [OF assms(1,2) g] Inr Cons.prems by auto
    ultimately show ?thesis using Cons.IH by auto
  next
    case (Inl er)
    then show ?thesis using Cons.prems g by (auto simp: bnd_def split: prod.splits sum.splits)
  qed
qed simp

lemma normalize_targets:
  assumes "current \<noteq> []"
  shows "normalize_target_endpoints current es \<noteq> [] \<and> set (normalize_target_endpoints current es) \<subseteq> set current"
  using assms by (auto simp: normalize_target_endpoints_def Let_def)

lemma unmoved_endpoints: "unmoved E H p (\<lambda>w. P (dist_endpoints w))"
  by (auto simp: unmoved_def stable_def env_step_fields)

lemma put_to_endpoints_stores:
  assumes "good_ext E" "store_path p" "put_to_endpoints E p x es w = (Inr u, w')"
  shows "\<forall>e \<in> set (normalize_target_endpoints (dist_endpoints w) es). node_value E e w' p = Some x"
  using put_targets_stores [OF assms(1,2), of x "[]" _ w u w'] assms(3)
  by (auto simp: put_to_endpoints_def current_endpoints_def bnd_def)

lemma put_to_endpoints_holds:
  assumes "good_ext E" "store_path p" "put_to_endpoints E p x es w = (Inr u, w')"
    and "no_other E x p w" "dist_endpoints w \<noteq> []"
  shows "dist_holds E w' p x"
proof -
  have "dist_endpoints w' = dist_endpoints w"
    using keeps_invD [OF keeps_put_to_endpoints_unmoved
      [OF unmoved_endpoints [where P = "\<lambda>d. d = dist_endpoints w"] assms(1,2)] refl assms(3)] .
  moreover have "no_other E x p w'"
  proof -
    have k: "keeps_inv (no_other E x p) (put_to_endpoints E p x es)"
      by (intro keeps_put_to_endpoints keeps_no_other_put keeps_no_other_delete assms)
    show ?thesis by (rule keeps_invD [OF k assms(4,3)])
  qed
  ultimately show ?thesis
    using put_to_endpoints_stores [OF assms(1-3)] normalize_targets [OF assms(5), of es]
    unfolding dist_holds_def by (metis hd_in_set subsetD)
qed

lemma dist_get_sound:
  assumes "good_ext E" "store_path p" "dist_holds E w p x" "dist_get E p w = (Inr y, w')"
  shows "y = x"
proof -
  have "get_first E p None (dist_endpoints w) w = (Inr y, w')"
    using assms(4) by (simp add: dist_get_def current_endpoints_def bnd_def)
  then obtain e where "node_value E e w p = Some y" using get_first_value assms(1,2) by blast
  then show ?thesis using assms(3) unfolding dist_holds_def no_other_def by (metis option.inject option.simps(3))
qed

section \<open>The interface of a blob store\<close>

text \<open>
  What the services rely on: \<open>holds\<close> says what a store keeps under a path and \<open>free\<close> that it
  keeps nothing there that a put of the blob would leave beside it. \<open>usable\<close> paths are those the services build; \<open>ready\<close> is what a store
  needs to accept a blob at all.
\<close>

locale blob_store =
  fixes put :: "string \<Rightarrow> bytes \<Rightarrow> unit prog"
    and get :: "string \<Rightarrow> bytes prog"
    and delete :: "string \<Rightarrow> unit prog"
    and holds :: "world \<Rightarrow> string \<Rightarrow> bytes \<Rightarrow> bool"
    and free :: "world \<Rightarrow> string \<Rightarrow> bytes \<Rightarrow> bool"
    and ready :: "world \<Rightarrow> bool"
    and usable :: "string \<Rightarrow> bool"
  assumes put_stores: "usable p \<Longrightarrow> ready w \<Longrightarrow> free w p x \<Longrightarrow> put p x w = (Inr u, w') \<Longrightarrow> holds w' p x"
    and put_keeps: "usable p \<Longrightarrow> usable q \<Longrightarrow> p \<noteq> q \<Longrightarrow> keeps_inv (\<lambda>w. holds w q y) (put p x)"
    and put_keeps_free: "usable p \<Longrightarrow> usable q \<Longrightarrow> p \<noteq> q \<Longrightarrow> keeps_inv (\<lambda>w. free w q y) (put p x)"
    and put_keeps_own: "usable p \<Longrightarrow> keeps_inv (\<lambda>w. free w p x) (put p x)"
    and put_keeps_ready: "usable p \<Longrightarrow> keeps_inv ready (put p x)"
    and get_sound: "usable p \<Longrightarrow> holds w p x \<Longrightarrow> get p w = (Inr y, w') \<Longrightarrow> y = x"
    and get_keeps: "keeps_inv (\<lambda>w. holds w q y) (get p)"
    and delete_keeps: "usable p \<Longrightarrow> usable q \<Longrightarrow> p \<noteq> q \<Longrightarrow> keeps_inv (\<lambda>w. holds w q y) (delete p)"
    and delete_keeps_free: "usable p \<Longrightarrow> usable q \<Longrightarrow> keeps_inv (\<lambda>w. free w q y) (delete p)"
begin

text \<open>A set of references is sound when the store holds the blob of each.\<close>

definition all_held :: "(string \<times> bytes) set \<Rightarrow> world \<Rightarrow> bool" where
  "all_held refs w \<longleftrightarrow> (\<forall>r \<in> refs. usable (fst r) \<and> holds w (fst r) (snd r))"

lemma put_keeps_all: "usable p \<Longrightarrow> p \<notin> fst ` refs \<Longrightarrow> keeps_inv (all_held refs) (put p x)"
  unfolding all_held_def by (intro keeps_ball keeps_conj_const put_keeps) auto

lemma put_extends:
  assumes "usable p" "p \<notin> fst ` refs" "ready w" "free w p x" "all_held refs w" "put p x w = (Inr u, w')"
  shows "all_held (insert (p, x) refs) w'"
proof -
  have "all_held refs w'" by (rule keeps_invD [OF put_keeps_all [OF assms(1,2)] assms(5,6)])
  then show ?thesis using put_stores [OF assms(1,3,4,6)] assms(1) by (simp add: all_held_def)
qed

lemma delete_keeps_all: "usable p \<Longrightarrow> p \<notin> fst ` refs \<Longrightarrow> keeps_inv (all_held refs) (delete p)"
  unfolding all_held_def by (intro keeps_ball keeps_conj_const delete_keeps) auto

lemma get_keeps_all: "keeps_inv (all_held refs) (get p)"
  unfolding all_held_def by (intro keeps_ball keeps_conj_const get_keeps)

lemma get_returns_ref: "all_held refs w \<Longrightarrow> (p, x) \<in> refs \<Longrightarrow> get p w = (Inr y, w') \<Longrightarrow> y = x"
  using get_sound [of p w x y w'] by (auto simp: all_held_def)

end

text \<open>A store that answers: in a calm world, what it holds is returned.\<close>

locale available_blob_store = blob_store +
  fixes calm :: "world \<Rightarrow> bool"
  assumes get_returns: "usable p \<Longrightarrow> calm w \<Longrightarrow> holds w p x \<Longrightarrow> fst (get p w) = Inr x"
begin

lemma put_then_get:
  assumes "usable p" "ready w" "free w p x" "put p x w = (Inr u, w')" "calm w'"
  shows "fst (get p w') = Inr x"
  using assms put_stores get_returns by blast

end

definition sound_path :: "ext \<Rightarrow> string \<Rightarrow> bool" where
  "sound_path E p \<longleftrightarrow> good_ext E \<and> store_path p"

lemma sound_pathD: "sound_path E p \<Longrightarrow> good_ext E" "sound_path E p \<Longrightarrow> store_path p"
  "sound_path E p \<Longrightarrow> plain_path p"
  by (auto simp: sound_path_def store_path_def)

lemma keeps_other_blob_local:
  "sound_path E p \<Longrightarrow> sound_path E q \<Longrightarrow> p \<noteq> q \<Longrightarrow> unmoved E H p (\<lambda>w. P (blob_value E h w q))"
  by (intro unmoved_other_blob) (auto dest: sound_pathD)

interpretation local_store: available_blob_store "local_put E h" "local_get E h" "local_delete E h"
  "\<lambda>w p x. blob_value E h w p = Some x" "\<lambda>_ _ _. True" "\<lambda>_. True" "sound_path E"
  "\<lambda>w. script w = []"
proof (unfold_locales, goal_cases)
  case (1 p w x u w')
  then show ?case using tripleD_Inr [OF triple_local_put refl] sound_pathD(1) by blast
next
  case (2 p q y x)
  then show ?case by (intro keeps_local_put [where H = UNIV] keeps_other_blob_local) auto
next
  case (5 p w x y w')
  then show ?case using local_get_value by fastforce
next
  case (6 q y p)
  then show ?case by (intro keeps_local_get stable_blob_value)
next
  case (7 p q y)
  then show ?case by (intro keeps_local_delete [where H = UNIV] keeps_other_blob_local) auto
next
  case (9 p w x)
  then show ?case by (simp add: local_get_calm)
qed (simp_all add: keeps_inv_def)

section \<open>Authentication of requests\<close>

lemma blob_value_env [simp]:
  "blob_value E h (w\<lparr>rnd_pos := k\<rparr>) p = blob_value E h w p"
  "blob_value E h (w\<lparr>script := s\<rparr>) p = blob_value E h w p"
  "blob_value E h (w\<lparr>clock := c\<rparr>) p = blob_value E h w p"
  by (simp_all add: blob_value_def)

definition signed_request :: "ext \<Rightarrow> string \<Rightarrow> string \<Rightarrow> string \<Rightarrow> int \<Rightarrow> string \<Rightarrow> bytes \<Rightarrow> http_request" where
  "signed_request E m path token t nonce payload =
     \<lparr>hq_method = m, hq_path = path, hq_timestamp = itoa (unix_seconds t), hq_nonce = nonce,
      hq_hash = blob_node_payload_hash E payload,
      hq_signature = sign_blob_node_request E m path (itoa (unix_seconds t)) nonce
        (blob_node_payload_hash E payload) token,
      hq_body = payload\<rparr>"

lemma headers_signed:
  "write_blob_node_auth_headers E m path token t x =
     bnd (new_blob_node_nonce E) (\<lambda>nonce. ret (signed_request E m path token t nonce x))"
  by (simp add: write_blob_node_auth_headers_def signed_request_def Let_def)

lemma payload_hash_clean:
  "good_ext E \<Longrightarrow> blob_node_payload_hash E x \<noteq> [] \<and> trim_space (blob_node_payload_hash E x) = blob_node_payload_hash E x"
proof -
  assume g: "good_ext E"
  have "trim_space ''UNSIGNED-PAYLOAD'' = ''UNSIGNED-PAYLOAD''"
    by (simp add: trim_space_def trim_right_by_def is_space_def)
  then show ?thesis using g by (simp add: blob_node_payload_hash_def good_ext_def)
qed

lemma verify_signed:
  assumes "good_ext E" "trim_space token \<noteq> []" "nonce \<noteq> []" "trim_space nonce = nonce"
    and "0 \<le> t" "t < 2 ^ 63" "0 < tolerance"
    and "unix_seconds t * 1000000000 \<le> t' + tolerance" "t' - tolerance \<le> unix_seconds t * 1000000000"
  shows "verify_blob_node_auth_request E (signed_request E m path token t nonce payload) token t' tolerance"
proof -
  have u: "0 \<le> unix_seconds t" "unix_seconds t < 2 ^ 63" using assms(5,6) by (auto simp: unix_seconds_def)
  have s: "sign_blob_node_request E m path ts nonce hash token \<noteq> [] \<and>
      trim_space (sign_blob_node_request E m path ts nonce hash token) = sign_blob_node_request E m path ts nonce hash token"
    for ts hash
    using assms(1) by (simp add: sign_blob_node_request_def good_ext_def)
  show ?thesis
    using assms u s payload_hash_clean [OF assms(1), of payload]
    by (simp add: verify_blob_node_auth_request_def signed_request_def Let_def parse_int_itoa)
qed

text \<open>
  A request signed by \<open>WriteBlobNodeAuthHeaders\<close> is accepted by a node that has the same
  token, as long as its clock differs by at most the tolerance from the whole second in which
  the request was signed.
\<close>

lemma signed_request_verifies:
  assumes "good_ext E" "trim_space token \<noteq> []" "nonce \<noteq> []" "trim_space nonce = nonce"
    and "0 \<le> t" "t < 2 ^ 63" "0 < tolerance"
    and "unix_seconds t * 1000000000 \<le> t' + tolerance" "t' - tolerance \<le> unix_seconds t * 1000000000"
  shows "verify_blob_node_auth_request E (signed_request E m path token t nonce payload) token t' tolerance"
  by (rule verify_signed [OF assms])

theorem signed_request_verifies_witness:
  "verify_blob_node_auth_request plain_ext
     (signed_request plain_ext ''PUT'' ''/blobs/a'' ''secret'' 7000000000 ''ff'' ''data'') ''secret'' 8000000000 signature_tolerance"
  by (rule signed_request_verifies [OF good_plain_ext])
     (simp_all add: unix_seconds_def signature_tolerance_def trim_space_def trim_right_by_def is_space_def)

lemma nonce_clean:
  assumes "good_ext E" "script w = []"
  shows "new_blob_node_nonce E w = (Inr (hex_encode (rnd_bytes E (rnd_pos w) 16)), w\<lparr>rnd_pos := Suc (rnd_pos w)\<rparr>)"
  using assms by (simp add: new_blob_node_nonce_def random_bytes_def bnd_def)

definition reachable :: "ext \<Rightarrow> world \<Rightarrow> string \<Rightarrow> bool" where
  "reachable E w e \<longleftrightarrow> script w = [] \<and> 0 \<le> clock w \<and> clock w < 2 ^ 63 \<and>
     (\<exists>token. fst (token_for_endpoint E e w) = Inr token \<and>
        fst (expected_token E (node_of_endpoint e) w) = Inr token \<and> trim_space token \<noteq> []) \<and>
     \<not> client_tls_missing E (node_of_endpoint e) \<and>
     (\<forall>k \<ge> rnd_pos w. hex_encode (rnd_bytes E k 16) \<notin> dom (node_seen w (node_of_endpoint e)))"

lemma guard_fresh:
  assumes "nonce \<noteq> []" "trim_space nonce = nonce" "nonce \<notin> dom seen"
  shows "fst (nonce_guard_accept seen nonce t ttl)"
  using assms by (auto simp: nonce_guard_accept_def Let_def dom_def split: option.splits)

lemma unix_seconds_near:
  "unix_seconds t * 1000000000 \<le> t + signature_tolerance" "t - signature_tolerance \<le> unix_seconds t * 1000000000"
  unfolding unix_seconds_def signature_tolerance_def by presburger+

text \<open>The world after a node has accepted the authentication of a request.\<close>

definition after_request :: "ext \<Rightarrow> world \<Rightarrow> string \<Rightarrow> world" where
  "after_request E w e = w\<lparr>rnd_pos := Suc (rnd_pos w),
     node_seen := (node_seen w)(node_of_endpoint e := snd (nonce_guard_accept (node_seen w (node_of_endpoint e))
       (hex_encode (rnd_bytes E (rnd_pos w) 16)) (clock w) signature_tolerance))\<rparr>"

lemma after_request_value [simp]: "blob_value E h (after_request E' w e) p = blob_value E h w p"
  by (simp add: after_request_def blob_value_def)

lemma node_do_reachable:
  assumes g: "good_ext E" "store_path p" and r: "reachable E w e"
  obtains req where
    "blob_node_do E m e p x w = serve_blob E (node_of_endpoint e) req p (after_request E w e)"
    "hq_method req = m" "hq_body req = x" "hq_hash req = blob_node_payload_hash E x"
proof -
  let ?node = "node_of_endpoint e" and ?nonce = "hex_encode (rnd_bytes E (rnd_pos w) 16)"
  obtain token where tok: "token_for_endpoint E e w = (Inr token, w)" "expected_token E ?node w = (Inr token, w)"
      "trim_space token \<noteq> []"
    using r by (auto simp: reachable_def token_for_endpoint_def expected_token_def)
  let ?req = "signed_request E m (blob_node_url_path p) token (clock w) ?nonce x"
  let ?w1 = "w\<lparr>rnd_pos := Suc (rnd_pos w)\<rparr>"
  have nonce: "?nonce \<noteq> []" "?nonce \<notin> dom (node_seen w ?node)"
    using r g(1) by (auto simp: reachable_def good_ext_def) (metis length_0_conv zero_neq_numeral)
  have verified: "verify_blob_node_auth_request E ?req token (clock w) signature_tolerance"
    using r g(1) tok(3) nonce
    by (intro verify_signed unix_seconds_near) (auto simp: reachable_def signature_tolerance_def)
  have fresh: "fst (nonce_guard_accept (node_seen w ?node) ?nonce (clock w) signature_tolerance)"
    using guard_fresh [OF nonce(1) _ nonce(2)] by simp
  then obtain seen where seen: "nonce_guard_accept (node_seen w ?node) ?nonce (clock w) signature_tolerance = (True, seen)"
    by (metis prod.collapse)
  have tok1: "expected_token E ?node ?w1 = (Inr token, ?w1)"
    using tok(2) by (auto simp: expected_token_def split: if_splits)
  have req: "hq_path ?req = blob_node_url_path p" "hq_nonce ?req = ?nonce" by (simp_all add: signed_request_def)
  have "blob_node_do E m e p x w = handle_blob E ?node ?req ?w1"
    using r by (simp add: blob_node_do_def bnd_def tok(1) headers_signed nonce_clean [OF g(1)] reachable_def)
  also have "\<dots> = serve_blob E ?node ?req p (after_request E w e)"
    using r by (simp add: handle_blob_def req bnd_def tok1 verified guard_request_def reachable_def
        node_resolves [OF g] after_request_def seen)
  finally show ?thesis by (rule that) (simp_all add: signed_request_def)
qed

lemma get_one_reachable:
  assumes "good_ext E" "store_path p" "reachable E w e"
  obtains r where "get_one E e p w = (r, after_request E w e)"
    "\<And>y. node_value E e w p = Some y \<Longrightarrow> r = Inr y"
proof -
  obtain req where do: "blob_node_do E ''GET'' e p [] w = serve_blob E (node_of_endpoint e) req p (after_request E w e)"
    and m: "hq_method req = ''GET''"
    using node_do_reachable [OF assms, of "''GET''" "[]"] by metis
  let ?w1 = "after_request E w e"
  have calm: "script ?w1 = []" using assms(3) by (simp add: reachable_def after_request_def)
  have "snd (local_get E (NodeHost (node_of_endpoint e)) p ?w1) = ?w1"
    using calm by (auto simp: local_get_def read_file_def bnd_def split: option.splits)
  then obtain r where g: "local_get E (NodeHost (node_of_endpoint e)) p ?w1 = (r, ?w1)" by (metis prod.collapse)
  have v: "r = Inr y" if "node_value E e w p = Some y" for y
    using local_get_calm [OF calm, of E "NodeHost (node_of_endpoint e)" p y] that g by simp
  have "snd (get_one E e p w) = ?w1"
    by (cases r) (auto simp: get_one_def bnd_def do serve_get [OF m] g http_reply_def)
  moreover have "fst (get_one E e p w) = Inr y" if "node_value E e w p = Some y" for y
    using v [OF that] by (simp add: get_one_def bnd_def do serve_get [OF m] g)
  ultimately show ?thesis using that [of "fst (get_one E e p w)"] by (metis prod.collapse)
qed

lemma local_put_calm:
  assumes "script w = []"
  shows "local_put E h p x w = (Inr (), set_file h (blob_file E h p)
    (Some (file_magic @ rnd_bytes E (rnd_pos w) nonce_size @ aead_seal E h (rnd_bytes E (rnd_pos w) nonce_size) x))
    (w\<lparr>rnd_pos := Suc (rnd_pos w)\<rparr>))"
  using assms
  by (simp add: local_put_def bnd_def create_file_def write_file_def random_bytes_def set_file_def Let_def)

lemma put_one_reachable:
  assumes "good_ext E" "store_path p" "reachable E w e"
  shows "put_one E e p x w = (Inr (), snd (local_put E (NodeHost (node_of_endpoint e)) p x (after_request E w e)))"
proof -
  obtain req where do: "blob_node_do E ''PUT'' e p x w = serve_blob E (node_of_endpoint e) req p (after_request E w e)"
    and m: "hq_method req = ''PUT''" and b: "hq_body req = x" "hq_hash req = blob_node_payload_hash E x"
    using node_do_reachable [OF assms, of "''PUT''" x] by metis
  have calm: "script (after_request E w e) = []" using assms(3) by (simp add: reachable_def after_request_def)
  have "verify_blob_node_payload E x (blob_node_payload_hash E x)"
    using payload_hash_clean [OF assms(1)] by (simp add: verify_blob_node_payload_def)
  then show ?thesis
    using calm by (simp add: put_one_def bnd_def do serve_put [OF m] b local_put_calm http_reply_def)
qed

lemma delete_one_reachable:
  assumes "good_ext E" "store_path p" "reachable E w e"
  shows "fst (delete_one E e p w) = Inr ()"
proof -
  obtain req where do: "blob_node_do E ''DELETE'' e p [] w = serve_blob E (node_of_endpoint e) req p (after_request E w e)"
    and m: "hq_method req = ''DELETE''"
    using node_do_reachable [OF assms, of "''DELETE''" "[]"] by metis
  have calm: "script (after_request E w e) = []" using assms(3) by (simp add: reachable_def after_request_def)
  have "fst (local_delete E (NodeHost (node_of_endpoint e)) p (after_request E w e)) = Inr ()"
    using calm by (auto simp: local_delete_def remove_file_def bnd_def split: option.splits)
  then show ?thesis
    by (auto simp: delete_one_def bnd_def do serve_delete [OF m] http_reply_def split: prod.splits sum.splits)
qed

lemma reachable_disks [simp]: "reachable E (set_file h f c w) e = reachable E w e"
  by (simp add: reachable_def token_for_endpoint_def expected_token_def)

definition dist_calm :: "ext \<Rightarrow> world \<Rightarrow> bool" where
  "dist_calm E w \<longleftrightarrow> distinct (map node_of_endpoint (dist_endpoints w)) \<and>
     (\<forall>e \<in> set (dist_endpoints w). reachable E w e)"

lemma reachable_other:
  "reachable E w e' \<Longrightarrow> node_of_endpoint e' \<noteq> node_of_endpoint e \<Longrightarrow> reachable E (after_request E w e) e'"
  by (auto simp: reachable_def token_for_endpoint_def expected_token_def after_request_def)

lemma get_first_reachable:
  assumes "good_ext E" "store_path p"
    and "distinct (map node_of_endpoint es)" "\<forall>e \<in> set es. reachable E w e"
    and "\<forall>e \<in> set es. node_value E e w p = None \<or> node_value E e w p = Some x"
    and "\<exists>e \<in> set es. node_value E e w p = Some x"
  shows "fst (get_first E p le es w) = Inr x"
  using assms(3-)
proof (induction es arbitrary: w le)
  case (Cons e es)
  obtain r where g: "get_one E e p w = (r, after_request E w e)"
    and v: "\<And>y. node_value E e w p = Some y \<Longrightarrow> r = Inr y"
    using get_one_reachable [OF assms(1,2), of w e] Cons.prems by auto
  show ?case
  proof (cases r)
    case (Inr y)
    then have "node_value E e w p = Some y" using get_one_value assms(1,2) g by blast
    then have "y = x" using Cons.prems by auto
    then show ?thesis using g Inr by (simp add: bnd_def)
  next
    case (Inl er)
    then have "node_value E e w p \<noteq> Some x" using v by auto
    then have "fst (get_first E p (Some er) es (after_request E w e)) = Inr x"
      using Cons.prems by (intro Cons.IH) (auto simp: image_iff intro!: reachable_other)
    then show ?thesis using g Inl by (simp add: bnd_def)
  qed
qed simp

lemma dist_get_returns:
  assumes "good_ext E" "store_path p" "dist_calm E w" "dist_holds E w p x"
  shows "fst (dist_get E p w) = Inr x"
  using get_first_reachable [OF assms(1,2), of "dist_endpoints w" w x None] assms(3,4)
  by (auto simp: dist_get_def current_endpoints_def bnd_def dist_calm_def dist_holds_def no_other_def)
lemma unmoved_no_other: "sound_path E p \<Longrightarrow> sound_path E q \<Longrightarrow> p \<noteq> q \<Longrightarrow> unmoved E H p (no_other E x q)"
  using keeps_other_blob_local [where P = "\<lambda>v. v = None \<or> v = Some x"]
  unfolding unmoved_def no_other_def stable_def by blast

lemma unmoved_vacant: "sound_path E p \<Longrightarrow> sound_path E q \<Longrightarrow> p \<noteq> q \<Longrightarrow> unmoved E H p (\<lambda>w. vacant E w q)"
  using keeps_other_blob_local [where P = "\<lambda>v. v = None"]
  unfolding unmoved_def vacant_def stable_def by blast

lemma unmoved_dist_holds:
  assumes "sound_path E p" "sound_path E q" "p \<noteq> q"
  shows "unmoved E H p (\<lambda>w. dist_holds E w q y)"
proof -
  have set: "blob_value E h (set_file h' (blob_file E h' p) c w) q = blob_value E h w q" for h h' c w
    using blob_file_inj [OF sound_pathD(1) [OF assms(1)] sound_pathD(3) [OF assms(1)] sound_pathD(3) [OF assms(2)], of h'] assms
    by (auto simp: blob_value_def)
  have env: "env_step w w' \<Longrightarrow> blob_value E h w' q = blob_value E h w q" for w w' h
    by (simp add: blob_value_def env_step_fields)
  have "unmoved E H p (\<lambda>w. \<exists>e \<in> set (dist_endpoints w). node_value E e w q = Some y)"
    unfolding unmoved_def stable_def by (auto simp: set env env_step_fields)
  then show ?thesis
    unfolding dist_holds_def by (intro unmoved_conj unmoved_no_other assms)
qed

lemma seen_free_dist_holds: "seen_free (\<lambda>w. dist_holds E w q y)"
  unfolding seen_free_def stable_def dist_holds_def no_other_def env_step_fields blob_value_def by simp

interpretation dist_store: available_blob_store "\<lambda>p x. put_to_endpoints E p x targets" "dist_get E" "dist_delete E"
  "dist_holds E" "\<lambda>w p x. no_other E x p w" "\<lambda>w. dist_endpoints w \<noteq> []" "sound_path E" "dist_calm E"
proof (unfold_locales, goal_cases)
  case (1 p w x u w')
  then show ?case using put_to_endpoints_holds sound_pathD by blast
next
  case (2 p q y x)
  then show ?case by (intro keeps_put_to_endpoints_unmoved unmoved_dist_holds) (auto dest: sound_pathD)
next
  case (3 p q y x)
  then show ?case by (intro keeps_put_to_endpoints_unmoved unmoved_no_other) (auto dest: sound_pathD)
next
  case (4 p x)
  then show ?case
    by (intro keeps_put_to_endpoints keeps_no_other_put keeps_no_other_delete) (auto dest: sound_pathD)
next
  case (5 p x)
  then show ?case by (intro keeps_put_to_endpoints_unmoved unmoved_endpoints) (auto dest: sound_pathD)
next
  case (6 p w x y w')
  then show ?case using dist_get_sound sound_pathD by blast
next
  case (7 q y p)
  then show ?case by (intro keeps_dist_get seen_free_dist_holds)
next
  case (8 p q y)
  then show ?case by (intro keeps_dist_delete_unmoved unmoved_dist_holds) (auto dest: sound_pathD)
next
  case (9 p q y)
  show ?case
  proof (cases "p = q")
    case True
    then show ?thesis using 9 by (auto intro!: keeps_dist_delete keeps_no_other_delete dest: sound_pathD)
  next
    case False
    then show ?thesis using 9 by (intro keeps_dist_delete_unmoved unmoved_no_other) (auto dest: sound_pathD)
  qed
next
  case (10 p w x)
  then show ?case using dist_get_returns sound_pathD by blast
qed

section \<open>Properties of the stores\<close>

text \<open>
  C37: on every host a put refines the update of a map: whatever fails on the way, the blob is
  afterwards as before, unreadable or the new one, never anything else; a put that reports
  success has stored the new one; no other blob changes.
\<close>

theorem local_put_refines_update:
  assumes "good_ext E" "plain_path p" "local_put E h p x w = (r, w')"
  shows "blob_value E h w' p \<in> {blob_value E h w p, None, Some x} \<and>
    (r = Inr () \<longrightarrow> blob_value E h w' p = Some x) \<and>
    (\<forall>q. plain_path q \<and> q \<noteq> p \<longrightarrow> blob_value E h w' q = blob_value E h w q)"
proof (intro conjI)
  note t = triple_local_put [OF assms(1), of h p "blob_value E h w p" x]
  show "blob_value E h w' p \<in> {blob_value E h w p, None, Some x}"
    using tripleD_Inl [OF t refl] tripleD_Inr [OF t refl] assms(3) by (cases r) auto
  show "r = Inr () \<longrightarrow> blob_value E h w' p = Some x"
    using tripleD_Inr [OF t refl] assms(3) by auto
  show "\<forall>q. plain_path q \<and> q \<noteq> p \<longrightarrow> blob_value E h w' q = blob_value E h w q"
  proof (intro allI impI)
    fix q assume q: "plain_path q \<and> q \<noteq> p"
    then have "unmoved E UNIV p (\<lambda>v. blob_value E h v q = blob_value E h w q)"
      using assms by (intro unmoved_other_blob [where P = "\<lambda>b. b = blob_value E h w q"]) auto
    then show "blob_value E h w' q = blob_value E h w q"
      by (rule keeps_invD [OF keeps_local_put _ assms(3)]) auto
  qed
qed

lemma example_plain: "plain_path ''a/b''"
  by (simp add: plain_path_def plain_elem_def slash_def)

theorem local_put_refines_update_witness:
  "\<exists>r w'. local_put plain_ext ApiHost ''a/b'' ''data'' (calm_world empty_db\<lparr>script := [(Done, 1), (Done, 1), (Done, 1), (Lost, 1)]\<rparr>) = (r, w') \<and>
     blob_value plain_ext ApiHost w' ''a/b'' \<in> {None, Some ''data''}"
proof -
  let ?w = "calm_world empty_db\<lparr>script := [(Done, 1), (Done, 1), (Done, 1), (Lost, 1)]\<rparr>"
  obtain r w' where r: "local_put plain_ext ApiHost ''a/b'' ''data'' ?w = (r, w')" by fastforce
  have "blob_value plain_ext ApiHost ?w ''a/b'' = None" by (simp add: blob_value_def)
  then show ?thesis using local_put_refines_update [OF good_plain_ext example_plain r] r by auto
qed

text \<open>
  C36: a blob that the distributed store accepted is returned to a reader afterwards, through
  the signed requests, the replay guards and the encrypted files of the nodes, provided some
  endpoint was configured, no node had anything else under the path and the nodes can be reached.
\<close>

theorem distributed_put_get:
  assumes "good_ext E" "store_path p" "dist_endpoints w \<noteq> []" "no_other E x p w"
    and "put_to_endpoints E p x targets w = (Inr u, w')" "dist_calm E w'"
  shows "fst (dist_get E p w') = Inr x"
  by (rule dist_store.put_then_get [where targets = targets])
     (use assms in \<open>auto simp: sound_path_def\<close>)

definition example_cluster :: world where
  "example_cluster = (calm_world empty_db)\<lparr>dist_endpoints := [''http://n'']\<rparr>"

lemma example_store_path: "store_path ''a/b''"
  by (simp add: store_path_def example_plain slash_def)

lemma example_node: "node_of_endpoint ''http://n'' = ''http://n''" "trim_endpoint ''http://n'' = ''http://n''"
  by (simp_all add: node_of_endpoint_def trim_endpoint_def trim_space_def trim_right_by_def is_space_def slash_def)

lemma example_token: "trim_space ''secret'' \<noteq> []"
  by (simp add: trim_space_def trim_right_by_def is_space_def)

lemma example_reachable: "reachable plain_ext example_cluster ''http://n''"
  by (auto simp: reachable_def example_cluster_def token_for_endpoint_def expected_token_def
      calm_world_def plain_ext_def example_token)

lemma example_after:
  "node_seen (after_request plain_ext example_cluster ''http://n'') ''http://n''
     = [hex_encode (replicate 16 (CHR ''r'')) \<mapsto> signature_tolerance]"
  by (simp add: after_request_def example_node example_cluster_def nonce_guard_accept_def Let_def plain_ext_def)

lemma example_put:
  obtains w' where "put_to_endpoints plain_ext ''a/b'' ''data'' [] example_cluster = (Inr (), w')" "dist_calm plain_ext w'"
proof -
  let ?w1 = "after_request plain_ext example_cluster ''http://n''"
  let ?w' = "snd (local_put plain_ext (NodeHost ''http://n'') ''a/b'' ''data'' ?w1)"
  have calm: "script ?w1 = []" by (simp add: after_request_def example_cluster_def)
  have put: "put_to_endpoints plain_ext ''a/b'' ''data'' [] example_cluster = (Inr (), ?w')"
    using put_one_reachable [OF good_plain_ext example_store_path example_reachable, of "''data''"]
    by (simp add: put_to_endpoints_def current_endpoints_def bnd_def normalize_target_endpoints_def
        example_cluster_def example_node)
  have "hex_encode (replicate 16 (CHR ''s'')) \<noteq> hex_encode (replicate 16 (CHR ''r''))"
    using hex_encode_inj [of "replicate 16 (CHR ''s'')" "replicate 16 (CHR ''r'')"] by auto
  then have "reachable plain_ext ?w' ''http://n''"
    using example_after
    by (simp add: local_put_calm [OF calm] reachable_def example_node token_for_endpoint_def expected_token_def)
       (simp add: after_request_def example_cluster_def plain_ext_def example_token example_node)
  moreover have "dist_endpoints ?w' = [''http://n'']"
    by (simp add: local_put_calm [OF calm]) (simp add: after_request_def example_cluster_def)
  ultimately have "dist_calm plain_ext ?w'" by (simp add: dist_calm_def)
  then show ?thesis using that put by blast
qed

theorem distributed_put_get_witness:
  "\<exists>w'. put_to_endpoints plain_ext ''a/b'' ''data'' [] example_cluster = (Inr (), w') \<and>
     fst (dist_get plain_ext ''a/b'' w') = Inr ''data''"
proof -
  obtain w' where w': "put_to_endpoints plain_ext ''a/b'' ''data'' [] example_cluster = (Inr (), w')"
    "dist_calm plain_ext w'"
    by (rule example_put)
  have "dist_endpoints example_cluster \<noteq> []" "no_other plain_ext ''data'' ''a/b'' example_cluster"
    by (simp_all add: example_cluster_def no_other_def blob_value_def)
  then show ?thesis
    using distributed_put_get [OF good_plain_ext example_store_path _ _ w'] w'(1) by blast
qed

text \<open>
  With no endpoint configured, a put on the distributed store reports success and stores
  nothing, whatever targets it was given.
\<close>

lemma put_without_endpoints:
  assumes "dist_endpoints w = []"
  shows "put_to_endpoints E p x targets w = (Inr (), w)"
proof -
  have "normalize_target_endpoints [] targets = []"
    by (simp add: normalize_target_endpoints_def Let_def filter_empty_conv)
  then show ?thesis
    using assms by (simp add: put_to_endpoints_def current_endpoints_def bnd_def)
qed

theorem put_without_endpoints_witness:
  "put_to_endpoints plain_ext ''a/b'' ''data'' [''http://node''] (calm_world empty_db) = (Inr (), calm_world empty_db)"
  by (rule put_without_endpoints) simp

lemma delete_all_removes:
  assumes "good_ext E" "store_path p" "delete_all E p le es w = (Inr u, w')"
  shows "le = None \<and> (\<forall>e \<in> set es. node_value E e w' p = None)"
  using assms(3)
proof (induction es arbitrary: le w)
  case Nil
  then show ?case by (auto split: option.splits)
next
  case (Cons e es)
  obtain r w1 where g: "delete_one E e p w = (r, w1)" by fastforce
  show ?case
  proof (cases r)
    case (Inl er)
    then have "delete_all E p (Some er) es w1 = (Inr u, w')" using Cons.prems g by (simp add: bnd_def)
    then show ?thesis using Cons.IH by blast
  next
    case (Inr b)
    then have d: "delete_all E p le es w1 = (Inr u, w')" using Cons.prems g by (simp add: bnd_def)
    have "node_value E e w1 p = None" using delete_one_removes [OF assms(1,2) g] Inr by simp
    moreover have "keeps_inv (\<lambda>v. node_value E e v p = None) (delete_one E e' p)" for e'
      unfolding keeps_inv_def using delete_one_removes [OF assms(1,2)] by (metis prod.collapse)
    ultimately have "node_value E e w' p = None"
      using keeps_invD [OF keeps_delete_all [where I = "\<lambda>v. node_value E e v p = None"] _ d] by blast
    then show ?thesis using Cons.IH [OF d] by simp
  qed
qed

text \<open>
  A delete that reports success has removed the blob from every endpoint in use; one
  failing endpoint makes the whole delete report the failure.
\<close>

lemma distributed_delete_removes:
  assumes "good_ext E" "store_path p" "dist_delete E p w = (Inr u, w')"
  shows "\<forall>e \<in> set (dist_endpoints w). node_value E e w' p = None"
  using delete_all_removes [OF assms(1,2)] assms(3)
  by (auto simp: dist_delete_def current_endpoints_def bnd_def)

theorem distributed_delete_removes_witness:
  "\<exists>w'. dist_delete plain_ext ''a/b'' (set_file (NodeHost ''http://n'') ''/data/a/b'' (Some ''x'') example_cluster) = (Inr (), w') \<and>
     node_value plain_ext ''http://n'' w' ''a/b'' = None"
proof -
  let ?w = "set_file (NodeHost ''http://n'') ''/data/a/b'' (Some ''x'') example_cluster"
  have es: "dist_endpoints example_cluster = [''http://n'']" by (simp add: example_cluster_def)
  have "fst (delete_one plain_ext ''http://n'' ''a/b'' ?w) = Inr ()"
    using example_reachable by (intro delete_one_reachable good_plain_ext example_store_path) simp
  then have "fst (dist_delete plain_ext ''a/b'' ?w) = Inr ()"
    by (auto simp: dist_delete_def current_endpoints_def bnd_def es split: prod.splits sum.splits)
  then obtain w' where w': "dist_delete plain_ext ''a/b'' ?w = (Inr (), w')" by (metis prod.collapse)
  then show ?thesis using distributed_delete_removes [OF good_plain_ext example_store_path w'] es by auto
qed

section \<open>Properties of the authentication\<close>

lemma signed_string: "m @ newline @ p @ newline @ ts @ newline @ n @ newline @ h = join_with newline [m, p, ts, n, h]"
  by simp

definition line :: "string \<Rightarrow> bool" where
  "line s \<longleftrightarrow> CHR 0x0A \<notin> set s"

text \<open>
  The text that a request is signed by: the five fields the signature covers, one on each line.
\<close>

definition signed_text :: "http_request \<Rightarrow> string" where
  "signed_text r = join_with newline [to_upper (hq_method r), hq_path r, trim_space (hq_timestamp r),
     trim_space (hq_nonce r), trim_space (hq_hash r)]"

text \<open>
  C38: a signature binds the request: when two requests verify under one token with the same
  signature, they have the same method, path, timestamp, nonce and payload hash, or the texts they
  are signed by are two different texts with the same HMAC under that token. Nothing is assumed of
  the HMAC; the fields are single lines, as in HTTP they are.
\<close>

theorem signature_binds_request:
  assumes "verify_blob_node_auth_request E r1 token t1 tol1" "verify_blob_node_auth_request E r2 token t2 tol2"
    and "trim_space (hq_signature r1) = trim_space (hq_signature r2)"
    and "\<forall>r \<in> {r1, r2}. line (to_upper (hq_method r)) \<and> line (hq_path r) \<and> line (trim_space (hq_timestamp r)) \<and>
      line (trim_space (hq_nonce r)) \<and> line (trim_space (hq_hash r))"
  shows "(to_upper (hq_method r1) = to_upper (hq_method r2) \<and> hq_path r1 = hq_path r2 \<and>
      trim_space (hq_timestamp r1) = trim_space (hq_timestamp r2) \<and>
      trim_space (hq_nonce r1) = trim_space (hq_nonce r2) \<and> trim_space (hq_hash r1) = trim_space (hq_hash r2)) \<or>
    (signed_text r1 \<noteq> signed_text r2 \<and> hmac_sha256 E token (signed_text r1) = hmac_sha256 E token (signed_text r2))"
proof -
  let ?fs = "\<lambda>r. [to_upper (hq_method r), hq_path r, trim_space (hq_timestamp r), trim_space (hq_nonce r), trim_space (hq_hash r)]"
  have s: "trim_space (hq_signature r) = hex_encode (hmac_sha256 E token (signed_text r))"
    if "verify_blob_node_auth_request E r token t tol" for r t tol
    using that by (auto simp: verify_blob_node_auth_request_def Let_def sign_blob_node_request_def signed_text_def
        split: if_splits option.splits)
  have mac: "hmac_sha256 E token (signed_text r1) = hmac_sha256 E token (signed_text r2)"
    using s [OF assms(1)] s [OF assms(2)] assms(3) hex_encode_inj by metis
  have "?fs r1 = ?fs r2" if "signed_text r1 = signed_text r2"
    using that assms(4) unfolding signed_text_def newline_def by (intro join_with_inj [of "CHR 0x0A"]) (auto simp: line_def)
  then show ?thesis using mac by auto
qed

lemma line_numbers: "0 \<le> i \<Longrightarrow> line (itoa i)" "line (hex_encode b)"
  by (auto simp: line_def itoa_def dest!: itoa_nat_chars hex_chars)

text \<open>The signature of a \<open>PUT\<close> does not let a \<open>DELETE\<close> of the same path through.\<close>

theorem signature_binds_request_witness:
  "let r = signed_request plain_ext ''PUT'' ''/blobs/a'' ''secret'' 7000000000 ''ff'' ''data'' in
     verify_blob_node_auth_request plain_ext r ''secret'' 8000000000 signature_tolerance \<and>
     \<not> verify_blob_node_auth_request plain_ext (r\<lparr>hq_method := ''DELETE''\<rparr>) ''secret'' 8000000000 signature_tolerance"
proof -
  let ?r = "signed_request plain_ext ''PUT'' ''/blobs/a'' ''secret'' 7000000000 ''ff'' ''data''"
  let ?q = "?r\<lparr>hq_method := ''DELETE''\<rparr>"
  have v: "verify_blob_node_auth_request plain_ext ?r ''secret'' 8000000000 signature_tolerance"
    by (rule verify_signed [OF good_plain_ext])
       (simp_all add: unix_seconds_def signature_tolerance_def trim_space_def trim_right_by_def is_space_def)
  have lines: "line (hq_path ?r) \<and> line (trim_space (hq_timestamp ?r)) \<and> line (trim_space (hq_nonce ?r)) \<and> line (trim_space (hq_hash ?r))"
    using line_numbers(1) [of 7] line_numbers(2) by (simp add: signed_request_def unix_seconds_def blob_node_payload_hash_def
        trim_space_def [of "''ff''"] trim_right_by_def is_space_def) (simp add: line_def)
  have m: "to_upper (hq_method ?r) = ''PUT''" "to_upper (hq_method ?q) = ''DELETE''"
    by (simp_all add: signed_request_def to_upper_def upper_char_def)
  have "\<not> verify_blob_node_auth_request plain_ext ?q ''secret'' 8000000000 signature_tolerance"
  proof
    assume q: "verify_blob_node_auth_request plain_ext ?q ''secret'' 8000000000 signature_tolerance"
    have "\<forall>r \<in> {?r, ?q}. line (to_upper (hq_method r)) \<and> line (hq_path r) \<and> line (trim_space (hq_timestamp r)) \<and>
      line (trim_space (hq_nonce r)) \<and> line (trim_space (hq_hash r))"
      using lines m by (simp add: line_def)
    from signature_binds_request [OF v q _ this] show False using m by (simp add: plain_ext_def)
  qed
  then show ?thesis using v by (simp add: Let_def)
qed

fun guard_trace :: "(string \<rightharpoonup> int) \<Rightarrow> (string \<times> int) list \<Rightarrow> bool list" where
  "guard_trace seen [] = []"
| "guard_trace seen ((nonce, t) # es) =
     (case nonce_guard_accept seen nonce t signature_tolerance of
        (ok, seen') \<Rightarrow> ok # guard_trace seen' es)"

lemma guard_accepted:
  "nonce_guard_accept seen nonce t signature_tolerance = (True, seen') \<Longrightarrow>
   seen' (trim_space nonce) = Some (t + signature_tolerance)"
  by (auto simp: nonce_guard_accept_def Let_def signature_tolerance_def split: option.splits if_splits)

lemma guard_blocks:
  assumes "seen n = Some expiry" "t < expiry" "nonce_guard_accept seen nonce t signature_tolerance = (ok, seen')"
  shows "seen' n = Some expiry \<and> (trim_space nonce = n \<longrightarrow> \<not> ok)"
  using assms by (auto simp: nonce_guard_accept_def Let_def split: option.splits if_splits)

lemma guard_trace_blocks:
  assumes "seen n = Some expiry" "sorted (map snd es)" "j < length es" "trim_space (fst (es ! j)) = n"
    "guard_trace seen es ! j"
  shows "expiry \<le> snd (es ! j)"
  using assms
proof (induction es arbitrary: seen j)
  case (Cons e es)
  obtain nonce t where e: "e = (nonce, t)" by fastforce
  obtain ok seen' where g: "nonce_guard_accept seen nonce t signature_tolerance = (ok, seen')" by fastforce
  show ?case
  proof (cases "t < expiry")
    case True
    note b = guard_blocks [OF Cons.prems(1) True g]
    show ?thesis
    proof (cases j)
      case 0
      then show ?thesis using Cons.prems b e g by simp
    next
      case (Suc i)
      then show ?thesis using Cons.IH [of seen' i] Cons.prems b e g by simp
    qed
  next
    case False
    have "t \<le> snd ((e # es) ! j)" using Cons.prems(2,3) e by (cases j) (auto dest: nth_mem)
    then show ?thesis using False by simp
  qed
qed simp

text \<open>
  Within the lifetime of its entry a nonce is accepted once: in any sequence of requests in
  the order of time, two accepted requests with one nonce are at least the tolerance apart.
\<close>

lemma nonce_accepted_once:
  assumes "sorted (map snd es)" "i < j" "j < length es" "trim_space (fst (es ! i)) = trim_space (fst (es ! j))"
    and "guard_trace seen es ! i" "guard_trace seen es ! j"
  shows "snd (es ! i) + signature_tolerance \<le> snd (es ! j)"
  using assms
proof (induction es arbitrary: seen i j)
  case (Cons e es)
  obtain nonce t where e: "e = (nonce, t)" by fastforce
  obtain ok seen' where g: "nonce_guard_accept seen nonce t signature_tolerance = (ok, seen')" by fastforce
  obtain k where j: "j = Suc k" using Cons.prems by (cases j) auto
  show ?case
  proof (cases i)
    case 0
    then have "ok" "trim_space nonce = trim_space (fst (es ! k))" using Cons.prems e g j by auto
    then have "seen' (trim_space (fst (es ! k))) = Some (t + signature_tolerance)"
      using guard_accepted [of seen nonce t seen'] g by simp
    then show ?thesis
      using guard_trace_blocks [of seen' _ _ es k] Cons.prems e g j 0 by simp
  next
    case (Suc i')
    then show ?thesis using Cons.IH [of i' k seen'] Cons.prems e g j by simp
  qed
qed simp

theorem nonce_accepted_once_witness:
  "guard_trace Map.empty [(''n'', 0), (''n'', 300000000000)] = [True, True] \<and>
     0 + signature_tolerance \<le> 300000000000"
proof -
  have g: "guard_trace Map.empty [(''n'', 0), (''n'', 300000000000)] = [True, True]"
    by (simp add: nonce_guard_accept_def Let_def signature_tolerance_def trim_space_def trim_right_by_def is_space_def)
  show ?thesis
    using nonce_accepted_once [of "[(''n'', 0), (''n'', 300000000000)]" 0 1 Map.empty] g by simp
qed

text \<open>
  C39: the entry of a nonce does not outlive the request: a request signed by a clock that is
  ahead by the tolerance verifies for twice the tolerance, its nonce is forgotten after one, and
  the same request is then accepted a second time.
\<close>

theorem replay_after_expiry:
  fixes m path payload
  assumes "good_ext E" "trim_space token \<noteq> []" "nonce \<noteq> []" "trim_space nonce = nonce" "seen nonce = None"
    and "0 \<le> s" "s * 1000000000 + signature_tolerance < 2 ^ 63"
    and t: "t = s * 1000000000"
    and req: "req = signed_request E m path token (t + signature_tolerance) nonce payload"
  shows "verify_blob_node_auth_request E req token t signature_tolerance \<and>
    verify_blob_node_auth_request E req token (t + signature_tolerance) signature_tolerance \<and>
    guard_trace seen [(hq_nonce req, t), (hq_nonce req, t + signature_tolerance)] = [True, True]"
proof (intro conjI)
  have u: "unix_seconds (t + signature_tolerance) * 1000000000 = t + signature_tolerance"
    by (simp add: unix_seconds_def t signature_tolerance_def)
  have tol: "0 < signature_tolerance" by (simp add: signature_tolerance_def)
  have t0: "0 \<le> t + signature_tolerance" "t + signature_tolerance < 2 ^ 63" using assms(6,7) tol t by auto
  show "verify_blob_node_auth_request E req token t signature_tolerance"
    unfolding req using tol u by (intro verify_signed [OF assms(1-4) t0]) auto
  show "verify_blob_node_auth_request E req token (t + signature_tolerance) signature_tolerance"
    unfolding req using tol u by (intro verify_signed [OF assms(1-4) t0]) auto
  have "hq_nonce req = nonce" by (simp add: req signed_request_def)
  then show "guard_trace seen [(hq_nonce req, t), (hq_nonce req, t + signature_tolerance)] = [True, True]"
    using assms(3-5) tol by (auto simp: nonce_guard_accept_def Let_def)
qed

theorem replay_after_expiry_witness:
  "let req = signed_request plain_ext ''PUT'' ''/blobs/a'' ''secret'' (7000000000 + signature_tolerance) ''ff'' ''data'' in
     guard_trace Map.empty [(hq_nonce req, 7000000000), (hq_nonce req, 7000000000 + signature_tolerance)] = [True, True]"
proof -
  have "trim_space ''secret'' \<noteq> []" "trim_space ''ff'' = ''ff''"
    by (simp_all add: trim_space_def trim_right_by_def is_space_def)
  then show ?thesis
    unfolding Let_def
    by (intro replay_after_expiry [OF good_plain_ext, where nonce = "''ff''" and s = 7, THEN conjunct2, THEN conjunct2])
       (simp_all add: signature_tolerance_def)
qed

end
