(* ===== verification/Buckets.thy ===== *)
theory Buckets
  imports World
begin

text \<open>
  Buckets and durability: \<open>backend/internal/buckets/service.go\<close>, the storage classes of
  \<open>backend/internal/config/config.go\<close> and the storage policy of
  \<open>backend/internal/settings/service.go\<close>. \<open>service_config\<close> holds the values the services are
  constructed with. Deleting a bucket cascades over the foreign keys of the schema.
\<close>

section \<open>Storage classes\<close>

record service_config =
  cf_tenant :: string
  cf_backend :: string                       \<comment> \<open>\<open>StorageBackend\<close>\<close>
  cf_placement_endpoints :: "string list"
  cf_placement_replicas :: int
  cf_default_class :: string                 \<comment> \<open>normalised\<close>
  cf_policy_class :: string                  \<comment> \<open>\<open>StorageDefaultClass\<close> of the settings service\<close>
  cf_policy_replicas :: int                  \<comment> \<open>\<open>StorageDistributedReplicas\<close>\<close>
  cf_endpoint_count :: int                   \<comment> \<open>\<open>len(StorageDistributedEndpoints)\<close>\<close>
  cf_settings :: bool                        \<comment> \<open>a settings service is present\<close>
  cf_quotas :: bool                          \<comment> \<open>a quota service is present\<close>
  cf_distributed :: bool                     \<comment> \<open>a distributed store is present\<close>
  cf_scan_mode :: string                     \<comment> \<open>\<open>MalwareScanMode\<close>\<close>

record class_policy =
  cp_name :: string
  cp_label :: string
  cp_description :: string
  cp_replicas :: int

record storage_policy =
  spv_default :: string
  spv_policies :: "class_policy list"

definition normalize_storage_class :: "string \<Rightarrow> string" where
  "normalize_storage_class value = to_lower (trim_space value)"

definition supported_storage_classes :: "string list" where
  "supported_storage_classes = [''standard'', ''reduced-redundancy'', ''archive-ready'']"

definition is_valid_storage_class :: "string \<Rightarrow> bool" where
  "is_valid_storage_class value =
     list_ex (\<lambda>item. item = normalize_storage_class value) supported_storage_classes"

definition effective_replica_target :: "string \<Rightarrow> int \<Rightarrow> int" where
  "effective_replica_target class_name target0 =
     (let target = (if target0 \<le> 0 then 1 else target0); c = normalize_storage_class class_name in
      if c = ''reduced-redundancy'' then (if target > 1 then target - 1 else 1)
      else if c = ''archive-ready'' then 1
      else target)"

section \<open>The cluster's storage policy\<close>

definition ensure_storage_policy :: "service_config \<Rightarrow> unit prog" where
  "ensure_storage_policy C =
     (let standard = effective_replica_target ''standard'' (cf_policy_replicas C);
          reduced = effective_replica_target ''reduced-redundancy'' (cf_policy_replicas C);
          archive = effective_replica_target ''archive-ready'' (cf_policy_replicas C) in
      exec (\<lambda>_ d. Inr ((), case t_storage_policy d of
          Some _ \<Rightarrow> d
        | None \<Rightarrow> d\<lparr>t_storage_policy := Some \<lparr>sp_default = cf_policy_class C, sp_standard = standard,
                     sp_reduced = reduced, sp_archive = archive\<rparr>\<rparr>)))"

definition policy_of_row :: "storage_policy_row \<Rightarrow> storage_policy" where
  "policy_of_row r = \<lparr>spv_default = sp_default r, spv_policies =
     [\<lparr>cp_name = ''standard'', cp_label = ''Standard'',
       cp_description = ''Balanced default durability class.'', cp_replicas = sp_standard r\<rparr>,
      \<lparr>cp_name = ''reduced-redundancy'', cp_label = ''Reduced Redundancy'',
       cp_description = ''Lower replica count for less critical data.'', cp_replicas = sp_reduced r\<rparr>,
      \<lparr>cp_name = ''archive-ready'', cp_label = ''Archive Ready'',
       cp_description = ''Single replica staging class for archive-oriented or reproducible data.'',
       cp_replicas = sp_archive r\<rparr>]\<rparr>"

definition resolve_storage_policy :: "service_config \<Rightarrow> storage_policy prog" where
  "resolve_storage_policy C =
     bnd (ensure_storage_policy C) (\<lambda>_.
     query (\<lambda>d. case t_storage_policy d of None \<Rightarrow> Inl PgNoRows | Some r \<Rightarrow> Inr (policy_of_row r)))"

definition validate_replica_setting :: "service_config \<Rightarrow> int \<Rightarrow> unit prog" where
  "validate_replica_setting C value =
     (if value \<le> 0 then fail (Failure ''must be greater than zero'')
      else if cf_backend C = ''distributed'' then
        bnd (attempt (query (\<lambda>d. Inr (int (length (t_nodes d)))))) (\<lambda>r.
          let configured = (case r of Inr n \<Rightarrow> if n > cf_endpoint_count C then n else cf_endpoint_count C
                              | Inl _ \<Rightarrow> cf_endpoint_count C) in
          guard (\<not> (configured > 0 \<and> value > configured)) (Failure ''cannot exceed registered storage endpoints''))
      else ret ())"

definition update_storage_policy :: "service_config \<Rightarrow> string \<Rightarrow> (string \<Rightarrow> int) \<Rightarrow> storage_policy prog" where
  "update_storage_policy C default_class0 replicas =
     bnd (ensure_storage_policy C) (\<lambda>_.
     let default_class = normalize_storage_class default_class0 in
     bnd (guard (is_valid_storage_class default_class) (Failure ''default storage class'')) (\<lambda>_.
     bnd (validate_replica_setting C (replicas ''standard'')) (\<lambda>_.
     bnd (validate_replica_setting C (replicas ''reduced-redundancy'')) (\<lambda>_.
     bnd (validate_replica_setting C (replicas ''archive-ready'')) (\<lambda>_.
     bnd (exec (\<lambda>_ d. Inr ((), d\<lparr>t_storage_policy := map_option (\<lambda>_.
            \<lparr>sp_default = default_class, sp_standard = replicas ''standard'',
             sp_reduced = replicas ''reduced-redundancy'', sp_archive = replicas ''archive-ready''\<rparr>)
            (t_storage_policy d)\<rparr>))) (\<lambda>_.
       resolve_storage_policy C))))))"

text \<open>The loop \<open>for _, item := range policy.Policies\<close>: the first positive count for the class.\<close>

definition class_replicas :: "storage_policy \<Rightarrow> string \<Rightarrow> int option" where
  "class_replicas p class_name =
     map_option cp_replicas (find (\<lambda>item. cp_name item = class_name \<and> cp_replicas item > 0) (spv_policies p))"

section \<open>Buckets\<close>

record bucket =
  bk_id :: string
  bk_name :: string
  bk_tenant :: string
  bk_class :: string
  bk_replica_target :: int
  bk_effective_class :: string
  bk_effective_replicas :: int
  bk_created :: int

definition bucket_of_row :: "bucket_row \<Rightarrow> bucket" where
  "bucket_of_row b = \<lparr>bk_id = b_id b, bk_name = b_name b, bk_tenant = b_tenant b, bk_class = b_class b,
     bk_replica_target = (case b_replicas b of None \<Rightarrow> 0 | Some n \<Rightarrow> n),
     bk_effective_class = [], bk_effective_replicas = 0, bk_created = b_created b\<rparr>"

definition policy_or_none :: "service_config \<Rightarrow> storage_policy option prog" where
  "policy_or_none C =
     (if cf_settings C then bnd (attempt (resolve_storage_policy C)) (\<lambda>r. case r of
          Inr p \<Rightarrow> ret (Some p) | Inl _ \<Rightarrow> ret None)
      else ret None)"

definition inherited_class :: "service_config \<Rightarrow> string \<Rightarrow> string prog" where
  "inherited_class C class_name =
     (if class_name = ''inherit'' then
        bnd (policy_or_none C) (\<lambda>p.
          let c = (case p of Some q \<Rightarrow> if spv_default q \<noteq> [] then spv_default q else class_name
                     | None \<Rightarrow> class_name) in
          if c = ''inherit'' \<or> c = [] then
            ret (if cf_default_class C = [] then ''standard'' else cf_default_class C)
          else ret c)
      else ret class_name)"

definition apply_effective_durability :: "service_config \<Rightarrow> bucket \<Rightarrow> bucket prog" where
  "apply_effective_durability C b0 =
     (let raw0 = normalize_storage_class (bk_class b0);
          raw = (if raw0 = [] then ''inherit'' else raw0) in
      bnd (inherited_class C raw) (\<lambda>effective.
      let b = b0\<lparr>bk_class := raw, bk_effective_class := effective\<rparr> in
      if bk_replica_target b > 0 then ret (b\<lparr>bk_effective_replicas := bk_replica_target b\<rparr>)
      else bnd (policy_or_none C) (\<lambda>p.
        case Option.bind p (\<lambda>q. class_replicas q effective) of
          Some n \<Rightarrow> ret (b\<lparr>bk_effective_replicas := n\<rparr>)
        | None \<Rightarrow> ret (b\<lparr>bk_effective_replicas := effective_replica_target effective (cf_placement_replicas C)\<rparr>))))"

fun with_durability :: "service_config \<Rightarrow> bucket_row list \<Rightarrow> bucket list prog" where
  "with_durability C [] = ret []"
| "with_durability C (b # bs) =
     bnd (apply_effective_durability C (bucket_of_row b)) (\<lambda>x.
     bnd (with_durability C bs) (\<lambda>xs. ret (x # xs)))"

definition list_buckets :: "service_config \<Rightarrow> bucket list prog" where
  "list_buckets C = bnd (query (\<lambda>d. Inr (sort_key b_name (t_buckets d)))) (with_durability C)"

definition requested_class :: "string \<Rightarrow> string" where
  "requested_class storage_class0 =
     (let c = normalize_storage_class storage_class0 in if c = [] then ''inherit'' else c)"

definition null_if_zero :: "int \<Rightarrow> int option" where
  "null_if_zero n = (if n = 0 then None else Some n)"

definition cast_optional_uuid :: "ext \<Rightarrow> string \<Rightarrow> string option prog" where
  "cast_optional_uuid E s = (if s = [] then ret None else bnd (cast_uuid E s) (\<lambda>u. ret (Some u)))"

definition owner_exists :: "string option \<Rightarrow> database \<Rightarrow> bool" where
  "owner_exists u d \<longleftrightarrow> (case u of None \<Rightarrow> True | Some x \<Rightarrow> list_ex (\<lambda>r. u_id r = x) (t_users d))"

definition insert_bucket :: "bucket_row \<Rightarrow> database \<Rightarrow> err + (bucket_row \<times> database)" where
  "insert_bucket row d =
     (if list_ex (\<lambda>b. b_id b = b_id row \<or> b_name b = b_name row) (t_buckets d) then Inl PgUniqueViolation
      else if \<not> owner_exists (b_owner row) d then Inl PgForeignKeyViolation
      else Inr (row, d\<lparr>t_buckets := t_buckets d @ [row]\<rparr>))"

definition check_durability :: "string \<Rightarrow> int \<Rightarrow> err + unit" where
  "check_durability storage_class replica_target =
     (if storage_class \<noteq> ''inherit'' \<and> \<not> is_valid_storage_class storage_class
      then Inl (Failure ''storage class must be inherit, standard, reduced-redundancy, or archive-ready'')
      else if replica_target < 0 then Inl (Failure ''replica target must be zero or greater'')
      else Inr ())"

definition create_bucket ::
    "ext \<Rightarrow> service_config \<Rightarrow> string \<Rightarrow> string \<Rightarrow> string \<Rightarrow> string \<Rightarrow> int \<Rightarrow> bucket prog" where
  "create_bucket E C name tenant created_by storage_class0 replica_target =
     (let storage_class = requested_class storage_class0 in
      bnd (of_result (check_durability storage_class replica_target)) (\<lambda>_.
      bnd (cast_optional_uuid E created_by) (\<lambda>owner.
      bnd (new_uuid E) (\<lambda>i.
      bnd (exec (\<lambda>t. insert_bucket \<lparr>b_id = i, b_name = name, b_tenant = tenant, b_class = storage_class,
             b_replicas = null_if_zero replica_target, b_owner = owner, b_created = t\<rparr>)) (\<lambda>row.
        apply_effective_durability C (bucket_of_row row))))))"

definition bucket_id_of :: "string \<Rightarrow> database \<Rightarrow> err + string" where
  "bucket_id_of name d = (case find (\<lambda>b. b_name b = name) (t_buckets d) of
     None \<Rightarrow> Inl PgNoRows | Some b \<Rightarrow> Inr (b_id b))"

definition count_undeleted :: "string \<Rightarrow> database \<Rightarrow> nat" where
  "count_undeleted b d = length (filter (\<lambda>o1. o_bucket o1 = b \<and> o_deleted o1 = None) (t_objects d))"

text \<open>\<open>DELETE FROM buckets\<close> and what \<open>ON DELETE CASCADE\<close> takes with it.\<close>

definition drop_bucket :: "string \<Rightarrow> database \<Rightarrow> database" where
  "drop_bucket b d =
     (let gone = map o_id (filter (\<lambda>o1. o_bucket o1 = b) (t_objects d));
          ups = map m_id (filter (\<lambda>u. m_bucket u = b) (t_uploads d)) in
      d\<lparr>t_buckets := filter (\<lambda>r. b_id r \<noteq> b) (t_buckets d),
        t_objects := filter (\<lambda>o1. o_bucket o1 \<noteq> b) (t_objects d),
        t_placements := filter (\<lambda>p. \<not> List.member gone (p_object p)) (t_placements d),
        t_bucket_quotas := filter (\<lambda>q. bq_bucket q \<noteq> b) (t_bucket_quotas d),
        t_policies := filter (\<lambda>p. bp_bucket p \<noteq> b) (t_policies d),
        t_uploads := filter (\<lambda>u. m_bucket u \<noteq> b) (t_uploads d),
        t_parts := filter (\<lambda>p. \<not> List.member ups (pt_upload p)) (t_parts d)\<rparr>)"

definition delete_bucket :: "string \<Rightarrow> unit prog" where
  "delete_bucket name =
     bnd (attempt (query (bucket_id_of name))) (\<lambda>r. case r of
       Inl _ \<Rightarrow> fail ErrBucketNotFound
     | Inr b \<Rightarrow>
         bnd (query (\<lambda>d. Inr (count_undeleted b d))) (\<lambda>n.
         bnd (guard (n = 0) ErrBucketNotEmpty) (\<lambda>_.
         bnd (exec (\<lambda>_ d. Inr (length (filter (\<lambda>r. b_id r = b) (t_buckets d)), drop_bucket b d))) (\<lambda>affected.
           guard (affected \<noteq> 0) ErrBucketNotFound))))"

definition get_bucket_by_name :: "service_config \<Rightarrow> string \<Rightarrow> bucket prog" where
  "get_bucket_by_name C name =
     bnd (query (\<lambda>d. case find (\<lambda>b. b_name b = name) (t_buckets d) of
            None \<Rightarrow> Inl PgNoRows | Some b \<Rightarrow> Inr (bucket_of_row b)))
       (apply_effective_durability C)"

definition get_bucket_by_id :: "ext \<Rightarrow> service_config \<Rightarrow> string \<Rightarrow> bucket prog" where
  "get_bucket_by_id E C bucket_id =
     bnd (attempt (bnd (cast_uuid E bucket_id) (\<lambda>i. query (\<lambda>d. case find (\<lambda>b. b_id b = i) (t_buckets d) of
            None \<Rightarrow> Inl PgNoRows | Some b \<Rightarrow> Inr (bucket_of_row b)))))
       (\<lambda>r. case r of Inl _ \<Rightarrow> fail ErrBucketNotFound | Inr b \<Rightarrow> apply_effective_durability C b)"

definition update_durability :: "ext \<Rightarrow> service_config \<Rightarrow> string \<Rightarrow> string \<Rightarrow> int \<Rightarrow> bucket prog" where
  "update_durability E C bucket_id storage_class0 replica_target =
     (let storage_class = requested_class storage_class0;
          change = (\<lambda>b. b\<lparr>b_class := storage_class, b_replicas := null_if_zero replica_target\<rparr>) in
      bnd (of_result (check_durability storage_class replica_target)) (\<lambda>_.
      bnd (attempt (bnd (cast_uuid E bucket_id) (\<lambda>i. exec (\<lambda>_ d.
             case find (\<lambda>b. b_id b = i) (t_buckets d) of
               None \<Rightarrow> Inl PgNoRows
             | Some b \<Rightarrow> Inr (bucket_of_row (change b),
                 d\<lparr>t_buckets := map (\<lambda>r. if b_id r = i then change r else r) (t_buckets d)\<rparr>)))))
        (\<lambda>r. case r of Inl _ \<Rightarrow> fail ErrBucketNotFound | Inr b \<Rightarrow> apply_effective_durability C b)))"

section \<open>What durability comes to\<close>

lemma effective_replica_target_pos: "0 < effective_replica_target c n"
  by (simp add: effective_replica_target_def Let_def)

lemma class_replicas_pos: "class_replicas p c = Some n \<Longrightarrow> 0 < n"
  by (auto simp: class_replicas_def dest: find_SomeD)

lemma policy_or_none_total: "\<exists>p w'. policy_or_none C w = (Inr p, w')"
  by (auto simp: policy_or_none_def bnd_def split: prod.splits sum.splits)

lemma inherited_class_total: "\<exists>c w'. inherited_class C c0 w = (Inr c, w')"
  using policy_or_none_total [of C w] by (fastforce simp: inherited_class_def bnd_def Let_def)

text \<open>
  The durability reported for a bucket is always defined: whatever fails while the policy is
  read, a class is chosen, the number of replicas is positive, and a replica target of the bucket
  itself is used as it is.
\<close>

lemma effective_durability_defined:
  "\<exists>b w'. apply_effective_durability C b0 w = (Inr b, w') \<and> 0 < bk_effective_replicas b \<and>
     bk_class b \<noteq> [] \<and>
     bk_effective_replicas b = (if bk_replica_target b0 > 0 then bk_replica_target b0 else bk_effective_replicas b)"
proof -
  define raw where "raw = (if normalize_storage_class (bk_class b0) = [] then ''inherit'' else normalize_storage_class (bk_class b0))"
  obtain c w1 where c: "inherited_class C raw w = (Inr c, w1)" using inherited_class_total by blast
  obtain p w2 where p: "policy_or_none C w1 = (Inr p, w2)" using policy_or_none_total by blast
  have raw: "raw \<noteq> []" by (simp add: raw_def)
  have r: "apply_effective_durability C b0 w =
    (let b = b0\<lparr>bk_class := raw, bk_effective_class := c\<rparr> in
     if bk_replica_target b0 > 0 then (Inr (b\<lparr>bk_effective_replicas := bk_replica_target b0\<rparr>), w1)
     else case Option.bind p (\<lambda>q. class_replicas q c) of
        Some n \<Rightarrow> (Inr (b\<lparr>bk_effective_replicas := n\<rparr>), w2)
      | None \<Rightarrow> (Inr (b\<lparr>bk_effective_replicas := effective_replica_target c (cf_placement_replicas C)\<rparr>), w2))"
    unfolding apply_effective_durability_def Let_def raw_def [symmetric]
    by (simp add: bnd_def c p split: option.splits)
  show ?thesis
  proof (cases "Option.bind p (\<lambda>q. class_replicas q c)")
    case None
    then show ?thesis using raw by (simp add: r Let_def effective_replica_target_pos)
  next
    case (Some n)
    then have "0 < n" by (auto dest: class_replicas_pos split: Option.bind_splits)
    then show ?thesis using raw Some by (simp add: r Let_def)
  qed
qed

end
