(* ===== verification/Quotas.thy ===== *)
theory Quotas
  imports World
begin

text \<open>
  Quotas: \<open>backend/internal/quotas/quotas.go\<close> and \<open>service.go\<close>. Go's \<open>int64\<close> arithmetic is done on
  64-bit words, the database computes with unbounded numbers and refuses a value that does not
  fit a \<open>BIGINT\<close> column or variable.
\<close>

section \<open>quotas.go\<close>

record snapshot =
  sq_bytes :: i64
  sq_objects :: i64
  sq_max_bytes :: "i64 option"
  sq_max_objects :: "i64 option"

record warning_state =
  ws_bucket_bytes :: bool
  ws_bucket_count :: bool
  ws_user_bytes :: bool

definition allows :: "i64 \<Rightarrow> i64 \<Rightarrow> snapshot \<Rightarrow> bool" where
  "allows next_bytes next_objects s =
     (if (case sq_max_bytes s of None \<Rightarrow> False | Some m \<Rightarrow> sint (sq_bytes s + next_bytes) > sint m) then False
      else if (case sq_max_objects s of None \<Rightarrow> False | Some m \<Rightarrow> sint (sq_objects s + next_objects) > sint m)
      then False
      else True)"

definition warning_reached :: "i64 \<Rightarrow> i64 option \<Rightarrow> int option \<Rightarrow> bool" where
  "warning_reached current max_value threshold =
     (case (max_value, threshold) of
        (Some m, Some t) \<Rightarrow> if sint m \<le> 0 then False else sint (current * 100) \<ge> sint (m * word_of_int t)
      | _ \<Rightarrow> False)"

section \<open>Reading and writing quotas\<close>

text \<open>The rows of \<open>objects\<close> that count: those not marked deleted.\<close>

definition live :: "object_row \<Rightarrow> bool" where
  "live o1 \<longleftrightarrow> o_deleted o1 = None"

definition used_bytes :: "(object_row \<Rightarrow> bool) \<Rightarrow> database \<Rightarrow> int" where
  "used_bytes p d = sum_list (map o_size (filter (\<lambda>o1. p o1 \<and> live o1) (t_objects d)))"

definition used_objects :: "(object_row \<Rightarrow> bool) \<Rightarrow> database \<Rightarrow> int" where
  "used_objects p d = int (length (filter (\<lambda>o1. p o1 \<and> live o1) (t_objects d)))"

definition scan_int64 :: "int \<Rightarrow> err + i64" where
  "scan_int64 i = (case int64_of i of None \<Rightarrow> Inl PgOutOfRange | Some j \<Rightarrow> Inr (word_of_int j))"

definition in_bucket :: "string \<Rightarrow> object_row \<Rightarrow> bool" where
  "in_bucket b o1 \<longleftrightarrow> o_bucket o1 = b"

definition by_user :: "string \<Rightarrow> object_row \<Rightarrow> bool" where
  "by_user u o1 \<longleftrightarrow> o_owner o1 = Some u"

definition bucket_quota_of :: "string \<Rightarrow> database \<Rightarrow> bucket_quota_row option" where
  "bucket_quota_of b d = find (\<lambda>q. bq_bucket q = b) (t_bucket_quotas d)"

definition user_quota_of :: "string \<Rightarrow> database \<Rightarrow> user_quota_row option" where
  "user_quota_of u d = find (\<lambda>q. uq_user q = u) (t_user_quotas d)"

definition bucket_snapshot :: "ext \<Rightarrow> string \<Rightarrow> (snapshot \<times> int option) prog" where
  "bucket_snapshot E bucket_id =
     bnd (cast_uuid E bucket_id) (\<lambda>b. query (\<lambda>d.
       if \<not> list_ex (\<lambda>r. b_id r = b) (t_buckets d) then Inl PgNoRows
       else case (scan_int64 (used_bytes (in_bucket b) d), scan_int64 (used_objects (in_bucket b) d)) of
          (Inr bytes, Inr objects) \<Rightarrow>
            (let q = bucket_quota_of b d in
             Inr (\<lparr>sq_bytes = bytes, sq_objects = objects,
                   sq_max_bytes = map_option word_of_int (Option.bind q bq_max_bytes),
                   sq_max_objects = map_option word_of_int (Option.bind q bq_max_objects)\<rparr>,
                  Option.bind q bq_warn))
        | _ \<Rightarrow> Inl PgOutOfRange))"

definition user_snapshot :: "ext \<Rightarrow> string \<Rightarrow> (snapshot \<times> int option) prog" where
  "user_snapshot E user_id =
     bnd (cast_uuid E user_id) (\<lambda>u. query (\<lambda>d.
       if \<not> list_ex (\<lambda>r. u_id r = u) (t_users d) then Inl PgNoRows
       else case scan_int64 (used_bytes (by_user u) d) of
          Inr bytes \<Rightarrow>
            (let q = user_quota_of u d in
             Inr (\<lparr>sq_bytes = bytes, sq_objects = 0,
                   sq_max_bytes = map_option word_of_int (Option.bind q uq_max_bytes),
                   sq_max_objects = None\<rparr>,
                  Option.bind q uq_warn))
        | Inl e \<Rightarrow> Inl e))"

definition check_object_write :: "ext \<Rightarrow> string \<Rightarrow> string \<Rightarrow> i64 \<Rightarrow> i64 \<Rightarrow> bool \<Rightarrow> unit prog" where
  "check_object_write E bucket_id user_id existing_size next_size exists =
     bnd (bucket_snapshot E bucket_id) (\<lambda>(snap, _).
       let next_bytes = next_size - existing_size;
           next_objects = (if \<not> exists then 1 else 0) in
       if \<not> allows next_bytes next_objects snap then fail ErrQuotaExceeded
       else if user_id = [] then ret ()
       else bnd (user_snapshot E user_id) (\<lambda>(user_snap, _).
         if \<not> allows (next_size - existing_size) 0 user_snap then fail ErrQuotaExceeded
         else ret ()))"

definition current_warnings :: "ext \<Rightarrow> string \<Rightarrow> string \<Rightarrow> warning_state prog" where
  "current_warnings E bucket_id user_id =
     bnd (bucket_snapshot E bucket_id) (\<lambda>(snap, threshold).
       let state = \<lparr>ws_bucket_bytes = warning_reached (sq_bytes snap) (sq_max_bytes snap) threshold,
                    ws_bucket_count = warning_reached (sq_objects snap) (sq_max_objects snap) threshold,
                    ws_user_bytes = False\<rparr> in
       if user_id = [] then ret state
       else bnd (user_snapshot E user_id) (\<lambda>(user_snap, user_threshold).
         ret (state\<lparr>ws_user_bytes := warning_reached (sq_bytes user_snap) (sq_max_bytes user_snap) user_threshold\<rparr>)))"

definition update_bucket_quota ::
    "ext \<Rightarrow> string \<Rightarrow> int option \<Rightarrow> int option \<Rightarrow> int option \<Rightarrow> unit prog" where
  "update_bucket_quota E bucket_id max_bytes max_objects warn =
     bnd (cast_uuid E bucket_id) (\<lambda>b. exec (\<lambda>_ d.
       if \<not> list_ex (\<lambda>r. b_id r = b) (t_buckets d) then Inl PgForeignKeyViolation
       else Inr ((), d\<lparr>t_bucket_quotas :=
         (if bucket_quota_of b d = None
          then t_bucket_quotas d @ [\<lparr>bq_bucket = b, bq_max_bytes = max_bytes, bq_max_objects = max_objects,
                 bq_warn = warn, bq_cur_bytes = 0, bq_cur_objects = 0, bq_recalc = None\<rparr>]
          else map (\<lambda>q. if bq_bucket q = b
                 then q\<lparr>bq_max_bytes := max_bytes, bq_max_objects := max_objects, bq_warn := warn\<rparr> else q)
                 (t_bucket_quotas d))\<rparr>)))"

definition update_user_quota :: "ext \<Rightarrow> string \<Rightarrow> int option \<Rightarrow> int option \<Rightarrow> unit prog" where
  "update_user_quota E user_id max_bytes warn =
     bnd (cast_uuid E user_id) (\<lambda>u. exec (\<lambda>_ d.
       if \<not> list_ex (\<lambda>r. u_id r = u) (t_users d) then Inl PgForeignKeyViolation
       else Inr ((), d\<lparr>t_user_quotas :=
         (if user_quota_of u d = None
          then t_user_quotas d @ [\<lparr>uq_user = u, uq_max_bytes = max_bytes, uq_warn = warn,
                 uq_cur_bytes = 0, uq_recalc = None\<rparr>]
          else map (\<lambda>q. if uq_user q = u then q\<lparr>uq_max_bytes := max_bytes, uq_warn := warn\<rparr> else q)
                 (t_user_quotas d))\<rparr>)))"

record bucket_quota_view =
  bv_bucket :: string
  bv_name :: string
  bv_bytes :: int
  bv_objects :: int
  bv_max_bytes :: "int option"
  bv_max_objects :: "int option"
  bv_warn :: "int option"
  bv_recalc :: "int option"

definition list_bucket_quotas :: "bucket_quota_view list prog" where
  "list_bucket_quotas = query (\<lambda>d. Inr (map (\<lambda>b.
     let q = bucket_quota_of (b_id b) d in
     \<lparr>bv_bucket = b_id b, bv_name = b_name b,
      bv_bytes = (case q of None \<Rightarrow> 0 | Some r \<Rightarrow> bq_cur_bytes r),
      bv_objects = (case q of None \<Rightarrow> 0 | Some r \<Rightarrow> bq_cur_objects r),
      bv_max_bytes = Option.bind q bq_max_bytes, bv_max_objects = Option.bind q bq_max_objects,
      bv_warn = Option.bind q bq_warn, bv_recalc = Option.bind q bq_recalc\<rparr>)
     (sort_key b_name (t_buckets d))))"

record user_quota_view =
  uv_user :: string
  uv_email :: string
  uv_bytes :: int
  uv_max_bytes :: "int option"
  uv_warn :: "int option"
  uv_recalc :: "int option"

definition list_user_quotas :: "user_quota_view list prog" where
  "list_user_quotas = query (\<lambda>d. Inr (map (\<lambda>u.
     let q = user_quota_of (u_id u) d in
     \<lparr>uv_user = u_id u, uv_email = u_email u,
      uv_bytes = (case q of None \<Rightarrow> 0 | Some r \<Rightarrow> uq_cur_bytes r),
      uv_max_bytes = Option.bind q uq_max_bytes, uv_warn = Option.bind q uq_warn,
      uv_recalc = Option.bind q uq_recalc\<rparr>)
     (sort_key u_email (t_users d))))"

section \<open>Recalculating the cached usage\<close>

text \<open>One row per bucket is inserted, or the usage of the existing row is replaced.\<close>

definition upsert_bucket_usage :: "int \<Rightarrow> database \<Rightarrow> bucket_row \<Rightarrow> bucket_quota_row list \<Rightarrow> bucket_quota_row list" where
  "upsert_bucket_usage t d b rows =
     (let bytes = used_bytes (in_bucket (b_id b)) d; objects = used_objects (in_bucket (b_id b)) d in
      if list_ex (\<lambda>q. bq_bucket q = b_id b) rows
      then map (\<lambda>q. if bq_bucket q = b_id b
             then q\<lparr>bq_cur_bytes := bytes, bq_cur_objects := objects, bq_recalc := Some t\<rparr> else q) rows
      else rows @ [\<lparr>bq_bucket = b_id b, bq_max_bytes = None, bq_max_objects = None, bq_warn = None,
             bq_cur_bytes = bytes, bq_cur_objects = objects, bq_recalc = Some t\<rparr>])"

definition recalculate_bucket_usage :: "int prog" where
  "recalculate_bucket_usage = exec (\<lambda>t d.
     if list_ex (\<lambda>b. int64_of (used_bytes (in_bucket (b_id b)) d) = None) (t_buckets d) then Inl PgOutOfRange
     else Inr (int (length (t_buckets d)), d\<lparr>t_bucket_quotas :=
       fold (upsert_bucket_usage t d) (t_buckets d) (t_bucket_quotas d)\<rparr>))"

definition upsert_user_usage :: "int \<Rightarrow> database \<Rightarrow> user_row \<Rightarrow> user_quota_row list \<Rightarrow> user_quota_row list" where
  "upsert_user_usage t d u rows =
     (let bytes = used_bytes (by_user (u_id u)) d in
      if list_ex (\<lambda>q. uq_user q = u_id u) rows
      then map (\<lambda>q. if uq_user q = u_id u then q\<lparr>uq_cur_bytes := bytes, uq_recalc := Some t\<rparr> else q) rows
      else rows @ [\<lparr>uq_user = u_id u, uq_max_bytes = None, uq_warn = None,
             uq_cur_bytes = bytes, uq_recalc = Some t\<rparr>])"

definition recalculate_user_usage :: "int prog" where
  "recalculate_user_usage = exec (\<lambda>t d.
     if list_ex (\<lambda>u. int64_of (used_bytes (by_user (u_id u)) d) = None) (t_users d) then Inl PgOutOfRange
     else Inr (int (length (t_users d)), d\<lparr>t_user_quotas :=
       fold (upsert_user_usage t d) (t_users d) (t_user_quotas d)\<rparr>))"

section \<open>What the checks decide\<close>

definition fits :: "int \<Rightarrow> bool" where
  "fits i \<longleftrightarrow> - (2 ^ 63) \<le> i \<and> i < 2 ^ 63"

lemma sint_of_fits: "fits i \<Longrightarrow> sint (word_of_int i :: i64) = i"
  by (simp add: fits_def sint_sbintrunc' signed_take_bit_int_eq_self)

lemma sint_fits: "fits (sint (x :: i64))"
  using sint_range_size [of x] by (simp add: fits_def word_size)

lemma sint_add_fits: "fits (sint a + sint b) \<Longrightarrow> sint ((a :: i64) + b) = sint a + sint b"
  by (simp add: sint_word_ariths signed_take_bit_int_eq_self fits_def)

lemma sint_sub_fits: "fits (sint a - sint b) \<Longrightarrow> sint ((a :: i64) - b) = sint a - sint b"
  by (simp add: sint_word_ariths signed_take_bit_int_eq_self fits_def)

definition within :: "int \<Rightarrow> int option \<Rightarrow> bool" where
  "within amount limit \<longleftrightarrow> (case limit of None \<Rightarrow> True | Some m \<Rightarrow> amount \<le> m)"

lemma allows_within:
  assumes "fits (sint (sq_bytes s) + sint nb)" "fits (sint (sq_objects s) + sint no)"
  shows "allows nb no s \<longleftrightarrow>
    within (sint (sq_bytes s) + sint nb) (map_option sint (sq_max_bytes s)) \<and>
    within (sint (sq_objects s) + sint no) (map_option sint (sq_max_objects s))"
  using assms by (auto simp: allows_def within_def sint_add_fits split: option.splits)

lemma scan_int64_Inr: "scan_int64 i = Inr x \<Longrightarrow> sint x = i \<and> fits i"
  by (auto simp: scan_int64_def int64_of_def fits_def intro!: sint_of_fits split: if_splits option.splits)

text \<open>Limits are \<open>BIGINT\<close> columns.\<close>

definition opt_fits :: "int option \<Rightarrow> bool" where
  "opt_fits x \<longleftrightarrow> (case x of None \<Rightarrow> True | Some i \<Rightarrow> fits i)"

definition quotas_fit :: "database \<Rightarrow> bool" where
  "quotas_fit d \<longleftrightarrow> list_all (\<lambda>q. opt_fits (bq_max_bytes q) \<and> opt_fits (bq_max_objects q)) (t_bucket_quotas d) \<and>
     list_all (\<lambda>q. opt_fits (uq_max_bytes q)) (t_user_quotas d)"

definition bucket_limits :: "string \<Rightarrow> database \<Rightarrow> int option \<times> int option" where
  "bucket_limits b d = (let q = bucket_quota_of b d in (Option.bind q bq_max_bytes, Option.bind q bq_max_objects))"

definition user_limit :: "string \<Rightarrow> database \<Rightarrow> int option" where
  "user_limit u d = Option.bind (user_quota_of u d) uq_max_bytes"

lemma opt_fits_sint: "opt_fits x \<Longrightarrow> map_option sint (map_option word_of_int x :: i64 option) = x"
  by (cases x) (simp_all add: opt_fits_def sint_of_fits)

lemma limits_fit:
  assumes "quotas_fit d"
  shows "opt_fits (fst (bucket_limits b d))" "opt_fits (snd (bucket_limits b d))" "opt_fits (user_limit u d)"
  using assms
  by (auto simp: quotas_fit_def bucket_limits_def user_limit_def bucket_quota_of_def user_quota_of_def Let_def
      list_all_iff opt_fits_def [of None] split: Option.bind_splits dest!: find_SomeD)

lemma query_Inr: "query q w = (Inr x, w') \<Longrightarrow> q (db w) = Inr x \<and> db w' = db w"
  by (auto simp: query_def elim!: external_Inr)

lemma bucket_snapshot_Inr:
  assumes "bucket_snapshot E bucket_id w = (Inr (s, t), w')" "quotas_fit (db w)"
  obtains b where "pg_uuid E bucket_id = Some b" "db w' = db w"
    "sint (sq_bytes s) = used_bytes (in_bucket b) (db w)" "sint (sq_objects s) = used_objects (in_bucket b) (db w)"
    "map_option sint (sq_max_bytes s) = fst (bucket_limits b (db w))"
    "map_option sint (sq_max_objects s) = snd (bucket_limits b (db w))"
proof -
  obtain b where b: "pg_uuid E bucket_id = Some b"
    and q: "db w' = db w" "(if \<not> list_ex (\<lambda>r. b_id r = b) (t_buckets (db w)) then Inl PgNoRows
       else case (scan_int64 (used_bytes (in_bucket b) (db w)), scan_int64 (used_objects (in_bucket b) (db w))) of
          (Inr bytes, Inr objects) \<Rightarrow>
            (let q = bucket_quota_of b (db w) in
             Inr (\<lparr>sq_bytes = bytes, sq_objects = objects,
                   sq_max_bytes = map_option word_of_int (Option.bind q bq_max_bytes),
                   sq_max_objects = map_option word_of_int (Option.bind q bq_max_objects)\<rparr>,
                  Option.bind q bq_warn))
        | _ \<Rightarrow> Inl PgOutOfRange) = Inr (s, t)"
    using assms(1) unfolding bucket_snapshot_def
    by (auto simp: bnd_Inr_iff cast_uuid_Inr_iff dest!: query_Inr)
  obtain bytes objects where n: "scan_int64 (used_bytes (in_bucket b) (db w)) = Inr bytes"
      "scan_int64 (used_objects (in_bucket b) (db w)) = Inr objects"
    using q(2) by (auto split: if_splits sum.splits)
  show ?thesis
    using that [OF b q(1)] q(2) n limits_fit(1,2) [OF assms(2), of b, THEN opt_fits_sint] scan_int64_Inr [OF n(1)] scan_int64_Inr [OF n(2)]
    by (auto simp: Let_def bucket_limits_def split: if_splits)
qed

lemma user_snapshot_Inr:
  assumes "user_snapshot E user_id w = (Inr (s, t), w')" "quotas_fit (db w)"
  obtains u where "pg_uuid E user_id = Some u" "db w' = db w"
    "sint (sq_bytes s) = used_bytes (by_user u) (db w)" "sq_objects s = 0"
    "map_option sint (sq_max_bytes s) = user_limit u (db w)" "sq_max_objects s = None"
proof -
  obtain u where u: "pg_uuid E user_id = Some u"
    and q: "db w' = db w" "(if \<not> list_ex (\<lambda>r. u_id r = u) (t_users (db w)) then Inl PgNoRows
       else case scan_int64 (used_bytes (by_user u) (db w)) of
          Inr bytes \<Rightarrow>
            (let q = user_quota_of u (db w) in
             Inr (\<lparr>sq_bytes = bytes, sq_objects = 0,
                   sq_max_bytes = map_option word_of_int (Option.bind q uq_max_bytes),
                   sq_max_objects = None\<rparr>,
                  Option.bind q uq_warn))
        | Inl e \<Rightarrow> Inl e) = Inr (s, t)"
    using assms(1) unfolding user_snapshot_def
    by (auto simp: bnd_Inr_iff cast_uuid_Inr_iff dest!: query_Inr)
  obtain bytes where n: "scan_int64 (used_bytes (by_user u) (db w)) = Inr bytes"
    using q(2) by (auto split: if_splits sum.splits)
  show ?thesis
    using that [OF u q(1)] q(2) n limits_fit(3) [OF assms(2), of u, THEN opt_fits_sint] scan_int64_Inr [OF n]
    by (auto simp: Let_def user_limit_def split: if_splits)
qed

text \<open>
  \<open>CheckObjectWrite\<close> lets a write pass only if the bytes of the undeleted rows of the bucket,
  plus the new size less the size replaced, and the number of rows, plus one for a new key, are
  within the limits of the bucket, and the bytes of the user within the limit of the user,
  provided the sums do not leave the range of \<open>int64\<close>. What a write leaves is \<open>Writes\<close>.
\<close>

lemma check_object_write_within:
  assumes "check_object_write E bucket_id user_id existing next_size exists w = (Inr (), w')" "quotas_fit (db w)"
    and "pg_uuid E bucket_id = Some b"
    and grow: "fits (sint next_size - sint existing)"
    and fit: "fits (used_bytes (in_bucket b) (db w) + (sint next_size - sint existing))"
      "\<And>u. pg_uuid E user_id = Some u \<Longrightarrow> fits (used_bytes (by_user u) (db w) + (sint next_size - sint existing))"
      "fits (used_objects (in_bucket b) (db w) + 1)"
  shows "within (used_bytes (in_bucket b) (db w) + (sint next_size - sint existing)) (fst (bucket_limits b (db w))) \<and>
    within (used_objects (in_bucket b) (db w) + (if exists then 0 else 1)) (snd (bucket_limits b (db w))) \<and>
    (user_id \<noteq> [] \<longrightarrow> (\<exists>u. pg_uuid E user_id = Some u \<and>
       within (used_bytes (by_user u) (db w) + (sint next_size - sint existing)) (user_limit u (db w))))"
proof -
  let ?no = "if \<not> exists then 1 else 0 :: i64"
  obtain s t w1 where s: "bucket_snapshot E bucket_id w = (Inr (s, t), w1)"
    and a: "allows (next_size - existing) ?no s"
    and rest: "user_id \<noteq> [] \<Longrightarrow> bnd (user_snapshot E user_id) (\<lambda>(user_snap, _).
         if \<not> allows (next_size - existing) 0 user_snap then fail ErrQuotaExceeded else ret ()) w1 = (Inr (), w')"
    using assms(1) unfolding check_object_write_def by (auto simp: bnd_Inr_iff Let_def split: if_splits)
  have sn: "sint (next_size - existing) = sint next_size - sint existing" using grow by (rule sint_sub_fits)
  from bucket_snapshot_Inr [OF s assms(2)] assms(3)
  have b: "db w1 = db w" "sint (sq_bytes s) = used_bytes (in_bucket b) (db w)"
    "sint (sq_objects s) = used_objects (in_bucket b) (db w)"
    "map_option sint (sq_max_bytes s) = fst (bucket_limits b (db w))"
    "map_option sint (sq_max_objects s) = snd (bucket_limits b (db w))" by auto
  have no: "sint ?no = (if exists then 0 else 1)" "fits (sint (sq_objects s) + sint ?no)"
    using fit(3) sint_fits [of "sq_objects s"] by (auto simp: b(3) fits_def)
  have "user_id \<noteq> [] \<longrightarrow> (\<exists>u. pg_uuid E user_id = Some u \<and>
       within (used_bytes (by_user u) (db w) + (sint next_size - sint existing)) (user_limit u (db w)))"
  proof
    assume "user_id \<noteq> []"
    then obtain us t2 w2 where us: "user_snapshot E user_id w1 = (Inr (us, t2), w2)"
      and ua: "allows (next_size - existing) 0 us"
      using rest by (auto simp: bnd_Inr_iff split: if_splits)
    from user_snapshot_Inr [OF us] assms(2) b(1) obtain u where
      u: "pg_uuid E user_id = Some u" "sint (sq_bytes us) = used_bytes (by_user u) (db w)" "sq_objects us = 0"
        "map_option sint (sq_max_bytes us) = user_limit u (db w)" by metis
    then show "\<exists>u. pg_uuid E user_id = Some u \<and>
       within (used_bytes (by_user u) (db w) + (sint next_size - sint existing)) (user_limit u (db w))"
      using ua fit(2) [OF u(1)] sn by (subst (asm) allows_within) (auto simp: fits_def)
  qed
  then show ?thesis
    using a fit(1) sn no b by (subst (asm) allows_within) auto
qed

section \<open>What a recalculation leaves\<close>

definition fresh_usage :: "int \<Rightarrow> database \<Rightarrow> string \<Rightarrow> bucket_quota_row option \<Rightarrow> bucket_quota_row" where
  "fresh_usage t d b q =
     (case q of
        Some r \<Rightarrow> r\<lparr>bq_cur_bytes := used_bytes (in_bucket b) d, bq_cur_objects := used_objects (in_bucket b) d,
                  bq_recalc := Some t\<rparr>
      | None \<Rightarrow> \<lparr>bq_bucket = b, bq_max_bytes = None, bq_max_objects = None, bq_warn = None,
                 bq_cur_bytes = used_bytes (in_bucket b) d, bq_cur_objects = used_objects (in_bucket b) d,
                 bq_recalc = Some t\<rparr>)"

lemma find_none_ex: "find p xs = None \<longleftrightarrow> \<not> list_ex p xs"
  by (induction xs) auto

lemma find_map_key:
  assumes "\<And>x. k (f x) = k x"
  shows "find (\<lambda>x. k x = a) (map (\<lambda>x. if k x = b then f x else x) xs) =
    (if a = b then map_option f (find (\<lambda>x. k x = a) xs) else find (\<lambda>x. k x = a) xs)"
  using assms by (induction xs) auto

lemma upsert_usage_find:
  "find (\<lambda>q. bq_bucket q = x) (upsert_bucket_usage t d b rows) =
     (if x = b_id b then Some (fresh_usage t d x (find (\<lambda>q. bq_bucket q = x) rows))
      else find (\<lambda>q. bq_bucket q = x) rows)"
proof (cases "list_ex (\<lambda>q. bq_bucket q = b_id b) rows")
  case True
  then obtain r where "find (\<lambda>q. bq_bucket q = b_id b) rows = Some r" using find_none_ex by (metis not_None_eq)
  then show ?thesis
    using True by (auto simp: upsert_bucket_usage_def Let_def find_map_key fresh_usage_def)
next
  case False
  then show ?thesis
    using find_none_ex [of "\<lambda>q. bq_bucket q = b_id b" rows]
    by (auto simp: upsert_bucket_usage_def Let_def find_append fresh_usage_def split: option.splits)
qed

lemma fold_usage_find:
  assumes "distinct (map b_id bs)"
  shows "find (\<lambda>q. bq_bucket q = x) (fold (upsert_bucket_usage t d) bs rows) =
    (if x \<in> b_id ` set bs then Some (fresh_usage t d x (find (\<lambda>q. bq_bucket q = x) rows))
     else find (\<lambda>q. bq_bucket q = x) rows)"
  using assms by (induction bs arbitrary: rows) (auto simp: upsert_usage_find)

text \<open>
  After a recalculation that reports success, whatever was cached before, every bucket has a
  quota row whose cached bytes and objects are those of its undeleted rows, and no limit and no
  object has changed.
\<close>

lemma recalculation_exact:
  assumes "recalculate_bucket_usage w = (Inr n, w')" "distinct (map b_id (t_buckets (db w)))"
    and "b \<in> set (t_buckets (db w))"
  shows "(\<exists>q. bucket_quota_of (b_id b) (db w') = Some q \<and>
      bq_cur_bytes q = used_bytes (in_bucket (b_id b)) (db w') \<and>
      bq_cur_objects q = used_objects (in_bucket (b_id b)) (db w')) \<and>
    bucket_limits (b_id b) (db w') = bucket_limits (b_id b) (db w) \<and> t_objects (db w') = t_objects (db w)"
proof -
  obtain t where d: "db w' = (db w)\<lparr>t_bucket_quotas :=
      fold (upsert_bucket_usage t (db w)) (t_buckets (db w)) (t_bucket_quotas (db w))\<rparr>"
    using assms(1) unfolding recalculate_bucket_usage_def exec_def
    by (auto elim!: external_Inr split: if_splits)
  have q: "bucket_quota_of (b_id b) (db w') =
      Some (fresh_usage t (db w) (b_id b) (bucket_quota_of (b_id b) (db w)))"
    using assms(3) by (simp add: bucket_quota_of_def d fold_usage_find [OF assms(2)])
  have u: "used_bytes p (db w') = used_bytes p (db w)" "used_objects p (db w') = used_objects p (db w)" for p
    by (simp_all add: d used_bytes_def used_objects_def)
  have o1: "t_objects (db w') = t_objects (db w)" by (simp add: d)
  show ?thesis
    by (auto simp: q u o1 bucket_limits_def fresh_usage_def Let_def split: option.splits)
qed

definition example_quota_db :: database where
  "example_quota_db = empty_db\<lparr>t_buckets := [\<lparr>b_id = ''b'', b_name = ''files'', b_tenant = [],
       b_class = ''standard'', b_replicas = None, b_owner = None, b_created = 0\<rparr>],
     t_bucket_quotas := [\<lparr>bq_bucket = ''b'', bq_max_bytes = Some 10, bq_max_objects = None, bq_warn = None,
       bq_cur_bytes = 99, bq_cur_objects = 9, bq_recalc = None\<rparr>]\<rparr>"

theorem recalculation_exact_witness:
  "\<exists>n w'. recalculate_bucket_usage (calm_world example_quota_db) = (Inr n, w') \<and>
     map_option bq_cur_bytes (bucket_quota_of ''b'' (db w')) = Some 0"
proof -
  obtain n w' where r: "recalculate_bucket_usage (calm_world example_quota_db) = (Inr n, w')"
    by (simp add: recalculate_bucket_usage_def exec_def used_bytes_def example_quota_db_def empty_db_def int64_of_def)
  have bs: "t_buckets example_quota_db = [\<lparr>b_id = ''b'', b_name = ''files'', b_tenant = [],
       b_class = ''standard'', b_replicas = None, b_owner = None, b_created = 0\<rparr>]" "t_objects example_quota_db = []"
    by (simp_all add: example_quota_db_def empty_db_def)
  show ?thesis
    using recalculation_exact [OF r, of "hd (t_buckets example_quota_db)"] r
    by (auto simp: bs used_bytes_def)
qed

end
