(* ===== verification/Objects.thy ===== *)
theory Objects
  imports BlobStore Buckets Quotas "HOL-Library.Product_Lexorder"
begin

text \<open>
  Objects: \<open>backend/internal/objects/service.go\<close>. Every version of an object is a row; the row
  says where its blob is. An operation mixes statements, transactions and calls of the stores,
  in the order of the code, and any of them can fail; \<open>NOW()\<close> in a transaction is the time the
  transaction began. Where a statement orders rows by their creation time, rows of one time keep
  the order of the table. Maps stored as JSON are modelled as the maps themselves.
\<close>

section \<open>Input and results\<close>

record put_input =
  pi_key :: string
  pi_ctype :: string
  pi_cache :: string
  pi_disp :: string
  pi_enc :: string
  pi_meta :: "smap option"
  pi_created_by :: string
  pi_retain :: "int option"
  pi_expire :: "int option"
  pi_tags :: "smap option"
  pi_size :: int
  pi_md5 :: string
  pi_body :: bytes

record metadata =
  md_id :: string
  md_bucket :: string
  md_key :: string
  md_version :: string
  md_size :: int
  md_etag :: string
  md_ctype :: string
  md_cache :: string
  md_disp :: string
  md_enc :: string
  md_meta :: smap
  md_tags :: smap
  md_path :: string
  md_scan :: string
  md_latest :: bool
  md_marker :: bool
  md_hold :: bool
  md_retain :: "int option"
  md_expire :: "int option"
  md_created :: int

definition normalize_user_metadata :: "smap option \<Rightarrow> smap" where
  "normalize_user_metadata input = (case input of None \<Rightarrow> Map.empty | Some m \<Rightarrow> m)"

definition normalize_tags :: "smap option \<Rightarrow> smap" where
  "normalize_tags input = (case input of None \<Rightarrow> Map.empty | Some m \<Rightarrow> m(''''  := None))"

definition metadata_of :: "object_row \<Rightarrow> metadata" where
  "metadata_of r = \<lparr>md_id = o_id r, md_bucket = o_bucket r, md_key = o_key r, md_version = o_version r,
     md_size = o_size r, md_etag = o_etag r, md_ctype = o_ctype r, md_cache = o_cache r, md_disp = o_disp r,
     md_enc = o_enc r, md_meta = normalize_user_metadata (Some (o_meta r)),
     md_tags = normalize_tags (Some (o_tags r)), md_path = o_path r, md_scan = o_scan r,
     md_latest = o_latest r, md_marker = o_marker r, md_hold = o_hold r, md_retain = o_retain r,
     md_expire = o_expire r, md_created = o_created r\<rparr>"

definition default_content_type :: "string \<Rightarrow> string" where
  "default_content_type t = (if t = [] then ''application/octet-stream'' else t)"

definition validate_payload :: "ext \<Rightarrow> bytes \<Rightarrow> int \<Rightarrow> string \<Rightarrow> err + unit" where
  "validate_payload E payload expected_size content_md5 =
     (if expected_size \<ge> 0 \<and> int (length payload) \<noteq> expected_size then Inl ErrIncompleteBody
      else if content_md5 = [] then Inr ()
      else case b64_decode E content_md5 of
        None \<Rightarrow> Inl ErrInvalidDigest
      | Some digest \<Rightarrow> if digest \<noteq> md5sum E payload then Inl ErrBadDigest else Inr ())"

definition physical_path :: "string \<Rightarrow> string \<Rightarrow> string \<Rightarrow> string" where
  "physical_path tenant bucket_id object_id =
     filepath_join [''tenants'', tenant, ''buckets'', bucket_id, ''objects'', object_id]"

section \<open>Which store keeps a blob\<close>

definition normalize_stored_backend :: "string \<Rightarrow> string" where
  "normalize_stored_backend value =
     (if to_lower (trim_space value) = ''distributed'' then ''distributed'' else ''local'')"

definition in_distributed :: "service_config \<Rightarrow> string \<Rightarrow> bool" where
  "in_distributed C backend \<longleftrightarrow> normalize_stored_backend backend = ''distributed'' \<and> cf_distributed C"

definition store_get :: "ext \<Rightarrow> service_config \<Rightarrow> string \<Rightarrow> string \<Rightarrow> bytes prog" where
  "store_get E C backend path =
     (if in_distributed C backend then dist_get E path else local_get E ApiHost path)"

definition store_delete :: "ext \<Rightarrow> service_config \<Rightarrow> string \<Rightarrow> string \<Rightarrow> unit prog" where
  "store_delete E C backend path =
     (if in_distributed C backend then dist_delete E path else local_delete E ApiHost path)"

definition resolve_write_backend :: "service_config \<Rightarrow> string list \<Rightarrow> string" where
  "resolve_write_backend C selected =
     (if cf_backend C = ''distributed'' \<and> cf_distributed C \<and> selected \<noteq> [] then ''distributed'' else ''local'')"

definition lookup_stored_backend :: "string \<Rightarrow> string prog" where
  "lookup_stored_backend object_id =
     bnd (attempt (query (\<lambda>d. case find (\<lambda>r. o_id r = object_id) (t_objects d) of
            None \<Rightarrow> Inl PgNoRows | Some r \<Rightarrow> Inr (o_backend r))))
       (\<lambda>r. case r of Inl _ \<Rightarrow> ret ''local'' | Inr backend \<Rightarrow> ret backend)"

section \<open>Placement\<close>

definition active_placement_endpoints :: "service_config \<Rightarrow> string list prog" where
  "active_placement_endpoints C =
     bnd (query (\<lambda>d. Inr (map (\<lambda>n. trim_space (n_endpoint n))
            (sort_key (\<lambda>n. (n_name n, n_endpoint n)) (filter (\<lambda>n. n_state n = ''active'') (t_nodes d))))))
     (\<lambda>endpoints.
        if endpoints \<noteq> [] then ret endpoints
        else bnd (query (\<lambda>d. Inr (length (t_nodes d)))) (\<lambda>total_nodes.
          if total_nodes > 0 then ret [] else ret (cf_placement_endpoints C)))"

definition class_for_placement :: "service_config \<Rightarrow> string \<Rightarrow> string prog" where
  "class_for_placement C storage_class =
     (let c0 = normalize_storage_class storage_class in
      if c0 = [] \<or> c0 = ''inherit'' then
        bnd (policy_or_none C) (\<lambda>p.
          let c = (case p of Some q \<Rightarrow> if spv_default q \<noteq> [] then spv_default q else c0 | None \<Rightarrow> c0) in
          if c = [] \<or> c = ''inherit'' then ret (cf_default_class C) else ret c)
      else ret c0)"

definition placement_target :: "service_config \<Rightarrow> int \<times> string \<Rightarrow> int prog" where
  "placement_target C bucket_info =
     (case bucket_info of (bucket_target, storage_class) \<Rightarrow>
       if bucket_target > 0 then ret bucket_target
       else bnd (class_for_placement C storage_class) (\<lambda>effective.
         bnd (policy_or_none C) (\<lambda>p.
         let target = (case Option.bind p (\<lambda>q. class_replicas q effective) of
                Some n \<Rightarrow> n | None \<Rightarrow> cf_placement_replicas C) in
         ret (if target \<le> 0 then effective_replica_target effective target else target))))"

definition resolve_placement_endpoints :: "ext \<Rightarrow> service_config \<Rightarrow> string \<Rightarrow> string list prog" where
  "resolve_placement_endpoints E C bucket_id =
     (if cf_backend C \<noteq> ''distributed'' then ret []
      else bnd (active_placement_endpoints C) (\<lambda>available.
        if available = [] then ret []
        else bnd (attempt (bnd (cast_uuid E bucket_id) (\<lambda>b. query (\<lambda>d.
                case find (\<lambda>r. b_id r = b) (t_buckets d) of
                  None \<Rightarrow> Inl PgNoRows
                | Some r \<Rightarrow> Inr (case b_replicas r of None \<Rightarrow> 0 | Some n \<Rightarrow> n, b_class r)))))
          (\<lambda>r. bnd (case r of Inl _ \<Rightarrow> ret (cf_placement_replicas C) | Inr info \<Rightarrow> placement_target C info)
          (\<lambda>target.
            let n = (if target \<le> 0 \<or> target > int (length available) then int (length available) else target) in
            ret (take (nat n) available)))))"

definition insert_placement :: "placement_row \<Rightarrow> database \<Rightarrow> err + (unit \<times> database)" where
  "insert_placement row d =
     (if \<not> list_ex (\<lambda>r. o_id r = p_object row) (t_objects d) then Inl PgForeignKeyViolation
      else if list_ex (\<lambda>p. p_id p = p_id row \<or> (p_object p = p_object row \<and> p_index p = p_index row)) (t_placements d)
      then Inl PgUniqueViolation
      else Inr ((), d\<lparr>t_placements := t_placements d @ [row]\<rparr>))"

fun insert_placements :: "ext \<Rightarrow> int \<Rightarrow> string \<Rightarrow> string \<Rightarrow> int \<Rightarrow> string list \<Rightarrow> unit prog" where
  "insert_placements E t object_id locator index [] = ret ()"
| "insert_placements E t object_id locator index (endpoint0 # es) =
     (let endpoint = trim_space endpoint0 in
      if endpoint = [] then insert_placements E t object_id locator (index + 1) es
      else bnd (new_uuid E) (\<lambda>i.
        bnd (exec (\<lambda>_ d. insert_placement
          \<lparr>p_id = i, p_object = object_id, p_index = index,
           p_node = map_option n_id (find (\<lambda>n. n_endpoint n = endpoint) (t_nodes d)),
           p_locator = locator, p_state = ''stored'', p_endpoint = endpoint, p_created = t, p_updated = t\<rparr> d))
        (\<lambda>_. insert_placements E t object_id locator (index + 1) es)))"

definition record_placements ::
    "ext \<Rightarrow> service_config \<Rightarrow> int \<Rightarrow> string \<Rightarrow> string \<Rightarrow> string list \<Rightarrow> unit prog" where
  "record_placements E C t object_id locator endpoints =
     (if cf_backend C \<noteq> ''distributed'' \<or> endpoints = [] then ret ()
      else bnd (exec (\<lambda>_ d. Inr ((), d\<lparr>t_placements := filter (\<lambda>p. p_object p \<noteq> object_id) (t_placements d)\<rparr>)))
        (\<lambda>_. insert_placements E t object_id locator 0 endpoints))"

section \<open>Statements on the object table\<close>

definition same_key :: "string \<Rightarrow> string \<Rightarrow> object_row \<Rightarrow> bool" where
  "same_key b k r \<longleftrightarrow> o_bucket r = b \<and> o_key r = k"

definition change_objects :: "(object_row list \<Rightarrow> object_row list) \<Rightarrow> database \<Rightarrow> database" where
  "change_objects f d = d\<lparr>t_objects := f (t_objects d)\<rparr>"

definition unset_latest :: "string \<Rightarrow> string \<Rightarrow> object_row list \<Rightarrow> object_row list" where
  "unset_latest b k = map (\<lambda>r. if same_key b k r \<and> o_latest r then r\<lparr>o_latest := False\<rparr> else r)"

definition insert_object :: "object_row \<Rightarrow> database \<Rightarrow> err + (object_row \<times> database)" where
  "insert_object row d =
     (if \<not> list_ex (\<lambda>b. b_id b = o_bucket row) (t_buckets d) then Inl PgForeignKeyViolation
      else if \<not> owner_exists (o_owner row) d then Inl PgForeignKeyViolation
      else if list_ex (\<lambda>r. o_id r = o_id row \<or> (o_latest row \<and> o_latest r \<and> same_key (o_bucket row) (o_key row) r))
                (t_objects d) then Inl PgUniqueViolation
      else Inr (row, change_objects (\<lambda>rows. rows @ [row]) d))"

text \<open>Deleting rows takes their placements with them.\<close>

definition remove_objects :: "(object_row \<Rightarrow> bool) \<Rightarrow> database \<Rightarrow> database" where
  "remove_objects p d =
     (let gone = map o_id (filter p (t_objects d)) in
      d\<lparr>t_objects := filter (\<lambda>r. \<not> p r) (t_objects d),
        t_placements := filter (\<lambda>q. \<not> List.member gone (p_object q)) (t_placements d)\<rparr>)"

definition newest :: "object_row list \<Rightarrow> object_row option" where
  "newest rows = (case sort_key (\<lambda>r. - o_created r) rows of [] \<Rightarrow> None | r # _ \<Rightarrow> Some r)"

definition mark_latest :: "string \<Rightarrow> database \<Rightarrow> err + (unit \<times> database)" where
  "mark_latest i d =
     (let rows = map (\<lambda>r. if o_id r = i then r\<lparr>o_latest := True\<rparr> else r) (t_objects d) in
      if list_ex (\<lambda>r. o_id r = i \<and>
           list_ex (\<lambda>s. o_id s \<noteq> i \<and> o_latest s \<and> same_key (o_bucket r) (o_key r) s) rows) rows
      then Inl PgUniqueViolation
      else Inr ((), change_objects (\<lambda>_. rows) d))"

section \<open>Writing\<close>

definition lookup_existing_object :: "ext \<Rightarrow> string \<Rightarrow> string \<Rightarrow> (int \<times> bool) prog" where
  "lookup_existing_object E bucket_id key =
     bnd (attempt (bnd (cast_uuid E bucket_id) (\<lambda>b. query (\<lambda>d.
            case find (\<lambda>r. same_key b key r \<and> o_deleted r = None \<and> o_latest r \<and> \<not> o_marker r) (t_objects d) of
              None \<Rightarrow> Inl PgNoRows | Some r \<Rightarrow> Inr (o_size r)))))
       (\<lambda>r. case r of
          Inl e \<Rightarrow> if e = PgNoRows then ret (0, False) else fail e
        | Inr bytes_stored \<Rightarrow> ret (bytes_stored, True))"

definition store_new_blob :: "ext \<Rightarrow> service_config \<Rightarrow> string list \<Rightarrow> string \<Rightarrow> bytes \<Rightarrow> unit prog" where
  "store_new_blob E C selected location payload =
     (if resolve_write_backend C selected = ''distributed'' then
        (if \<not> cf_distributed C then fail (Failure ''distributed storage backend is unavailable'')
         else put_to_endpoints E location payload selected)
      else local_put E ApiHost location payload)"

definition insert_version ::
    "ext \<Rightarrow> service_config \<Rightarrow> string \<Rightarrow> put_input \<Rightarrow> string \<Rightarrow> string \<Rightarrow> string list \<Rightarrow> int \<Rightarrow> object_row prog" where
  "insert_version E C bucket_id input location etag selected t =
     bnd (cast_uuid E bucket_id) (\<lambda>b.
     bnd (exec (\<lambda>_ d. Inr ((), change_objects (unset_latest b (pi_key input)) d))) (\<lambda>_.
     bnd (cast_optional_uuid E (pi_created_by input)) (\<lambda>owner.
     bnd (new_uuid E) (\<lambda>i.
     bnd (new_uuid E) (\<lambda>version.
     bnd (exec (\<lambda>_. insert_object
       \<lparr>o_id = i, o_bucket = b, o_key = pi_key input, o_version = version, o_latest = True, o_marker = False,
        o_size = int (length (pi_body input)), o_etag = etag, o_ctype = default_content_type (pi_ctype input),
        o_cache = pi_cache input, o_disp = pi_disp input, o_enc = pi_enc input,
        o_meta = normalize_user_metadata (pi_meta input), o_tags = normalize_tags (pi_tags input),
        o_path = location, o_backend = resolve_write_backend C selected, o_owner = owner,
        o_retain = pi_retain input, o_expire = pi_expire input, o_deleted = None, o_scan = ''pending-scan'',
        o_hold = False, o_created = t\<rparr>)) (\<lambda>row.
     bnd (record_placements E C t (o_id row) location selected) (\<lambda>_.
       ret row)))))))"

definition put_object :: "ext \<Rightarrow> service_config \<Rightarrow> string \<Rightarrow> put_input \<Rightarrow> metadata prog" where
  "put_object E C bucket_id input =
     bnd (external (ret (pi_body input))) (\<lambda>payload.
     bnd (of_result (validate_payload E payload (pi_size input) (pi_md5 input))) (\<lambda>_.
     bnd (new_uuid E) (\<lambda>object_id.
     let location = physical_path (cf_tenant C) bucket_id object_id;
         etag = hex_encode (sha256 E payload) in
     bnd (lookup_existing_object E bucket_id (pi_key input)) (\<lambda>(existing_size, existed).
     bnd (if cf_quotas C
          then check_object_write E bucket_id (pi_created_by input) (word_of_int existing_size)
                 (word_of_int (int (length payload))) existed
          else ret ()) (\<lambda>_.
     bnd (resolve_placement_endpoints E C bucket_id) (\<lambda>selected.
     bnd (store_new_blob E C selected location payload) (\<lambda>_.
     bnd (transaction (insert_version E C bucket_id input location etag selected)) (\<lambda>row.
       ret (metadata_of row)))))))))"

section \<open>Reading\<close>

definition select_object ::
    "ext \<Rightarrow> string \<Rightarrow> string \<Rightarrow> string \<Rightarrow> (object_row \<Rightarrow> bool) \<Rightarrow> object_row prog" where
  "select_object E bucket_id key version_id p =
     bnd (cast_uuid E bucket_id) (\<lambda>b.
     bnd (cast_optional_uuid E version_id) (\<lambda>v. query (\<lambda>d.
       case find (\<lambda>r. same_key b key r \<and> p r \<and> (case v of None \<Rightarrow> o_latest r | Some u \<Rightarrow> o_version r = u))
              (t_objects d) of
         None \<Rightarrow> Inl PgNoRows | Some r \<Rightarrow> Inr r)))"

definition visible :: "object_row \<Rightarrow> bool" where
  "visible r \<longleftrightarrow> o_deleted r = None \<and> \<not> o_marker r"

definition get_version :: "ext \<Rightarrow> service_config \<Rightarrow> string \<Rightarrow> string \<Rightarrow> string \<Rightarrow> (metadata \<times> bytes) prog" where
  "get_version E C bucket_id key version_id =
     bnd (select_object E bucket_id key version_id visible) (\<lambda>row.
     bnd (query (\<lambda>d. case find (\<lambda>r. o_id r = o_id row) (t_objects d) of
            None \<Rightarrow> Inl PgNoRows | Some r \<Rightarrow> Inr (o_backend r))) (\<lambda>backend.
     bnd (store_get E C backend (o_path row)) (\<lambda>body.
       ret (metadata_of row, body))))"

definition get_by_key :: "ext \<Rightarrow> service_config \<Rightarrow> string \<Rightarrow> string \<Rightarrow> (metadata \<times> bytes) prog" where
  "get_by_key E C bucket_id key = get_version E C bucket_id key []"

definition head_object :: "ext \<Rightarrow> string \<Rightarrow> string \<Rightarrow> metadata prog" where
  "head_object E bucket_id key =
     bnd (select_object E bucket_id key [] visible) (\<lambda>row. ret (metadata_of row))"

definition get_tags :: "ext \<Rightarrow> service_config \<Rightarrow> string \<Rightarrow> string \<Rightarrow> string \<Rightarrow> smap prog" where
  "get_tags E C bucket_id key version_id =
     bnd (get_version E C bucket_id key version_id) (\<lambda>(item, _). ret (md_tags item))"

text \<open>\<open>LIKE\<close>: \<open>%\<close> stands for any text, \<open>_\<close> for one character, a backslash quotes the next one.\<close>

fun like :: "string \<Rightarrow> string \<Rightarrow> bool" where
  "like [] s = (s = [])"
| "like (c # ps) s =
     (if c = CHR ''%'' then like ps s \<or> (case s of [] \<Rightarrow> False | _ # xs \<Rightarrow> like (c # ps) xs)
      else if c = CHR ''_'' then (case s of [] \<Rightarrow> False | _ # xs \<Rightarrow> like ps xs)
      else if c = CHR 0x5C then
        (case ps of [] \<Rightarrow> False | q # qs \<Rightarrow> (case s of [] \<Rightarrow> False | x # xs \<Rightarrow> x = q \<and> like qs xs))
      else (case s of [] \<Rightarrow> False | x # xs \<Rightarrow> x = c \<and> like ps xs))"

definition list_objects :: "ext \<Rightarrow> string \<Rightarrow> string \<Rightarrow> metadata list prog" where
  "list_objects E bucket_id prefix_text =
     bnd (cast_uuid E bucket_id) (\<lambda>b. query (\<lambda>d. Inr (map metadata_of (sort_key o_key
       (filter (\<lambda>r. o_bucket r = b \<and> o_deleted r = None \<and> o_latest r \<and> \<not> o_marker r \<and>
          like (prefix_text @ ''%'') (o_key r)) (t_objects d))))))"

definition list_versions :: "ext \<Rightarrow> string \<Rightarrow> string \<Rightarrow> metadata list prog" where
  "list_versions E bucket_id key =
     bnd (cast_uuid E bucket_id) (\<lambda>b. query (\<lambda>d. Inr (map metadata_of
       (sort_key (\<lambda>r. - o_created r) (filter (same_key b key) (t_objects d))))))"

definition list_all_versions :: "ext \<Rightarrow> string \<Rightarrow> string \<Rightarrow> metadata list prog" where
  "list_all_versions E bucket_id prefix_text =
     bnd (cast_uuid E bucket_id) (\<lambda>b. query (\<lambda>d. Inr (map metadata_of
       (sort_key o_key (sort_key (\<lambda>r. - o_created r)
         (filter (\<lambda>r. o_bucket r = b \<and> o_deleted r = None \<and> like (prefix_text @ ''%'') (o_key r))
           (t_objects d)))))))"

definition copy_object ::
    "ext \<Rightarrow> service_config \<Rightarrow> string \<Rightarrow> string \<Rightarrow> string \<Rightarrow> string \<Rightarrow> put_input \<Rightarrow> metadata prog" where
  "copy_object E C source_bucket source_key source_version destination input =
     bnd (get_version E C source_bucket source_key source_version) (\<lambda>(source, body).
       put_object E C destination (input\<lparr>
         pi_ctype := (if pi_ctype input = [] then md_ctype source else pi_ctype input),
         pi_cache := (if pi_cache input = [] then md_cache source else pi_cache input),
         pi_disp := (if pi_disp input = [] then md_disp source else pi_disp input),
         pi_enc := (if pi_enc input = [] then md_enc source else pi_enc input),
         pi_meta := (if pi_meta input = None then Some (md_meta source) else pi_meta input),
         pi_tags := (if pi_tags input = None then Some (md_tags source) else pi_tags input),
         pi_size := int (length body), pi_body := body\<rparr>))"

section \<open>Deleting and restoring\<close>

definition delete_object :: "ext \<Rightarrow> string \<Rightarrow> string \<Rightarrow> unit prog" where
  "delete_object E bucket_id key =
     bnd (cast_uuid E bucket_id) (\<lambda>b.
     bnd (query (\<lambda>d. case find (\<lambda>r. same_key b key r \<and> o_latest r) (t_objects d) of
            None \<Rightarrow> Inl PgNoRows | Some r \<Rightarrow> Inr (o_retain r, o_hold r))) (\<lambda>(retain, hold).
     bnd (guard (\<not> hold) ErrLegalHoldActive) (\<lambda>_.
     bnd now (\<lambda>time.
     bnd (guard (case retain of None \<Rightarrow> True | Some r \<Rightarrow> \<not> r > time) ErrRetentionActive) (\<lambda>_.
       transaction (\<lambda>t.
         bnd (exec (\<lambda>_ d. Inr ((), change_objects (unset_latest b key) d))) (\<lambda>_.
         bnd (new_uuid E) (\<lambda>i.
         bnd (new_uuid E) (\<lambda>version.
         bnd (exec (\<lambda>_. insert_object
           \<lparr>o_id = i, o_bucket = b, o_key = key, o_version = version, o_latest = True, o_marker = True,
            o_size = 0, o_etag = [], o_ctype = ''application/octet-stream'', o_cache = [], o_disp = [],
            o_enc = [], o_meta = Map.empty, o_tags = Map.empty, o_path = [], o_backend = ''filesystem'',
            o_owner = None, o_retain = None, o_expire = None, o_deleted = None, o_scan = ''clean'',
            o_hold = False, o_created = t\<rparr>)) (\<lambda>_. ret ()))))))))))"

definition promote_newest :: "string \<Rightarrow> string \<Rightarrow> (object_row \<Rightarrow> bool) \<Rightarrow> database \<Rightarrow> err + (object_row option \<times> database)" where
  "promote_newest b key p d =
     (case newest (filter (\<lambda>r. same_key b key r \<and> o_deleted r = None \<and> p r) (t_objects d)) of
        None \<Rightarrow> Inr (None, d)
      | Some r \<Rightarrow> (case mark_latest (o_id r) d of
            Inl e \<Rightarrow> Inl e | Inr (_, d') \<Rightarrow> Inr (Some (r\<lparr>o_latest := True\<rparr>), d')))"

definition remove_version :: "string \<Rightarrow> string \<Rightarrow> object_row \<Rightarrow> (string \<times> string) prog" where
  "remove_version b key row =
     bnd (guard (\<not> o_hold row) ErrLegalHoldActive) (\<lambda>_.
     bnd now (\<lambda>time.
     bnd (guard (case o_retain row of None \<Rightarrow> True | Some r \<Rightarrow> \<not> r > time) ErrRetentionActive) (\<lambda>_.
     bnd (exec (\<lambda>_ d. Inr ((), remove_objects (\<lambda>r. o_id r = o_id row) d))) (\<lambda>_.
     bnd (if o_latest row then
            bnd (exec (\<lambda>_ d. Inr ((), change_objects
              (map (\<lambda>r. if same_key b key r then r\<lparr>o_latest := False\<rparr> else r)) d))) (\<lambda>_.
            bnd (exec (\<lambda>_. promote_newest b key (\<lambda>_. True))) (\<lambda>_. ret ()))
          else ret ()) (\<lambda>_.
       ret (o_path row, o_backend row))))))"

definition delete_version :: "ext \<Rightarrow> service_config \<Rightarrow> string \<Rightarrow> string \<Rightarrow> string \<Rightarrow> unit prog" where
  "delete_version E C bucket_id key version_id =
     bnd (guard (go_uuid E version_id) ErrVersionNotFound) (\<lambda>_.
     bnd (transaction (\<lambda>t.
       bnd (cast_uuid E bucket_id) (\<lambda>b.
       bnd (cast_uuid E version_id) (\<lambda>v.
       bnd (attempt (query (\<lambda>d. case find (\<lambda>r. same_key b key r \<and> o_version r = v \<and> o_deleted r = None)
              (t_objects d) of None \<Rightarrow> Inl PgNoRows | Some r \<Rightarrow> Inr r))) (\<lambda>found. case found of
         Inl e \<Rightarrow> fail (if e = PgNoRows then ErrVersionNotFound else e)
       | Inr row \<Rightarrow> remove_version b key row)))))
     (\<lambda>(path, backend). if path \<noteq> [] then store_delete E C backend path else ret ()))"

definition restore_latest :: "ext \<Rightarrow> string \<Rightarrow> string \<Rightarrow> metadata prog" where
  "restore_latest E bucket_id key =
     transaction (\<lambda>t.
       bnd (cast_uuid E bucket_id) (\<lambda>b.
       bnd (exec (\<lambda>_ d. Inr ((), change_objects (unset_latest b key) d))) (\<lambda>_.
       bnd (exec (\<lambda>_. promote_newest b key (\<lambda>r. \<not> o_marker r))) (\<lambda>restored.
         case restored of None \<Rightarrow> fail ErrNoRestorableVersion | Some r \<Rightarrow> ret (metadata_of r)))))"

definition expires :: "int \<Rightarrow> object_row \<Rightarrow> bool" where
  "expires t r \<longleftrightarrow> o_deleted r = None \<and> (case o_expire r of None \<Rightarrow> False | Some e \<Rightarrow> e \<le> t) \<and>
     \<not> o_hold r \<and> (case o_retain r of None \<Rightarrow> True | Some e \<Rightarrow> e \<le> t)"

definition apply_lifecycle_expirations :: "int \<Rightarrow> int prog" where
  "apply_lifecycle_expirations t =
     exec (\<lambda>_ d. Inr (int (length (filter (expires t) (t_objects d))),
       change_objects (map (\<lambda>r. if expires t r then r\<lparr>o_deleted := Some t\<rparr> else r)) d))"

definition deleted_by :: "int \<Rightarrow> object_row \<Rightarrow> bool" where
  "deleted_by cutoff r \<longleftrightarrow> (case o_deleted r of None \<Rightarrow> False | Some t \<Rightarrow> t \<le> cutoff)"

definition purge_one :: "ext \<Rightarrow> service_config \<Rightarrow> int \<Rightarrow> string \<times> string \<Rightarrow> int prog" where
  "purge_one E C cutoff item =
     (case item of (i, path) \<Rightarrow>
       bnd (lookup_stored_backend i) (\<lambda>backend.
       bnd (store_delete E C backend path) (\<lambda>_.
       exec (\<lambda>_ d. Inr (if list_ex (\<lambda>r. o_id r = i \<and> deleted_by cutoff r) (t_objects d) then 1 else 0,
         remove_objects (\<lambda>r. o_id r = i \<and> deleted_by cutoff r) d)))))"

definition purge_deleted_before :: "ext \<Rightarrow> service_config \<Rightarrow> int \<Rightarrow> (int \<times> err option) prog" where
  "purge_deleted_before E C cutoff =
     bnd (query (\<lambda>d. Inr (map (\<lambda>r. (o_id r, o_path r)) (filter (deleted_by cutoff) (t_objects d)))))
       (count_each (purge_one E C cutoff) 0)"

section \<open>Holds and tags\<close>

definition update_object ::
    "ext \<Rightarrow> string \<Rightarrow> string \<Rightarrow> string \<Rightarrow> (object_row \<Rightarrow> bool) \<Rightarrow> (object_row \<Rightarrow> object_row) \<Rightarrow> metadata prog" where
  "update_object E bucket_id key version_id p f =
     bnd (cast_uuid E bucket_id) (\<lambda>b.
     bnd (cast_optional_uuid E version_id) (\<lambda>v. exec (\<lambda>_ d.
       let hit = (\<lambda>r. same_key b key r \<and> p r \<and> (case v of None \<Rightarrow> o_latest r | Some u \<Rightarrow> o_version r = u)) in
       case find hit (t_objects d) of
         None \<Rightarrow> Inl PgNoRows
       | Some r \<Rightarrow> Inr (metadata_of (f r), change_objects (map (\<lambda>r. if hit r then f r else r)) d))))"

definition set_legal_hold :: "ext \<Rightarrow> string \<Rightarrow> string \<Rightarrow> string \<Rightarrow> bool \<Rightarrow> metadata prog" where
  "set_legal_hold E bucket_id key version_id hold =
     update_object E bucket_id key version_id (\<lambda>r. o_deleted r = None) (\<lambda>r. r\<lparr>o_hold := hold\<rparr>)"

definition put_tags :: "ext \<Rightarrow> string \<Rightarrow> string \<Rightarrow> string \<Rightarrow> smap option \<Rightarrow> metadata prog" where
  "put_tags E bucket_id key version_id tags =
     update_object E bucket_id key version_id visible (\<lambda>r. r\<lparr>o_tags := normalize_tags tags\<rparr>)"

section \<open>Migration to the distributed store\<close>

definition pending_migration :: "object_row \<Rightarrow> bool" where
  "pending_migration r \<longleftrightarrow> o_deleted r = None \<and> \<not> o_marker r \<and> o_path r \<noteq> [] \<and> o_backend r \<noteq> ''distributed''"

definition migrate_one :: "ext \<Rightarrow> service_config \<Rightarrow> string \<times> string \<times> string \<Rightarrow> int prog" where
  "migrate_one E C item =
     (case item of (i, bucket_id, path) \<Rightarrow>
       bnd (resolve_placement_endpoints E C bucket_id) (\<lambda>selected.
       bnd (guard (selected \<noteq> []) (Failure ''no active distributed storage nodes are available for migration'')) (\<lambda>_.
       bnd (local_get E ApiHost path) (\<lambda>payload.
       bnd (put_to_endpoints E path payload selected) (\<lambda>_.
       bnd (transaction (\<lambda>t.
         bnd (exec (\<lambda>_ d. Inr ((), change_objects
           (map (\<lambda>r. if o_id r = i then r\<lparr>o_backend := ''distributed''\<rparr> else r)) d))) (\<lambda>_.
           record_placements E C t i path selected))) (\<lambda>_.
       bnd (ignore_error (local_delete E ApiHost path)) (\<lambda>_.
         ret 1)))))))"

definition migrate_local_objects :: "ext \<Rightarrow> service_config \<Rightarrow> int \<Rightarrow> (int \<times> err option) prog" where
  "migrate_local_objects E C limit0 =
     (if \<not> cf_distributed C then fail (Failure ''distributed storage backend is unavailable'')
      else let limit = (if limit0 \<le> 0 \<or> limit0 > 1000 then 100 else limit0) in
        bnd (query (\<lambda>d. Inr (map (\<lambda>r. (o_id r, o_bucket r, o_path r))
               (take (nat limit) (sort_key o_created (filter pending_migration (t_objects d)))))))
          (count_each (migrate_one E C) 0))"

record migration_status =
  ms_pending_objects :: int
  ms_pending_bytes :: int
  ms_distributed_objects :: int
  ms_distributed_bytes :: int

definition migration_status_of :: "migration_status prog" where
  "migration_status_of = query (\<lambda>d.
     let stored = filter (\<lambda>r. o_deleted r = None \<and> \<not> o_marker r \<and> o_path r \<noteq> []) (t_objects d);
         pending = filter (\<lambda>r. o_backend r \<noteq> ''distributed'') stored;
         moved = filter (\<lambda>r. o_backend r = ''distributed'') stored in
     Inr \<lparr>ms_pending_objects = int (length pending), ms_pending_bytes = sum_list (map o_size pending),
          ms_distributed_objects = int (length moved), ms_distributed_bytes = sum_list (map o_size moved)\<rparr>)"

end
