(* ===== verification/Accounts.thy ===== *)
theory Accounts
  imports Objects
begin

text \<open>
  Accounts: sealed secrets (\<open>backend/internal/crypto\<close>), S3 credentials
  (\<open>internal/credentials\<close>), users (\<open>internal/users\<close>), sessions (\<open>internal/auth\<close>) and admin API
  tokens (\<open>internal/adminapi\<close>). bcrypt and the signature of a JWT are parameters of \<open>ext\<close>; the
  claims, their expiry and everything kept in the database are modelled. The tables keep hashes
  of tokens and secrets; \<open>hash_secret\<close> is that hash.
\<close>

section \<open>Sealed secrets\<close>

definition seal_string :: "ext \<Rightarrow> string \<Rightarrow> string prog" where
  "seal_string E plaintext =
     bnd (random_bytes E nonce_size) (\<lambda>nonce.
       ret (b64_encode E (nonce @ aead_seal E ApiHost nonce plaintext)))"

definition open_string :: "ext \<Rightarrow> string \<Rightarrow> err + string" where
  "open_string E ciphertext =
     (case b64_decode E ciphertext of
        None \<Rightarrow> Inl (Failure ''decode ciphertext'')
      | Some payload \<Rightarrow>
          if length payload < nonce_size then Inl (Failure ''ciphertext too short'')
          else (case aead_open E ApiHost (take nonce_size payload) (drop nonce_size payload) of
             None \<Rightarrow> Inl (Failure ''decrypt ciphertext'')
           | Some plaintext \<Rightarrow> Inr plaintext))"

definition hash_secret :: "ext \<Rightarrow> string \<Rightarrow> string" where
  "hash_secret E secret = hex_encode (sha256 E secret)"

text \<open>base32 without padding, five bits at a time.\<close>

definition char_bits :: "char \<Rightarrow> bool list" where
  "char_bits c = (case c of Char b0 b1 b2 b3 b4 b5 b6 b7 \<Rightarrow> [b7, b6, b5, b4, b3, b2, b1, b0])"

fun bits_value :: "nat \<Rightarrow> bool list \<Rightarrow> nat" where
  "bits_value acc [] = acc"
| "bits_value acc (b # bs) = bits_value (2 * acc + (if b then 1 else 0)) bs"

fun base32_groups :: "bool list \<Rightarrow> string" where
  "base32_groups [] = []"
| "base32_groups (b0 # bs) =
     ''ABCDEFGHIJKLMNOPQRSTUVWXYZ234567'' ! bits_value 0 (take 5 (b0 # bs @ replicate 4 False))
       # base32_groups (drop 4 bs)"

definition base32_encode :: "bytes \<Rightarrow> string" where
  "base32_encode b = base32_groups (concat (map char_bits b))"

definition random_key :: "ext \<Rightarrow> nat \<Rightarrow> string prog" where
  "random_key E n = bnd (random_bytes E n) (\<lambda>b. ret (base32_encode b))"

section \<open>Credentials\<close>

record new_credential =
  nc_access :: string
  nc_secret :: string
  nc_role :: string
  nc_description :: string

record credential_info =
  ci_user :: string
  ci_role :: string
  ci_hash :: string
  ci_secret :: string

definition text_of :: "string option \<Rightarrow> string" where
  "text_of x = (case x of None \<Rightarrow> [] | Some s \<Rightarrow> s)"

definition insert_credential :: "credential_row \<Rightarrow> database \<Rightarrow> err + (unit \<times> database)" where
  "insert_credential row d =
     (if \<not> owner_exists (c_user row) d then Inl PgForeignKeyViolation
      else if list_ex (\<lambda>r. c_access r = c_access row) (t_credentials d) then Inl PgUniqueViolation
      else Inr ((), d\<lparr>t_credentials := t_credentials d @ [row]\<rparr>))"

definition create_credential :: "ext \<Rightarrow> string \<Rightarrow> string \<Rightarrow> string \<Rightarrow> new_credential prog" where
  "create_credential E user_id role description =
     bnd (random_key E 12) (\<lambda>access_key.
     bnd (random_key E 24) (\<lambda>secret_key.
     bnd (seal_string E secret_key) (\<lambda>ciphertext.
     bnd (cast_optional_uuid E user_id) (\<lambda>u.
     bnd (exec (\<lambda>t. insert_credential
       \<lparr>c_user = u, c_access = access_key, c_hash = hash_secret E secret_key, c_cipher = ciphertext,
        c_desc = description, c_role = role, c_last_used = None, c_created = t\<rparr>)) (\<lambda>_.
     ret \<lparr>nc_access = access_key, nc_secret = secret_key, nc_role = role, nc_description = description\<rparr>)))))"

definition find_credential :: "string \<Rightarrow> database \<Rightarrow> err + credential_row" where
  "find_credential access_key d =
     (case find (\<lambda>r. c_access r = access_key) (t_credentials d) of None \<Rightarrow> Inl PgNoRows | Some r \<Rightarrow> Inr r)"

text \<open>The map that \<open>Validate\<close> returns has no entry for the access key.\<close>

definition validate_credential :: "ext \<Rightarrow> string \<Rightarrow> string \<Rightarrow> smap prog" where
  "validate_credential E access_key secret_key =
     bnd (query (find_credential access_key)) (\<lambda>r.
       if c_hash r \<noteq> hash_secret E secret_key then fail (Failure ''invalid secret'')
       else bnd (ignore_error (exec (\<lambda>t d. Inr ((), d\<lparr>t_credentials :=
              map (\<lambda>c. if c_access c = access_key then c\<lparr>c_last_used := Some t\<rparr> else c) (t_credentials d)\<rparr>))))
         (\<lambda>_. ret [''userID'' \<mapsto> text_of (c_user r), ''role'' \<mapsto> c_role r]))"

definition lookup_credential :: "ext \<Rightarrow> string \<Rightarrow> credential_info prog" where
  "lookup_credential E access_key =
     bnd (query (find_credential access_key)) (\<lambda>r.
     bnd (if c_cipher r = [] then ret [] else of_result (open_string E (c_cipher r))) (\<lambda>secret.
       ret \<lparr>ci_user = text_of (c_user r), ci_role = c_role r, ci_hash = c_hash r, ci_secret = secret\<rparr>))"

record credential_view =
  cw_access :: string
  cw_user :: string
  cw_role :: string
  cw_description :: string
  cw_last_used :: "int option"
  cw_created :: int

definition list_credentials :: "credential_view list prog" where
  "list_credentials = query (\<lambda>d. Inr (map (\<lambda>r. \<lparr>cw_access = c_access r, cw_user = text_of (c_user r),
     cw_role = c_role r, cw_description = c_desc r, cw_last_used = c_last_used r, cw_created = c_created r\<rparr>)
     (sort_key (\<lambda>r. - c_created r) (t_credentials d))))"

definition update_credential_role :: "string \<Rightarrow> string \<Rightarrow> unit prog" where
  "update_credential_role access_key role =
     exec (\<lambda>_ d. Inr ((), d\<lparr>t_credentials :=
       map (\<lambda>c. if c_access c = access_key then c\<lparr>c_role := role\<rparr> else c) (t_credentials d)\<rparr>))"

section \<open>Users\<close>

record user_view =
  us_id :: string
  us_email :: string
  us_role :: string
  us_must_change :: bool
  us_created :: int

definition list_users :: "user_view list prog" where
  "list_users = query (\<lambda>d. Inr (map (\<lambda>u. \<lparr>us_id = u_id u, us_email = u_email u, us_role = u_role u,
     us_must_change = u_must_change u, us_created = u_created u\<rparr>) (sort_key u_created (t_users d))))"

definition update_user :: "(user_row \<Rightarrow> bool) \<Rightarrow> (user_row \<Rightarrow> user_row) \<Rightarrow> database \<Rightarrow> database" where
  "update_user p f d = d\<lparr>t_users := map (\<lambda>u. if p u then f u else u) (t_users d)\<rparr>"

definition update_user_role :: "ext \<Rightarrow> string \<Rightarrow> string \<Rightarrow> unit prog" where
  "update_user_role E user_id role =
     bnd (cast_uuid E user_id) (\<lambda>u.
       exec (\<lambda>_ d. Inr ((), update_user (\<lambda>r. u_id r = u) (\<lambda>r. r\<lparr>u_role := role\<rparr>) d)))"

text \<open>An update that sets the provider is subject to the unique index on provider and subject.\<close>

definition change_user :: "string \<Rightarrow> (user_row \<Rightarrow> user_row) \<Rightarrow> database \<Rightarrow> err + (unit \<times> database)" where
  "change_user i f d =
     (let rows = map (\<lambda>u. if u_id u = i then f u else u) (t_users d) in
      if list_ex (\<lambda>u. u_id u = i \<and> u_subject u \<noteq> [] \<and>
           list_ex (\<lambda>v. u_id v \<noteq> i \<and> u_provider v = u_provider u \<and> u_subject v = u_subject u) rows) rows
      then Inl PgUniqueViolation
      else Inr ((), d\<lparr>t_users := rows\<rparr>))"

definition insert_user :: "user_row \<Rightarrow> database \<Rightarrow> err + (user_row \<times> database)" where
  "insert_user row d =
     (if list_ex (\<lambda>r. u_id r = u_id row \<or> u_email r = u_email row \<or>
           (u_subject row \<noteq> [] \<and> u_provider r = u_provider row \<and> u_subject r = u_subject row)) (t_users d)
      then Inl PgUniqueViolation
      else Inr (row, d\<lparr>t_users := t_users d @ [row]\<rparr>))"

section \<open>Sessions\<close>

record auth_config =
  ac_secret :: string
  ac_issuer :: string
  ac_access_ttl :: int
  ac_refresh_ttl :: int

record claims =
  cl_user :: string
  cl_role :: string
  cl_email :: string
  cl_subject_type :: string
  cl_subject :: string

record session =
  se_access :: string
  se_refresh :: string
  se_must_change :: bool
  se_user :: string
  se_email :: string
  se_role :: string

definition invalid_login_password_hash :: string where
  "invalid_login_password_hash = ''$2a$10$N9qo8uLOickgx2ZMRZoMyeIjZAgcfl7p92ldGxad68LJZdL17lhWy''"

definition hash_password :: "ext \<Rightarrow> string \<Rightarrow> string prog" where
  "hash_password E password = (\<lambda>w. (bcrypt_hash E (rnd_pos w) password, w\<lparr>rnd_pos := Suc (rnd_pos w)\<rparr>))"

definition sign_token :: "ext \<Rightarrow> auth_config \<Rightarrow> string \<Rightarrow> string \<Rightarrow> string \<Rightarrow> int \<Rightarrow> string prog" where
  "sign_token E A user_id email role ttl =
     bnd now (\<lambda>t. ret (jwt_sign E (ac_secret A) (JObj
       [(''userId'', JStr user_id), (''role'', JStr role), (''email'', JStr email),
        (''subjectType'', JStr ''user''), (''subjectId'', JStr user_id), (''iss'', JStr (ac_issuer A)),
        (''sub'', JStr user_id), (''exp'', JNum (unix_seconds (t + ttl))), (''iat'', JNum (unix_seconds t))])))"

text \<open>\<open>Parse\<close>: the signature, then \<open>exp\<close> and \<open>nbf\<close> where the claims have them; a claim of
  another type than the field is an error, a missing one leaves the field empty.\<close>

definition claim_string :: "(string \<times> json) list \<Rightarrow> string \<Rightarrow> string option" where
  "claim_string members name =
     (case map_of members name of None \<Rightarrow> Some [] | Some JNull \<Rightarrow> Some [] | Some (JStr s) \<Rightarrow> Some s | _ \<Rightarrow> None)"

definition claim_time :: "(string \<times> json) list \<Rightarrow> string \<Rightarrow> int option option" where
  "claim_time members name =
     (case map_of members name of None \<Rightarrow> Some None | Some JNull \<Rightarrow> Some None
      | Some (JNum n) \<Rightarrow> Some (Some n) | _ \<Rightarrow> None)"

definition decode_claims :: "json \<Rightarrow> claims option" where
  "decode_claims c = (case c of
     JObj members \<Rightarrow>
       (case (claim_string members ''userId'', claim_string members ''role'', claim_string members ''email'',
              claim_string members ''subjectType'', claim_string members ''subjectId'') of
          (Some u, Some r, Some e, Some st, Some si) \<Rightarrow>
            Some \<lparr>cl_user = u, cl_role = r, cl_email = e, cl_subject_type = st, cl_subject = si\<rparr>
        | _ \<Rightarrow> None)
   | _ \<Rightarrow> None)"

definition times_valid :: "json \<Rightarrow> int \<Rightarrow> bool" where
  "times_valid c t = (case c of
     JObj members \<Rightarrow>
       (case (claim_time members ''exp'', claim_time members ''nbf'') of
          (Some e, Some n) \<Rightarrow>
            (case e of None \<Rightarrow> True | Some x \<Rightarrow> t < x * 1000000000) \<and>
            (case n of None \<Rightarrow> True | Some x \<Rightarrow> x * 1000000000 \<le> t)
        | _ \<Rightarrow> False)
   | _ \<Rightarrow> False)"

definition parse_token :: "ext \<Rightarrow> auth_config \<Rightarrow> string \<Rightarrow> claims prog" where
  "parse_token E A token =
     bnd now (\<lambda>t. case jwt_open E (ac_secret A) token of
        None \<Rightarrow> fail (Failure ''invalid token'')
      | Some c \<Rightarrow> (case decode_claims c of
            None \<Rightarrow> fail (Failure ''invalid token'')
          | Some cl \<Rightarrow> if times_valid c t then ret cl else fail (Failure ''invalid token'')))"

definition insert_refresh :: "refresh_row \<Rightarrow> database \<Rightarrow> err + (unit \<times> database)" where
  "insert_refresh row d =
     (if \<not> list_ex (\<lambda>u. u_id u = rt_user row) (t_users d) then Inl PgForeignKeyViolation
      else Inr ((), d\<lparr>t_refresh := t_refresh d @ [row]\<rparr>))"

definition issue_session :: "ext \<Rightarrow> auth_config \<Rightarrow> string \<Rightarrow> string \<Rightarrow> string \<Rightarrow> bool \<Rightarrow> session prog" where
  "issue_session E A user_id email role must_change =
     bnd (sign_token E A user_id email role (ac_access_ttl A)) (\<lambda>access_token.
     bnd (new_uuid E) (\<lambda>refresh_plain.
     bnd now (\<lambda>t.
     bnd (cast_uuid E user_id) (\<lambda>u.
     bnd (exec (\<lambda>_. insert_refresh \<lparr>rt_user = u, rt_hash = hash_secret E refresh_plain,
            rt_expires = t + ac_refresh_ttl A\<rparr>)) (\<lambda>_.
     ret \<lparr>se_access = access_token, se_refresh = refresh_plain, se_must_change = must_change,
          se_user = user_id, se_email = email, se_role = role\<rparr>)))))"

definition ensure_bootstrap_admin :: "ext \<Rightarrow> string \<Rightarrow> string \<Rightarrow> unit prog" where
  "ensure_bootstrap_admin E email password =
     bnd (query (\<lambda>d. Inr (list_ex (\<lambda>u. u_role u = ''superadmin'') (t_users d)))) (\<lambda>exists.
       if exists then ret ()
       else bnd (hash_password E password) (\<lambda>h.
            bnd (new_uuid E) (\<lambda>i.
            bnd (exec (\<lambda>t. insert_user \<lparr>u_id = i, u_email = email, u_role = ''superadmin'', u_hash = h,
                   u_must_change = True, u_provider = ''local'', u_subject = [], u_created = t\<rparr>)) (\<lambda>_. ret ()))))"

definition find_user :: "(user_row \<Rightarrow> bool) \<Rightarrow> database \<Rightarrow> err + user_row" where
  "find_user p d = (case find p (t_users d) of None \<Rightarrow> Inl PgNoRows | Some u \<Rightarrow> Inr u)"

definition login :: "ext \<Rightarrow> auth_config \<Rightarrow> string \<Rightarrow> string \<Rightarrow> session prog" where
  "login E A email password =
     bnd (attempt (query (find_user (\<lambda>u. u_email u = email)))) (\<lambda>found. case found of
        Inl e \<Rightarrow> fail (if e = PgNoRows then ErrInvalidCredentials else e)
      | Inr u \<Rightarrow>
          if u_provider u \<noteq> ''local'' then fail ErrInvalidCredentials
          else if \<not> bcrypt_ok E (u_hash u) password then fail ErrInvalidCredentials
          else issue_session E A (u_id u) email (u_role u) (u_must_change u))"

text \<open>The row of a refresh token that is still valid, with its user.\<close>

definition find_refresh :: "string \<Rightarrow> int \<Rightarrow> database \<Rightarrow> err + user_row" where
  "find_refresh h t d =
     (case List.map_filter (\<lambda>r. if rt_hash r = h \<and> rt_expires r > t
             then find (\<lambda>u. u_id u = rt_user r) (t_users d) else None) (t_refresh d) of
        [] \<Rightarrow> Inl PgNoRows
      | u # _ \<Rightarrow> Inr u)"

definition drop_refresh :: "(refresh_row \<Rightarrow> bool) \<Rightarrow> database \<Rightarrow> database" where
  "drop_refresh p d = d\<lparr>t_refresh := filter (\<lambda>r. \<not> p r) (t_refresh d)\<rparr>"

definition refresh :: "ext \<Rightarrow> auth_config \<Rightarrow> string \<Rightarrow> (string \<times> string) prog" where
  "refresh E A refresh_token =
     (let h = hash_secret E refresh_token in
      transaction (\<lambda>t.
        bnd (attempt (query (find_refresh h t))) (\<lambda>found. case found of
           Inl _ \<Rightarrow> fail (Failure ''invalid refresh token'')
         | Inr u \<Rightarrow>
             bnd (exec (\<lambda>_ d. Inr ((), drop_refresh (\<lambda>r. rt_hash r = h) d))) (\<lambda>_.
             bnd (issue_session E A (u_id u) (u_email u) (u_role u) False) (\<lambda>s.
             ret (se_access s, se_refresh s))))))"

definition change_password :: "ext \<Rightarrow> string \<Rightarrow> string \<Rightarrow> string \<Rightarrow> unit prog" where
  "change_password E user_id current_password next_password =
     (if length next_password < 12 then fail (Failure ''new password must be at least 12 characters'')
      else bnd (attempt (bnd (cast_uuid E user_id) (\<lambda>u. query (find_user (\<lambda>r. u_id r = u))))) (\<lambda>found. case found of
        Inl _ \<Rightarrow> fail (Failure ''user not found'')
      | Inr row \<Rightarrow>
          if \<not> bcrypt_ok E (u_hash row) current_password then fail (Failure ''current password is incorrect'')
          else bnd (hash_password E next_password) (\<lambda>next_hash.
               bnd (cast_uuid E user_id) (\<lambda>u.
               exec (\<lambda>_. change_user u
                 (\<lambda>r. r\<lparr>u_hash := next_hash, u_must_change := False, u_provider := ''local''\<rparr>))))))"

definition logout :: "ext \<Rightarrow> string \<Rightarrow> unit prog" where
  "logout E refresh_token =
     exec (\<lambda>_ d. Inr ((), drop_refresh (\<lambda>r. rt_hash r = hash_secret E refresh_token) d))"

definition logout_all :: "ext \<Rightarrow> string \<Rightarrow> unit prog" where
  "logout_all E user_id =
     bnd (cast_uuid E user_id) (\<lambda>u. exec (\<lambda>_ d. Inr ((), drop_refresh (\<lambda>r. rt_user r = u) d)))"

definition link_oidc_user ::
    "ext \<Rightarrow> string \<Rightarrow> string \<Rightarrow> string \<Rightarrow> string \<Rightarrow> int \<Rightarrow> (string \<times> string \<times> bool) prog" where
  "link_oidc_user E issuer subject email mapped_role t =
     bnd (attempt (query (find_user (\<lambda>u. u_email u = email)))) (\<lambda>found. case found of
        Inr u \<Rightarrow>
          bnd (exec (\<lambda>_. change_user (u_id u)
            (\<lambda>r. r\<lparr>u_provider := issuer, u_subject := subject, u_role := mapped_role\<rparr>))) (\<lambda>_.
          ret (u_id u, mapped_role, u_must_change u))
      | Inl e \<Rightarrow>
          if e \<noteq> PgNoRows then fail e
          else bnd (new_uuid E) (\<lambda>random_password.
            bnd (hash_password E random_password) (\<lambda>h.
            bnd (new_uuid E) (\<lambda>i.
            bnd (exec (\<lambda>_. insert_user \<lparr>u_id = i, u_email = email, u_role = mapped_role, u_hash = h,
                   u_must_change = False, u_provider = issuer, u_subject = subject, u_created = t\<rparr>)) (\<lambda>u.
            ret (u_id u, u_role u, u_must_change u))))))"

text \<open>\<open>email_verified\<close> has no influence, as in the code.\<close>

definition login_oidc ::
    "ext \<Rightarrow> auth_config \<Rightarrow> string \<Rightarrow> string \<Rightarrow> string \<Rightarrow> bool \<Rightarrow> string \<Rightarrow> session prog" where
  "login_oidc E A issuer subject email email_verified mapped_role0 =
     (if subject = [] \<or> email = [] then fail (Failure ''oidc subject and email are required'')
      else
        let mapped_role = (if mapped_role0 = [] then ''admin'' else mapped_role0) in
        bnd (transaction (\<lambda>t.
          bnd (attempt (query (find_user (\<lambda>u. u_provider u = issuer \<and> u_subject u = subject)))) (\<lambda>found. case found of
            Inr u \<Rightarrow>
              if mapped_role \<noteq> [] \<and> mapped_role \<noteq> u_role u then
                bnd (exec (\<lambda>_ d. Inr ((), update_user (\<lambda>r. u_id r = u_id u) (\<lambda>r. r\<lparr>u_role := mapped_role\<rparr>) d)))
                  (\<lambda>_. ret (u_id u, mapped_role, u_must_change u))
              else ret (u_id u, u_role u, u_must_change u)
          | Inl e \<Rightarrow> if e = PgNoRows then link_oidc_user E issuer subject email mapped_role t else fail e)))
        (\<lambda>(i, role, must_change). issue_session E A i email role must_change))"

section \<open>Admin API tokens\<close>

record issued_admin_token =
  ia_id :: string
  ia_token :: string
  ia_role :: string
  ia_description :: string
  ia_created :: int
  ia_expires :: int

definition random_admin_token :: "ext \<Rightarrow> string prog" where
  "random_admin_token E = bnd (random_bytes E 20) (\<lambda>raw. ret (''hsat_'' @ to_lower (base32_encode raw)))"

definition insert_admin_token :: "admin_token_row \<Rightarrow> database \<Rightarrow> err + (admin_token_row \<times> database)" where
  "insert_admin_token row d =
     (if \<not> owner_exists (at_creator row) d then Inl PgForeignKeyViolation
      else if list_ex (\<lambda>r. at_id r = at_id row \<or> at_hash r = at_hash row) (t_admin_tokens d) then Inl PgUniqueViolation
      else Inr (row, d\<lparr>t_admin_tokens := t_admin_tokens d @ [row]\<rparr>))"

definition create_admin_token ::
    "ext \<Rightarrow> string \<Rightarrow> string \<Rightarrow> string \<Rightarrow> int \<Rightarrow> issued_admin_token prog" where
  "create_admin_token E created_by role description expires_at =
     bnd (random_admin_token E) (\<lambda>plain.
     bnd (cast_optional_uuid E created_by) (\<lambda>u.
     bnd (new_uuid E) (\<lambda>i.
     bnd (exec (\<lambda>t. insert_admin_token
       \<lparr>at_id = i, at_creator = u, at_role = role, at_hash = hash_secret E plain, at_desc = description,
        at_last_used = None, at_expires = expires_at, at_revoked = None, at_created = t\<rparr>)) (\<lambda>row.
     ret \<lparr>ia_id = at_id row, ia_token = plain, ia_role = role, ia_description = description,
          ia_created = at_created row, ia_expires = at_expires row\<rparr>))))"

definition email_of :: "string option \<Rightarrow> database \<Rightarrow> string" where
  "email_of u d = (case u of None \<Rightarrow> [] | Some i \<Rightarrow>
     (case find (\<lambda>r. u_id r = i) (t_users d) of None \<Rightarrow> [] | Some r \<Rightarrow> u_email r))"

record admin_token_view =
  av_id :: string
  av_email :: string
  av_role :: string
  av_description :: string
  av_last_used :: "int option"
  av_expires :: int
  av_created :: int

definition list_admin_tokens :: "int \<Rightarrow> admin_token_view list prog" where
  "list_admin_tokens limit = query (\<lambda>d.
     if limit < 0 then Inl (Failure ''LIMIT must not be negative'')
     else Inr (map (\<lambda>r. \<lparr>av_id = at_id r, av_email = email_of (at_creator r) d, av_role = at_role r,
       av_description = at_desc r, av_last_used = at_last_used r, av_expires = at_expires r,
       av_created = at_created r\<rparr>) (take (nat limit) (sort_key (\<lambda>r. - at_created r) (t_admin_tokens d)))))"

definition token_usable :: "string \<Rightarrow> int \<Rightarrow> admin_token_row \<Rightarrow> bool" where
  "token_usable h t r \<longleftrightarrow> at_hash r = h \<and> at_expires r > t \<and> at_revoked r = None"

text \<open>The time of a single statement is the time it runs at.\<close>

definition authenticate_admin_token :: "ext \<Rightarrow> string \<Rightarrow> claims prog" where
  "authenticate_admin_token E token =
     (let h = hash_secret E token in
      bnd (attempt (exec (\<lambda>t d. case find (token_usable h t) (t_admin_tokens d) of
             None \<Rightarrow> Inl PgNoRows
           | Some r \<Rightarrow> Inr ((at_id r, text_of (at_creator r), email_of (at_creator r) d, at_role r), d)))) (\<lambda>found.
      case found of
        Inl _ \<Rightarrow> fail ErrInvalidToken
      | Inr (i, user_id, email, role) \<Rightarrow>
          bnd (ignore_error (exec (\<lambda>t d. Inr ((), d\<lparr>t_admin_tokens :=
            map (\<lambda>r. if at_hash r = h then r\<lparr>at_last_used := Some t\<rparr> else r) (t_admin_tokens d)\<rparr>))))
          (\<lambda>_. ret \<lparr>cl_user = user_id, cl_role = role, cl_email = email,
                    cl_subject_type = ''admin_token'', cl_subject = i\<rparr>)))"

section \<open>Sealed secrets are recovered\<close>

text \<open>What the code relies on of base64.\<close>

definition good_b64 :: "ext \<Rightarrow> bool" where
  "good_b64 E \<longleftrightarrow> b64_decode E [] = Some [] \<and> (\<forall>b. b64_decode E (b64_encode E b) = Some b)"

lemma open_seal:
  assumes "good_ext E" "good_b64 E" "length nonce = nonce_size"
  shows "open_string E (b64_encode E (nonce @ aead_seal E ApiHost nonce p)) = Inr p"
  using assms by (simp add: open_string_def good_ext_def good_b64_def)

lemma seal_string_Inr:
  assumes "good_ext E" "good_b64 E" "seal_string E p w = (Inr c, w')"
  shows "open_string E c = Inr p"
proof -
  obtain nonce w1 where n: "random_bytes E nonce_size w = (Inr nonce, w1)"
    and c: "c = b64_encode E (nonce @ aead_seal E ApiHost nonce p)"
    using assms(3) by (auto simp: seal_string_def bnd_Inr_iff)
  have "length nonce = nonce_size"
    using n assms(1) unfolding random_bytes_def by (auto elim!: external_Inr simp: good_ext_def)
  then show ?thesis using open_seal [OF assms(1,2)] c by blast
qed

section \<open>Sessions end\<close>

text \<open>Calls on the accounts, with any failures inside.\<close>

datatype account_call =
    Login string string
  | Refresh string
  | Logout string
  | LogoutAll string
  | LoginOIDC string string string bool string
  | ChangePassword string string string
  | EnsureAdmin string string
  | UpdateUserRole string string

fun account_step :: "ext \<Rightarrow> auth_config \<Rightarrow> account_call \<Rightarrow> unit prog" where
  "account_step E A (Login e p) = ignore_error (login E A e p)"
| "account_step E A (Refresh t) = ignore_error (refresh E A t)"
| "account_step E A (Logout t) = ignore_error (logout E t)"
| "account_step E A (LogoutAll u) = ignore_error (logout_all E u)"
| "account_step E A (LoginOIDC i s e v r) = ignore_error (login_oidc E A i s e v r)"
| "account_step E A (ChangePassword u c n) = ignore_error (change_password E u c n)"
| "account_step E A (EnsureAdmin e p) = ignore_error (ensure_bootstrap_admin E e p)"
| "account_step E A (UpdateUserRole u r) = ignore_error (update_user_role E u r)"

text \<open>A refresh token is dead when no row has its hash and none can get it.\<close>

definition unissued :: "ext \<Rightarrow> string \<Rightarrow> world \<Rightarrow> bool" where
  "unissued E h w \<longleftrightarrow> (\<forall>n. rnd_pos w \<le> n \<longrightarrow> hash_secret E (rnd_uuid E n) \<noteq> h)"

definition dead :: "ext \<Rightarrow> string \<Rightarrow> world \<Rightarrow> bool" where
  "dead E h w \<longleftrightarrow> (\<forall>r \<in> set (t_refresh (db w)). rt_hash r \<noteq> h) \<and> unissued E h w"

lemma stable_unissued: "stable (unissued E h)"
  by (auto simp: stable_def unissued_def env_step_fields)

lemma stable_dead: "stable (dead E h)"
  by (auto simp: stable_def dead_def unissued_def env_step_fields)

lemma dead_exec:
  "(\<And>t d x d'. q t d = Inr (x, d') \<Longrightarrow> set (t_refresh d') \<subseteq> set (t_refresh d)) \<Longrightarrow> keeps_inv (dead E h) (exec q)"
  by (rule keeps_exec [OF stable_dead]) (fastforce simp: dead_def unissued_def)

lemma unissued_exec: "keeps_inv (unissued E h) (exec q)"
  by (rule keeps_exec [OF stable_unissued]) (simp add: unissued_def)

lemma dead_hash [keeps]: "keeps_inv (dead E h) (hash_password E p)"
  by (auto simp: keeps_inv_def hash_password_def dead_def unissued_def)

lemma dead_query [keeps]: "keeps_inv (dead E h) (query q)" "keeps_inv (dead E h) (new_uuid E)"
  by (intro keeps stable_dead)+

text \<open>The token of a new session is fresh.\<close>

lemma dead_new:
  "(\<And>x. hash_secret E x \<noteq> h \<Longrightarrow> keeps_inv (dead E h) (f x)) \<Longrightarrow> keeps_inv (dead E h) (bnd (new_uuid E) f)"
proof -
  assume f: "\<And>x. hash_secret E x \<noteq> h \<Longrightarrow> keeps_inv (dead E h) (f x)"
  show ?thesis
    unfolding keeps_inv_def
  proof (intro allI impI)
    fix w assume w: "dead E h w"
    let ?w = "w\<lparr>rnd_pos := Suc (rnd_pos w)\<rparr>"
    have "hash_secret E (rnd_uuid E (rnd_pos w)) \<noteq> h" using w unfolding dead_def unissued_def by blast
    moreover have "dead E h ?w" by (rule stableD [OF stable_dead w]) (simp add: env_step_fields)
    ultimately have "dead E h (snd (f (rnd_uuid E (rnd_pos w)) ?w))" using f by (simp add: keeps_inv_def)
    then show "dead E h (snd (bnd (new_uuid E) f w))" by (simp add: bnd_def new_uuid_def)
  qed
qed

lemma dead_refresh: "hash_secret E x \<noteq> h \<Longrightarrow>
    keeps_inv (dead E h) (exec (\<lambda>_. insert_refresh \<lparr>rt_user = u, rt_hash = hash_secret E x, rt_expires = t\<rparr>))"
  by (rule keeps_exec [OF stable_dead]) (auto simp: dead_def unissued_def insert_refresh_def split: if_splits)

lemma dead_issue [keeps]: "keeps_inv (dead E h) (issue_session E A u e r m)"
  unfolding issue_session_def sign_token_def by (intro keeps_bnd dead_new dead_refresh keeps_ret keeps_now keeps_cast)

lemma db_only_issue [keeps]: "db_only (issue_session E A u e r m)"
  unfolding issue_session_def sign_token_def by (intro keeps)

lemma db_only_hash [keeps]: "db_only (hash_password E p)"
  by (simp add: db_only_def hash_password_def env_step_fields)

lemma if_Inr: "(if b then Inl e else Inr (y, d)) = Inr (x, d') \<Longrightarrow> d' = d"
  by (cases b) simp_all

lemma same_refresh:
  "change_user i f d = Inr (x, d') \<Longrightarrow> t_refresh d' = t_refresh d"
  "insert_user row d = Inr (r, d') \<Longrightarrow> t_refresh d' = t_refresh d"
  unfolding change_user_def insert_user_def Let_def by (drule if_Inr, simp)+

lemma dead_change [keeps]:
  "keeps_inv (dead E h) (exec (\<lambda>_. change_user i f))" "keeps_inv (dead E h) (exec (\<lambda>_. insert_user row))"
  "keeps_inv (dead E h) (exec (\<lambda>_ d. Inr (x, update_user p f d)))"
  "keeps_inv (dead E h) (exec (\<lambda>_ d. Inr (x, drop_refresh q d)))"
  by (rule dead_exec; (drule same_refresh)?; auto simp: update_user_def drop_refresh_def)+

lemma dead_link [keeps]: "keeps_inv (dead E h) (link_oidc_user E issuer subject email role t)"
  unfolding link_oidc_user_def by (intro keeps)

lemma db_only_link [keeps]: "db_only (link_oidc_user E issuer subject email role t)"
  unfolding link_oidc_user_def by (intro keeps)

lemma dead_login: "keeps_inv (dead E h) (login E A e p)"
  unfolding login_def by (intro keeps)

lemma dead_refreshed: "keeps_inv (dead E h) (refresh E A t)"
  unfolding refresh_def Let_def by (intro keeps_transaction stable_dead keeps)

lemma dead_oidc: "keeps_inv (dead E h) (login_oidc E A i s e v r)"
  unfolding login_oidc_def Let_def by (intro keeps keeps_transaction stable_dead)

lemma dead_password: "keeps_inv (dead E h) (change_password E u c n)"
  unfolding change_password_def by (intro keeps)

lemma dead_admin: "keeps_inv (dead E h) (ensure_bootstrap_admin E e p)"
  unfolding ensure_bootstrap_admin_def
  by (intro keeps dead_exec) (auto dest: same_refresh)

lemma dead_step: "keeps_inv (dead E h) (account_step E A c)"
  by (cases c)
     (auto intro!: keeps_ignore dead_login dead_refreshed dead_oidc dead_password dead_admin keeps
       simp: logout_def logout_all_def update_user_role_def)

lemma dead_run: "dead E h w \<Longrightarrow> dead E h (snd (for_each (account_step E A) calls w))"
  using keeps_for_each [of "dead E h" "account_step E A" calls, OF dead_step] by (simp add: keeps_inv_def)

text \<open>Refreshing or logging out kills the token.\<close>

lemma drop_kills:
  "triple (unissued E h) (exec (\<lambda>_ d. Inr (x, drop_refresh (\<lambda>r. rt_hash r = h) d))) (\<lambda>_. dead E h) (\<lambda>_. True)"
  by (rule triple_exec [OF stable_unissued]) (auto simp: dead_def unissued_def drop_refresh_def)

lemma refresh_kills:
  "triple (unissued E (hash_secret E tok)) (refresh E A tok) (\<lambda>_. dead E (hash_secret E tok)) (\<lambda>_. True)"
  unfolding refresh_def Let_def
proof (rule triple_transaction [OF stable_unissued, where Y = "\<lambda>_. True"])
  fix t
  let ?h = "hash_secret E tok"
  have i: "triple (dead E ?h) (bnd (issue_session E A u e r m) f) (\<lambda>_. dead E ?h) (\<lambda>_. True)"
    if "\<And>s. keeps_inv (dead E ?h) (f s)" for u e r m and f :: "session \<Rightarrow> (string \<times> string) prog"
    by (rule triple_of_keeps) (use that in \<open>auto intro: keeps\<close>)
  show "triple (unissued E ?h) (bnd (attempt (query (find_refresh ?h t))) (\<lambda>found. case found of
       Inl _ \<Rightarrow> fail (Failure ''invalid refresh token'')
     | Inr u \<Rightarrow> bnd (exec (\<lambda>_ d. Inr ((), drop_refresh (\<lambda>r. rt_hash r = ?h) d))) (\<lambda>_.
         bnd (issue_session E A (u_id u) (u_email u) (u_role u) False) (\<lambda>s. ret (se_access s, se_refresh s)))))
     (\<lambda>_. dead E ?h) (\<lambda>_. True)"
  proof (rule triple_bnd [where Q = "\<lambda>_. unissued E ?h"])
    show "triple (unissued E ?h) (attempt (query (find_refresh ?h t))) (\<lambda>_. unissued E ?h) (\<lambda>_. True)"
      by (rule triple_of_keeps) (intro keeps stable_unissued, simp)
  next
    fix found
    show "triple (unissued E ?h) (case found of
       Inl _ \<Rightarrow> fail (Failure ''invalid refresh token'')
     | Inr u \<Rightarrow> bnd (exec (\<lambda>_ d. Inr ((), drop_refresh (\<lambda>r. rt_hash r = ?h) d))) (\<lambda>_.
         bnd (issue_session E A (u_id u) (u_email u) (u_role u) False) (\<lambda>s. ret (se_access s, se_refresh s))))
     (\<lambda>_. dead E ?h) (\<lambda>_. True)"
      by (rule triple_sum) (auto intro!: triple_fail triple_bnd [OF drop_kills] i keeps)
  qed
qed (auto intro!: keeps stable_dead)

lemma dead_refused:
  assumes "dead E (hash_secret E tok) w"
  shows "isl (fst (refresh E A tok w))"
proof -
  have none: "find_refresh (hash_secret E tok) t (db v) = Inl PgNoRows" if "dead E (hash_secret E tok) v" for v t
  proof -
    have "List.map_filter (\<lambda>r. if rt_hash r = hash_secret E tok \<and> rt_expires r > t
        then find (\<lambda>u. u_id u = rt_user r) (t_users (db v)) else None) (t_refresh (db v)) = []"
      using that by (auto simp: List.map_filter_def dead_def filter_empty_conv)
    then show ?thesis by (simp add: find_refresh_def)
  qed
  have "triple (dead E (hash_secret E tok)) (refresh E A tok) (\<lambda>_ _. False) (\<lambda>_. True)"
    unfolding refresh_def Let_def
  proof (rule triple_transaction [OF stable_dead, where Y = "\<lambda>_. True"])
    fix t
    have q: "triple (dead E (hash_secret E tok)) (attempt (query (find_refresh (hash_secret E tok) t)))
        (\<lambda>r _. isl r) (\<lambda>_. True)"
      by (rule triple_attempt_both, rule triple_query [OF stable_dead]) (auto simp: none)
    show "triple (dead E (hash_secret E tok)) (bnd (attempt (query (find_refresh (hash_secret E tok) t))) (\<lambda>found. case found of
       Inl _ \<Rightarrow> fail (Failure ''invalid refresh token'')
     | Inr u \<Rightarrow> bnd (exec (\<lambda>_ d. Inr ((), drop_refresh (\<lambda>r. rt_hash r = hash_secret E tok) d))) (\<lambda>_.
         bnd (issue_session E A (u_id u) (u_email u) (u_role u) False) (\<lambda>s. ret (se_access s, se_refresh s)))))
     (\<lambda>_ _. False) (\<lambda>_. True)"
      by (rule triple_bnd [OF q]) (auto simp: triple_def split: sum.splits)
  qed (auto intro!: keeps simp: stable_def)
  then show ?thesis using assms by (cases "refresh E A tok w"; cases "fst (refresh E A tok w)") (auto simp: triple_def)
qed

text \<open>
  C26: a refresh token works once. After a refresh with it, or a logout, that reported success, no
  sequence of calls on the accounts, whatever fails in them, makes it usable again, provided no
  token drawn later has the same hash.
\<close>

theorem refresh_token_single_use:
  assumes "unissued E (hash_secret E tok) w"
    and "refresh E A tok w = (Inr s, w1) \<or> logout E tok w = (Inr (), w1)"
  shows "isl (fst (refresh E A tok (snd (for_each (account_step E A) calls w1))))"
proof -
  have "dead E (hash_secret E tok) w1"
    using assms(2)
  proof
    assume "refresh E A tok w = (Inr s, w1)"
    then show ?thesis by (rule tripleD_Inr [OF refresh_kills assms(1)])
  next
    assume "logout E tok w = (Inr (), w1)"
    then show ?thesis unfolding logout_def by (rule tripleD_Inr [OF drop_kills assms(1)])
  qed
  then show ?thesis by (intro dead_refused dead_run)
qed

definition example_account_db :: database where
  "example_account_db = empty_db\<lparr>
     t_users := [\<lparr>u_id = ''a'', u_email = ''e'', u_role = ''admin'', u_hash = [], u_must_change = False,
       u_provider = ''local'', u_subject = [], u_created = 0\<rparr>],
     t_refresh := [\<lparr>rt_user = ''a'', rt_hash = hash_secret plain_ext ''tok'', rt_expires = 5\<rparr>]\<rparr>"

definition example_auth :: auth_config where
  "example_auth = \<lparr>ac_secret = ''s'', ac_issuer = ''i'', ac_access_ttl = 1, ac_refresh_ttl = 10\<rparr>"

lemma example_unissued: "unissued plain_ext (hash_secret plain_ext ''tok'') (calm_world d)"
  using hex_encode_inj by (fastforce simp: unissued_def hash_secret_def plain_ext_def)

lemma example_refresh:
  obtains s w1 where "refresh plain_ext example_auth ''tok'' (calm_world example_account_db) = (Inr s, w1)"
  by (rule that, simp add: refresh_def Let_def transaction_def bnd_def now_def query_def exec_def find_refresh_def
      example_account_db_def example_auth_def List.map_filter_def issue_session_def sign_token_def new_uuid_def
      cast_uuid_def insert_refresh_def drop_refresh_def plain_ext_def plain_elem_def slash_def empty_db_def attempt_def)

theorem refresh_token_single_use_witness:
  "\<exists>s w1. refresh plain_ext example_auth ''tok'' (calm_world example_account_db) = (Inr s, w1) \<and>
     isl (fst (refresh plain_ext example_auth ''tok'' (snd (for_each (account_step plain_ext example_auth) [Refresh (snd s)] w1))))"
proof -
  obtain s w1 where "refresh plain_ext example_auth ''tok'' (calm_world example_account_db) = (Inr s, w1)"
    by (rule example_refresh)
  then show ?thesis using refresh_token_single_use [OF example_unissued] by blast
qed

section \<open>Credentials are recovered\<close>

lemma find_appended: "\<not> list_ex P xs \<Longrightarrow> P x \<Longrightarrow> find P (xs @ [x]) = Some x"
  by (induction xs) auto

lemma exec_step: "exec q w = (Inr x, w') \<Longrightarrow> \<exists>t. q t (db w) = Inr (x, db w')"
  unfolding exec_def by (erule external_Inr) (auto split: sum.splits)

lemma optional_Inr:
  "cast_optional_uuid E s w = (Inr v, w') \<longleftrightarrow> w' = w \<and> (if s = [] then v = None else \<exists>u. pg_uuid E s = Some u \<and> v = Some u)"
  by (auto simp: cast_optional_uuid_def bnd_Inr_iff cast_uuid_Inr_iff)

lemma empty_unreadable: "good_b64 E \<Longrightarrow> isl (open_string E [])"
  by (simp add: open_string_def good_b64_def nonce_size_def)

text \<open>
  The secret of a new credential is what the signature check of later requests uses: until
  the credential changes, a lookup that returns gives its secret, the role and the user, and the
  plain comparison accepts that secret and no other, unless SHA-256 collides.
\<close>

lemma credential_roundtrip:
  assumes "good_ext E" "good_b64 E"
    and "create_credential E user_id role description w = (Inr c, w')"
    and "lookup_credential E (nc_access c) w' = (Inr info, w1)"
    and "validate_credential E (nc_access c) secret w' = (Inr m, w2)"
  shows "ci_secret info = nc_secret c \<and> ci_role info = role \<and> m ''role'' = Some role \<and>
    hash_secret E secret = hash_secret E (nc_secret c)"
proof -
  obtain access secret_key ciphertext u w3 w4 t where
    seal: "seal_string E secret_key w3 = (Inr ciphertext, w4)"
    and ins: "insert_credential \<lparr>c_user = u, c_access = access, c_hash = hash_secret E secret_key, c_cipher = ciphertext,
        c_desc = description, c_role = role, c_last_used = None, c_created = t\<rparr> (db w4) = Inr ((), db w')"
    and c: "nc_access c = access" "nc_secret c = secret_key"
    using assms(3) unfolding create_credential_def by (auto simp: bnd_Inr_iff optional_Inr dest!: exec_step)
  let ?row = "\<lparr>c_user = u, c_access = access, c_hash = hash_secret E secret_key, c_cipher = ciphertext,
        c_desc = description, c_role = role, c_last_used = None, c_created = t\<rparr>"
  have fresh: "\<not> list_ex (\<lambda>r. c_access r = access) (t_credentials (db w4))"
    and d: "(db w4)\<lparr>t_credentials := t_credentials (db w4) @ [?row]\<rparr> = db w'"
    using ins by (auto simp: insert_credential_def split: if_splits)
  have "t_credentials (db w') = t_credentials (db w4) @ [?row]" by (simp flip: d)
  then have row: "find_credential access (db w') = Inr ?row"
    using find_appended [OF fresh, of ?row] by (simp add: find_credential_def)
  have secret: "open_string E ciphertext = Inr secret_key" by (rule seal_string_Inr [OF assms(1,2) seal])
  have "isl (open_string E [])" by (rule empty_unreadable [OF assms(2)])
  then have "ciphertext \<noteq> []" using secret by auto
  then have "info = \<lparr>ci_user = text_of u, ci_role = role, ci_hash = hash_secret E secret_key, ci_secret = secret_key\<rparr>"
    using assms(4) row secret c by (auto simp: lookup_credential_def bnd_Inr_iff dest!: query_step)
  moreover have "hash_secret E secret = hash_secret E secret_key \<and> m ''role'' = Some role"
    using assms(5) row c by (auto simp: validate_credential_def bnd_Inr_iff dest!: query_step split: if_splits)
  ultimately show ?thesis using c by simp
qed

theorem credential_roundtrip_witness:
  "\<exists>c w' info w1 m w2. create_credential plain_ext [] ''readonly'' [] (calm_world empty_db) = (Inr c, w') \<and>
     lookup_credential plain_ext (nc_access c) w' = (Inr info, w1) \<and>
     validate_credential plain_ext (nc_access c) (nc_secret c) w' = (Inr m, w2) \<and> ci_secret info = nc_secret c"
proof -
  let ?w = "calm_world empty_db"
  have p: "b64_encode plain_ext b = b" "b64_decode plain_ext = Some" "aead_seal plain_ext h n q = CHR ''t'' # q"
      "aead_open plain_ext h n (y # q) = Some q" "length (rnd_bytes plain_ext k m) = m" for b h n q k m y
    by (simp_all add: plain_ext_def)
  have "\<exists>c w'. create_credential plain_ext [] ''readonly'' [] ?w = (Inr c, w') \<and> script w' = [] \<and>
      (\<exists>r. t_credentials (db w') = [r] \<and> c_access r = nc_access c \<and> c_hash r = hash_secret plain_ext (nc_secret c) \<and>
        \<not> isl (open_string plain_ext (c_cipher r)))"
    by (simp add: create_credential_def random_key_def random_bytes_def bnd_def seal_string_def cast_optional_uuid_def exec_def
        insert_credential_def owner_exists_def empty_db_def open_string_def nonce_size_def p)
  then obtain c w' r where c: "create_credential plain_ext [] ''readonly'' [] ?w = (Inr c, w')"
      and w': "script w' = []" "t_credentials (db w') = [r]" "c_access r = nc_access c"
        "c_hash r = hash_secret plain_ext (nc_secret c)" "\<not> isl (open_string plain_ext (c_cipher r))"
    by blast
  obtain info w1 where l: "lookup_credential plain_ext (nc_access c) w' = (Inr info, w1)"
    using w' by (cases "c_cipher r = []"; cases "open_string plain_ext (c_cipher r)") (auto simp: lookup_credential_def bnd_def query_def find_credential_def)
  obtain m w2 where v: "validate_credential plain_ext (nc_access c) (nc_secret c) w' = (Inr m, w2)"
    using w' by (auto simp: validate_credential_def bnd_def query_def find_credential_def exec_def ignore_error_def attempt_def)
  have "good_b64 plain_ext" by (simp add: good_b64_def plain_ext_def)
  from credential_roundtrip [OF good_plain_ext this c l v] show ?thesis using c l v by blast
qed

end
