(* ===== verification/SigV4.thy ===== *)
theory SigV4
  imports Accounts
begin

text \<open>
  Authentication of S3 requests: \<open>backend/internal/s3/sigv4.go\<close>. A request is what
  \<open>net/http\<close> hands to a handler: the query as the pairs of \<open>url.ParseQuery\<close> in order (so
  \<open>Values.Get\<close> is the first), headers as pairs whose names are compared without case. Times are
  nanoseconds since 1970; the calendar of \<open>time.Parse\<close> and \<open>Format\<close> for the one layout the code
  uses is modelled. The text of a URL outside its path and query is left to \<open>net/url\<close>: a
  presigned URL is modelled by its parts.
\<close>

section \<open>Requests\<close>

record request =
  rq_method :: string
  rq_host :: string
  rq_path :: string                        \<comment> \<open>\<open>URL.Path\<close>\<close>
  rq_escaped :: string                     \<comment> \<open>\<open>URL.EscapedPath()\<close>\<close>
  rq_query :: "(string \<times> string) list"
  rq_headers :: "(string \<times> string) list"
  rq_body :: bytes
  rq_length :: int                         \<comment> \<open>\<open>ContentLength\<close>, -1 when unknown\<close>
  rq_remote :: string                      \<comment> \<open>\<open>RemoteAddr\<close>\<close>

definition first_of :: "(string \<times> string) list \<Rightarrow> string \<Rightarrow> string" where
  "first_of values name = text_of (map_of values name)"

definition query_get :: "request \<Rightarrow> string \<Rightarrow> string" where
  "query_get req name = first_of (rq_query req) name"

definition query_has :: "request \<Rightarrow> string \<Rightarrow> bool" where
  "query_has req name = list_ex (\<lambda>(k, _). k = name) (rq_query req)"

definition header_values :: "request \<Rightarrow> string \<Rightarrow> string list" where
  "header_values req name = map snd (filter (\<lambda>(k, _). equal_fold k name) (rq_headers req))"

definition header_get :: "request \<Rightarrow> string \<Rightarrow> string" where
  "header_get req name = (case header_values req name of [] \<Rightarrow> [] | v # _ \<Rightarrow> v)"

definition set_value :: "string \<Rightarrow> string \<Rightarrow> (string \<times> string) list \<Rightarrow> (string \<times> string) list" where
  "set_value k v q = filter (\<lambda>(k', _). k' \<noteq> k) q @ [(k, v)]"

section \<open>Time stamps\<close>

definition is_leap :: "int \<Rightarrow> bool" where
  "is_leap y \<longleftrightarrow> 4 dvd y \<and> (\<not> 100 dvd y \<or> 400 dvd y)"

definition month_days :: "int \<Rightarrow> int \<Rightarrow> int" where
  "month_days y m = (if m = 2 then (if is_leap y then 29 else 28)
     else if m \<in> {4, 6, 9, 11} then 30 else 31)"

definition year_days :: "int \<Rightarrow> int" where
  "year_days y = (if is_leap y then 366 else 365)"

text \<open>Days from 1970 to the first of January, and from there to the first of a month.\<close>

definition days_before_year :: "int \<Rightarrow> int" where
  "days_before_year y = 365 * (y - 1970) + (((y - 1) div 4 - (y - 1) div 100 + (y - 1) div 400) - 477)"

fun days_before_month :: "int \<Rightarrow> nat \<Rightarrow> int" where
  "days_before_month y 0 = 0"
| "days_before_month y (Suc m) = days_before_month y m + month_days y (int m + 1)"

definition digits_value :: "string \<Rightarrow> int option" where
  "digits_value s = (if s = [] then None else map_option int (parse_digits 0 s))"

definition nanoseconds_of :: "string \<Rightarrow> int" where
  "nanoseconds_of ds = (case parse_digits 0 (take 9 (ds @ replicate 9 (CHR ''0''))) of None \<Rightarrow> 0 | Some n \<Rightarrow> int n)"

text \<open>
  \<open>time.Parse("20060102T150405Z", s)\<close>: the date as it was written (which is what formatting it
  gives back) and the instant. A fraction may follow the seconds.
\<close>

definition parse_amz_date :: "string \<Rightarrow> (string \<times> int) option" where
  "parse_amz_date s =
     (case (digits_value (take 4 s), digits_value (take 2 (drop 4 s)), digits_value (take 2 (drop 6 s)),
            digits_value (take 2 (drop 9 s)), digits_value (take 2 (drop 11 s)), digits_value (take 2 (drop 13 s))) of
        (Some y, Some mo, Some d, Some h, Some mi, Some sec) \<Rightarrow>
          (let rest = drop 15 s;
               fraction = (case rest of [] \<Rightarrow> [] | c # cs \<Rightarrow>
                  if c \<in> {CHR ''.'', CHR '',''} then takeWhile (\<lambda>x. digit_val x \<noteq> None) cs else []);
               tail = (if fraction = [] then rest else drop (Suc (length fraction)) rest) in
           if length (take 15 s) = 15 \<and> s ! 8 = CHR ''T'' \<and> tail = ''Z'' \<and>
              1 \<le> mo \<and> mo \<le> 12 \<and> 1 \<le> d \<and> d \<le> month_days y mo \<and> h < 24 \<and> mi < 60 \<and> sec < 60
           then Some (take 8 s,
             ((((days_before_year y + days_before_month y (nat (mo - 1)) + (d - 1)) * 24 + h) * 60 + mi) * 60 + sec)
               * 1000000000 + nanoseconds_of fraction)
           else None)
      | _ \<Rightarrow> None)"

text \<open>The calendar date of a day, by search: the year from 1970 on, then the month.\<close>

function year_of_day :: "int \<Rightarrow> int \<Rightarrow> int \<times> int" where
  "year_of_day y z = (if z < year_days y then (y, z) else year_of_day (y + 1) (z - year_days y))"
  by auto
termination
  by (relation "measure (\<lambda>(y, z). nat z)") (auto simp: year_days_def split: if_splits)

fun month_of_day :: "int \<Rightarrow> nat \<Rightarrow> int \<Rightarrow> int \<Rightarrow> int \<times> int" where
  "month_of_day y 0 m z = (m, z)"
| "month_of_day y (Suc n) m z = (if z < month_days y m then (m, z) else month_of_day y n (m + 1) (z - month_days y m))"

definition padded :: "nat \<Rightarrow> int \<Rightarrow> string" where
  "padded n x = (let s = itoa x in replicate (n - length s) (CHR ''0'') @ s)"

definition format_date :: "int \<Rightarrow> string" where
  "format_date t =
     (case year_of_day 1970 (t div (86400 * 1000000000)) of (y, z) \<Rightarrow>
      (case month_of_day y 11 1 z of (m, d) \<Rightarrow> padded 4 y @ padded 2 m @ padded 2 (d + 1)))"

definition format_amz_date :: "int \<Rightarrow> string" where
  "format_amz_date t =
     (let s = (t div 1000000000) mod 86400 in
      format_date t @ ''T'' @ padded 2 (s div 3600) @ padded 2 (s div 60 mod 60) @ padded 2 (s mod 60) @ ''Z'')"

section \<open>Canonical requests\<close>

definition algorithm :: string where
  "algorithm = ''AWS4-HMAC-SHA256''"

text \<open>\<open>url.QueryEscape\<close>\<close>

definition query_safe :: "char \<Rightarrow> bool" where
  "query_safe c \<longleftrightarrow> (CHR ''a'' \<le> c \<and> c \<le> CHR ''z'') \<or> (CHR ''A'' \<le> c \<and> c \<le> CHR ''Z'') \<or>
     (CHR ''0'' \<le> c \<and> c \<le> CHR ''9'') \<or> c \<in> set ''-_.~''"

definition query_escape :: "string \<Rightarrow> string" where
  "query_escape s = concat (map (\<lambda>c. if query_safe c then [c] else if c = CHR '' '' then ''+''
     else [CHR ''%'', hex_upper (of_char c div 16), hex_upper (of_char c mod 16)]) s)"

definition replace_plus :: "string \<Rightarrow> string" where
  "replace_plus s = concat (map (\<lambda>c. if c = CHR ''+'' then ''%20'' else [c]) s)"

definition canonical_query_string :: "(string \<times> string) list \<Rightarrow> string" where
  "canonical_query_string values =
     replace_plus (join_with ''&'' (sort (map (\<lambda>(k, v). query_escape k @ ''='' @ query_escape v)
       (filter (\<lambda>(k, _). \<not> equal_fold k ''X-Amz-Signature'') values))))"

text \<open>\<open>strings.Fields\<close>\<close>

fun words :: "string \<Rightarrow> string \<Rightarrow> string list" where
  "words acc [] = (if acc = [] then [] else [acc])"
| "words acc (c # cs) = (if is_space c then (if acc = [] then words [] cs else acc # words [] cs)
     else words (acc @ [c]) cs)"

definition canonical_header_line :: "request \<Rightarrow> string \<Rightarrow> string" where
  "canonical_header_line req name =
     (if name = ''host'' then ''host:'' @ trim_space (rq_host req)
      else name @ '':'' @ join_with '','' (map (\<lambda>v. join_with '' '' (words [] v)) (header_values req name)))"

definition canonical_headers :: "request \<Rightarrow> string \<Rightarrow> string" where
  "canonical_headers req signed_headers =
     join_with newline (map (canonical_header_line req) (split_on (CHR '';'') signed_headers)) @ newline"

definition canonical_uri :: "string \<Rightarrow> string" where
  "canonical_uri path = (if path = [] then ''/'' else path)"

definition canonical_request :: "request \<Rightarrow> string \<Rightarrow> string \<Rightarrow> string" where
  "canonical_request req payload_hash signed_headers =
     join_with newline [rq_method req, canonical_uri (rq_escaped req), canonical_query_string (rq_query req),
       canonical_headers req signed_headers, signed_headers, payload_hash]"

definition build_string_to_sign :: "ext \<Rightarrow> string \<Rightarrow> string \<Rightarrow> string \<Rightarrow> string" where
  "build_string_to_sign E amz_date scope canonical =
     join_with newline [algorithm, amz_date, scope, hex_encode (sha256 E canonical)]"

definition derive_signing_key :: "ext \<Rightarrow> string \<Rightarrow> string \<Rightarrow> string \<Rightarrow> string \<Rightarrow> bytes" where
  "derive_signing_key E secret_key date region service =
     (let k_date = hmac_sha256 E (''AWS4'' @ secret_key) date;
          k_region = hmac_sha256 E k_date region;
          k_service = hmac_sha256 E k_region service in
      hmac_sha256 E k_service ''aws4_request'')"

definition scope_text :: "string \<Rightarrow> string \<Rightarrow> string \<Rightarrow> string \<Rightarrow> string" where
  "scope_text date region service terminal = date @ ''/'' @ region @ ''/'' @ service @ ''/'' @ terminal"

section \<open>Validation\<close>

record sigv4_identity =
  id_access :: string
  id_secret :: string
  id_user :: string
  id_role :: string

text \<open>A later part of a name replaces an earlier one.\<close>

definition parse_authorization_header :: "string \<Rightarrow> smap" where
  "parse_authorization_header value =
     map_of (rev (List.map_filter (\<lambda>part. split_first (CHR ''='') (trim_space part)) (split_on (CHR '','') value)))"

definition payload_hash_for_request :: "ext \<Rightarrow> request \<Rightarrow> string prog" where
  "payload_hash_for_request E req =
     (let hash_header = header_get req ''X-Amz-Content-Sha256'' in
      if hash_header = [] then fail (Failure ''missing x-amz-content-sha256'')
      else if hash_header = ''UNSIGNED-PAYLOAD'' then ret hash_header
      else bnd (external (ret (rq_body req))) (\<lambda>payload.
        if hex_encode (sha256 E payload) \<noteq> hash_header then fail (Failure ''payload hash mismatch'')
        else ret hash_header))"

definition check_scope :: "string \<Rightarrow> string \<Rightarrow> err + (string \<times> string)" where
  "check_scope region credential = (case split_on (CHR ''/'') credential of
      [access_key, date, region_scope, service, terminal] \<Rightarrow>
        if region_scope \<noteq> region \<or> service \<noteq> ''s3'' \<or> terminal \<noteq> ''aws4_request''
        then Inl (Failure ''invalid scope'') else Inr (access_key, date)
    | _ \<Rightarrow> Inl (Failure ''invalid credential scope''))"

definition validate_sigv4 :: "ext \<Rightarrow> string \<Rightarrow> request \<Rightarrow> sigv4_identity prog" where
  "validate_sigv4 E region req =
     (let auth_header = header_get req ''Authorization'' in
      if \<not> has_prefix auth_header (algorithm @ '' '') then fail (Failure ''missing algorithm'')
      else
      let parts = parse_authorization_header (trim_prefix auth_header (algorithm @ '' '')) in
      bnd (of_result (check_scope region (text_of (parts ''Credential'')))) (\<lambda>(access_key, date_scope).
      bnd (lookup_credential E access_key) (\<lambda>credential.
      if ci_secret credential = [] then fail (Failure ''secret key unavailable'')
      else
      let amz_date = header_get req ''X-Amz-Date'' in
      if amz_date = [] then fail (Failure ''missing x-amz-date'')
      else (case parse_amz_date amz_date of
          None \<Rightarrow> fail (Failure ''cannot parse time'')
        | Some (date, _) \<Rightarrow>
            if date \<noteq> date_scope then fail (Failure ''date scope mismatch'')
            else
            bnd (payload_hash_for_request E req) (\<lambda>payload_hash.
            let signed_headers = text_of (parts ''SignedHeaders'');
                canonical = canonical_request req payload_hash signed_headers in
            if signed_headers = [] then fail (Failure ''missing signed headers'')
            else
            let to_sign = build_string_to_sign E amz_date (scope_text date_scope region ''s3'' ''aws4_request'') canonical;
                key = derive_signing_key E (ci_secret credential) date_scope region ''s3'' in
            if hex_encode (hmac_sha256 E key to_sign) \<noteq> text_of (parts ''Signature'')
            then fail (Failure ''signature mismatch'')
            else ret \<lparr>id_access = access_key, id_secret = ci_secret credential, id_user = ci_user credential,
                      id_role = ci_role credential\<rparr>)))))"

text \<open>\<open>time.Duration(n) * time.Second\<close> wraps at 64 bits.\<close>

definition presigned_expiry_valid :: "int \<Rightarrow> int \<Rightarrow> int \<Rightarrow> bool" where
  "presigned_expiry_valid request_time expires_seconds t \<longleftrightarrow>
     t \<le> request_time + sint (word_of_int expires_seconds * 1000000000 :: i64)"

definition validate_presigned_sigv4 :: "ext \<Rightarrow> string \<Rightarrow> request \<Rightarrow> sigv4_identity prog" where
  "validate_presigned_sigv4 E region req =
     bnd now (\<lambda>t.
     if query_get req ''X-Amz-Algorithm'' \<noteq> algorithm then fail (Failure ''missing algorithm'')
     else
     bnd (of_result (check_scope region (query_get req ''X-Amz-Credential''))) (\<lambda>(access_key, date_scope).
     case parse_int (query_get req ''X-Amz-Expires'') of
       None \<Rightarrow> fail (Failure ''invalid expiry'')
     | Some expires_seconds \<Rightarrow>
         if expires_seconds \<le> 0 then fail (Failure ''invalid expiry'')
         else
         let amz_date = query_get req ''X-Amz-Date'' in
         (case parse_amz_date amz_date of
            None \<Rightarrow> fail (Failure ''cannot parse time'')
          | Some (date, request_time) \<Rightarrow>
              if date \<noteq> date_scope then fail (Failure ''date scope mismatch'')
              else if \<not> presigned_expiry_valid request_time expires_seconds t then fail (Failure ''presigned url expired'')
              else
              bnd (lookup_credential E access_key) (\<lambda>credential.
              if ci_secret credential = [] then fail (Failure ''secret key unavailable'')
              else
              let signed_headers = query_get req ''X-Amz-SignedHeaders'' in
              if signed_headers = [] then fail (Failure ''missing signed headers'')
              else
              let canonical = canonical_request req ''UNSIGNED-PAYLOAD'' signed_headers;
                  to_sign = build_string_to_sign E amz_date (scope_text date_scope region ''s3'' ''aws4_request'') canonical;
                  key = derive_signing_key E (ci_secret credential) date_scope region ''s3'' in
              if hex_encode (hmac_sha256 E key to_sign) \<noteq> query_get req ''X-Amz-Signature''
              then fail (Failure ''signature mismatch'')
              else ret \<lparr>id_access = access_key, id_secret = ci_secret credential, id_user = ci_user credential,
                        id_role = ci_role credential\<rparr>))))"

definition is_sigv4_presigned :: "request \<Rightarrow> bool" where
  "is_sigv4_presigned req \<longleftrightarrow> query_get req ''X-Amz-Algorithm'' = algorithm"

section \<open>Presigned URLs\<close>

record url =
  ul_host :: string
  ul_escaped :: string
  ul_query :: "(string \<times> string) list"

definition presign_query :: "(string \<times> string) list \<Rightarrow> string \<Rightarrow> string \<Rightarrow> int \<Rightarrow> int \<Rightarrow> (string \<times> string) list" where
  "presign_query q0 access_key region ttl t =
     set_value ''X-Amz-SignedHeaders'' ''host''
     (set_value ''X-Amz-Expires'' (itoa (ttl div 1000000000))
     (set_value ''X-Amz-Date'' (format_amz_date t)
     (set_value ''X-Amz-Credential'' (access_key @ ''/'' @ scope_text (format_date t) region ''s3'' ''aws4_request'')
     (set_value ''X-Amz-Algorithm'' algorithm q0))))"

definition url_request :: "string \<Rightarrow> url \<Rightarrow> request" where
  "url_request verb u = \<lparr>rq_method = (if verb = [] then ''GET'' else verb), rq_host = ul_host u, rq_path = ul_escaped u, rq_escaped = ul_escaped u,
     rq_query = ul_query u, rq_headers = [], rq_body = [], rq_length = 0, rq_remote = []\<rparr>"

definition generate_presigned_url ::
    "ext \<Rightarrow> string \<Rightarrow> url \<Rightarrow> string \<Rightarrow> string \<Rightarrow> string \<Rightarrow> int \<Rightarrow> int \<Rightarrow> url" where
  "generate_presigned_url E verb raw access_key secret_key region ttl t =
     (let q = presign_query (ul_query raw) access_key region ttl t;
          canonical = canonical_request (url_request verb (raw\<lparr>ul_query := q\<rparr>)) ''UNSIGNED-PAYLOAD'' ''host'';
          to_sign = build_string_to_sign E (format_amz_date t)
                      (scope_text (format_date t) region ''s3'' ''aws4_request'') canonical;
          key = derive_signing_key E secret_key (format_date t) region ''s3'' in
      raw\<lparr>ul_query := set_value ''X-Amz-Signature'' (hex_encode (hmac_sha256 E key to_sign)) q\<rparr>)"

section \<open>Plain credentials\<close>

definition identity_map :: "sigv4_identity \<Rightarrow> smap" where
  "identity_map i = [''userID'' \<mapsto> id_user i, ''role'' \<mapsto> id_role i, ''accessKey'' \<mapsto> id_access i]"

definition authorize_headers :: "ext \<Rightarrow> string \<Rightarrow> request \<Rightarrow> smap option prog" where
  "authorize_headers E region req =
     (if has_prefix (header_get req ''Authorization'') algorithm then
        bnd (attempt (validate_sigv4 E region req)) (\<lambda>r. ret (case r of Inl _ \<Rightarrow> None | Inr i \<Rightarrow> Some (identity_map i)))
      else
        let access_key = header_get req ''X-S3P-Access-Key''; secret_key = header_get req ''X-S3P-Secret'' in
        if access_key = [] \<or> secret_key = [] then ret None
        else bnd (attempt (validate_credential E access_key secret_key)) (\<lambda>r.
          ret (case r of Inl _ \<Rightarrow> None | Inr m \<Rightarrow> Some m)))"

section \<open>The time stamp is read back\<close>

lemma div_of_next: "0 < n \<Longrightarrow> (y :: int) div n = (y - 1) div n + (if n dvd y then 1 else 0)"
proof (cases "n dvd y")
  case True
  assume n: "0 < n"
  obtain k where y: "y = n * k" using True by (rule dvdE)
  have "(y - 1) div n = k - 1"
    by (rule int_div_pos_eq [of _ _ _ "n - 1"]) (use n y in \<open>simp_all add: algebra_simps\<close>)
  moreover have "y div n = k" using n y by simp
  ultimately show ?thesis using True by simp
next
  case False
  assume n: "0 < n"
  have m: "0 < y mod n" "y mod n < n" proof -
    have "y mod n \<noteq> 0" using False by (simp add: dvd_eq_mod_eq_0)
    then show "0 < y mod n" using pos_mod_sign [OF n, of y] by linarith
    show "y mod n < n" by (rule pos_mod_bound [OF n])
  qed
  have "(y - 1) div n = y div n"
    by (rule int_div_pos_eq [of _ _ _ "y mod n - 1"]) (use m in \<open>simp_all add: algebra_simps\<close>)
  then show ?thesis using False by simp
qed

lemma leap_sum: "c \<longrightarrow> b \<Longrightarrow> b \<longrightarrow> a \<Longrightarrow> (if a \<and> (\<not> b \<or> c) then 366 else (365 :: int)) =
    365 + (if a then 1 else 0) - (if b then 1 else 0) + (if c then 1 else 0)"
  by (cases a; cases b; cases c) simp_all

lemma days_before_next: "days_before_year (y + 1) = days_before_year y + year_days y"
proof -
  define a where "a = (y - 1) div 4"
  define b where "b = (y - 1) div 100"
  define c where "c = (y - 1) div 400"
  have e: "days_before_year (y + 1) = 365 * (y + 1 - 1970) + (y div 4 - y div 100 + y div 400 - 477)"
    by (simp only: days_before_year_def add_diff_cancel_right')
  have f: "days_before_year y = 365 * (y - 1970) + (a - b + c - 477)"
    by (simp only: days_before_year_def a_def b_def c_def)
  have q: "y div 4 = a + (if 4 dvd y then 1 else 0)" "y div 100 = b + (if 100 dvd y then 1 else 0)"
    "y div 400 = c + (if 400 dvd y then 1 else 0)"
    unfolding a_def b_def c_def by (rule div_of_next, simp)+
  have d: "400 dvd y \<longrightarrow> 100 dvd y" "100 dvd y \<longrightarrow> 4 dvd y"
    using dvd_trans [of 100 400 y] dvd_trans [of 4 100 y] by simp_all
  have l: "year_days y = 365 + (if 4 dvd y then 1 else 0) - (if 100 dvd y then 1 else 0) + (if 400 dvd y then 1 else 0)"
    unfolding year_days_def is_leap_def by (rule leap_sum [OF d])
  have "365 * (y + 1 - 1970) + (a + i - (b + j) + (c + k) - 477) = 365 * (y - 1970) + (a - b + c - 477) + (365 + i - j + k)"
    for i j k :: int by simp
  then show ?thesis unfolding e f q l .
qed

declare year_of_day.simps [simp del]

lemma year_of_day_correct:
  "0 \<le> z \<Longrightarrow> year_of_day y z = (y', z') \<Longrightarrow>
   y \<le> y' \<and> 0 \<le> z' \<and> z' < year_days y' \<and> days_before_year y' + z' = days_before_year y + z"
proof (induction y z rule: year_of_day.induct)
  case (1 y z)
  show ?case
  proof (cases "z < year_days y")
    case True
    then show ?thesis using 1(2,3) by (simp add: year_of_day.simps [of y z])
  next
    case False
    then have "year_of_day (y + 1) (z - year_days y) = (y', z')" using 1(3) by (simp add: year_of_day.simps [of y z])
    then show ?thesis using 1(1) [OF False] False days_before_next [of y] by simp
  qed
qed

lemma month_of_day_correct:
  "month_of_day y n (int m + 1) z = (m', z') \<Longrightarrow> 0 \<le> z \<Longrightarrow> days_before_month y m + z < days_before_month y (Suc (m + n)) \<Longrightarrow>
   \<exists>k. m' = int k + 1 \<and> m \<le> k \<and> k \<le> m + n \<and> 0 \<le> z' \<and> z' < month_days y m' \<and>
     days_before_month y k + z' = days_before_month y m + z"
proof (induction n arbitrary: m z)
  case 0
  then show ?case by auto
next
  case (Suc n)
  show ?case
  proof (cases "z < month_days y (int m + 1)")
    case True
    then show ?thesis using Suc.prems by auto
  next
    case False
    then have r: "month_of_day y n (int (Suc m) + 1) (z - month_days y (int m + 1)) = (m', z')"
      using Suc.prems(1) by (simp add: add.commute)
    show ?thesis using Suc.IH [OF r] Suc.prems False by fastforce
  qed
qed

lemma year_of_months: "days_before_month y 12 = year_days y"
  by (simp add: numeral_eq_Suc month_days_def year_days_def)

lemma length_itoa: "0 < k \<Longrightarrow> n < 10 ^ k \<Longrightarrow> length (itoa_nat n) \<le> k"
proof (induction k arbitrary: n)
  case (Suc k)
  show ?case
  proof (cases "n < 10")
    case False
    then have "0 < k" "n div 10 < 10 ^ k" using Suc.prems by (cases k; auto)+
    then show ?thesis using Suc.IH [of "n div 10"] False by (simp add: itoa_nat.simps [of n])
  qed (simp add: itoa_nat.simps [of n])
qed simp

lemma parse_zeros: "parse_digits 0 (replicate k (CHR ''0'') @ s) = parse_digits 0 s"
  by (induction k) (simp_all add: digit_val_def)

lemma padded_read:
  assumes "0 \<le> x" "x < 10 ^ n" "0 < n"
  shows "length (padded n x) = n" "digits_value (padded n x) = Some x"
proof -
  have l: "length (itoa x) \<le> n" using assms length_itoa [of n "nat x"] by (simp add: itoa_def nat_less_iff)
  then show len: "length (padded n x) = n" by (simp add: padded_def Let_def)
  have "padded n x \<noteq> []" using len assms(3) by auto
  then show "digits_value (padded n x) = Some x"
    using assms(1) by (simp add: digits_value_def padded_def Let_def parse_zeros itoa_def parse_digits_itoa)
qed

lemma padded_digits: "0 \<le> x \<Longrightarrow> c \<in> set (padded n x) \<Longrightarrow> (48 :: nat) \<le> of_char c \<and> of_char c \<le> (57 :: nat)"
  using itoa_nat_chars [of c "nat x"] by (auto simp: padded_def Let_def itoa_def)

text \<open>Within the years 1970 to 9999 a formatted time is parsed back to its whole second.\<close>

definition in_calendar :: "int \<Rightarrow> bool" where
  "in_calendar t \<longleftrightarrow> 0 \<le> t \<and> t div (86400 * 1000000000) < days_before_year 10000"

lemma days_before_mono: "y \<le> y' \<Longrightarrow> days_before_year y \<le> days_before_year y'"
  by (induction y' rule: int_ge_induct) (auto simp: days_before_next year_days_def)

lemma parse_parts:
  assumes l: "length a = 4" "length b = 2" "length c = 2" "length d = 2" "length e = 2" "length f = 2"
    and v: "digits_value a = Some y" "digits_value b = Some mo" "digits_value c = Some dd"
      "digits_value d = Some h" "digits_value e = Some mi" "digits_value f = Some sec"
    and r: "1 \<le> mo" "mo \<le> 12" "1 \<le> dd" "dd \<le> month_days y mo" "h < 24" "mi < 60" "sec < 60"
  shows "parse_amz_date (a @ b @ c @ ''T'' @ d @ e @ f @ ''Z'') = Some (a @ b @ c,
    ((((days_before_year y + days_before_month y (nat (mo - 1)) + (dd - 1)) * 24 + h) * 60 + mi) * 60 + sec) * 1000000000)"
proof -
  let ?s = "a @ b @ c @ ''T'' @ d @ e @ f @ ''Z''"
  have t: "take 4 ?s = a" "take 2 (drop 4 ?s) = b" "take 2 (drop 6 ?s) = c" "take 2 (drop 9 ?s) = d"
    "take 2 (drop 11 ?s) = e" "take 2 (drop 13 ?s) = f" "drop 15 ?s = ''Z''" "take 8 ?s = a @ b @ c" "?s ! 8 = CHR ''T''"
    "length (take 15 ?s) = 15"
    using l by (simp_all add: nth_append)
  have "nanoseconds_of [] = 0" by code_simp
  then show ?thesis unfolding parse_amz_date_def t v by (simp add: r)
qed

lemma parse_format:
  assumes "in_calendar t"
  shows "parse_amz_date (format_amz_date t) = Some (format_date t, t div 1000000000 * 1000000000)"
proof -
  define z where "z = t div (86400 * 1000000000)"
  define s where "s = t div 1000000000 mod 86400"
  obtain y zy where y: "year_of_day 1970 z = (y, zy)" by fastforce
  have z0: "0 \<le> z" using assms pos_imp_zdiv_nonneg_iff [of "86400 * 1000000000" t] by (simp add: in_calendar_def z_def)
  from year_of_day_correct [OF z0 y] have yy: "1970 \<le> y" "0 \<le> zy" "zy < year_days y" "days_before_year y + zy = z"
    by (simp_all add: days_before_year_def)
  have "y < 10000"
  proof (rule ccontr)
    assume "\<not> y < 10000"
    then have "days_before_year 10000 \<le> days_before_year y" by (intro days_before_mono) simp
    then show False using assms yy by (simp add: in_calendar_def z_def)
  qed
  obtain m zm where m: "month_of_day y 11 1 zy = (m, zm)" by fastforce
  have m0: "month_of_day y 11 (int 0 + 1) zy = (m, zm)" using m by simp
  have "days_before_month y 0 + zy < days_before_month y (Suc (0 + 11))"
    using yy(3) year_of_months [of y] by (simp add: numeral_eq_Suc)
  from month_of_day_correct [OF m0 yy(2) this] obtain k where
    k: "m = int k + 1" "k \<le> 11" "0 \<le> zm" "zm < month_days y m" "days_before_month y k + zm = zy" by auto
  have md: "month_days y m \<le> 31" by (simp add: month_days_def)
  have s: "0 \<le> s" "s < 86400" by (simp_all add: s_def)
  have fd: "format_date t = padded 4 y @ padded 2 m @ padded 2 (zm + 1)" using y m by (simp add: format_date_def z_def)
  have f: "format_amz_date t = padded 4 y @ padded 2 m @ padded 2 (zm + 1) @ ''T'' @
      padded 2 (s div 3600) @ padded 2 (s div 60 mod 60) @ padded 2 (s mod 60) @ ''Z''"
    by (simp add: format_amz_date_def fd Let_def flip: s_def)
  have p: "length (padded 4 y) = 4" "digits_value (padded 4 y) = Some y"
    "length (padded 2 m) = 2" "digits_value (padded 2 m) = Some m"
    "length (padded 2 (zm + 1)) = 2" "digits_value (padded 2 (zm + 1)) = Some (zm + 1)"
    "length (padded 2 (s div 3600)) = 2" "digits_value (padded 2 (s div 3600)) = Some (s div 3600)"
    "length (padded 2 (s div 60 mod 60)) = 2" "digits_value (padded 2 (s div 60 mod 60)) = Some (s div 60 mod 60)"
    "length (padded 2 (s mod 60)) = 2" "digits_value (padded 2 (s mod 60)) = Some (s mod 60)"
    using yy \<open>y < 10000\<close> k md s by (intro padded_read; simp; fail)+
  have secs: "t div 1000000000 = z * 86400 + s"
  proof -
    have "z = t div 1000000000 div 86400"
      unfolding z_def using zdiv_zmult2_eq [of 86400 t 1000000000] by (simp add: mult.commute)
    then show ?thesis using div_mult_mod_eq [of "t div 1000000000" 86400] by (simp add: s_def)
  qed
  have "((z * 24 + s div 3600) * 60 + s div 60 mod 60) * 60 + s mod 60 = z * 86400 + s"
    using div_mult_mod_eq [of s 60] div_mult_mod_eq [of "s div 60" 60] zdiv_zmult2_eq [of 60 s 60] by simp
  moreover have "days_before_year y + days_before_month y (nat (m - 1)) + (zm + 1 - 1) = z" using k yy by simp
  ultimately have v: "((((days_before_year y + days_before_month y (nat (m - 1)) + (zm + 1 - 1)) * 24 + s div 3600) * 60
      + s div 60 mod 60) * 60 + s mod 60) * 1000000000 = t div 1000000000 * 1000000000"
    unfolding secs by (simp only:)
  have r: "1 \<le> m" "m \<le> 12" "1 \<le> zm + 1" "zm + 1 \<le> month_days y m" "s div 3600 < 24" "s div 60 mod 60 < 60" "s mod 60 < 60"
    using k s by simp_all
  show ?thesis unfolding f fd parse_parts [OF p(1,3,5,7,9,11) p(2,4,6,8,10,12) r] v append_assoc ..
qed

section \<open>A presigned URL is accepted until it expires\<close>

lemma first_of_set: "first_of (set_value k v q) k' = (if k' = k then v else first_of q k')"
proof -
  have "map_of (filter (\<lambda>(x, _). x \<noteq> k) q @ [(k, v)]) k' = (if k' = k then Some v else map_of q k')"
    by (induction q) auto
  then show ?thesis by (cases "k' = k") (simp_all add: first_of_def set_value_def text_of_def)
qed

lemma canonical_signature: "canonical_query_string (set_value ''X-Amz-Signature'' s q) = canonical_query_string q"
proof -
  have "equal_fold ''X-Amz-Signature'' ''X-Amz-Signature''" by (simp add: equal_fold_def)
  then have "filter (\<lambda>(k, _). \<not> equal_fold k ''X-Amz-Signature'') (set_value ''X-Amz-Signature'' s q) =
      filter (\<lambda>(k, _). \<not> equal_fold k ''X-Amz-Signature'') q"
    by (induction q) (auto simp: set_value_def)
  then show ?thesis by (simp add: canonical_query_string_def)
qed

lemma canonical_host:
  "rq_host a = rq_host b \<Longrightarrow> rq_method a = rq_method b \<Longrightarrow> rq_escaped a = rq_escaped b \<Longrightarrow>
   canonical_query_string (rq_query a) = canonical_query_string (rq_query b) \<Longrightarrow>
   canonical_request a p ''host'' = canonical_request b p ''host''"
  by (simp add: canonical_request_def canonical_headers_def canonical_header_line_def split_on_no_sep)

lemma expiry_seconds:
  assumes "0 \<le> ttl" "ttl < 2 ^ 63"
  shows "presigned_expiry_valid r (ttl div 1000000000) t \<longleftrightarrow> t \<le> r + ttl div 1000000000 * 1000000000"
proof -
  have "0 \<le> ttl div 1000000000 * 1000000000" "ttl div 1000000000 * 1000000000 \<le> ttl"
  proof -
    have "0 \<le> ttl mod 1000000000" "0 \<le> ttl div 1000000000" using assms by (simp_all add: pos_imp_zdiv_nonneg_iff)
    then show "0 \<le> ttl div 1000000000 * 1000000000" "ttl div 1000000000 * 1000000000 \<le> ttl"
      using div_mult_mod_eq [of ttl 1000000000] by linarith+
  qed
  then have "fits (ttl div 1000000000 * 1000000000)" unfolding fits_def using assms by linarith
  then have "sint (word_of_int (ttl div 1000000000 * 1000000000) :: i64) = ttl div 1000000000 * 1000000000"
    by (rule sint_of_fits)
  then show ?thesis by (simp add: presigned_expiry_valid_def)
qed

lemma padded_clean: "CHR ''/'' \<notin> set (padded n x)"
  using itoa_nat_chars [of "CHR ''/''" "nat x"] itoa_nat_chars [of "CHR ''/''" "nat (- x)"]
  by (auto simp: padded_def Let_def itoa_def)

lemma format_date_clean: "CHR ''/'' \<notin> set (format_date t)"
  by (simp add: format_date_def padded_clean split: prod.split)

lemma scope_read:
  assumes "CHR ''/'' \<notin> set access_key" "CHR ''/'' \<notin> set region"
  shows "check_scope region (access_key @ ''/'' @ scope_text (format_date t) region ''s3'' ''aws4_request'') =
    Inr (access_key, format_date t)"
proof -
  have "split_on (CHR ''/'') (access_key @ ''/'' @ scope_text (format_date t) region ''s3'' ''aws4_request'') =
      [access_key, format_date t, region, ''s3'', ''aws4_request'']"
    using assms format_date_clean [of t] by (simp add: scope_text_def split_on_append split_on_no_sep)
  then show ?thesis by (simp add: check_scope_def)
qed

text \<open>
  C31: a presigned URL made with a credential's key is accepted, and names that credential, on any
  request for its method, host, path and query until its seconds have passed, and is refused as
  expired afterwards, whatever other headers and body the request has.
\<close>

theorem presigned_url_roundtrip:
  assumes time: "in_calendar t" "1000000000 \<le> ttl" "ttl < 2 ^ 63"
    and clean: "CHR ''/'' \<notin> set access_key" "CHR ''/'' \<notin> set region"
    and made: "u = generate_presigned_url E verb raw access_key secret region ttl t"
    and req: "req = (url_request verb u)\<lparr>rq_headers := headers, rq_body := body\<rparr>"
    and found: "lookup_credential E access_key w = (Inr info, w')" "ci_secret info = secret" "secret \<noteq> []"
  shows "validate_presigned_sigv4 E region req w =
    (if clock w \<le> t div 1000000000 * 1000000000 + ttl div 1000000000 * 1000000000
     then (Inr \<lparr>id_access = access_key, id_secret = secret, id_user = ci_user info, id_role = ci_role info\<rparr>, w')
     else (Inl (Failure ''presigned url expired''), w))"
proof -
  define q where "q = presign_query (ul_query raw) access_key region ttl t"
  define r0 where "r0 = url_request verb (raw\<lparr>ul_query := q\<rparr>)"
  define signature where "signature = hex_encode (hmac_sha256 E (derive_signing_key E secret (format_date t) region ''s3'')
      (build_string_to_sign E (format_amz_date t) (scope_text (format_date t) region ''s3'' ''aws4_request'')
        (canonical_request r0 ''UNSIGNED-PAYLOAD'' ''host'')))"
  have query: "rq_query req = set_value ''X-Amz-Signature'' signature q"
    unfolding req made by (simp add: url_request_def generate_presigned_url_def signature_def r0_def q_def Let_def)
  have get: "query_get req ''X-Amz-Algorithm'' = algorithm"
      "query_get req ''X-Amz-Credential'' = access_key @ ''/'' @ scope_text (format_date t) region ''s3'' ''aws4_request''"
      "query_get req ''X-Amz-Expires'' = itoa (ttl div 1000000000)" "query_get req ''X-Amz-Date'' = format_amz_date t"
      "query_get req ''X-Amz-SignedHeaders'' = ''host''" "query_get req ''X-Amz-Signature'' = signature"
    unfolding query_get_def query q_def presign_query_def first_of_set by simp_all
  have canonical: "canonical_request req ''UNSIGNED-PAYLOAD'' ''host'' = canonical_request r0 ''UNSIGNED-PAYLOAD'' ''host''"
    by (rule canonical_host)
       (simp_all add: query canonical_signature, simp_all add: req made r0_def url_request_def generate_presigned_url_def Let_def)
  have seconds: "parse_int (itoa (ttl div 1000000000)) = Some (ttl div 1000000000)" "\<not> ttl div 1000000000 \<le> 0"
    using time pos_imp_zdiv_pos_iff [of 1000000000 ttl] by (auto intro!: parse_int_itoa)
  have valid: "presigned_expiry_valid (t div 1000000000 * 1000000000) (ttl div 1000000000) (clock w) \<longleftrightarrow>
      clock w \<le> t div 1000000000 * 1000000000 + ttl div 1000000000 * 1000000000"
    using time by (intro expiry_seconds) auto
  show ?thesis
    unfolding validate_presigned_sigv4_def get scope_read [OF clean] seconds(1) canonical Let_def parse_format [OF time(1)]
    using seconds(2) found by (simp add: bnd_step valid signature_def)
qed

lemma lookup_calm:
  "script w = [] \<Longrightarrow> find_credential access_key (db w) = Inr r \<Longrightarrow> c_cipher r \<noteq> [] \<Longrightarrow> open_string E (c_cipher r) = Inr s \<Longrightarrow>
   lookup_credential E access_key w = (Inr \<lparr>ci_user = text_of (c_user r), ci_role = c_role r, ci_hash = c_hash r, ci_secret = s\<rparr>, w)"
  by (simp add: lookup_credential_def bnd_def query_calm)

definition example_credential :: credential_row where
  "example_credential = \<lparr>c_user = Some ''u1'', c_access = ''AK'', c_hash = [], c_cipher = replicate 12 (CHR ''n'') @ ''ts'',
     c_desc = [], c_role = ''readonly'', c_last_used = None, c_created = 0\<rparr>"

theorem presigned_url_roundtrip_witness:
  "let w = calm_world (empty_db\<lparr>t_credentials := [example_credential]\<rparr>);
       u = generate_presigned_url plain_ext [] \<lparr>ul_host = ''h'', ul_escaped = ''/b/k'', ul_query = []\<rparr> ''AK'' ''s'' ''r'' 900000000000 0;
       identity = \<lparr>id_access = ''AK'', id_secret = ''s'', id_user = ''u1'', id_role = ''readonly''\<rparr> in
   validate_presigned_sigv4 plain_ext ''r'' (url_request [] u) w = (Inr identity, w) \<and>
   validate_presigned_sigv4 plain_ext ''r'' (url_request [] u) (w\<lparr>clock := 900000000001\<rparr>) =
     (Inl (Failure ''presigned url expired''), w\<lparr>clock := 900000000001\<rparr>)"
proof -
  let ?w = "calm_world (empty_db\<lparr>t_credentials := [example_credential]\<rparr>)"
  let ?raw = "\<lparr>ul_host = ''h'', ul_escaped = ''/b/k'', ul_query = []\<rparr>"
  define u where "u = generate_presigned_url plain_ext [] ?raw ''AK'' ''s'' ''r'' 900000000000 0"
  have req: "url_request [] u = (url_request [] u)\<lparr>rq_headers := [], rq_body := []\<rparr>" by (simp add: url_request_def)
  have t: "in_calendar 0" by (simp add: in_calendar_def days_before_year_def)
  let ?info = "\<lparr>ci_user = text_of (c_user example_credential), ci_role = c_role example_credential,
      ci_hash = c_hash example_credential, ci_secret = ''s''\<rparr>"
  have o: "open_string plain_ext (c_cipher example_credential) = Inr ''s''"
    by (simp add: open_string_def example_credential_def plain_ext_def nonce_size_def)
  have f: "find_credential ''AK'' (db (?w\<lparr>clock := c\<rparr>)) = Inr example_credential" for c
    by (simp add: find_credential_def example_credential_def)
  have l: "lookup_credential plain_ext ''AK'' (?w\<lparr>clock := c\<rparr>) = (Inr ?info, ?w\<lparr>clock := c\<rparr>)" for c
    by (rule lookup_calm [OF _ f _ o]) (simp_all add: example_credential_def)
  have l0: "lookup_credential plain_ext ''AK'' ?w = (Inr ?info, ?w)"
    using l [of 0] by (simp add: calm_world_def)
  show ?thesis
    using presigned_url_roundtrip [OF t _ _ _ _ u_def req l0]
      presigned_url_roundtrip [OF t _ _ _ _ u_def req l [of 900000000001]]
    by (simp add: u_def example_credential_def text_of_def)
qed

end
