(* ===== verification/Policies.thy ===== *)
theory Policies
  imports World "HOL-Library.Product_Lexorder"
begin

text \<open>
  Role policies: \<open>backend/internal/policies/policies.go\<close> and \<open>service.go\<close>. A role has
  statements, a subject has bindings of roles to resource patterns; both are rows of the
  database. \<open>evaluate\<close> decides a request against statements, \<open>authorize_subject\<close> picks the
  role and enforces, \<open>explain_subject_authorization\<close> is the simulation behind the policy lab.
  Rows are ordered by byte order where the statement has an \<open>ORDER BY\<close>.
\<close>

section \<open>policies.go\<close>

record statement =
  st_subject :: string
  st_action :: string
  st_resource :: string
  st_effect :: string
  st_conditions :: smap

definition pattern_match :: "string \<Rightarrow> string \<Rightarrow> bool" where
  "pattern_match pattern value =
     (if pattern = ''*'' then True
      else if has_suffix pattern ''*'' then has_prefix value (trim_suffix pattern ''*'')
      else pattern = value)"

fun evaluate_from :: "bool \<Rightarrow> statement list \<Rightarrow> string \<Rightarrow> string \<Rightarrow> string \<Rightarrow> bool" where
  "evaluate_from allowed [] subject action resource = allowed"
| "evaluate_from allowed (stmt # stmts) subject action resource =
     (if st_subject stmt \<noteq> subject \<and> st_subject stmt \<noteq> ''*''
      then evaluate_from allowed stmts subject action resource
      else if \<not> pattern_match (st_action stmt) action \<or> \<not> pattern_match (st_resource stmt) resource
      then evaluate_from allowed stmts subject action resource
      else if equal_fold (st_effect stmt) ''deny'' then False
      else if equal_fold (st_effect stmt) ''allow''
      then evaluate_from True stmts subject action resource
      else evaluate_from allowed stmts subject action resource)"

definition evaluate :: "statement list \<Rightarrow> string \<Rightarrow> string \<Rightarrow> string \<Rightarrow> bool" where
  "evaluate statements subject action resource =
     evaluate_from False statements subject action resource"

section \<open>service.go: reading roles and statements\<close>

definition list_statements_for_role :: "string \<Rightarrow> statement_row list prog" where
  "list_statements_for_role role_name = query (\<lambda>d. Inr
     (sort_key (\<lambda>s. (s_action s, s_resource s))
        (filter (\<lambda>s. s_role s = role_name) (t_statements d))))"

definition authorize_role :: "string \<Rightarrow> string \<Rightarrow> string \<Rightarrow> bool prog" where
  "authorize_role role action resource =
     bnd (list_statements_for_role role) (\<lambda>statements.
       if statements = [] then ret False
       else ret (evaluate
         (map (\<lambda>s. \<lparr>st_subject = role, st_action = s_action s, st_resource = s_resource s,
                    st_effect = s_effect s, st_conditions = s_conds s\<rparr>) statements)
         role action resource))"

definition binding_matches_resource :: "string \<Rightarrow> string \<Rightarrow> bool" where
  "binding_matches_resource pattern resource = pattern_match pattern resource"

definition roles_for_subject_resource :: "string \<Rightarrow> string \<Rightarrow> string \<Rightarrow> string list prog" where
  "roles_for_subject_resource subject_type subject_id resource =
     (if subject_type = [] \<or> subject_id = [] then ret []
      else bnd (query (\<lambda>d. Inr
             (sort_key (\<lambda>b. (if bd_resource b = ''*'' then (1::nat) else 0, bd_resource b))
               (filter (\<lambda>b. bd_type b = subject_type \<and> bd_subject b = subject_id) (t_bindings d)))))
        (\<lambda>rows. ret (map bd_role (filter (\<lambda>b. binding_matches_resource (bd_resource b) resource) rows))))"

definition resolve_role :: "string \<Rightarrow> string \<Rightarrow> string \<Rightarrow> string \<Rightarrow> string prog" where
  "resolve_role subject_type subject_id fallback_role resource =
     bnd (roles_for_subject_resource subject_type subject_id resource) (\<lambda>roles.
       case roles of r # _ \<Rightarrow> ret r | [] \<Rightarrow> ret fallback_role)"

fun first_allowed :: "string \<Rightarrow> string \<Rightarrow> string list \<Rightarrow> string option prog" where
  "first_allowed action resource [] = ret None"
| "first_allowed action resource (role # roles) =
     bnd (authorize_role role action resource) (\<lambda>allowed.
       if allowed then ret (Some role) else first_allowed action resource roles)"

definition authorize_subject ::
    "string \<Rightarrow> string \<Rightarrow> string \<Rightarrow> string \<Rightarrow> string \<Rightarrow> (bool \<times> string) prog" where
  "authorize_subject subject_type subject_id fallback_role action resource =
     bnd (resolve_role subject_type subject_id fallback_role resource) (\<lambda>role_name.
     bnd (roles_for_subject_resource subject_type subject_id resource) (\<lambda>bound_roles.
     bnd (first_allowed action resource bound_roles) (\<lambda>hit.
       case hit of
         Some role \<Rightarrow> ret (True, role)
       | None \<Rightarrow> bnd (authorize_role role_name action resource) (\<lambda>allowed.
           ret (allowed, role_name)))))"

record role_view =
  rv_name :: string
  rv_desc :: string
  rv_builtin :: bool
  rv_statements :: "statement_row list"

fun role_views :: "role_row list \<Rightarrow> role_view list prog" where
  "role_views [] = ret []"
| "role_views (r # rs) =
     bnd (list_statements_for_role (r_name r)) (\<lambda>statements.
     bnd (role_views rs) (\<lambda>vs.
       ret (\<lparr>rv_name = r_name r, rv_desc = r_desc r, rv_builtin = r_builtin r,
             rv_statements = statements\<rparr> # vs)))"

definition list_roles :: "role_view list prog" where
  "list_roles = bnd (query (\<lambda>d. Inr (sort_key r_name (t_roles d)))) role_views"

definition list_bindings :: "binding_row list prog" where
  "list_bindings = query (\<lambda>d. Inr (sort_key (\<lambda>b. (- bd_created b, bd_resource b)) (t_bindings d)))"

section \<open>service.go: changing statements and bindings\<close>

definition white_chars :: string where
  "white_chars = [CHR '' '', CHR 0x09, CHR 0x0D, CHR 0x0A]"

definition validate_action_resource_effect :: "string \<Rightarrow> string \<Rightarrow> string \<Rightarrow> err + unit" where
  "validate_action_resource_effect action resource effect =
     (if trim_space action = [] \<or> contains_any action white_chars then Inl ErrInvalidAction
      else if trim_space resource = [] \<or> contains_any resource white_chars then Inl ErrInvalidResource
      else if \<not> equal_fold effect ''allow'' \<and> \<not> equal_fold effect ''deny'' then Inl ErrInvalidEffect
      else Inr ())"

definition validate_binding_fields :: "string \<Rightarrow> string \<Rightarrow> string \<Rightarrow> err + unit" where
  "validate_binding_fields subject_type subject_id resource =
     (if trim_space subject_id = [] then Inl ErrInvalidSubjectID
      else if trim_space resource = [] \<or> contains_any resource white_chars then Inl ErrInvalidResource
      else if subject_type = ''user'' \<or> subject_type = ''credential'' \<or> subject_type = ''admin_token''
      then Inr ()
      else Inl ErrInvalidSubjectType)"

definition ensure_role_exists :: "string \<Rightarrow> unit prog" where
  "ensure_role_exists role_name =
     bnd (query (\<lambda>d. Inr (list_ex (\<lambda>r. r_name r = role_name) (t_roles d)))) (\<lambda>found.
       guard found ErrInvalidRoleName)"

definition validate_statement_input :: "string \<Rightarrow> string \<Rightarrow> string \<Rightarrow> string \<Rightarrow> unit prog" where
  "validate_statement_input role_name action resource effect =
     bnd (ensure_role_exists role_name) (\<lambda>_.
     bnd (of_result (validate_action_resource_effect action resource effect)) (\<lambda>_.
       guard (role_name \<noteq> ''superadmin'') ErrProtectedRoleStatement))"

definition validate_binding_input :: "string \<Rightarrow> string \<Rightarrow> string \<Rightarrow> string \<Rightarrow> unit prog" where
  "validate_binding_input subject_type subject_id resource role_name =
     bnd (ensure_role_exists role_name) (\<lambda>_.
       of_result (validate_binding_fields subject_type subject_id resource))"

definition normalize_conditions :: "smap option \<Rightarrow> smap" where
  "normalize_conditions conds = (case conds of None \<Rightarrow> Map.empty | Some m \<Rightarrow> m)"

text \<open>The primary key, the unique index on role, action, resource and effect, and the reference to \<open>roles\<close>.\<close>

definition same_statement :: "statement_row \<Rightarrow> statement_row \<Rightarrow> bool" where
  "same_statement a b \<longleftrightarrow> s_role a = s_role b \<and> s_action a = s_action b \<and>
     s_resource a = s_resource b \<and> s_effect a = s_effect b"

definition insert_statement :: "statement_row \<Rightarrow> database \<Rightarrow> err + (statement_row \<times> database)" where
  "insert_statement row d =
     (if \<not> list_ex (\<lambda>r. r_name r = s_role row) (t_roles d) then Inl PgForeignKeyViolation
      else if list_ex (\<lambda>t. s_id t = s_id row \<or> same_statement row t) (t_statements d) then Inl PgUniqueViolation
      else Inr (row, d\<lparr>t_statements := t_statements d @ [row]\<rparr>))"

definition create_statement ::
    "ext \<Rightarrow> string \<Rightarrow> string \<Rightarrow> string \<Rightarrow> string \<Rightarrow> smap option \<Rightarrow> statement_row prog" where
  "create_statement E role_name action resource effect conditions =
     bnd (validate_statement_input role_name action resource effect) (\<lambda>_.
     bnd (new_uuid E) (\<lambda>sid.
       exec (\<lambda>_. insert_statement
         \<lparr>s_id = sid, s_role = role_name, s_action = action, s_resource = resource,
          s_effect = effect, s_conds = normalize_conditions conditions\<rparr>)))"

definition statement_role :: "ext \<Rightarrow> string \<Rightarrow> string prog" where
  "statement_role E statement_id =
     bnd (attempt (bnd (cast_uuid E statement_id) (\<lambda>sid. query (\<lambda>d.
            case find (\<lambda>s. s_id s = sid) (t_statements d) of
              None \<Rightarrow> Inl PgNoRows | Some s \<Rightarrow> Inr (s_role s)))))
       (\<lambda>r. case r of Inl _ \<Rightarrow> fail ErrStatementNotFound | Inr role \<Rightarrow> ret role)"

definition modify_statement ::
    "string \<Rightarrow> (statement_row \<Rightarrow> statement_row) \<Rightarrow> database \<Rightarrow> err + (statement_row \<times> database)" where
  "modify_statement sid f d =
     (case find (\<lambda>s. s_id s = sid) (t_statements d) of
        None \<Rightarrow> Inl PgNoRows
      | Some s \<Rightarrow>
          if list_ex (\<lambda>t. s_id t \<noteq> sid \<and> same_statement (f s) t) (t_statements d)
          then Inl PgUniqueViolation
          else Inr (f s, d\<lparr>t_statements :=
                 map (\<lambda>t. if s_id t = sid then f t else t) (t_statements d)\<rparr>))"

definition update_statement ::
    "ext \<Rightarrow> string \<Rightarrow> string \<Rightarrow> string \<Rightarrow> string \<Rightarrow> smap option \<Rightarrow> statement_row prog" where
  "update_statement E statement_id action resource effect conditions =
     bnd (statement_role E statement_id) (\<lambda>role_name.
     bnd (validate_statement_input role_name action resource effect) (\<lambda>_.
     bnd (cast_uuid E statement_id) (\<lambda>sid.
       exec (\<lambda>_. modify_statement sid (\<lambda>s. s\<lparr>s_action := action, s_resource := resource,
         s_effect := effect, s_conds := normalize_conditions conditions\<rparr>)))))"

definition delete_statement :: "ext \<Rightarrow> string \<Rightarrow> unit prog" where
  "delete_statement E statement_id =
     bnd (statement_role E statement_id) (\<lambda>role_name.
     bnd (guard (role_name \<noteq> ''superadmin'') ErrProtectedRoleStatement) (\<lambda>_.
     bnd (cast_uuid E statement_id) (\<lambda>sid.
     bnd (exec (\<lambda>_ d. Inr (length (filter (\<lambda>s. s_id s = sid) (t_statements d)),
            d\<lparr>t_statements := filter (\<lambda>s. s_id s \<noteq> sid) (t_statements d)\<rparr>)))
       (\<lambda>affected. guard (affected \<noteq> 0) ErrStatementNotFound))))"

definition same_scope :: "binding_row \<Rightarrow> binding_row \<Rightarrow> bool" where
  "same_scope a b \<longleftrightarrow>
     bd_type a = bd_type b \<and> bd_subject a = bd_subject b \<and> bd_resource a = bd_resource b"

definition upsert_binding_row :: "binding_row \<Rightarrow> database \<Rightarrow> err + (binding_row \<times> database)" where
  "upsert_binding_row row d =
     (if \<not> list_ex (\<lambda>r. r_name r = bd_role row) (t_roles d) then Inl PgForeignKeyViolation
      else case find (same_scope row) (t_bindings d) of
        None \<Rightarrow> if list_ex (\<lambda>b. bd_id b = bd_id row) (t_bindings d) then Inl PgUniqueViolation
                else Inr (row, d\<lparr>t_bindings := t_bindings d @ [row]\<rparr>)
      | Some b \<Rightarrow> Inr (b\<lparr>bd_role := bd_role row\<rparr>, d\<lparr>t_bindings :=
          map (\<lambda>b. if same_scope row b then b\<lparr>bd_role := bd_role row\<rparr> else b) (t_bindings d)\<rparr>))"

definition upsert_binding :: "ext \<Rightarrow> string \<Rightarrow> string \<Rightarrow> string \<Rightarrow> string \<Rightarrow> binding_row prog" where
  "upsert_binding E subject_type subject_id resource role_name =
     bnd (validate_binding_input subject_type subject_id resource role_name) (\<lambda>_.
     bnd (new_uuid E) (\<lambda>bid.
       exec (\<lambda>t. upsert_binding_row
         \<lparr>bd_id = bid, bd_type = subject_type, bd_subject = subject_id,
          bd_resource = resource, bd_role = role_name, bd_created = t\<rparr>)))"

definition delete_binding :: "ext \<Rightarrow> string \<Rightarrow> unit prog" where
  "delete_binding E binding_id =
     bnd (cast_uuid E binding_id) (\<lambda>bid.
     bnd (exec (\<lambda>_ d. Inr (length (filter (\<lambda>b. bd_id b = bid) (t_bindings d)),
            d\<lparr>t_bindings := filter (\<lambda>b. bd_id b \<noteq> bid) (t_bindings d)\<rparr>)))
       (\<lambda>affected. guard (affected \<noteq> 0) ErrBindingNotFound))"

section \<open>service.go: the simulation\<close>

fun evaluate_role_loop ::
    "bool \<Rightarrow> bool \<Rightarrow> statement_row list \<Rightarrow> string \<Rightarrow> string \<Rightarrow> bool \<times> bool \<times> statement_row list" where
  "evaluate_role_loop allowed denied [] action resource = (allowed, denied, [])"
| "evaluate_role_loop allowed denied (stmt # stmts) action resource =
     (if \<not> pattern_match (s_action stmt) action \<or> \<not> pattern_match (s_resource stmt) resource
      then evaluate_role_loop allowed denied stmts action resource
      else (case evaluate_role_loop
                (allowed \<or> equal_fold (s_effect stmt) ''allow'')
                (denied \<or> equal_fold (s_effect stmt) ''deny'') stmts action resource of
              (a, d, matched) \<Rightarrow> (a, d, stmt # matched)))"

definition evaluate_role_statements ::
    "statement_row list \<Rightarrow> string \<Rightarrow> string \<Rightarrow> bool \<times> bool \<times> statement_row list" where
  "evaluate_role_statements statements action resource =
     (case evaluate_role_loop False False statements action resource of
        (allowed, explicit_deny, matched) \<Rightarrow>
          if explicit_deny then (False, True, matched) else (allowed, False, matched))"

record evaluation_trace =
  et_role :: string
  et_allowed :: bool
  et_explicit_deny :: bool
  et_scopes :: "binding_row list"
  et_statements :: "statement_row list"

record evaluation_result =
  er_subject_type :: string
  er_subject_id :: string
  er_action :: string
  er_resource :: string
  er_fallback_role :: string
  er_effective_role :: string
  er_allowed :: bool
  er_reason :: string
  er_bindings :: "binding_row list"
  er_traces :: "evaluation_trace list"

definition trace_role ::
    "string \<Rightarrow> string \<Rightarrow> string \<Rightarrow> binding_row list \<Rightarrow> evaluation_trace prog" where
  "trace_role role_name action resource scopes =
     bnd (list_statements_for_role role_name) (\<lambda>statements.
       case evaluate_role_statements statements action resource of
         (allowed, explicit_deny, matched) \<Rightarrow>
           ret \<lparr>et_role = role_name, et_allowed = allowed, et_explicit_deny = explicit_deny,
                et_scopes = scopes, et_statements = matched\<rparr>)"

text \<open>The loop over the bound roles: the traces so far, and the first role that allows.\<close>

fun trace_bound ::
    "(string \<Rightarrow> binding_row list) \<Rightarrow> string \<Rightarrow> string \<Rightarrow> evaluation_trace list \<Rightarrow> string list \<Rightarrow>
     (evaluation_trace list \<times> string option) prog" where
  "trace_bound scopes action resource traces [] = ret (traces, None)"
| "trace_bound scopes action resource traces (role # roles) =
     bnd (trace_role role action resource (scopes role)) (\<lambda>t.
       if et_allowed t then ret (traces @ [t], Some role)
       else trace_bound scopes action resource (traces @ [t]) roles)"

definition explain_finish ::
    "string \<Rightarrow> string \<Rightarrow> string \<Rightarrow> evaluation_result \<Rightarrow> evaluation_trace list \<Rightarrow> string option \<Rightarrow>
     evaluation_result prog" where
  "explain_finish fallback_role action resource result traces hit =
     (case hit of
        Some role \<Rightarrow> ret (result\<lparr>er_traces := traces, er_allowed := True,
          er_effective_role := role, er_reason := ''allowed_by_binding''\<rparr>)
      | None \<Rightarrow> bnd (trace_role fallback_role action resource []) (\<lambda>t.
          ret (result\<lparr>er_traces := traces @ [t], er_allowed := et_allowed t,
            er_effective_role := fallback_role,
            er_reason := (if et_allowed t then ''allowed_by_fallback_role''
                          else if et_explicit_deny t then ''denied_by_statement''
                          else ''denied_by_default'')\<rparr>)))"

definition explain_subject_authorization ::
    "string \<Rightarrow> string \<Rightarrow> string \<Rightarrow> string \<Rightarrow> string \<Rightarrow> evaluation_result prog" where
  "explain_subject_authorization subject_type subject_id fallback_role action resource =
     bnd (of_result (case validate_action_resource_effect action resource ''allow'' of
            Inl e \<Rightarrow> if e = ErrInvalidEffect then Inr () else Inl e | Inr u \<Rightarrow> Inr u)) (\<lambda>_.
     bnd (of_result (validate_binding_fields subject_type subject_id resource)) (\<lambda>_.
     bnd list_bindings (\<lambda>all_bindings.
     let matching = filter (\<lambda>b. bd_type b = subject_type \<and> bd_subject b = subject_id \<and>
           binding_matches_resource (bd_resource b) resource) all_bindings;
         result = \<lparr>er_subject_type = subject_type, er_subject_id = subject_id, er_action = action,
           er_resource = resource, er_fallback_role = fallback_role, er_effective_role = [],
           er_allowed = False, er_reason = [], er_bindings = matching, er_traces = []\<rparr>
     in bnd (roles_for_subject_resource subject_type subject_id resource) (\<lambda>bound_roles.
     bnd (trace_bound (\<lambda>r. filter (\<lambda>b. bd_role b = r) matching) action resource [] bound_roles)
       (\<lambda>(traces, hit). explain_finish fallback_role action resource result traces hit)))))"

section \<open>What the evaluator decides\<close>

definition applies :: "string \<Rightarrow> string \<Rightarrow> string \<Rightarrow> statement \<Rightarrow> bool" where
  "applies subject action resource s \<longleftrightarrow>
     (st_subject s = subject \<or> st_subject s = ''*'') \<and>
     pattern_match (st_action s) action \<and> pattern_match (st_resource s) resource"

definition allows_stmt :: "statement \<Rightarrow> bool" where
  "allows_stmt s \<longleftrightarrow> equal_fold (st_effect s) ''allow''"

definition denies_stmt :: "statement \<Rightarrow> bool" where
  "denies_stmt s \<longleftrightarrow> equal_fold (st_effect s) ''deny''"

lemma deny_not_allow: "equal_fold e ''deny'' \<Longrightarrow> \<not> equal_fold e ''allow''"
  by (auto simp: equal_fold_def to_lower_def lower_char_def)

lemma evaluate_from_spec:
  "evaluate_from a stmts subject action resource \<longleftrightarrow>
     (a \<or> (\<exists>s \<in> set stmts. applies subject action resource s \<and> allows_stmt s)) \<and>
     \<not> (\<exists>s \<in> set stmts. applies subject action resource s \<and> denies_stmt s)"
  by (induction a stmts subject action resource rule: evaluate_from.induct)
     (auto simp: applies_def allows_stmt_def denies_stmt_def dest: deny_not_allow)

lemma pattern_match_star [simp]: "pattern_match ''*'' v"
  by (simp add: pattern_match_def)

text \<open>
  C13: \<open>Evaluate\<close> allows a request exactly when some statement that applies to it allows it and
  no statement that applies to it denies it: the order of the statements does not matter.
\<close>

theorem evaluate_decides:
  "evaluate stmts subject action resource \<longleftrightarrow>
     (\<exists>s \<in> set stmts. applies subject action resource s \<and> allows_stmt s) \<and>
     \<not> (\<exists>s \<in> set stmts. applies subject action resource s \<and> denies_stmt s)"
  by (simp add: evaluate_def evaluate_from_spec)

definition role_statement :: "string \<Rightarrow> statement_row \<Rightarrow> statement" where
  "role_statement role s = \<lparr>st_subject = role, st_action = s_action s, st_resource = s_resource s,
     st_effect = s_effect s, st_conditions = s_conds s\<rparr>"

lemma evaluate_role_loop_spec:
  "evaluate_role_loop a d rows action resource =
     (a \<or> (\<exists>s \<in> set rows. applies r action resource (role_statement r s) \<and> allows_stmt (role_statement r s)),
      d \<or> (\<exists>s \<in> set rows. applies r action resource (role_statement r s) \<and> denies_stmt (role_statement r s)),
      filter (\<lambda>s. applies r action resource (role_statement r s)) rows)"
  by (induction a d rows action resource rule: evaluate_role_loop.induct)
     (auto simp: applies_def allows_stmt_def denies_stmt_def role_statement_def)

lemma evaluate_role_statements_spec:
  "evaluate_role_statements rows action resource =
     (evaluate (map (role_statement r) rows) r action resource,
      \<exists>s \<in> set rows. applies r action resource (role_statement r s) \<and> denies_stmt (role_statement r s),
      filter (\<lambda>s. applies r action resource (role_statement r s)) rows)"
  unfolding evaluate_role_statements_def evaluate_def evaluate_from_spec
    evaluate_role_loop_spec [where r = r]
  by auto

text \<open>
  The evaluator of the simulation agrees with the one that enforces: for the statements of a
  role, \<open>evaluateRoleStatements\<close> allows exactly when \<open>Evaluate\<close> allows, reports an explicit
  deny exactly when an applying statement denies, and lists the statements that apply.
\<close>

lemma trace_agrees_with_evaluate:
  "evaluate_role_statements rows action resource =
     (evaluate (map (role_statement role) rows) role action resource,
      \<exists>s \<in> set rows. applies role action resource (role_statement role s) \<and> denies_stmt (role_statement role s),
      filter (\<lambda>s. applies role action resource (role_statement role s)) rows)"
  by (rule evaluate_role_statements_spec)

section \<open>The decision for a subject, as a function of the database\<close>

definition role_allows :: "database \<Rightarrow> string \<Rightarrow> string \<Rightarrow> string \<Rightarrow> bool" where
  "role_allows d role action resource =
     evaluate (map (role_statement role) (filter (\<lambda>s. s_role s = role) (t_statements d)))
       role action resource"

definition bound_roles :: "database \<Rightarrow> string \<Rightarrow> string \<Rightarrow> string \<Rightarrow> string list" where
  "bound_roles d subject_type subject_id resource =
     (if subject_type = [] \<or> subject_id = [] then []
      else map bd_role (filter (\<lambda>b. binding_matches_resource (bd_resource b) resource)
        (sort_key (\<lambda>b. (if bd_resource b = ''*'' then (1::nat) else 0, bd_resource b))
          (filter (\<lambda>b. bd_type b = subject_type \<and> bd_subject b = subject_id) (t_bindings d)))))"

definition decide_subject ::
    "database \<Rightarrow> string \<Rightarrow> string \<Rightarrow> string \<Rightarrow> string \<Rightarrow> string \<Rightarrow> bool \<times> string" where
  "decide_subject d subject_type subject_id fallback action resource =
     (let roles = bound_roles d subject_type subject_id resource in
      case find (\<lambda>r. role_allows d r action resource) roles of
        Some r \<Rightarrow> (True, r)
      | None \<Rightarrow> (case roles of
            r # _ \<Rightarrow> (False, r)
          | [] \<Rightarrow> (role_allows d fallback action resource, fallback)))"

lemma role_statement_map:
  "map (\<lambda>s. \<lparr>st_subject = role, st_action = s_action s, st_resource = s_resource s,
     st_effect = s_effect s, st_conditions = s_conds s\<rparr>) rows = map (role_statement role) rows"
  by (simp add: role_statement_def)

lemma evaluate_set_cong: "set xs = set ys \<Longrightarrow> evaluate xs s a r = evaluate ys s a r"
  by (simp add: evaluate_def evaluate_from_spec)

lemma evaluate_Nil [simp]: "evaluate [] s a r = False"
  by (simp add: evaluate_def)

lemma role_allows_sorted:
  "evaluate (map (role_statement role)
     (sort_key (\<lambda>s. (s_action s, s_resource s)) (filter (\<lambda>s. s_role s = role) (t_statements d))))
     role action resource = role_allows d role action resource"
  unfolding role_allows_def by (rule evaluate_set_cong) simp

lemma authorize_role_Inr:
  assumes "authorize_role role action resource w = (Inr b, w')"
  shows "b = role_allows (db w) role action resource \<and> env_step w w'"
proof -
  let ?rows = "sort_key (\<lambda>s. (s_action s, s_resource s)) (filter (\<lambda>s. s_role s = role) (t_statements (db w)))"
  from assms obtain rows w1 where
    q: "list_statements_for_role role w = (Inr rows, w1)" and
    r: "(if rows = [] then ret False else ret (evaluate (map (role_statement role) rows) role action resource)) w1 = (Inr b, w')"
    by (auto simp: authorize_role_def bnd_Inr_iff role_statement_map split: if_splits)
  have rows: "rows = ?rows \<and> env_step w w1"
    using q unfolding list_statements_for_role_def query_def
    by (auto elim!: external_Inr simp: env_step_fields)
  then have "b = evaluate (map (role_statement role) ?rows) role action resource \<and> w' = w1"
    using r by (cases "rows = []") auto
  with rows show ?thesis by (simp add: role_allows_sorted)
qed

lemma roles_for_subject_resource_Inr:
  assumes "roles_for_subject_resource ty sid res w = (Inr rs, w')"
  shows "rs = bound_roles (db w) ty sid res \<and> env_step w w'"
  using assms unfolding roles_for_subject_resource_def bound_roles_def query_def
  by (auto simp: bnd_Inr_iff env_step_fields elim!: external_Inr split: if_splits)

lemma resolve_role_Inr:
  assumes "resolve_role ty sid fb res w = (Inr r, w')"
  shows "r = (case bound_roles (db w) ty sid res of r # _ \<Rightarrow> r | [] \<Rightarrow> fb) \<and> env_step w w'"
proof -
  from assms obtain roles w1 where 1: "roles_for_subject_resource ty sid res w = (Inr roles, w1)"
    and 2: "(case roles of r # _ \<Rightarrow> ret r | [] \<Rightarrow> ret fb) w1 = (Inr r, w')"
    unfolding resolve_role_def bnd_Inr_iff by blast
  show ?thesis
    using roles_for_subject_resource_Inr [OF 1] 2 by (auto split: list.splits)
qed

lemma env_step_dbD: "env_step w w' \<Longrightarrow> db w' = db w"
  by (simp add: env_step_fields)

lemma first_allowed_Inr:
  "first_allowed action resource roles w = (Inr hit, w') \<Longrightarrow>
   hit = find (\<lambda>r. role_allows (db w) r action resource) roles \<and> env_step w w'"
proof (induction roles arbitrary: w)
  case (Cons r rs)
  from Cons.prems obtain b w1 where
    1: "authorize_role r action resource w = (Inr b, w1)" and
    2: "(if b then ret (Some r) else first_allowed action resource rs) w1 = (Inr hit, w')"
    by (auto simp: bnd_Inr_iff)
  have b: "b = role_allows (db w) r action resource" "env_step w w1"
    using authorize_role_Inr [OF 1] by auto
  show ?case
  proof (cases b)
    case True
    with 2 b show ?thesis by simp
  next
    case False
    with 2 have "first_allowed action resource rs w1 = (Inr hit, w')" by simp
    from Cons.IH [OF this] b False show ?thesis by (auto simp: env_step_dbD intro: env_step_trans)
  qed
qed simp

lemma authorize_subject_Inr:
  assumes "authorize_subject ty sid fb action resource w = (Inr res, w')"
  shows "res = decide_subject (db w) ty sid fb action resource \<and> env_step w w'"
proof -
  from assms obtain role w1 roles w2 hit w3 where
    1: "resolve_role ty sid fb resource w = (Inr role, w1)" and
    2: "roles_for_subject_resource ty sid resource w1 = (Inr roles, w2)" and
    3: "first_allowed action resource roles w2 = (Inr hit, w3)" and
    4: "(case hit of Some r \<Rightarrow> ret (True, r)
         | None \<Rightarrow> bnd (authorize_role role action resource) (\<lambda>a. ret (a, role))) w3 = (Inr res, w')"
    unfolding authorize_subject_def bnd_Inr_iff by blast
  note r1 = resolve_role_Inr [OF 1] and r2 = roles_for_subject_resource_Inr [OF 2]
    and r3 = first_allowed_Inr [OF 3]
  have db: "db w1 = db w" "db w2 = db w" "db w3 = db w" and es: "env_step w w3"
    using r1 r2 r3 by (auto simp: env_step_dbD dest: env_step_trans)
  show ?thesis
  proof (cases hit)
    case (Some r)
    then have "find (\<lambda>r. role_allows (db w) r action resource) (bound_roles (db w) ty sid resource) = Some r"
      using r2 r3 db by simp
    moreover have "res = (True, r)" "w' = w3" using 4 Some by simp_all
    ultimately show ?thesis using es by (simp add: decide_subject_def)
  next
    case None
    with 4 obtain a where a: "authorize_role role action resource w3 = (Inr a, w')" "res = (a, role)"
      by (auto simp: bnd_Inr_iff)
    have "a = role_allows (db w) role action resource" "env_step w w'"
      using authorize_role_Inr [OF a(1)] db es by (auto intro: env_step_trans)
    with a(2) None r1 r2 r3 db show ?thesis
      by (auto simp: decide_subject_def split: list.splits)
  qed
qed

text \<open>
  C15: what \<open>AuthorizeSubject\<close> returns, when no statement fails, is the decision of the database
  as it stands: the first role bound to the subject on a matching resource that allows the
  request; else, with such a binding, a denial; and only without one the fallback role's verdict.
\<close>

theorem authorize_subject_decides:
  assumes "authorize_subject ty sid fallback action resource w = (Inr res, w')"
  shows "res = decide_subject (db w) ty sid fallback action resource \<and> db w' = db w"
  using authorize_subject_Inr [OF assms] by (simp add: env_step_dbD)

section \<open>The simulation\<close>

lemma trace_role_Inr:
  assumes "trace_role role action resource scopes w = (Inr t, w')"
  shows "et_allowed t = role_allows (db w) role action resource \<and> env_step w w'"
  using assms unfolding trace_role_def list_statements_for_role_def query_def
    evaluate_role_statements_spec [where r = role]
  by (auto simp: bnd_Inr_iff role_allows_sorted env_step_fields elim!: external_Inr)

lemma trace_bound_Inr:
  "trace_bound scopes action resource ts roles w = (Inr (ts', hit), w') \<Longrightarrow>
   hit = find (\<lambda>r. role_allows (db w) r action resource) roles \<and> env_step w w'"
proof (induction roles arbitrary: w ts)
  case (Cons r rs)
  from Cons.prems obtain t w1 where
    1: "trace_role r action resource (scopes r) w = (Inr t, w1)" and
    2: "(if et_allowed t then ret (ts @ [t], Some r)
         else trace_bound scopes action resource (ts @ [t]) rs) w1 = (Inr (ts', hit), w')"
    by (auto simp: bnd_Inr_iff)
  note b = trace_role_Inr [OF 1]
  show ?case
  proof (cases "et_allowed t")
    case True
    with 2 b show ?thesis by simp
  next
    case False
    with 2 have "trace_bound scopes action resource (ts @ [t]) rs w1 = (Inr (ts', hit), w')" by simp
    from Cons.IH [OF this] b False show ?thesis by (auto simp: env_step_dbD intro: env_step_trans)
  qed
qed simp

text \<open>The verdict of the simulation: when no bound role allows, it asks the fallback role.\<close>

definition explain_decision ::
    "database \<Rightarrow> string \<Rightarrow> string \<Rightarrow> string \<Rightarrow> string \<Rightarrow> string \<Rightarrow> bool \<times> string" where
  "explain_decision d subject_type subject_id fallback action resource =
     (case find (\<lambda>r. role_allows d r action resource) (bound_roles d subject_type subject_id resource) of
        Some r \<Rightarrow> (True, r)
      | None \<Rightarrow> (role_allows d fallback action resource, fallback))"

lemma list_bindings_Inr:
  assumes "list_bindings w = (Inr bs, w')"
  shows "env_step w w'"
  using assms unfolding list_bindings_def query_def
  by (auto elim!: external_Inr simp: env_step_fields)

lemma explain_Inr:
  assumes "explain_subject_authorization ty sid fb action resource w = (Inr res, w')"
  shows "(er_allowed res, er_effective_role res) = explain_decision (db w) ty sid fb action resource"
proof -
  from assms obtain bs w0 roles w1 ts hit w2 scopes result where
    0: "list_bindings w = (Inr bs, w0)" and
    1: "roles_for_subject_resource ty sid resource w0 = (Inr roles, w1)" and
    2: "trace_bound scopes action resource [] roles w1 = (Inr (ts, hit), w2)" and
    3: "explain_finish fb action resource result ts hit w2 = (Inr res, w')"
    unfolding explain_subject_authorization_def bnd_Inr_iff Let_def by auto
  note r0 = list_bindings_Inr [OF 0] and r1 = roles_for_subject_resource_Inr [OF 1]
    and r2 = trace_bound_Inr [OF 2]
  have db: "db w0 = db w" "db w1 = db w" "db w2 = db w"
    using r0 r1 r2 by (auto simp: env_step_dbD)
  show ?thesis
  proof (cases hit)
    case (Some r)
    then have "find (\<lambda>r. role_allows (db w) r action resource) (bound_roles (db w) ty sid resource) = Some r"
      using r1 r2 db by simp
    moreover have "er_allowed res \<and> er_effective_role res = r"
      using 3 Some by (auto simp: explain_finish_def)
    ultimately show ?thesis by (simp add: explain_decision_def)
  next
    case None
    with 3 obtain t where t: "trace_role fb action resource [] w2 = (Inr t, w')"
      "er_allowed res = et_allowed t" "er_effective_role res = fb"
      by (auto simp: bnd_Inr_iff explain_finish_def)
    with trace_role_Inr [OF t(1)] None r1 r2 db show ?thesis
      by (auto simp: explain_decision_def)
  qed
qed

text \<open>
  C35: the simulation agrees with the enforcement when the subject has no binding that matches
  the resource, or when some bound role allows the request.
\<close>

theorem explain_agrees_with_authorize:
  assumes "explain_subject_authorization ty sid fallback action resource w = (Inr ex, w1)"
    and "authorize_subject ty sid fallback action resource w = (Inr (allowed, role), w2)"
    and "bound_roles (db w) ty sid resource = [] \<or>
         (\<exists>r \<in> set (bound_roles (db w) ty sid resource). role_allows (db w) r action resource)"
  shows "er_allowed ex = allowed \<and> er_effective_role ex = role"
proof -
  have "decide_subject (db w) ty sid fallback action resource
      = explain_decision (db w) ty sid fallback action resource"
    using assms(3)
    by (auto simp: decide_subject_def explain_decision_def Let_def find_None_iff split: option.splits list.splits)
  then have "(er_allowed ex, er_effective_role ex) = (allowed, role)"
    using explain_Inr [OF assms(1)] authorize_subject_Inr [OF assms(2)] by metis
  then show ?thesis by simp
qed

text \<open>
  Where a binding matches and no bound role allows, but the fallback role would, the
  simulation answers that the request is allowed by the fallback role while the enforcement
  denies it: the two treat the fallback role differently.
\<close>

lemma explain_overstates_fallback:
  assumes "explain_subject_authorization ty sid fallback action resource w = (Inr ex, w1)"
    and "authorize_subject ty sid fallback action resource w = (Inr (allowed, role), w2)"
    and "bound_roles (db w) ty sid resource \<noteq> []"
    and "\<not> (\<exists>r \<in> set (bound_roles (db w) ty sid resource). role_allows (db w) r action resource)"
    and "role_allows (db w) fallback action resource"
  shows "er_allowed ex \<and> \<not> allowed"
proof -
  have "find (\<lambda>r. role_allows (db w) r action resource) (bound_roles (db w) ty sid resource) = None"
    using assms(4) by (auto simp: find_None_iff)
  moreover obtain r rs where "bound_roles (db w) ty sid resource = r # rs"
    using assms(3) by (cases "bound_roles (db w) ty sid resource") auto
  ultimately show ?thesis
    using explain_Inr [OF assms(1)] authorize_subject_Inr [OF assms(2)] assms(5)
    by (simp add: explain_decision_def decide_subject_def)
qed


section \<open>What the changing operations keep\<close>

text \<open>The indexes of \<open>role_policy_statements\<close> and \<open>subject_role_bindings\<close>.\<close>

definition policy_index :: "database \<Rightarrow> bool" where
  "policy_index d \<longleftrightarrow> distinct (map s_id (t_statements d)) \<and>
     distinct (map (\<lambda>s. (s_role s, s_action s, s_resource s, s_effect s)) (t_statements d)) \<and>
     distinct (map bd_id (t_bindings d)) \<and>
     distinct (map (\<lambda>b. (bd_type b, bd_subject b, bd_resource b)) (t_bindings d))"

definition superadmin_rows :: "database \<Rightarrow> statement_row list" where
  "superadmin_rows d = filter (\<lambda>s. s_role s = ''superadmin'') (t_statements d)"

lemma insert_statement_keeps:
  assumes "insert_statement row d = Inr (x, d')"
  shows "policy_index d \<Longrightarrow> policy_index d'"
    and "s_role row \<noteq> ''superadmin'' \<Longrightarrow> superadmin_rows d' = superadmin_rows d"
proof -
  have x: "\<forall>t \<in> set (t_statements d). s_id t \<noteq> s_id row \<and> \<not> same_statement row t"
    and d': "d' = d\<lparr>t_statements := t_statements d @ [row]\<rparr>"
    using assms by (auto simp: insert_statement_def list_ex_iff split: if_splits)
  show "policy_index d'" if "policy_index d"
    using that x by (auto simp: d' policy_index_def same_statement_def image_iff)
  show "superadmin_rows d' = superadmin_rows d" if "s_role row \<noteq> ''superadmin''"
    using that by (simp add: d' superadmin_rows_def)
qed

lemma distinct_map_update:
  assumes "distinct (map k xs)" "distinct (map i xs)" "x \<in> set xs"
    and "\<And>t. t \<in> set xs \<Longrightarrow> i t \<noteq> i x \<Longrightarrow> k t \<noteq> k (f x)"
  shows "distinct (map k (map (\<lambda>t. if i t = i x then f t else t) xs))"
proof -
  have uniq: "t = x" if "t \<in> set xs" "i t = i x" for t
    using assms(2,3) that by (metis distinct_map_unique)
  show ?thesis
    unfolding map_map distinct_map
  proof (intro conjI inj_onI)
    show "distinct xs" using assms(2) by (simp add: distinct_map)
    fix a b assume ab: "a \<in> set xs" "b \<in> set xs"
      and eq: "(k \<circ> (\<lambda>t. if i t = i x then f t else t)) a = (k \<circ> (\<lambda>t. if i t = i x then f t else t)) b"
    show "a = b"
      using eq ab uniq assms(4) [of a] assms(4) [of b] distinct_map_unique [OF assms(1)]
      by (cases "i a = i x"; cases "i b = i x") (auto; metis)+
  qed
qed

lemma find_id_unique:
  "distinct (map i xs) \<Longrightarrow> find (\<lambda>t. i t = v) xs = Some x \<Longrightarrow> t \<in> set xs \<Longrightarrow> i t = v \<Longrightarrow> t = x"
  using find_SomeD [of "\<lambda>t. i t = v" xs x] distinct_map_unique by fastforce

lemma modify_statement_keeps:
  assumes "modify_statement sid f d = Inr (x, d')" "policy_index d"
    and "\<And>s. s_id (f s) = s_id s" "\<And>s. s_role (f s) = s_role s"
  shows "policy_index d'"
    and "(\<forall>s \<in> set (t_statements d). s_id s = sid \<longrightarrow> s_role s \<noteq> ''superadmin'') \<Longrightarrow>
         superadmin_rows d' = superadmin_rows d"
proof -
  obtain s where s: "find (\<lambda>s. s_id s = sid) (t_statements d) = Some s"
    and nd: "\<not> list_ex (\<lambda>t. s_id t \<noteq> sid \<and> same_statement (f s) t) (t_statements d)"
    and d': "d' = d\<lparr>t_statements := map (\<lambda>t. if s_id t = sid then f t else t) (t_statements d)\<rparr>"
    using assms(1) by (auto simp: modify_statement_def split: option.splits if_splits)
  have sin: "s \<in> set (t_statements d)" "s_id s = sid" using find_SomeD [OF s] by auto
  have "distinct (map (\<lambda>s. (s_role s, s_action s, s_resource s, s_effect s))
      (map (\<lambda>t. if s_id t = s_id s then f t else t) (t_statements d)))"
    using assms(2) sin nd
    by (intro distinct_map_update) (auto simp: policy_index_def list_ex_iff same_statement_def)
  moreover have "map s_id (map (\<lambda>t. if s_id t = sid then f t else t) (t_statements d)) = map s_id (t_statements d)"
    using assms(3) by simp
  ultimately show "policy_index d'"
    using assms(2) sin(2) by (simp add: policy_index_def d' del: map_map)
  show "superadmin_rows d' = superadmin_rows d"
    if "\<forall>s \<in> set (t_statements d). s_id s = sid \<longrightarrow> s_role s \<noteq> ''superadmin''"
  proof -
    have "filter (\<lambda>s. s_role s = ''superadmin'') (map (\<lambda>t. if s_id t = sid then f t else t) xs)
        = filter (\<lambda>s. s_role s = ''superadmin'') xs"
      if "\<forall>s \<in> set xs. s_id s = sid \<longrightarrow> s_role s \<noteq> ''superadmin''" for xs
      using that assms(4) by (induction xs) auto
    with that show ?thesis by (simp add: superadmin_rows_def d')
  qed
qed

text \<open>The invariant of the statement operations: the indexes, and the superadmin rows \<open>X\<close>.\<close>

definition statements_inv :: "statement_row list \<Rightarrow> world \<Rightarrow> bool" where
  "statements_inv X w \<longleftrightarrow> policy_index (db w) \<and> superadmin_rows (db w) = X"

lemma stable_statements_inv [simp]: "stable (statements_inv X)"
  unfolding statements_inv_def by (rule stable_db)

lemma validate_statement_input_triple:
  "triple (statements_inv X) (validate_statement_input role a r e)
     (\<lambda>_ w. statements_inv X w \<and> role \<noteq> ''superadmin'') (statements_inv X)"
  unfolding validate_statement_input_def
  by (rule triple_bnd [where Q = "\<lambda>_. statements_inv X"],
      simp add: keeps_inv_triple [symmetric] ensure_role_exists_def, intro keeps, simp,
      rule triple_bnd [where Q = "\<lambda>_. statements_inv X"],
      simp add: keeps_inv_triple [symmetric] keeps_of_result,
      rule triple_guard, simp)

lemma create_statement_keeps: "keeps_inv (statements_inv X) (create_statement E role a r e c)"
proof -
  have 1: "keeps_inv (statements_inv X) (bnd (new_uuid E) (\<lambda>sid. exec (\<lambda>_. insert_statement
      \<lparr>s_id = sid, s_role = role, s_action = a, s_resource = r, s_effect = e,
       s_conds = normalize_conditions c\<rparr>)))" if "role \<noteq> ''superadmin''"
    using that
    by (intro keeps keeps_exec) (auto simp: statements_inv_def insert_statement_keeps)
  show ?thesis
    unfolding create_statement_def keeps_inv_triple
  proof (rule triple_bnd [OF validate_statement_input_triple])
    fix u
    show "triple (\<lambda>w. statements_inv X w \<and> role \<noteq> ''superadmin'')
        (bnd (new_uuid E) (\<lambda>sid. exec (\<lambda>_. insert_statement
          \<lparr>s_id = sid, s_role = role, s_action = a, s_resource = r, s_effect = e,
           s_conds = normalize_conditions c\<rparr>))) (\<lambda>_. statements_inv X) (statements_inv X)"
      using 1 by (cases "role = ''superadmin''") (auto simp: triple_def keeps_inv_triple)
  qed
qed

text \<open>What \<open>statementRole\<close> tells about the rows with the id.\<close>

definition role_of_id :: "ext \<Rightarrow> string \<Rightarrow> string \<Rightarrow> world \<Rightarrow> bool" where
  "role_of_id E statement_id role w \<longleftrightarrow>
     (\<forall>s \<in> set (t_statements (db w)). pg_uuid E statement_id = Some (s_id s) \<longrightarrow> s_role s = role)"

lemma stable_role_of_id: "stable (\<lambda>w. statements_inv X w \<and> role_of_id E i r w)"
  unfolding statements_inv_def role_of_id_def by (rule stable_db)

lemma statement_role_triple:
  "triple (statements_inv X) (statement_role E i)
     (\<lambda>role w. statements_inv X w \<and> role_of_id E i role w) (statements_inv X)"
proof -
  have "statements_inv X w' \<and> role_of_id E i role w'"
    if w: "statements_inv X w" and r: "statement_role E i w = (Inr role, w')" for w w' role
  proof -
    from r obtain sid where sid: "pg_uuid E i = Some sid"
      and q: "query (\<lambda>d. case find (\<lambda>s. s_id s = sid) (t_statements d) of
                None \<Rightarrow> Inl PgNoRows | Some s \<Rightarrow> Inr (s_role s)) w = (Inr role, w')"
      by (auto simp: statement_role_def bnd_Inr_iff cast_uuid_def split: sum.splits option.splits)
         (metis prod.collapse)
    then obtain s where s: "find (\<lambda>s. s_id s = sid) (t_statements (db w)) = Some s" "s_role s = role"
      and es: "env_step w w'"
      unfolding query_def by (auto elim!: external_Inr simp: env_step_fields split: option.splits)
    have inv: "statements_inv X w'" using stableD [OF stable_statements_inv w es] .
    moreover have "role_of_id E i role w'"
      using w s sid es find_id_unique [of s_id "t_statements (db w)" sid s]
      by (auto simp: role_of_id_def env_step_dbD statements_inv_def policy_index_def)
    ultimately show ?thesis by simp
  qed
  moreover have "keeps_inv (statements_inv X) (statement_role E i)"
    unfolding statement_role_def by (intro keeps) simp
  ultimately show ?thesis
    unfolding triple_def by (auto simp: keeps_inv_def split: prod.splits sum.splits)
qed


lemma update_statement_keeps: "keeps_inv (statements_inv X) (update_statement E i a r e c)"
proof -
  let ?f = "\<lambda>s. s\<lparr>s_action := a, s_resource := r, s_effect := e, s_conds := normalize_conditions c\<rparr>"
  let ?I = "\<lambda>role w. statements_inv X w \<and> role_of_id E i role w"
  have valid: "triple (?I role) (validate_statement_input role a r e)
      (\<lambda>_ w. ?I role w \<and> role \<noteq> ''superadmin'') (statements_inv X)" for role
  proof -
    have "keeps_inv (?I role) (ensure_role_exists role)"
      unfolding ensure_role_exists_def by (intro keeps stable_role_of_id)
    then have "triple (?I role) (ensure_role_exists role) (\<lambda>_. ?I role) (statements_inv X)"
      by (rule triple_of_keeps) simp
    moreover have "triple (?I role) (of_result z) (\<lambda>_. ?I role) (statements_inv X)" for z :: "err + unit"
      by (rule triple_of_keeps [OF keeps_of_result]) simp
    moreover have "triple (?I role) (guard (role \<noteq> ''superadmin'') x)
        (\<lambda>_ w. ?I role w \<and> role \<noteq> ''superadmin'') (statements_inv X)" for x
      by (rule triple_guard) simp
    ultimately show ?thesis
      unfolding validate_statement_input_def by (blast intro: triple_bnd)
  qed
  have store: "triple (\<lambda>w. ?I role w \<and> role \<noteq> ''superadmin'')
      (bnd (cast_uuid E i) (\<lambda>sid. exec (\<lambda>_. modify_statement sid ?f)))
      (\<lambda>_. statements_inv X) (statements_inv X)" for role
  proof (rule triple_bnd [OF triple_cast], simp)
    fix sid
    have "stable (\<lambda>w. (?I role w \<and> role \<noteq> ''superadmin'') \<and> pg_uuid E i = Some sid)"
      using stable_role_of_id [of X E i role] by (auto simp: stable_def)
    then show "triple (\<lambda>w. (?I role w \<and> role \<noteq> ''superadmin'') \<and> pg_uuid E i = Some sid)
        (exec (\<lambda>_. modify_statement sid ?f)) (\<lambda>_. statements_inv X) (statements_inv X)"
    proof (rule triple_exec)
      fix w x d
      assume w: "(?I role w \<and> role \<noteq> ''superadmin'') \<and> pg_uuid E i = Some sid"
        and m: "modify_statement sid ?f (db w) = Inr (x, d)"
      have pi: "policy_index (db w)" using w by (simp add: statements_inv_def)
      have "policy_index d" using modify_statement_keeps(1) [OF m pi] by simp
      moreover have "superadmin_rows d = superadmin_rows (db w)"
        by (rule modify_statement_keeps(2) [OF m pi]) (use w in \<open>auto simp: role_of_id_def\<close>)
      ultimately show "statements_inv X (w\<lparr>db := d\<rparr>) \<and> statements_inv X (w\<lparr>db := d\<rparr>)"
        using w by (simp add: statements_inv_def)
    qed simp
  qed
  show ?thesis
    unfolding update_statement_def keeps_inv_triple
    by (rule triple_bnd [OF statement_role_triple], rule triple_bnd [OF valid], rule store)
qed

lemma delete_statement_keeps: "keeps_inv (statements_inv X) (delete_statement E i)"
proof -
  let ?I = "\<lambda>role w. statements_inv X w \<and> role_of_id E i role w"
  let ?del = "\<lambda>sid (_::int) d. Inr (length (filter (\<lambda>s. s_id s = sid) (t_statements d)),
            d\<lparr>t_statements := filter (\<lambda>s. s_id s \<noteq> sid) (t_statements d)\<rparr>)"
  have protect: "triple (?I role) (guard (role \<noteq> ''superadmin'') x)
      (\<lambda>_ w. ?I role w \<and> role \<noteq> ''superadmin'') (statements_inv X)" for role x
    by (rule triple_guard) simp
  have store: "triple (\<lambda>w. ?I role w \<and> role \<noteq> ''superadmin'')
      (bnd (cast_uuid E i) (\<lambda>sid. bnd (exec (?del sid)) (\<lambda>n. guard (n \<noteq> 0) ErrStatementNotFound)))
      (\<lambda>_. statements_inv X) (statements_inv X)" for role
  proof (rule triple_bnd [OF triple_cast], simp)
    fix sid
    have st: "stable (\<lambda>w. (?I role w \<and> role \<noteq> ''superadmin'') \<and> pg_uuid E i = Some sid)"
      using stable_role_of_id [of X E i role] by (auto simp: stable_def)
    have "triple (\<lambda>w. (?I role w \<and> role \<noteq> ''superadmin'') \<and> pg_uuid E i = Some sid)
        (exec (?del sid)) (\<lambda>_. statements_inv X) (statements_inv X)"
    proof (rule triple_exec [OF st])
      fix w n d
      assume w: "(?I role w \<and> role \<noteq> ''superadmin'') \<and> pg_uuid E i = Some sid"
        and d: "?del sid (clock w) (db w) = Inr (n, d)"
      have d': "d = (db w)\<lparr>t_statements := filter (\<lambda>s. s_id s \<noteq> sid) (t_statements (db w))\<rparr>"
        using d by simp
      have "policy_index d"
        using w by (auto simp: d' statements_inv_def policy_index_def intro: distinct_map_filterI)
      moreover have "superadmin_rows d = superadmin_rows (db w)"
        unfolding d' superadmin_rows_def using w
        by (auto simp: role_of_id_def intro!: filter_cong)
      ultimately show "statements_inv X (w\<lparr>db := d\<rparr>) \<and> statements_inv X (w\<lparr>db := d\<rparr>)"
        using w by (simp add: statements_inv_def)
    qed simp
    then show "triple (\<lambda>w. (?I role w \<and> role \<noteq> ''superadmin'') \<and> pg_uuid E i = Some sid)
        (bnd (exec (?del sid)) (\<lambda>n. guard (n \<noteq> 0) ErrStatementNotFound))
        (\<lambda>_. statements_inv X) (statements_inv X)"
      by (rule triple_bnd) (simp add: keeps_inv_triple [symmetric] keeps_guard)
  qed
  show ?thesis
    unfolding delete_statement_def keeps_inv_triple
    by (rule triple_bnd [OF statement_role_triple], rule triple_bnd [OF protect], rule store)
qed

lemma upsert_binding_row_keeps:
  assumes "upsert_binding_row row d = Inr (x, d')"
  shows "policy_index d \<Longrightarrow> policy_index d'" and "superadmin_rows d' = superadmin_rows d"
proof -
  have "\<And>bs :: binding_row list. map bd_id (map (\<lambda>b. if same_scope row b then b\<lparr>bd_role := bd_role row\<rparr> else b) bs) = map bd_id bs"
    and "\<And>bs :: binding_row list. map (\<lambda>b. (bd_type b, bd_subject b, bd_resource b))
        (map (\<lambda>b. if same_scope row b then b\<lparr>bd_role := bd_role row\<rparr> else b) bs)
      = map (\<lambda>b. (bd_type b, bd_subject b, bd_resource b)) bs"
    by simp_all
  then show "policy_index d'" if "policy_index d"
    using assms that find_NoneD [of "same_scope row" "t_bindings d"]
    by (fastforce simp: upsert_binding_row_def policy_index_def same_scope_def list_ex_iff
        split: if_splits option.splits simp del: map_map)
  show "superadmin_rows d' = superadmin_rows d"
    using assms by (auto simp: upsert_binding_row_def superadmin_rows_def split: if_splits option.splits)
qed

lemma upsert_binding_keeps: "keeps_inv (statements_inv X) (upsert_binding E ty sid res role)"
  unfolding upsert_binding_def validate_binding_input_def ensure_role_exists_def
  by (intro keeps keeps_exec) (auto simp: statements_inv_def upsert_binding_row_keeps)

lemma delete_binding_keeps: "keeps_inv (statements_inv X) (delete_binding E i)"
  unfolding delete_binding_def
  by (intro keeps keeps_exec)
     (auto simp: statements_inv_def policy_index_def superadmin_rows_def intro: distinct_map_filterI)

text \<open>A history of requests; each may fail, and the next one runs anyway.\<close>

datatype policy_op =
    CreateStatement string string string string "smap option"
  | UpdateStatement string string string string "smap option"
  | DeleteStatement string
  | UpsertBinding string string string string
  | DeleteBinding string

fun run_policy_op :: "ext \<Rightarrow> policy_op \<Rightarrow> unit prog" where
  "run_policy_op E (CreateStatement role a r e c) = bnd (create_statement E role a r e c) (\<lambda>_. ret ())"
| "run_policy_op E (UpdateStatement i a r e c) = bnd (update_statement E i a r e c) (\<lambda>_. ret ())"
| "run_policy_op E (DeleteStatement i) = delete_statement E i"
| "run_policy_op E (UpsertBinding ty sid r role) = bnd (upsert_binding E ty sid r role) (\<lambda>_. ret ())"
| "run_policy_op E (DeleteBinding i) = delete_binding E i"

definition run_policy_ops :: "ext \<Rightarrow> policy_op list \<Rightarrow> unit prog" where
  "run_policy_ops E ops = for_each (\<lambda>x. bnd (attempt (run_policy_op E x)) (\<lambda>_. ret ())) ops"

lemma run_policy_op_keeps: "keeps_inv (statements_inv X) (run_policy_op E x)"
  by (cases x) (auto intro!: keeps create_statement_keeps update_statement_keeps
      delete_statement_keeps upsert_binding_keeps delete_binding_keeps)

text \<open>
  C16: no history of requests to create, change or delete statements and bindings, each of which
  may succeed, be refused or fail halfway, touches the statements of the superadmin role or
  breaks the primary keys and unique indexes of the two tables.
\<close>

theorem superadmin_statements_protected:
  assumes "policy_index (db w)"
  shows "superadmin_rows (db (snd (run_policy_ops E ops w))) = superadmin_rows (db w) \<and>
         policy_index (db (snd (run_policy_ops E ops w)))"
proof -
  have "keeps_inv (statements_inv (superadmin_rows (db w))) (run_policy_ops E ops)"
    unfolding run_policy_ops_def by (intro keeps run_policy_op_keeps)
  then show ?thesis using assms by (auto simp: keeps_inv_def statements_inv_def)
qed

section \<open>Examples\<close>

text \<open>
  A credential bound to \<open>readonly\<close> on one bucket, whose own role may put objects: the roles and
  statements are those of the migrations.
\<close>

definition allow_row :: "string \<Rightarrow> string \<Rightarrow> string \<Rightarrow> statement_row" where
  "allow_row i role action = \<lparr>s_id = i, s_role = role, s_action = action, s_resource = ''*'',
     s_effect = ''allow'', s_conds = Map.empty\<rparr>"

definition example_policy_db :: database where
  "example_policy_db = empty_db\<lparr>
     t_roles := [\<lparr>r_name = ''superadmin'', r_desc = [], r_builtin = True\<rparr>,
                 \<lparr>r_name = ''bucket-admin'', r_desc = [], r_builtin = True\<rparr>,
                 \<lparr>r_name = ''readonly'', r_desc = [], r_builtin = True\<rparr>],
     t_statements := [allow_row ''1'' ''superadmin'' ''*'', allow_row ''2'' ''bucket-admin'' ''object.*'',
                      allow_row ''3'' ''readonly'' ''object.get''],
     t_bindings := [\<lparr>bd_id = ''b1'', bd_type = ''credential'', bd_subject = ''AK'',
                      bd_resource = ''bucket:a'', bd_role = ''readonly'', bd_created = 0\<rparr>]\<rparr>"

lemmas policy_example = example_policy_db_def empty_db_def allow_row_def calm_world_def

lemmas policy_eval = role_allows_def bound_roles_def role_statement_def evaluate_def pattern_match_def
  has_suffix_def has_prefix_def trim_suffix_def equal_fold_def to_lower_def lower_char_def
  binding_matches_resource_def

theorem authorize_subject_decides_witness:
  "fst (authorize_subject ''credential'' ''AK'' ''bucket-admin'' ''object.get'' ''bucket:a''
        (calm_world example_policy_db)) = Inr (True, ''readonly'') \<and>
   decide_subject (db (calm_world example_policy_db)) ''credential'' ''AK'' ''bucket-admin''
     ''object.get'' ''bucket:a'' = (True, ''readonly'')"
proof -
  have r: "authorize_subject ''credential'' ''AK'' ''bucket-admin'' ''object.get'' ''bucket:a''
        (calm_world example_policy_db) = (Inr (True, ''readonly''), calm_world example_policy_db)"
    by (simp add: authorize_subject_def resolve_role_def roles_for_subject_resource_def bnd_def
        query_def authorize_role_def list_statements_for_role_def policy_example policy_eval external_def)
  show ?thesis using authorize_subject_decides [OF r] r by simp
qed


lemmas policy_run = authorize_subject_def resolve_role_def roles_for_subject_resource_def bnd_def
  query_def authorize_role_def list_statements_for_role_def policy_example policy_eval external_def
  explain_subject_authorization_def list_bindings_def trace_role_def explain_finish_def
  evaluate_role_statements_def validate_action_resource_effect_def validate_binding_fields_def
  trim_space_def trim_right_by_def is_space_def contains_any_def white_chars_def

theorem explain_agrees_with_authorize_witness:
  "\<exists>ex w1. explain_subject_authorization ''credential'' ''AK'' ''bucket-admin'' ''object.get'' ''bucket:a''
     (calm_world example_policy_db) = (Inr ex, w1) \<and> er_allowed ex \<and> er_effective_role ex = ''readonly''"
proof -
  let ?w = "calm_world example_policy_db"
  obtain ex where e: "explain_subject_authorization ''credential'' ''AK'' ''bucket-admin'' ''object.get'' ''bucket:a'' ?w
      = (Inr ex, ?w)"
    by (simp add: policy_run Let_def)
  have r: "authorize_subject ''credential'' ''AK'' ''bucket-admin'' ''object.get'' ''bucket:a'' ?w
      = (Inr (True, ''readonly''), ?w)"
    by (simp add: policy_run)
  have "\<exists>r \<in> set (bound_roles (db ?w) ''credential'' ''AK'' ''bucket:a'').
      role_allows (db ?w) r ''object.get'' ''bucket:a''"
    by (simp add: policy_example policy_eval)
  with explain_agrees_with_authorize [OF e r] e show ?thesis by auto
qed

theorem explain_overstates_fallback_witness:
  "\<exists>ex w1. explain_subject_authorization ''credential'' ''AK'' ''bucket-admin'' ''object.put'' ''bucket:a''
     (calm_world example_policy_db) = (Inr ex, w1) \<and> er_allowed ex \<and>
   fst (authorize_subject ''credential'' ''AK'' ''bucket-admin'' ''object.put'' ''bucket:a''
     (calm_world example_policy_db)) = Inr (False, ''readonly'')"
proof -
  let ?w = "calm_world example_policy_db"
  obtain ex where e: "explain_subject_authorization ''credential'' ''AK'' ''bucket-admin'' ''object.put'' ''bucket:a'' ?w
      = (Inr ex, ?w)"
    by (simp add: policy_run Let_def)
  have r: "authorize_subject ''credential'' ''AK'' ''bucket-admin'' ''object.put'' ''bucket:a'' ?w
      = (Inr (False, ''readonly''), ?w)"
    by (simp add: policy_run)
  have "bound_roles (db ?w) ''credential'' ''AK'' ''bucket:a'' = [''readonly'']"
    and "\<not> role_allows (db ?w) ''readonly'' ''object.put'' ''bucket:a''"
    and "role_allows (db ?w) ''bucket-admin'' ''object.put'' ''bucket:a''"
    by (simp_all add: policy_example policy_eval)
  then have "er_allowed ex \<and> \<not> False"
    by (intro explain_overstates_fallback [OF e r]) simp_all
  with e r show ?thesis by auto
qed

theorem superadmin_statements_protected_witness:
  "superadmin_rows (db (snd (run_policy_ops plain_ext [DeleteStatement ''1'', DeleteStatement ''2'']
     (calm_world example_policy_db)))) = [allow_row ''1'' ''superadmin'' ''*'']"
proof -
  have "policy_index (db (calm_world example_policy_db))"
    by (simp add: policy_index_def policy_example)
  from superadmin_statements_protected [OF this]
  have "superadmin_rows (db (snd (run_policy_ops plain_ext [DeleteStatement ''1'', DeleteStatement ''2'']
     (calm_world example_policy_db)))) = superadmin_rows (db (calm_world example_policy_db))" by simp
  also have "\<dots> = [allow_row ''1'' ''superadmin'' ''*'']"
    by (simp add: superadmin_rows_def policy_example)
  finally show ?thesis .
qed

end
