(* ===== verification/Decode.thy ===== *)
theory Decode
  imports World
begin

text \<open>
  \<open>encoding/json\<close> decoding a value into a struct: every member of the object whose name is that
  of a field, without regard to case, sets the field, \<open>null\<close> leaves it as it is, a value of another
  type is an error, other members are ignored. The text itself is parsed by a parameter.
\<close>

definition struct_members :: "json \<Rightarrow> (string \<times> json) list option" where
  "struct_members j = (case j of JObj fs \<Rightarrow> Some fs | JNull \<Rightarrow> Some [] | _ \<Rightarrow> None)"

fun field_with :: "(json \<Rightarrow> 'a \<Rightarrow> 'a option) \<Rightarrow> string \<Rightarrow> 'a \<Rightarrow> (string \<times> json) list \<Rightarrow> 'a option" where
  "field_with decode name acc [] = Some acc"
| "field_with decode name acc ((k, v) # fs) =
     (if equal_fold k name then (case decode v acc of None \<Rightarrow> None | Some x \<Rightarrow> field_with decode name x fs)
      else field_with decode name acc fs)"

definition dec_string :: "json \<Rightarrow> string \<Rightarrow> string option" where
  "dec_string v acc = (case v of JStr s \<Rightarrow> Some s | JNull \<Rightarrow> Some acc | _ \<Rightarrow> None)"

definition dec_bool :: "json \<Rightarrow> bool \<Rightarrow> bool option" where
  "dec_bool v acc = (case v of JBool b \<Rightarrow> Some b | JNull \<Rightarrow> Some acc | _ \<Rightarrow> None)"

definition dec_int :: "json \<Rightarrow> int \<Rightarrow> int option" where
  "dec_int v acc = (case v of JNum n \<Rightarrow> int64_of n | JNull \<Rightarrow> Some acc | _ \<Rightarrow> None)"

text \<open>Pointers: \<open>null\<close> is the nil pointer.\<close>

definition dec_opt_int :: "json \<Rightarrow> int option \<Rightarrow> int option option" where
  "dec_opt_int v acc = (case v of JNum n \<Rightarrow> map_option Some (int64_of n) | JNull \<Rightarrow> Some None | _ \<Rightarrow> None)"

definition dec_opt_int32 :: "json \<Rightarrow> int option \<Rightarrow> int option option" where
  "dec_opt_int32 v acc = (case v of
       JNum n \<Rightarrow> if - (2 ^ 31) \<le> n \<and> n < 2 ^ 31 then Some (Some n) else None
     | JNull \<Rightarrow> Some None | _ \<Rightarrow> None)"

fun all_some :: "'a option list \<Rightarrow> 'a list option" where
  "all_some [] = Some []"
| "all_some (x # xs) = (case (x, all_some xs) of (Some a, Some as) \<Rightarrow> Some (a # as) | _ \<Rightarrow> None)"

definition dec_strings :: "json \<Rightarrow> string list \<Rightarrow> string list option" where
  "dec_strings v acc = (case v of
       JArr vs \<Rightarrow> all_some (map (\<lambda>x. dec_string x []) vs) | JNull \<Rightarrow> Some [] | _ \<Rightarrow> None)"

text \<open>The entries of a map of strings, in the order Go visits them.\<close>

definition dec_entries :: "json \<Rightarrow> (string \<times> string) list \<Rightarrow> (string \<times> string) list option" where
  "dec_entries v acc = (case v of
       JObj fs \<Rightarrow> all_some (map (\<lambda>(k, x). map_option (Pair k) (dec_string x [])) fs) | JNull \<Rightarrow> Some [] | _ \<Rightarrow> None)"

definition str_field :: "string \<Rightarrow> (string \<times> json) list \<Rightarrow> string option" where
  "str_field name fs = field_with dec_string name [] fs"

definition bool_field :: "string \<Rightarrow> (string \<times> json) list \<Rightarrow> bool option" where
  "bool_field name fs = field_with dec_bool name False fs"

definition int_field :: "string \<Rightarrow> (string \<times> json) list \<Rightarrow> int option" where
  "int_field name fs = field_with dec_int name 0 fs"

definition strings_field :: "string \<Rightarrow> (string \<times> json) list \<Rightarrow> string list option" where
  "strings_field name fs = field_with dec_strings name [] fs"

definition entries_field :: "string \<Rightarrow> (string \<times> json) list \<Rightarrow> (string \<times> string) list option" where
  "entries_field name fs = field_with dec_entries name [] fs"

lemma str_field_here: "field_with dec_string name acc ((name, JStr v) # fs) = field_with dec_string name v fs"
  by (simp add: dec_string_def equal_fold_def)

end
