(* ===== verification/BucketPolicy.thy ===== *)
theory BucketPolicy
  imports Policies Decode
begin

text \<open>
  Bucket policies: \<open>backend/internal/policies/aws_bucket_policy.go\<close>. A policy document is JSON;
  \<open>normalize_bucket_policy\<close> checks and normalises it, \<open>put_bucket_policy\<close> stores it,
  \<open>evaluate_bucket_policy\<close> evaluates the stored one. Documents are modelled as parsed JSON
  values (\<open>None\<close> for a text that does not parse); a \<open>json.RawMessage\<close> is an optional JSON value,
  \<open>None\<close> when the field is missing. The column is \<open>jsonb\<close>: what is read back is \<open>jsonb_value\<close> of what
  was stored. IPv4 addresses and networks are parsed as \<open>net\<close> does; the
  textual forms of IPv6 are a parameter.
\<close>

section \<open>Data\<close>

datatype policy_decision = DecisionNone | DecisionAllow | DecisionDeny

record raw_statement =
  rs_sid :: string
  rs_effect :: string
  rs_principal :: "json option"
  rs_not_principal :: "json option"
  rs_action :: "json option"
  rs_resource :: "json option"
  rs_condition :: "json option"

record raw_document =
  rd_version :: string
  rd_id :: string
  rd_statements :: "raw_statement list"

record policy_condition =
  pc_operator :: string
  pc_key :: string
  pc_values :: "string list"

record norm_statement =
  ns_sid :: string
  ns_effect :: string
  ns_principals :: "string list"
  ns_not_principals :: "string list"
  ns_actions :: "string list"
  ns_resources :: "string list"
  ns_conditions :: "policy_condition list"

record norm_document =
  nd_version :: string
  nd_id :: string
  nd_statements :: "norm_statement list"

section \<open>Decoding JSON into the structs\<close>

text \<open>
  Field names match up to letter case and \<open>DisallowUnknownFields\<close> refuses any other. A field that
  occurs again is decoded over its earlier value: \<open>null\<close> leaves a string as it is, a raw message is
  replaced, and the elements of a slice are decoded over those the slice had before, also over
  those beyond its present length, which \<open>decode_slice\<close> keeps as its second component.
\<close>

definition unmarshal_string :: "json option \<Rightarrow> string option" where
  "unmarshal_string raw =
     (case raw of Some (JStr s) \<Rightarrow> Some s | Some JNull \<Rightarrow> Some [] | _ \<Rightarrow> None)"

fun unmarshal_items :: "json list \<Rightarrow> string list option" where
  "unmarshal_items [] = Some []"
| "unmarshal_items (j # js) =
     (case unmarshal_string (Some j) of None \<Rightarrow> None
      | Some s \<Rightarrow> map_option ((#) s) (unmarshal_items js))"

definition unmarshal_strings :: "json option \<Rightarrow> string list option" where
  "unmarshal_strings raw =
     (case raw of Some (JArr js) \<Rightarrow> unmarshal_items js | Some JNull \<Rightarrow> Some [] | _ \<Rightarrow> None)"

definition field :: "string \<Rightarrow> (string \<times> json) list \<Rightarrow> json option" where
  "field name fs = map_option snd (find (\<lambda>f. equal_fold (fst f) name) (rev fs))"

definition raw_field :: "string \<Rightarrow> json option \<Rightarrow> (string \<times> json) list \<Rightarrow> json option" where
  "raw_field name old fs = (case field name fs of None \<Rightarrow> old | Some j \<Rightarrow> Some j)"

definition known_fields :: "string list \<Rightarrow> (string \<times> json) list \<Rightarrow> bool" where
  "known_fields names fs \<longleftrightarrow> list_all (\<lambda>f. list_ex (equal_fold (fst f)) names) fs"

definition zero_statement :: raw_statement where
  "zero_statement = \<lparr>rs_sid = [], rs_effect = [], rs_principal = None, rs_not_principal = None,
     rs_action = None, rs_resource = None, rs_condition = None\<rparr>"

definition decode_statement :: "raw_statement \<Rightarrow> json \<Rightarrow> raw_statement option" where
  "decode_statement old j = (case j of
     JNull \<Rightarrow> Some old
   | JObj fs \<Rightarrow>
       if \<not> known_fields [''Sid'', ''Effect'', ''Principal'', ''NotPrincipal'', ''Action'',
            ''Resource'', ''Condition''] fs then None
       else (case (field_with dec_string ''Sid'' (rs_sid old) fs, field_with dec_string ''Effect'' (rs_effect old) fs) of
          (Some sid, Some effect) \<Rightarrow> Some \<lparr>rs_sid = sid, rs_effect = effect,
            rs_principal = raw_field ''Principal'' (rs_principal old) fs,
            rs_not_principal = raw_field ''NotPrincipal'' (rs_not_principal old) fs,
            rs_action = raw_field ''Action'' (rs_action old) fs, rs_resource = raw_field ''Resource'' (rs_resource old) fs,
            rs_condition = raw_field ''Condition'' (rs_condition old) fs\<rparr>
        | _ \<Rightarrow> None)
   | _ \<Rightarrow> None)"

fun decode_statements ::
    "raw_statement list \<Rightarrow> json list \<Rightarrow> (raw_statement list \<times> raw_statement list) option" where
  "decode_statements old [] = Some ([], old)"
| "decode_statements old (j # js) =
     (case decode_statement (case old of [] \<Rightarrow> zero_statement | st # _ \<Rightarrow> st) j of None \<Rightarrow> None
      | Some s \<Rightarrow> (case decode_statements (tl old) js of None \<Rightarrow> None | Some (sts, rest) \<Rightarrow> Some (s # sts, rest)))"

definition decode_slice ::
    "json \<Rightarrow> raw_statement list \<times> raw_statement list \<Rightarrow> (raw_statement list \<times> raw_statement list) option" where
  "decode_slice j old = (case j of
     JNull \<Rightarrow> Some ([], [])
   | JArr js \<Rightarrow> if js = [] then Some ([], []) else decode_statements (fst old @ snd old) js
   | _ \<Rightarrow> None)"

definition decode_document :: "json option \<Rightarrow> raw_document option" where
  "decode_document doc = (case doc of
     Some JNull \<Rightarrow> Some \<lparr>rd_version = [], rd_id = [], rd_statements = []\<rparr>
   | Some (JObj fs) \<Rightarrow>
       if \<not> known_fields [''Version'', ''Id'', ''Statement''] fs then None
       else (case (str_field ''Version'' fs, str_field ''Id'' fs, field_with decode_slice ''Statement'' ([], []) fs) of
          (Some version, Some did, Some (sts, _)) \<Rightarrow> Some \<lparr>rd_version = version, rd_id = did, rd_statements = sts\<rparr>
        | _ \<Rightarrow> None)
   | _ \<Rightarrow> None)"

text \<open>Marshalling the struct back: \<open>omitempty\<close> drops empty fields, a missing raw message is \<open>null\<close>.\<close>

definition opt_string :: "string \<Rightarrow> string \<Rightarrow> (string \<times> json) list" where
  "opt_string name s = (if s = [] then [] else [(name, JStr s)])"

definition opt_raw :: "string \<Rightarrow> json option \<Rightarrow> (string \<times> json) list" where
  "opt_raw name raw = (case raw of None \<Rightarrow> [] | Some j \<Rightarrow> [(name, j)])"

definition raw_or_null :: "json option \<Rightarrow> json" where
  "raw_or_null raw = (case raw of None \<Rightarrow> JNull | Some j \<Rightarrow> j)"

definition encode_statement :: "raw_statement \<Rightarrow> json" where
  "encode_statement s = JObj (opt_string ''Sid'' (rs_sid s) @ [(''Effect'', JStr (rs_effect s))] @
     opt_raw ''Principal'' (rs_principal s) @ opt_raw ''NotPrincipal'' (rs_not_principal s) @
     [(''Action'', raw_or_null (rs_action s)), (''Resource'', raw_or_null (rs_resource s))] @
     opt_raw ''Condition'' (rs_condition s))"

definition encode_document :: "raw_document \<Rightarrow> json" where
  "encode_document d = JObj ([(''Version'', JStr (rd_version d))] @ opt_string ''Id'' (rd_id d) @
     [(''Statement'', JArr (map encode_statement (rd_statements d)))])"

section \<open>Normalisation\<close>

fun trim_items :: "string list \<Rightarrow> err + string list" where
  "trim_items [] = Inr []"
| "trim_items (s # ss) =
     (if trim_space s = [] then Inl ErrInvalidBucketPolicy
      else case trim_items ss of Inl e \<Rightarrow> Inl e | Inr ts \<Rightarrow> Inr (trim_space s # ts))"

definition normalize_string_or_list :: "json option \<Rightarrow> err + string list" where
  "normalize_string_or_list raw =
     (case unmarshal_string raw of
        Some s \<Rightarrow> if trim_space s = [] then Inl ErrInvalidBucketPolicy else Inr [trim_space s]
      | None \<Rightarrow> (case unmarshal_strings raw of
          None \<Rightarrow> Inl ErrInvalidBucketPolicy
        | Some many \<Rightarrow> trim_items many))"

definition normalize_policy_principal :: "string \<Rightarrow> string" where
  "normalize_policy_principal v =
     (let value = trim_space v in
      if value = ''*'' then ''*''
      else if has_prefix value ''arn:aws:iam::'' then last (split_on slash value)
      else value)"

fun normalize_principals :: "string list \<Rightarrow> err + string list" where
  "normalize_principals [] = Inr []"
| "normalize_principals (v # vs) =
     (if normalize_policy_principal v = [] then Inl ErrInvalidBucketPolicy
      else case normalize_principals vs of Inl e \<Rightarrow> Inl e
           | Inr ps \<Rightarrow> Inr (normalize_policy_principal v # ps))"

definition normalize_bucket_policy_principal :: "json option \<Rightarrow> err + string list" where
  "normalize_bucket_policy_principal raw =
     (case raw of None \<Rightarrow> Inr []
      | Some j \<Rightarrow>
          (case unmarshal_string raw of
             Some wildcard \<Rightarrow> if wildcard = ''*'' then Inr [''*''] else Inl ErrInvalidBucketPolicy
           | None \<Rightarrow> (case j of
               JObj fs \<Rightarrow> (case normalize_string_or_list (field ''AWS'' fs) of
                   Inl _ \<Rightarrow> Inl ErrInvalidBucketPolicy
                 | Inr values \<Rightarrow> if values = [] then Inl ErrInvalidBucketPolicy
                                 else normalize_principals values)
             | _ \<Rightarrow> Inl ErrInvalidBucketPolicy)))"

definition condition_operators :: "string list" where
  "condition_operators = [''IpAddress'', ''NotIpAddress'', ''StringEquals'', ''StringLike'',
     ''StringNotEquals'', ''StringNotLike'']"

text \<open>A JSON object read into a Go map: of equal keys the last one counts.\<close>

definition go_map_entries :: "(string \<times> json) list \<Rightarrow> (string \<times> json) list" where
  "go_map_entries fs = foldr (\<lambda>f acc. if fst f \<in> fst ` set acc then acc else f # acc) fs []"

fun normalize_entries :: "string \<Rightarrow> (string \<times> json) list \<Rightarrow> err + policy_condition list" where
  "normalize_entries operator [] = Inr []"
| "normalize_entries operator ((key, raw) # es) =
     (case normalize_string_or_list (Some raw) of
        Inl _ \<Rightarrow> Inl ErrInvalidBucketPolicy
      | Inr values \<Rightarrow>
          if values = [] then Inl ErrInvalidBucketPolicy
          else (case normalize_entries operator es of Inl e \<Rightarrow> Inl e
                | Inr cs \<Rightarrow> Inr (\<lparr>pc_operator = operator, pc_key = key, pc_values = values\<rparr> # cs)))"

fun normalize_operators :: "(string \<times> json) list \<Rightarrow> err + policy_condition list" where
  "normalize_operators [] = Inr []"
| "normalize_operators ((operator, entries) # rest) =
     (if \<not> List.member condition_operators operator then Inl ErrInvalidBucketPolicy
      else case (case entries of JNull \<Rightarrow> Some [] | JObj es \<Rightarrow> Some (go_map_entries es) | _ \<Rightarrow> None) of
        None \<Rightarrow> Inl ErrInvalidBucketPolicy
      | Some es \<Rightarrow>
          (case normalize_entries operator es of Inl e \<Rightarrow> Inl e
           | Inr cs \<Rightarrow> (case normalize_operators rest of Inl e \<Rightarrow> Inl e
               | Inr cs' \<Rightarrow> Inr (cs @ cs'))))"

definition is_map :: "json \<Rightarrow> bool" where
  "is_map j = (case j of JNull \<Rightarrow> True | JObj _ \<Rightarrow> True | _ \<Rightarrow> False)"

definition normalize_bucket_policy_conditions :: "json option \<Rightarrow> err + policy_condition list" where
  "normalize_bucket_policy_conditions raw =
     (case raw of
        None \<Rightarrow> Inr []
      | Some JNull \<Rightarrow> Inr []
      | Some (JObj operators) \<Rightarrow>
          if \<not> list_all (\<lambda>f. is_map (snd f)) operators then Inl ErrInvalidBucketPolicy
          else normalize_operators (go_map_entries operators)
      | Some _ \<Rightarrow> Inl ErrInvalidBucketPolicy)"

definition title_word :: "string \<Rightarrow> string" where
  "title_word s = (case s of [] \<Rightarrow> [] | c # cs \<Rightarrow> upper_char c # cs)"

definition normalize_bucket_policy_statement :: "raw_statement \<Rightarrow> err + norm_statement" where
  "normalize_bucket_policy_statement st =
     (let effect = title_word (to_lower (trim_space (rs_effect st))) in
      if effect \<noteq> ''Allow'' \<and> effect \<noteq> ''Deny'' then Inl ErrInvalidBucketPolicy
      else case normalize_bucket_policy_principal (rs_principal st) of Inl e \<Rightarrow> Inl e
      | Inr principals \<Rightarrow> (case normalize_bucket_policy_principal (rs_not_principal st) of Inl e \<Rightarrow> Inl e
      | Inr not_principals \<Rightarrow>
          if principals = [] \<and> not_principals = [] then Inl ErrInvalidBucketPolicy
          else if principals \<noteq> [] \<and> not_principals \<noteq> [] then Inl ErrInvalidBucketPolicy
          else (case normalize_string_or_list (rs_action st) of Inl _ \<Rightarrow> Inl ErrInvalidBucketPolicy
          | Inr actions \<Rightarrow> if actions = [] then Inl ErrInvalidBucketPolicy
          else (case normalize_string_or_list (rs_resource st) of Inl _ \<Rightarrow> Inl ErrInvalidBucketPolicy
          | Inr resources \<Rightarrow> if resources = [] then Inl ErrInvalidBucketPolicy
          else (case normalize_bucket_policy_conditions (rs_condition st) of Inl e \<Rightarrow> Inl e
          | Inr conditions \<Rightarrow> Inr \<lparr>ns_sid = rs_sid st, ns_effect = effect,
              ns_principals = principals, ns_not_principals = not_principals,
              ns_actions = actions, ns_resources = resources, ns_conditions = conditions\<rparr>)))))"

fun normalize_statements :: "raw_statement list \<Rightarrow> err + norm_statement list" where
  "normalize_statements [] = Inr []"
| "normalize_statements (s # ss) =
     (case normalize_bucket_policy_statement s of Inl e \<Rightarrow> Inl e
      | Inr n \<Rightarrow> (case normalize_statements ss of Inl e \<Rightarrow> Inl e | Inr ns \<Rightarrow> Inr (n # ns)))"

definition normalize_bucket_policy :: "json option \<Rightarrow> err + (norm_document \<times> json)" where
  "normalize_bucket_policy document =
     (case decode_document document of None \<Rightarrow> Inl ErrInvalidBucketPolicy
      | Some d \<Rightarrow>
          (let version = (if trim_space (rd_version d) = [] then ''2012-10-17'' else rd_version d);
               parsed = d\<lparr>rd_version := version\<rparr> in
           if version \<noteq> ''2012-10-17'' then Inl ErrInvalidBucketPolicy
           else if rd_statements parsed = [] then Inl ErrInvalidBucketPolicy
           else case normalize_statements (rd_statements parsed) of Inl e \<Rightarrow> Inl e
             | Inr ns \<Rightarrow> Inr (\<lparr>nd_version = version, nd_id = rd_id parsed, nd_statements = ns\<rparr>,
                 encode_document parsed)))"

section \<open>Evaluation\<close>

text \<open>
  Addresses are 128-bit numbers, an IPv4 address in its IPv6-mapped form. \<open>parse_ip6\<close> reads the
  IPv6 text forms.
\<close>

type_synonym ip = "128 word"

definition parse_octet :: "string \<Rightarrow> nat option" where
  "parse_octet s =
     (if s = [] \<or> length s > 3 \<or> (length s > 1 \<and> hd s = CHR ''0'') then None
      else Option.bind (parse_digits 0 s) (\<lambda>n. if n < 256 then Some n else None))"

definition parse_ip4 :: "string \<Rightarrow> nat option" where
  "parse_ip4 s = (case map parse_octet (split_on (CHR ''.'') s) of
     [Some a, Some b, Some c, Some d] \<Rightarrow> Some (((a * 256 + b) * 256 + c) * 256 + d)
   | _ \<Rightarrow> None)"

definition ip4_mapped :: "nat \<Rightarrow> ip" where
  "ip4_mapped n = word_of_nat (0xFFFF * 2 ^ 32 + n)"

definition parse_ip :: "(string \<Rightarrow> ip option) \<Rightarrow> string \<Rightarrow> ip option" where
  "parse_ip ip6 s =
     (if CHR '':'' \<in> set s then ip6 s else map_option ip4_mapped (parse_ip4 s))"

text \<open>\<open>net.ParseCIDR\<close>: the address, and the prefix length counted over 128 bits.\<close>

definition parse_cidr :: "(string \<Rightarrow> ip option) \<Rightarrow> string \<Rightarrow> (ip \<times> nat) option" where
  "parse_cidr ip6 s = (case split_first slash s of
     None \<Rightarrow> None
   | Some (addr, bits) \<Rightarrow>
       (case (parse_ip ip6 addr, if bits = [] then None else parse_digits 0 bits) of
          (Some a, Some n) \<Rightarrow>
            if CHR '':'' \<in> set addr then (if n \<le> 128 then Some (a, n) else None)
            else if n \<le> 32 then Some (a, n + 96) else None
        | _ \<Rightarrow> None))"

text \<open>\<open>IPNet.Contains\<close>: an IPv4 address is in no IPv6 network, and the other way round.\<close>

definition is_ip4 :: "ip \<Rightarrow> bool" where
  "is_ip4 a \<longleftrightarrow> drop_bit 32 a = 0xFFFF"

definition in_network :: "ip \<times> nat \<Rightarrow> ip \<Rightarrow> bool" where
  "in_network net a =
     (let host_bits = 128 - snd net; number = drop_bit host_bits (fst net) in
      is_ip4 (push_bit host_bits number) = is_ip4 a \<and> number = drop_bit host_bits a)"

definition any_ip_matches :: "(string \<Rightarrow> ip option) \<Rightarrow> string list \<Rightarrow> string \<Rightarrow> bool" where
  "any_ip_matches ip6 patterns value = (case parse_ip ip6 value of
     None \<Rightarrow> False
   | Some a \<Rightarrow> list_ex (\<lambda>pattern. parse_ip ip6 pattern = Some a \<or>
       (case parse_cidr ip6 pattern of None \<Rightarrow> False | Some net \<Rightarrow> in_network net a)) patterns)"

definition any_matches :: "string list \<Rightarrow> string \<Rightarrow> bool" where
  "any_matches patterns value = list_ex (\<lambda>pattern. pattern_match pattern value) patterns"

definition principal_matches :: "string list \<Rightarrow> string \<Rightarrow> bool" where
  "principal_matches principals caller =
     list_ex (\<lambda>candidate. candidate = ''*'' \<or> candidate = caller) principals"

definition statement_principal_matches :: "norm_statement \<Rightarrow> string \<Rightarrow> bool" where
  "statement_principal_matches st caller =
     (if ns_principals st \<noteq> [] then principal_matches (ns_principals st) caller
      else if ns_not_principals st \<noteq> [] then \<not> principal_matches (ns_not_principals st) caller
      else False)"

definition condition_matches :: "(string \<Rightarrow> ip option) \<Rightarrow> policy_condition \<Rightarrow> smap \<Rightarrow> bool" where
  "condition_matches ip6 c request_context =
     (let actual = trim_space (case request_context (pc_key c) of None \<Rightarrow> [] | Some v \<Rightarrow> v) in
      if pc_operator c = ''StringEquals'' \<or> pc_operator c = ''StringLike''
      then any_matches (pc_values c) actual
      else if pc_operator c = ''StringNotEquals'' \<or> pc_operator c = ''StringNotLike''
      then \<not> any_matches (pc_values c) actual
      else if pc_operator c = ''IpAddress'' then any_ip_matches ip6 (pc_values c) actual
      else if pc_operator c = ''NotIpAddress'' then \<not> any_ip_matches ip6 (pc_values c) actual
      else False)"

fun conditions_match :: "(string \<Rightarrow> ip option) \<Rightarrow> policy_condition list \<Rightarrow> smap \<Rightarrow> bool" where
  "conditions_match ip6 [] request_context = True"
| "conditions_match ip6 (c # cs) request_context =
     (if \<not> condition_matches ip6 c request_context then False
      else conditions_match ip6 cs request_context)"

fun evaluate_document_from ::
    "(string \<Rightarrow> ip option) \<Rightarrow> bool \<Rightarrow> norm_statement list \<Rightarrow> string \<Rightarrow> string \<Rightarrow> string \<Rightarrow> smap \<Rightarrow>
     policy_decision" where
  "evaluate_document_from ip6 allowed [] caller action resource rc =
     (if allowed then DecisionAllow else DecisionNone)"
| "evaluate_document_from ip6 allowed (st # sts) caller action resource rc =
     (if \<not> statement_principal_matches st caller
      then evaluate_document_from ip6 allowed sts caller action resource rc
      else if \<not> any_matches (ns_actions st) action
      then evaluate_document_from ip6 allowed sts caller action resource rc
      else if \<not> any_matches (ns_resources st) resource
      then evaluate_document_from ip6 allowed sts caller action resource rc
      else if \<not> conditions_match ip6 (ns_conditions st) rc
      then evaluate_document_from ip6 allowed sts caller action resource rc
      else if ns_effect st = ''Deny'' then DecisionDeny
      else evaluate_document_from ip6 (allowed \<or> ns_effect st = ''Allow'') sts caller action resource rc)"

definition evaluate_document ::
    "(string \<Rightarrow> ip option) \<Rightarrow> norm_document \<Rightarrow> string \<Rightarrow> string \<Rightarrow> string \<Rightarrow> smap \<Rightarrow> policy_decision" where
  "evaluate_document ip6 document caller action resource request_context =
     evaluate_document_from ip6 False (nd_statements document)
       (if caller = [] then ''*'' else caller) action resource request_context"

section \<open>The stored policy of a bucket\<close>

text \<open>
  The cast to \<open>jsonb\<close>: of members with the same name the last one is kept, and the members of an
  object are ordered by the length of their names and then by their bytes. A text the cast refuses
  (a NUL character) is a statement that fails.
\<close>

definition jsonb_members :: "(string \<times> json) list \<Rightarrow> (string \<times> json) list" where
  "jsonb_members fs = sort_key (\<lambda>f. length (fst f)) (sort_key fst (go_map_entries fs))"

fun jsonb_value :: "json \<Rightarrow> json" where
  "jsonb_value (JObj fs) = JObj (jsonb_members (map (\<lambda>(k, v). (k, jsonb_value v)) fs))"
| "jsonb_value (JArr js) = JArr (map jsonb_value js)"
| "jsonb_value v = v"

definition upsert_policy :: "string \<Rightarrow> json \<Rightarrow> database \<Rightarrow> err + (unit \<times> database)" where
  "upsert_policy bid doc d =
     (if \<not> list_ex (\<lambda>b. b_id b = bid) (t_buckets d) then Inl PgForeignKeyViolation
      else Inr ((), d\<lparr>t_policies :=
        filter (\<lambda>p. bp_bucket p \<noteq> bid) (t_policies d) @ [\<lparr>bp_bucket = bid, bp_document = jsonb_value doc\<rparr>]\<rparr>))"

definition put_bucket_policy :: "ext \<Rightarrow> string \<Rightarrow> json option \<Rightarrow> json prog" where
  "put_bucket_policy E bucket_id document =
     bnd (of_result (normalize_bucket_policy document)) (\<lambda>(normalized, canonical).
     bnd (guard (nd_statements normalized \<noteq> []) ErrInvalidBucketPolicy) (\<lambda>_.
     bnd (cast_uuid E bucket_id) (\<lambda>bid.
     bnd (exec (\<lambda>_. upsert_policy bid canonical)) (\<lambda>_.
       ret canonical))))"

definition get_bucket_policy :: "ext \<Rightarrow> string \<Rightarrow> json prog" where
  "get_bucket_policy E bucket_id =
     bnd (attempt (bnd (cast_uuid E bucket_id) (\<lambda>bid. query (\<lambda>d.
            case find (\<lambda>p. bp_bucket p = bid) (t_policies d) of
              None \<Rightarrow> Inl PgNoRows | Some p \<Rightarrow> Inr (bp_document p)))))
       (\<lambda>r. case r of Inl _ \<Rightarrow> fail ErrBucketPolicyNotFound | Inr doc \<Rightarrow> ret doc)"

definition delete_bucket_policy :: "ext \<Rightarrow> string \<Rightarrow> unit prog" where
  "delete_bucket_policy E bucket_id =
     bnd (cast_uuid E bucket_id) (\<lambda>bid.
     bnd (exec (\<lambda>_ d. Inr (length (filter (\<lambda>p. bp_bucket p = bid) (t_policies d)),
            d\<lparr>t_policies := filter (\<lambda>p. bp_bucket p \<noteq> bid) (t_policies d)\<rparr>)))
       (\<lambda>affected. guard (affected \<noteq> 0) ErrBucketPolicyNotFound))"

definition evaluate_bucket_policy ::
    "ext \<Rightarrow> (string \<Rightarrow> ip option) \<Rightarrow> string \<Rightarrow> string \<Rightarrow> string \<Rightarrow> string \<Rightarrow> smap \<Rightarrow> policy_decision prog" where
  "evaluate_bucket_policy E ip6 bucket_id caller action resource request_context =
     bnd (attempt (get_bucket_policy E bucket_id)) (\<lambda>r. case r of
       Inl e \<Rightarrow> if e = ErrBucketPolicyNotFound then ret DecisionNone else fail e
     | Inr raw \<Rightarrow>
         bnd (of_result (normalize_bucket_policy (Some raw))) (\<lambda>(document, _).
           ret (evaluate_document ip6 document caller action resource request_context)))"


section \<open>What evaluation decides\<close>

definition policy_applies ::
    "(string \<Rightarrow> ip option) \<Rightarrow> string \<Rightarrow> string \<Rightarrow> string \<Rightarrow> smap \<Rightarrow> norm_statement \<Rightarrow> bool" where
  "policy_applies ip6 caller action resource rc st \<longleftrightarrow>
     statement_principal_matches st caller \<and> any_matches (ns_actions st) action \<and>
     any_matches (ns_resources st) resource \<and> (\<forall>c \<in> set (ns_conditions st). condition_matches ip6 c rc)"

lemma conditions_match_all: "conditions_match ip6 cs rc \<longleftrightarrow> (\<forall>c \<in> set cs. condition_matches ip6 c rc)"
  by (induction cs) auto

lemma evaluate_document_step:
  "evaluate_document_from ip6 allowed (st # sts) caller action resource rc =
     (if \<not> policy_applies ip6 caller action resource rc st
      then evaluate_document_from ip6 allowed sts caller action resource rc
      else if ns_effect st = ''Deny'' then DecisionDeny
      else evaluate_document_from ip6 (allowed \<or> ns_effect st = ''Allow'') sts caller action resource rc)"
  by (simp add: policy_applies_def conditions_match_all)

lemma evaluate_document_from_spec:
  "evaluate_document_from ip6 allowed sts caller action resource rc =
     (if \<exists>st \<in> set sts. policy_applies ip6 caller action resource rc st \<and> ns_effect st = ''Deny''
      then DecisionDeny
      else if allowed \<or> (\<exists>st \<in> set sts. policy_applies ip6 caller action resource rc st \<and> ns_effect st = ''Allow'')
      then DecisionAllow else DecisionNone)"
proof (induction sts arbitrary: allowed)
  case (Cons st sts)
  have "''Deny'' \<noteq> ''Allow''" by simp
  then show ?case by (auto simp: evaluate_document_step Cons.IH simp del: evaluate_document_from.simps)
qed simp

text \<open>
  C14: a bucket policy denies exactly when some statement that applies denies, allows when none
  denies and some statement that applies allows, and is silent otherwise; a statement applies
  when its principal, an action, a resource and every condition match. Order is irrelevant and
  an anonymous request is matched as principal \<open>*\<close>.
\<close>

theorem evaluate_document_decides:
  "evaluate_document ip6 document caller action resource rc =
     (let who = (if caller = [] then ''*'' else caller) in
      if \<exists>st \<in> set (nd_statements document). policy_applies ip6 who action resource rc st \<and> ns_effect st = ''Deny''
      then DecisionDeny
      else if \<exists>st \<in> set (nd_statements document). policy_applies ip6 who action resource rc st \<and> ns_effect st = ''Allow''
      then DecisionAllow else DecisionNone)"
  unfolding evaluate_document_def evaluate_document_from_spec Let_def by (rule if_cong) auto

section \<open>An example document\<close>

definition example_document :: json where
  "example_document = JObj [(''Statement'', JArr [JObj [(''Effect'', JStr ''deny''),
     (''Principal'', JObj [(''AWS'', JStr ''arn:aws:iam::1:user/eve'')]),
     (''Action'', JStr ''s3:GetObject''), (''Resource'', JArr [JStr ''*''])]])]"

definition example_normalized :: norm_document where
  "example_normalized = \<lparr>nd_version = ''2012-10-17'', nd_id = [], nd_statements =
     [\<lparr>ns_sid = [], ns_effect = ''Deny'', ns_principals = [''eve''], ns_not_principals = [],
       ns_actions = [''s3:GetObject''], ns_resources = [''*''], ns_conditions = []\<rparr>]\<rparr>"

definition example_canonical :: json where
  "example_canonical = JObj [(''Version'', JStr ''2012-10-17''), (''Statement'', JArr [JObj
     [(''Effect'', JStr ''deny''), (''Principal'', JObj [(''AWS'', JStr ''arn:aws:iam::1:user/eve'')]),
      (''Action'', JStr ''s3:GetObject''), (''Resource'', JArr [JStr ''*''])]])]"

definition example_bucket_db :: database where
  "example_bucket_db = empty_db\<lparr>t_buckets := [\<lparr>b_id = ''b'', b_name = ''files'', b_tenant = [],
     b_class = ''standard'', b_replicas = None, b_owner = None, b_created = 0\<rparr>]\<rparr>"

lemma normalize_example:
  "normalize_bucket_policy (Some example_document) = Inr (example_normalized, example_canonical)"
  by code_simp

section \<open>What normalisation accepts\<close>

definition wf_norm_statement :: "norm_statement \<Rightarrow> bool" where
  "wf_norm_statement st \<longleftrightarrow>
     (ns_effect st = ''Allow'' \<or> ns_effect st = ''Deny'') \<and>
     (ns_principals st = []) \<noteq> (ns_not_principals st = []) \<and>
     ns_actions st \<noteq> [] \<and> ns_resources st \<noteq> [] \<and>
     list_all (\<lambda>c. List.member condition_operators (pc_operator c) \<and> pc_values c \<noteq> []) (ns_conditions st)"

lemma normalize_entries_wf:
  "normalize_entries operator es = Inr cs \<Longrightarrow>
   list_all (\<lambda>c. pc_operator c = operator \<and> pc_values c \<noteq> []) cs"
  by (induction es arbitrary: cs) (auto split: sum.splits if_splits)

lemma normalize_operators_wf:
  "normalize_operators es = Inr cs \<Longrightarrow>
   list_all (\<lambda>c. List.member condition_operators (pc_operator c) \<and> pc_values c \<noteq> []) cs"
proof (induction es arbitrary: cs rule: normalize_operators.induct)
  case (2 operator entries rest)
  from "2.prems" obtain es c1 c2 where
    "List.member condition_operators operator" "normalize_entries operator es = Inr c1"
    "normalize_operators rest = Inr c2" "cs = c1 @ c2"
    "(case entries of JNull \<Rightarrow> Some [] | JObj es \<Rightarrow> Some (go_map_entries es) | _ \<Rightarrow> None) = Some es"
    by (auto split: sum.splits if_splits option.splits)
  with "2.IH" normalize_entries_wf show ?case by (fastforce simp: list_all_iff)
qed simp

lemma normalize_conditions_wf:
  "normalize_bucket_policy_conditions raw = Inr cs \<Longrightarrow>
   list_all (\<lambda>c. List.member condition_operators (pc_operator c) \<and> pc_values c \<noteq> []) cs"
  unfolding normalize_bucket_policy_conditions_def
  by (auto split: option.splits json.splits if_splits dest: normalize_operators_wf)

lemma normalize_statement_wf: "normalize_bucket_policy_statement st = Inr n \<Longrightarrow> wf_norm_statement n"
  unfolding normalize_bucket_policy_statement_def Let_def
  by (auto simp: wf_norm_statement_def split: if_splits sum.splits dest: normalize_conditions_wf)

lemma normalize_statements_wf: "normalize_statements ss = Inr ns \<Longrightarrow> list_all wf_norm_statement ns"
  by (induction ss arbitrary: ns) (auto split: sum.splits dest: normalize_statement_wf)

lemma normalize_statements_length: "normalize_statements ss = Inr ns \<Longrightarrow> length ns = length ss"
  by (induction ss arbitrary: ns) (auto split: sum.splits)

text \<open>Reading back what was written.\<close>

lemma field_simps [simp]:
  "field name [] = None"
  "field name (fs @ [(n, j)]) = (if equal_fold n name then Some j else field name fs)"
  by (simp_all add: field_def)

lemma fold_eval: "equal_fold a b = (to_lower a = to_lower b)"
  by (simp add: equal_fold_def)

lemmas lower_eval = fold_eval to_lower_def lower_char_def

lemma decode_encode_statement:
  "decode_statement zero_statement (encode_statement st) =
     Some (st\<lparr>rs_action := Some (raw_or_null (rs_action st)), rs_resource := Some (raw_or_null (rs_resource st))\<rparr>)"
  by (cases "rs_sid st = []"; cases "rs_principal st"; cases "rs_not_principal st"; cases "rs_condition st")
     (simp_all add: decode_statement_def zero_statement_def encode_statement_def known_fields_def opt_string_def opt_raw_def
        raw_field_def field_def dec_string_def lower_eval)

lemma string_or_list_null: "normalize_string_or_list (Some JNull) = Inl ErrInvalidBucketPolicy"
  by (simp add: normalize_string_or_list_def unmarshal_string_def)

lemma string_or_list_none: "normalize_string_or_list None = Inl ErrInvalidBucketPolicy"
  by (simp add: normalize_string_or_list_def unmarshal_string_def unmarshal_strings_def)

lemma string_or_list_raw: "normalize_string_or_list (Some (raw_or_null raw)) = normalize_string_or_list raw"
  by (cases raw) (simp_all add: raw_or_null_def string_or_list_null string_or_list_none)

lemma normalize_reencoded:
  "normalize_bucket_policy_statement (st\<lparr>rs_action := Some (raw_or_null (rs_action st)),
      rs_resource := Some (raw_or_null (rs_resource st))\<rparr>) = normalize_bucket_policy_statement st"
  by (simp add: normalize_bucket_policy_statement_def Let_def string_or_list_raw cong: sum.case_cong if_cong)

lemma decode_encode_statements:
  "decode_statements [] (map encode_statement sts) = Some (map (\<lambda>st. st\<lparr>
     rs_action := Some (raw_or_null (rs_action st)), rs_resource := Some (raw_or_null (rs_resource st))\<rparr>) sts, [])"
  by (induction sts) (simp_all add: decode_encode_statement)

lemma normalize_statements_reencoded:
  "normalize_statements (map (\<lambda>st. st\<lparr>rs_action := Some (raw_or_null (rs_action st)),
      rs_resource := Some (raw_or_null (rs_resource st))\<rparr>) sts) = normalize_statements sts"
  by (induction sts) (simp_all add: normalize_reencoded cong: sum.case_cong)

lemma encode_reencoded:
  "encode_statement (st\<lparr>rs_action := Some (raw_or_null (rs_action st)),
      rs_resource := Some (raw_or_null (rs_resource st))\<rparr>) = encode_statement st"
  by (simp add: encode_statement_def raw_or_null_def)

lemma decode_encode_document:
  "decode_document (Some (encode_document d)) = Some (d\<lparr>rd_statements := map (\<lambda>st. st\<lparr>
     rs_action := Some (raw_or_null (rs_action st)), rs_resource := Some (raw_or_null (rs_resource st))\<rparr>)
       (rd_statements d)\<rparr>)"
  by (cases "rd_id d = []")
     (simp_all add: decode_document_def encode_document_def known_fields_def opt_string_def
        str_field_def dec_string_def decode_slice_def lower_eval decode_encode_statements)

text \<open>
  C18: the canonical text of a document that \<open>PutBucketPolicy\<close> accepts, which is what it hands to the
  database, is accepted again, normalises to the same statements and is its own canonical text.
\<close>

theorem canonical_policy_roundtrip:
  assumes "normalize_bucket_policy document = Inr (normalized, canonical)"
  shows "normalize_bucket_policy (Some canonical) = Inr (normalized, canonical)"
proof -
  let ?norm = "\<lambda>st. st\<lparr>rs_action := Some (raw_or_null (rs_action st)), rs_resource := Some (raw_or_null (rs_resource st))\<rparr>"
  obtain d ns where d: "decode_document document = Some d"
    and ne: "rd_statements d \<noteq> []"
    and ns: "normalize_statements (rd_statements d) = Inr ns"
    and n: "normalized = \<lparr>nd_version = ''2012-10-17'', nd_id = rd_id d, nd_statements = ns\<rparr>"
    and c: "canonical = encode_document (d\<lparr>rd_version := ''2012-10-17''\<rparr>)"
    using assms by (auto simp: normalize_bucket_policy_def Let_def split: option.splits if_splits sum.splits)
  have "trim_space ''2012-10-17'' \<noteq> []"
    by (simp add: trim_space_def trim_right_by_def is_space_def)
  moreover have "encode_document (d\<lparr>rd_version := ''2012-10-17'', rd_statements := map ?norm (rd_statements d)\<rparr>)
      = canonical"
    by (simp add: c encode_document_def encode_reencoded)
  ultimately show ?thesis
    unfolding normalize_bucket_policy_def c decode_encode_document
    using ne by (simp add: Let_def normalize_statements_reencoded ns n c encode_document_def encode_reencoded)
qed

theorem canonical_policy_roundtrip_witness:
  "normalize_bucket_policy (Some example_canonical) = Inr (example_normalized, example_canonical)"
  by (rule canonical_policy_roundtrip [OF normalize_example])

text \<open>
  C19: every statement of an accepted document has effect Allow or Deny, either principals or
  excluded principals but not both, at least one action and one resource, and only conditions
  whose operator the evaluator knows, each with at least one value.
\<close>

theorem accepted_policy_wellformed:
  assumes "normalize_bucket_policy document = Inr (normalized, canonical)"
  shows "nd_statements normalized \<noteq> [] \<and> list_all wf_norm_statement (nd_statements normalized)"
  using assms unfolding normalize_bucket_policy_def Let_def
  by (auto split: option.splits if_splits sum.splits dest: normalize_statements_wf normalize_statements_length)

theorem accepted_policy_wellformed_witness:
  "nd_statements example_normalized \<noteq> [] \<and> list_all wf_norm_statement (nd_statements example_normalized)"
  by (rule accepted_policy_wellformed [OF normalize_example])

section \<open>Reading the stored policy\<close>

definition stored_policy :: "ext \<Rightarrow> string \<Rightarrow> database \<Rightarrow> json option" where
  "stored_policy E bucket_id d = Option.bind (pg_uuid E bucket_id)
     (\<lambda>bid. map_option bp_document (find (\<lambda>p. bp_bucket p = bid) (t_policies d)))"

lemma get_bucket_policy_calm:
  "script w = [] \<Longrightarrow> get_bucket_policy E bid w =
     (case stored_policy E bid (db w) of None \<Rightarrow> (Inl ErrBucketPolicyNotFound, w) | Some doc \<Rightarrow> (Inr doc, w))"
  by (auto simp: get_bucket_policy_def stored_policy_def bnd_def cast_uuid_def query_def attempt_def
      split: option.splits)

lemma upsert_policy_find:
  "upsert_policy b doc d = Inr (u, d') \<Longrightarrow> find (\<lambda>p. bp_bucket p = b) (t_policies d') = Some \<lparr>bp_bucket = b, bp_document = jsonb_value doc\<rparr>"
proof -
  have "find (\<lambda>p. bp_bucket p = b) (filter (\<lambda>p. bp_bucket p \<noteq> b) ps) = None" for ps :: "policy_row list"
    by (auto simp: find_None_iff)
  then show "upsert_policy b doc d = Inr (u, d') \<Longrightarrow> ?thesis"
    by (auto simp: upsert_policy_def find_append split: if_splits)
qed

subsection \<open>What the cast to jsonb keeps\<close>

lemma go_entries_keys: "fst ` set (go_map_entries fs) = fst ` set fs"
  by (induction fs) (auto simp: go_map_entries_def)

lemma go_entries_subset: "set (go_map_entries fs) \<subseteq> set fs"
  by (induction fs) (auto simp: go_map_entries_def)

lemma go_entries_distinct: "distinct (map fst (go_map_entries fs))"
  by (induction fs) (auto simp: go_map_entries_def)

lemma go_entries_lookup: "map_of (go_map_entries fs) k = map_of (rev fs) k"
proof (induction fs)
  case (Cons f fs)
  have "go_map_entries (f # fs) = (if fst f \<in> fst ` set (go_map_entries fs) then go_map_entries fs else f # go_map_entries fs)"
    by (simp add: go_map_entries_def)
  then show ?case
    using Cons.IH map_of_eq_None_iff [of "go_map_entries fs" "fst f"]
    by (cases f) (auto simp: map_add_def split: option.splits)
qed (simp add: go_map_entries_def)

lemma go_entries_id: "distinct (map fst fs) \<Longrightarrow> go_map_entries fs = fs"
proof (induction fs)
  case (Cons f fs)
  have "go_map_entries (f # fs) = (if fst f \<in> fst ` set (go_map_entries fs) then go_map_entries fs else f # go_map_entries fs)"
    by (simp add: go_map_entries_def)
  then show ?case using Cons by (simp add: go_entries_keys)
qed (simp add: go_map_entries_def)

lemma jsonb_members_set: "set (jsonb_members fs) = set (go_map_entries fs)"
  by (simp add: jsonb_members_def)

lemma jsonb_members_distinct: "distinct (map fst (jsonb_members fs))"
  using go_entries_distinct [of fs] by (simp add: jsonb_members_def distinct_map)

lemma jsonb_members_lookup: "map_of (jsonb_members fs) k = map_of (rev fs) k"
proof -
  have "map_of (jsonb_members fs) = map_of (go_map_entries fs)"
    using map_of_inject_set [OF jsonb_members_distinct go_entries_distinct] jsonb_members_set by blast
  then show ?thesis by (simp add: go_entries_lookup)
qed

abbreviation jsonb_fields :: "(string \<times> json) list \<Rightarrow> (string \<times> json) list" where
  "jsonb_fields fs \<equiv> jsonb_members (map (\<lambda>(k, v). (k, jsonb_value v)) fs)"

lemma jsonb_fields_keys: "fst ` set (jsonb_fields fs) = fst ` set fs"
  by (force simp: jsonb_members_set go_entries_keys)

lemma jsonb_fields_lookup: "map_of (jsonb_fields fs) k = map_option jsonb_value (map_of (rev fs) k)"
  by (simp add: jsonb_members_lookup rev_map map_of_map)

lemma go_entries_jsonb: "set (go_map_entries (jsonb_fields fs)) = (\<lambda>(k, v). (k, jsonb_value v)) ` set (go_map_entries fs)"
proof -
  have "go_map_entries (map (\<lambda>(k, v). (k, jsonb_value v)) fs) = map (\<lambda>(k, v). (k, jsonb_value v)) (go_map_entries fs)"
  proof (induction fs)
    case (Cons f fs)
    have "fst ` (\<lambda>(k, v). (k, jsonb_value v)) ` X = fst ` X" for X :: "(string \<times> json) set" by force
    then show ?case using Cons by (cases f) (simp add: go_map_entries_def)
  qed (simp add: go_map_entries_def)
  then show ?thesis by (simp add: go_entries_id [OF jsonb_members_distinct] jsonb_members_set)
qed

text \<open>The members of an object that a field name matches all have one spelling.\<close>

definition spelled_once :: "string \<Rightarrow> (string \<times> json) list \<Rightarrow> bool" where
  "spelled_once name fs \<longleftrightarrow> list_all (\<lambda>f. list_all (\<lambda>g.
     equal_fold (fst f) name \<and> equal_fold (fst g) name \<longrightarrow> fst f = fst g) fs) fs"

lemma field_as_lookup:
  assumes "\<And>f. f \<in> set fs \<Longrightarrow> equal_fold (fst f) name \<longleftrightarrow> fst f = k"
  shows "field name fs = map_of (rev fs) k"
proof -
  have "find (\<lambda>f. equal_fold (fst f) name) xs = find (\<lambda>f. fst f = k) xs" if "set xs \<subseteq> set fs" for xs
    using that assms by (induction xs) auto
  moreover have "map_option snd (find (\<lambda>f. fst f = k) xs) = map_of xs k" for xs :: "(string \<times> json) list"
    by (induction xs) auto
  ultimately show ?thesis by (simp add: field_def)
qed

lemma field_none: "field name fs = None \<longleftrightarrow> (\<forall>k \<in> fst ` set fs. \<not> equal_fold k name)"
  by (auto simp: field_def find_None_iff)

lemma field_jsonb:
  assumes "spelled_once name fs"
  shows "field name (jsonb_fields fs) = map_option jsonb_value (field name fs)"
proof (cases "field name fs")
  case None
  moreover from None have "field name (jsonb_fields fs) = None" by (simp only: field_none jsonb_fields_keys)
  ultimately show ?thesis by simp
next
  case (Some v)
  then obtain k where k: "k \<in> fst ` set fs" "equal_fold k name" using field_none [of name fs] by auto
  have one: "equal_fold (fst f) name \<longleftrightarrow> fst f = k" if "f \<in> set fs" for f
  proof -
    obtain g where g: "g \<in> set fs" "fst g = k" using k(1) by auto
    then have "equal_fold (fst f) name \<longrightarrow> fst f = fst g" using assms that k(2) unfolding spelled_once_def list_all_iff by blast
    then show ?thesis using g k(2) by auto
  qed
  have "equal_fold (fst f) name \<longleftrightarrow> fst f = k" if "f \<in> set (jsonb_fields fs)" for f
  proof -
    have "fst f \<in> fst ` set (jsonb_fields fs)" using that by (rule imageI)
    then obtain g where g: "g \<in> set fs" "fst f = fst g" unfolding jsonb_fields_keys by (rule imageE)
    show ?thesis unfolding g(2) by (rule one [OF g(1)])
  qed
  then have "field name (jsonb_fields fs) = map_of (rev (jsonb_fields fs)) k" by (rule field_as_lookup)
  also have "\<dots> = map_of (jsonb_fields fs) k"
    using map_of_inject_set [of "rev (jsonb_fields fs)" "jsonb_fields fs"] jsonb_members_distinct
    by (simp add: rev_map [symmetric])
  also have "\<dots> = map_option jsonb_value (map_of (rev fs) k)" by (rule jsonb_fields_lookup)
  finally show ?thesis using field_as_lookup [OF one] by simp
qed

text \<open>No two members of an object are matched by one field.\<close>

definition fields_apart :: "(string \<times> json) list \<Rightarrow> bool" where
  "fields_apart fs \<longleftrightarrow> distinct (map (\<lambda>f. to_lower (fst f)) fs)"

lemma field_with_apart:
  "fields_apart fs \<Longrightarrow> field_with dec name old fs = (case field name fs of None \<Rightarrow> Some old | Some v \<Rightarrow> dec v old)"
proof (induction fs arbitrary: old)
  case Nil
  then show ?case by (simp add: field_def)
next
  case (Cons f fs)
  obtain k v where f: "f = (k, v)" by fastforce
  have apart: "fields_apart fs" using Cons.prems by (simp add: fields_apart_def)
  have step: "field name (f # fs) = (case field name fs of None \<Rightarrow> if equal_fold k name then Some v else None | Some j \<Rightarrow> Some j)"
    by (simp add: field_def f find_append split: option.split)
  show ?case
  proof (cases "equal_fold k name")
    case True
    then have "field name fs = None"
      using Cons.prems by (force simp: field_none fields_apart_def f equal_fold_def)
    then show ?thesis using True Cons.IH [OF apart] by (simp add: f step [unfolded f] split: option.split)
  next
    case False
    then show ?thesis using Cons.IH [OF apart] by (simp add: f step [unfolded f] split: option.split)
  qed
qed

lemma apart_spelled:
  assumes "fields_apart fs"
  shows "spelled_once name fs"
  unfolding spelled_once_def list_all_iff
proof (intro ballI impI, elim conjE)
  fix f g assume f: "f \<in> set fs" "g \<in> set fs" "equal_fold (fst f) name" "equal_fold (fst g) name"
  have "inj_on (\<lambda>f. to_lower (fst f)) (set fs)" using assms by (simp add: fields_apart_def distinct_map)
  then have "f = g" using f by (simp add: equal_fold_def inj_onD)
  then show "fst f = fst g" by simp
qed

lemma apart_jsonb:
  assumes "fields_apart fs"
  shows "fields_apart (jsonb_fields fs)"
proof -
  let ?gs = "jsonb_fields fs"
  have "inj_on to_lower (fst ` set fs)" using assms by (auto simp: fields_apart_def distinct_map inj_on_def)
  then have i: "inj_on to_lower (set (map fst ?gs))" by (simp only: set_map jsonb_fields_keys)
  have "distinct (map to_lower (map fst ?gs))" by (simp only: distinct_map [of to_lower] i jsonb_members_distinct)
  then show ?thesis by (simp only: fields_apart_def map_map comp_def)
qed

lemma dec_string_jsonb: "dec_string (jsonb_value v) old = dec_string v old"
  by (cases v) (simp_all add: dec_string_def)

lemma string_field_jsonb: "fields_apart fs \<Longrightarrow> field_with dec_string name old (jsonb_fields fs) = field_with dec_string name old fs"
  by (simp add: field_with_apart apart_jsonb field_jsonb apart_spelled dec_string_jsonb split: option.split)

lemma raw_field_jsonb: "fields_apart fs \<Longrightarrow> raw_field name None (jsonb_fields fs) = map_option jsonb_value (raw_field name None fs)"
  by (simp add: raw_field_def field_jsonb apart_spelled split: option.split)

lemma known_jsonb: "known_fields names (jsonb_fields fs) \<longleftrightarrow> known_fields names fs"
proof -
  have "known_fields names gs \<longleftrightarrow> (\<forall>k \<in> fst ` set gs. list_ex (equal_fold k) names)" for gs
    by (simp add: known_fields_def list_all_iff)
  then show ?thesis by (simp only: jsonb_fields_keys)
qed

definition raw_jsonb :: "raw_statement \<Rightarrow> raw_statement" where
  "raw_jsonb st = st\<lparr>rs_principal := map_option jsonb_value (rs_principal st),
     rs_not_principal := map_option jsonb_value (rs_not_principal st), rs_action := map_option jsonb_value (rs_action st),
     rs_resource := map_option jsonb_value (rs_resource st), rs_condition := map_option jsonb_value (rs_condition st)\<rparr>"

lemma decode_statement_jsonb:
  assumes "fields_apart fs"
  shows "decode_statement zero_statement (jsonb_value (JObj fs)) = map_option raw_jsonb (decode_statement zero_statement (JObj fs))"
  unfolding decode_statement_def jsonb_value.simps json.case zero_statement_def raw_statement.simps known_jsonb
    string_field_jsonb [OF assms] raw_field_jsonb [OF assms]
  by (simp add: raw_jsonb_def split: option.split)

lemma encode_apart:
  "\<exists>fs. encode_statement st = JObj fs \<and> fields_apart fs"
  "\<exists>fs. encode_document d = JObj fs \<and> fields_apart fs"
  by (cases "rs_sid st = []"; cases "rs_principal st"; cases "rs_not_principal st"; cases "rs_condition st";
      simp add: encode_statement_def opt_string_def opt_raw_def fields_apart_def to_lower_def lower_char_def)
     (cases "rd_id d = []"; simp add: encode_document_def opt_string_def fields_apart_def to_lower_def lower_char_def)

abbreviation reencoded :: "raw_statement \<Rightarrow> raw_statement" where
  "reencoded st \<equiv> st\<lparr>rs_action := Some (raw_or_null (rs_action st)), rs_resource := Some (raw_or_null (rs_resource st))\<rparr>"

lemma decode_stored_statements:
  "decode_statements [] (map (\<lambda>st. jsonb_value (encode_statement st)) sts) = Some (map (\<lambda>st. raw_jsonb (reencoded st)) sts, [])"
proof (induction sts)
  case (Cons st sts)
  obtain fs where "encode_statement st = JObj fs" "fields_apart fs" using encode_apart(1) by blast
  then have "decode_statement zero_statement (jsonb_value (encode_statement st)) = Some (raw_jsonb (reencoded st))"
    using decode_statement_jsonb [of fs] decode_encode_statement [of st] by simp
  then show ?case using Cons.IH by simp
qed simp

lemma decode_stored_document:
  "decode_document (Some (jsonb_value (encode_document d))) =
     Some (d\<lparr>rd_statements := map (\<lambda>st. raw_jsonb (reencoded st)) (rd_statements d)\<rparr>)"
proof -
  obtain fs where fs: "encode_document d = JObj fs" "fields_apart fs" using encode_apart(2) by blast
  have statement: "field ''Statement'' fs = Some (JArr (map encode_statement (rd_statements d)))"
    using fs(1) by (cases "rd_id d = []") (auto simp: encode_document_def opt_string_def field_def lower_eval)
  have k: "known_fields [''Version'', ''Id'', ''Statement''] fs" "str_field ''Version'' fs = Some (rd_version d)"
      "str_field ''Id'' fs = Some (rd_id d)"
    using fs(1) by (cases "rd_id d = []"; force simp: encode_document_def opt_string_def known_fields_def str_field_def
        dec_string_def lower_eval)+
  have "field_with decode_slice ''Statement'' ([], []) (jsonb_fields fs) =
      Some (map (\<lambda>st. raw_jsonb (reencoded st)) (rd_statements d), [])"
    using decode_stored_statements [of "rd_statements d"]
    by (simp add: field_with_apart apart_jsonb field_jsonb apart_spelled fs(2) statement decode_slice_def comp_def)
  then show ?thesis
    using k by (simp add: fs(1) decode_document_def known_jsonb str_field_def string_field_jsonb [OF fs(2)])
qed

subsection \<open>What normalisation makes of the stored document\<close>

text \<open>The same statement, with the conditions perhaps in another order.\<close>

definition same_statement :: "norm_statement \<Rightarrow> norm_statement \<Rightarrow> bool" where
  "same_statement n n' \<longleftrightarrow> n' = n\<lparr>ns_conditions := ns_conditions n'\<rparr> \<and> set (ns_conditions n') = set (ns_conditions n)"

lemma same_applies: "same_statement n n' \<Longrightarrow> policy_applies ip6 caller action resource rc n' = policy_applies ip6 caller action resource rc n"
  by (cases n; cases n') (simp add: same_statement_def policy_applies_def statement_principal_matches_def)

lemma same_effect: "same_statement n n' \<Longrightarrow> ns_effect n' = ns_effect n"
  by (cases n; cases n') (simp add: same_statement_def)

lemma same_evaluation:
  "list_all2 same_statement ns ns' \<Longrightarrow>
   evaluate_document_from ip6 allowed ns' caller action resource rc = evaluate_document_from ip6 allowed ns caller action resource rc"
  by (induction arbitrary: allowed rule: list_all2_induct)
     (simp_all add: evaluate_document_step same_applies same_effect del: evaluate_document_from.simps(2))

lemma unmarshal_jsonb:
  "unmarshal_string (map_option jsonb_value raw) = unmarshal_string raw"
  "unmarshal_strings (map_option jsonb_value raw) = unmarshal_strings raw"
proof -
  have one: "unmarshal_string (Some (jsonb_value j)) = unmarshal_string (Some j)" for j
    by (cases j) (simp_all add: unmarshal_string_def)
  have "unmarshal_items (map jsonb_value js) = unmarshal_items js" for js
    by (induction js) (simp_all add: one cong: option.case_cong)
  then show "unmarshal_strings (map_option jsonb_value raw) = unmarshal_strings raw"
    by (cases raw; cases "the raw") (simp_all add: unmarshal_strings_def)
  show "unmarshal_string (map_option jsonb_value raw) = unmarshal_string raw"
    using one by (cases raw) simp_all
qed

lemma string_or_list_jsonb: "normalize_string_or_list (map_option jsonb_value raw) = normalize_string_or_list raw"
  by (simp add: normalize_string_or_list_def unmarshal_jsonb cong: option.case_cong)

definition aws_spelled_once :: "json option \<Rightarrow> bool" where
  "aws_spelled_once raw = (case raw of Some (JObj fs) \<Rightarrow> spelled_once ''AWS'' fs | _ \<Rightarrow> True)"

lemma principal_jsonb:
  assumes "aws_spelled_once raw"
  shows "normalize_bucket_policy_principal (map_option jsonb_value raw) = normalize_bucket_policy_principal raw"
proof (cases raw)
  case (Some j)
  have u: "unmarshal_string (Some (jsonb_value j)) = unmarshal_string (Some j)" using unmarshal_jsonb(1) [of "Some j"] by simp
  show ?thesis
    using assms Some u
    by (cases j) (simp_all add: normalize_bucket_policy_principal_def aws_spelled_once_def field_jsonb string_or_list_jsonb
        cong: option.case_cong)
qed simp

text \<open>Entries and operators are normalised one by one.\<close>

lemma all_some_iff: "all_some xs = Some ys \<longleftrightarrow> xs = map Some ys"
proof (induction xs arbitrary: ys)
  case (Cons x xs)
  show ?case
  proof (cases "all_some xs")
    case None
    then have "xs \<noteq> map Some zs" for zs using Cons.IH [of zs] by auto
    then show ?thesis using None by (cases ys; cases x) auto
  next
    case (Some zs)
    then show ?thesis using Cons.IH [of zs] by (cases ys; cases x) auto
  qed
qed auto

lemma all_some_same_set:
  assumes "all_some xs = Some ys" "set xs' = set xs"
  shows "\<exists>ys'. all_some xs' = Some ys' \<and> set ys' = set ys"
proof -
  have "\<forall>x \<in> set xs'. x \<noteq> None" using assms by (auto simp: all_some_iff)
  then have m: "xs' = map Some (map the xs')" by (simp add: map_idI)
  then have "Some ` set (map the xs') = Some ` set ys" using assms by (metis all_some_iff set_map)
  then have "set (map the xs') = set ys" by (simp only: inj_image_eq_iff [OF inj_Some])
  with m show ?thesis by (metis all_some_iff)
qed

definition entry_condition :: "string \<Rightarrow> string \<times> json \<Rightarrow> policy_condition option" where
  "entry_condition operator e = (case normalize_string_or_list (Some (snd e)) of Inl _ \<Rightarrow> None
     | Inr vs \<Rightarrow> if vs = [] then None else Some \<lparr>pc_operator = operator, pc_key = fst e, pc_values = vs\<rparr>)"

lemma normalize_entries_all:
  "normalize_entries operator es =
     (case all_some (map (entry_condition operator) es) of None \<Rightarrow> Inl ErrInvalidBucketPolicy | Some cs \<Rightarrow> Inr cs)"
  by (induction es) (auto simp: entry_condition_def split: sum.splits option.splits)

definition operator_entries :: "json \<Rightarrow> (string \<times> json) list" where
  "operator_entries j = (case j of JObj es \<Rightarrow> go_map_entries es | _ \<Rightarrow> [])"

definition operator_conditions :: "string \<times> json \<Rightarrow> policy_condition list option" where
  "operator_conditions e = (if \<not> List.member condition_operators (fst e) \<or> \<not> is_map (snd e) then None
     else all_some (map (entry_condition (fst e)) (operator_entries (snd e))))"

lemma normalize_operators_all:
  "normalize_operators es =
     (case all_some (map operator_conditions es) of None \<Rightarrow> Inl ErrInvalidBucketPolicy | Some css \<Rightarrow> Inr (concat css))"
proof (induction es rule: normalize_operators.induct)
  case (2 operator entries rest)
  then show ?case
    by (cases entries)
       (auto simp: operator_conditions_def operator_entries_def is_map_def normalize_entries_all split: sum.splits option.splits)
qed simp

lemma entry_condition_jsonb: "entry_condition operator (k, jsonb_value v) = entry_condition operator (k, v)"
  using string_or_list_jsonb [of "Some v"] by (simp add: entry_condition_def split: sum.split)

lemma is_map_jsonb: "is_map (jsonb_value j) = is_map j"
  by (cases j) (simp_all add: is_map_def)

lemma operator_conditions_jsonb:
  assumes "operator_conditions (k, v) = Some cs"
  shows "\<exists>cs'. operator_conditions (k, jsonb_value v) = Some cs' \<and> set cs' = set cs"
proof -
  have "set (operator_entries (jsonb_value v)) = (\<lambda>(k, v). (k, jsonb_value v)) ` set (operator_entries v)"
    by (cases v) (simp_all add: operator_entries_def go_entries_jsonb)
  then have "set (map (entry_condition k) (operator_entries (jsonb_value v))) = set (map (entry_condition k) (operator_entries v))"
    by (simp add: image_image case_prod_beta' entry_condition_jsonb cong: image_cong_simp)
  then show ?thesis
    using assms all_some_same_set by (fastforce simp: operator_conditions_def is_map_jsonb split: if_splits)
qed

lemma normalize_operators_jsonb:
  assumes "normalize_operators (go_map_entries es) = Inr cs"
  shows "\<exists>cs'. normalize_operators (go_map_entries (jsonb_fields es)) = Inr cs' \<and> set cs' = set cs"
proof -
  obtain css where css: "map operator_conditions (go_map_entries es) = map Some css" "cs = concat css"
    using assms by (auto simp: normalize_operators_all all_some_iff split: option.splits)
  have each: "\<exists>c c'. operator_conditions e = Some c \<and> operator_conditions (case e of (k, v) \<Rightarrow> (k, jsonb_value v)) = Some c' \<and>
      set c' = set c" if "e \<in> set (go_map_entries es)" for e
  proof -
    have "operator_conditions e \<in> Some ` set css" using that css(1) by (metis image_eqI list.set_map)
    then show ?thesis using operator_conditions_jsonb by (cases e) auto
  qed
  let ?gs = "go_map_entries (jsonb_fields es)"
  have "\<forall>x \<in> set (map operator_conditions ?gs). x \<noteq> None" using each by (auto simp: go_entries_jsonb) (metis option.distinct(1) old.prod.case)
  then have gs: "map operator_conditions ?gs = map Some (map the (map operator_conditions ?gs))"
    by (simp add: map_idI)
  have "set (concat (map (\<lambda>e. the (operator_conditions e)) ?gs)) = (\<Union>e \<in> set (go_map_entries es). set (the (operator_conditions e)))"
    using each by (force simp: go_entries_jsonb)
  also have "\<dots> = set (concat (map the (map operator_conditions (go_map_entries es))))" by simp
  also have "\<dots> = set cs" unfolding css by (simp add: comp_def)
  finally have cs: "set (concat (map (\<lambda>e. the (operator_conditions e)) ?gs)) = set cs" .
  have "all_some (map operator_conditions ?gs) = Some (map the (map operator_conditions ?gs))"
    using gs by (simp only: all_some_iff)
  then have "normalize_operators ?gs = Inr (concat (map (\<lambda>e. the (operator_conditions e)) ?gs))"
    by (simp add: normalize_operators_all comp_def)
  then show ?thesis using cs by blast
qed

lemma conditions_jsonb:
  assumes "normalize_bucket_policy_conditions raw = Inr cs"
  shows "\<exists>cs'. normalize_bucket_policy_conditions (map_option jsonb_value raw) = Inr cs' \<and> set cs' = set cs"
proof (cases raw)
  case (Some j)
  show ?thesis
  proof (cases j)
    case (JObj fs)
    then have m: "list_all (\<lambda>f. is_map (snd f)) fs" and n: "normalize_operators (go_map_entries fs) = Inr cs"
      using assms Some by (auto simp: normalize_bucket_policy_conditions_def split: if_splits)
    have "set (jsonb_fields fs) \<subseteq> (\<lambda>(k, v). (k, jsonb_value v)) ` set fs"
      using go_entries_subset by (force simp: jsonb_members_set)
    then have "list_all (\<lambda>f. is_map (snd f)) (jsonb_fields fs)" using m by (fastforce simp: list_all_iff is_map_jsonb)
    then show ?thesis using normalize_operators_jsonb [OF n] Some JObj by (simp add: normalize_bucket_policy_conditions_def)
  qed (use assms Some in \<open>simp_all add: normalize_bucket_policy_conditions_def\<close>)
qed (use assms in simp)

lemma normalize_statement_jsonb:
  assumes "normalize_bucket_policy_statement st = Inr n"
    and "aws_spelled_once (rs_principal st)" "aws_spelled_once (rs_not_principal st)"
  shows "\<exists>n'. normalize_bucket_policy_statement (raw_jsonb st) = Inr n' \<and> same_statement n n'"
proof -
  obtain cs where cs: "normalize_bucket_policy_conditions (rs_condition st) = Inr cs" "ns_conditions n = cs"
    using assms(1) by (auto simp: normalize_bucket_policy_statement_def Let_def split: if_splits sum.splits)
  obtain cs' where cs': "normalize_bucket_policy_conditions (map_option jsonb_value (rs_condition st)) = Inr cs'" "set cs' = set cs"
    using conditions_jsonb [OF cs(1)] by blast
  have "normalize_bucket_policy_statement (raw_jsonb st) = Inr (n\<lparr>ns_conditions := cs'\<rparr>)"
    using assms cs(1) by (auto simp: normalize_bucket_policy_statement_def Let_def raw_jsonb_def principal_jsonb string_or_list_jsonb cs'(1)
        split: if_splits sum.splits)
  then show ?thesis using cs' cs by (auto simp: same_statement_def)
qed

text \<open>
  A document whose principals spell the field \<open>AWS\<close> in one way: no principal object has, say, both
  an \<open>aws\<close> and an \<open>AWS\<close>.
\<close>

definition unambiguous_policy :: "json option \<Rightarrow> bool" where
  "unambiguous_policy document = (case decode_document document of
     None \<Rightarrow> True
   | Some d \<Rightarrow> list_all (\<lambda>st. aws_spelled_once (rs_principal st) \<and> aws_spelled_once (rs_not_principal st)) (rd_statements d))"

lemma normalize_statements_jsonb:
  assumes "normalize_statements sts = Inr ns"
    and "list_all (\<lambda>st. aws_spelled_once (rs_principal st) \<and> aws_spelled_once (rs_not_principal st)) sts"
  shows "\<exists>ns'. normalize_statements (map (\<lambda>st. raw_jsonb (reencoded st)) sts) = Inr ns' \<and> list_all2 same_statement ns ns'"
  using assms
proof (induction sts arbitrary: ns)
  case (Cons st sts)
  obtain n ns0 where n: "normalize_bucket_policy_statement st = Inr n" "normalize_statements sts = Inr ns0" "ns = n # ns0"
    using Cons.prems(1) by (auto split: sum.splits)
  obtain ns' where ns': "normalize_statements (map (\<lambda>st. raw_jsonb (reencoded st)) sts) = Inr ns'" "list_all2 same_statement ns0 ns'"
    using Cons.IH [OF n(2)] Cons.prems(2) by auto
  obtain n' where "normalize_bucket_policy_statement (raw_jsonb (reencoded st)) = Inr n'" "same_statement n n'"
    using normalize_statement_jsonb [of "reencoded st" n] n(1) Cons.prems(2) by (auto simp: normalize_reencoded)
  then show ?case using ns' n(3) by auto
qed simp

lemma normalize_stored:
  assumes "normalize_bucket_policy document = Inr (normalized, canonical)" "unambiguous_policy document"
  shows "\<exists>normalized' c. normalize_bucket_policy (Some (jsonb_value canonical)) = Inr (normalized', c) \<and>
    list_all2 same_statement (nd_statements normalized) (nd_statements normalized')"
proof -
  obtain d ns where d: "decode_document document = Some d"
    and ne: "rd_statements d \<noteq> []"
    and ns: "normalize_statements (rd_statements d) = Inr ns"
    and n: "normalized = \<lparr>nd_version = ''2012-10-17'', nd_id = rd_id d, nd_statements = ns\<rparr>"
    and c: "canonical = encode_document (d\<lparr>rd_version := ''2012-10-17''\<rparr>)"
    using assms(1) by (auto simp: normalize_bucket_policy_def Let_def split: option.splits if_splits sum.splits)
  obtain ns' where ns': "normalize_statements (map (\<lambda>st. raw_jsonb (reencoded st)) (rd_statements d)) = Inr ns'"
      "list_all2 same_statement ns ns'"
    using normalize_statements_jsonb [OF ns] assms(2) by (auto simp: unambiguous_policy_def d)
  have "trim_space ''2012-10-17'' \<noteq> []"
    by (simp add: trim_space_def trim_right_by_def is_space_def)
  then show ?thesis
    unfolding normalize_bucket_policy_def c decode_stored_document using ne ns' by (simp add: Let_def n)
qed

text \<open>
  C17: a policy that \<open>PutBucketPolicy\<close> accepted is the one enforced, provided its principal objects
  spell the field \<open>AWS\<close> in one way: whatever happened during the call, if it reported success, the
  column holds the \<open>jsonb\<close> value of the canonical document, and evaluation in a world where calls
  succeed decides every request as the normalised document does, without an error.
\<close>

theorem put_policy_is_enforced:
  assumes "put_bucket_policy E bucket_id document w = (Inr canonical, w')"
    and "normalize_bucket_policy document = Inr (normalized, canonical')" "unambiguous_policy document"
  shows "canonical' = canonical \<and> stored_policy E bucket_id (db w') = Some (jsonb_value canonical) \<and>
    evaluate_bucket_policy E ip6 bucket_id caller action resource rc (w'\<lparr>script := []\<rparr>)
      = (Inr (evaluate_document ip6 normalized caller action resource rc), w'\<lparr>script := []\<rparr>)"
proof -
  obtain bid w1 where bid: "pg_uuid E bucket_id = Some bid"
    and x: "exec (\<lambda>_. upsert_policy bid canonical') w1 = (Inr (), w')" and c: "canonical = canonical'"
    using assms by (auto simp: put_bucket_policy_def bnd_Inr_iff guard_Inr_iff cast_uuid_Inr_iff)
  obtain d where "upsert_policy bid canonical' d = Inr ((), db w')"
    using x unfolding exec_def by (auto elim!: external_Inr split: sum.splits prod.splits)
  then have s: "stored_policy E bucket_id (db w') = Some (jsonb_value canonical')"
    by (simp add: stored_policy_def bid upsert_policy_find)
  then have g: "get_bucket_policy E bucket_id (w'\<lparr>script := []\<rparr>) = (Inr (jsonb_value canonical'), w'\<lparr>script := []\<rparr>)"
    by (simp add: get_bucket_policy_calm)
  obtain normalized' c' where n: "normalize_bucket_policy (Some (jsonb_value canonical')) = Inr (normalized', c')"
    and same: "list_all2 same_statement (nd_statements normalized) (nd_statements normalized')"
    using normalize_stored [OF assms(2,3)] by blast
  have "evaluate_document ip6 normalized' caller action resource rc = evaluate_document ip6 normalized caller action resource rc"
    unfolding evaluate_document_def by (rule same_evaluation [OF same])
  then show ?thesis using s g n c by (simp add: evaluate_bucket_policy_def bnd_def attempt_def)
qed

definition example_stored :: json where
  "example_stored = JObj [(''Version'', JStr ''2012-10-17''), (''Statement'', JArr [JObj
     [(''Action'', JStr ''s3:GetObject''), (''Effect'', JStr ''deny''), (''Resource'', JArr [JStr ''*'']),
      (''Principal'', JObj [(''AWS'', JStr ''arn:aws:iam::1:user/eve'')])]])]"

lemma example_stored: "jsonb_value example_canonical = example_stored"
  by code_simp

lemma put_stores:
  assumes "normalize_bucket_policy (Some document) = Inr (normalized, canonical)" "nd_statements normalized \<noteq> []"
  shows "put_bucket_policy plain_ext ''b'' (Some document) (calm_world example_bucket_db) =
     (Inr canonical, calm_world (example_bucket_db\<lparr>t_policies :=
        [\<lparr>bp_bucket = ''b'', bp_document = jsonb_value canonical\<rparr>]\<rparr>))"
proof -
  have "pg_uuid plain_ext ''b'' = Some ''b''" by (simp add: plain_ext_def plain_elem_def slash_def)
  moreover have "upsert_policy ''b'' canonical example_bucket_db = Inr ((), example_bucket_db\<lparr>t_policies :=
        [\<lparr>bp_bucket = ''b'', bp_document = jsonb_value canonical\<rparr>]\<rparr>)"
    by (simp add: upsert_policy_def example_bucket_db_def empty_db_def)
  ultimately show ?thesis
    using assms by (simp add: put_bucket_policy_def bnd_def cast_uuid_def exec_def calm_world_def)
qed

theorem put_policy_is_enforced_witness:
  "fst (evaluate_bucket_policy plain_ext (\<lambda>_. None) ''b'' ''eve'' ''s3:GetObject'' ''files/a'' Map.empty
     ((calm_world (example_bucket_db\<lparr>t_policies :=
        [\<lparr>bp_bucket = ''b'', bp_document = example_stored\<rparr>]\<rparr>))\<lparr>script := []\<rparr>)) = Inr DecisionDeny"
proof -
  have "evaluate_document (\<lambda>_. None) example_normalized ''eve'' ''s3:GetObject'' ''files/a'' Map.empty = DecisionDeny"
    by code_simp
  moreover have "unambiguous_policy (Some example_document)"
    by (simp add: unambiguous_policy_def decode_document_def example_document_def known_fields_def str_field_def decode_slice_def
        decode_statement_def raw_field_def field_def dec_string_def aws_spelled_once_def spelled_once_def zero_statement_def lower_eval)
  moreover have "nd_statements example_normalized \<noteq> []" by (simp add: example_normalized_def)
  ultimately show ?thesis
    using put_policy_is_enforced [OF put_stores [OF normalize_example] normalize_example, of "\<lambda>_. None" "''eve''" "''s3:GetObject''" "''files/a''" Map.empty]
    by (simp add: example_stored)
qed

text \<open>
  With two spellings the policy that is enforced is another one than was accepted: the document is
  accepted for the principal of the last member, the cast moves that member to the front, and what
  is read back is a policy for the other principal.
\<close>

definition twice_spelled :: json where
  "twice_spelled = JObj [(''Statement'', JArr [JObj [(''Effect'', JStr ''allow''),
     (''Principal'', JObj [(''aws'', JStr ''bob''), (''AWS'', JStr ''eve'')]),
     (''Action'', JStr ''s3:GetObject''), (''Resource'', JStr ''*'')]])]"

lemma ambiguous_policy_changes:
  "case normalize_bucket_policy (Some twice_spelled) of Inl _ \<Rightarrow> False
   | Inr (normalized, canonical) \<Rightarrow> map ns_principals (nd_statements normalized) = [[''eve'']] \<and>
       (case normalize_bucket_policy (Some (jsonb_value canonical)) of Inl _ \<Rightarrow> False
        | Inr (enforced, _) \<Rightarrow> map ns_principals (nd_statements enforced) = [[''bob'']])"
  by code_simp

text \<open>
  When the statement that reads the policy fails, the failure is taken for the absence of
  a policy: evaluation answers that there is none, whatever is stored, a denial included.
\<close>

lemma lost_policy_read_is_no_policy:
  assumes "script w = (Lost, dt) # rest" and "pg_uuid E bucket_id = Some bid"
  shows "fst (evaluate_bucket_policy E ip6 bucket_id caller action resource rc w) = Inr DecisionNone"
  using assms
  by (simp add: evaluate_bucket_policy_def get_bucket_policy_def bnd_def attempt_def cast_uuid_def
      query_def external_def Let_def)

theorem lost_policy_read_is_no_policy_witness:
  "fst (evaluate_bucket_policy plain_ext (\<lambda>_. None) ''b'' ''eve'' ''s3:GetObject'' ''files/a'' Map.empty
     ((calm_world (example_bucket_db\<lparr>t_policies :=
        [\<lparr>bp_bucket = ''b'', bp_document = example_stored\<rparr>]\<rparr>))\<lparr>script := [(Lost, 1)]\<rparr>)) = Inr DecisionNone"
  by (rule lost_policy_read_is_no_policy [where bid = "''b''"]) (simp_all add: plain_ext_def plain_elem_def slash_def)

end
