(* ===== verification/S3Auth.thy ===== *)
theory S3Auth
  imports SigV4 BucketPolicy
begin

text \<open>
  Who may do what over S3: \<open>backend/internal/authz/authz.go\<close> and the identity and
  authorization functions of \<open>backend/internal/s3/router.go\<close>. An actor is the map of the code
  (\<open>nil\<close> is the empty map, whose entries read as empty strings).
\<close>

section \<open>Package authz\<close>

definition check_role :: "string \<Rightarrow> string \<Rightarrow> string \<Rightarrow> unit prog" where
  "check_role role action resource =
     bnd (authorize_role role action resource) (\<lambda>allowed. if allowed then ret () else fail ErrForbidden)"

definition check_subject :: "string \<Rightarrow> string \<Rightarrow> string \<Rightarrow> string \<Rightarrow> string \<Rightarrow> string prog" where
  "check_subject subject_type subject_id fallback_role action resource =
     bnd (authorize_subject subject_type subject_id fallback_role action resource) (\<lambda>(allowed, resolved_role).
       if allowed then ret resolved_role else fail ErrForbidden)"

section \<open>Resources and the context of a request\<close>

definition bucket_resource :: "string \<Rightarrow> string" where
  "bucket_resource b = ''bucket:'' @ b"

definition object_resource :: "string \<Rightarrow> string \<Rightarrow> string" where
  "object_resource b key = ''bucket:'' @ b @ ''/object:'' @ key"

definition bucket_policy_resource :: "string \<Rightarrow> string \<Rightarrow> string" where
  "bucket_policy_resource b key = (if key = [] then ''arn:aws:s3:::'' @ b else ''arn:aws:s3:::'' @ b @ ''/'' @ key)"

text \<open>\<open>net.SplitHostPort\<close>; only the host is used.\<close>

definition split_host_port :: "string \<Rightarrow> string option" where
  "split_host_port s =
     (if CHR '':'' \<notin> set s then None
      else
      let port = rev (takeWhile (\<lambda>c. c \<noteq> CHR '':'') (rev s));
          before = take (length s - Suc (length port)) s in
      if s \<noteq> [] \<and> hd s = CHR ''['' then
        (let host = takeWhile (\<lambda>c. c \<noteq> CHR '']'') (tl s) in
         if before \<noteq> CHR ''['' # host @ '']'' \<or> CHR ''['' \<in> set (tl s) \<or> CHR '']'' \<in> set port then None
         else Some host)
      else if CHR '':'' \<in> set before \<or> CHR ''['' \<in> set s \<or> CHR '']'' \<in> set s then None
      else Some before)"

definition s3_request_ip :: "request \<Rightarrow> string" where
  "s3_request_ip req = (case split_host_port (trim_space (rq_remote req)) of
      Some host \<Rightarrow> if host \<noteq> [] then host else trim_space (rq_remote req)
    | None \<Rightarrow> trim_space (rq_remote req))"

definition bucket_policy_request_context :: "request \<Rightarrow> smap" where
  "bucket_policy_request_context req =
     (let p = trim_space (query_get req ''prefix''); ip = s3_request_ip req;
          c = (if p \<noteq> [] then [''s3:prefix'' \<mapsto> p] else Map.empty) in
      if ip \<noteq> [] then c(''aws:SourceIp'' \<mapsto> ip) else c)"

section \<open>Identities\<close>

datatype auth_status = AuthAllowed | AuthUnauthenticated | AuthForbidden | AuthBadSignature

definition is_presigned :: "request \<Rightarrow> bool" where
  "is_presigned req \<longleftrightarrow> query_get req ''accessKey'' \<noteq> []"

text \<open>The older form of presigned requests, over the method and the path alone.\<close>

definition sign_presigned :: "ext \<Rightarrow> string \<Rightarrow> string \<Rightarrow> string \<Rightarrow> string \<Rightarrow> int \<Rightarrow> string" where
  "sign_presigned E access_key key_material verb path expiry =
     hex_encode (hmac_sha256 E key_material (access_key @ '':'' @ verb @ '':'' @ path @ '':'' @ itoa expiry))"

definition validate_presigned :: "ext \<Rightarrow> request \<Rightarrow> smap option prog" where
  "validate_presigned E req =
     (let access_key = query_get req ''accessKey'' in
      case parse_int (query_get req ''expires'') of
        None \<Rightarrow> ret None
      | Some expiry \<Rightarrow> bnd now (\<lambda>t.
          if t div 1000000000 > expiry then ret None
          else bnd (attempt (lookup_credential E access_key)) (\<lambda>r. case r of
              Inl _ \<Rightarrow> ret None
            | Inr cred \<Rightarrow>
                if query_get req ''signature'' \<noteq> sign_presigned E access_key (ci_hash cred) (rq_method req) (rq_path req) expiry
                then ret None
                else ret (Some [''userID'' \<mapsto> ci_user cred, ''role'' \<mapsto> ci_role cred, ''accessKey'' \<mapsto> access_key]))))"

definition authenticate_s3_identity :: "ext \<Rightarrow> string \<Rightarrow> request \<Rightarrow> (smap \<times> auth_status) prog" where
  "authenticate_s3_identity E region req =
     (if is_sigv4_presigned req then
        bnd (attempt (validate_presigned_sigv4 E region req)) (\<lambda>r. ret (case r of
            Inl _ \<Rightarrow> (Map.empty, AuthBadSignature)
          | Inr i \<Rightarrow> (identity_map i, AuthAllowed)))
      else if is_presigned req then
        bnd (validate_presigned E req) (\<lambda>r. ret (case r of
            None \<Rightarrow> (Map.empty, AuthBadSignature) | Some actor \<Rightarrow> (actor, AuthAllowed)))
      else
        bnd (authorize_headers E region req) (\<lambda>r. ret (case r of
            None \<Rightarrow> (Map.empty, AuthUnauthenticated) | Some actor \<Rightarrow> (actor, AuthAllowed))))"

section \<open>Authorization\<close>

definition authorize_actor :: "smap \<Rightarrow> string \<Rightarrow> string \<Rightarrow> (smap \<times> auth_status) prog" where
  "authorize_actor actor action resource =
     (let role = text_of (actor ''role''); user_id = text_of (actor ''userID''); access_key = text_of (actor ''accessKey'') in
      bnd (attempt (check_subject ''credential'' access_key role action resource)) (\<lambda>r. ret (case r of
          Inl e \<Rightarrow> (Map.empty, if e = ErrForbidden then AuthForbidden else AuthUnauthenticated)
        | Inr resolved \<Rightarrow> ([''role'' \<mapsto> resolved, ''userID'' \<mapsto> user_id, ''accessKey'' \<mapsto> access_key], AuthAllowed))))"

definition authorize_s3_request :: "ext \<Rightarrow> string \<Rightarrow> request \<Rightarrow> string \<Rightarrow> string \<Rightarrow> (smap \<times> auth_status) prog" where
  "authorize_s3_request E region req action resource =
     bnd (authenticate_s3_identity E region req) (\<lambda>(actor, status).
       if status \<noteq> AuthAllowed then ret (Map.empty, status)
       else authorize_actor actor action resource)"

definition policy_principal :: "smap \<Rightarrow> string" where
  "policy_principal actor = (let k = text_of (actor ''accessKey'') in if k \<noteq> [] then k else ''*'')"

definition public_actor :: smap where
  "public_actor = [''role'' \<mapsto> ''public'', ''accessKey'' \<mapsto> ''*'']"

definition authorize_bucket_policy_aware ::
    "ext \<Rightarrow> (string \<Rightarrow> ip option) \<Rightarrow> string \<Rightarrow> request \<Rightarrow> string \<Rightarrow> string \<Rightarrow> string \<Rightarrow> string \<Rightarrow> string \<Rightarrow>
     (smap \<times> auth_status) prog" where
  "authorize_bucket_policy_aware E ip6 region req bucket_id action resource aws_action aws_resource =
     bnd (authenticate_s3_identity E region req) (\<lambda>(actor, authn).
     if authn = AuthBadSignature then ret (Map.empty, AuthBadSignature)
     else
     bnd (if bucket_id \<noteq> [] \<and> aws_action \<noteq> [] \<and> aws_resource \<noteq> [] then
            attempt (evaluate_bucket_policy E ip6 bucket_id (policy_principal actor) aws_action aws_resource
              (bucket_policy_request_context req))
          else ret (Inr DecisionNone)) (\<lambda>evaluated.
     case evaluated of
       Inl _ \<Rightarrow> ret (Map.empty, AuthUnauthenticated)
     | Inr decision \<Rightarrow>
         if decision = DecisionDeny then ret (Map.empty, AuthForbidden)
         else if authn = AuthAllowed then
           bnd (authorize_actor actor action resource) (\<lambda>(authorized, status).
             if status = AuthAllowed then ret (authorized, AuthAllowed)
             else if decision = DecisionAllow then ret (actor, AuthAllowed)
             else ret (Map.empty, status))
         else if decision = DecisionAllow then ret (public_actor, AuthAllowed)
         else ret (Map.empty, AuthUnauthenticated)))"

section \<open>Headers and payloads of requests\<close>

definition expected_content_length :: "request \<Rightarrow> int" where
  "expected_content_length req = (if rq_length req < 0 then - 1 else rq_length req)"

text \<open>
  Header names are canonical in \<open>net/http\<close>, so no two of them have the same lower-case form; of
  the values of one name the first counts.
\<close>

definition extract_user_metadata :: "request \<Rightarrow> smap" where
  "extract_user_metadata req = map_of (List.map_filter (\<lambda>(k, v).
     let lower = to_lower k in
     if has_prefix lower ''x-amz-meta-'' then Some (trim_prefix lower ''x-amz-meta-'', v) else None) (rq_headers req))"

definition quote_etag :: "string \<Rightarrow> string" where
  "quote_etag etag = CHR 0x22 # etag @ [CHR 0x22]"

text \<open>\<open>url.QueryUnescape\<close> and \<open>url.ParseQuery\<close>, which keeps the pairs it could read.\<close>

definition query_unescape :: "string \<Rightarrow> string option" where
  "query_unescape s = path_unescape (map (\<lambda>c. if c = CHR ''+'' then CHR '' '' else c) s)"

definition parse_pair :: "string \<Rightarrow> (string \<times> string) option" where
  "parse_pair s = (let (k, v) = (case split_first (CHR ''='') s of Some kv \<Rightarrow> kv | None \<Rightarrow> (s, [])) in
     case (query_unescape k, query_unescape v) of (Some k', Some v') \<Rightarrow> Some (k', v') | _ \<Rightarrow> None)"

definition parse_query :: "string \<Rightarrow> (string \<times> string) list \<times> bool" where
  "parse_query s =
     (let pieces = filter (\<lambda>p. p \<noteq> []) (split_on (CHR ''&'') s);
          good = (\<lambda>p. CHR '';'' \<notin> set p \<and> parse_pair p \<noteq> None) in
      (List.map_filter parse_pair (filter good pieces), list_all good pieces))"

definition parse_tags :: "string \<Rightarrow> err + smap" where
  "parse_tags encoded =
     (if trim_space encoded = [] then Inr Map.empty
      else case parse_query encoded of
          (values, True) \<Rightarrow> Inr (normalize_tags (Some (map_of values)))
        | _ \<Rightarrow> Inl (Failure ''parse object tags''))"

definition parse_copy_source :: "string \<Rightarrow> err + (string \<times> string \<times> string)" where
  "parse_copy_source raw =
     (let trimmed = trim_prefix (trim_space raw) ''/'' in
      if trimmed = [] then Inl (Failure ''empty copy source'')
      else
      let (path, values, readable) = (case split_first (CHR ''?'') trimmed of
          None \<Rightarrow> (trimmed, [], True)
        | Some (p, q) \<Rightarrow> (p, fst (parse_query q), snd (parse_query q))) in
      if \<not> readable then Inl (Failure ''invalid query'')
      else case split_first (CHR ''/'') path of
          None \<Rightarrow> Inl (Failure ''invalid copy source'')
        | Some (b, k) \<Rightarrow>
            if b = [] \<or> k = [] then Inl (Failure ''invalid copy source'')
            else (case path_unescape k of
                None \<Rightarrow> Inl (Failure ''invalid URL escape'')
              | Some key \<Rightarrow> Inr (b, key, first_of values ''versionId'')))"

definition replace_or_empty :: "string \<Rightarrow> string \<Rightarrow> string" where
  "replace_or_empty directive value = (if equal_fold (trim_space directive) ''REPLACE'' then value else [])"

definition copy_action :: "string \<Rightarrow> string" where
  "copy_action source = (if trim_space source \<noteq> [] then ''object.copy'' else ''object.put'')"

definition copy_event :: "string \<Rightarrow> string" where
  "copy_event source = (if trim_space source \<noteq> [] then ''object.copied'' else ''object.created'')"

end
