(* ===== verification/AuditLog.thy ===== *)
theory AuditLog
  imports Objects
begin

text \<open>
  The audit log: \<open>backend/internal/audit\<close>. Entries are rows; a listing filters them, classifies
  their action and outcome, and redacts what stands under a sensitive key of the detail, at any
  depth. How PostgreSQL prints a detail for its text search is a parameter.
\<close>

section \<open>Redaction\<close>

definition sensitive_terms :: "string list" where
  "sensitive_terms = [''secret'', ''password'', ''token'', ''ciphertext'', ''privatekey'', ''clientsecret'',
     ''authorization'', ''cookie'', ''session'']"

definition is_sensitive_audit_key :: "string \<Rightarrow> bool" where
  "is_sensitive_audit_key key0 =
     (let key = to_lower (trim_space key0) in
      if key = [] then False
      else if has_suffix key ''configured'' then False
      else list_ex (\<lambda>term. sublist term key) sensitive_terms)"

fun sanitize_audit_value :: "json \<Rightarrow> json" where
  "sanitize_audit_value (JObj ms) =
     JObj (map (\<lambda>(key, item). (key, if is_sensitive_audit_key key then JStr ''[redacted]''
                                      else sanitize_audit_value item)) ms)"
| "sanitize_audit_value (JArr items) = JArr (map sanitize_audit_value items)"
| "sanitize_audit_value value = value"

section \<open>Classes of entries\<close>

definition any_prefix :: "string \<Rightarrow> string list \<Rightarrow> bool" where
  "any_prefix s ps = list_ex (has_prefix s) ps"

definition any_part :: "string \<Rightarrow> string list \<Rightarrow> bool" where
  "any_part s ps = list_ex (\<lambda>p. sublist p s) ps"

definition classify_audit_category :: "string \<Rightarrow> string" where
  "classify_audit_category action0 =
     (let action = to_lower (trim_space action0) in
      if any_prefix action [''auth.'', ''admin-token.''] then ''authentication''
      else if any_prefix action [''settings.''] then ''settings''
      else if any_prefix action [''storage.node'', ''storage.join'', ''storage.''] then ''storage''
      else if any_prefix action [''bucket.'', ''object.'', ''multipart.''] then ''data''
      else if any_prefix action [''credential.'', ''role.'', ''policy.'', ''user.''] then ''access-control''
      else if any_prefix action [''quota.''] then ''quota''
      else if any_prefix action [''malware.''] then ''malware''
      else if any_prefix action [''event.'', ''webhook.'', ''delivery.''] then ''eventing''
      else if any_prefix action [''setup.''] then ''deployment''
      else ''system'')"

definition classify_audit_severity :: "string \<Rightarrow> string \<Rightarrow> string" where
  "classify_audit_severity action0 outcome0 =
     (let action = to_lower (trim_space action0); outcome = to_lower (trim_space outcome0) in
      if outcome = ''failure'' then ''high''
      else if outcome = ''denied'' then ''medium''
      else if any_part action [''delete'', ''clear-secret'', ''repin'', ''logout-all''] then ''medium''
      else if any_part action [''create'', ''update'', ''restore'', ''durability'', ''tagging''] then ''low''
      else ''info'')"

section \<open>Records and listings\<close>

record audit_entry =
  en_actor :: string
  en_action :: string
  en_resource :: string
  en_outcome :: string
  en_request :: string
  en_detail :: json

record audit_filter =
  fi_actor :: string
  fi_action :: string
  fi_outcome :: string
  fi_category :: string
  fi_severity :: string
  fi_query :: string
  fi_limit :: int

record audit_view =
  aw_actor :: string
  aw_action :: string
  aw_resource :: string
  aw_outcome :: string
  aw_category :: string
  aw_severity :: string
  aw_request :: string
  aw_detail :: json
  aw_created :: int

definition record_audit :: "audit_entry \<Rightarrow> unit prog" where
  "record_audit entry =
     exec (\<lambda>t d. Inr ((), d\<lparr>t_audit := t_audit d @
       [\<lparr>au_actor = en_actor entry, au_action = en_action entry, au_resource = en_resource entry,
         au_outcome = en_outcome entry, au_request = en_request entry, au_detail = en_detail entry,
         au_created = t\<rparr>]\<rparr>))"

text \<open>\<open>ILIKE '%' || p || '%'\<close>\<close>

definition ilike_part :: "string \<Rightarrow> string \<Rightarrow> bool" where
  "ilike_part p s = like (to_lower (''%'' @ p @ ''%'')) (to_lower s)"

definition audit_matches :: "(json \<Rightarrow> string) \<Rightarrow> audit_filter \<Rightarrow> audit_row \<Rightarrow> bool" where
  "audit_matches json_text f r \<longleftrightarrow>
     (fi_actor f = [] \<or> ilike_part (fi_actor f) (au_actor r)) \<and>
     (fi_action f = [] \<or> ilike_part (fi_action f) (au_action r)) \<and>
     (fi_outcome f = [] \<or> au_outcome r = fi_outcome f) \<and>
     (fi_query f = [] \<or> ilike_part (fi_query f) (au_resource r) \<or> ilike_part (fi_query f) (au_request r) \<or>
        ilike_part (fi_query f) (json_text (au_detail r)))"

text \<open>A detail that is not an object is listed as an empty one.\<close>

definition detail_members :: "json \<Rightarrow> (string \<times> json) list" where
  "detail_members d = (case d of JObj ms \<Rightarrow> ms | _ \<Rightarrow> [])"

definition audit_view_of :: "audit_row \<Rightarrow> audit_view" where
  "audit_view_of r = \<lparr>aw_actor = au_actor r, aw_action = au_action r, aw_resource = au_resource r,
     aw_outcome = au_outcome r, aw_category = classify_audit_category (au_action r),
     aw_severity = classify_audit_severity (au_action r) (au_outcome r), aw_request = au_request r,
     aw_detail = sanitize_audit_value (JObj (detail_members (au_detail r))), aw_created = au_created r\<rparr>"

text \<open>Category and severity are filtered after the limit, as in the code.\<close>

definition list_audit :: "(json \<Rightarrow> string) \<Rightarrow> audit_filter \<Rightarrow> audit_view list prog" where
  "list_audit json_text f =
     (let limit = (if fi_limit f \<le> 0 \<or> fi_limit f > 500 then 100 else fi_limit f) in
      query (\<lambda>d. Inr (filter (\<lambda>v.
          (fi_category f = [] \<or> equal_fold (fi_category f) (aw_category v)) \<and>
          (fi_severity f = [] \<or> equal_fold (fi_severity f) (aw_severity v)))
        (map audit_view_of (take (nat limit)
          (sort_key (\<lambda>r. - au_created r) (filter (audit_matches json_text f) (t_audit d))))))))"

section \<open>No secret is listed\<close>

fun redacted :: "json \<Rightarrow> bool" where
  "redacted (JObj ms) = list_all (\<lambda>(key, item).
     if is_sensitive_audit_key key then item = JStr ''[redacted]'' else redacted item) ms"
| "redacted (JArr items) = list_all redacted items"
| "redacted _ = True"

lemma redacted_sanitize: "redacted (sanitize_audit_value v)"
  by (induction v rule: sanitize_audit_value.induct) (auto simp: list_all_iff)

lemma sanitize_redacted: "redacted v \<Longrightarrow> sanitize_audit_value v = v"
  by (induction v rule: sanitize_audit_value.induct) (auto simp: list_all_iff intro!: map_idI)

text \<open>
  C32: nothing but the redaction mark stands under a sensitive key in what the audit listing
  returns, at any depth of objects and arrays; a detail without such keys is returned as it is,
  every entry is one of the log, and there are at most 500.
\<close>

theorem audit_listing_redacted:
  assumes "list_audit json_text f w = (Inr vs, w')" "v \<in> set vs"
  shows "redacted (aw_detail v) \<and> length vs \<le> 500 \<and>
    (\<exists>r \<in> set (t_audit (db w)). v = audit_view_of r \<and> (redacted (JObj (detail_members (au_detail r))) \<longrightarrow>
       aw_detail v = JObj (detail_members (au_detail r))))"
proof -
  let ?l = "if fi_limit f \<le> 0 \<or> fi_limit f > 500 then 100 else fi_limit f"
  let ?rows = "take (nat ?l) (sort_key (\<lambda>r. - au_created r) (filter (audit_matches json_text f) (t_audit (db w))))"
  obtain p where vs: "vs = filter p (map audit_view_of ?rows)"
    using assms(1) by (auto simp: list_audit_def Let_def dest!: query_step)
  have "length vs \<le> 500" unfolding vs by (rule order_trans [OF length_filter_le]) (simp add: min.coboundedI2, auto)
  moreover obtain r where "r \<in> set ?rows" "v = audit_view_of r" using assms(2) vs by auto
  then have "r \<in> set (t_audit (db w))" "v = audit_view_of r" by (auto dest: in_set_takeD)
  ultimately show ?thesis
    using redacted_sanitize [of "JObj (detail_members (au_detail r))"] sanitize_redacted [of "JObj (detail_members (au_detail r))"]
    by (auto simp: audit_view_of_def simp del: sanitize_audit_value.simps redacted.simps)
qed

definition example_audit_row :: audit_row where
  "example_audit_row = \<lparr>au_actor = ''a'', au_action = ''auth.login'', au_resource = ''r'', au_outcome = ''success'',
     au_request = [], au_detail = JObj [(''n'', JArr [JObj [('' API Token'', JStr ''t'')]])], au_created = 0\<rparr>"

theorem audit_listing_redacted_witness:
  "let f = \<lparr>fi_actor = [], fi_action = [], fi_outcome = [], fi_category = [], fi_severity = [], fi_query = [], fi_limit = 0\<rparr>;
       v = audit_view_of example_audit_row in
   list_audit (\<lambda>_. []) f (calm_world (empty_db\<lparr>t_audit := [example_audit_row]\<rparr>)) =
     (Inr [v], calm_world (empty_db\<lparr>t_audit := [example_audit_row]\<rparr>)) \<and>
   redacted (aw_detail v) \<and> aw_detail v = JObj [(''n'', JArr [JObj [('' API Token'', JStr ''[redacted]'')]])]"
proof -
  let ?f = "\<lparr>fi_actor = [], fi_action = [], fi_outcome = [], fi_category = [], fi_severity = [], fi_query = [], fi_limit = 0\<rparr>"
  let ?v = "audit_view_of example_audit_row"
  let ?w = "calm_world (empty_db\<lparr>t_audit := [example_audit_row]\<rparr>)"
  have l: "list_audit (\<lambda>_. []) ?f ?w = (Inr [?v], ?w)"
    by (simp add: list_audit_def query_def audit_matches_def)
  have "is_sensitive_audit_key '' API Token''" "\<not> is_sensitive_audit_key ''n''" by code_simp+
  then have "aw_detail ?v = JObj [(''n'', JArr [JObj [('' API Token'', JStr ''[redacted]'')]])]"
    by (simp add: audit_view_of_def example_audit_row_def detail_members_def)
  then show ?thesis using audit_listing_redacted [OF l, of ?v] l by (simp only: Let_def) simp
qed

end
