(* ===== verification/Events.thy ===== *)
theory Events
  imports Accounts AuditLog
begin

text \<open>
  Events: \<open>backend/internal/events\<close>. An event becomes one delivery per matching target; the
  worker claims deliveries that are due, posts each to its target and records the outcome. The
  webhook that answers a post, the text PostgreSQL keeps of a payload and the messages of errors
  are parameters. A row of \<open>t_deliveries\<close> goes through the states \<open>pending\<close>, \<open>running\<close>,
  \<open>retrying\<close>, \<open>delivered\<close> and \<open>dead_letter\<close>.
\<close>

section \<open>Targets\<close>

fun keep_new :: "string list \<Rightarrow> string list \<Rightarrow> string list" where
  "keep_new seen [] = []"
| "keep_new seen (item # items) =
     (let trimmed = trim_space item in
      if trimmed = [] \<or> List.member seen trimmed then keep_new seen items
      else trimmed # keep_new (trimmed # seen) items)"

definition normalize_event_types :: "string list \<Rightarrow> string list" where
  "normalize_event_types items =
     (if items = [] then [''*'']
      else let out = keep_new [] items in if out = [] then [''*''] else out)"

definition matches_event_type :: "string list \<Rightarrow> string \<Rightarrow> bool" where
  "matches_event_type items event_type = list_ex (\<lambda>i. i = ''*'' \<or> i = event_type) items"

record target_view =
  tv_id :: string
  tv_name :: string
  tv_type :: string
  tv_url :: string
  tv_events :: "string list"
  tv_enabled :: bool
  tv_created :: int

definition target_view_of :: "target_row \<Rightarrow> target_view" where
  "target_view_of r = \<lparr>tv_id = et_id r, tv_name = et_name r, tv_type = et_type r, tv_url = et_url r,
     tv_events = et_events r, tv_enabled = et_enabled r, tv_created = et_created r\<rparr>"

definition create_target :: "ext \<Rightarrow> string \<Rightarrow> string \<Rightarrow> string \<Rightarrow> string list \<Rightarrow> target_view prog" where
  "create_target E name endpoint_url signing_secret event_types =
     bnd (if signing_secret = [] then ret [] else seal_string E signing_secret) (\<lambda>cipher.
     bnd (new_uuid E) (\<lambda>i.
     bnd (exec (\<lambda>t d.
        if list_ex (\<lambda>r. et_id r = i) (t_targets d) then Inl PgUniqueViolation
        else let row = \<lparr>et_id = i, et_name = name, et_type = ''webhook'', et_url = endpoint_url, et_cipher = cipher,
               et_events = normalize_event_types event_types, et_enabled = True, et_created = t\<rparr> in
             Inr (row, d\<lparr>t_targets := t_targets d @ [row]\<rparr>))) (\<lambda>row.
     ret (target_view_of row))))"

definition list_targets :: "target_view list prog" where
  "list_targets = query (\<lambda>d. Inr (map target_view_of (sort_key (\<lambda>r. - et_created r) (t_targets d))))"

definition find_target :: "database \<Rightarrow> string \<Rightarrow> target_row option" where
  "find_target d i = find (\<lambda>t. et_id t = i) (t_targets d)"

section \<open>Deliveries\<close>

record delivery_filters =
  df_status :: string
  df_target :: string
  df_event :: string
  df_limit :: int

definition list_deliveries :: "ext \<Rightarrow> delivery_filters \<Rightarrow> (delivery_row \<times> string) list prog" where
  "list_deliveries E f =
     (let limit = (if df_limit f \<le> 0 \<or> df_limit f > 200 then 100 else df_limit f) in
      bnd (cast_optional_uuid E (df_target f)) (\<lambda>target. query (\<lambda>d. Inr (take (nat limit)
        (sort_key (\<lambda>(r, _). - dl_created r)
          (List.map_filter (\<lambda>r.
             if (df_status f = [] \<or> dl_status r = df_status f) \<and>
                (case target of None \<Rightarrow> True | Some u \<Rightarrow> dl_target r = u) \<and>
                (df_event f = [] \<or> dl_event r = df_event f)
             then map_option (\<lambda>t. (r, et_name t)) (find_target d (dl_target r)) else None) (t_deliveries d)))))))"

definition matching_targets :: "string \<Rightarrow> string list prog" where
  "matching_targets event_type =
     query (\<lambda>d. Inr (map et_id (filter (\<lambda>t. et_enabled t \<and> matches_event_type (et_events t) event_type) (t_targets d))))"

definition insert_delivery :: "ext \<Rightarrow> string \<Rightarrow> json \<Rightarrow> string \<Rightarrow> unit prog" where
  "insert_delivery E event_type payload target =
     bnd (new_uuid E) (\<lambda>i. exec (\<lambda>t d.
       if find_target d target = None then Inl PgForeignKeyViolation
       else if list_ex (\<lambda>r. dl_id r = i) (t_deliveries d) then Inl PgUniqueViolation
       else Inr ((), d\<lparr>t_deliveries := t_deliveries d @
         [\<lparr>dl_id = i, dl_target = target, dl_event = event_type, dl_payload = payload, dl_status = ''pending'',
           dl_attempts = 0, dl_next = t, dl_error = [], dl_code = None, dl_created = t, dl_updated = t\<rparr>]\<rparr>)))"

definition emit :: "ext \<Rightarrow> string \<Rightarrow> json \<Rightarrow> unit prog" where
  "emit E event_type payload =
     bnd (matching_targets event_type) (\<lambda>targets.
       if targets = [] then ret () else for_each (insert_delivery E event_type payload) targets)"

record delivery_job =
  dj_id :: string
  dj_target :: string
  dj_name :: string
  dj_url :: string
  dj_cipher :: string
  dj_event :: string
  dj_payload :: json
  dj_attempts :: int

definition update_delivery :: "string \<Rightarrow> (delivery_row \<Rightarrow> delivery_row) \<Rightarrow> database \<Rightarrow> database" where
  "update_delivery i f d = d\<lparr>t_deliveries := map (\<lambda>r. if dl_id r = i then f r else r) (t_deliveries d)\<rparr>"

definition claimable :: "database \<Rightarrow> int \<Rightarrow> delivery_row \<Rightarrow> bool" where
  "claimable d t r \<longleftrightarrow> dl_status r \<in> {''pending'', ''retrying''} \<and> dl_next r \<le> t \<and>
     (case find_target d (dl_target r) of None \<Rightarrow> False | Some g \<Rightarrow> et_enabled g)"

definition claim_next_delivery :: "delivery_job prog" where
  "claim_next_delivery = transaction (\<lambda>t. exec (\<lambda>_ d.
     case sort_key (\<lambda>r. (dl_next r, dl_created r)) (filter (claimable d t) (t_deliveries d)) of
       [] \<Rightarrow> Inl PgNoRows
     | r # _ \<Rightarrow> (case find_target d (dl_target r) of
           None \<Rightarrow> Inl PgNoRows
         | Some g \<Rightarrow> Inr (\<lparr>dj_id = dl_id r, dj_target = dl_target r, dj_name = et_name g, dj_url = et_url g,
             dj_cipher = et_cipher g, dj_event = dl_event r, dj_payload = dl_payload r, dj_attempts = dl_attempts r\<rparr>,
             update_delivery (dl_id r) (\<lambda>r. r\<lparr>dl_status := ''running'', dl_updated := t\<rparr>) d))))"

record hook_request =
  hq_url :: string
  hq_event :: string
  hq_delivery :: string
  hq_signature :: "string option"
  hq_body :: bytes

type_synonym webhook = "hook_request \<Rightarrow> int \<Rightarrow> err + int"

definition sign_payload :: "ext \<Rightarrow> string \<Rightarrow> bytes \<Rightarrow> string" where
  "sign_payload E secret payload = hex_encode (hmac_sha256 E secret payload)"

definition mark_failure :: "(err \<Rightarrow> string) \<Rightarrow> delivery_job \<Rightarrow> int \<Rightarrow> err \<Rightarrow> unit prog" where
  "mark_failure message item status_code e =
     bnd now (\<lambda>t0.
     let next_attempts = dj_attempts item + 1;
         dead_letter = next_attempts \<ge> 5;
         status = (if dead_letter then ''dead_letter'' else ''retrying'');
         next_run = (if dead_letter then t0 else t0 + next_attempts * 15 * 1000000000) in
     bnd (exec (\<lambda>t d. Inr ((), update_delivery (dj_id item) (\<lambda>r. r\<lparr>dl_status := status, dl_attempts := dl_attempts r + 1,
            dl_next := next_run, dl_error := message e, dl_code := (if status_code = 0 then None else Some status_code),
            dl_updated := t\<rparr>) d))) (\<lambda>_.
     record_audit \<lparr>en_actor = ''worker'', en_action = ''event.delivery.failure'', en_resource = dj_name item,
       en_outcome = (if dead_letter then ''dead_letter'' else ''failure''), en_request = [],
       en_detail = JObj [(''deliveryId'', JStr (dj_id item)), (''eventType'', JStr (dj_event item)),
         (''error'', JStr (message e)), (''statusCode'', JNum status_code), (''attempts'', JNum next_attempts)]\<rparr>))"

definition deliver_one ::
    "ext \<Rightarrow> webhook \<Rightarrow> (json \<Rightarrow> string) \<Rightarrow> (err \<Rightarrow> string) \<Rightarrow> delivery_job \<Rightarrow> unit prog" where
  "deliver_one E H json_text message item =
     (let payload = json_text (dj_payload item);
          post = (\<lambda>signature. bnd (attempt (external (\<lambda>w. (H \<lparr>hq_url = dj_url item, hq_event = dj_event item,
              hq_delivery = dj_id item, hq_signature = signature, hq_body = payload\<rparr> (clock w), w)))) (\<lambda>resp. case resp of
            Inl e \<Rightarrow> mark_failure message item 0 e
          | Inr code \<Rightarrow>
              if 200 \<le> code \<and> code < 300 then
                bnd (exec (\<lambda>t d. Inr ((), update_delivery (dj_id item) (\<lambda>r. r\<lparr>dl_status := ''delivered'',
                       dl_attempts := dl_attempts r + 1, dl_error := [], dl_code := Some code, dl_updated := t\<rparr>) d))) (\<lambda>_.
                record_audit \<lparr>en_actor = ''worker'', en_action = ''event.delivery.success'', en_resource = dj_name item,
                  en_outcome = ''success'', en_request = [],
                  en_detail = JObj [(''deliveryId'', JStr (dj_id item)), (''eventType'', JStr (dj_event item)),
                    (''statusCode'', JNum code)]\<rparr>)
              else mark_failure message item code (Failure ''unexpected status''))) in
      if dj_cipher item = [] then post None
      else (case open_string E (dj_cipher item) of
          Inl e \<Rightarrow> mark_failure message item 0 e
        | Inr secret \<Rightarrow> post (Some (sign_payload E secret payload))))"

text \<open>At most \<open>limit\<close> rounds; the loop also ends when nothing is due.\<close>

fun deliver_rounds ::
    "ext \<Rightarrow> webhook \<Rightarrow> (json \<Rightarrow> string) \<Rightarrow> (err \<Rightarrow> string) \<Rightarrow> int \<Rightarrow> nat \<Rightarrow> (int \<times> err option) prog" where
  "deliver_rounds E H json_text message delivered 0 = ret (delivered, None)"
| "deliver_rounds E H json_text message delivered (Suc n) =
     bnd (attempt claim_next_delivery) (\<lambda>claimed. case claimed of
        Inl e \<Rightarrow> ret (delivered, if e = PgNoRows then None else Some e)
      | Inr job \<Rightarrow> bnd (attempt (deliver_one E H json_text message job)) (\<lambda>r. case r of
            Inl e \<Rightarrow> ret (delivered, Some e)
          | Inr _ \<Rightarrow> deliver_rounds E H json_text message (delivered + 1) n))"

definition deliver_pending ::
    "ext \<Rightarrow> webhook \<Rightarrow> (json \<Rightarrow> string) \<Rightarrow> (err \<Rightarrow> string) \<Rightarrow> int \<Rightarrow> (int \<times> err option) prog" where
  "deliver_pending E H json_text message limit =
     deliver_rounds E H json_text message 0 (nat (if limit \<le> 0 then 10 else limit))"

section \<open>Invariants of the deliveries\<close>

abbreviation rows_sat :: "(delivery_row list \<Rightarrow> bool) \<Rightarrow> world \<Rightarrow> bool" where
  "rows_sat P w \<equiv> P (t_deliveries (db w))"

lemma stable_rows: "stable (rows_sat P)"
  by (rule stable_db)

lemma rows_other: "(\<And>t d x d'. q t d = Inr (x, d') \<Longrightarrow> t_deliveries d' = t_deliveries d) \<Longrightarrow> keeps_inv (rows_sat P) (exec q)"
  by (rule keeps_exec [OF stable_rows]) simp

lemma rows_audit [keeps]: "keeps_inv (rows_sat P) (record_audit e)"
  unfolding record_audit_def by (rule rows_other) auto

lemma rows_query [keeps]: "keeps_inv (rows_sat P) (query q)" "keeps_inv (rows_sat P) (new_uuid E)"
    "keeps_inv (rows_sat P) (random_bytes E n)"
  by (intro keeps stable_rows)+

lemma rows_post [keeps]: "keeps_inv (rows_sat P) (external (\<lambda>w. (f (clock w), w)))"
  by (rule keeps_external [OF stable_rows]) (simp add: keeps_inv_def)

lemma rows_create [keeps]: "keeps_inv (rows_sat P) (create_target E name url secret types)"
  unfolding create_target_def seal_string_def
  by (intro keeps rows_other) (auto simp: Let_def split: if_splits)

text \<open>What a delivery leaves, by the outcomes it can record.\<close>

definition recorded :: "delivery_job \<Rightarrow> (delivery_row \<Rightarrow> delivery_row) \<Rightarrow> bool" where
  "recorded job f \<longleftrightarrow> (\<forall>r. dl_id (f r) = dl_id r \<and> dl_attempts (f r) = dl_attempts r + 1 \<and>
     (dl_status (f r) = ''delivered'' \<or>
      dl_status (f r) = (if dj_attempts job + 1 \<ge> 5 then ''dead_letter'' else ''retrying'')))"

definition closes :: "(delivery_row list \<Rightarrow> bool) \<Rightarrow> delivery_job \<Rightarrow> (delivery_row list \<Rightarrow> bool) \<Rightarrow> bool" where
  "closes P job Q \<longleftrightarrow> (\<forall>rows. P rows \<longrightarrow> Q rows) \<and>
     (\<forall>f rows. recorded job f \<longrightarrow> P rows \<longrightarrow> Q (map (\<lambda>r. if dl_id r = dj_id job then f r else r) rows))"

lemma closes_exec:
  assumes "closes P job Q" "\<And>t. recorded job (f t)"
  shows "triple (rows_sat P) (exec (\<lambda>t d. Inr ((), update_delivery (dj_id job) (f t) d))) (\<lambda>_. rows_sat Q) (rows_sat Q)"
  by (rule triple_exec [OF stable_rows]) (use assms in \<open>auto simp: closes_def update_delivery_def\<close>)

lemma rows_audit_triple: "triple (rows_sat Q) (record_audit e) (\<lambda>_. rows_sat Q) (rows_sat Q)"
  by (rule triple_of_keeps) (auto intro: keeps)

lemma closes_failure:
  assumes "closes P job Q"
  shows "triple (rows_sat P) (mark_failure message job code e) (\<lambda>_. rows_sat Q) (rows_sat Q)"
  unfolding mark_failure_def Let_def
  by (intro triple_bnd [OF triple_of_keeps [OF keeps_now]] triple_bnd [OF closes_exec [OF assms]] rows_audit_triple)
     (use assms in \<open>auto simp: closes_def recorded_def\<close>)

lemma closes_post:
  assumes "closes P job Q" "\<And>r. triple (rows_sat P) (f r) (\<lambda>_. rows_sat Q) (rows_sat Q)"
  shows "triple (rows_sat P) (bnd (attempt (external (\<lambda>w. (h (clock w), w)))) f) (\<lambda>_. rows_sat Q) (rows_sat Q)"
  by (rule triple_bnd [OF triple_of_keeps [where I = "rows_sat P"] assms(2)])
     (use assms(1) in \<open>auto intro: keeps simp: closes_def\<close>)

lemma closes_deliver:
  assumes "closes P job Q"
  shows "triple (rows_sat P) (deliver_one E H json_text message job) (\<lambda>_. rows_sat Q) (rows_sat Q)"
proof -
  have ok: "triple (rows_sat P) (bnd (exec (\<lambda>t d. Inr ((), update_delivery (dj_id job) (\<lambda>r. r\<lparr>dl_status := ''delivered'',
      dl_attempts := dl_attempts r + 1, dl_error := [], dl_code := Some code, dl_updated := t\<rparr>) d))) (\<lambda>_. record_audit e))
      (\<lambda>_. rows_sat Q) (rows_sat Q)" for code e
    by (intro triple_bnd [OF closes_exec [OF assms]] rows_audit_triple) (simp add: recorded_def)
  show ?thesis
    unfolding deliver_one_def Let_def
    by (intro triple_if triple_sum closes_post [OF assms] closes_failure [OF assms] ok)
qed

text \<open>A claim hands out a row that was due and marks it as running.\<close>

definition claims_from :: "(delivery_row list \<Rightarrow> bool) \<Rightarrow> (delivery_job \<Rightarrow> delivery_row list \<Rightarrow> bool) \<Rightarrow> bool" where
  "claims_from P Q \<longleftrightarrow> (\<forall>rows r job t. P rows \<longrightarrow> r \<in> set rows \<longrightarrow> dl_status r \<in> {''pending'', ''retrying''} \<longrightarrow>
     dj_id job = dl_id r \<longrightarrow> dj_attempts job = dl_attempts r \<longrightarrow>
     Q job (map (\<lambda>s. if dl_id s = dl_id r then s\<lparr>dl_status := ''running'', dl_updated := t\<rparr> else s) rows))"

lemma triple_claim:
  assumes "claims_from P Q" "\<And>job. closes (Q job) job P"
  shows "triple (rows_sat P) claim_next_delivery (\<lambda>job. rows_sat (Q job)) (rows_sat P)"
  unfolding claim_next_delivery_def
proof (rule triple_transaction [OF stable_rows, where Y = "\<lambda>_. True"])
  fix t
  show "triple (rows_sat P) (exec (\<lambda>_ d. case sort_key (\<lambda>r. (dl_next r, dl_created r)) (filter (claimable d t) (t_deliveries d)) of
       [] \<Rightarrow> Inl PgNoRows
     | r # _ \<Rightarrow> (case find_target d (dl_target r) of
           None \<Rightarrow> Inl PgNoRows
         | Some g \<Rightarrow> Inr (\<lparr>dj_id = dl_id r, dj_target = dl_target r, dj_name = et_name g, dj_url = et_url g,
             dj_cipher = et_cipher g, dj_event = dl_event r, dj_payload = dl_payload r, dj_attempts = dl_attempts r\<rparr>,
             update_delivery (dl_id r) (\<lambda>r. r\<lparr>dl_status := ''running'', dl_updated := t\<rparr>) d)))) (\<lambda>job. rows_sat (Q job)) (\<lambda>_. True)"
  proof (rule triple_exec [OF stable_rows])
    fix w x d
    assume P: "rows_sat P w" and q: "(case sort_key (\<lambda>r. (dl_next r, dl_created r)) (filter (claimable (db w) t) (t_deliveries (db w))) of
       [] \<Rightarrow> Inl PgNoRows
     | r # _ \<Rightarrow> (case find_target (db w) (dl_target r) of
           None \<Rightarrow> Inl PgNoRows
         | Some g \<Rightarrow> Inr (\<lparr>dj_id = dl_id r, dj_target = dl_target r, dj_name = et_name g, dj_url = et_url g,
             dj_cipher = et_cipher g, dj_event = dl_event r, dj_payload = dl_payload r, dj_attempts = dl_attempts r\<rparr>,
             update_delivery (dl_id r) (\<lambda>r. r\<lparr>dl_status := ''running'', dl_updated := t\<rparr>) (db w)))) = Inr (x, d)"
    then obtain r rs g where r: "sort_key (\<lambda>r. (dl_next r, dl_created r)) (filter (claimable (db w) t) (t_deliveries (db w))) = r # rs"
      and x: "dj_id x = dl_id r" "dj_attempts x = dl_attempts r"
      and d: "d = update_delivery (dl_id r) (\<lambda>r. r\<lparr>dl_status := ''running'', dl_updated := t\<rparr>) (db w)"
      by (auto split: list.splits option.splits)
    have "r \<in> set (filter (claimable (db w) t) (t_deliveries (db w)))"
      by (subst set_sort [symmetric, where f = "\<lambda>r. (dl_next r, dl_created r)"]) (simp add: r)
    then have "r \<in> set (t_deliveries (db w))" "dl_status r \<in> {''pending'', ''retrying''}" by (auto simp: claimable_def)
    then show "rows_sat (Q x) (w\<lparr>db := d\<rparr>) \<and> True"
      using assms(1) P x unfolding claims_from_def d update_delivery_def by auto
  qed simp
qed (use assms(2) in \<open>auto intro: keeps stable_rows simp: closes_def\<close>)

lemma rows_rounds:
  assumes "claims_from P Q" "\<And>job. closes (Q job) job P"
  shows "keeps_inv (rows_sat P) (deliver_rounds E H json_text message k n)"
proof (induction n arbitrary: k)
  case (Suc n)
  have claim: "triple (rows_sat P) (attempt claim_next_delivery)
      (\<lambda>r. rows_sat (case r of Inl _ \<Rightarrow> P | Inr job \<Rightarrow> Q job)) (rows_sat P)"
    by (rule triple_attempt_both) (use triple_claim [OF assms] in simp)
  have deliver: "triple (rows_sat (Q job)) (attempt (deliver_one E H json_text message job)) (\<lambda>_. rows_sat P) (rows_sat P)" for job
    by (rule triple_attempt_both) (use closes_deliver [OF assms(2)] in \<open>auto elim: triple_weaken\<close>)
  have "triple (rows_sat P) (deliver_rounds E H json_text message k (Suc n)) (\<lambda>_. rows_sat P) (rows_sat P)"
    unfolding deliver_rounds.simps
  proof (rule triple_bnd [OF claim])
    fix claimed :: "err + delivery_job"
    show "triple (rows_sat (case claimed of Inl _ \<Rightarrow> P | Inr job \<Rightarrow> Q job)) (case claimed of
        Inl e \<Rightarrow> ret (k, if e = PgNoRows then None else Some e)
      | Inr job \<Rightarrow> bnd (attempt (deliver_one E H json_text message job)) (\<lambda>r. case r of
            Inl e \<Rightarrow> ret (k, Some e)
          | Inr _ \<Rightarrow> deliver_rounds E H json_text message (k + 1) n)) (\<lambda>_. rows_sat P) (rows_sat P)"
    proof (cases claimed)
      case (Inr job)
      have "triple (rows_sat P) (case r of Inl e \<Rightarrow> ret (k, Some e) | Inr _ \<Rightarrow> deliver_rounds E H json_text message (k + 1) n)
          (\<lambda>_. rows_sat P) (rows_sat P)" for r :: "err + unit"
        using Suc.IH by (cases r) (auto intro: triple_ret simp: keeps_inv_triple)
      from triple_bnd [OF deliver this] show ?thesis unfolding Inr sum.case .
    qed (simp add: triple_ret)
  qed
  then show ?case by (simp add: keeps_inv_triple)
qed (simp add: keeps_ret)

section \<open>Calls\<close>

datatype event_call =
    Emit string json
  | CreateTarget string string string "string list"
  | DeliverPending int

fun event_step :: "ext \<Rightarrow> webhook \<Rightarrow> (json \<Rightarrow> string) \<Rightarrow> (err \<Rightarrow> string) \<Rightarrow> event_call \<Rightarrow> unit prog" where
  "event_step E H json_text message (Emit ty p) = ignore_error (emit E ty p)"
| "event_step E H json_text message (CreateTarget n u s ts) = ignore_error (create_target E n u s ts)"
| "event_step E H json_text message (DeliverPending limit) = ignore_error (deliver_pending E H json_text message limit)"

definition grows :: "(delivery_row list \<Rightarrow> bool) \<Rightarrow> bool" where
  "grows P \<longleftrightarrow> (\<forall>rows r. P rows \<longrightarrow> dl_id r \<notin> dl_id ` set rows \<longrightarrow> dl_status r = ''pending'' \<longrightarrow> dl_attempts r = 0 \<longrightarrow>
     P (rows @ [r]))"

lemma rows_emit: "grows P \<Longrightarrow> keeps_inv (rows_sat P) (emit E ty p)"
  unfolding emit_def insert_delivery_def matching_targets_def
proof (intro keeps stable_rows keeps_exec [OF stable_rows])
  fix i target w x d
  assume g: "grows P" and P: "rows_sat P w"
    and q: "(if find_target (db w) target = None then Inl PgForeignKeyViolation
       else if list_ex (\<lambda>r. dl_id r = i) (t_deliveries (db w)) then Inl PgUniqueViolation
       else Inr ((), (db w)\<lparr>t_deliveries := t_deliveries (db w) @
         [\<lparr>dl_id = i, dl_target = target, dl_event = ty, dl_payload = p, dl_status = ''pending'',
           dl_attempts = 0, dl_next = clock w, dl_error = [], dl_code = None, dl_created = clock w, dl_updated = clock w\<rparr>]\<rparr>)) = Inr (x, d)"
  then have "i \<notin> dl_id ` set (t_deliveries (db w))" by (auto simp: list_ex_iff split: if_splits)
  with g P q show "rows_sat P (w\<lparr>db := d\<rparr>)" unfolding grows_def by (auto split: if_splits)
qed

lemma rows_step:
  assumes "grows P" "claims_from P Q" "\<And>job. closes (Q job) job P"
  shows "keeps_inv (rows_sat P) (event_step E H json_text message c)"
  by (cases c) (auto intro!: keeps_ignore rows_emit rows_rounds [OF assms(2,3)] rows_create simp: deliver_pending_def assms(1))

lemma rows_run:
  assumes "grows P" "claims_from P Q" "\<And>job. closes (Q job) job P" "rows_sat P w"
  shows "rows_sat P (snd (for_each (event_step E H json_text message) calls w))"
  using keeps_for_each [of "rows_sat P" "event_step E H json_text message" calls] rows_step [OF assms(1-3)] assms(4)
  by (simp add: keeps_inv_def)

section \<open>Attempts are bounded\<close>

definition delivery_ok :: "delivery_row \<Rightarrow> bool" where
  "delivery_ok r \<longleftrightarrow> 0 \<le> dl_attempts r \<and>
     (dl_status r \<in> {''pending'', ''retrying'', ''running''} \<and> dl_attempts r < 5 \<or>
      dl_status r = ''delivered'' \<and> dl_attempts r \<le> 5 \<or>
      dl_status r = ''dead_letter'' \<and> dl_attempts r = 5)"

definition deliveries_ok :: "delivery_row list \<Rightarrow> bool" where
  "deliveries_ok rows \<longleftrightarrow> distinct (map dl_id rows) \<and> (\<forall>r \<in> set rows. delivery_ok r)"

definition running_job :: "delivery_job \<Rightarrow> delivery_row list \<Rightarrow> bool" where
  "running_job job rows \<longleftrightarrow> deliveries_ok rows \<and>
     (\<forall>r \<in> set rows. dl_id r = dj_id job \<longrightarrow> dl_status r = ''running'' \<and> dl_attempts r = dj_attempts job)"

lemma grows_ok: "grows deliveries_ok"
  by (auto simp: grows_def deliveries_ok_def delivery_ok_def)

lemma map_same_ids: "(\<And>r. dl_id (f r) = dl_id r) \<Longrightarrow> map dl_id (map (\<lambda>r. if b r then f r else r) rows) = map dl_id rows"
  by simp

lemma claims_ok: "claims_from deliveries_ok running_job"
  unfolding claims_from_def
proof (intro allI impI)
  fix rows :: "delivery_row list" and r t and job :: delivery_job
  assume rows: "deliveries_ok rows" "r \<in> set rows" and st: "dl_status r \<in> {''pending'', ''retrying''}"
    and job: "dj_id job = dl_id r" "dj_attempts job = dl_attempts r"
  have one: "s = r" if "s \<in> set rows" "dl_id s = dl_id r" for s
    using distinct_map_unique [of dl_id rows s r] rows that by (auto simp: deliveries_ok_def)
  have "delivery_ok r" using rows by (auto simp: deliveries_ok_def)
  then have ok: "delivery_ok (r\<lparr>dl_status := ''running'', dl_updated := t\<rparr>)" using st by (auto simp: delivery_ok_def)
  have ids: "map dl_id (map (\<lambda>s. if dl_id s = dl_id r then s\<lparr>dl_status := ''running'', dl_updated := t\<rparr> else s) rows) = map dl_id rows"
    by (rule map_same_ids) simp
  show "running_job job (map (\<lambda>s. if dl_id s = dl_id r then s\<lparr>dl_status := ''running'', dl_updated := t\<rparr> else s) rows)"
    using rows ok job unfolding running_job_def deliveries_ok_def ids by (auto dest: one)
qed

lemma closes_ok: "closes (running_job job) job deliveries_ok"
  unfolding closes_def
proof (intro conjI allI impI)
  fix rows assume "running_job job rows"
  then show "deliveries_ok rows" by (simp add: running_job_def)
next
  fix f rows assume f: "recorded job f" and j: "running_job job rows"
  have ids: "map dl_id (map (\<lambda>r. if dl_id r = dj_id job then f r else r) rows) = map dl_id rows"
    by (rule map_same_ids) (use f in \<open>simp add: recorded_def\<close>)
  have "delivery_ok (f r)" if "r \<in> set rows" "dl_id r = dj_id job" for r
  proof -
    have "delivery_ok r" "dl_status r = ''running''" "dl_attempts r = dj_attempts job"
      using j that by (auto simp: running_job_def deliveries_ok_def)
    then show ?thesis using f by (auto simp: delivery_ok_def recorded_def split: if_splits)
  qed
  then show "deliveries_ok (map (\<lambda>r. if dl_id r = dj_id job then f r else r) rows)"
    using j unfolding deliveries_ok_def running_job_def ids by auto
qed

text \<open>
  C33: whatever the webhooks answer and whatever fails, no delivery is attempted more than five
  times: after every sequence of calls a delivery that is not finished has had fewer than five
  attempts, and a dead letter exactly five.
\<close>

theorem delivery_attempts_bounded:
  assumes "deliveries_ok (t_deliveries (db w))"
  shows "deliveries_ok (t_deliveries (db (snd (for_each (event_step E H json_text message) calls w))))"
  using rows_run [OF grows_ok claims_ok closes_ok assms] .

section \<open>Interrupted deliveries\<close>

text \<open>
  A delivery that was claimed and whose outcome was never recorded (the worker stopped, or
  the statement that records it failed) stays as it is: no later call claims it, posts it or
  changes its row.
\<close>

lemma interrupted_delivery_is_lost:
  assumes "distinct (map dl_id (t_deliveries (db w)))" "x \<in> set (t_deliveries (db w))" "dl_status x = ''running''"
  shows "x \<in> set (t_deliveries (db (snd (for_each (event_step E H json_text message) calls w))))"
proof -
  let ?P = "\<lambda>rows. distinct (map dl_id rows) \<and> x \<in> set rows \<and> dl_status x = ''running''"
  let ?Q = "\<lambda>job rows. ?P rows \<and> dj_id job \<noteq> dl_id x"
  have g: "grows ?P" by (auto simp: grows_def)
  have c: "claims_from ?P ?Q"
    unfolding claims_from_def
  proof (intro allI impI)
    fix rows :: "delivery_row list" and r t and job :: delivery_job
    assume P: "?P rows" and r: "r \<in> set rows" "dl_status r \<in> {''pending'', ''retrying''}" and job: "dj_id job = dl_id r"
    have ne: "dl_id r \<noteq> dl_id x" using distinct_map_unique [of dl_id rows r x] P r by auto
    have ids: "map dl_id (map (\<lambda>s. if dl_id s = dl_id r then s\<lparr>dl_status := ''running'', dl_updated := t\<rparr> else s) rows) = map dl_id rows"
      by (rule map_same_ids) simp
    show "?Q job (map (\<lambda>s. if dl_id s = dl_id r then s\<lparr>dl_status := ''running'', dl_updated := t\<rparr> else s) rows)"
      using P ne job unfolding ids by force
  qed
  have k: "closes (?Q job) job ?P" for job
    unfolding closes_def
  proof (intro conjI allI impI)
    fix f rows assume f: "recorded job f" and Q: "?Q job rows"
    have "map dl_id (map (\<lambda>r. if dl_id r = dj_id job then f r else r) rows) = map dl_id rows"
      by (rule map_same_ids) (use f in \<open>simp add: recorded_def\<close>)
    then show "distinct (map dl_id (map (\<lambda>r. if dl_id r = dj_id job then f r else r) rows))" using Q by metis
    show "x \<in> set (map (\<lambda>r. if dl_id r = dj_id job then f r else r) rows)" using Q by force
  qed auto
  show ?thesis using rows_run [OF g c k, of w] assms by blast
qed

definition example_delivery :: delivery_row where
  "example_delivery = \<lparr>dl_id = ''d'', dl_target = ''t'', dl_event = ''object.created'', dl_payload = JNull,
     dl_status = ''retrying'', dl_attempts = 4, dl_next = 0, dl_error = [], dl_code = None, dl_created = 0, dl_updated = 0\<rparr>"

definition example_event_db :: database where
  "example_event_db = empty_db\<lparr>t_deliveries := [example_delivery],
     t_targets := [\<lparr>et_id = ''t'', et_name = ''t'', et_type = ''webhook'', et_url = ''http://h'', et_cipher = [],
       et_events = [''*''], et_enabled = True, et_created = 0\<rparr>]\<rparr>"

definition refusing_hook :: webhook where
  "refusing_hook = (\<lambda>_ _. Inr 500)"

lemma example_deliver_fails:
  "t_deliveries (db (snd (event_step plain_ext refusing_hook (\<lambda>_. []) (\<lambda>_. []) (DeliverPending 1) (calm_world example_event_db)))) =
     [example_delivery\<lparr>dl_status := ''dead_letter'', dl_attempts := 5, dl_code := Some 500\<rparr>]"
  by (simp add: deliver_pending_def numeral_eq_Suc ignore_error_def attempt_def bnd_def claim_next_delivery_def transaction_def
      now_def exec_def example_event_db_def example_delivery_def claimable_def find_target_def deliver_one_def refusing_hook_def
      mark_failure_def update_delivery_def record_audit_def Let_def)

lemma for_each_one: "snd (for_each f [c] w) = snd (f c w)"
  by (simp add: bnd_def split: prod.splits sum.splits)

theorem delivery_attempts_bounded_witness:
  "deliveries_ok [example_delivery] \<and>
   deliveries_ok [example_delivery\<lparr>dl_status := ''dead_letter'', dl_attempts := 5, dl_code := Some 500\<rparr>]"
proof -
  have "deliveries_ok (t_deliveries (db (calm_world example_event_db)))"
    by (simp add: deliveries_ok_def delivery_ok_def example_event_db_def example_delivery_def)
  from delivery_attempts_bounded [OF this, of plain_ext refusing_hook "\<lambda>_. []" "\<lambda>_. []" "[DeliverPending 1]"] this
  show ?thesis by (simp only: for_each_one example_deliver_fails) (simp add: example_event_db_def)
qed

lemma example_interrupted:
  "t_deliveries (db (snd (event_step plain_ext refusing_hook (\<lambda>_. []) (\<lambda>_. []) (DeliverPending 1)
     ((calm_world example_event_db)\<lparr>script := [(Done, 0), (Done, 0), (Late, 0)]\<rparr>)))) =
     [example_delivery\<lparr>dl_status := ''running''\<rparr>]"
  by (simp add: deliver_pending_def numeral_eq_Suc ignore_error_def attempt_def bnd_def claim_next_delivery_def transaction_def
      now_def exec_def external_def example_event_db_def example_delivery_def claimable_def find_target_def
      update_delivery_def Let_def)

theorem interrupted_delivery_is_lost_witness:
  "let w = snd (event_step plain_ext refusing_hook (\<lambda>_. []) (\<lambda>_. []) (DeliverPending 1)
       ((calm_world example_event_db)\<lparr>script := [(Done, 0), (Done, 0), (Late, 0)]\<rparr>)) in
   example_delivery\<lparr>dl_status := ''running''\<rparr> \<in> set (t_deliveries (db
     (snd (for_each (event_step plain_ext refusing_hook (\<lambda>_. []) (\<lambda>_. [])) [DeliverPending 10, Emit ''e'' JNull] w))))"
  unfolding Let_def
  by (rule interrupted_delivery_is_lost) (simp_all only: example_interrupted, simp_all)

end
