(* ===== verification/Multipart.thy ===== *)
theory Multipart
  imports Objects
begin

text \<open>
  Multipart uploads: \<open>backend/internal/multipart/service.go\<close>. Parts are blobs of the active store
  with a row each; completing an upload reads the parts in the order asked for, writes one object
  through the object service and removes the parts. The XML body of a completion is modelled as
  the list of part numbers and ETags it decodes to.
\<close>

section \<open>Data\<close>

record upload =
  up_id :: string
  up_bucket :: string
  up_key :: string
  up_ctype :: string
  up_cache :: string
  up_disp :: string
  up_enc :: string
  up_meta :: smap

record part =
  pa_number :: int
  pa_etag :: string
  pa_size :: int
  pa_path :: string

record initiate_input =
  ii_key :: string
  ii_ctype :: string
  ii_cache :: string
  ii_disp :: string
  ii_enc :: string
  ii_meta :: "smap option"
  ii_by :: string

definition upload_path :: "string \<Rightarrow> string \<Rightarrow> string \<Rightarrow> int \<Rightarrow> string" where
  "upload_path tenant bucket_id upload_id part_number =
     filepath_join [''tenants'', tenant, ''buckets'', bucket_id, ''multipart'', upload_id, itoa part_number]"

definition upload_of_row :: "upload_row \<Rightarrow> upload" where
  "upload_of_row u = \<lparr>up_id = m_id u, up_bucket = m_bucket u, up_key = m_key u, up_ctype = m_ctype u,
     up_cache = m_cache u, up_disp = m_disp u, up_enc = m_enc u,
     up_meta = normalize_user_metadata (Some (m_meta u))\<rparr>"

text \<open>The store the service is given: \<open>activeStore\<close> in \<open>cmd/api/main.go\<close> and \<open>cmd/worker/main.go\<close>.\<close>

definition active_distributed :: "service_config \<Rightarrow> bool" where
  "active_distributed C \<longleftrightarrow> cf_backend C = ''distributed'' \<and> cf_distributed C"

definition active_put :: "ext \<Rightarrow> service_config \<Rightarrow> string \<Rightarrow> bytes \<Rightarrow> unit prog" where
  "active_put E C p x = (if active_distributed C then dist_put E p x else local_put E ApiHost p x)"

definition active_get :: "ext \<Rightarrow> service_config \<Rightarrow> string \<Rightarrow> bytes prog" where
  "active_get E C p = (if active_distributed C then dist_get E p else local_get E ApiHost p)"

definition active_delete :: "ext \<Rightarrow> service_config \<Rightarrow> string \<Rightarrow> unit prog" where
  "active_delete E C p = (if active_distributed C then dist_delete E p else local_delete E ApiHost p)"

section \<open>Operations\<close>

definition day :: int where
  "day = 24 * 60 * 60 * 1000000000"

definition insert_upload :: "upload_row \<Rightarrow> database \<Rightarrow> err + (upload_row \<times> database)" where
  "insert_upload row d =
     (if \<not> list_ex (\<lambda>b. b_id b = m_bucket row) (t_buckets d) \<or> \<not> owner_exists (m_by row) d
      then Inl PgForeignKeyViolation
      else if list_ex (\<lambda>u. m_id u = m_id row) (t_uploads d) then Inl PgUniqueViolation
      else Inr (row, d\<lparr>t_uploads := t_uploads d @ [row]\<rparr>))"

definition initiate :: "ext \<Rightarrow> string \<Rightarrow> initiate_input \<Rightarrow> upload prog" where
  "initiate E bucket_id input =
     bnd (cast_uuid E bucket_id) (\<lambda>b.
     bnd (cast_optional_uuid E (ii_by input)) (\<lambda>by_user.
     bnd (new_uuid E) (\<lambda>i.
     bnd (exec (\<lambda>t. insert_upload \<lparr>m_id = i, m_bucket = b, m_key = ii_key input, m_by = by_user,
            m_ctype = default_content_type (ii_ctype input), m_cache = ii_cache input,
            m_disp = ii_disp input, m_enc = ii_enc input,
            m_meta = normalize_user_metadata (ii_meta input), m_expires = t + day, m_created = t\<rparr>)) (\<lambda>row.
       ret (upload_of_row row)))))"

definition get_upload :: "ext \<Rightarrow> string \<Rightarrow> upload prog" where
  "get_upload E upload_id =
     bnd (cast_uuid E upload_id) (\<lambda>i. exec (\<lambda>t d.
       case find (\<lambda>u. m_id u = i \<and> m_expires u > t) (t_uploads d) of
         None \<Rightarrow> Inl PgNoRows | Some u \<Rightarrow> Inr (upload_of_row u, d)))"

definition upsert_part :: "part_row \<Rightarrow> database \<Rightarrow> err + (unit \<times> database)" where
  "upsert_part row d =
     (if pt_number row < - (2 ^ 31) \<or> pt_number row \<ge> 2 ^ 31 then Inl PgOutOfRange
      else if \<not> list_ex (\<lambda>u. m_id u = pt_upload row) (t_uploads d) then Inl PgForeignKeyViolation
      else let same = (\<lambda>p. pt_upload p = pt_upload row \<and> pt_number p = pt_number row) in
        Inr ((), d\<lparr>t_parts := (if list_ex same (t_parts d)
                    then map (\<lambda>p. if same p then row else p) (t_parts d)
                    else t_parts d @ [row])\<rparr>))"

definition put_part ::
    "ext \<Rightarrow> service_config \<Rightarrow> string \<Rightarrow> int \<Rightarrow> int \<Rightarrow> string \<Rightarrow> bytes \<Rightarrow> part prog" where
  "put_part E C upload_id part_number expected_size content_md5 body =
     bnd (get_upload E upload_id) (\<lambda>upload.
     bnd (external (ret body)) (\<lambda>payload.
     bnd (of_result (validate_payload E payload expected_size content_md5)) (\<lambda>_.
     let etag = hex_encode (sha256 E payload);
         location = upload_path (cf_tenant C) (up_bucket upload) (up_id upload) part_number in
     bnd (active_put E C location payload) (\<lambda>_.
     bnd (cast_uuid E upload_id) (\<lambda>i.
     bnd (exec (\<lambda>_. upsert_part \<lparr>pt_upload = i, pt_number = part_number,
            pt_size = int (length payload), pt_etag = etag, pt_path = location\<rparr>)) (\<lambda>_.
       ret \<lparr>pa_number = part_number, pa_etag = etag, pa_size = int (length payload), pa_path = location\<rparr>))))))"

definition list_parts :: "ext \<Rightarrow> string \<Rightarrow> part list prog" where
  "list_parts E upload_id =
     bnd (cast_uuid E upload_id) (\<lambda>i. query (\<lambda>d. Inr (map
       (\<lambda>p. \<lparr>pa_number = pt_number p, pa_etag = pt_etag p, pa_size = pt_size p, pa_path = pt_path p\<rparr>)
       (sort_key pt_number (filter (\<lambda>p. pt_upload p = i) (t_parts d))))))"

fun strictly_from :: "int \<Rightarrow> int list \<Rightarrow> bool" where
  "strictly_from prev [] = True"
| "strictly_from prev (n # ns) = (if n \<le> prev then False else strictly_from n ns)"

definition strict_ascending :: "int list \<Rightarrow> bool" where
  "strict_ascending numbers = (case numbers of [] \<Rightarrow> True | n # ns \<Rightarrow> strictly_from n ns)"

text \<open>\<open>partMap\<close>: a later part of a number replaces an earlier one.\<close>

definition part_map :: "part list \<Rightarrow> int \<Rightarrow> part option" where
  "part_map parts n = find (\<lambda>p. pa_number p = n) (rev parts)"

fun combine_parts :: "ext \<Rightarrow> service_config \<Rightarrow> (int \<Rightarrow> part option) \<Rightarrow> bytes \<Rightarrow> int list \<Rightarrow> bytes prog" where
  "combine_parts E C parts combined [] = ret combined"
| "combine_parts E C parts combined (n # ns) =
     (case parts n of
        None \<Rightarrow> fail ErrInvalidPart
      | Some p \<Rightarrow> bnd (active_get E C (pa_path p)) (\<lambda>x. combine_parts E C parts (combined @ x) ns))"

definition cleanup :: "ext \<Rightarrow> service_config \<Rightarrow> string \<Rightarrow> part list \<Rightarrow> unit prog" where
  "cleanup E C upload_id parts =
     bnd (for_each (\<lambda>p. ignore_error (active_delete E C (pa_path p))) parts) (\<lambda>_.
     bnd (cast_uuid E upload_id) (\<lambda>i.
     exec (\<lambda>_ d. Inr ((), d\<lparr>t_uploads := filter (\<lambda>u. m_id u \<noteq> i) (t_uploads d),
       t_parts := (if list_ex (\<lambda>u. m_id u = i) (t_uploads d)
                   then filter (\<lambda>p. pt_upload p \<noteq> i) (t_parts d) else t_parts d)\<rparr>))))"

definition completed_input :: "upload \<Rightarrow> string \<Rightarrow> bytes \<Rightarrow> put_input" where
  "completed_input upload created_by combined =
     \<lparr>pi_key = up_key upload, pi_ctype = up_ctype upload, pi_cache = up_cache upload,
      pi_disp = up_disp upload, pi_enc = up_enc upload, pi_meta = Some (up_meta upload),
      pi_created_by = created_by, pi_retain = None, pi_expire = None, pi_tags = None,
      pi_size = int (length combined), pi_md5 = [], pi_body = combined\<rparr>"

definition complete_upload ::
    "ext \<Rightarrow> service_config \<Rightarrow> string \<Rightarrow> string \<Rightarrow> int list \<Rightarrow> metadata prog" where
  "complete_upload E C upload_id created_by ordered_parts =
     bnd (get_upload E upload_id) (\<lambda>upload.
     bnd (guard (ordered_parts \<noteq> []) ErrInvalidPart) (\<lambda>_.
     bnd (guard (strict_ascending ordered_parts) ErrInvalidPartOrder) (\<lambda>_.
     bnd (list_parts E upload_id) (\<lambda>parts.
     bnd (combine_parts E C (part_map parts) [] ordered_parts) (\<lambda>combined.
     bnd (put_object E C (up_bucket upload) (completed_input upload created_by combined)) (\<lambda>item.
     bnd (cleanup E C upload_id parts) (\<lambda>_.
       ret item)))))))"

definition abort_upload :: "ext \<Rightarrow> service_config \<Rightarrow> string \<Rightarrow> unit prog" where
  "abort_upload E C upload_id = bnd (list_parts E upload_id) (cleanup E C upload_id)"

definition cleanup_expired :: "ext \<Rightarrow> service_config \<Rightarrow> (int \<times> err option) prog" where
  "cleanup_expired E C =
     bnd (exec (\<lambda>t d. Inr (map m_id (sort_key m_created (filter (\<lambda>u. m_expires u \<le> t) (t_uploads d))), d)))
       (count_each (\<lambda>i. bnd (list_parts E i) (\<lambda>parts. bnd (cleanup E C i parts) (\<lambda>_. ret 1))) 0)"

text \<open>\<open>ParseCompleteRequest\<close> on a decoded body; the ETags of the parts are not used.\<close>

fun complete_numbers :: "int list \<Rightarrow> (int \<times> string) list \<Rightarrow> err + int list" where
  "complete_numbers numbers [] = Inr numbers"
| "complete_numbers numbers ((n, etag) # ps) =
     (if n \<le> 0 then Inl ErrInvalidPart else complete_numbers (numbers @ [n]) ps)"

definition parse_complete_request :: "(int \<times> string) list \<Rightarrow> err + int list" where
  "parse_complete_request payload = complete_numbers [] payload"

definition sort_part_numbers :: "int list \<Rightarrow> int list" where
  "sort_part_numbers numbers = sort numbers"

end
