(* ===== verification/S3Router.thy ===== *)
theory S3Router
  imports S3Auth Events Multipart
begin

text \<open>
  The S3 interface: the handlers of \<open>backend/internal/s3/router.go\<close>. Every handler is a program
  that gives a reply; an error of a service becomes a reply, as in the code, and the audit and
  event calls whose errors the code drops are dropped here. The routes themselves (chi) hand a
  handler the bucket and the key; the request body as XML or JSON is decoded by the functions of
  \<open>s3_deps\<close>, which stand for \<open>encoding/xml\<close> and \<open>encoding/json\<close>. Metrics are left out.
\<close>

section \<open>Replies\<close>

record version_entry =
  ve_key :: string
  ve_version :: string
  ve_latest :: bool
  ve_modified :: int
  ve_etag :: string
  ve_size :: int

record delete_marker =
  dm_key :: string
  dm_version :: string
  dm_latest :: bool
  dm_modified :: int

record list_entry =
  le_key :: string
  le_size :: int
  le_modified :: int
  le_etag :: string

record list_v2 =
  lv_name :: string
  lv_prefix :: string
  lv_count :: int
  lv_max :: int
  lv_truncated :: bool
  lv_token :: string
  lv_next :: string
  lv_start :: string
  lv_contents :: "list_entry list"

datatype payload =
    NoBody
  | PlainText string
  | XmlError string string string string      \<comment> \<open>code, message, resource, request id\<close>
  | XmlBuckets "(string \<times> int) list"
  | XmlObjects string "list_entry list"
  | XmlObjectsV2 list_v2
  | XmlVersions string string "version_entry list" "delete_marker list"
  | XmlTags "(string \<times> string) list"
  | XmlCopy string string
  | XmlInitiate string string string
  | XmlComplete string string string
  | Blob bytes
  | JsonBody json
  | PresignedUrl url

record reply =
  rp_status :: nat
  rp_headers :: "(string \<times> string) list"
  rp_body :: payload

record s3_deps =
  sd_config :: service_config
  sd_max_upload :: int
  sd_region :: string
  sd_presign_ttl :: int
  sd_ip6 :: "string \<Rightarrow> ip option"
  sd_xml_tags :: "bytes \<Rightarrow> (string \<times> string) list option"
  sd_xml_parts :: "bytes \<Rightarrow> (int \<times> string) list option"
  sd_json :: "bytes \<Rightarrow> json option"
  sd_time :: "int \<Rightarrow> string"              \<comment> \<open>the text of \<open>CreatedAt\<close>\<close>
  sd_error :: "err \<Rightarrow> string"             \<comment> \<open>\<open>Error()\<close>\<close>

definition status_reply :: "nat \<Rightarrow> reply prog" where
  "status_reply status = ret \<lparr>rp_status = status, rp_headers = [], rp_body = NoBody\<rparr>"

definition xml_reply :: "payload \<Rightarrow> reply prog" where
  "xml_reply body = ret \<lparr>rp_status = 200, rp_headers = [(''Content-Type'', ''application/xml'')], rp_body = body\<rparr>"

definition write_error :: "request \<Rightarrow> nat \<Rightarrow> string \<Rightarrow> string \<Rightarrow> reply prog" where
  "write_error req status code message =
     ret \<lparr>rp_status = status, rp_headers = [(''Content-Type'', ''application/xml'')],
          rp_body = XmlError code message (rq_path req) (header_get req ''X-Request-Id'')\<rparr>"

definition write_s3_authorization_error :: "request \<Rightarrow> auth_status \<Rightarrow> reply prog" where
  "write_s3_authorization_error req status = (case status of
       AuthBadSignature \<Rightarrow> write_error req 401 ''SignatureDoesNotMatch'' ''The request signature we calculated does not match.''
     | AuthForbidden \<Rightarrow> write_error req 403 ''AccessDenied'' ''The request is not authorized.''
     | _ \<Rightarrow> write_error req 401 ''AccessDenied'' ''The request is not authorized.'')"

definition internal_error :: "request \<Rightarrow> reply prog" where
  "internal_error req = write_error req 500 ''InternalError'' ''An internal error occurred.''"

definition no_such_bucket :: "request \<Rightarrow> reply prog" where
  "no_such_bucket req = write_error req 404 ''NoSuchBucket'' ''The specified bucket does not exist.''"

definition no_such_key :: "request \<Rightarrow> reply prog" where
  "no_such_key req = write_error req 404 ''NoSuchKey'' ''The specified key does not exist.''"

text \<open>A call and what the handler does with its error and with its value.\<close>

definition handle :: "'a prog \<Rightarrow> (err \<Rightarrow> reply prog) \<Rightarrow> ('a \<Rightarrow> reply prog) \<Rightarrow> reply prog" where
  "handle m on_error f = bnd (attempt m) (\<lambda>r. case r of Inl e \<Rightarrow> on_error e | Inr x \<Rightarrow> f x)"

definition when_allowed :: "request \<Rightarrow> (smap \<times> auth_status) prog \<Rightarrow> (smap \<Rightarrow> reply prog) \<Rightarrow> reply prog" where
  "when_allowed req m f = bnd m (\<lambda>(actor, status).
     if status \<noteq> AuthAllowed then write_s3_authorization_error req status else f actor)"

definition s3_audit :: "request \<Rightarrow> string \<Rightarrow> string \<Rightarrow> string \<Rightarrow> json \<Rightarrow> unit prog" where
  "s3_audit req actor action resource detail = ignore_error (record_audit
     \<lparr>en_actor = actor, en_action = action, en_resource = resource, en_outcome = ''success'',
      en_request = header_get req ''X-Request-Id'', en_detail = detail\<rparr>)"

definition user_of :: "smap \<Rightarrow> string" where
  "user_of actor = text_of (actor ''userID'')"

definition access_on :: "ext \<Rightarrow> s3_deps \<Rightarrow> request \<Rightarrow> string \<Rightarrow> string \<Rightarrow> string \<Rightarrow> string \<Rightarrow> string \<Rightarrow> (smap \<times> auth_status) prog" where
  "access_on E D req bucket_id b key action aws_action =
     authorize_bucket_policy_aware E (sd_ip6 D) (sd_region D) req bucket_id action (object_resource b key)
       aws_action (bucket_policy_resource b key)"

section \<open>Buckets\<close>

definition get_root :: "ext \<Rightarrow> s3_deps \<Rightarrow> request \<Rightarrow> reply prog" where
  "get_root E D req =
     when_allowed req (authorize_s3_request E (sd_region D) req ''bucket.list'' ''*'') (\<lambda>_.
     handle (list_buckets (sd_config D))
       (\<lambda>e. ret \<lparr>rp_status = 500, rp_headers = [], rp_body = PlainText (sd_error D e)\<rparr>)
       (\<lambda>items. xml_reply (XmlBuckets (map (\<lambda>b. (bk_name b, bk_created b)) items))))"

definition put_policy :: "ext \<Rightarrow> s3_deps \<Rightarrow> request \<Rightarrow> string \<Rightarrow> reply prog" where
  "put_policy E D req b =
     when_allowed req (authorize_s3_request E (sd_region D) req ''bucket.policy.put'' (bucket_resource b)) (\<lambda>actor.
     handle (get_bucket_by_name (sd_config D) b) (\<lambda>_. no_such_bucket req) (\<lambda>bkt.
     handle (external (ret (rq_body req)))
       (\<lambda>_. write_error req 400 ''MalformedPolicy'' ''The bucket policy body could not be read.'') (\<lambda>document.
     handle (put_bucket_policy E (bk_id bkt) (sd_json D document))
       (\<lambda>_. write_error req 400 ''MalformedPolicy'' ''The bucket policy must be valid AWS-style JSON.'') (\<lambda>_.
     bnd (s3_audit req (user_of actor) ''bucket.policy.put'' b JNull) (\<lambda>_. status_reply 204)))))"

definition put_bucket :: "ext \<Rightarrow> s3_deps \<Rightarrow> request \<Rightarrow> string \<Rightarrow> reply prog" where
  "put_bucket E D req b =
     (if query_has req ''policy'' then put_policy E D req b
      else
      when_allowed req (authorize_s3_request E (sd_region D) req ''bucket.create'' (bucket_resource b)) (\<lambda>actor.
      handle (create_bucket E (sd_config D) b ''default'' (user_of actor) ''inherit'' 0)
        (\<lambda>e. write_error req 400 ''InvalidBucketName'' (sd_error D e)) (\<lambda>item.
      bnd (s3_audit req (user_of actor) ''bucket.create'' b (JObj [(''bucketId'', JStr (bk_id item))])) (\<lambda>_.
      bnd (ignore_error (emit E ''bucket.created''
             (JObj [(''bucketId'', JStr (bk_id item)), (''bucketName'', JStr (bk_name item))]))) (\<lambda>_.
      status_reply 200)))))"

definition delete_policy :: "ext \<Rightarrow> s3_deps \<Rightarrow> request \<Rightarrow> string \<Rightarrow> reply prog" where
  "delete_policy E D req b =
     when_allowed req (authorize_s3_request E (sd_region D) req ''bucket.policy.delete'' (bucket_resource b)) (\<lambda>actor.
     handle (get_bucket_by_name (sd_config D) b) (\<lambda>_. no_such_bucket req) (\<lambda>bkt.
     handle (delete_bucket_policy E (bk_id bkt))
       (\<lambda>e. if e = ErrBucketPolicyNotFound
            then write_error req 404 ''NoSuchBucketPolicy'' ''The bucket policy does not exist.''
            else internal_error req) (\<lambda>_.
     bnd (s3_audit req (user_of actor) ''bucket.policy.delete'' b JNull) (\<lambda>_. status_reply 204))))"

definition delete_bucket_request :: "ext \<Rightarrow> s3_deps \<Rightarrow> request \<Rightarrow> string \<Rightarrow> reply prog" where
  "delete_bucket_request E D req b =
     (if query_has req ''policy'' then delete_policy E D req b
      else
      when_allowed req (authorize_s3_request E (sd_region D) req ''bucket.delete'' (bucket_resource b)) (\<lambda>_.
      handle (delete_bucket b)
        (\<lambda>e. if e = ErrBucketNotEmpty
             then write_error req 409 ''BucketNotEmpty'' ''The bucket you tried to delete is not empty.''
             else if e = ErrBucketNotFound then no_such_bucket req
             else internal_error req) (\<lambda>_.
      bnd (ignore_error (emit E ''bucket.deleted'' (JObj [(''bucketName'', JStr b)]))) (\<lambda>_. status_reply 204))))"

section \<open>Listings\<close>

definition list_entry_of :: "metadata \<Rightarrow> list_entry" where
  "list_entry_of m = \<lparr>le_key = md_key m, le_size = md_size m, le_modified = md_created m, le_etag = quote_etag (md_etag m)\<rparr>"

definition max_keys_of :: "(string \<times> string) list \<Rightarrow> int" where
  "max_keys_of q = (let raw = trim_space (first_of q ''max-keys'') in
     if raw \<noteq> [] then (case parse_int raw of Some n \<Rightarrow> if n \<ge> 0 then n else 1000 | None \<Rightarrow> 1000) else 1000)"

definition build_list_objects_v2 :: "string \<Rightarrow> string \<Rightarrow> (string \<times> string) list \<Rightarrow> metadata list \<Rightarrow> list_v2" where
  "build_list_objects_v2 b prefix_text q items =
     (let max_keys = max_keys_of q;
          token = trim_space (first_of q ''continuation-token'');
          start_after = trim_space (first_of q ''start-after'');
          start_key = (if token = [] then start_after else token);
          filtered = (if start_key \<noteq> [] then dropWhile (\<lambda>m. md_key m \<le> start_key) items else items);
          truncated = max_keys < int (length filtered);
          limit = (if truncated then nat max_keys else length filtered);
          page = take limit filtered in
      \<lparr>lv_name = b, lv_prefix = prefix_text, lv_count = int (length page), lv_max = max_keys, lv_truncated = truncated,
       lv_token = token, lv_next = (if truncated \<and> 0 < limit then md_key (filtered ! (limit - 1)) else []),
       lv_start = start_after, lv_contents = map list_entry_of page\<rparr>)"

definition versions_payload :: "string \<Rightarrow> string \<Rightarrow> metadata list \<Rightarrow> payload" where
  "versions_payload b prefix_text items = XmlVersions b prefix_text
     (map (\<lambda>m. \<lparr>ve_key = md_key m, ve_version = md_version m, ve_latest = md_latest m, ve_modified = md_created m,
            ve_etag = quote_etag (md_etag m), ve_size = md_size m\<rparr>) (filter (\<lambda>m. \<not> md_marker m) items))
     (map (\<lambda>m. \<lparr>dm_key = md_key m, dm_version = md_version m, dm_latest = md_latest m, dm_modified = md_created m\<rparr>)
       (filter md_marker items))"

definition bucket_access :: "ext \<Rightarrow> s3_deps \<Rightarrow> request \<Rightarrow> string \<Rightarrow> string \<Rightarrow> string \<Rightarrow> (smap \<times> auth_status) prog" where
  "bucket_access E D req bucket_id b aws_action =
     authorize_bucket_policy_aware E (sd_ip6 D) (sd_region D) req bucket_id ''object.list'' (bucket_resource b)
       aws_action (bucket_policy_resource b [])"

definition get_policy :: "ext \<Rightarrow> s3_deps \<Rightarrow> request \<Rightarrow> string \<Rightarrow> bucket \<Rightarrow> reply prog" where
  "get_policy E D req b bkt =
     when_allowed req (authorize_s3_request E (sd_region D) req ''bucket.policy.get'' (bucket_resource b)) (\<lambda>_.
     handle (get_bucket_policy E (bk_id bkt))
       (\<lambda>e. if e = ErrBucketPolicyNotFound
            then write_error req 404 ''NoSuchBucketPolicy'' ''The bucket policy does not exist.''
            else internal_error req) (\<lambda>document.
     ret \<lparr>rp_status = 200, rp_headers = [(''Content-Type'', ''application/json'')], rp_body = JsonBody document\<rparr>))"

definition get_versions :: "ext \<Rightarrow> s3_deps \<Rightarrow> request \<Rightarrow> string \<Rightarrow> bucket \<Rightarrow> reply prog" where
  "get_versions E D req b bkt =
     (let prefix_text = query_get req ''prefix'' in
      when_allowed req (bucket_access E D req (bk_id bkt) b ''s3:ListBucketVersions'') (\<lambda>_.
      handle (list_all_versions E (bk_id bkt) prefix_text) (\<lambda>_. internal_error req) (\<lambda>items.
      xml_reply (versions_payload (bk_name bkt) prefix_text items))))"

definition get_listing :: "ext \<Rightarrow> s3_deps \<Rightarrow> request \<Rightarrow> string \<Rightarrow> bucket \<Rightarrow> reply prog" where
  "get_listing E D req b bkt =
     when_allowed req (bucket_access E D req (bk_id bkt) b ''s3:ListBucket'') (\<lambda>_.
     let prefix_text = query_get req ''prefix'' in
     handle (list_objects E (bk_id bkt) prefix_text) (\<lambda>_. internal_error req) (\<lambda>items.
     if query_get req ''list-type'' = ''2''
     then xml_reply (XmlObjectsV2 (build_list_objects_v2 (bk_name bkt) prefix_text (rq_query req) items))
     else xml_reply (XmlObjects (bk_name bkt) (map list_entry_of items))))"

definition get_bucket :: "ext \<Rightarrow> s3_deps \<Rightarrow> request \<Rightarrow> string \<Rightarrow> reply prog" where
  "get_bucket E D req b =
     handle (get_bucket_by_name (sd_config D) b) (\<lambda>_. no_such_bucket req) (\<lambda>bkt.
     if query_has req ''policy'' then get_policy E D req b bkt
     else if query_has req ''versions'' then get_versions E D req b bkt
     else get_listing E D req b bkt)"

section \<open>Writing objects\<close>

definition path_resource :: "bucket \<Rightarrow> string \<Rightarrow> string" where
  "path_resource bkt key = bk_name bkt @ ''/'' @ key"

definition parse_tagging_xml :: "s3_deps \<Rightarrow> bytes \<Rightarrow> smap option" where
  "parse_tagging_xml D body = map_option (\<lambda>tags. normalize_tags (Some
     (map_of (rev (filter (\<lambda>(k, _). k \<noteq> []) tags))))) (sd_xml_tags D body)"

definition tag_count :: "smap \<Rightarrow> int" where
  "tag_count tags = int (card (dom tags))"

definition put_tagging :: "ext \<Rightarrow> s3_deps \<Rightarrow> request \<Rightarrow> string \<Rightarrow> string \<Rightarrow> reply prog" where
  "put_tagging E D req b key =
     handle (get_bucket_by_name (sd_config D) b) (\<lambda>_. no_such_bucket req) (\<lambda>bkt.
     when_allowed req (access_on E D req (bk_id bkt) b key ''object.put'' ''s3:PutObjectTagging'') (\<lambda>actor.
     handle (bnd (external (ret (rq_body req))) (\<lambda>body. case parse_tagging_xml D body of
           None \<Rightarrow> fail (Failure ''xml'') | Some tags \<Rightarrow> ret tags))
       (\<lambda>_. write_error req 400 ''InvalidTag'' ''The tagging payload is invalid.'') (\<lambda>tags.
     handle (put_tags E (bk_id bkt) key (query_get req ''versionId'') (Some tags)) (\<lambda>_. no_such_key req) (\<lambda>item.
     bnd (s3_audit req (user_of actor) ''object.tagging.put'' (path_resource bkt key)
       (JObj [(''bucketId'', JStr (bk_id bkt)), (''tagCount'', JNum (tag_count (md_tags item))),
              (''versionId'', JStr (md_version item))])) (\<lambda>_.
     status_reply 200)))))"

definition too_large :: err where
  "too_large = Failure ''http: request body too large''"

definition entity_too_large :: "request \<Rightarrow> reply prog" where
  "entity_too_large req = write_error req 413 ''EntityTooLarge'' ''The proposed upload exceeds the configured upload size limit.''"

definition payload_error :: "request \<Rightarrow> err \<Rightarrow> reply prog" where
  "payload_error req e =
     (if e = too_large then entity_too_large req
      else if e = ErrIncompleteBody then write_error req 400 ''IncompleteBody''
        ''You did not provide the number of bytes specified by the Content-Length HTTP header.''
      else if e = ErrInvalidDigest then write_error req 400 ''InvalidDigest'' ''The Content-MD5 you specified was invalid.''
      else if e = ErrBadDigest then write_error req 400 ''BadDigest'' ''The Content-MD5 you specified did not match what we received.''
      else internal_error req)"

text \<open>
  \<open>http.MaxBytesReader\<close>: reading more than the limit fails. \<open>PutPart\<close> looks the upload up before
  it reads.
\<close>

definition put_part_limited :: "ext \<Rightarrow> s3_deps \<Rightarrow> request \<Rightarrow> string \<Rightarrow> int \<Rightarrow> part prog" where
  "put_part_limited E D req upload_id part_number =
     (if int (length (rq_body req)) > sd_max_upload D
      then bnd (get_upload E upload_id) (\<lambda>_. external (fail too_large))
      else put_part E (sd_config D) upload_id part_number (expected_content_length req)
             (header_get req ''Content-MD5'') (rq_body req))"

definition upload_part :: "ext \<Rightarrow> s3_deps \<Rightarrow> request \<Rightarrow> string \<Rightarrow> string \<Rightarrow> string \<Rightarrow> reply prog" where
  "upload_part E D req b key upload_id =
     handle (get_bucket_by_name (sd_config D) b) (\<lambda>_. no_such_bucket req) (\<lambda>bkt.
     when_allowed req (access_on E D req (bk_id bkt) b key ''object.put'' ''s3:PutObject'') (\<lambda>_.
     case parse_int (query_get req ''partNumber'') of
       None \<Rightarrow> write_error req 400 ''InvalidPart'' ''The requested multipart part number is invalid.''
     | Some part_number \<Rightarrow>
         if part_number \<le> 0 then write_error req 400 ''InvalidPart'' ''The requested multipart part number is invalid.''
         else if rq_length req > sd_max_upload D then entity_too_large req
         else
         handle (put_part_limited E D req upload_id part_number) (payload_error req) (\<lambda>p.
         ret \<lparr>rp_status = 200, rp_headers = [(''ETag'', quote_etag (pa_etag p))], rp_body = NoBody\<rparr>)))"

definition copy_input :: "request \<Rightarrow> string \<Rightarrow> string \<Rightarrow> smap option \<Rightarrow> put_input" where
  "copy_input req key created_by object_tags =
     (let directive = header_get req ''X-Amz-Metadata-Directive'' in
      \<lparr>pi_key = key, pi_ctype = replace_or_empty directive (header_get req ''Content-Type''),
       pi_cache = replace_or_empty directive (header_get req ''Cache-Control''),
       pi_disp = replace_or_empty directive (header_get req ''Content-Disposition''),
       pi_enc = replace_or_empty directive (header_get req ''Content-Encoding''),
       pi_meta = (if equal_fold directive ''REPLACE'' then Some (extract_user_metadata req) else None),
       pi_created_by = created_by, pi_retain = None, pi_expire = None, pi_tags = object_tags,
       pi_size = 0, pi_md5 = [], pi_body = []\<rparr>)"

definition upload_input :: "request \<Rightarrow> string \<Rightarrow> string \<Rightarrow> smap \<Rightarrow> put_input" where
  "upload_input req key created_by object_tags =
     \<lparr>pi_key = key, pi_ctype = header_get req ''Content-Type'', pi_cache = header_get req ''Cache-Control'',
      pi_disp = header_get req ''Content-Disposition'', pi_enc = header_get req ''Content-Encoding'',
      pi_meta = Some (extract_user_metadata req), pi_created_by = created_by, pi_retain = None, pi_expire = None,
      pi_tags = Some object_tags, pi_size = expected_content_length req, pi_md5 = header_get req ''Content-MD5'',
      pi_body = rq_body req\<rparr>"

definition quota_exceeded :: "request \<Rightarrow> reply prog" where
  "quota_exceeded req = write_error req 409 ''QuotaExceeded'' ''The requested write exceeds the configured quota.''"

definition warning_headers :: "ext \<Rightarrow> s3_deps \<Rightarrow> string \<Rightarrow> string \<Rightarrow> (string \<times> string) list prog" where
  "warning_headers E D bucket_id user_id =
     (if \<not> cf_quotas (sd_config D) then ret []
      else bnd (attempt (current_warnings E bucket_id user_id)) (\<lambda>r. ret (case r of
          Inl _ \<Rightarrow> []
        | Inr ws \<Rightarrow>
            (if ws_bucket_bytes ws then [(''X-S3P-Quota-Warning-Bucket-Bytes'', ''true'')] else []) @
            (if ws_bucket_count ws then [(''X-S3P-Quota-Warning-Bucket-Objects'', ''true'')] else []) @
            (if ws_user_bytes ws then [(''X-S3P-Quota-Warning-User-Bytes'', ''true'')] else []))))"

text \<open>
  What follows the write. The handler declares a second \<open>err\<close> in the branch for copies and in the
  branch for uploads (\<open>sourceBucketName, ..., err := ...\<close>, \<open>objectTags, err := ...\<close>) and assigns the
  error of \<open>Copy\<close> and of \<open>Put\<close> to it, while the test after the branches is on the outer \<open>err\<close>,
  which is nil there: a failed write goes on with the zero \<open>Metadata\<close>.
\<close>

definition zero_metadata :: metadata where
  "zero_metadata = \<lparr>md_id = [], md_bucket = [], md_key = [], md_version = [], md_size = 0, md_etag = [], md_ctype = [],
     md_cache = [], md_disp = [], md_enc = [], md_meta = Map.empty, md_tags = Map.empty, md_path = [], md_scan = [],
     md_latest = False, md_marker = False, md_hold = False, md_retain = None, md_expire = None, md_created = 0\<rparr>"

definition object_written ::
    "ext \<Rightarrow> s3_deps \<Rightarrow> request \<Rightarrow> smap \<Rightarrow> bucket \<Rightarrow> string \<Rightarrow> string \<Rightarrow> err + metadata \<Rightarrow> reply prog" where
  "object_written E D req actor bkt key copy_source written =
     (let item = (case written of Inl _ \<Rightarrow> zero_metadata | Inr m \<Rightarrow> m);
          modified = (case written of Inl _ \<Rightarrow> [] | Inr m \<Rightarrow> sd_time D (md_created m));
          actor_id = (if user_of actor \<noteq> [] then user_of actor else ''presigned'') in
      bnd (s3_audit req actor_id (copy_action copy_source) (path_resource bkt key)
        (JObj [(''bytes'', JNum (md_size item)), (''tagCount'', JNum (tag_count (md_tags item))),
               (''versionId'', JStr (md_version item))])) (\<lambda>_.
      bnd (ignore_error (emit E (copy_event copy_source)
        (JObj [(''bucketId'', JStr (bk_id bkt)), (''bucketName'', JStr (bk_name bkt)), (''key'', JStr key),
               (''objectId'', JStr (md_id item)), (''versionId'', JStr (md_version item))]))) (\<lambda>_.
      bnd (warning_headers E D (bk_id bkt) (user_of actor)) (\<lambda>warnings.
      let headers = warnings @ [(''ETag'', quote_etag (md_etag item)), (''x-amz-version-id'', md_version item),
                                (''Last-Modified'', modified)] in
      if trim_space copy_source \<noteq> []
      then ret \<lparr>rp_status = 200, rp_headers = headers @ [(''Content-Type'', ''application/xml'')],
                rp_body = XmlCopy modified (quote_etag (md_etag item))\<rparr>
      else ret \<lparr>rp_status = 200, rp_headers = headers, rp_body = NoBody\<rparr>))))"

definition copy_request :: "ext \<Rightarrow> s3_deps \<Rightarrow> request \<Rightarrow> smap \<Rightarrow> bucket \<Rightarrow> string \<Rightarrow> string \<Rightarrow> reply prog" where
  "copy_request E D req actor bkt key copy_source =
     (case parse_copy_source copy_source of
        Inl _ \<Rightarrow> write_error req 400 ''InvalidRequest'' ''The copy source header is invalid.''
      | Inr (source_name, source_key, source_version) \<Rightarrow>
          handle (get_bucket_by_name (sd_config D) source_name)
            (\<lambda>_. write_error req 404 ''NoSuchBucket'' ''The specified source bucket does not exist.'') (\<lambda>source.
          when_allowed req (authorize_s3_request E (sd_region D) req ''object.get'' (object_resource source_name source_key)) (\<lambda>_.
          case (if to_upper (trim_space (header_get req ''X-Amz-Tagging-Directive'')) = ''REPLACE''
                then map_sum id Some (parse_tags (header_get req ''X-Amz-Tagging'')) else Inr None) of
            Inl _ \<Rightarrow> write_error req 400 ''InvalidTag'' ''The tagging header is invalid.''
          | Inr object_tags \<Rightarrow>
              bnd (attempt (copy_object E (sd_config D) (bk_id source) source_key source_version (bk_id bkt)
                  (copy_input req key (user_of actor) object_tags)))
                (object_written E D req actor bkt key copy_source))))"

definition put_request :: "ext \<Rightarrow> s3_deps \<Rightarrow> request \<Rightarrow> smap \<Rightarrow> bucket \<Rightarrow> string \<Rightarrow> reply prog" where
  "put_request E D req actor bkt key =
     (case parse_tags (header_get req ''X-Amz-Tagging'') of
        Inl _ \<Rightarrow> write_error req 400 ''InvalidTag'' ''The tagging header is invalid.''
      | Inr object_tags \<Rightarrow>
          bnd (attempt (if int (length (rq_body req)) > sd_max_upload D then external (fail too_large)
                  else put_object E (sd_config D) (bk_id bkt) (upload_input req key (user_of actor) object_tags)))
            (object_written E D req actor bkt key []))"

definition put_key :: "ext \<Rightarrow> s3_deps \<Rightarrow> request \<Rightarrow> string \<Rightarrow> string \<Rightarrow> reply prog" where
  "put_key E D req b key =
     (if query_has req ''tagging'' then put_tagging E D req b key
      else if query_get req ''uploadId'' \<noteq> [] then upload_part E D req b key (query_get req ''uploadId'')
      else
      handle (get_bucket_by_name (sd_config D) b) (\<lambda>_. no_such_bucket req) (\<lambda>bkt.
      when_allowed req (access_on E D req (bk_id bkt) b key ''object.put'' ''s3:PutObject'') (\<lambda>actor.
      if rq_length req > sd_max_upload D then entity_too_large req
      else
      let copy_source = header_get req ''X-Amz-Copy-Source'' in
      if copy_source \<noteq> [] then copy_request E D req actor bkt key copy_source
      else put_request E D req actor bkt key)))"

section \<open>Reading objects\<close>

definition tag_pairs :: "smap \<Rightarrow> (string \<times> string) list" where
  "tag_pairs tags = map (\<lambda>k. (k, text_of (tags k))) (sorted_list_of_set (dom tags))"

definition get_tagging :: "ext \<Rightarrow> s3_deps \<Rightarrow> request \<Rightarrow> string \<Rightarrow> string \<Rightarrow> reply prog" where
  "get_tagging E D req b key =
     handle (get_bucket_by_name (sd_config D) b) (\<lambda>_. no_such_bucket req) (\<lambda>bkt.
     when_allowed req (access_on E D req (bk_id bkt) b key ''object.get'' ''s3:GetObjectTagging'') (\<lambda>_.
     handle (get_tags E (sd_config D) (bk_id bkt) key (query_get req ''versionId'')) (\<lambda>_. no_such_key req) (\<lambda>tags.
     xml_reply (XmlTags (tag_pairs tags)))))"

definition object_headers :: "s3_deps \<Rightarrow> metadata \<Rightarrow> (string \<times> string) list" where
  "object_headers D m =
     [(''Content-Type'', md_ctype m), (''Content-Length'', itoa (md_size m)), (''ETag'', quote_etag (md_etag m)),
      (''x-amz-version-id'', md_version m), (''Last-Modified'', sd_time D (md_created m))] @
     (if md_cache m \<noteq> [] then [(''Cache-Control'', md_cache m)] else []) @
     (if md_disp m \<noteq> [] then [(''Content-Disposition'', md_disp m)] else []) @
     (if md_enc m \<noteq> [] then [(''Content-Encoding'', md_enc m)] else []) @
     map (\<lambda>k. (''x-amz-meta-'' @ k, text_of (md_meta m k))) (sorted_list_of_set (dom (md_meta m))) @
     (if tag_count (md_tags m) > 0 then [(''x-amz-tagging-count'', itoa (tag_count (md_tags m)))] else [])"

definition get_key :: "ext \<Rightarrow> s3_deps \<Rightarrow> request \<Rightarrow> string \<Rightarrow> string \<Rightarrow> reply prog" where
  "get_key E D req b key =
     (if query_has req ''tagging'' then get_tagging E D req b key
      else
      handle (get_bucket_by_name (sd_config D) b) (\<lambda>_. no_such_bucket req) (\<lambda>bkt.
      when_allowed req (access_on E D req (bk_id bkt) b key ''object.get'' ''s3:GetObject'') (\<lambda>_.
      let version_id = query_get req ''versionId'' in
      handle (if version_id = [] then get_by_key E (sd_config D) (bk_id bkt) key
              else get_version E (sd_config D) (bk_id bkt) key version_id)
        (\<lambda>_. no_such_key req) (\<lambda>(item, body).
      ret \<lparr>rp_status = 200, rp_headers = object_headers D item, rp_body = Blob body\<rparr>))))"

definition head_key :: "ext \<Rightarrow> s3_deps \<Rightarrow> request \<Rightarrow> string \<Rightarrow> string \<Rightarrow> reply prog" where
  "head_key E D req b key =
     handle (get_bucket_by_name (sd_config D) b) (\<lambda>_. no_such_bucket req) (\<lambda>bkt.
     when_allowed req (access_on E D req (bk_id bkt) b key ''object.get'' ''s3:GetObject'') (\<lambda>_.
     let version_id = query_get req ''versionId'' in
     handle (if version_id = [] then head_object E (bk_id bkt) key
             else bnd (get_version E (sd_config D) (bk_id bkt) key version_id) (\<lambda>(item, _). ret item))
       (\<lambda>_. no_such_key req) (\<lambda>item.
     ret \<lparr>rp_status = 200, rp_headers = object_headers D item, rp_body = NoBody\<rparr>)))"

section \<open>Deleting objects\<close>

definition abort_request :: "ext \<Rightarrow> s3_deps \<Rightarrow> request \<Rightarrow> string \<Rightarrow> string \<Rightarrow> string \<Rightarrow> reply prog" where
  "abort_request E D req b key upload_id =
     handle (get_bucket_by_name (sd_config D) b) (\<lambda>_. no_such_bucket req) (\<lambda>bkt.
     when_allowed req (access_on E D req (bk_id bkt) b key ''object.delete'' ''s3:AbortMultipartUpload'') (\<lambda>_.
     handle (abort_upload E (sd_config D) upload_id) (\<lambda>_. internal_error req) (\<lambda>_. status_reply 204)))"

definition held_error :: "request \<Rightarrow> string \<Rightarrow> err \<Rightarrow> reply prog" where
  "held_error req what e =
     (if e = ErrRetentionActive \<or> e = ErrLegalHoldActive
      then write_error req 409 ''AccessDenied'' (''Object retention or legal hold is still active for this '' @ what @ ''.'')
      else internal_error req)"

definition delete_key :: "ext \<Rightarrow> s3_deps \<Rightarrow> request \<Rightarrow> string \<Rightarrow> string \<Rightarrow> reply prog" where
  "delete_key E D req b key =
     (if query_get req ''uploadId'' \<noteq> [] then abort_request E D req b key (query_get req ''uploadId'')
      else
      handle (get_bucket_by_name (sd_config D) b) (\<lambda>_. no_such_bucket req) (\<lambda>bkt.
      when_allowed req (access_on E D req (bk_id bkt) b key ''object.delete'' ''s3:DeleteObject'') (\<lambda>actor.
      let version_id = query_get req ''versionId'' in
      if version_id \<noteq> [] then
        handle (delete_version E (sd_config D) (bk_id bkt) key version_id)
          (\<lambda>e. if e = ErrVersionNotFound then write_error req 404 ''NoSuchVersion'' ''The specified version does not exist.''
               else held_error req ''version'' e) (\<lambda>_.
        bnd (s3_audit req (user_of actor) ''object.version.delete'' (path_resource bkt key)
          (JObj [(''versionId'', JStr version_id)])) (\<lambda>_. status_reply 204))
      else
        handle (delete_object E (bk_id bkt) key) (held_error req ''key'') (\<lambda>_.
        bnd (s3_audit req (user_of actor) ''object.delete'' (path_resource bkt key) (JObj [])) (\<lambda>_.
        bnd (ignore_error (emit E ''object.deleted''
          (JObj [(''bucketId'', JStr (bk_id bkt)), (''bucketName'', JStr (bk_name bkt)), (''key'', JStr key)]))) (\<lambda>_.
        status_reply 204))))))"

section \<open>Presigning and multipart uploads\<close>

definition presign_fields :: "json option \<Rightarrow> (string \<times> string) option" where
  "presign_fields doc = (case doc of
      Some JNull \<Rightarrow> Some ([], [])
    | Some (JObj fs) \<Rightarrow> (case (str_field ''method'' fs, str_field ''path'' fs) of
        (Some m, Some p) \<Rightarrow> Some (m, p) | _ \<Rightarrow> None)
    | _ \<Rightarrow> None)"

definition presign_resource :: "string \<Rightarrow> string" where
  "presign_resource path =
     (if has_prefix path ''/s3/'' then (case split_first (CHR ''/'') (trim_prefix path ''/s3/'') of
          Some (b, k) \<Rightarrow> object_resource b k | None \<Rightarrow> ''*'')
      else ''*'')"

text \<open>The URL is parsed by \<open>url.Parse\<close>: \<open>parse_url\<close>.\<close>

definition post_presign :: "ext \<Rightarrow> s3_deps \<Rightarrow> (string \<Rightarrow> url option) \<Rightarrow> request \<Rightarrow> reply prog" where
  "post_presign E D parse_url req =
     (let access_key = header_get req ''X-S3P-Access-Key''; secret_key = header_get req ''X-S3P-Secret'' in
      handle (validate_credential E access_key secret_key)
        (\<lambda>_. write_error req 401 ''AccessDenied'' ''The request is not authorized.'') (\<lambda>_.
      handle (lookup_credential E access_key)
        (\<lambda>_. write_error req 401 ''InvalidAccessKeyId'' ''The AWS access key Id you provided does not exist in our records.'') (\<lambda>cred.
      handle (bnd (external (ret (rq_body req))) (\<lambda>body. case presign_fields (sd_json D body) of
            None \<Rightarrow> fail (Failure ''json'') | Some x \<Rightarrow> ret x))
        (\<lambda>_. write_error req 400 ''InvalidRequest'' ''The request payload is invalid.'') (\<lambda>(verb, path).
      let action = (if equal_fold verb ''PUT'' then ''object.put'' else ''object.get'') in
      handle (check_role (ci_role cred) action (presign_resource path))
        (\<lambda>_. write_error req 403 ''AccessDenied'' ''The request is not authorized.'') (\<lambda>_.
      bnd now (\<lambda>t. case parse_url (''http://'' @ rq_host req @ path) of
          None \<Rightarrow> internal_error req
        | Some u \<Rightarrow> ret \<lparr>rp_status = 200, rp_headers = [],
              rp_body = PresignedUrl (generate_presigned_url E verb u access_key (ci_secret cred) (sd_region D) (sd_presign_ttl D) t)\<rparr>))))))"

definition post_key :: "ext \<Rightarrow> s3_deps \<Rightarrow> request \<Rightarrow> string \<Rightarrow> string \<Rightarrow> reply prog" where
  "post_key E D req b key =
     handle (get_bucket_by_name (sd_config D) b) (\<lambda>_. no_such_bucket req) (\<lambda>bkt.
     when_allowed req (access_on E D req (bk_id bkt) b key ''object.put'' ''s3:PutObject'') (\<lambda>actor.
     let upload_id = query_get req ''uploadId'' in
     if query_has req ''uploads'' then
       handle (initiate E (bk_id bkt) \<lparr>ii_key = key, ii_ctype = header_get req ''Content-Type'',
           ii_cache = header_get req ''Cache-Control'', ii_disp = header_get req ''Content-Disposition'',
           ii_enc = header_get req ''Content-Encoding'', ii_meta = Some (extract_user_metadata req), ii_by = user_of actor\<rparr>)
         (\<lambda>_. internal_error req) (\<lambda>u. xml_reply (XmlInitiate (bk_name bkt) key (up_id u)))
     else if upload_id \<noteq> [] then
       handle (bnd (external (ret (rq_body req))) (\<lambda>body. case sd_xml_parts D body of
             None \<Rightarrow> fail (Failure ''xml'')
           | Some parts \<Rightarrow> bnd (of_result (parse_complete_request parts)) (\<lambda>ordered.
               if ordered = [] then fail (Failure ''empty'') else ret ordered)))
         (\<lambda>_. write_error req 400 ''InvalidRequest'' ''The multipart completion payload is invalid.'') (\<lambda>ordered.
       handle (complete_upload E (sd_config D) upload_id (user_of actor) ordered)
         (\<lambda>e. if e = ErrInvalidPart then write_error req 400 ''InvalidPart'' ''One or more of the specified parts could not be found.''
              else if e = ErrInvalidPartOrder then write_error req 400 ''InvalidPartOrder'' ''The list of parts was not in ascending order.''
              else if e = ErrQuotaExceeded then quota_exceeded req
              else internal_error req) (\<lambda>item.
       bnd (ignore_error (emit E ''multipart.completed''
         (JObj [(''bucketId'', JStr (bk_id bkt)), (''bucketName'', JStr (bk_name bkt)), (''key'', JStr key),
                (''objectId'', JStr (md_id item)), (''uploadId'', JStr upload_id)]))) (\<lambda>_.
       bnd (warning_headers E D (bk_id bkt) (user_of actor)) (\<lambda>warnings.
       ret \<lparr>rp_status = 200, rp_headers = warnings @ [(''x-amz-version-id'', md_version item), (''Content-Type'', ''application/xml'')],
            rp_body = XmlComplete (bk_name bkt) key (quote_etag (md_etag item))\<rparr>))))
     else write_error req 400 ''InvalidRequest'' ''The requested POST operation is not supported.''))"

section \<open>Routes\<close>

datatype route =
    Root | PresignRoute
  | BucketRoute string
  | KeyRoute string string

definition serve_s3 :: "ext \<Rightarrow> s3_deps \<Rightarrow> (string \<Rightarrow> url option) \<Rightarrow> route \<Rightarrow> request \<Rightarrow> reply prog" where
  "serve_s3 E D parse_url r req =
     (let verb = rq_method req in
      case r of
        Root \<Rightarrow> if verb = ''GET'' then get_root E D req else status_reply 405
      | PresignRoute \<Rightarrow> if verb = ''POST'' then post_presign E D parse_url req else status_reply 405
      | BucketRoute b \<Rightarrow>
          if verb = ''GET'' then get_bucket E D req b
          else if verb = ''PUT'' then put_bucket E D req b
          else if verb = ''DELETE'' then delete_bucket_request E D req b
          else status_reply 405
      | KeyRoute b key \<Rightarrow>
          if verb = ''GET'' then get_key E D req b key
          else if verb = ''HEAD'' then head_key E D req b key
          else if verb = ''PUT'' then put_key E D req b key
          else if verb = ''DELETE'' then delete_key E D req b key
          else if verb = ''POST'' then post_key E D req b key
          else status_reply 405)"

end
