(* ===== verification/Malware.thy ===== *)
theory Malware
  imports Events
begin

text \<open>
  Malware scanning: \<open>backend/internal/malware\<close> and the scan mode of
  \<open>backend/internal/settings/service.go\<close>. The worker reads the blob of each pending version,
  has it scanned and writes the verdict; in enforcement mode an infected version is deleted
  softly, then records and announces it. The answer of the ClamAV daemon to a stream and the texts
  of errors are parameters; \<open>updated\<close> gives the rows' \<open>updated_at\<close>, which orders the candidates.
\<close>

section \<open>Verdicts and scanners\<close>

datatype verdict = Pending | Clean | Infected | Failed

fun verdict_text :: "verdict \<Rightarrow> string" where
  "verdict_text Pending = ''pending-scan''"
| "verdict_text Clean = ''clean''"
| "verdict_text Infected = ''infected''"
| "verdict_text Failed = ''scan-failed''"

text \<open>
  \<open>bytes.ToUpper\<close>, as far as a search for ASCII text can tell: two letters outside ASCII have an
  upper case in it, the dotless i (C4 B1) and the long s (C5 BF).
\<close>

fun upper_bytes :: "bytes \<Rightarrow> bytes" where
  "upper_bytes (c # d # s) =
     (if c = CHR 0xC4 \<and> d = CHR 0xB1 then CHR ''I'' # upper_bytes s
      else if c = CHR 0xC5 \<and> d = CHR 0xBF then CHR ''S'' # upper_bytes s
      else upper_char c # upper_bytes (d # s))"
| "upper_bytes s = map upper_char s"

definition occurs_in :: "string \<Rightarrow> string \<Rightarrow> bool" where
  "occurs_in sub s \<longleftrightarrow> list_ex (\<lambda>n. has_prefix (drop n s) sub) [0..<Suc (length s)]"

definition pattern_scan :: "bytes \<Rightarrow> verdict" where
  "pattern_scan payload =
     (let txt = upper_bytes payload in
      if occurs_in ''EICAR-STANDARD-ANTIVIRUS-TEST-FILE'' txt \<or> occurs_in ''X5O!P%@AP'' txt
      then Infected else Clean)"

text \<open>The frames of ClamAV's INSTREAM command: each chunk after its length in four bytes.\<close>

definition be32 :: "nat \<Rightarrow> bytes" where
  "be32 n = [char_of (n div 2 ^ 24), char_of (n div 2 ^ 16), char_of (n div 2 ^ 8), char_of n]"

fun read_chunks :: "nat \<Rightarrow> bytes \<Rightarrow> bytes list" where
  "read_chunks n [] = []"
| "read_chunks n (b # bs) = (if n = 0 then [] else take n (b # bs) # read_chunks n (drop n (b # bs)))"

definition instream_writes :: "bytes list \<Rightarrow> bytes list" where
  "instream_writes chunks =
     (''zINSTREAM'' @ [CHR 0x00]) # concat (map (\<lambda>c. [be32 (length c), c]) chunks)
       @ [replicate 4 (CHR 0x00)]"

datatype scanner = PatternScanner | ClamAVScanner

definition clam_verdict :: "string \<Rightarrow> err + verdict" where
  "clam_verdict reply =
     (if occurs_in ''FOUND'' reply then Inr Infected
      else if occurs_in ''OK'' reply then Inr Clean
      else Inl (Failure (''unexpected clamav response: '' @ trim_space reply)))"

definition clam_scan :: "(bytes \<Rightarrow> string) \<Rightarrow> bytes \<Rightarrow> verdict prog" where
  "clam_scan daemon payload =
     (let writes = instream_writes (read_chunks 8192 payload) in
      bnd (external (ret ())) (\<lambda>_.
      bnd (for_each (\<lambda>_. external (ret ())) writes) (\<lambda>_.
      bnd (external (ret (daemon (concat writes)))) (\<lambda>reply.
        of_result (clam_verdict reply)))))"

definition new_scanner :: "bool \<Rightarrow> scanner" where
  "new_scanner enable_clamav = (if \<not> enable_clamav then PatternScanner else ClamAVScanner)"

definition scan :: "(bytes \<Rightarrow> string) \<Rightarrow> scanner \<Rightarrow> bytes \<Rightarrow> verdict prog" where
  "scan daemon s payload =
     (case s of PatternScanner \<Rightarrow> ret (pattern_scan payload) | ClamAVScanner \<Rightarrow> clam_scan daemon payload)"

section \<open>The scan mode\<close>

definition normalize_malware_scan_mode :: "string \<Rightarrow> string" where
  "normalize_malware_scan_mode value0 =
     (let value = to_lower (trim_space value0) in if value = [] then ''advisory'' else value)"

definition validate_malware_scan_mode :: "string \<Rightarrow> err + unit" where
  "validate_malware_scan_mode value =
     (if value \<noteq> ''advisory'' \<and> value \<noteq> ''enforcement''
      then Inl (Failure ''malware scan mode must be advisory or enforcement'') else Inr ())"

definition ensure_malware_settings :: "service_config \<Rightarrow> unit prog" where
  "ensure_malware_settings C =
     exec (\<lambda>_ d. Inr ((), case t_malware_mode d of Some _ \<Rightarrow> d
       | None \<Rightarrow> d\<lparr>t_malware_mode := Some (normalize_malware_scan_mode (cf_scan_mode C))\<rparr>))"

definition resolve_malware_settings :: "service_config \<Rightarrow> string prog" where
  "resolve_malware_settings C =
     bnd (ensure_malware_settings C) (\<lambda>_.
     bnd (query (\<lambda>d. case t_malware_mode d of None \<Rightarrow> Inl PgNoRows | Some m \<Rightarrow> Inr m)) (\<lambda>m.
       ret (normalize_malware_scan_mode m)))"

definition update_malware_settings :: "service_config \<Rightarrow> string \<Rightarrow> string prog" where
  "update_malware_settings C input =
     bnd (ensure_malware_settings C) (\<lambda>_.
     let scan_mode = normalize_malware_scan_mode input in
     bnd (of_result (validate_malware_scan_mode scan_mode)) (\<lambda>_.
     bnd (exec (\<lambda>_ d. Inr ((), d\<lparr>t_malware_mode := map_option (\<lambda>_. scan_mode) (t_malware_mode d)\<rparr>))) (\<lambda>_.
       resolve_malware_settings C)))"

definition current_mode :: "service_config \<Rightarrow> string prog" where
  "current_mode C =
     (let configured = (if cf_scan_mode C = [] then ''advisory'' else cf_scan_mode C) in
      if cf_settings C then bnd (attempt (resolve_malware_settings C)) (\<lambda>r. case r of
          Inr m \<Rightarrow> ret m | Inl _ \<Rightarrow> ret configured)
      else ret configured)"

section \<open>Scanning\<close>

record candidate =
  ca_id :: string
  ca_bucket :: string
  ca_name :: string      \<comment> \<open>of the bucket\<close>
  ca_key :: string
  ca_path :: string
  ca_backend :: string

definition store_for_scan :: "ext \<Rightarrow> service_config \<Rightarrow> string \<Rightarrow> string \<Rightarrow> bytes prog" where
  "store_for_scan E C backend path =
     (if equal_fold (trim_space backend) ''distributed'' \<and> cf_distributed C then dist_get E path
      else local_get E ApiHost path)"

definition write_verdict :: "string \<Rightarrow> verdict \<Rightarrow> string \<Rightarrow> unit prog" where
  "write_verdict i v mode =
     bnd now (\<lambda>t.
     let deleted_at = (if v = Infected \<and> mode = ''enforcement'' then Some t else None) in
     exec (\<lambda>_ d. Inr ((), change_objects (map (\<lambda>r. if o_id r = i
       then r\<lparr>o_scan := verdict_text v,
              o_deleted := (case deleted_at of Some x \<Rightarrow> Some x | None \<Rightarrow> o_deleted r)\<rparr>
       else r)) d)))"

text \<open>The members of the details stand in the order of their names.\<close>

definition verdict_entry :: "candidate \<Rightarrow> verdict \<Rightarrow> string \<Rightarrow> string \<Rightarrow> audit_entry" where
  "verdict_entry item v message mode =
     \<lparr>en_actor = ''worker'', en_action = ''malware.scan.completed'', en_resource = ca_key item,
      en_outcome = (case v of Infected \<Rightarrow> ''infected'' | Failed \<Rightarrow> ''failure'' | _ \<Rightarrow> ''success''), en_request = [],
      en_detail = JObj [(''bucketId'', JStr (ca_bucket item)), (''bucketName'', JStr (ca_name item)), (''error'', JStr message),
        (''mode'', JStr mode), (''objectId'', JStr (ca_id item)), (''scanStatus'', JStr (verdict_text v))]\<rparr>"

definition verdict_event :: "candidate \<Rightarrow> verdict \<Rightarrow> string \<Rightarrow> json" where
  "verdict_event item v mode =
     JObj [(''bucketId'', JStr (ca_bucket item)), (''bucketName'', JStr (ca_name item)), (''key'', JStr (ca_key item)),
       (''mode'', JStr mode), (''objectId'', JStr (ca_id item)), (''scanStatus'', JStr (verdict_text v))]"

definition apply_verdict :: "ext \<Rightarrow> candidate \<Rightarrow> verdict \<Rightarrow> string \<Rightarrow> string \<Rightarrow> unit prog" where
  "apply_verdict E item v message mode =
     bnd (write_verdict (ca_id item) v mode) (\<lambda>_.
     bnd (ignore_error (record_audit (verdict_entry item v message mode))) (\<lambda>_.
     ignore_error (emit E ''malware.scan.completed'' (verdict_event item v mode))))"

definition bucket_of_object :: "database \<Rightarrow> object_row \<Rightarrow> bucket_row option" where
  "bucket_of_object d r = find (\<lambda>b. b_id b = o_bucket r) (t_buckets d)"

definition pending_candidates ::
    "(object_row \<Rightarrow> int) \<Rightarrow> int \<Rightarrow> database \<Rightarrow> candidate list" where
  "pending_candidates updated limit d =
     map (\<lambda>r. \<lparr>ca_id = o_id r, ca_bucket = o_bucket r, ca_name = (case bucket_of_object d r of None \<Rightarrow> [] | Some b \<Rightarrow> b_name b),
         ca_key = o_key r, ca_path = o_path r, ca_backend = o_backend r\<rparr>)
       (take (nat limit) (sort_key updated (filter (\<lambda>r. o_deleted r = None \<and>
          o_scan r = verdict_text Pending \<and> bucket_of_object d r \<noteq> None) (t_objects d))))"

definition scan_candidate ::
    "ext \<Rightarrow> service_config \<Rightarrow> (err \<Rightarrow> string) \<Rightarrow> (bytes \<Rightarrow> string) \<Rightarrow> scanner \<Rightarrow> candidate \<Rightarrow> int prog" where
  "scan_candidate E C message daemon s item =
     bnd (current_mode C) (\<lambda>mode.
     bnd (attempt (bnd (store_for_scan E C (ca_backend item) (ca_path item)) (scan daemon s))) (\<lambda>r.
     let (v, text) = (case r of Inl e \<Rightarrow> (Failed, message e) | Inr v \<Rightarrow> (v, [])) in
     bnd (apply_verdict E item v text mode) (\<lambda>_. ret 1)))"

definition process_pending ::
    "ext \<Rightarrow> service_config \<Rightarrow> (err \<Rightarrow> string) \<Rightarrow> (bytes \<Rightarrow> string) \<Rightarrow> scanner option \<Rightarrow> (object_row \<Rightarrow> int) \<Rightarrow> int \<Rightarrow> (int \<times> err option) prog" where
  "process_pending E C message daemon scanner updated limit0 =
     (case scanner of
        None \<Rightarrow> ret (0, None)
      | Some s \<Rightarrow>
          let limit = (if limit0 \<le> 0 then 10 else limit0) in
          bnd (query (\<lambda>d. Inr (pending_candidates updated limit d)))
            (count_each (scan_candidate E C message daemon s) 0))"

end
