(* ===== verification/Integrity.thy ===== *)
theory Integrity
  imports Multipart Malware
begin

text \<open>
  The invariant of the object service: \<open>intact\<close> says that each live version has its blob, with the
  size and the hash of its row, in the tier its row names, and that the paths the service may still
  choose are vacant. The two tiers are one instance of the interface of a blob store. The rules
  here say which statements and which file operations keep the invariant; at the end the write of
  an object is followed through all its ways to fail.
\<close>

section \<open>Paths of blobs\<close>

definition object_path :: "service_config \<Rightarrow> string \<Rightarrow> bool" where
  "object_path C p \<longleftrightarrow> (\<exists>b i. plain_elem b \<and> plain_elem i \<and> p = physical_path (cf_tenant C) b i)"

definition part_path :: "service_config \<Rightarrow> string \<Rightarrow> bool" where
  "part_path C p \<longleftrightarrow> (\<exists>b u n. plain_elem b \<and> plain_elem u \<and> p = upload_path (cf_tenant C) b u n)"

lemma itoa_chars: "x \<in> set (itoa n) \<Longrightarrow> x = CHR ''-'' \<or> (48 :: nat) \<le> of_char x"
  by (auto simp: itoa_def dest: itoa_nat_chars split: if_splits)

lemma plain_itoa: "plain_elem (itoa n)"
  using itoa_chars [of "CHR ''.''" n] itoa_chars [of slash n]
  by (auto simp: plain_elem_def slash_def)

lemma join_plain_inj:
  "list_all plain_elem xs \<Longrightarrow> list_all plain_elem ys \<Longrightarrow> xs \<noteq> [] \<Longrightarrow> ys \<noteq> [] \<Longrightarrow>
   join_with [slash] xs = join_with [slash] ys \<Longrightarrow> xs = ys"
  by (erule join_with_inj) (auto simp: list_all_iff plain_elem_def)

lemma plain_names: "plain_elem ''tenants''" "plain_elem ''buckets''" "plain_elem ''objects''" "plain_elem ''multipart''"
  by (simp_all add: plain_elem_def slash_def)

definition object_elems :: "string \<Rightarrow> string \<Rightarrow> string \<Rightarrow> string list" where
  "object_elems t b i = [''tenants'', t, ''buckets'', b, ''objects'', i]"

definition part_elems :: "string \<Rightarrow> string \<Rightarrow> string \<Rightarrow> int \<Rightarrow> string list" where
  "part_elems t b u n = [''tenants'', t, ''buckets'', b, ''multipart'', u, itoa n]"

lemma elems_plain:
  "plain_elem t \<Longrightarrow> plain_elem b \<Longrightarrow> plain_elem i \<Longrightarrow> list_all plain_elem (object_elems t b i)"
  "plain_elem t \<Longrightarrow> plain_elem b \<Longrightarrow> plain_elem i \<Longrightarrow> list_all plain_elem (part_elems t b i n)"
  by (simp_all add: object_elems_def part_elems_def plain_names plain_itoa)

lemma elems_path:
  assumes "es \<noteq> []" "tl es \<noteq> []" "list_all plain_elem es"
  shows "filepath_join es = join_with [slash] es \<and> store_path (filepath_join es)"
proof -
  have j: "filepath_join es = join_with [slash] es \<and> plain_path (filepath_join es)"
    using assms(1,3) by (rule filepath_join_plain)
  obtain e e' es' where "es = e # e' # es'" using assms(1,2) by (cases es; cases "tl es") auto
  then have "slash \<in> set (join_with [slash] es)" by simp
  then show ?thesis using j unfolding store_path_def by metis
qed

lemma physical_path_elems:
  assumes "plain_elem t" "plain_elem b" "plain_elem i"
  shows "physical_path t b i = join_with [slash] (object_elems t b i) \<and> store_path (physical_path t b i)"
proof -
  have p: "physical_path t b i = filepath_join (object_elems t b i)"
    by (simp only: physical_path_def object_elems_def)
  show ?thesis
    unfolding p by (rule elems_path [OF _ _ elems_plain(1) [OF assms]]) (simp_all add: object_elems_def)
qed

lemma upload_path_elems:
  assumes "plain_elem t" "plain_elem b" "plain_elem u"
  shows "upload_path t b u n = join_with [slash] (part_elems t b u n) \<and> store_path (upload_path t b u n)"
proof -
  have p: "upload_path t b u n = filepath_join (part_elems t b u n)"
    by (simp only: upload_path_def part_elems_def)
  show ?thesis
    unfolding p by (rule elems_path [OF _ _ elems_plain(2) [OF assms]]) (simp_all add: part_elems_def)
qed

lemma physical_path_inj:
  assumes "plain_elem t" "plain_elem b" "plain_elem i" "plain_elem b'" "plain_elem i'"
    and "physical_path t b i = physical_path t b' i'"
  shows "b = b' \<and> i = i'"
proof -
  have "join_with [slash] (object_elems t b i) = join_with [slash] (object_elems t b' i')"
    using assms(6) physical_path_elems [OF assms(1-3)] physical_path_elems [OF assms(1,4,5)] by (simp only:)
  then have "object_elems t b i = object_elems t b' i'"
    by (rule join_plain_inj [OF elems_plain(1) [OF assms(1-3)] elems_plain(1) [OF assms(1,4,5)], rotated 2])
       (simp_all add: object_elems_def)
  then show ?thesis by (simp add: object_elems_def)
qed

lemma part_not_object:
  assumes "plain_elem (cf_tenant C)" "object_path C p" "part_path C q"
  shows "p \<noteq> q"
proof
  assume pq: "p = q"
  obtain b i where p: "plain_elem b" "plain_elem i" "p = physical_path (cf_tenant C) b i"
    using assms(2) by (auto simp: object_path_def)
  obtain b' u n where q: "plain_elem b'" "plain_elem u" "q = upload_path (cf_tenant C) b' u n"
    using assms(3) by (auto simp: part_path_def)
  have "join_with [slash] (object_elems (cf_tenant C) b i) = join_with [slash] (part_elems (cf_tenant C) b' u n)"
    using pq p(3) q(3) physical_path_elems [OF assms(1) p(1,2)] upload_path_elems [OF assms(1) q(1,2), of n] by (simp only:)
  then have "object_elems (cf_tenant C) b i = part_elems (cf_tenant C) b' u n"
    by (rule join_plain_inj [OF elems_plain(1) [OF assms(1) p(1,2)] elems_plain(2) [OF assms(1) q(1,2)], rotated 2])
       (simp_all add: object_elems_def part_elems_def)
  then show False by (simp add: object_elems_def part_elems_def)
qed

section \<open>Configurations\<close>

definition good_config :: "ext \<Rightarrow> service_config \<Rightarrow> bool" where
  "good_config E C \<longleftrightarrow> good_ext E \<and> plain_elem (cf_tenant C)"

lemma good_configD: "good_config E C \<Longrightarrow> good_ext E" "good_config E C \<Longrightarrow> plain_elem (cf_tenant C)"
  by (auto simp: good_config_def)

lemma sound_object_path: "good_config E C \<Longrightarrow> object_path C p \<Longrightarrow> sound_path E p"
  using physical_path_elems by (auto simp: object_path_def sound_path_def good_config_def)

lemma sound_part_path: "good_config E C \<Longrightarrow> part_path C p \<Longrightarrow> sound_path E p"
  using upload_path_elems by (auto simp: part_path_def sound_path_def good_config_def)

lemma pg_uuid_plain: "good_ext E \<Longrightarrow> pg_uuid E s = Some u \<Longrightarrow> plain_elem s \<and> plain_elem u"
  by (auto simp: good_ext_def)

lemma rnd_uuid_plain: "good_ext E \<Longrightarrow> plain_elem (rnd_uuid E n)"
  by (auto simp: good_ext_def)

section \<open>The two tiers as one store\<close>

definition held_in :: "ext \<Rightarrow> bool \<Rightarrow> world \<Rightarrow> string \<Rightarrow> bytes \<Rightarrow> bool" where
  "held_in E far w p x = (if far then dist_holds E w p x else blob_value E ApiHost w p = Some x)"

definition writes_far :: "service_config \<Rightarrow> string list \<Rightarrow> bool" where
  "writes_far C selected \<longleftrightarrow> resolve_write_backend C selected = ''distributed''"

lemma backend_names: "normalize_stored_backend ''distributed'' = ''distributed''"
  "normalize_stored_backend ''local'' \<noteq> ''distributed''"
  by (simp_all add: normalize_stored_backend_def trim_space_def trim_right_by_def is_space_def to_lower_def lower_char_def)

lemma near_names: "normalize_stored_backend ''local'' = ''local''" "normalize_stored_backend ''filesystem'' = ''local''"
  by (simp_all add: normalize_stored_backend_def trim_space_def trim_right_by_def is_space_def to_lower_def lower_char_def)

lemma in_distributed_written: "in_distributed C (resolve_write_backend C selected) = writes_far C selected"
  by (auto simp: in_distributed_def resolve_write_backend_def writes_far_def backend_names)

lemma store_new_blob_tier:
  "store_new_blob E C selected p x =
     (if writes_far C selected then put_to_endpoints E p x selected else local_put E ApiHost p x)"
  by (auto simp: store_new_blob_def writes_far_def resolve_write_backend_def)

lemma unmoved_held_in:
  "sound_path E p \<Longrightarrow> sound_path E q \<Longrightarrow> p \<noteq> q \<Longrightarrow> unmoved E H p (\<lambda>w. held_in E far w q x)"
  unfolding held_in_def by (cases far) (auto intro: unmoved_dist_holds keeps_other_blob_local [where P = "\<lambda>v. v = Some x"])

text \<open>Whatever does not depend on the blob of a path survives what the stores do to it.\<close>

lemma keeps_store_new_blob:
  "unmoved E UNIV p I \<Longrightarrow> sound_path E p \<Longrightarrow> keeps_inv I (store_new_blob E C selected p x)"
  unfolding store_new_blob_tier
  by (auto intro!: keeps_put_to_endpoints_unmoved keeps_local_put [where H = UNIV]
      dest: sound_pathD elim: unmoved_mono)

lemma keeps_store_delete:
  "unmoved E UNIV p I \<Longrightarrow> sound_path E p \<Longrightarrow> keeps_inv I (store_delete E C backend p)"
  unfolding store_delete_def
  by (auto intro!: keeps_dist_delete_unmoved keeps_local_delete [where H = UNIV]
      dest: sound_pathD elim: unmoved_mono)

lemma keeps_active_put:
  "unmoved E UNIV p I \<Longrightarrow> sound_path E p \<Longrightarrow> keeps_inv I (active_put E C p x)"
  unfolding active_put_def dist_put_def
  by (auto intro!: keeps keeps_put_to_endpoints_unmoved keeps_local_put [where H = UNIV]
      dest: sound_pathD elim: unmoved_mono)

lemma keeps_active_delete:
  "unmoved E UNIV p I \<Longrightarrow> sound_path E p \<Longrightarrow> keeps_inv I (active_delete E C p)"
  unfolding active_delete_def
  by (auto intro!: keeps_dist_delete_unmoved keeps_local_delete [where H = UNIV]
      dest: sound_pathD elim: unmoved_mono)

lemma keeps_store_get [keeps]: "seen_free I \<Longrightarrow> keeps_inv I (store_get E C backend p)"
  unfolding store_get_def by (auto intro!: keeps_dist_get keeps_local_get simp: seen_free_def)

lemma keeps_active_get [keeps]: "seen_free I \<Longrightarrow> keeps_inv I (active_get E C p)"
  unfolding active_get_def by (auto intro!: keeps_dist_get keeps_local_get simp: seen_free_def)

lemma keeps_store_for_scan [keeps]: "seen_free I \<Longrightarrow> keeps_inv I (store_for_scan E C backend p)"
  unfolding store_for_scan_def by (auto intro!: keeps_dist_get keeps_local_get simp: seen_free_def)

interpretation tier: blob_store "store_new_blob E C selected" "store_get E C (resolve_write_backend C selected)"
  "store_delete E C (resolve_write_backend C selected)" "held_in E (writes_far C selected)"
  "\<lambda>w p x. writes_far C selected \<longrightarrow> no_other E x p w" "\<lambda>w. writes_far C selected \<longrightarrow> dist_endpoints w \<noteq> []" "sound_path E"
proof (cases "writes_far C selected")
  case True
  show "blob_store (store_new_blob E C selected) (store_get E C (resolve_write_backend C selected))
    (store_delete E C (resolve_write_backend C selected)) (held_in E (writes_far C selected))
    (\<lambda>w p x. writes_far C selected \<longrightarrow> no_other E x p w) (\<lambda>w. writes_far C selected \<longrightarrow> dist_endpoints w \<noteq> []) (sound_path E)"
    using dist_store.blob_store_axioms [of E selected]
    by (simp add: True store_new_blob_tier [abs_def] store_get_def [abs_def] store_delete_def [abs_def]
        in_distributed_written held_in_def [abs_def])
next
  case False
  show "blob_store (store_new_blob E C selected) (store_get E C (resolve_write_backend C selected))
    (store_delete E C (resolve_write_backend C selected)) (held_in E (writes_far C selected))
    (\<lambda>w p x. writes_far C selected \<longrightarrow> no_other E x p w) (\<lambda>w. writes_far C selected \<longrightarrow> dist_endpoints w \<noteq> []) (sound_path E)"
    using local_store.blob_store_axioms [of E ApiHost]
    by (simp add: False store_new_blob_tier [abs_def] store_get_def [abs_def] store_delete_def [abs_def]
        in_distributed_written held_in_def [abs_def])
qed

section \<open>Live versions and their blobs\<close>

definition stored_as :: "ext \<Rightarrow> service_config \<Rightarrow> object_row \<Rightarrow> bytes \<Rightarrow> world \<Rightarrow> bool" where
  "stored_as E C r x w \<longleftrightarrow>
     held_in E (in_distributed C (o_backend r)) w (o_path r) x \<and> no_other E x (o_path r) w \<and>
     int (length x) = o_size r \<and> hex_encode (sha256 E x) = o_etag r"

text \<open>The paths the service may still choose for new blobs.\<close>

definition future :: "ext \<Rightarrow> service_config \<Rightarrow> world \<Rightarrow> string \<Rightarrow> bool" where
  "future E C w p \<longleftrightarrow>
     (\<exists>n b. rnd_pos w \<le> n \<and> plain_elem b \<and> p = physical_path (cf_tenant C) b (rnd_uuid E n))"

definition row_ok :: "service_config \<Rightarrow> object_row \<Rightarrow> bool" where
  "row_ok C r \<longleftrightarrow>
     (if o_marker r then o_deleted r = None \<and> o_path r = [] \<and> o_expire r = None \<and> o_scan r = ''clean''
      else object_path C (o_path r) \<and> o_backend r \<in> {''filesystem'', ''local'', ''distributed''})"

definition catalog_ok :: "service_config \<Rightarrow> database \<Rightarrow> bool" where
  "catalog_ok C d \<longleftrightarrow> distinct (map o_id (t_objects d)) \<and>
     (\<forall>r \<in> set (t_objects d). row_ok C r) \<and>
     (\<forall>r \<in> set (t_objects d). \<forall>s \<in> set (t_objects d). o_path r = o_path s \<longrightarrow> o_path r \<noteq> [] \<longrightarrow> o_id r = o_id s) \<and>
     (\<forall>u \<in> set (t_uploads d). plain_elem (m_bucket u) \<and> plain_elem (m_id u)) \<and>
     (\<forall>p \<in> set (t_parts d). part_path C (pt_path p))"

definition blobs_ok :: "ext \<Rightarrow> service_config \<Rightarrow> database \<Rightarrow> world \<Rightarrow> bool" where
  "blobs_ok E C d w \<longleftrightarrow>
     (\<forall>r \<in> set (t_objects d). visible r \<longrightarrow> (\<exists>x. stored_as E C r x w)) \<and>
     (\<forall>p. future E C w p \<longrightarrow> p \<notin> o_path ` set (t_objects d) \<and> vacant E w p) \<and>
     (cf_distributed C \<longrightarrow> dist_endpoints w \<noteq> [])"

definition intact :: "ext \<Rightarrow> service_config \<Rightarrow> world \<Rightarrow> bool" where
  "intact E C w \<longleftrightarrow> catalog_ok C (db w) \<and> blobs_ok E C (db w) w"

lemma future_mono: "env_step w w' \<Longrightarrow> future E C w' p \<Longrightarrow> future E C w p"
  unfolding future_def env_step_fields by (blast intro: order_trans)

lemma env_value: "env_step w w' \<Longrightarrow> blob_value E h w' q = blob_value E h w q"
  by (simp add: blob_value_def env_step_fields)

lemma stable_blobs_ok: "stable (blobs_ok E C d)"
  unfolding stable_def
proof (intro allI impI)
  fix w w' assume e: "env_step w w'" and ok: "blobs_ok E C d w"
  have "stored_as E C r x w' = stored_as E C r x w" for r x
    using env_value [OF e] e
    by (simp add: stored_as_def held_in_def dist_holds_def no_other_def env_step_fields)
  moreover have "vacant E w' p = vacant E w p" for p
    using env_value [OF e] by (simp add: vacant_def)
  moreover have "dist_endpoints w' = dist_endpoints w" using e by (simp add: env_step_fields)
  ultimately show "blobs_ok E C d w'"
    using ok future_mono [OF e] unfolding blobs_ok_def by auto
qed

lemma stable_intact: "stable (intact E C)"
  using stableD [OF stable_blobs_ok] unfolding intact_def stable_def by (auto simp: env_step_fields)

subsection \<open>Statements\<close>

text \<open>What a change of the object table must keep for the blobs to stay in order.\<close>

definition quiet :: "object_row \<Rightarrow> object_row \<Rightarrow> bool" where
  "quiet r r' \<longleftrightarrow> o_id r' = o_id r \<and> o_path r' = o_path r \<and> o_backend r' = o_backend r \<and> o_size r' = o_size r \<and>
     o_etag r' = o_etag r \<and> o_marker r' = o_marker r \<and> o_expire r' = o_expire r \<and>
     (visible r' \<longrightarrow> visible r) \<and> (o_marker r \<longrightarrow> o_deleted r' = o_deleted r \<and> o_scan r' = o_scan r)"

lemma quiet_refl [simp]: "quiet r r"
  by (simp add: quiet_def)

lemma row_ok_quiet: "quiet r r' \<Longrightarrow> row_ok C r \<Longrightarrow> row_ok C r'"
  by (auto simp: quiet_def row_ok_def)

lemma stored_as_quiet: "quiet r r' \<Longrightarrow> stored_as E C r' x w = stored_as E C r x w"
  by (simp add: quiet_def stored_as_def)

lemma blob_value_db [simp]: "blob_value E h (w\<lparr>db := d\<rparr>) p = blob_value E h w p"
  by (simp add: blob_value_def)

lemma no_other_db [simp]: "no_other E x p (w\<lparr>db := d\<rparr>) = no_other E x p w"
  by (simp add: no_other_def)

lemma held_in_db [simp]: "held_in E far (w\<lparr>db := d\<rparr>) p x = held_in E far w p x"
  by (simp add: held_in_def dist_holds_def)

lemma stored_as_db [simp]: "stored_as E C r x (w\<lparr>db := d\<rparr>) = stored_as E C r x w"
  by (simp add: stored_as_def held_in_def dist_holds_def no_other_def)

lemma future_db [simp]: "future E C (w\<lparr>db := d\<rparr>) p = future E C w p"
  by (simp add: future_def)

lemma vacant_db [simp]: "vacant E (w\<lparr>db := d\<rparr>) p = vacant E w p"
  by (simp add: vacant_def)

definition tame :: "database \<Rightarrow> database \<Rightarrow> bool" where
  "tame d d' \<longleftrightarrow> (\<exists>f p. t_objects d' = map f (filter p (t_objects d)) \<and> (\<forall>r \<in> set (t_objects d). quiet r (f r))) \<and>
     set (t_uploads d') \<subseteq> set (t_uploads d) \<and> set (t_parts d') \<subseteq> set (t_parts d)"

lemma tame_rows: "tame d d' \<Longrightarrow> r' \<in> set (t_objects d') \<Longrightarrow> \<exists>r \<in> set (t_objects d). quiet r r'"
  unfolding tame_def by fastforce

lemma catalogD:
  assumes "catalog_ok C d"
  shows "distinct (map o_id (t_objects d))" "r \<in> set (t_objects d) \<Longrightarrow> row_ok C r"
    "r \<in> set (t_objects d) \<Longrightarrow> s \<in> set (t_objects d) \<Longrightarrow> o_path r = o_path s \<Longrightarrow> o_path r \<noteq> [] \<Longrightarrow> o_id r = o_id s"
    "u \<in> set (t_uploads d) \<Longrightarrow> plain_elem (m_bucket u) \<and> plain_elem (m_id u)"
    "p \<in> set (t_parts d) \<Longrightarrow> part_path C (pt_path p)"
  using assms unfolding catalog_ok_def by blast+

lemma same_id_same_row:
  "catalog_ok C d \<Longrightarrow> r \<in> set (t_objects d) \<Longrightarrow> s \<in> set (t_objects d) \<Longrightarrow> o_id r = o_id s \<Longrightarrow> r = s"
  using catalogD(1) [of C d] unfolding distinct_map by (blast dest: inj_onD)

lemma catalog_tame: "catalog_ok C d \<Longrightarrow> tame d d' \<Longrightarrow> catalog_ok C d'"
proof -
  assume ok: "catalog_ok C d" and t: "tame d d'"
  obtain f p where f: "t_objects d' = map f (filter p (t_objects d))" "\<forall>r \<in> set (t_objects d). quiet r (f r)"
    using t by (auto simp: tame_def)
  have "map o_id (t_objects d') = map o_id (filter p (t_objects d))"
    using f by (auto simp: quiet_def)
  then have "distinct (map o_id (t_objects d'))"
    using ok by (simp add: catalog_ok_def distinct_map_filter)
  moreover have "\<forall>r \<in> set (t_objects d'). row_ok C r"
    using catalogD(2) [OF ok] row_ok_quiet tame_rows [OF t] by meson
  moreover have "\<forall>r \<in> set (t_objects d'). \<forall>s \<in> set (t_objects d'). o_path r = o_path s \<longrightarrow> o_path r \<noteq> [] \<longrightarrow> o_id r = o_id s"
  proof (intro ballI impI)
    fix r s assume rs: "r \<in> set (t_objects d')" "s \<in> set (t_objects d')" "o_path r = o_path s" "o_path r \<noteq> []"
    obtain r0 where r0: "r0 \<in> set (t_objects d)" "quiet r0 r" using tame_rows [OF t rs(1)] by blast
    obtain s0 where s0: "s0 \<in> set (t_objects d)" "quiet s0 s" using tame_rows [OF t rs(2)] by blast
    have "o_id r0 = o_id s0" using rs(3,4) r0 s0 by (intro catalogD(3) [OF ok]) (auto simp: quiet_def)
    then show "o_id r = o_id s" using r0 s0 by (simp add: quiet_def)
  qed
  moreover have "set (t_uploads d') \<subseteq> set (t_uploads d)" "set (t_parts d') \<subseteq> set (t_parts d)"
    using t unfolding tame_def by blast+
  ultimately show ?thesis
    unfolding catalog_ok_def [of C d'] using catalogD(4,5) [OF ok] by blast
qed

lemma intact_tame: "intact E C w \<Longrightarrow> tame (db w) d \<Longrightarrow> intact E C (w\<lparr>db := d\<rparr>)"
proof -
  assume ok: "intact E C w" and t: "tame (db w) d"
  have "\<exists>x. stored_as E C r' x w" if r': "r' \<in> set (t_objects d)" "visible r'" for r'
  proof -
    obtain r where r: "r \<in> set (t_objects (db w))" "quiet r r'" using tame_rows [OF t r'(1)] by blast
    then have "visible r" using r'(2) by (simp add: quiet_def)
    then show ?thesis using r ok stored_as_quiet [OF r(2)] by (auto simp: intact_def blobs_ok_def)
  qed
  moreover have "q \<notin> o_path ` set (t_objects d)" if q: "future E C w q" for q
  proof
    assume "q \<in> o_path ` set (t_objects d)"
    then obtain r' where r': "r' \<in> set (t_objects d)" "q = o_path r'" by blast
    obtain r where "r \<in> set (t_objects (db w))" "quiet r r'" using tame_rows [OF t r'(1)] by blast
    then have "q \<in> o_path ` set (t_objects (db w))" using r'(2) by (auto simp: quiet_def)
    then show False using ok q by (simp add: intact_def blobs_ok_def)
  qed
  ultimately show ?thesis
    using ok catalog_tame [OF _ t] by (simp add: intact_def blobs_ok_def)
qed

lemma keeps_intact_exec:
  "(\<And>t d x d'. catalog_ok C d \<Longrightarrow> q t d = Inr (x, d') \<Longrightarrow> tame d d') \<Longrightarrow> keeps_inv (intact E C) (exec q)"
  by (rule keeps_exec [OF stable_intact]) (metis intact_def intact_tame)

lemma tame_other:
  "t_objects d' = t_objects d \<Longrightarrow> t_uploads d' = t_uploads d \<Longrightarrow> t_parts d' = t_parts d \<Longrightarrow> tame d d'"
  unfolding tame_def by (auto intro!: exI [of _ "\<lambda>r. r"] exI [of _ "\<lambda>_. True"])

lemma tame_map: "(\<And>r. r \<in> set (t_objects d) \<Longrightarrow> quiet r (f r)) \<Longrightarrow> tame d (change_objects (map f) d)"
  unfolding tame_def change_objects_def by (auto intro!: exI [of _ f] exI [of _ "\<lambda>_. True"])

lemma tame_remove: "tame d (remove_objects p d)"
  unfolding tame_def remove_objects_def by (auto simp: Let_def intro!: exI [of _ "\<lambda>r. r"])

lemma tame_drop: "tame d (drop_bucket b d)"
  unfolding tame_def drop_bucket_def by (auto simp: Let_def intro!: exI [of _ "\<lambda>r. r"])

lemma quiet_latest [simp]: "quiet r (r\<lparr>o_latest := b\<rparr>)" "quiet r (r\<lparr>o_hold := b\<rparr>)" "quiet r (r\<lparr>o_tags := tg\<rparr>)"
  by (simp_all add: quiet_def visible_def)

subsection \<open>Blobs aside\<close>

text \<open>A path aside belongs to no live version and will not be chosen again.\<close>

definition aside :: "ext \<Rightarrow> service_config \<Rightarrow> string \<Rightarrow> world \<Rightarrow> bool" where
  "aside E C p w \<longleftrightarrow> \<not> future E C w p \<and> (\<forall>r \<in> set (t_objects (db w)). visible r \<longrightarrow> o_path r \<noteq> p)"

lemma stable_aside: "stable (aside E C p)"
  using future_mono unfolding stable_def aside_def by (metis env_step_fields)

lemma set_other:
  assumes "sound_path E p" "sound_path E q" "p \<noteq> q"
  shows "blob_value E h (set_file h' (blob_file E h' p) c w) q = blob_value E h w q"
  using blob_file_inj [OF sound_pathD(1) [OF assms(1)] sound_pathD(3) [OF assms(1)] sound_pathD(3) [OF assms(2)], of h'] assms
  by (auto simp: blob_value_def)

lemma unmoved_blobs:
  assumes "good_config E C" "sound_path E p" "catalog_ok C d" "\<forall>r \<in> set (t_objects d). visible r \<longrightarrow> o_path r \<noteq> p"
  shows "unmoved E UNIV p (\<lambda>w. \<not> future E C w p \<and> blobs_ok E C d w)"
  unfolding unmoved_def
proof (intro conjI allI impI)
  show "stable (\<lambda>w. \<not> future E C w p \<and> blobs_ok E C d w)"
    using stable_blobs_ok future_mono unfolding stable_def by blast
next
  fix w h c assume w: "\<not> future E C w p \<and> blobs_ok E C d w"
  let ?w = "set_file h (blob_file E h p) c w"
  have fut: "future E C ?w q = future E C w q" for q by (simp add: future_def)
  have stored: "stored_as E C r x ?w = stored_as E C r x w" if "r \<in> set (t_objects d)" "visible r" for r x
  proof -
    have "object_path C (o_path r)" using assms(3) that by (auto simp: catalog_ok_def row_ok_def visible_def)
    then have "sound_path E (o_path r)" using assms(1) sound_object_path by blast
    then have "blob_value E h' ?w (o_path r) = blob_value E h' w (o_path r)" for h'
      using set_other [OF assms(2)] assms(4) that by metis
    then show ?thesis by (simp add: stored_as_def held_in_def dist_holds_def no_other_def)
  qed
  have vac: "vacant E ?w q" if "future E C w q" for q
  proof -
    have "object_path C q" using that good_configD [OF assms(1)] rnd_uuid_plain
      unfolding future_def object_path_def by blast
    then have q: "sound_path E q" using assms(1) sound_object_path by blast
    have "p \<noteq> q" using that w by blast
    then show ?thesis
      using set_other [OF assms(2) q] w that by (simp add: vacant_def blobs_ok_def)
  qed
  show "\<not> future E C ?w p" using w by (simp_all add: fut)
  show "blobs_ok E C d ?w" using w stored vac fut unfolding blobs_ok_def by auto
next
  fix w s assume w: "\<not> future E C w p \<and> blobs_ok E C d w"
  let ?w = "w\<lparr>node_seen := s\<rparr>"
  have same: "future E C ?w q = future E C w q" "vacant E ?w q = vacant E w q" "stored_as E C r x ?w = stored_as E C r x w" for q r x
    by (simp_all add: future_def stored_as_def held_in_def dist_holds_def no_other_def vacant_def)
  show "\<not> future E C ?w p" "blobs_ok E C d ?w"
    using w unfolding blobs_ok_def same by simp_all
qed

lemma keeps_intact_file:
  assumes "good_config E C" "sound_path E p" "\<And>I. unmoved E UNIV p I \<Longrightarrow> keeps_inv I m"
  shows "keeps_inv (\<lambda>w. intact E C w \<and> aside E C p w) m"
  unfolding keeps_inv_def
proof (intro allI impI)
  fix w assume w: "intact E C w \<and> aside E C p w"
  have "unmoved E UNIV p (\<lambda>v. db v = db w \<and> \<not> future E C v p \<and> blobs_ok E C (db w) v)"
    using w by (intro unmoved_conj unmoved_db [where P = "\<lambda>d. d = db w"] unmoved_blobs assms) (auto simp: intact_def aside_def)
  then have k: "keeps_inv (\<lambda>v. db v = db w \<and> \<not> future E C v p \<and> blobs_ok E C (db w) v) m" by (rule assms(3))
  have "db w = db w \<and> \<not> future E C w p \<and> blobs_ok E C (db w) w" using w by (simp add: intact_def aside_def)
  then have "db (snd (m w)) = db w \<and> \<not> future E C (snd (m w)) p \<and> blobs_ok E C (db w) (snd (m w))"
    using k by (simp add: keeps_inv_def)
  then show "intact E C (snd (m w)) \<and> aside E C p (snd (m w))"
    using w by (simp add: intact_def aside_def)
qed

section \<open>Invariants of the object tables\<close>

text \<open>Most of the bookkeeping leaves the tables of objects, uploads and parts as they are.\<close>

definition row_inv :: "(world \<Rightarrow> bool) \<Rightarrow> bool" where
  "row_inv I \<longleftrightarrow> stable I \<and> (\<forall>w d. I w \<longrightarrow> t_objects d = t_objects (db w) \<longrightarrow>
     t_uploads d = t_uploads (db w) \<longrightarrow> t_parts d = t_parts (db w) \<longrightarrow> I (w\<lparr>db := d\<rparr>))"

lemma row_inv_stable: "row_inv I \<Longrightarrow> stable I"
  by (simp add: row_inv_def)

lemma keeps_exec_same:
  "row_inv I \<Longrightarrow> (\<And>t d x d'. q t d = Inr (x, d') \<Longrightarrow> t_objects d' = t_objects d \<and> t_uploads d' = t_uploads d \<and> t_parts d' = t_parts d) \<Longrightarrow>
   keeps_inv I (exec q)"
  by (rule keeps_exec) (auto simp: row_inv_def)

lemma keeps_ensure_policy [keeps]: "row_inv I \<Longrightarrow> keeps_inv I (ensure_storage_policy C)"
  unfolding ensure_storage_policy_def Let_def by (rule keeps_exec_same) (auto split: option.splits)

lemma keeps_policy_or_none [keeps]: "row_inv I \<Longrightarrow> keeps_inv I (policy_or_none C)"
  unfolding policy_or_none_def resolve_storage_policy_def by (intro keeps row_inv_stable)

lemma keeps_placement_endpoints [keeps]: "row_inv I \<Longrightarrow> keeps_inv I (resolve_placement_endpoints E C b)"
  unfolding resolve_placement_endpoints_def active_placement_endpoints_def placement_target_def
    class_for_placement_def Let_def
  by (intro keeps row_inv_stable)

lemma keeps_insert_placements [keeps]: "row_inv I \<Longrightarrow> keeps_inv I (insert_placements E t i l n es)"
  by (induction es arbitrary: n)
     (auto intro!: keeps keeps_exec_same row_inv_stable simp: Let_def insert_placement_def split: if_splits)

lemma keeps_record_placements [keeps]: "row_inv I \<Longrightarrow> keeps_inv I (record_placements E C t i l es)"
  unfolding record_placements_def by (intro keeps keeps_exec_same) auto

lemma keeps_quota_check [keeps]: "row_inv I \<Longrightarrow> keeps_inv I (check_object_write E b u x y z)"
  unfolding check_object_write_def bucket_snapshot_def user_snapshot_def Let_def by (intro keeps row_inv_stable)

lemma keeps_durability [keeps]: "row_inv I \<Longrightarrow> keeps_inv I (apply_effective_durability C b)"
  unfolding apply_effective_durability_def inherited_class_def Let_def by (intro keeps)

lemma keeps_scan_mode [keeps]: "row_inv I \<Longrightarrow> keeps_inv I (current_mode C)"
  unfolding current_mode_def resolve_malware_settings_def ensure_malware_settings_def Let_def
  by (intro keeps keeps_exec_same row_inv_stable) (auto split: option.splits)

lemma keeps_optional [keeps]: "keeps_inv I (cast_optional_uuid E s)"
  unfolding cast_optional_uuid_def by (intro keeps)

lemma db_only_optional [keeps]: "db_only (cast_optional_uuid E s)"
  unfolding cast_optional_uuid_def by (intro keeps)

lemma db_only_insert_placements [keeps]: "db_only (insert_placements E t i l n es)"
  by (induction es arbitrary: n) (auto intro!: keeps simp: Let_def)

lemma db_only_record_placements [keeps]: "db_only (record_placements E C t i l es)"
  unfolding record_placements_def by (intro keeps)

lemma row_inv_intact: "row_inv (intact E C)"
  unfolding row_inv_def using stable_intact intact_tame tame_other by blast

section \<open>Writing an object\<close>

definition unused_id :: "ext \<Rightarrow> service_config \<Rightarrow> string \<Rightarrow> world \<Rightarrow> bool" where
  "unused_id E C i w \<longleftrightarrow> (\<exists>n < rnd_pos w. i = rnd_uuid E n) \<and>
     (\<forall>b. plain_elem b \<longrightarrow> physical_path (cf_tenant C) b i \<notin> o_path ` set (t_objects (db w)) \<and>
        vacant E w (physical_path (cf_tenant C) b i))"

lemma stable_unused: "stable (unused_id E C i)"
  unfolding stable_def
proof (intro allI impI)
  fix w w' assume e: "env_step w w'" and u: "unused_id E C i w"
  have "vacant E w' p = vacant E w p" for p using env_value [OF e] by (simp add: vacant_def)
  moreover obtain n where "n < rnd_pos w" "i = rnd_uuid E n" using u by (auto simp: unused_id_def)
  moreover have "rnd_pos w \<le> rnd_pos w'" "db w' = db w" using e by (simp_all add: env_step_fields)
  ultimately show "unused_id E C i w'"
    using u unfolding unused_id_def by (metis order_less_le_trans)
qed

lemma row_inv_unused: "row_inv (unused_id E C i)"
  using stable_unused by (auto simp: row_inv_def unused_id_def)

lemma row_inv_conj: "row_inv I \<Longrightarrow> row_inv J \<Longrightarrow> row_inv (\<lambda>w. I w \<and> J w)"
  by (simp add: row_inv_def stable_conj)

lemma new_id:
  assumes "good_config E C"
  shows "triple (intact E C) (new_uuid E) (\<lambda>i w. intact E C w \<and> unused_id E C i w) (intact E C)"
  unfolding triple_def
proof (intro allI impI)
  fix w assume w: "intact E C w"
  let ?w = "w\<lparr>rnd_pos := Suc (rnd_pos w)\<rparr>"
  have "intact E C ?w" using stable_intact w by (rule stableD) (simp add: env_step_fields)
  moreover have "unused_id E C (rnd_uuid E (rnd_pos w)) ?w"
  proof -
    have "future E C w (physical_path (cf_tenant C) b (rnd_uuid E (rnd_pos w)))" if "plain_elem b" for b
      using that unfolding future_def by blast
    then show ?thesis using w by (auto simp: unused_id_def intact_def blobs_ok_def vacant_def)
  qed
  ultimately show "case new_uuid E w of (Inr i, w') \<Rightarrow> intact E C w' \<and> unused_id E C i w' | (Inl e, w') \<Rightarrow> intact E C w'"
    by (simp add: new_uuid_def)
qed

lemma unused_aside:
  assumes "good_config E C" "unused_id E C i w" "plain_elem b"
  shows "aside E C (physical_path (cf_tenant C) b i) w"
proof -
  obtain n where n: "n < rnd_pos w" "i = rnd_uuid E n" using assms(2) by (auto simp: unused_id_def)
  have "\<not> future E C w (physical_path (cf_tenant C) b i)"
  proof
    assume "future E C w (physical_path (cf_tenant C) b i)"
    then obtain m c where m: "rnd_pos w \<le> m" "plain_elem c"
        "physical_path (cf_tenant C) b i = physical_path (cf_tenant C) c (rnd_uuid E m)"
      by (auto simp: future_def)
    have "i = rnd_uuid E m"
      using physical_path_inj [OF _ assms(3) _ m(2) _ m(3)] good_configD [OF assms(1)] rnd_uuid_plain n(2) by blast
    moreover have "inj (rnd_uuid E)" using good_configD(1) [OF assms(1)] by (simp add: good_ext_def)
    ultimately show False using n m(1) by (auto dest: injD)
  qed
  moreover have "physical_path (cf_tenant C) b i \<notin> o_path ` set (t_objects (db w))"
    using assms(2,3) by (simp add: unused_id_def)
  ultimately show ?thesis unfolding aside_def by (metis image_eqI)
qed

text \<open>A blob in its place that no row refers to yet.\<close>

definition uploaded :: "ext \<Rightarrow> service_config \<Rightarrow> string list \<Rightarrow> string \<Rightarrow> bytes \<Rightarrow> world \<Rightarrow> bool" where
  "uploaded E C selected p x w \<longleftrightarrow> \<not> future E C w p \<and> p \<notin> o_path ` set (t_objects (db w)) \<and>
     held_in E (writes_far C selected) w p x \<and> no_other E x p w"

lemma stable_held_in: "stable (\<lambda>w. held_in E far w p x)"
proof -
  have "held_in E far w' p x = held_in E far w p x" if e: "env_step w w'" for w w'
    using env_value [OF e] e by (simp add: held_in_def dist_holds_def no_other_def env_step_fields)
  then show ?thesis by (simp add: stable_def)
qed

lemma row_inv_uploaded: "row_inv (uploaded E C selected p x)"
proof -
  have "uploaded E C selected p x w'" if e: "env_step w w'" and u: "uploaded E C selected p x w" for w w'
  proof -
    have "no_other E x p w' = no_other E x p w" using env_value [OF e] by (simp add: no_other_def)
    moreover have "held_in E (writes_far C selected) w' p x" using stableD [OF stable_held_in _ e] u by (simp add: uploaded_def)
    moreover have "db w' = db w" using e by (simp add: env_step_fields)
    ultimately show ?thesis using u future_mono [OF e] unfolding uploaded_def by auto
  qed
  then have "stable (uploaded E C selected p x)" by (simp add: stable_def)
  moreover have "uploaded E C selected p x (w\<lparr>db := d\<rparr>)"
    if "uploaded E C selected p x w" "t_objects d = t_objects (db w)" for w d
    using that by (simp add: uploaded_def)
  ultimately show ?thesis by (simp add: row_inv_def)
qed

lemma put_uploads:
  assumes "good_config E C" "plain_elem b"
  defines "p \<equiv> \<lambda>i. physical_path (cf_tenant C) b i"
  shows "triple (\<lambda>w. intact E C w \<and> unused_id E C i w) (store_new_blob E C selected (p i) x)
    (\<lambda>_ w. (intact E C w \<and> uploaded E C selected (p i) x w) \<and> object_path C (p i)) (intact E C)"
  unfolding triple_def
proof (intro allI impI)
  fix w assume w: "intact E C w \<and> unused_id E C i w"
  let ?p = "p i"
  have i: "plain_elem i" using w good_configD(1) [OF assms(1)] rnd_uuid_plain by (auto simp: unused_id_def)
  then have o: "object_path C ?p" using assms(2) unfolding p_def object_path_def by blast
  then have s: "sound_path E ?p" using assms(1) sound_object_path by blast
  have a: "aside E C ?p w" using unused_aside [OF assms(1) _ assms(2)] w by (simp add: p_def)
  obtain r w' where r: "store_new_blob E C selected ?p x w = (r, w')" by fastforce
  have ok: "intact E C w' \<and> aside E C ?p w'"
    using keeps_intact_file [OF assms(1) s keeps_store_new_blob [OF _ s]] w a r by (metis keeps_invD)
  have d: "db w' = db w"
    using keeps_invD [OF keeps_store_new_blob [OF unmoved_db [where P = "\<lambda>d. d = db w"] s] refl r] .
  have vac: "no_other E x ?p w" using w assms(2) by (simp add: unused_id_def p_def vacant_def no_other_def)
  have own: "no_other E x ?p w'"
  proof (cases "writes_far C selected")
    case True
    then show ?thesis
      using keeps_invD [OF tier.put_keeps_own [OF s, of C selected x] _ r] vac by simp
  next
    case False
    have "unmoved E {ApiHost} ?p (\<lambda>v. node_value E e v ?p = node_value E e w ?p)" for e
      by (rule unmoved_other_host [where P = "\<lambda>v. v = node_value E e w ?p"]) simp
    then have k: "keeps_inv (\<lambda>v. node_value E e v ?p = node_value E e w ?p) (local_put E ApiHost ?p x)" for e
      by (rule keeps_local_put) simp
    have "local_put E ApiHost ?p x w = (r, w')" using r False by (simp add: store_new_blob_tier)
    then have "node_value E e w' ?p = node_value E e w ?p" for e
      by (rule keeps_invD [OF k refl])
    then show ?thesis using vac by (simp add: no_other_def)
  qed
  have "held_in E (writes_far C selected) w' ?p x" if "r = Inr u" for u
  proof -
    have "writes_far C selected \<longrightarrow> dist_endpoints w \<noteq> []"
      using w by (auto simp: intact_def blobs_ok_def writes_far_def resolve_write_backend_def)
    then show ?thesis using tier.put_stores [OF s _ _ r [unfolded that]] vac by blast
  qed
  moreover have "?p \<notin> o_path ` set (t_objects (db w'))" using w assms(2) d by (simp add: unused_id_def p_def)
  ultimately show "case store_new_blob E C selected (p i) x w of
      (Inr _, w') \<Rightarrow> (intact E C w' \<and> uploaded E C selected (p i) x w') \<and> object_path C (p i)
    | (Inl e, w') \<Rightarrow> intact E C w'"
    using ok own r o by (cases r) (auto simp: uploaded_def aside_def)
qed

text \<open>The row a committed put has added, and its blob.\<close>

definition new_version :: "ext \<Rightarrow> service_config \<Rightarrow> string \<Rightarrow> string \<Rightarrow> bytes \<Rightarrow> object_row \<Rightarrow> world \<Rightarrow> bool" where
  "new_version E C b key x row w \<longleftrightarrow> row \<in> set (t_objects (db w)) \<and> stored_as E C row x w \<and>
     same_key b key row \<and> visible row \<and> o_latest row \<and>
     (\<forall>r \<in> set (t_objects (db w)). same_key b key r \<and> o_latest r \<longrightarrow> r = row)"

lemma row_inv_new_version: "row_inv (new_version E C b key x row)"
proof -
  have "stored_as E C r y w' = stored_as E C r y w" if e: "env_step w w'" for w w' r y
    using env_value [OF e] e by (simp add: stored_as_def held_in_def dist_holds_def no_other_def env_step_fields)
  then have "stable (new_version E C b key x row)"
    by (auto simp: stable_def new_version_def env_step_fields)
  then show ?thesis by (simp add: row_inv_def new_version_def)
qed

lemma intact_insert:
  assumes "good_config E C" "intact E C w" "uploaded E C selected p x w"
    and "object_path C p" "o_path row = p" "\<not> o_marker row" "o_deleted row = None"
    and "o_backend row = resolve_write_backend C selected" "o_size row = int (length x)" "o_etag row = hex_encode (sha256 E x)"
    and "insert_object row (db w) = Inr (row', d)"
  shows "row' = row \<and> intact E C (w\<lparr>db := d\<rparr>) \<and> row \<in> set (t_objects d) \<and> stored_as E C row x w \<and>
    (o_latest row \<longrightarrow> (\<forall>r \<in> set (t_objects d). same_key (o_bucket row) (o_key row) r \<and> o_latest r \<longrightarrow> r = row))"
proof -
  have d: "row' = row" "t_objects d = t_objects (db w) @ [row]" "t_uploads d = t_uploads (db w)" "t_parts d = t_parts (db w)"
    and new: "o_id row \<notin> o_id ` set (t_objects (db w))"
      "o_latest row \<Longrightarrow> r \<in> set (t_objects (db w)) \<Longrightarrow> o_latest r \<Longrightarrow> \<not> same_key (o_bucket row) (o_key row) r" for r
    using assms(11) by (auto simp: insert_object_def change_objects_def list_ex_iff split: if_splits)
  have backend: "o_backend row \<in> {''filesystem'', ''local'', ''distributed''}"
    using assms(8) by (simp add: resolve_write_backend_def)
  have stored: "stored_as E C row x w"
    using assms by (simp add: stored_as_def uploaded_def in_distributed_written)
  have ok: "catalog_ok C (db w)" using assms(2) by (simp add: intact_def)
  have p: "p \<notin> o_path ` set (t_objects (db w))" "\<not> future E C w p" using assms(3) by (auto simp: uploaded_def)
  have "catalog_ok C d"
    unfolding catalog_ok_def d(3,4)
  proof (intro conjI ballI impI)
    show "distinct (map o_id (t_objects d))" using catalogD(1) [OF ok] new(1) by (simp add: d)
    show "row_ok C r" if "r \<in> set (t_objects d)" for r
    proof -
      have "row_ok C row" using assms(4-7) backend by (simp add: row_ok_def)
      then show ?thesis using that catalogD(2) [OF ok] by (auto simp: d)
    qed
    show "o_id r = o_id s" if "r \<in> set (t_objects d)" "s \<in> set (t_objects d)" "o_path r = o_path s" "o_path r \<noteq> []" for r s
    proof -
      have rs: "r = row \<or> r \<in> set (t_objects (db w))" "s = row \<or> s \<in> set (t_objects (db w))"
        using that(1,2) by (auto simp: d)
      show ?thesis
      proof (cases "r = row \<or> s = row")
        case True
        then have "r = s" using rs p(1) assms(5) that(3) by (metis image_eqI)
        then show ?thesis by simp
      next
        case False
        then show ?thesis using rs that(3,4) catalogD(3) [OF ok] by blast
      qed
    qed
  qed (use catalogD(4,5) [OF ok] in blast)+
  moreover have "blobs_ok E C d (w\<lparr>db := d\<rparr>)"
    using assms(2,5) stored p by (auto simp: blobs_ok_def intact_def d)
  ultimately show ?thesis using stored new(2) by (auto simp: intact_def d)
qed

lemma triple_insert:
  assumes "good_config E C" "object_path C p" "o_path row = p" "\<not> o_marker row" "o_deleted row = None" "o_latest row"
    and "o_backend row = resolve_write_backend C selected" "o_size row = int (length x)" "o_etag row = hex_encode (sha256 E x)"
    and "same_key b key row"
  shows "triple (\<lambda>w. intact E C w \<and> uploaded E C selected p x w) (exec (\<lambda>_. insert_object row))
    (\<lambda>row' w. intact E C w \<and> new_version E C b key x row' w) (\<lambda>_. True)"
proof (rule triple_exec)
  show "stable (\<lambda>w. intact E C w \<and> uploaded E C selected p x w)"
    by (rule row_inv_stable [OF row_inv_conj [OF row_inv_intact row_inv_uploaded]])
next
  fix w y d assume w: "intact E C w \<and> uploaded E C selected p x w" "insert_object row (db w) = Inr (y, d)"
  show "(intact E C (w\<lparr>db := d\<rparr>) \<and> new_version E C b key x y (w\<lparr>db := d\<rparr>)) \<and> True"
    using intact_insert [OF assms(1) w(1) [THEN conjunct1] w(1) [THEN conjunct2] assms(2-5,7-9) w(2)] assms(4-6,10)
    by (simp add: new_version_def visible_def same_key_def)
qed simp

lemma tame_paths: "tame d d' \<Longrightarrow> o_path ` set (t_objects d') \<subseteq> o_path ` set (t_objects d)"
proof
  fix q assume t: "tame d d'" and "q \<in> o_path ` set (t_objects d')"
  then obtain r' where r': "r' \<in> set (t_objects d')" "q = o_path r'" by blast
  obtain r where "r \<in> set (t_objects d)" "quiet r r'" using tame_rows [OF t r'(1)] by blast
  then show "q \<in> o_path ` set (t_objects d)" using r'(2) by (auto simp: quiet_def)
qed

lemma uploaded_tame:
  "intact E C w \<and> uploaded E C selected p x w \<Longrightarrow> tame (db w) d \<Longrightarrow>
   intact E C (w\<lparr>db := d\<rparr>) \<and> uploaded E C selected p x (w\<lparr>db := d\<rparr>)"
  using tame_paths [of "db w" d] intact_tame [of E C w d] by (auto simp: uploaded_def)

lemma triple_insert_version:
  assumes g: "good_config E C" and b: "pg_uuid E bucket_id = Some b" and o: "object_path C location"
  shows "triple (\<lambda>w. intact E C w \<and> uploaded E C selected location (pi_body input) w)
    (insert_version E C bucket_id input location (hex_encode (sha256 E (pi_body input))) selected t)
    (\<lambda>row w. intact E C w \<and> new_version E C b (pi_key input) (pi_body input) row w) (\<lambda>_. True)"
    (is "triple ?P _ ?Q _")
proof -
  have st: "row_inv ?P" by (rule row_inv_conj [OF row_inv_intact row_inv_uploaded])
  have keep: "triple ?P m (\<lambda>_. ?P) (\<lambda>_. True)" if "keeps_inv ?P m" for m :: "'x prog"
    using triple_of_keeps [OF that] by simp
  have unset: "keeps_inv ?P (exec (\<lambda>_ d. Inr ((), change_objects (unset_latest b' k) d)))" for b' k
    by (rule keeps_exec [OF row_inv_stable [OF st]])
       (auto simp: unset_latest_def intro!: uploaded_tame tame_map)
  have rec: "triple (\<lambda>w. intact E C w \<and> new_version E C b k x row w) (record_placements E C t' i l es)
      (\<lambda>_ w. intact E C w \<and> new_version E C b k x row w) (\<lambda>_. True)" for row k x t' i l es
    by (rule triple_of_keeps [OF keeps_record_placements [OF row_inv_conj [OF row_inv_intact row_inv_new_version]]]) simp
  show ?thesis
    unfolding insert_version_def
    apply (rule triple_bnd [OF triple_cast])
     apply simp
    apply (rule triple_conj_const)
    apply (rule triple_bnd [OF keep [OF unset]])
    apply (rule triple_bnd [OF keep [OF keeps_optional]])
    apply (rule triple_bnd [OF keep [OF keeps_new_uuid [OF row_inv_stable [OF st]]]])
    apply (rule triple_bnd [OF keep [OF keeps_new_uuid [OF row_inv_stable [OF st]]]])
    apply (rule triple_bnd [OF triple_insert [OF g o, where b = b and key = "pi_key input" and x = "pi_body input"]])
           apply ((simp add: same_key_def b)+)[8]
    apply (rule triple_bnd [OF rec])
    apply (rule triple_ret)
    apply simp
    done
qed

lemma triple_value: "stable P \<Longrightarrow> (\<And>w. P w \<Longrightarrow> X w) \<Longrightarrow> triple P (external (ret x)) (\<lambda>y w. P w \<and> y = x) X"
  by (rule triple_external) auto

lemma triple_of_result: "(\<And>w. P w \<Longrightarrow> X w) \<Longrightarrow> triple P (of_result r) (\<lambda>_. P) X"
  by (cases r) (auto simp: triple_def)

lemma triple_prod: "(\<And>a b. x = (a, b) \<Longrightarrow> triple P (f a b) Q X) \<Longrightarrow> triple P (case x of (a, b) \<Rightarrow> f a b) Q X"
  by (cases x) auto

lemma lookup_bad: "pg_uuid E b = None \<Longrightarrow> lookup_existing_object E b k = fail PgBadUUID"
  by (simp add: lookup_existing_object_def cast_uuid_def attempt_def bnd_def fun_eq_iff fail_def)

lemma keeps_lookup [keeps]: "row_inv I \<Longrightarrow> keeps_inv I (lookup_existing_object E b k)"
  unfolding lookup_existing_object_def by (intro keeps row_inv_stable)

lemma db_only_insert_version: "db_only (insert_version E C b input l e s t)"
  unfolding insert_version_def by (intro keeps)

lemma triple_put_object:
  assumes g: "good_config E C"
  shows "triple (intact E C) (put_object E C bucket_id input)
    (\<lambda>md w. intact E C w \<and> (\<exists>b row. pg_uuid E bucket_id = Some b \<and> md = metadata_of row \<and>
       new_version E C b (pi_key input) (pi_body input) row w)) (intact E C)"
    (is "triple ?I _ ?Q ?I")
proof -
  let ?P = "\<lambda>i w. intact E C w \<and> unused_id E C i w"
  have row: "row_inv (?P i)" for i by (rule row_inv_conj [OF row_inv_intact row_inv_unused])
  have keep: "triple (?P i) m (\<lambda>_. ?P i) ?I" if "keeps_inv (?P i) m" for i and m :: "'x prog"
    by (rule triple_of_keeps [OF that]) simp
  have quota: "keeps_inv (?P i) (if cf_quotas C then check_object_write E bucket_id u x y z else ret ())" for i u x y z
    by (intro keeps row)
  have finish: "triple (\<lambda>w. intact E C w \<and> uploaded E C s l (pi_body input) w)
      (bnd (transaction (insert_version E C bucket_id input l (hex_encode (sha256 E (pi_body input))) s)) (\<lambda>r. ret (metadata_of r))) ?Q ?I"
    if b: "pg_uuid E bucket_id = Some b" and l: "object_path C l" for b l s
  proof (rule triple_bnd)
    show "triple (\<lambda>w. intact E C w \<and> uploaded E C s l (pi_body input) w)
        (transaction (insert_version E C bucket_id input l (hex_encode (sha256 E (pi_body input))) s))
        (\<lambda>row w. intact E C w \<and> new_version E C b (pi_key input) (pi_body input) row w) ?I"
      by (rule triple_transaction [OF row_inv_stable [OF row_inv_conj [OF row_inv_intact row_inv_uploaded]]
            triple_insert_version [OF g b l] db_only_insert_version
            row_inv_stable [OF row_inv_conj [OF row_inv_intact row_inv_new_version]]]) auto
  qed (auto intro!: triple_ret simp: b)
  show ?thesis
  proof (cases "pg_uuid E bucket_id")
    case None
    have "triple (\<lambda>w. ?I w \<and> pay = pi_body input) (of_result (validate_payload E pay n h)) (\<lambda>_. ?I) ?I" for pay n h
      by (rule triple_weaken [OF triple_of_result [where P = ?I]]) auto
    moreover have "triple (?P i) (fail PgBadUUID) R ?I" for i and R :: "'b \<Rightarrow> world \<Rightarrow> bool"
      by (rule triple_fail) simp
    ultimately show ?thesis
      unfolding put_object_def Let_def lookup_bad [OF None] bnd_fail
      by (intro triple_bnd [OF triple_value [OF stable_intact]] triple_bnd [OF _ triple_bnd [OF new_id [OF g]]]) simp_all
  next
    case (Some b)
    have b: "plain_elem bucket_id" using pg_uuid_plain [OF good_configD(1) [OF g] Some] by simp
    show ?thesis
      unfolding put_object_def Let_def
      apply (rule triple_bnd [OF triple_value [OF stable_intact]], simp)
      apply (rule triple_conj_const)
      apply (rule triple_bnd [OF triple_of_result [where P = ?I]], simp)
      apply (rule triple_bnd [OF new_id [OF g]])
      apply (rule triple_bnd [OF keep [OF keeps_lookup [OF row]]])
      apply (rule triple_prod)
      apply (rule triple_bnd [OF keep [OF quota]])
      apply (rule triple_bnd [OF keep [OF keeps_placement_endpoints [OF row]]])
      apply (rule triple_bnd [OF put_uploads [OF g b]])
      apply (rule triple_conj_const)
      apply (simp only:)
      apply (rule finish [OF Some])
      apply assumption
      done
  qed
qed

end
