(* ===== verification/Calls.thy ===== *)
theory Calls
  imports Integrity
begin

text \<open>
  What the object service promises, whatever fails: the calls of the service, of multipart
  uploads, of the scanner and of buckets are steps of one relation, and the invariants hold after
  every sequence of them. Calls run one after the other; between them the clock may advance and
  the script of failures may change.
\<close>

section \<open>Every call keeps the service intact\<close>

lemma seen_free_intact: "seen_free (intact E C)"
proof -
  have "intact E C (w\<lparr>node_seen := s\<rparr>) = intact E C w" for w s
  proof -
    let ?w = "w\<lparr>node_seen := s\<rparr>"
    have "future E C ?w q = future E C w q" "vacant E ?w q = vacant E w q" "stored_as E C r x ?w = stored_as E C r x w" for q r x
      by (simp_all add: future_def stored_as_def held_in_def dist_holds_def no_other_def vacant_def)
    then show ?thesis by (simp add: intact_def blobs_ok_def)
  qed
  then show ?thesis by (simp add: seen_free_def stable_intact)
qed

lemma keeps_put_object: "good_config E C \<Longrightarrow> keeps_inv (intact E C) (put_object E C b input)"
  unfolding keeps_inv_triple by (rule triple_weaken [OF triple_put_object]) auto

lemma keeps_select_object [keeps]: "row_inv I \<Longrightarrow> keeps_inv I (select_object E b k v p)"
  unfolding select_object_def by (intro keeps row_inv_stable)

lemma keeps_get_version: "keeps_inv (intact E C) (get_version E C b k v)"
  unfolding get_version_def by (intro keeps row_inv_intact stable_intact seen_free_intact)

lemma keeps_copy_object: "good_config E C \<Longrightarrow> keeps_inv (intact E C) (copy_object E C sb sk sv b input)"
  unfolding copy_object_def by (intro keeps keeps_get_version keeps_put_object)

lemma keeps_intact_change:
  "(\<And>r. quiet r (f r)) \<Longrightarrow> keeps_inv (intact E C) (exec (\<lambda>_ d. Inr (x d, change_objects (map f) d)))"
  by (rule keeps_intact_exec) (auto intro: tame_map)

lemma keeps_unset: "keeps_inv (intact E C) (exec (\<lambda>_ d. Inr ((), change_objects (unset_latest b k) d)))"
  unfolding unset_latest_def by (rule keeps_intact_change) simp

lemma tame_mark: "mark_latest i d = Inr (u, d') \<Longrightarrow> tame d d'"
proof -
  assume m: "mark_latest i d = Inr (u, d')"
  have "d' = change_objects (map (\<lambda>r. if o_id r = i then r\<lparr>o_latest := True\<rparr> else r)) d"
    using m by (auto simp: mark_latest_def Let_def change_objects_def split: if_splits)
  then show ?thesis by (auto intro: tame_map)
qed

lemma keeps_promote: "keeps_inv (intact E C) (exec (\<lambda>_. promote_newest b k p))"
proof (rule keeps_intact_exec)
  fix t d x d' assume "promote_newest b k p d = Inr (x, d')"
  then show "tame d d'"
    by (auto simp: promote_newest_def tame_other split: option.splits sum.splits prod.splits dest: tame_mark)
qed

lemma future_object: "good_config E C \<Longrightarrow> future E C w q \<Longrightarrow> object_path C q"
  unfolding future_def object_path_def good_config_def using rnd_uuid_plain by blast

lemma catalog_marker:
  assumes "insert_object row d = Inr (row', d')" "o_marker row" "o_deleted row = None" "o_path row = []"
    and "o_expire row = None" "o_scan row = ''clean''" "intact E C w" "db w = d" "good_config E C"
  shows "intact E C (w\<lparr>db := d'\<rparr>)"
proof -
  have d: "t_objects d' = t_objects d @ [row]" "t_uploads d' = t_uploads d" "t_parts d' = t_parts d"
    and new: "o_id row \<notin> o_id ` set (t_objects d)"
    using assms(1) by (auto simp: insert_object_def change_objects_def list_ex_iff split: if_splits)
  have ok: "catalog_ok C d" using assms(7,8) by (simp add: intact_def)
  have row: "row_ok C row" using assms by (simp add: row_ok_def)
  have "catalog_ok C d'"
    unfolding catalog_ok_def d(2,3)
  proof (intro conjI ballI impI)
    show "distinct (map o_id (t_objects d'))" using catalogD(1) [OF ok] new by (simp add: d)
    show "row_ok C r" if "r \<in> set (t_objects d')" for r using that row catalogD(2) [OF ok] by (auto simp: d)
    show "o_id r = o_id s" if "r \<in> set (t_objects d')" "s \<in> set (t_objects d')" "o_path r = o_path s" "o_path r \<noteq> []" for r s
    proof -
      have "r \<in> set (t_objects d)" "s \<in> set (t_objects d)" using that assms(4) by (auto simp: d)
      then show ?thesis using that(3,4) catalogD(3) [OF ok] by blast
    qed
  qed (use catalogD(4,5) [OF ok] in blast)+
  moreover have "\<not> future E C w []"
    using future_object [OF assms(9), of w "[]"] sound_object_path [OF assms(9), of "[]"]
    by (auto simp: sound_path_def store_path_def)
  then have "blobs_ok E C d' (w\<lparr>db := d'\<rparr>)"
    using assms(2,4,7,8) by (auto simp: blobs_ok_def intact_def visible_def d)
  ultimately show ?thesis by (simp add: intact_def)
qed

lemma keeps_delete_object:
  assumes "good_config E C"
  shows "keeps_inv (intact E C) (delete_object E b k)"
proof -
  have ins: "keeps_inv (intact E C) (exec (\<lambda>_. insert_object
      \<lparr>o_id = i, o_bucket = b', o_key = k, o_version = v, o_latest = True, o_marker = True,
       o_size = 0, o_etag = [], o_ctype = ct, o_cache = [], o_disp = [], o_enc = [], o_meta = Map.empty,
       o_tags = Map.empty, o_path = [], o_backend = bk, o_owner = None, o_retain = None, o_expire = None,
       o_deleted = None, o_scan = ''clean'', o_hold = False, o_created = t\<rparr>))" for i b' k v ct bk t
    by (rule keeps_exec [OF stable_intact]) (rule catalog_marker [OF _ _ _ _ _ _ _ refl assms], auto)
  show ?thesis
    unfolding delete_object_def
    by (intro keeps keeps_transaction stable_intact keeps_unset ins)
qed

lemma keeps_restore_latest: "keeps_inv (intact E C) (restore_latest E b k)"
  unfolding restore_latest_def
  by (intro keeps keeps_transaction stable_intact keeps_unset keeps_promote)

lemma keeps_update_object:
  "(\<And>r. quiet r (f r)) \<Longrightarrow> keeps_inv (intact E C) (update_object E b k v p f)"
  unfolding update_object_def Let_def
  by (intro keeps keeps_intact_exec) (auto intro!: tame_map split: option.splits)

lemma keeps_set_legal_hold: "keeps_inv (intact E C) (set_legal_hold E b k v h)"
  unfolding set_legal_hold_def by (rule keeps_update_object) simp

lemma keeps_put_tags: "keeps_inv (intact E C) (put_tags E b k v tg)"
  unfolding put_tags_def by (rule keeps_update_object) simp

lemma keeps_lifecycle: "keeps_inv (intact E C) (apply_lifecycle_expirations t)"
  unfolding apply_lifecycle_expirations_def
proof (rule keeps_intact_exec)
  fix s d x d' assume c: "catalog_ok C d"
    and "Inr (int (length (filter (expires t) (t_objects d))),
      change_objects (map (\<lambda>r. if expires t r then r\<lparr>o_deleted := Some t\<rparr> else r)) d) = (Inr (x, d') :: err + _)"
  moreover have "quiet r (r\<lparr>o_deleted := Some t\<rparr>)" if "r \<in> set (t_objects d)" "expires t r" for r
    using that catalogD(2) [OF c that(1)] by (auto simp: quiet_def visible_def row_ok_def expires_def)
  ultimately show "tame d d'" by (auto intro!: tame_map)
qed

lemma keeps_delete_bucket: "keeps_inv (intact E C) (delete_bucket name)"
  unfolding delete_bucket_def
  by (intro keeps stable_intact keeps_intact_exec) (auto simp: tame_drop)

subsection \<open>Removing versions\<close>

text \<open>A path that no live version uses and that is not to be used again can be deleted.\<close>

lemma keeps_store_delete_aside:
  "good_config E C \<Longrightarrow> sound_path E p \<Longrightarrow>
   keeps_inv (\<lambda>w. intact E C w \<and> aside E C p w) (store_delete E C backend p)"
  by (rule keeps_intact_file [OF _ _ keeps_store_delete])

lemma row_path_aside:
  assumes "intact E C w" "r \<in> set (t_objects (db w))" "o_path r \<noteq> []"
    and "\<forall>s \<in> set (t_objects d). visible s \<longrightarrow> s \<in> set (t_objects (db w)) \<and> o_id s \<noteq> o_id r"
  shows "aside E C (o_path r) (w\<lparr>db := d\<rparr>)"
proof -
  have "catalog_ok C (db w)" using assms(1) by (simp add: intact_def)
  then have "o_path s \<noteq> o_path r" if "s \<in> set (t_objects d)" "visible s" for s
    using catalogD(3) [of C "db w" s r] assms that by metis
  moreover have "\<not> future E C w (o_path r)" using assms(1,2) by (auto simp: intact_def blobs_ok_def)
  ultimately show ?thesis by (simp add: aside_def)
qed

lemma aside_tame: "tame (db w) d \<Longrightarrow> aside E C p w \<Longrightarrow> aside E C p (w\<lparr>db := d\<rparr>)"
proof -
  assume t: "tame (db w) d" and a: "aside E C p w"
  have "o_path r' \<noteq> p" if r': "r' \<in> set (t_objects d)" "visible r'" for r'
  proof -
    obtain r where "r \<in> set (t_objects (db w))" "quiet r r'" using tame_rows [OF t r'(1)] by blast
    then show ?thesis using a r'(2) by (auto simp: aside_def quiet_def)
  qed
  then show ?thesis using a by (simp add: aside_def)
qed

lemma keeps_aside_exec:
  "(\<And>t d x d'. catalog_ok C d \<Longrightarrow> q t d = Inr (x, d') \<Longrightarrow> tame d d') \<Longrightarrow>
   keeps_inv (\<lambda>w. intact E C w \<and> aside E C p w) (exec q)"
  by (rule keeps_exec [OF stable_conj [OF stable_intact stable_aside]])
     (use intact_tame aside_tame in \<open>auto simp: intact_def\<close>)

lemma tame_unlatest: "tame d (change_objects (map (\<lambda>r. if same_key b k r then r\<lparr>o_latest := False\<rparr> else r)) d)"
  by (rule tame_map) simp

lemma tame_promote: "promote_newest b k p d = Inr (x, d') \<Longrightarrow> tame d d'"
  by (auto simp: promote_newest_def tame_other split: option.splits sum.splits prod.splits dest: tame_mark)

text \<open>What \<open>DeleteVersion\<close> has found is gone after its statements, and its blob with no reader.\<close>

definition orphaned :: "ext \<Rightarrow> service_config \<Rightarrow> string \<Rightarrow> world \<Rightarrow> bool" where
  "orphaned E C p w \<longleftrightarrow> intact E C w \<and> (p \<noteq> [] \<longrightarrow> sound_path E p \<and> aside E C p w)"

lemma stable_orphaned: "stable (orphaned E C p)"
  using stableD [OF stable_intact] stableD [OF stable_aside] unfolding stable_def orphaned_def by blast

lemma keeps_orphaned_exec:
  assumes "\<And>t d x d'. catalog_ok C d \<Longrightarrow> q t d = Inr (x, d') \<Longrightarrow> tame d d'"
  shows "keeps_inv (orphaned E C p) (exec q)"
proof -
  have "keeps_inv (intact E C) (exec q)" by (rule keeps_intact_exec) (rule assms)
  moreover have "keeps_inv (\<lambda>w. intact E C w \<and> aside E C p w) (exec q)" by (rule keeps_aside_exec) (rule assms)
  ultimately show ?thesis unfolding orphaned_def keeps_inv_def by blast
qed

lemma triple_remove:
  assumes "good_config E C"
  shows "triple (\<lambda>w. intact E C w \<and> row \<in> set (t_objects (db w)))
    (exec (\<lambda>_ d. Inr ((), remove_objects (\<lambda>r. o_id r = o_id row) d)))
    (\<lambda>_. orphaned E C (o_path row)) (\<lambda>_. True)"
proof (rule triple_exec)
  show "stable (\<lambda>w. intact E C w \<and> row \<in> set (t_objects (db w)))"
    by (intro stable_conj stable_intact stable_db)
next
  fix w x d
  assume w: "intact E C w \<and> row \<in> set (t_objects (db w))"
    and "Inr ((), remove_objects (\<lambda>r. o_id r = o_id row) (db w)) = (Inr (x, d) :: err + _)"
  then have d: "d = remove_objects (\<lambda>r. o_id r = o_id row) (db w)" by simp
  have rows: "t_objects d = filter (\<lambda>r. o_id r \<noteq> o_id row) (t_objects (db w))"
    by (simp add: d remove_objects_def Let_def)
  have "intact E C (w\<lparr>db := d\<rparr>)" using w intact_tame tame_remove d by blast
  moreover have "aside E C (o_path row) (w\<lparr>db := d\<rparr>)" if "o_path row \<noteq> []"
    using w that by (intro row_path_aside) (auto simp: rows)
  moreover have "sound_path E (o_path row)" if "o_path row \<noteq> []"
  proof -
    have "row_ok C row" using w catalogD(2) by (auto simp: intact_def)
    then show ?thesis using that sound_object_path [OF assms] by (auto simp: row_ok_def split: if_splits)
  qed
  ultimately show "orphaned E C (o_path row) (w\<lparr>db := d\<rparr>) \<and> True" by (simp add: orphaned_def)
qed simp

lemma triple_find:
  assumes "stable P"
  shows "triple P (attempt (query (\<lambda>d. case find p (t_objects d) of None \<Rightarrow> Inl PgNoRows | Some r \<Rightarrow> Inr r)))
    (\<lambda>r w. case r of Inl _ \<Rightarrow> P w | Inr row \<Rightarrow> P w \<and> row \<in> set (t_objects (db w)) \<and> p row) X"
  by (rule triple_attempt_both, rule triple_query [OF assms]) (auto split: option.splits dest: find_SomeD)

lemma triple_remove_version:
  assumes "good_config E C"
  shows "triple (\<lambda>w. intact E C w \<and> row \<in> set (t_objects (db w))) (remove_version b key row)
    (\<lambda>(path, backend). orphaned E C path) (\<lambda>_. True)"
proof -
  let ?R = "\<lambda>w. intact E C w \<and> row \<in> set (t_objects (db w))"
  have keepR: "triple ?R m (\<lambda>_. ?R) (\<lambda>_. True)" if "keeps_inv ?R m" for m :: "'x prog"
    by (rule triple_of_keeps [OF that]) simp
  have keepO: "triple (orphaned E C p) m (\<lambda>_. orphaned E C p) (\<lambda>_. True)" if "keeps_inv (orphaned E C p) m" for p and m :: "'x prog"
    by (rule triple_of_keeps [OF that]) simp
  have rest: "keeps_inv (orphaned E C p) (if l then
       bnd (exec (\<lambda>_ d. Inr ((), change_objects (map (\<lambda>r. if same_key b key r then r\<lparr>o_latest := False\<rparr> else r)) d))) (\<lambda>_.
       bnd (exec (\<lambda>_. promote_newest b key (\<lambda>_. True))) (\<lambda>_. ret ())) else ret ())" for p l
    by (intro keeps keeps_orphaned_exec) (auto intro: tame_unlatest tame_promote)
  show ?thesis
    unfolding remove_version_def
    apply (rule triple_bnd [OF keepR [OF keeps_guard]])
    apply (rule triple_bnd [OF keepR [OF keeps_now]])
    apply (rule triple_bnd [OF keepR [OF keeps_guard]])
    apply (rule triple_bnd [OF triple_remove [OF assms]])
    apply (rule triple_bnd [OF keepO [OF rest]])
    apply (rule triple_ret)
    apply simp
    done
qed

lemma triple_found:
  assumes "\<And>e. triple P (f (Inl e)) Q X" "\<And>r. triple (R r) (f (Inr r)) Q X"
  shows "triple (\<lambda>w. case x of Inl _ \<Rightarrow> P w | Inr r \<Rightarrow> R r w) (f x) Q X"
  using assms by (cases x) auto

lemma triple_delete_found:
  assumes "good_config E C"
  shows "triple (intact E C)
      (bnd (cast_uuid E bucket_id) (\<lambda>b. bnd (cast_uuid E version_id) (\<lambda>v.
       bnd (attempt (query (\<lambda>d. case find (\<lambda>r. same_key b key r \<and> o_version r = v \<and> o_deleted r = None)
              (t_objects d) of None \<Rightarrow> Inl PgNoRows | Some r \<Rightarrow> Inr r))) (\<lambda>found. case found of
         Inl e \<Rightarrow> fail (if e = PgNoRows then ErrVersionNotFound else e)
       | Inr row \<Rightarrow> remove_version b key row)))) (\<lambda>(path, backend). orphaned E C path) (\<lambda>_. True)"
  apply (rule triple_bnd [OF triple_cast], simp)
  apply (rule triple_conj_const)
  apply (rule triple_bnd [OF triple_cast], simp)
  apply (rule triple_conj_const)
  apply (rule triple_bnd [OF triple_find [OF stable_intact]])
  apply (rule triple_found)
   apply (simp add: triple_def)
  apply (simp only: sum.case)
  apply (rule triple_weaken [OF triple_remove_version [OF assms]])
    apply auto
  done

lemma db_only_remove_version [keeps]: "db_only (remove_version b key row)"
  unfolding remove_version_def by (intro keeps)

lemma keeps_delete_version:
  assumes "good_config E C"
  shows "keeps_inv (intact E C) (delete_version E C bucket_id key version_id)"
proof -
  have gone: "triple (orphaned E C p) (if p \<noteq> [] then store_delete E C backend p else ret ()) (\<lambda>_. intact E C) (intact E C)" for p backend
  proof (cases "sound_path E p \<and> p \<noteq> []")
    case True
    have t: "triple (\<lambda>w. intact E C w \<and> aside E C p w) (store_delete E C backend p)
        (\<lambda>_ w. intact E C w \<and> aside E C p w) (intact E C)"
      using True by (intro triple_of_keeps keeps_store_delete_aside assms) auto
    have "triple (orphaned E C p) (store_delete E C backend p) (\<lambda>_. intact E C) (intact E C)"
      by (rule triple_weaken [OF t]) (use True in \<open>simp_all add: orphaned_def\<close>)
    then show ?thesis using True by simp
  next
    case False
    then have "p = [] \<or> (\<forall>w. \<not> orphaned E C p w)" by (auto simp: orphaned_def)
    then show ?thesis by (auto simp: triple_def) (simp add: orphaned_def)
  qed
  have tx: "triple (intact E C) (transaction (\<lambda>t.
       bnd (cast_uuid E bucket_id) (\<lambda>b. bnd (cast_uuid E version_id) (\<lambda>v.
       bnd (attempt (query (\<lambda>d. case find (\<lambda>r. same_key b key r \<and> o_version r = v \<and> o_deleted r = None)
              (t_objects d) of None \<Rightarrow> Inl PgNoRows | Some r \<Rightarrow> Inr r))) (\<lambda>found. case found of
         Inl e \<Rightarrow> fail (if e = PgNoRows then ErrVersionNotFound else e)
       | Inr row \<Rightarrow> remove_version b key row))))) (\<lambda>(path, backend). orphaned E C path) (intact E C)"
    by (rule triple_transaction [OF stable_intact triple_delete_found [OF assms]])
       (auto intro!: keeps stable_orphaned simp: orphaned_def split: prod.splits)
  show ?thesis
    unfolding keeps_inv_triple delete_version_def
    apply (rule triple_bnd [OF triple_of_keeps [OF keeps_guard]], simp)
    apply (rule triple_bnd [OF tx])
    subgoal for u x by (cases x) (simp add: gone)
    done
qed

lemma unmoved_aside: "unmoved E H p (aside E C q)"
  unfolding unmoved_def using stable_aside by (simp add: aside_def future_def)

subsection \<open>Purging\<close>

definition purgeable :: "ext \<Rightarrow> service_config \<Rightarrow> (string \<times> string) list \<Rightarrow> world \<Rightarrow> bool" where
  "purgeable E C items w \<longleftrightarrow> intact E C w \<and> (\<forall>x \<in> set items. sound_path E (snd x) \<and> aside E C (snd x) w)"

lemma stable_purgeable: "stable (purgeable E C items)"
  using stableD [OF stable_intact] stableD [OF stable_aside] unfolding stable_def purgeable_def by blast

lemma purgeable_tame: "purgeable E C items w \<Longrightarrow> tame (db w) d \<Longrightarrow> purgeable E C items (w\<lparr>db := d\<rparr>)"
  using intact_tame aside_tame unfolding purgeable_def by blast

lemma keeps_purge_file:
  assumes "good_config E C" "x \<in> set items"
  shows "keeps_inv (purgeable E C items) (store_delete E C backend (snd x))"
proof (cases "sound_path E (snd x)")
  case True
  have "keeps_inv (\<lambda>w. (intact E C w \<and> aside E C (snd x) w) \<and>
      (\<forall>y \<in> set items. sound_path E (snd y) \<and> aside E C (snd y) w)) (store_delete E C backend (snd x))"
    by (intro keeps_conj keeps_store_delete_aside assms True keeps_ball keeps_conj_const
        keeps_store_delete [OF unmoved_aside True])
  then show ?thesis using assms(2) unfolding keeps_inv_def purgeable_def by blast
next
  case False
  then show ?thesis using assms(2) by (auto simp: keeps_inv_def purgeable_def)
qed

lemma keeps_purge_one:
  assumes "good_config E C" "x \<in> set items"
  shows "keeps_inv (purgeable E C items) (purge_one E C cutoff x)"
proof -
  have "keeps_inv (purgeable E C items) (exec (\<lambda>_ d. Inr (n d, remove_objects p d)))" for n :: "database \<Rightarrow> int" and p
    by (rule keeps_exec [OF stable_purgeable]) (auto intro: purgeable_tame tame_remove)
  then show ?thesis
    using keeps_purge_file [OF assms] unfolding purge_one_def lookup_stored_backend_def
    by (cases x) (auto intro!: keeps stable_purgeable)
qed

lemma deleted_aside:
  assumes g: "good_config E C" and i: "intact E C w" and r: "r \<in> set (t_objects (db w))" "o_deleted r \<noteq> None"
  shows "sound_path E (o_path r) \<and> aside E C (o_path r) w"
proof -
  have ok: "catalog_ok C (db w)" using i by (simp add: intact_def)
  have o: "object_path C (o_path r)" using catalogD(2) [OF ok r(1)] r(2) by (auto simp: row_ok_def split: if_splits)
  then have s: "sound_path E (o_path r)" by (rule sound_object_path [OF g])
  then have ne: "o_path r \<noteq> []" by (auto simp: sound_path_def store_path_def)
  have "o_id s \<noteq> o_id r" if "s \<in> set (t_objects (db w))" "visible s" for s
    using same_id_same_row [OF ok that(1) r(1)] that(2) r(2) by (auto simp: visible_def)
  then have "aside E C (o_path r) (w\<lparr>db := db w\<rparr>)" by (intro row_path_aside i r ne) auto
  then show ?thesis using s by simp
qed

lemma keeps_purge:
  assumes "good_config E C"
  shows "keeps_inv (intact E C) (purge_deleted_before E C cutoff)"
proof -
  have read: "triple (intact E C) (query (\<lambda>d. Inr (map (\<lambda>r. (o_id r, o_path r)) (filter (deleted_by cutoff) (t_objects d)))))
      (\<lambda>items. purgeable E C items) (intact E C)"
  proof (rule triple_query [OF stable_intact])
    fix w x assume i: "intact E C w"
      and "(Inr (map (\<lambda>r. (o_id r, o_path r)) (filter (deleted_by cutoff) (t_objects (db w)))) :: err + _) = Inr x"
    then have x: "x = map (\<lambda>r. (o_id r, o_path r)) (filter (deleted_by cutoff) (t_objects (db w)))" by simp
    have "sound_path E (o_path r) \<and> aside E C (o_path r) w"
      if "r \<in> set (t_objects (db w))" "deleted_by cutoff r" for r
      using that(2) by (intro deleted_aside [OF assms i that(1)]) (auto simp: deleted_by_def split: option.splits)
    then show "purgeable E C x w" using i by (auto simp: purgeable_def x)
  qed
  have "triple (purgeable E C items) (count_each (purge_one E C cutoff) n items) (\<lambda>_. intact E C) (intact E C)" for items n
    by (rule triple_count_each [where P = "purgeable E C"])
       (auto intro!: triple_weaken [OF keeps_purge_one [OF assms, unfolded keeps_inv_triple]] simp: purgeable_def)
  then show ?thesis
    unfolding keeps_inv_triple purge_deleted_before_def by (rule triple_bnd [OF read])
qed

subsection \<open>Scanning\<close>

definition scannable :: "candidate list \<Rightarrow> database \<Rightarrow> bool" where
  "scannable items d \<longleftrightarrow> (\<forall>c \<in> set items. \<forall>r \<in> set (t_objects d). o_id r = ca_id c \<longrightarrow> \<not> o_marker r)"

lemma keeps_verdict:
  assumes "c \<in> set items"
  shows "keeps_inv (\<lambda>w. intact E C w \<and> scannable items (db w)) (write_verdict (ca_id c) v mode)"
proof -
  let ?f = "\<lambda>t r. if o_id r = ca_id c then r\<lparr>o_scan := verdict_text v,
      o_deleted := (case if v = Infected \<and> mode = ''enforcement'' then Some t else None of Some x \<Rightarrow> Some x | None \<Rightarrow> o_deleted r)\<rparr> else r"
  have f: "intact E C (w\<lparr>db := change_objects (map (?f t)) (db w)\<rparr>) \<and>
      scannable items (change_objects (map (?f t)) (db w))"
    if "intact E C w \<and> scannable items (db w)" for w t
  proof -
    have "quiet r (?f t r)" if "r \<in> set (t_objects (db w))" for r
      using \<open>intact E C w \<and> scannable items (db w)\<close> that assms by (auto simp: scannable_def quiet_def visible_def split: option.splits)
    then have "tame (db w) (change_objects (map (?f t)) (db w))" by (rule tame_map)
    then have "intact E C (w\<lparr>db := change_objects (map (?f t)) (db w)\<rparr>)" using that intact_tame by blast
    moreover have "scannable items (change_objects (map (?f t)) (db w))"
      using that by (auto simp: scannable_def change_objects_def split: if_splits)
    ultimately show ?thesis by blast
  qed
  show ?thesis
    unfolding write_verdict_def Let_def
    by (intro keeps keeps_exec stable_conj stable_intact stable_db) (use f in auto)
qed

lemma keeps_apply_verdict:
  assumes "c \<in> set items"
  shows "keeps_inv (\<lambda>w. intact E C w \<and> scannable items (db w)) (apply_verdict E c v message mode)"
proof -
  let ?P = "\<lambda>w. intact E C w \<and> scannable items (db w)"
  have "row_inv (\<lambda>w. scannable items (db w))"
    unfolding row_inv_def by (intro conjI stable_db) (simp add: scannable_def)
  then have st: "row_inv ?P" by (intro row_inv_conj row_inv_intact)
  show ?thesis
    unfolding apply_verdict_def record_audit_def emit_def matching_targets_def insert_delivery_def
    by (intro keeps keeps_verdict [OF assms] keeps_exec_same [OF st] row_inv_stable [OF st]) (auto split: if_splits)
qed

lemma keeps_process_pending:
  "keeps_inv (intact E C) (process_pending E C message daemon s updated limit)"
proof -
  have read: "triple (intact E C) (query (\<lambda>d. Inr (pending_candidates updated n d)))
      (\<lambda>items w. intact E C w \<and> scannable items (db w)) (intact E C)" for n
  proof (rule triple_query [OF stable_intact])
    fix w x assume i: "intact E C w" and "(Inr (pending_candidates updated n (db w)) :: err + _) = Inr x"
    moreover have ok: "catalog_ok C (db w)" using i by (simp add: intact_def)
    have "\<not> o_marker r" if mem: "c \<in> set (pending_candidates updated n (db w))" and r: "r \<in> set (t_objects (db w))" "o_id r = ca_id c" for c r
    proof -
      obtain r' where r': "r' \<in> set (t_objects (db w))" "o_scan r' = verdict_text Pending" "ca_id c = o_id r'"
      proof -
        obtain r' where "r' \<in> set (take (nat n) (sort_key updated (filter (\<lambda>r. o_deleted r = None \<and>
            o_scan r = verdict_text Pending \<and> bucket_of_object (db w) r \<noteq> None) (t_objects (db w)))))"
            and c: "ca_id c = o_id r'"
          using mem by (auto simp: pending_candidates_def)
        then show ?thesis using that c by (auto dest!: in_set_takeD)
      qed
      then have "r = r'" using same_id_same_row [OF ok r(1)] r(2) by simp
      then show ?thesis using r' catalogD(2) [OF ok] by (auto simp: row_ok_def)
    qed
    ultimately show "intact E C w \<and> scannable x (db w)" by (auto simp: scannable_def)
  qed
  have one: "triple (\<lambda>w. intact E C w \<and> scannable (c # items) (db w)) (scan_candidate E C message daemon sc c)
      (\<lambda>_ w. intact E C w \<and> scannable items (db w)) (intact E C)" for sc c items
  proof -
    let ?P = "\<lambda>w. intact E C w \<and> scannable (c # items) (db w)"
    have "row_inv (\<lambda>w. scannable (c # items) (db w))"
      unfolding row_inv_def by (intro conjI stable_db) (simp add: scannable_def)
    then have st: "row_inv ?P" by (intro row_inv_conj row_inv_intact)
    then have "stable ?P" by (rule row_inv_stable)
    then have sf: "seen_free ?P" using seen_free_intact [of E C] by (simp add: seen_free_def)
    have "keeps_inv ?P (scan daemon sc x)" for x
      unfolding scan_def clam_scan_def Let_def
      by (cases sc) (auto intro!: keeps keeps_external row_inv_stable [OF st])
    then have "keeps_inv ?P (scan_candidate E C message daemon sc c)"
      unfolding scan_candidate_def Let_def prod.case_distrib by (intro keeps st sf) (auto intro!: keeps keeps_apply_verdict split: sum.split)
    then show ?thesis
      unfolding keeps_inv_triple by (rule triple_weaken) (auto simp: scannable_def)
  qed
  have "triple (\<lambda>w. intact E C w \<and> scannable items (db w)) (count_each (scan_candidate E C message daemon sc) n items) (\<lambda>_. intact E C) (intact E C)" for sc n items
    by (rule triple_count_each [where P = "\<lambda>items w. intact E C w \<and> scannable items (db w)", OF one]) simp
  then have "triple (intact E C) (bnd (query (\<lambda>d. Inr (pending_candidates updated n d))) (count_each (scan_candidate E C message daemon sc) 0))
      (\<lambda>_. intact E C) (intact E C)" for n sc
    by (rule triple_bnd [OF read])
  then show ?thesis
    unfolding process_pending_def by (auto simp: keeps_inv_triple Let_def intro!: triple_ret split: option.splits)
qed

subsection \<open>Migration\<close>

text \<open>One row is singled out; the others keep their blobs whatever happens to its file.\<close>

definition without :: "string \<Rightarrow> database \<Rightarrow> database" where
  "without i d = d\<lparr>t_objects := filter (\<lambda>r. o_id r \<noteq> i) (t_objects d)\<rparr>"

lemma without_rows: "t_objects (without i d) = filter (\<lambda>r. o_id r \<noteq> i) (t_objects d)"
  by (simp add: without_def)

lemma tame_without: "tame d (without i d)"
  unfolding tame_def without_def by (auto intro!: exI [of _ "\<lambda>r. r"])

lemma blobs_split:
  assumes "catalog_ok C d" "r \<in> set (t_objects d)" "visible r"
  shows "blobs_ok E C d w \<longleftrightarrow>
    blobs_ok E C (without (o_id r) d) w \<and> (\<exists>x. stored_as E C r x w) \<and> \<not> future E C w (o_path r)"
proof -
  have rows: "set (t_objects d) = insert r (set (t_objects (without (o_id r) d)))"
    using assms(2) same_id_same_row [OF assms(1) _ assms(2)] by (auto simp: without_rows)
  show ?thesis using assms(3) unfolding blobs_ok_def rows by auto
qed

text \<open>The row being migrated: \<open>x\<close> is its blob.\<close>

definition migrating :: "ext \<Rightarrow> service_config \<Rightarrow> object_row \<Rightarrow> bytes \<Rightarrow> world \<Rightarrow> bool" where
  "migrating E C r x w \<longleftrightarrow> intact E C w \<and> r \<in> set (t_objects (db w)) \<and> visible r \<and> stored_as E C r x w"

lemma stable_stored_as: "stable (stored_as E C r x)"
proof -
  have "stored_as E C r x w' = stored_as E C r x w" if e: "env_step w w'" for w w'
    using env_value [OF e] e by (simp add: stored_as_def held_in_def dist_holds_def no_other_def env_step_fields)
  then show ?thesis by (simp add: stable_def)
qed

lemma stable_migrating: "stable (migrating E C r x)"
  using stableD [OF stable_intact] stableD [OF stable_stored_as]
  unfolding stable_def migrating_def by (metis env_step_fields)

lemma row_inv_migrating: "row_inv (migrating E C r x)"
  unfolding row_inv_def
  using stable_migrating row_inv_intact [of E C] by (auto simp: row_inv_def migrating_def)

lemma seen_free_migrating: "seen_free (migrating E C r x)"
proof -
  have "stored_as E C r x (w\<lparr>node_seen := s\<rparr>) = stored_as E C r x w" for w s
    by (simp add: stored_as_def held_in_def dist_holds_def no_other_def)
  then show ?thesis using seen_free_intact [of E C] stable_migrating by (simp add: seen_free_def migrating_def)
qed

lemma migrating_path:
  assumes "good_config E C" "migrating E C r x w"
  shows "sound_path E (o_path r)" "catalog_ok C (db w)"
proof -
  show ok: "catalog_ok C (db w)" using assms(2) by (simp add: migrating_def intact_def)
  have "object_path C (o_path r)"
    using catalogD(2) [OF ok, of r] assms(2) by (auto simp: migrating_def row_ok_def visible_def split: if_splits)
  then show "sound_path E (o_path r)" by (rule sound_object_path [OF assms(1)])
qed

text \<open>
  A program that leaves everything but the file of the row alone, and after which the row still
  has its blob, keeps the service intact.
\<close>

lemma migrating_file:
  assumes g: "good_config E C" and m: "migrating E C r x w"
    and keep: "\<And>I. unmoved E UNIV (o_path r) I \<Longrightarrow> keeps_inv I prog" and p: "prog w = (res, w')"
    and stored: "stored_as E C r x w'"
  shows "migrating E C r x w'"
proof -
  let ?d = "db w" and ?p = "o_path r"
  note ok = migrating_path(2) [OF g m] and s = migrating_path(1) [OF g m]
  have r: "r \<in> set (t_objects ?d)" "visible r" using m by (auto simp: migrating_def)
  have ne: "?p \<noteq> []" using s by (auto simp: sound_path_def store_path_def)
  have "catalog_ok C (without (o_id r) ?d)" using ok tame_without catalog_tame by blast
  moreover have "\<forall>q \<in> set (t_objects (without (o_id r) ?d)). visible q \<longrightarrow> o_path q \<noteq> ?p"
    using catalogD(3) [OF ok _ r(1)] ne by (auto simp: without_rows)
  ultimately have "unmoved E UNIV ?p (\<lambda>v. db v = ?d \<and> \<not> future E C v ?p \<and> blobs_ok E C (without (o_id r) ?d) v)"
    by (intro unmoved_conj unmoved_db [where P = "\<lambda>d. d = ?d"] unmoved_blobs g s)
  then have k: "keeps_inv (\<lambda>v. db v = ?d \<and> \<not> future E C v ?p \<and> blobs_ok E C (without (o_id r) ?d) v) prog"
    by (rule keep)
  have "blobs_ok E C ?d w" using m by (simp add: migrating_def intact_def)
  then have "db w = ?d \<and> \<not> future E C w ?p \<and> blobs_ok E C (without (o_id r) ?d) w"
    using blobs_split [OF ok r] by blast
  then have after: "db w' = ?d \<and> \<not> future E C w' ?p \<and> blobs_ok E C (without (o_id r) ?d) w'"
    by (rule keeps_invD [OF k _ p])
  then have "blobs_ok E C ?d w'" using blobs_split [OF ok r] stored by blast
  then show ?thesis using after ok r stored by (simp add: migrating_def intact_def)
qed

lemma migrate_put:
  assumes g: "good_config E C" and near: "\<not> in_distributed C (o_backend r)" and far: "cf_distributed C"
  shows "triple (migrating E C r x) (put_to_endpoints E (o_path r) x selected)
    (\<lambda>_ w. migrating E C r x w \<and> dist_holds E w (o_path r) x) (intact E C)"
  unfolding triple_def
proof (intro allI impI)
  fix w assume m: "migrating E C r x w"
  let ?p = "o_path r"
  note s = migrating_path(1) [OF g m]
  obtain res w' where p: "put_to_endpoints E ?p x selected w = (res, w')" by fastforce
  have local: "unmoved E any_node ?p (\<lambda>v. blob_value E ApiHost v ?p = Some x)"
    by (rule unmoved_other_host [where P = "\<lambda>v. v = Some x"]) (auto simp: any_node_def)
  have st: "stored_as E C r x w" using m by (simp add: migrating_def)
  have "blob_value E ApiHost w' ?p = Some x"
    using keeps_invD [OF keeps_put_to_endpoints_unmoved [OF local] _ p] st near sound_pathD [OF s]
    by (simp add: stored_as_def held_in_def)
  moreover have "no_other E x ?p w'"
    using keeps_invD [OF dist_store.put_keeps_own [OF s, of x selected] _ p] st by (simp add: stored_as_def)
  ultimately have st': "stored_as E C r x w'" using st near by (simp add: stored_as_def held_in_def)
  have mig: "migrating E C r x w'"
  proof (rule migrating_file [OF g m, where prog = "put_to_endpoints E ?p x selected"])
    show "keeps_inv I (put_to_endpoints E ?p x selected)" if "unmoved E UNIV ?p I" for I
      using sound_pathD [OF s] unmoved_mono [OF that] by (intro keeps_put_to_endpoints_unmoved) auto
  qed (rule p, rule st')
  have "dist_holds E w' ?p x" if "res = Inr u" for u
  proof -
    have "dist_endpoints w \<noteq> []" using m far by (simp add: migrating_def intact_def blobs_ok_def)
    moreover have "no_other E x ?p w" using st by (simp add: stored_as_def)
    ultimately show ?thesis using dist_store.put_stores [OF s _ _ p [unfolded that]] by blast
  qed
  then show "case put_to_endpoints E ?p x selected w of
      (Inr _, w') \<Rightarrow> migrating E C r x w' \<and> dist_holds E w' ?p x | (Inl e, w') \<Rightarrow> intact E C w'"
    using mig p by (cases res) (auto simp: migrating_def)
qed

text \<open>The row in the other tier.\<close>

definition moved :: "object_row \<Rightarrow> object_row" where
  "moved r = r\<lparr>o_backend := ''distributed''\<rparr>"

lemma moved_stored:
  assumes "stored_as E C r x w" "dist_holds E w (o_path r) x" "cf_distributed C"
  shows "stored_as E C (moved r) x w"
  using assms by (simp add: stored_as_def moved_def held_in_def in_distributed_def backend_names)

lemma moved_row:
  assumes "migrating E C r x w" "dist_holds E w (o_path r) x" "cf_distributed C"
    and d: "d = change_objects (map (\<lambda>s. if o_id s = o_id r then s\<lparr>o_backend := ''distributed''\<rparr> else s)) (db w)"
  shows "migrating E C (moved r) x (w\<lparr>db := d\<rparr>)"
proof -
  have ok: "catalog_ok C (db w)" and r: "r \<in> set (t_objects (db w))" "visible r"
    using assms(1) by (auto simp: migrating_def intact_def)
  let ?f = "\<lambda>s. if s = r then moved r else s"
  have rows: "t_objects d = map ?f (t_objects (db w))"
    using same_id_same_row [OF ok _ r(1)] by (auto simp: d change_objects_def moved_def)
  have same: "t_uploads d = t_uploads (db w)" "t_parts d = t_parts (db w)" by (simp_all add: d change_objects_def)
  have f: "o_id (?f s) = o_id s" "o_path (?f s) = o_path s" "visible (?f s) = visible s" for s
    by (simp_all add: moved_def visible_def)
  have row: "row_ok C (moved r)" using catalogD(2) [OF ok r(1)] by (auto simp: row_ok_def moved_def split: if_splits)
  have "catalog_ok C d"
    unfolding catalog_ok_def same
  proof (intro conjI ballI impI)
    have "map o_id (t_objects d) = map o_id (t_objects (db w))" by (simp add: rows f(1))
    then show "distinct (map o_id (t_objects d))" using catalogD(1) [OF ok] by simp
    show "row_ok C s" if "s \<in> set (t_objects d)" for s
      using that row catalogD(2) [OF ok] by (auto simp: rows split: if_splits)
    show "o_id s = o_id t" if mem: "s \<in> set (t_objects d)" "t \<in> set (t_objects d)" and path: "o_path s = o_path t" "o_path s \<noteq> []" for s t
    proof -
      obtain s0 where s0: "s0 \<in> set (t_objects (db w))" "s = ?f s0" using mem(1) unfolding rows set_map by blast
      obtain t0 where t0: "t0 \<in> set (t_objects (db w))" "t = ?f t0" using mem(2) unfolding rows set_map by blast
      have "o_id s0 = o_id t0"
        using path unfolding s0(2) t0(2) f(2) by (rule catalogD(3) [OF ok s0(1) t0(1)])
      then show ?thesis unfolding s0(2) t0(2) f(1) .
    qed
  qed (use catalogD(4,5) [OF ok] in blast)+
  moreover have st: "stored_as E C (moved r) x w"
    using assms(1-3) by (intro moved_stored) (auto simp: migrating_def)
  moreover have "blobs_ok E C d (w\<lparr>db := d\<rparr>)"
  proof -
    have ok': "blobs_ok E C (db w) w" using assms(1) by (simp add: migrating_def intact_def)
    have "\<exists>y. stored_as E C s y w" if "s \<in> set (t_objects d)" "visible s" for s
      using that st ok' f(3) by (auto simp: rows blobs_ok_def)
    moreover have "o_path ` set (t_objects d) = o_path ` set (t_objects (db w))"
      by (simp only: rows set_map image_image f(2))
    ultimately show ?thesis using ok' by (simp add: blobs_ok_def)
  qed
  ultimately show ?thesis using r f(3) [of r] by (auto simp: migrating_def intact_def rows)
qed

definition waiting :: "service_config \<Rightarrow> (string \<times> string \<times> string) list \<Rightarrow> database \<Rightarrow> bool" where
  "waiting C items d \<longleftrightarrow> distinct (map fst items) \<and>
     (\<forall>(i, b, p) \<in> set items. \<exists>r \<in> set (t_objects d). o_id r = i \<and> o_path r = p \<and> visible r \<and> \<not> in_distributed C (o_backend r))"

lemma triple_conj_keeps: "triple P m Q X \<Longrightarrow> keeps_inv I m \<Longrightarrow> triple (\<lambda>w. P w \<and> I w) m (\<lambda>x w. Q x w \<and> I w) X"
  unfolding triple_def keeps_inv_def by (fastforce split: prod.splits sum.splits)

lemma triple_ex:
  assumes "\<And>r. triple (P r) m Q X"
  shows "triple (\<lambda>w. \<exists>r. P r w) m Q X"
  unfolding triple_def
proof (intro allI impI)
  fix w assume "\<exists>r. P r w"
  then obtain r where "P r w" ..
  then show "case m w of (Inr x, w') \<Rightarrow> Q x w' | (Inl e, w') \<Rightarrow> X w'"
    using assms [of r] by (simp add: triple_def)
qed

lemma waiting_moved:
  "waiting C ((o_id r, b, p) # items) d \<Longrightarrow>
   waiting C items (change_objects (map (\<lambda>s. if o_id s = o_id r then s\<lparr>o_backend := ''distributed''\<rparr> else s)) d)"
  unfolding waiting_def change_objects_def by (fastforce simp: rev_image_eqI)

lemma migrate_read:
  "triple (\<lambda>w. intact E C w \<and> waiting C ((i, b, p) # items) (db w)) (local_get E ApiHost p)
     (\<lambda>x w. \<exists>r. (migrating E C r x w \<and> waiting C ((i, b, p) # items) (db w)) \<and> o_id r = i \<and> o_path r = p \<and> \<not> in_distributed C (o_backend r))
     (intact E C)"
  unfolding triple_def
proof (intro allI impI)
  fix w assume w: "intact E C w \<and> waiting C ((i, b, p) # items) (db w)"
  obtain res w' where l: "local_get E ApiHost p w = (res, w')" by fastforce
  have w': "intact E C w'" "db w' = db w"
    using keeps_invD [OF keeps_local_get [OF stable_intact] _ l] w
      keeps_invD [OF keeps_local_get [OF stable_db [where P = "\<lambda>d. d = db w"]] refl l] by blast+
  obtain r where r: "r \<in> set (t_objects (db w))" "o_id r = i" "o_path r = p" "visible r" "\<not> in_distributed C (o_backend r)"
    using w by (auto simp: waiting_def)
  have "migrating E C r x w'" if x: "res = Inr x" for x
  proof -
    have "blob_value E ApiHost w p = Some x" using local_get_value [OF l [unfolded x]] .
    then have v: "blob_value E ApiHost w' p = Some x"
      using keeps_invD [OF keeps_local_get [OF stable_blob_value [where P = "\<lambda>v. v = Some x"]] _ l] by blast
    obtain y where y: "stored_as E C r y w'" using w' r by (auto simp: intact_def blobs_ok_def)
    then have "y = x" using v r(3,5) by (simp add: stored_as_def held_in_def)
    then show ?thesis using y w' r by (simp add: migrating_def)
  qed
  then show "case local_get E ApiHost p w of
      (Inr x, w') \<Rightarrow> \<exists>r. (migrating E C r x w' \<and> waiting C ((i, b, p) # items) (db w')) \<and> o_id r = i \<and> o_path r = p \<and> \<not> in_distributed C (o_backend r)
    | (Inl e, w') \<Rightarrow> intact E C w'"
    using l w w' r by (cases res) auto
qed

lemma keeps_clear_near:
  assumes g: "good_config E C" and far: "in_distributed C (o_backend r)"
  shows "keeps_inv (migrating E C r x) (ignore_error (local_delete E ApiHost (o_path r)))"
  unfolding keeps_inv_def
proof (intro allI impI)
  fix w assume m: "migrating E C r x w"
  let ?p = "o_path r" and ?prog = "ignore_error (local_delete E ApiHost (o_path r))"
  obtain res w' where p: "?prog w = (res, w')" by fastforce
  have "unmoved E {ApiHost} ?p (\<lambda>v. node_value E e v ?p = node_value E e w ?p)" for e
    by (rule unmoved_other_host [where P = "\<lambda>v. v = node_value E e w ?p"]) simp
  then have k1: "keeps_inv (\<lambda>v. node_value E e v ?p = node_value E e w ?p) ?prog" for e
    by (intro keeps keeps_local_delete [where H = "{ApiHost}"]) auto
  have v: "node_value E e w' ?p = node_value E e w ?p" for e using keeps_invD [OF k1 refl p] .
  have "unmoved E {ApiHost} ?p (\<lambda>v. dist_endpoints v = dist_endpoints w)"
    by (rule unmoved_endpoints [where P = "\<lambda>d. d = dist_endpoints w"])
  then have k2: "keeps_inv (\<lambda>v. dist_endpoints v = dist_endpoints w) ?prog"
    by (intro keeps keeps_local_delete [where H = "{ApiHost}"]) auto
  have "dist_endpoints w' = dist_endpoints w" using keeps_invD [OF k2 refl p] .
  then have "stored_as E C r x w'"
    using m far v by (simp add: migrating_def stored_as_def held_in_def dist_holds_def no_other_def)
  then have "migrating E C r x w'"
  proof (rule migrating_file [OF g m, where prog = ?prog, OF _ p, rotated])
    show "keeps_inv I ?prog" if "unmoved E UNIV ?p I" for I
      by (intro keeps keeps_local_delete [OF that]) simp
  qed
  then show "migrating E C r x (snd (?prog w))" by (simp add: p)
qed

lemma triple_migrate_one:
  assumes g: "good_config E C" and far: "cf_distributed C"
  shows "triple (\<lambda>w. intact E C w \<and> waiting C (item # items) (db w)) (migrate_one E C item)
    (\<lambda>_ w. intact E C w \<and> waiting C items (db w)) (intact E C)"
proof -
  obtain i b p where item: "item = (i, b, p)" by (cases item)
  let ?W = "\<lambda>w. waiting C ((i, b, p) # items) (db w)" and ?W' = "\<lambda>w. waiting C items (db w)"
  have rowW: "row_inv (\<lambda>w. waiting C its (db w))" for its
    unfolding row_inv_def by (intro conjI stable_db) (simp add: waiting_def)
  have row: "row_inv (\<lambda>w. intact E C w \<and> ?W w)" by (intro row_inv_conj row_inv_intact rowW)
  have keep: "triple (\<lambda>w. intact E C w \<and> ?W w) m (\<lambda>_ w. intact E C w \<and> ?W w) (intact E C)"
    if "keeps_inv (\<lambda>w. intact E C w \<and> ?W w) m" for m :: "'x prog"
    by (rule triple_of_keeps [OF that]) simp
  have commit: "triple (\<lambda>w. (migrating E C r x w \<and> dist_holds E w (o_path r) x) \<and> ?W w)
      (transaction (\<lambda>t. bnd (exec (\<lambda>_ d. Inr ((), change_objects
           (map (\<lambda>s. if o_id s = i then s\<lparr>o_backend := ''distributed''\<rparr> else s)) d))) (\<lambda>_.
         record_placements E C t i p selected)))
      (\<lambda>_ w. migrating E C (moved r) x w \<and> ?W' w) (intact E C)"
    if r: "o_id r = i" for r x selected
  proof (rule triple_transaction)
    show "stable (\<lambda>w. (migrating E C r x w \<and> dist_holds E w (o_path r) x) \<and> ?W w)"
      using stable_held_in [of E True "o_path r" x]
      by (intro stable_conj stable_migrating stable_db) (simp add: held_in_def)
    fix t
    have st: "stable (\<lambda>w. (migrating E C r x w \<and> dist_holds E w (o_path r) x) \<and> ?W w)" by fact
    have upd: "triple (\<lambda>w. (migrating E C r x w \<and> dist_holds E w (o_path r) x) \<and> ?W w)
        (exec (\<lambda>_ d. Inr ((), change_objects (map (\<lambda>s. if o_id s = i then s\<lparr>o_backend := ''distributed''\<rparr> else s)) d)))
        (\<lambda>_ w. migrating E C (moved r) x w \<and> ?W' w) (\<lambda>_. True)"
      by (rule triple_exec [OF st]) (use moved_row [OF _ _ far refl] waiting_moved [of C r b p items] r in auto)
    have rec: "triple (\<lambda>w. migrating E C (moved r) x w \<and> ?W' w) (record_placements E C t i p selected)
        (\<lambda>_ w. migrating E C (moved r) x w \<and> ?W' w) (\<lambda>_. True)"
      by (rule triple_of_keeps [OF keeps_record_placements [OF row_inv_conj [OF row_inv_migrating rowW]]]) simp
    show "triple (\<lambda>w. (migrating E C r x w \<and> dist_holds E w (o_path r) x) \<and> ?W w)
        (bnd (exec (\<lambda>_ d. Inr ((), change_objects (map (\<lambda>s. if o_id s = i then s\<lparr>o_backend := ''distributed''\<rparr> else s)) d)))
          (\<lambda>_. record_placements E C t i p selected)) (\<lambda>_ w. migrating E C (moved r) x w \<and> ?W' w) (\<lambda>_. True)"
      by (rule triple_bnd [OF upd rec])
  next
    show "stable (\<lambda>w. migrating E C (moved r) x w \<and> ?W' w)" by (intro stable_conj stable_migrating stable_db)
  qed (auto intro!: keeps simp: migrating_def)
  have clear: "triple (\<lambda>w. migrating E C (moved r) x w \<and> ?W' w) (ignore_error (local_delete E ApiHost (o_path r)))
      (\<lambda>_ w. migrating E C (moved r) x w \<and> ?W' w) (intact E C)" for r x
  proof -
    have "in_distributed C (o_backend (moved r))" using far by (simp add: moved_def in_distributed_def backend_names)
    then have k: "keeps_inv (migrating E C (moved r) x) (ignore_error (local_delete E ApiHost (o_path r)))"
      using keeps_clear_near [OF g, of "moved r" x] by (simp add: moved_def)
    have "keeps_inv ?W' (ignore_error (local_delete E ApiHost (o_path r)))"
      by (intro keeps keeps_local_delete [where H = UNIV] unmoved_db) auto
    then show ?thesis by (intro triple_of_keeps keeps_conj k) (simp_all add: migrating_def)
  qed
  have put: "triple (\<lambda>w. migrating E C r x w \<and> ?W w) (put_to_endpoints E (o_path r) x selected)
      (\<lambda>_ w. (migrating E C r x w \<and> dist_holds E w (o_path r) x) \<and> ?W w) (intact E C)"
    if "\<not> in_distributed C (o_backend r)" for r x selected
  proof (cases "sound_path E (o_path r)")
    case True
    then have "keeps_inv ?W (put_to_endpoints E (o_path r) x selected)"
      by (intro keeps_put_to_endpoints_unmoved unmoved_db) (auto dest: sound_pathD)
    then show ?thesis by (intro triple_conj_keeps migrate_put g that far)
  next
    case False
    then show ?thesis using migrating_path(1) [OF g] by (auto simp: triple_def)
  qed
  show ?thesis
    unfolding item migrate_one_def prod.case
    apply (rule triple_bnd [OF keep [OF keeps_placement_endpoints [OF row]]])
    apply (rule triple_bnd [OF keep [OF keeps_guard]])
    apply (rule triple_bnd [OF migrate_read])
    apply (rule triple_ex)
    apply (rule triple_conj_const)
    apply (elim conjE)
    subgoal premises prems for selected u x r
      apply (rule triple_bnd [OF put [OF prems(3), unfolded prems(2)]])
      apply (rule triple_bnd [OF commit [OF prems(1), unfolded prems(2)]])
      apply (rule triple_bnd [OF clear [of r, unfolded prems(2)]])
      apply (rule triple_ret)
      apply (simp add: migrating_def)
      done
    done
qed

lemma keeps_migrate:
  assumes g: "good_config E C"
  shows "keeps_inv (intact E C) (migrate_local_objects E C limit)"
proof (cases "cf_distributed C")
  case True
  have read: "triple (intact E C) (query (\<lambda>d. Inr (map (\<lambda>r. (o_id r, o_bucket r, o_path r))
        (take n (sort_key o_created (filter pending_migration (t_objects d)))))))
      (\<lambda>items w. intact E C w \<and> waiting C items (db w)) (intact E C)" for n
  proof (rule triple_query [OF stable_intact])
    fix w x assume i: "intact E C w"
      and "(Inr (map (\<lambda>r. (o_id r, o_bucket r, o_path r)) (take n (sort_key o_created (filter pending_migration (t_objects (db w))))))
        :: err + _) = Inr x"
    then have x: "x = map (\<lambda>r. (o_id r, o_bucket r, o_path r)) (take n (sort_key o_created (filter pending_migration (t_objects (db w)))))"
      by simp
    have ok: "catalog_ok C (db w)" using i by (simp add: intact_def)
    have "distinct (map o_id (sort_key o_created (filter pending_migration (t_objects (db w)))))"
      using catalogD(1) [OF ok] by (simp add: distinct_map distinct_filter inj_on_def)
    then have "distinct (map fst x)" by (simp add: x comp_def take_map [symmetric])
    moreover have "\<not> in_distributed C (o_backend r)" if "r \<in> set (t_objects (db w))" "pending_migration r" for r
      using that catalogD(2) [OF ok that(1)] backend_names(2)
      by (auto simp: pending_migration_def row_ok_def in_distributed_def near_names)
    ultimately show "intact E C w \<and> waiting C x (db w)"
      using i by (auto simp: waiting_def x pending_migration_def visible_def dest!: in_set_takeD)
  qed
  have "triple (\<lambda>w. intact E C w \<and> waiting C items (db w)) (count_each (migrate_one E C) n items) (\<lambda>_. intact E C) (intact E C)" for items n
    by (rule triple_count_each [where P = "\<lambda>items w. intact E C w \<and> waiting C items (db w)", OF triple_migrate_one [OF g True]]) simp
  then show ?thesis
    unfolding keeps_inv_triple migrate_local_objects_def Let_def using True
    by (auto intro!: triple_bnd [OF read])
qed (simp add: migrate_local_objects_def keeps_fail)

subsection \<open>Multipart uploads\<close>

lemma part_aside:
  assumes "good_config E C" "intact E C w" "part_path C p"
  shows "aside E C p w"
proof -
  note pt = part_not_object [OF good_configD(2) [OF assms(1)] _ assms(3)]
  have ok: "catalog_ok C (db w)" using assms(2) by (simp add: intact_def)
  have "o_path r \<noteq> p" if "r \<in> set (t_objects (db w))" "visible r" for r
    using catalogD(2) [OF ok that(1)] that(2) pt by (auto simp: row_ok_def visible_def)
  moreover have "\<not> future E C w p" using future_object [OF assms(1)] pt by blast
  ultimately show ?thesis by (simp add: aside_def)
qed

lemma keeps_part_file:
  assumes g: "good_config E C" and p: "part_path C p" and m: "\<And>I. unmoved E UNIV p I \<Longrightarrow> keeps_inv I m"
  shows "keeps_inv (intact E C) m"
  using keeps_intact_file [OF g sound_part_path [OF g p] m] part_aside [OF g _ p]
  unfolding keeps_inv_def by blast

lemma keeps_part_put: "good_config E C \<Longrightarrow> part_path C p \<Longrightarrow> keeps_inv (intact E C) (active_put E C p x)"
  by (rule keeps_part_file, assumption+) (rule keeps_active_put, auto dest: sound_part_path)

lemma keeps_part_delete: "good_config E C \<Longrightarrow> part_path C p \<Longrightarrow> keeps_inv (intact E C) (active_delete E C p)"
  by (rule keeps_part_file, assumption+) (rule keeps_active_delete, auto dest: sound_part_path)

lemma catalog_other:
  assumes "catalog_ok C d" and same: "t_objects d' = t_objects d"
    and "\<And>u. u \<in> set (t_uploads d') \<Longrightarrow> plain_elem (m_bucket u) \<and> plain_elem (m_id u)"
    and "\<And>p. p \<in> set (t_parts d') \<Longrightarrow> part_path C (pt_path p)"
  shows "catalog_ok C d'"
  unfolding catalog_ok_def [of C d'] same using catalogD(1,2,3) [OF assms(1)] assms(3,4) by blast

lemma catalog_upload:
  assumes "catalog_ok C d" "insert_upload row d = Inr (x, d')" "plain_elem (m_bucket row)" "plain_elem (m_id row)"
  shows "catalog_ok C d' \<and> t_objects d' = t_objects d"
proof -
  have d: "t_objects d' = t_objects d" "t_parts d' = t_parts d" "set (t_uploads d') = insert row (set (t_uploads d))"
    using assms(2) by (auto simp: insert_upload_def split: if_splits)
  then show ?thesis
    using assms(3,4) catalogD(4,5) [OF assms(1)] by (auto intro!: catalog_other [OF assms(1)])
qed

lemma catalog_part:
  assumes "catalog_ok C d" "upsert_part row d = Inr (x, d')" "part_path C (pt_path row)"
  shows "catalog_ok C d' \<and> t_objects d' = t_objects d"
proof -
  have d: "t_objects d' = t_objects d" "t_uploads d' = t_uploads d" "set (t_parts d') \<subseteq> insert row (set (t_parts d))"
    using assms(2) by (auto simp: upsert_part_def Let_def split: if_splits)
  then show ?thesis
    using assms(3) catalogD(4,5) [OF assms(1)] by (auto intro!: catalog_other [OF assms(1)])
qed

lemma intact_same_objects:
  "intact E C w \<Longrightarrow> catalog_ok C d \<Longrightarrow> t_objects d = t_objects (db w) \<Longrightarrow> intact E C (w\<lparr>db := d\<rparr>)"
  by (simp add: intact_def blobs_ok_def)

lemma keeps_initiate:
  assumes g: "good_config E C"
  shows "keeps_inv (intact E C) (initiate E bucket_id input)"
proof -
  have ins: "keeps_inv (intact E C) (exec (\<lambda>t. insert_upload (row t)))"
    if "\<And>t. plain_elem (m_bucket (row t)) \<and> plain_elem (m_id (row t))" for row
    by (rule keeps_exec [OF stable_intact])
       (use that catalog_upload intact_same_objects in \<open>meson intact_def\<close>)
  have uuid: "triple (intact E C) (new_uuid E) (\<lambda>i w. intact E C w \<and> plain_elem i) (intact E C)"
    by (rule triple_weaken [OF new_id [OF g]])
       (use rnd_uuid_plain [OF good_configD(1) [OF g]] in \<open>auto simp: unused_id_def\<close>)
  show ?thesis
    unfolding keeps_inv_triple initiate_def
    apply (rule triple_bnd [OF triple_cast], simp)
    apply (rule triple_conj_const)
    apply (rule triple_bnd [OF triple_of_keeps [OF keeps_optional]], simp)
    apply (rule triple_bnd [OF uuid])
    apply (rule triple_conj_const)
    subgoal premises prems for b u i
      using pg_uuid_plain [OF good_configD(1) [OF g] prems(1)] prems(2)
      unfolding keeps_inv_triple [symmetric] by (intro keeps ins) simp
    done
qed

lemma triple_get_upload:
  "triple (intact E C) (get_upload E i) (\<lambda>u w. intact E C w \<and> plain_elem (up_bucket u) \<and> plain_elem (up_id u)) (intact E C)"
  unfolding get_upload_def
  apply (rule triple_bnd [OF triple_cast], simp)
  apply (rule triple_conj_const)
  apply (rule triple_exec [OF stable_intact])
  subgoal for x w
    using catalogD(4) [of C "db w"]
    by (auto simp: intact_def upload_of_row_def split: option.splits dest!: find_SomeD)
  by simp

lemma keeps_put_part:
  assumes g: "good_config E C"
  shows "keeps_inv (intact E C) (put_part E C upload_id n expected md5 body)"
proof -
  have path: "part_path C (upload_path (cf_tenant C) b i n)" if "plain_elem b" "plain_elem i" for b i
    using that by (auto simp: part_path_def)
  have ins: "keeps_inv (intact E C) (exec (\<lambda>_. upsert_part row))" if "part_path C (pt_path row)" for row
    by (rule keeps_exec [OF stable_intact])
       (use that catalog_part intact_same_objects in \<open>meson intact_def\<close>)
  show ?thesis
    unfolding keeps_inv_triple put_part_def Let_def
    apply (rule triple_bnd [OF triple_get_upload])
    apply (rule triple_conj_const)
    unfolding keeps_inv_triple [symmetric]
    by (intro keeps keeps_external stable_intact keeps_part_put [OF g] ins) (auto intro: path)
qed

lemma triple_list_parts:
  "triple (intact E C) (list_parts E i) (\<lambda>ps w. intact E C w \<and> (\<forall>p \<in> set ps. part_path C (pa_path p))) (intact E C)"
  unfolding list_parts_def
  apply (rule triple_bnd [OF triple_cast], simp)
  apply (rule triple_conj_const)
  apply (rule triple_query [OF stable_intact])
  subgoal for b w x
    using catalogD(5) [of C "db w"] by (auto simp: intact_def)
  by simp

lemma keeps_cleanup:
  assumes g: "good_config E C" and ps: "\<forall>p \<in> set ps. part_path C (pa_path p)"
  shows "keeps_inv (intact E C) (cleanup E C i ps)"
proof -
  have a: "keeps_inv (intact E C) (for_each (\<lambda>p. ignore_error (active_delete E C (pa_path p))) ps)"
    using ps by (induction ps) (auto intro!: keeps keeps_part_delete [OF g])
  have b: "keeps_inv (intact E C) (exec (\<lambda>_ d. Inr ((), d\<lparr>t_uploads := filter (\<lambda>u. m_id u \<noteq> i') (t_uploads d),
       t_parts := (if list_ex (\<lambda>u. m_id u = i') (t_uploads d)
                   then filter (\<lambda>p. pt_upload p \<noteq> i') (t_parts d) else t_parts d)\<rparr>)))" for i'
    by (rule keeps_intact_exec) (auto simp: tame_def intro!: exI [of _ "\<lambda>r. r"] exI [of _ "\<lambda>_. True"] split: if_splits)
  show ?thesis unfolding cleanup_def by (rule keeps_bnd [OF a keeps_bnd [OF keeps_cast b]])
qed

lemma keeps_combine: "keeps_inv (intact E C) (combine_parts E C m acc ns)"
  by (induction ns arbitrary: acc) (auto intro!: keeps seen_free_intact split: option.splits)

lemma keeps_complete:
  assumes g: "good_config E C"
  shows "keeps_inv (intact E C) (complete_upload E C i creator ns)"
proof -
  have keep: "triple (intact E C) m (\<lambda>_. intact E C) (intact E C)" if "keeps_inv (intact E C) m" for m :: "'x prog"
    using that by (simp add: keeps_inv_triple)
  show ?thesis
    unfolding keeps_inv_triple complete_upload_def
    apply (rule triple_bnd [OF triple_get_upload])
    apply (rule triple_conj_const)
    apply (rule triple_bnd [OF keep [OF keeps_guard]])
    apply (rule triple_bnd [OF keep [OF keeps_guard]])
    apply (rule triple_bnd [OF triple_list_parts])
    apply (rule triple_conj_const)
    unfolding keeps_inv_triple [symmetric]
    by (intro keeps keeps_combine keeps_put_object keeps_cleanup g) auto
qed

lemma keeps_listed_cleanup:
  assumes g: "good_config E C"
  shows "keeps_inv (intact E C) (bnd (list_parts E i) (cleanup E C i))"
  unfolding keeps_inv_triple
  apply (rule triple_bnd [OF triple_list_parts])
  apply (rule triple_conj_const)
  unfolding keeps_inv_triple [symmetric] by (rule keeps_cleanup [OF g])

lemma keeps_abort: "good_config E C \<Longrightarrow> keeps_inv (intact E C) (abort_upload E C i)"
  unfolding abort_upload_def by (rule keeps_listed_cleanup)

lemma keeps_cleanup_expired:
  assumes g: "good_config E C"
  shows "keeps_inv (intact E C) (cleanup_expired E C)"
proof -
  have one: "keeps_inv (intact E C) (bnd (list_parts E i) (\<lambda>parts. bnd (cleanup E C i parts) (\<lambda>_. ret (1 :: int))))" for i
    using keeps_bnd [OF keeps_listed_cleanup [OF g, of i] keeps_ret [of _ 1]] by (simp add: bnd_assoc)
  show ?thesis
    unfolding cleanup_expired_def
    by (intro keeps_bnd keeps_count_each one keeps_intact_exec) (auto intro: tame_other)
qed

end
