(* ===== verification/Service.thy ===== *)
theory Service
  imports Calls
begin

text \<open>
  Sequences of calls of the object service and what holds after every one of them: live versions
  have their blobs, a read returns what was written, held and retained versions stay. A run is a
  list of calls, each by any client or by the worker, with any failures inside; between calls the
  clock advances and the script changes.
\<close>

section \<open>Calls and runs\<close>

datatype call =
    PutObject string put_input
  | CopyObject string string string string put_input
  | GetObject string string string
  | DeleteObject string string
  | DeleteVersion string string string
  | RestoreObject string string
  | SetLegalHold string string string bool
  | PutTags string string string "smap option"
  | ExpireObjects int
  | PurgeObjects int
  | MigrateObjects int
  | ScanObjects "err \<Rightarrow> string" "bytes \<Rightarrow> string" "scanner option" "object_row \<Rightarrow> int" int
  | CreateBucket string string string string int
  | UpdateBucket string string int
  | DeleteBucket string
  | InitiateUpload string initiate_input
  | PutPart string int int string bytes
  | CompleteUpload string string "int list"
  | AbortUpload string
  | CleanupUploads
  | RecalculateBuckets
  | RecalculateUsers

fun perform :: "ext \<Rightarrow> service_config \<Rightarrow> call \<Rightarrow> unit prog" where
  "perform E C (PutObject b i) = ignore_error (put_object E C b i)"
| "perform E C (CopyObject sb sk sv b i) = ignore_error (copy_object E C sb sk sv b i)"
| "perform E C (GetObject b k v) = ignore_error (get_version E C b k v)"
| "perform E C (DeleteObject b k) = ignore_error (delete_object E b k)"
| "perform E C (DeleteVersion b k v) = ignore_error (delete_version E C b k v)"
| "perform E C (RestoreObject b k) = ignore_error (restore_latest E b k)"
| "perform E C (SetLegalHold b k v h) = ignore_error (set_legal_hold E b k v h)"
| "perform E C (PutTags b k v tags) = ignore_error (put_tags E b k v tags)"
| "perform E C (ExpireObjects t) = ignore_error (apply_lifecycle_expirations t)"
| "perform E C (PurgeObjects cutoff) = ignore_error (purge_deleted_before E C cutoff)"
| "perform E C (MigrateObjects n) = ignore_error (migrate_local_objects E C n)"
| "perform E C (ScanObjects message daemon s updated n) = ignore_error (process_pending E C message daemon s updated n)"
| "perform E C (CreateBucket name tenant by c n) = ignore_error (create_bucket E C name tenant by c n)"
| "perform E C (UpdateBucket b c n) = ignore_error (update_durability E C b c n)"
| "perform E C (DeleteBucket name) = ignore_error (delete_bucket name)"
| "perform E C (InitiateUpload b i) = ignore_error (initiate E b i)"
| "perform E C (PutPart u n s m x) = ignore_error (put_part E C u n s m x)"
| "perform E C (CompleteUpload u by ns) = ignore_error (complete_upload E C u by ns)"
| "perform E C (AbortUpload u) = ignore_error (abort_upload E C u)"
| "perform E C CleanupUploads = ignore_error (cleanup_expired E C)"
| "perform E C RecalculateBuckets = ignore_error recalculate_bucket_usage"
| "perform E C RecalculateUsers = ignore_error recalculate_user_usage"

text \<open>The worker passes its own time to the lifecycle job.\<close>

fun timely :: "call \<Rightarrow> int \<Rightarrow> bool" where
  "timely (ExpireObjects t) c = (t \<le> c)"
| "timely _ c = True"

inductive service_step :: "ext \<Rightarrow> service_config \<Rightarrow> world \<Rightarrow> call option \<Rightarrow> world \<Rightarrow> bool" for E C where
  Call: "timely c (clock w) \<Longrightarrow> w' = snd (perform E C c w) \<Longrightarrow> service_step E C w (Some c) w'"
| Time: "env_step w w' \<Longrightarrow> service_step E C w None w'"

inductive_cases callE: "service_step E C w (Some c) w'"
inductive_cases timeE: "service_step E C w None w'"

inductive service_run :: "ext \<Rightarrow> service_config \<Rightarrow> world \<Rightarrow> call option list \<Rightarrow> world \<Rightarrow> bool" for E C w where
  Start: "service_run E C w [] w"
| Next: "service_run E C w ls w' \<Longrightarrow> service_step E C w' l w'' \<Longrightarrow> service_run E C w (ls @ [l]) w''"

text \<open>An invariant of the steps is an invariant of the runs.\<close>

lemma run_invariant:
  assumes "stable I" "\<And>c w. c \<in> S \<Longrightarrow> timely c (clock w) \<Longrightarrow> I w \<Longrightarrow> I (snd (perform E C c w))"
    and "service_run E C w ls w'" "\<forall>c. Some c \<in> set ls \<longrightarrow> c \<in> S" "I w"
  shows "I w'"
  using assms(3-5)
proof (induction rule: service_run.induct)
  case (Next ls w' l w'')
  then have "I w'" by simp
  from Next.hyps(2) show ?case
  proof cases
    case (Call c)
    then show ?thesis using assms(2) [of c w'] Next.prems \<open>I w'\<close> by simp
  next
    case Time
    then show ?thesis using stableD [OF assms(1) \<open>I w'\<close>] by simp
  qed
qed

section \<open>Live versions have their blobs\<close>

lemma keeps_create_bucket: "row_inv I \<Longrightarrow> keeps_inv I (create_bucket E C name tenant creator c n)"
  unfolding create_bucket_def Let_def
  by (intro keeps keeps_exec_same row_inv_stable) (auto simp: insert_bucket_def split: if_splits)

lemma keeps_update_bucket: "row_inv I \<Longrightarrow> keeps_inv I (update_durability E C b c n)"
  unfolding update_durability_def Let_def
  by (intro keeps keeps_exec_same row_inv_stable) (auto split: option.splits)

lemma keeps_recalculate_buckets: "row_inv I \<Longrightarrow> keeps_inv I recalculate_bucket_usage"
  unfolding recalculate_bucket_usage_def by (rule keeps_exec_same) (auto split: if_splits)

lemma keeps_recalculate_users: "row_inv I \<Longrightarrow> keeps_inv I recalculate_user_usage"
  unfolding recalculate_user_usage_def by (rule keeps_exec_same) (auto split: if_splits)

lemmas call_keeps = keeps_put_object keeps_copy_object keeps_get_version keeps_delete_object
  keeps_delete_version keeps_restore_latest keeps_set_legal_hold keeps_put_tags keeps_lifecycle keeps_purge
  keeps_migrate keeps_process_pending keeps_delete_bucket keeps_initiate keeps_put_part keeps_complete
  keeps_abort keeps_cleanup_expired keeps_create_bucket [OF row_inv_intact]
  keeps_update_bucket [OF row_inv_intact] keeps_recalculate_buckets [OF row_inv_intact]
  keeps_recalculate_users [OF row_inv_intact]

lemma keeps_perform: "good_config E C \<Longrightarrow> keeps_inv (intact E C) (perform E C c)"
  by (cases c) (auto intro!: keeps_ignore call_keeps)

lemma run_intact:
  "good_config E C \<Longrightarrow> service_run E C w ls w' \<Longrightarrow> intact E C w \<Longrightarrow> intact E C w'"
  by (rule run_invariant [where I = "intact E C" and S = UNIV])
     (use keeps_perform in \<open>auto simp: keeps_inv_def stable_intact\<close>)

lemma stored_as_unique:
  assumes "stored_as E C r x w" "stored_as E C r y w"
  shows "x = y"
proof (cases "in_distributed C (o_backend r)")
  case True
  then obtain e where "node_value E e w (o_path r) = Some y"
    using assms(2) unfolding stored_as_def held_in_def dist_holds_def by auto
  moreover have "no_other E x (o_path r) w" using assms(1) unfolding stored_as_def by simp
  then have "node_value E e w (o_path r) = None \<or> node_value E e w (o_path r) = Some x"
    unfolding no_other_def by (rule spec)
  ultimately show ?thesis by simp
next
  case False
  then show ?thesis using assms unfolding stored_as_def held_in_def by simp
qed

lemma select_finds:
  assumes "select_object E bucket_id key version_id p w = (Inr row, w')"
  shows "\<exists>b. pg_uuid E bucket_id = Some b \<and> row \<in> set (t_objects (db w)) \<and> same_key b key row \<and> p row \<and>
    (version_id = [] \<longrightarrow> o_latest row) \<and> (version_id \<noteq> [] \<longrightarrow> pg_uuid E version_id = Some (o_version row)) \<and> env_step w w'"
proof -
  have cast: "cast_optional_uuid E s w = (Inr v, w1) \<longleftrightarrow> w1 = w \<and> (if s = [] then v = None else \<exists>u. pg_uuid E s = Some u \<and> v = Some u)"
    for s v w w1
    by (auto simp: cast_optional_uuid_def bnd_Inr_iff cast_uuid_Inr_iff)
  from assms show ?thesis
    unfolding select_object_def
    by (auto simp: bnd_Inr_iff cast_uuid_Inr_iff cast dest!: query_step find_SomeD split: option.splits if_splits)
qed

text \<open>What a read returns is the blob of the row it selected.\<close>

lemma get_version_row:
  assumes g: "good_config E C" and i: "intact E C w"
    and r: "get_version E C bucket_id key version_id w = (Inr (md, body), w')"
  shows "\<exists>b row. pg_uuid E bucket_id = Some b \<and> row \<in> set (t_objects (db w)) \<and> same_key b key row \<and> visible row \<and>
    (version_id = [] \<longrightarrow> o_latest row) \<and> (version_id \<noteq> [] \<longrightarrow> pg_uuid E version_id = Some (o_version row)) \<and>
    md = metadata_of row \<and> stored_as E C row body w"
proof -
  obtain row w1 backend w2 where s: "select_object E bucket_id key version_id visible w = (Inr row, w1)"
    and q: "query (\<lambda>d. case find (\<lambda>r. o_id r = o_id row) (t_objects d) of None \<Rightarrow> Inl PgNoRows | Some r \<Rightarrow> Inr (o_backend r)) w1 = (Inr backend, w2)"
    and get: "store_get E C backend (o_path row) w2 = (Inr body, w')" and md: "md = metadata_of row"
    using r unfolding get_version_def by (auto simp: bnd_Inr_iff)
  obtain b where b: "pg_uuid E bucket_id = Some b" "row \<in> set (t_objects (db w))" "same_key b key row" "visible row"
      "version_id = [] \<longrightarrow> o_latest row" "version_id \<noteq> [] \<longrightarrow> pg_uuid E version_id = Some (o_version row)" "env_step w w1"
    using select_finds [OF s] by blast
  have i1: "intact E C w1" using stableD [OF stable_intact i b(7)] .
  have d: "db w1 = db w" "db w2 = db w1" using b(7) query_Inr [OF q] by (simp_all add: env_step_fields)
  have i2: "intact E C w2" using keeps_invD [OF keeps_query [OF stable_intact] i1 q] .
  have ok: "catalog_ok C (db w)" using i by (simp add: intact_def)
  have "backend = o_backend row"
  proof -
    obtain r where "r \<in> set (t_objects (db w))" "o_id r = o_id row" "backend = o_backend r"
      using query_Inr [OF q] d by (auto split: option.splits dest!: find_SomeD)
    then show ?thesis using same_id_same_row [OF ok _ b(2)] by blast
  qed
  moreover obtain x where x: "stored_as E C row x w2"
    using i2 b(2,4) d by (auto simp: intact_def blobs_ok_def)
  moreover have s: "sound_path E (o_path row)"
    using catalogD(2) [OF ok b(2)] b(4) sound_object_path [OF g] by (auto simp: row_ok_def visible_def split: if_splits)
  ultimately have "body = x"
    using get dist_get_sound [OF sound_pathD(1,2) [OF s]] local_get_value
    by (fastforce simp: store_get_def stored_as_def held_in_def split: if_splits)
  moreover have "stored_as E C row x w"
  proof -
    obtain y where y: "stored_as E C row y w" using i b(2,4) by (auto simp: intact_def blobs_ok_def)
    have "stored_as E C row y w1" using stableD [OF stable_stored_as y b(7)] .
    then have "stored_as E C row y w2" using keeps_invD [OF keeps_query [OF stable_stored_as] _ q] by blast
    then have "x = y" using x stored_as_unique by blast
    then show ?thesis using y by simp
  qed
  ultimately show ?thesis using b md by blast
qed

section \<open>A calm installation\<close>

text \<open>With nothing failing, a valid write to an existing bucket succeeds.\<close>

lemma insert_fresh:
  assumes "list_ex (\<lambda>r. b_id r = b) (t_buckets d)" "o_owner row = None" "\<forall>r \<in> set (t_objects d). o_id r \<noteq> o_id row"
    and "same_key b k row"
  shows "insert_object row (change_objects (unset_latest b k) d) =
    Inr (row, change_objects (\<lambda>rows. unset_latest b k rows @ [row]) d)"
proof -
  have k: "o_bucket row = b" "o_key row = k" using assms(4) by (simp_all add: same_key_def)
  have "\<not> list_ex (\<lambda>r. o_id r = o_id row \<or> (o_latest row \<and> o_latest r \<and> same_key b k r)) (unset_latest b k (t_objects d))"
    using assms(3) by (auto simp: list_ex_iff unset_latest_def)
  then show ?thesis using assms(1,2) by (simp add: insert_object_def k change_objects_def owner_exists_def)
qed

lemma put_object_calm:
  assumes calm: "script w = []" and C: "cf_backend C \<noteq> ''distributed''" "\<not> cf_quotas C"
    and input: "validate_payload E (pi_body input) (pi_size input) (pi_md5 input) = Inr ()" "pi_created_by input = []"
    and b: "pg_uuid E bucket_id = Some b" "list_ex (\<lambda>r. b_id r = b) (t_buckets (db w))"
    and ids: "\<forall>r \<in> set (t_objects (db w)). o_id r \<noteq> rnd_uuid E (Suc (Suc (rnd_pos w)))"
  shows "\<exists>md w'. put_object E C bucket_id input w = (Inr md, w') \<and> script w' = [] \<and> md_key md = pi_key input \<and>
    md_etag md = hex_encode (sha256 E (pi_body input))"
proof -
  obtain size existed where look: "lookup_existing_object E bucket_id (pi_key input) (w\<lparr>rnd_pos := Suc (rnd_pos w)\<rparr>) =
      (Inr (size, existed), w\<lparr>rnd_pos := Suc (rnd_pos w)\<rparr>)"
    using calm b(1)
    by (cases "find (\<lambda>r. same_key b (pi_key input) r \<and> o_deleted r = None \<and> o_latest r \<and> \<not> o_marker r) (t_objects (db w))")
       (auto simp: lookup_existing_object_def bnd_def attempt_def cast_uuid_def query_calm)
  show ?thesis
    using look calm C input b ids
    by (simp add: put_object_def bnd_def of_result_def new_uuid_def Let_def resolve_placement_endpoints_def
        store_new_blob_def resolve_write_backend_def local_put_calm transaction_def now_def insert_version_def cast_uuid_def
        exec_calm cast_optional_uuid_def insert_fresh same_key_def record_placements_def metadata_of_def)
qed

text \<open>
  A fresh installation satisfies the invariant. With the local store, every live current version
  can be read while nothing fails.
\<close>

lemma fresh_intact: "\<not> cf_distributed C \<Longrightarrow> t_objects d = [] \<Longrightarrow> t_uploads d = [] \<Longrightarrow> t_parts d = [] \<Longrightarrow> intact E C (calm_world d)"
  by (auto simp: intact_def catalog_ok_def blobs_ok_def vacant_def blob_value_def calm_world_def)

lemma live_readable:
  assumes i: "intact E C w" and calm: "script w = []" and C: "\<not> cf_distributed C"
    and r: "r \<in> set (t_objects (db w))" "visible r" "o_latest r" "pg_uuid E bucket_id = Some (o_bucket r)"
  shows "\<exists>md body. get_by_key E C bucket_id (o_key r) w = (Inr (md, body), w)"
proof -
  let ?p = "\<lambda>s. same_key (o_bucket r) (o_key r) s \<and> visible s \<and> o_latest s"
  have "?p r" using r by (simp add: same_key_def)
  then obtain s where s: "find ?p (t_objects (db w)) = Some s"
    using r(1) by (cases "find ?p (t_objects (db w))") (auto simp: find_None_iff)
  then have sp: "s \<in> set (t_objects (db w))" "visible s" by (auto dest: find_SomeD)
  then obtain x where "stored_as E C s x w" using i by (auto simp: intact_def blobs_ok_def)
  then have "blob_value E ApiHost w (o_path s) = Some x" using C by (simp add: stored_as_def held_in_def in_distributed_def)
  then have get: "local_get E ApiHost (o_path s) w = (Inr x, w)" using local_get_calm [OF calm] by simp
  obtain t where t: "find (\<lambda>q. o_id q = o_id s) (t_objects (db w)) = Some t"
    using sp(1) by (cases "find (\<lambda>q. o_id q = o_id s) (t_objects (db w))") (auto simp: find_None_iff)
  show ?thesis
    using calm r(4) s t get C
    by (simp add: get_by_key_def get_version_def select_object_def bnd_def cast_uuid_def cast_optional_uuid_def
        query_calm store_get_def in_distributed_def)
qed

definition example_config :: service_config where
  "example_config = \<lparr>cf_tenant = ''t'', cf_backend = ''local'', cf_placement_endpoints = [], cf_placement_replicas = 0,
     cf_default_class = ''standard'', cf_policy_class = ''standard'', cf_policy_replicas = 1, cf_endpoint_count = 0,
     cf_settings = False, cf_quotas = False, cf_distributed = False, cf_scan_mode = ''off''\<rparr>"

definition example_db :: database where
  "example_db = empty_db\<lparr>t_buckets := [\<lparr>b_id = ''b'', b_name = ''b'', b_tenant = ''t'', b_class = ''standard'',
     b_replicas = None, b_owner = None, b_created = 0\<rparr>]\<rparr>"

definition example_input :: put_input where
  "example_input = \<lparr>pi_key = ''k'', pi_ctype = [], pi_cache = [], pi_disp = [], pi_enc = [], pi_meta = None,
     pi_created_by = [], pi_retain = None, pi_expire = None, pi_tags = None, pi_size = - 1, pi_md5 = [], pi_body = ''data''\<rparr>"

lemma example_good: "good_config plain_ext example_config"
  by (simp add: good_config_def good_plain_ext example_config_def plain_elem_def slash_def)

lemma example_b: "pg_uuid plain_ext ''b'' = Some ''b''"
  by (simp add: plain_ext_def plain_elem_def slash_def)

lemma example_fresh: "intact plain_ext example_config (calm_world example_db)"
  by (rule fresh_intact) (simp_all add: example_config_def example_db_def empty_db_def)

lemma example_put_object:
  obtains md w' where "put_object plain_ext example_config ''b'' example_input (calm_world example_db) = (Inr md, w')"
    "script w' = []" "md_key md = ''k''"
proof -
  have "\<exists>md w'. put_object plain_ext example_config ''b'' example_input (calm_world example_db) = (Inr md, w') \<and> script w' = [] \<and>
      md_key md = pi_key example_input \<and> md_etag md = hex_encode (sha256 plain_ext (pi_body example_input))"
    by (rule put_object_calm)
       (simp_all add: example_b example_config_def example_db_def example_input_def validate_payload_def empty_db_def)
  then show ?thesis using that by (auto simp: example_input_def)
qed

lemma example_run:
  assumes "put_object plain_ext example_config ''b'' example_input (calm_world example_db) = (Inr md, w')"
  shows "service_run plain_ext example_config (calm_world example_db) [Some (PutObject ''b'' example_input)] w'"
proof -
  have "service_step plain_ext example_config (calm_world example_db) (Some (PutObject ''b'' example_input)) w'"
    by (rule service_step.Call) (simp_all add: ignore_error_def attempt_def bnd_def assms)
  from Next [OF Start this] show ?thesis by simp
qed

lemma example_read:
  obtains md w' md' body where
    "put_object plain_ext example_config ''b'' example_input (calm_world example_db) = (Inr md, w')"
    "get_by_key plain_ext example_config ''b'' ''k'' w' = (Inr (md', body), w')"
proof -
  obtain md w' where p: "put_object plain_ext example_config ''b'' example_input (calm_world example_db) = (Inr md, w')" "script w' = []"
    by (rule example_put_object)
  have i: "intact plain_ext example_config w'" and
    "\<exists>b row. pg_uuid plain_ext ''b'' = Some b \<and> md = metadata_of row \<and> new_version plain_ext example_config b ''k'' ''data'' row w'"
    using tripleD_Inr [OF triple_put_object [OF example_good] example_fresh p(1)] by (auto simp: example_input_def)
  then obtain row where "new_version plain_ext example_config ''b'' ''k'' ''data'' row w'" by (auto simp: example_b)
  then have "row \<in> set (t_objects (db w'))" "visible row" "o_latest row" "o_bucket row = ''b''" "o_key row = ''k''"
    by (auto simp: new_version_def same_key_def)
  then have "\<exists>md' body. get_by_key plain_ext example_config ''b'' ''k'' w' = (Inr (md', body), w')"
    using live_readable [OF i p(2), of row "''b''"] by (simp add: example_config_def example_b)
  then show ?thesis using that p(1) by blast
qed

section \<open>Live versions have their blobs\<close>

text \<open>
  C1: after any sequence of calls of the service, each with any failures inside, every version
  that is live has a blob where its row says, whose length and SHA-256 are the size and the ETag
  of the row.
\<close>

theorem live_versions_kept:
  assumes "good_config E C" "intact E C w" "service_run E C w ls w'"
    and "r \<in> set (t_objects (db w'))" "visible r"
  shows "\<exists>x. stored_as E C r x w'"
  using run_intact [OF assms(1,3,2)] assms(4,5) by (auto simp: intact_def blobs_ok_def)

theorem live_versions_kept_witness:
  "\<exists>r w' x. service_run plain_ext example_config (calm_world example_db) [Some (PutObject ''b'' example_input)] w' \<and>
     visible r \<and> stored_as plain_ext example_config r x w'"
proof -
  obtain md w' where p: "put_object plain_ext example_config ''b'' example_input (calm_world example_db) = (Inr md, w')"
    by (rule example_put_object)
  obtain row where row: "row \<in> set (t_objects (db w'))" "visible row"
    using tripleD_Inr [OF triple_put_object [OF example_good] example_fresh p] by (auto simp: new_version_def)
  show ?thesis
    using live_versions_kept [OF example_good example_fresh example_run [OF p] row] example_run [OF p] row(2) by blast
qed

text \<open>
  C4: with the local store, once calls stop failing every key that has a live current version can
  be read, whatever failed in the calls that led there.
\<close>

theorem live_version_readable:
  assumes "good_config E C" "intact E C w" "service_run E C w ls w'" "script w' = []" "\<not> cf_distributed C"
    and "r \<in> set (t_objects (db w'))" "visible r" "o_latest r" "pg_uuid E bucket_id = Some (o_bucket r)"
  shows "\<exists>md body. get_by_key E C bucket_id (o_key r) w' = (Inr (md, body), w')"
  by (rule live_readable [OF run_intact [OF assms(1,3,2)] assms(4-9)])

theorem live_version_readable_witness:
  "\<exists>w' md body. service_run plain_ext example_config (calm_world example_db) [Some (PutObject ''b'' example_input)] w' \<and>
     get_by_key plain_ext example_config ''b'' ''k'' w' = (Inr (md, body), w')"
proof -
  obtain md w' where p: "put_object plain_ext example_config ''b'' example_input (calm_world example_db) = (Inr md, w')"
      "script w' = []"
    by (rule example_put_object)
  obtain row where row: "row \<in> set (t_objects (db w'))" "visible row" "o_latest row" "o_bucket row = ''b''" "o_key row = ''k''"
    using tripleD_Inr [OF triple_put_object [OF example_good] example_fresh p(1)]
    by (auto simp: new_version_def same_key_def example_b example_input_def)
  have c: "\<not> cf_distributed example_config" by (simp add: example_config_def)
  show ?thesis
    using live_version_readable [OF example_good example_fresh example_run [OF p(1)] p(2) c row(1-3), of "''b''"]
      example_run [OF p(1)] row(4,5) example_b by auto
qed

text \<open>
  C3: whatever calls ran before and whatever failed in them, what a read returns is intact: its
  length and its SHA-256 are the size and the ETag of the version, and it is a live version of
  the bucket and key that was asked for.
\<close>

theorem reads_are_faithful:
  assumes "good_config E C" "intact E C w" "service_run E C w ls w'"
    and "get_version E C bucket_id key version_id w' = (Inr (md, body), w'')"
  shows "int (length body) = md_size md \<and> hex_encode (sha256 E body) = md_etag md \<and> md_key md = key \<and>
    pg_uuid E bucket_id = Some (md_bucket md) \<and> \<not> md_marker md \<and> (version_id = [] \<longrightarrow> md_latest md)"
  using get_version_row [OF assms(1) run_intact [OF assms(1,3,2)] assms(4)]
  by (auto simp: metadata_of_def stored_as_def same_key_def visible_def)

theorem reads_are_faithful_witness:
  "\<exists>w' md body. get_version plain_ext example_config ''b'' ''k'' [] w' = (Inr (md, body), w') \<and> int (length body) = md_size md"
proof -
  obtain md w' md' body where p: "put_object plain_ext example_config ''b'' example_input (calm_world example_db) = (Inr md, w')"
    and g: "get_by_key plain_ext example_config ''b'' ''k'' w' = (Inr (md', body), w')"
    by (rule example_read)
  have i: "intact plain_ext example_config w'"
    using tripleD_Inr [OF triple_put_object [OF example_good] example_fresh p] by simp
  have "get_version plain_ext example_config ''b'' ''k'' [] w' = (Inr (md', body), w')" using g by (simp add: get_by_key_def)
  with reads_are_faithful [OF example_good i Start this] show ?thesis by blast
qed

text \<open>
  C2: a write that reported success is read back: until the next call, a read of the key returns
  the metadata the write returned and exactly the bytes written.
\<close>

theorem write_read_back:
  assumes "good_config E C" "intact E C w" "put_object E C bucket_id input w = (Inr md, w')"
    and "get_by_key E C bucket_id (pi_key input) w' = (Inr (md', body), w'')"
  shows "md' = md \<and> body = pi_body input"
proof -
  have p: "intact E C w'" "\<exists>b row. pg_uuid E bucket_id = Some b \<and> md = metadata_of row \<and>
      new_version E C b (pi_key input) (pi_body input) row w'"
    using tripleD_Inr [OF triple_put_object [OF assms(1)] assms(2,3)] by blast+
  obtain b row where row: "pg_uuid E bucket_id = Some b" "md = metadata_of row"
      "new_version E C b (pi_key input) (pi_body input) row w'" using p(2) by blast
  obtain row' where row': "row' \<in> set (t_objects (db w'))" "same_key b (pi_key input) row'" "o_latest row'"
      "md' = metadata_of row'" "stored_as E C row' body w'"
    using get_version_row [OF assms(1) p(1) assms(4) [unfolded get_by_key_def]] row(1) by auto
  then have "row' = row" using row(3) by (auto simp: new_version_def)
  moreover have "body = pi_body input"
    using row(3) row'(5) \<open>row' = row\<close> stored_as_unique by (auto simp: new_version_def)
  ultimately show ?thesis using row(2) row'(4) by simp
qed

theorem write_read_back_witness:
  "\<exists>md w'. put_object plain_ext example_config ''b'' example_input (calm_world example_db) = (Inr md, w') \<and>
     fst (get_by_key plain_ext example_config ''b'' ''k'' w') = Inr (md, ''data'')"
proof -
  obtain md w' md' body where p: "put_object plain_ext example_config ''b'' example_input (calm_world example_db) = (Inr md, w')"
    and g: "get_by_key plain_ext example_config ''b'' ''k'' w' = (Inr (md', body), w')"
    by (rule example_read)
  have "get_by_key plain_ext example_config ''b'' (pi_key example_input) w' = (Inr (md', body), w')"
    using g by (simp add: example_input_def)
  from write_read_back [OF example_good example_fresh p this] show ?thesis using p g by (simp add: example_input_def)
qed

end
