(* ===== verification/Writes.thy ===== *)
theory Writes
  imports Service
begin

text \<open>
  What a write leaves in the tables, whether it reports success or an error: a put either adds one
  version and leaves the other rows but for the flag of the latest version, or changes no row; an
  error with a new version is that of a commit that took effect although it was reported as failed.
  Quotas are judged by this: the usage after a write against the limits.
\<close>

section \<open>Programs that end in one of two ways\<close>

definition outcome :: "(world \<Rightarrow> bool) \<Rightarrow> 'a prog \<Rightarrow> (err + 'a \<Rightarrow> world \<Rightarrow> bool) \<Rightarrow> bool" where
  "outcome P m R \<longleftrightarrow> (\<forall>w. P w \<longrightarrow> R (fst (m w)) (snd (m w)))"

lemma outcomeD: "outcome P m R \<Longrightarrow> P w \<Longrightarrow> m w = (r, w') \<Longrightarrow> R r w'"
  unfolding outcome_def by (metis fst_conv snd_conv)

lemma outcome_bnd:
  assumes "triple P m (\<lambda>x w. P w \<and> \<phi> x) P" "\<And>x. \<phi> x \<Longrightarrow> outcome P (f x) R" "\<And>e w. P w \<Longrightarrow> R (Inl e) w"
  shows "outcome P (bnd m f) R"
  unfolding outcome_def
proof (intro allI impI)
  fix w assume w: "P w"
  obtain r w1 where m: "m w = (r, w1)" by fastforce
  show "R (fst (bnd m f w)) (snd (bnd m f w))"
  proof (cases r)
    case (Inl e)
    then show ?thesis using tripleD_Inl [OF assms(1) w] m assms(3) by (simp add: bnd_def)
  next
    case (Inr x)
    then show ?thesis using tripleD_Inr [OF assms(1) w] m assms(2) by (fastforce simp: bnd_def outcome_def)
  qed
qed

lemma outcome_keeps:
  assumes "keeps_inv P m" "\<And>x. outcome P (f x) R" "\<And>e w. P w \<Longrightarrow> R (Inl e) w"
  shows "outcome P (bnd m f) R"
  by (rule outcome_bnd [where \<phi> = "\<lambda>_. True"]) (use assms in \<open>auto simp: keeps_inv_triple\<close>)

lemma outcome_ret_after:
  "outcome P m (\<lambda>r w. R (map_sum id f r) w) \<Longrightarrow> outcome P (bnd m (\<lambda>x. ret (f x))) R"
  unfolding outcome_def by (fastforce simp: bnd_def split: prod.splits sum.splits)

text \<open>
  A transaction undoes its body on an error; with a late commit an error is reported although the
  body has taken effect.
\<close>

definition done_or_undone :: "(world \<Rightarrow> bool) \<Rightarrow> (world \<Rightarrow> bool) \<Rightarrow> err + 'a \<Rightarrow> world \<Rightarrow> bool" where
  "done_or_undone P Q r w \<longleftrightarrow> (isl r \<and> P w) \<or> ((r = Inl Unavailable \<or> \<not> isl r) \<and> Q w)"

lemma outcome_transaction:
  assumes "stable P" "stable Q" "\<And>t. triple P (body t) (\<lambda>_. Q) (\<lambda>_. True)" "\<And>t. db_only (body t)"
  shows "outcome P (transaction body) (done_or_undone P Q)"
  unfolding transaction_def
proof (rule outcome_keeps [OF keeps_external [OF assms(1) keeps_now]])
  fix t
  show "outcome P (\<lambda>w. case body t w of
      (Inl e, w') \<Rightarrow> (Inl e, w'\<lparr>db := db w\<rparr>)
    | (Inr x, w') \<Rightarrow> (case script w' of
          (Lost, dt) # rest \<Rightarrow> (Inl Unavailable, w'\<lparr>db := db w, script := rest, clock := clock w' + int dt\<rparr>)
        | _ \<Rightarrow> external (ret x) w')) (done_or_undone P Q)"
    unfolding outcome_def
  proof (intro allI impI)
    fix w assume w: "P w"
    obtain r w' where b: "body t w = (r, w')" by fastforce
    have es: "env_step w (w'\<lparr>db := db w\<rparr>)" using assms(4) b by (metis db_only_def snd_conv)
    have undone: "P (w'\<lparr>db := db w\<rparr>)" using assms(1) w es by (rule stableD)
    have undone2: "P (w'\<lparr>db := db w, script := s, clock := clock w' + int dt\<rparr>)" for s dt
      using stableD [OF assms(1) undone] by (auto simp: env_step_fields)
    show "done_or_undone P Q
        (fst (case body t w of
            (Inl e, w') \<Rightarrow> (Inl e, w'\<lparr>db := db w\<rparr>)
          | (Inr x, w') \<Rightarrow> (case script w' of
                (Lost, dt) # rest \<Rightarrow> (Inl Unavailable, w'\<lparr>db := db w, script := rest, clock := clock w' + int dt\<rparr>)
              | _ \<Rightarrow> external (ret x) w')))
        (snd (case body t w of
            (Inl e, w') \<Rightarrow> (Inl e, w'\<lparr>db := db w\<rparr>)
          | (Inr x, w') \<Rightarrow> (case script w' of
                (Lost, dt) # rest \<Rightarrow> (Inl Unavailable, w'\<lparr>db := db w, script := rest, clock := clock w' + int dt\<rparr>)
              | _ \<Rightarrow> external (ret x) w')))"
    proof (cases r)
      case (Inl e)
      then show ?thesis using b undone by (simp add: done_or_undone_def)
    next
      case (Inr x)
      then have q: "Q w'" using tripleD_Inr [OF assms(3) w] b by blast
      have late: "Q (w'\<lparr>script := s, clock := clock w' + int dt\<rparr>)" for s dt
        using stableD [OF assms(2) q] by (auto simp: env_step_fields)
      show ?thesis
        using b Inr q late undone2
        by (auto simp: done_or_undone_def external_def Let_def split: list.split prod.split fate.split)
    qed
  qed
qed (simp add: done_or_undone_def)

section \<open>The rows after a put\<close>

text \<open>The rows a write counts on: versions and limits.\<close>

definition ledger :: "database \<Rightarrow> object_row list \<times> bucket_quota_row list \<times> user_quota_row list" where
  "ledger d = (t_objects d, t_bucket_quotas d, t_user_quotas d)"

definition version_added :: "string \<Rightarrow> put_input \<Rightarrow> string option \<Rightarrow> database \<Rightarrow> database \<Rightarrow> bool" where
  "version_added b input owner d d' \<longleftrightarrow> (\<exists>row.
     ledger d' = (unset_latest b (pi_key input) (t_objects d) @ [row], t_bucket_quotas d, t_user_quotas d) \<and>
     same_key b (pi_key input) row \<and> visible row \<and> o_size row = int (length (pi_body input)) \<and> o_owner row = owner)"

definition owner_of :: "ext \<Rightarrow> put_input \<Rightarrow> string option \<Rightarrow> bool" where
  "owner_of E input owner \<longleftrightarrow> (if pi_created_by input = [] then owner = None
     else \<exists>u. pg_uuid E (pi_created_by input) = Some u \<and> owner = Some u)"

abbreviation at_ledger :: "database \<Rightarrow> world \<Rightarrow> bool" where
  "at_ledger d w \<equiv> ledger (db w) = ledger d"

lemma stable_ledger: "stable (\<lambda>w. ledger (db w) = x)"
  by (rule stable_db)

lemma keeps_ledger_exec:
  "(\<And>t d x d'. q t d = Inr (x, d') \<Longrightarrow> ledger d' = ledger d) \<Longrightarrow> keeps_inv (\<lambda>w. ledger (db w) = l) (exec q)"
  by (rule keeps_exec [OF stable_ledger]) auto

lemma keeps_ledger_lookup: "keeps_inv (\<lambda>w. ledger (db w) = l) (lookup_existing_object E b k)"
  unfolding lookup_existing_object_def by (intro keeps stable_ledger)

lemma keeps_ledger_quota: "keeps_inv (\<lambda>w. ledger (db w) = l) (check_object_write E b u x y z)"
  unfolding check_object_write_def bucket_snapshot_def user_snapshot_def Let_def by (intro keeps stable_ledger)

lemma keeps_ledger_policy: "keeps_inv (\<lambda>w. ledger (db w) = l) (policy_or_none C)"
  unfolding policy_or_none_def resolve_storage_policy_def ensure_storage_policy_def Let_def
  by (intro keeps stable_ledger keeps_ledger_exec) (auto simp: ledger_def split: option.splits)

lemma keeps_ledger_endpoints: "keeps_inv (\<lambda>w. ledger (db w) = l) (resolve_placement_endpoints E C b)"
  unfolding resolve_placement_endpoints_def active_placement_endpoints_def placement_target_def class_for_placement_def Let_def
  by (intro keeps stable_ledger keeps_ledger_policy)

lemma keeps_ledger_placements: "keeps_inv (\<lambda>w. ledger (db w) = l) (record_placements E C t i p es)"
proof -
  have "keeps_inv (\<lambda>w. ledger (db w) = l) (insert_placements E t i p n es)" for n
  proof (induction es arbitrary: n)
    case (Cons e es)
    have row: "keeps_inv (\<lambda>w. ledger (db w) = l) (exec (\<lambda>_ d. insert_placement (f d) d))" for f
      by (rule keeps_ledger_exec) (auto simp: insert_placement_def ledger_def split: if_splits)
    show ?case unfolding insert_placements.simps Let_def by (intro keeps stable_ledger row Cons.IH)
  qed (simp add: keeps)
  then show ?thesis
    unfolding record_placements_def by (intro keeps_if keeps_bnd keeps_ret keeps_ledger_exec) (auto simp: ledger_def)
qed

lemma triple_version_added:
  assumes b: "pg_uuid E bucket_id = Some b"
  shows "triple (at_ledger d) (insert_version E C bucket_id input location etag selected t)
    (\<lambda>_ w. \<exists>owner. owner_of E input owner \<and> version_added b input owner d (db w)) (\<lambda>_. True)"
    (is "triple _ _ (\<lambda>_. ?Q) _")
proof -
  let ?unset = "(unset_latest b (pi_key input) (t_objects d), t_bucket_quotas d, t_user_quotas d)"
  have cast: "triple (at_ledger d) (cast_uuid E bucket_id) (\<lambda>x w. at_ledger d w \<and> x = b) (\<lambda>_. True)"
    by (rule triple_weaken [OF triple_cast [where X = "\<lambda>_. True"]]) (auto simp: b)
  have unset: "triple (at_ledger d) (exec (\<lambda>_ d. Inr ((), change_objects (unset_latest b (pi_key input)) d)))
      (\<lambda>_ w. ledger (db w) = ?unset) (\<lambda>_. True)"
    by (rule triple_exec [OF stable_ledger]) (auto simp: ledger_def change_objects_def)
  have owner: "triple (\<lambda>w. ledger (db w) = ?unset) (cast_optional_uuid E (pi_created_by input))
      (\<lambda>owner w. ledger (db w) = ?unset \<and> owner_of E input owner) (\<lambda>_. True)"
    by (auto simp: triple_def cast_optional_uuid_def cast_uuid_def owner_of_def bnd_def split: option.split)
  have ids: "triple (\<lambda>w. ledger (db w) = ?unset) (new_uuid E) (\<lambda>_ w. ledger (db w) = ?unset) (\<lambda>_. True)"
    by (simp add: triple_def new_uuid_def)
  have rec: "triple ?Q (record_placements E C t i location selected) (\<lambda>_. ?Q) (\<lambda>_. True)" for i
  proof -
    have "ledger (db (snd (record_placements E C t i location selected v))) = ledger (db v)" for v
      using keeps_ledger_placements [of "ledger (db v)"] by (simp add: keeps_inv_def)
    then have "keeps_inv ?Q (record_placements E C t i location selected)" by (simp add: keeps_inv_def version_added_def)
    then show ?thesis by (rule triple_of_keeps) simp
  qed
  show ?thesis
    unfolding insert_version_def
    apply (rule triple_bnd [OF cast])
    apply (rule triple_conj_const, simp only:)
    apply (rule triple_bnd [OF unset])
    apply (rule triple_bnd [OF owner])
    apply (rule triple_conj_const)
    apply (rule triple_bnd [OF ids])
    apply (rule triple_bnd [OF ids])
    apply (rule triple_bnd [where Q = "\<lambda>_. ?Q"])
     apply (rule triple_exec [OF stable_ledger])
      apply (fastforce simp: insert_object_def version_added_def ledger_def change_objects_def same_key_def visible_def split: if_splits)
     apply simp
    apply (rule triple_bnd [OF rec])
    apply (rule triple_ret)
    apply assumption
    done
qed

text \<open>
  A put changes no version, or adds its own: with success always, with an error only when the
  commit was late.
\<close>

lemma put_object_outcome:
  assumes g: "good_config E C" and b: "pg_uuid E bucket_id = Some b" and p: "put_object E C bucket_id input w = (r, w')"
  shows "done_or_undone (at_ledger (db w))
    (\<lambda>w'. \<exists>owner. owner_of E input owner \<and> version_added b input owner (db w) (db w')) r w'"
proof -
  let ?P = "at_ledger (db w)" and ?Q = "\<lambda>w'. \<exists>owner. owner_of E input owner \<and> version_added b input owner (db w) (db w')"
  let ?R = "\<lambda>r. done_or_undone ?P ?Q r"
  have err: "?R (Inl e) v" if "?P v" for e v using that by (simp add: done_or_undone_def)
  have pe: "plain_elem bucket_id" using pg_uuid_plain [OF good_configD(1) [OF g] b] by simp
  have new: "triple ?P (new_uuid E) (\<lambda>i w. ?P w \<and> plain_elem i) ?P"
    using rnd_uuid_plain [OF good_configD(1) [OF g]] by (simp add: triple_def new_uuid_def)
  have store: "keeps_inv ?P (store_new_blob E C s (physical_path (cf_tenant C) bucket_id i) x)" if "plain_elem i" for s i x
  proof (rule keeps_store_new_blob [OF unmoved_db])
    have "object_path C (physical_path (cf_tenant C) bucket_id i)" using pe that unfolding object_path_def by blast
    then show "sound_path E (physical_path (cf_tenant C) bucket_id i)" using g sound_object_path by blast
  qed
  have finish: "outcome ?P (bnd (transaction (insert_version E C bucket_id input l etag s)) (\<lambda>row. ret (metadata_of row))) ?R" for l etag s
  proof (rule outcome_ret_after)
    have eq: "done_or_undone ?P ?Q (map_sum id metadata_of x) v = done_or_undone ?P ?Q x v" for x :: "err + object_row" and v
      by (cases x) (auto simp: done_or_undone_def)
    have "stable ?Q" by (rule stable_db)
    then show "outcome ?P (transaction (insert_version E C bucket_id input l etag s)) (\<lambda>r. ?R (map_sum id metadata_of r))"
      unfolding eq by (intro outcome_transaction stable_ledger triple_version_added [OF b] db_only_insert_version)
  qed
  note step = outcome_keeps [where P = ?P and R = ?R, OF _ _ err]
  note fact = outcome_bnd [where P = ?P and R = ?R, OF _ _ err]
  have "outcome ?P (put_object E C bucket_id input) ?R"
    unfolding put_object_def Let_def
    apply (rule fact [where \<phi> = "\<lambda>_. True"])
      apply (rule triple_weaken [OF triple_value [OF stable_ledger, where X = ?P]]; simp)
     apply (rule step [OF keeps_of_result])
      apply (rule fact [where \<phi> = plain_elem])
        apply (rule new)
       apply (rule step [OF keeps_ledger_lookup])
        apply (simp only: split_beta)
        apply (rule step [OF keeps_if [OF keeps_ledger_quota keeps_ret]])
         apply (rule step [OF keeps_ledger_endpoints])
          apply (rule step [OF store], assumption)
           apply (rule finish)
          apply assumption+
    done
  from outcomeD [OF this _ p] show ?thesis by simp
qed

lemma failed_put_rows:
  assumes g: "good_config E C" and p: "put_object E C bucket_id input w = (Inl e, w')"
  shows "t_objects (db w') = t_objects (db w) \<or>
    (e = Unavailable \<and> (\<exists>b owner. version_added b input owner (db w) (db w')))"
proof (cases "pg_uuid E bucket_id")
  case None
  have k: "keeps_inv (at_ledger (db w)) (put_object E C bucket_id input)"
    unfolding put_object_def Let_def lookup_bad [OF None] bnd_fail
    by (intro keeps_bnd keeps_external keeps_of_result keeps_new_uuid keeps_ret keeps_fail stable_ledger)
  have "ledger (db w') = ledger (db w)" by (rule keeps_invD [OF k refl p])
  then show ?thesis by (simp add: ledger_def)
next
  case (Some b)
  then show ?thesis using put_object_outcome [OF g Some p] by (auto simp: done_or_undone_def ledger_def)
qed

section \<open>Usage after a put\<close>

lemma ledger_quantities:
  assumes "ledger d' = ledger d"
  shows "used_bytes p d' = used_bytes p d" "used_objects p d' = used_objects p d" "bucket_limits b d' = bucket_limits b d"
    "user_limit u d' = user_limit u d" "quotas_fit d' = quotas_fit d" "t_objects d' = t_objects d"
  using assms by (simp_all add: ledger_def used_bytes_def used_objects_def bucket_limits_def user_limit_def
      bucket_quota_of_def user_quota_of_def quotas_fit_def)

lemma version_added_limits:
  "version_added b input owner d d' \<Longrightarrow> bucket_limits x d' = bucket_limits x d \<and> user_limit u d' = user_limit u d"
  by (auto simp: version_added_def ledger_def bucket_limits_def user_limit_def bucket_quota_of_def user_quota_of_def)

lemma unset_latest_usage:
  assumes "\<And>r. p (r\<lparr>o_latest := False\<rparr>) = p r"
  shows "map o_size (filter (\<lambda>r. p r \<and> live r) (unset_latest b k rows)) = map o_size (filter (\<lambda>r. p r \<and> live r) rows)"
    "length (filter (\<lambda>r. p r \<and> live r) (unset_latest b k rows)) = length (filter (\<lambda>r. p r \<and> live r) rows)"
  using assms by (induction rows) (simp_all add: unset_latest_def live_def)

lemma usage_with_row:
  assumes "ledger d' = (unset_latest b k (t_objects d) @ [row], q)" "live row" "\<And>r. p (r\<lparr>o_latest := False\<rparr>) = p r" "p row"
  shows "used_bytes p d' = used_bytes p d + o_size row" "used_objects p d' = used_objects p d + 1"
proof -
  have "t_objects d' = unset_latest b k (t_objects d) @ [row]" using assms(1) by (simp add: ledger_def)
  then show "used_bytes p d' = used_bytes p d + o_size row" "used_objects p d' = used_objects p d + 1"
    using assms(2,4) unset_latest_usage [of p, OF assms(3)] by (simp_all add: used_bytes_def used_objects_def)
qed

lemma version_added_usage:
  assumes "version_added b input owner d d'"
  shows "used_bytes (in_bucket b) d' = used_bytes (in_bucket b) d + int (length (pi_body input))"
    "used_objects (in_bucket b) d' = used_objects (in_bucket b) d + 1"
    "owner = Some u \<Longrightarrow> used_bytes (by_user u) d' = used_bytes (by_user u) d + int (length (pi_body input))"
proof -
  obtain row where row: "ledger d' = (unset_latest b (pi_key input) (t_objects d) @ [row], t_bucket_quotas d, t_user_quotas d)"
    "same_key b (pi_key input) row" "visible row" "o_size row = int (length (pi_body input))" "o_owner row = owner"
    using assms by (auto simp: version_added_def)
  have live: "live row" using row(3) by (simp add: visible_def live_def)
  have "in_bucket b row" using row(2) by (simp add: same_key_def in_bucket_def)
  from usage_with_row [where p = "in_bucket b", OF row(1) live _ this]
  show "used_bytes (in_bucket b) d' = used_bytes (in_bucket b) d + int (length (pi_body input))"
    "used_objects (in_bucket b) d' = used_objects (in_bucket b) d + 1"
    by (simp_all add: in_bucket_def row(4))
  assume "owner = Some u"
  then have "by_user u row" using row(5) by (simp add: by_user_def)
  from usage_with_row [where p = "by_user u", OF row(1) live _ this]
  show "used_bytes (by_user u) d' = used_bytes (by_user u) d + int (length (pi_body input))"
    by (simp add: by_user_def row(4))
qed

definition no_current_version :: "string \<Rightarrow> string \<Rightarrow> database \<Rightarrow> bool" where
  "no_current_version b k d \<longleftrightarrow> \<not> list_ex (\<lambda>r. same_key b k r \<and> o_deleted r = None \<and> o_latest r \<and> \<not> o_marker r) (t_objects d)"

lemma lookup_new_key:
  assumes "lookup_existing_object E bucket_id k w = (Inr x, w')" "pg_uuid E bucket_id = Some b" "no_current_version b k (db w)"
  shows "x = (0, False)"
proof -
  let ?q = "\<lambda>d. case find (\<lambda>r. same_key b k r \<and> o_deleted r = None \<and> o_latest r \<and> \<not> o_marker r) (t_objects d) of
      None \<Rightarrow> Inl PgNoRows | Some r \<Rightarrow> Inr (o_size r)"
  have none: "?q (db w) = Inl PgNoRows"
    using assms(3) by (simp add: no_current_version_def find_none_ex [symmetric])
  obtain r w1 where q: "query ?q w = (r, w1)" by fastforce
  have "lookup_existing_object E bucket_id k w =
      (case r of Inl e \<Rightarrow> if e = PgNoRows then ret (0, False) else fail e | Inr n \<Rightarrow> ret (n, True)) w1"
    using assms(2) q by (simp add: lookup_existing_object_def bnd_def cast_uuid_def)
  moreover have "r \<noteq> Inr n" for n using query_step [of ?q w n w1] q none by auto
  ultimately show ?thesis using assms(1) by (cases r) (auto split: if_splits)
qed

text \<open>
  C40: a put that makes a new key and reports success leaves the bucket within its limits of bytes
  and objects and the user within the limit of bytes, whatever fails inside, provided no sum leaves
  the range of \<open>int64\<close> and no other call runs between the check and the insertion.
\<close>

theorem new_key_within_quota:
  assumes "good_config E C" "cf_quotas C" "quotas_fit (db w)" "pg_uuid E bucket_id = Some b"
    and new: "no_current_version b (pi_key input) (db w)"
    and fit: "fits (int (length (pi_body input)))" "fits (used_bytes (in_bucket b) (db w) + int (length (pi_body input)))"
      "fits (used_objects (in_bucket b) (db w) + 1)"
      "\<And>u. pg_uuid E (pi_created_by input) = Some u \<Longrightarrow> fits (used_bytes (by_user u) (db w) + int (length (pi_body input)))"
    and p: "put_object E C bucket_id input w = (Inr md, w')"
  shows "within (used_bytes (in_bucket b) (db w')) (fst (bucket_limits b (db w'))) \<and>
    within (used_objects (in_bucket b) (db w')) (snd (bucket_limits b (db w'))) \<and>
    (pi_created_by input \<noteq> [] \<longrightarrow> (\<exists>u. pg_uuid E (pi_created_by input) = Some u \<and>
       within (used_bytes (by_user u) (db w')) (user_limit u (db w'))))"
proof -
  obtain payload w1 u1 w2 i w3 x w4 u2 w5 where
    1: "external (ret (pi_body input)) w = (Inr payload, w1)" and 2: "of_result (validate_payload E payload (pi_size input) (pi_md5 input)) w1 = (Inr u1, w2)"
    and 3: "new_uuid E w2 = (Inr i, w3)" and 4: "lookup_existing_object E bucket_id (pi_key input) w3 = (Inr x, w4)"
    and 5: "check_object_write E bucket_id (pi_created_by input) (word_of_int (fst x)) (word_of_int (int (length payload))) (snd x) w4 = (Inr u2, w5)"
    using p unfolding put_object_def Let_def split_beta bnd_Inr_iff by (simp only: assms(2) if_True) blast
  let ?l = "ledger (db w)"
  have payload: "payload = pi_body input" using 1 by (auto elim!: external_Inr)
  note keep = keeps_invD [where I = "\<lambda>w. ledger (db w) = ?l"]
  have "ledger (db w1) = ?l" by (rule keep [OF keeps_external [OF stable_ledger keeps_ret] refl 1])
  from keep [OF keeps_of_result this 2] have "ledger (db w2) = ?l" .
  from keep [OF keeps_new_uuid [OF stable_ledger] this 3] have l3: "ledger (db w3) = ?l" .
  from keep [OF keeps_ledger_lookup this 4] have l4: "ledger (db w4) = ?l" .
  have "no_current_version b (pi_key input) (db w3)"
    using new ledger_quantities(6) [OF l3] by (simp add: no_current_version_def)
  then have x: "x = (0, False)" by (rule lookup_new_key [OF 4 assms(4)])
  have n: "sint (word_of_int (int (length (pi_body input))) :: i64) = int (length (pi_body input))" by (rule sint_of_fits [OF fit(1)])
  note q = ledger_quantities [OF l4]
  have c: "check_object_write E bucket_id (pi_created_by input) 0 (word_of_int (int (length (pi_body input)))) False w4 = (Inr (), w5)"
    using 5 by (simp add: x payload)
  have checked: "within (used_bytes (in_bucket b) (db w) + int (length (pi_body input))) (fst (bucket_limits b (db w))) \<and>
    within (used_objects (in_bucket b) (db w) + 1) (snd (bucket_limits b (db w))) \<and>
    (pi_created_by input \<noteq> [] \<longrightarrow> (\<exists>u. pg_uuid E (pi_created_by input) = Some u \<and>
       within (used_bytes (by_user u) (db w) + int (length (pi_body input))) (user_limit u (db w))))"
    using check_object_write_within [OF c _ assms(4)] assms(3) fit by (simp add: q n n [simplified])
  obtain owner where o: "owner_of E input owner" "version_added b input owner (db w) (db w')"
    using put_object_outcome [OF assms(1,4) p] by (auto simp: done_or_undone_def)
  note u = version_added_usage [OF o(2)] and limits = version_added_limits [OF o(2)]
  have "used_bytes (by_user v) (db w') = used_bytes (by_user v) (db w) + int (length (pi_body input))"
    if "pi_created_by input \<noteq> []" "pg_uuid E (pi_created_by input) = Some v" for v
    using o(1) that by (intro u(3)) (simp add: owner_of_def)
  then show ?thesis using checked u(1,2) limits by auto
qed

section \<open>Examples\<close>

lemma put_object_checked:
  assumes calm: "script w = []" and C: "cf_backend C \<noteq> ''distributed''" "cf_quotas C"
    and input: "validate_payload E (pi_body input) (pi_size input) (pi_md5 input) = Inr ()" "pi_created_by input = []"
    and b: "pg_uuid E bucket_id = Some b" "list_ex (\<lambda>r. b_id r = b) (t_buckets (db w))"
    and ids: "\<forall>r \<in> set (t_objects (db w)). o_id r \<noteq> rnd_uuid E (Suc (Suc (rnd_pos w)))"
    and look: "lookup_existing_object E bucket_id (pi_key input) (w\<lparr>rnd_pos := Suc (rnd_pos w)\<rparr>) =
      (Inr (old_size, existed), w\<lparr>rnd_pos := Suc (rnd_pos w)\<rparr>)"
    and check: "check_object_write E bucket_id [] (word_of_int old_size) (word_of_int (int (length (pi_body input)))) existed
      (w\<lparr>rnd_pos := Suc (rnd_pos w)\<rparr>) = (Inr (), w\<lparr>rnd_pos := Suc (rnd_pos w)\<rparr>)"
  shows "\<exists>md w'. put_object E C bucket_id input w = (Inr md, w')"
  using look check [simplified] calm C input b ids
  by (simp add: put_object_def bnd_def of_result_def new_uuid_def Let_def resolve_placement_endpoints_def
      store_new_blob_def resolve_write_backend_def local_put_calm transaction_def now_def insert_version_def cast_uuid_def
      exec_calm cast_optional_uuid_def insert_fresh same_key_def record_placements_def)

definition quota_config :: service_config where
  "quota_config = example_config\<lparr>cf_quotas := True\<rparr>"

definition quota_db :: "object_row list \<Rightarrow> database" where
  "quota_db rows = example_db\<lparr>t_objects := rows, t_bucket_quotas := [\<lparr>bq_bucket = ''b'', bq_max_bytes = Some 4, bq_max_objects = Some 1,
     bq_warn = None, bq_cur_bytes = 0, bq_cur_objects = 0, bq_recalc = None\<rparr>]\<rparr>"

definition old_version :: object_row where
  "old_version = \<lparr>o_id = ''old'', o_bucket = ''b'', o_key = ''k'', o_version = ''v'', o_latest = True, o_marker = False, o_size = 4,
     o_etag = [], o_ctype = [], o_cache = [], o_disp = [], o_enc = [], o_meta = Map.empty, o_tags = Map.empty, o_path = [],
     o_backend = ''local'', o_owner = None, o_retain = None, o_expire = None, o_deleted = None, o_scan = [], o_hold = False, o_created = 0\<rparr>"

lemma quota_good: "good_config plain_ext quota_config"
  using example_good by (simp add: good_config_def quota_config_def)

lemma quota_put:
  assumes "rows = [] \<or> rows = [old_version]"
  obtains md w' where "put_object plain_ext quota_config ''b'' example_input (calm_world (quota_db rows)) = (Inr md, w')"
proof -
  let ?w = "calm_world (quota_db rows)"
  let ?v = "?w\<lparr>rnd_pos := Suc (rnd_pos ?w)\<rparr>"
  let ?size = "if rows = [] then 0 else 4 :: int"
  have old: "''old'' \<noteq> rnd_uuid plain_ext n" for n by (simp add: plain_ext_def)
  have look: "lookup_existing_object plain_ext ''b'' (pi_key example_input) ?v = (Inr (?size, rows \<noteq> []), ?v)"
    using assms by (auto simp: lookup_existing_object_def bnd_def cast_uuid_def example_b query_calm calm_world_def quota_db_def
        example_input_def old_version_def same_key_def)
  have u: "used_bytes (in_bucket ''b'') (quota_db rows) = ?size" "used_objects (in_bucket ''b'') (quota_db rows) = (if rows = [] then 0 else 1)"
    using assms by (auto simp: used_bytes_def used_objects_def quota_db_def old_version_def in_bucket_def live_def)
  have check: "check_object_write plain_ext ''b'' [] (word_of_int ?size) (word_of_int (int (length (pi_body example_input)))) (rows \<noteq> []) ?v
      = (Inr (), ?v)"
    using assms u
    by (auto simp: check_object_write_def bucket_snapshot_def bnd_def cast_uuid_def example_b query_calm scan_int64_def
        int64_of_def bucket_quota_of_def Let_def allows_def calm_world_def quota_db_def example_db_def example_input_def)
  have "\<exists>md w'. put_object plain_ext quota_config ''b'' example_input ?w = (Inr md, w')"
    by (rule put_object_checked [OF _ _ _ _ _ example_b _ _ look check])
       (use assms old in \<open>auto simp: calm_world_def quota_config_def example_config_def example_input_def validate_payload_def
          quota_db_def example_db_def old_version_def\<close>)
  then show ?thesis using that by blast
qed

theorem new_key_within_quota_witness:
  "\<exists>md w'. put_object plain_ext quota_config ''b'' example_input (calm_world (quota_db [])) = (Inr md, w') \<and>
     within (used_bytes (in_bucket ''b'') (db w')) (fst (bucket_limits ''b'' (db w')))"
proof -
  obtain md w' where p: "put_object plain_ext quota_config ''b'' example_input (calm_world (quota_db [])) = (Inr md, w')"
    by (rule quota_put [of "[]"]) auto
  have d: "cf_quotas quota_config" "quotas_fit (db (calm_world (quota_db [])))" "no_current_version ''b'' (pi_key example_input) (db (calm_world (quota_db [])))"
    by (simp_all add: quota_config_def quota_db_def example_db_def empty_db_def quotas_fit_def opt_fits_def fits_def no_current_version_def)
  have u: "used_bytes x (quota_db []) = 0" "used_objects x (quota_db []) = 0" "pg_uuid plain_ext [] = None" for x
    by (simp_all add: used_bytes_def used_objects_def quota_db_def plain_ext_def plain_elem_def)
  from new_key_within_quota [OF quota_good d(1,2) example_b d(3) _ _ _ _ p] p
  show ?thesis by (simp add: u fits_def example_input_def)
qed

text \<open>
  A put on a key that has a current version is checked as if it replaced that version, but the row
  of the old version stays: with a limit of four bytes and one object, a second write of four bytes
  to the same key is accepted and leaves eight bytes in two objects.
\<close>

lemma overwrite_exceeds_quota:
  "\<exists>md w'. put_object plain_ext quota_config ''b'' example_input (calm_world (quota_db [old_version])) = (Inr md, w') \<and>
     used_bytes (in_bucket ''b'') (db w') = 8 \<and> used_objects (in_bucket ''b'') (db w') = 2 \<and>
     bucket_limits ''b'' (db w') = (Some 4, Some 1)"
proof -
  obtain md w' where p: "put_object plain_ext quota_config ''b'' example_input (calm_world (quota_db [old_version])) = (Inr md, w')"
    by (rule quota_put [of "[old_version]"]) auto
  obtain owner where o: "version_added ''b'' example_input owner (quota_db [old_version]) (db w')"
    using put_object_outcome [OF quota_good example_b p] by (auto simp: done_or_undone_def)
  have "used_bytes (in_bucket ''b'') (quota_db [old_version]) = 4" "used_objects (in_bucket ''b'') (quota_db [old_version]) = 1"
    "bucket_limits ''b'' (quota_db [old_version]) = (Some 4, Some 1)"
    by (simp_all add: used_bytes_def used_objects_def quota_db_def old_version_def in_bucket_def live_def bucket_limits_def bucket_quota_of_def)
  then show ?thesis
    using p version_added_usage(1,2) [OF o] version_added_limits [OF o] by (simp add: example_input_def)
qed

end
