(* ===== verification/S3Safety.thy ===== *)
theory S3Safety
  imports S3Router Writes
begin

text \<open>
  What the S3 interface guarantees: refused requests leave no trace, explicit denials hold,
  listings by pages are complete, and where the handlers fall short.
\<close>

section \<open>Requests without an identity\<close>

definition anonymous :: "request \<Rightarrow> bool" where
  "anonymous req \<longleftrightarrow> \<not> is_sigv4_presigned req \<and> \<not> is_presigned req \<and>
     \<not> has_prefix (header_get req ''Authorization'') algorithm \<and> header_get req ''X-S3P-Access-Key'' = []"

text \<open>No bucket policy allows anything to everybody.\<close>

definition no_public_policy :: "(string \<Rightarrow> ip option) \<Rightarrow> database \<Rightarrow> bool" where
  "no_public_policy ip6 d \<longleftrightarrow> (\<forall>p \<in> set (t_policies d). \<forall>document canonical action resource rc.
     normalize_bucket_policy (Some (bp_document p)) = Inr (document, canonical) \<longrightarrow>
     evaluate_document ip6 document ''*'' action resource rc \<noteq> DecisionAllow)"

definition untouched :: "database \<Rightarrow> (host \<Rightarrow> string \<Rightarrow> bytes option) \<Rightarrow> world \<Rightarrow> bool" where
  "untouched d k w \<longleftrightarrow> (\<exists>s. db w = d\<lparr>t_storage_policy := s\<rparr>) \<and> disks w = k"

definition refused :: "reply \<Rightarrow> bool" where
  "refused rep \<longleftrightarrow> rp_status rep \<in> {401, 403, 404, 405}"

lemma stable_untouched: "stable (untouched d k)"
  by (auto simp: stable_def untouched_def env_step_fields)

lemma untouched_other: "untouched d k w \<Longrightarrow> untouched d k (w\<lparr>db := (db w)\<lparr>t_storage_policy := s\<rparr>\<rparr>)"
  by (auto simp: untouched_def)

lemma keeps_untouched_policy [keeps]: "keeps_inv (untouched d k) (ensure_storage_policy C)"
  unfolding ensure_storage_policy_def
  by (auto simp: Let_def intro!: keeps keeps_exec stable_untouched untouched_other split: option.splits)

lemma keeps_untouched_bucket: "keeps_inv (untouched d k) (get_bucket_by_name C b)"
  unfolding get_bucket_by_name_def apply_effective_durability_def inherited_class_def policy_or_none_def resolve_storage_policy_def Let_def
  by (intro keeps stable_untouched)

lemma triple_handled:
  "triple P m Q X \<Longrightarrow> (\<And>e. triple X (h e) R Y) \<Longrightarrow> (\<And>x. triple (Q x) (f x) R Y) \<Longrightarrow> triple P (handle m h f) R Y"
  unfolding handle_def
  by (rule triple_bnd [OF triple_attempt]) (auto split: sum.split)

lemma triple_refuse: "rp_status rep \<in> {401, 403, 404, 405} \<Longrightarrow> triple I (ret rep) (\<lambda>r w. I w \<and> refused r) (\<lambda>_. False)"
  by (simp add: triple_def refused_def)

lemma triple_write_error:
  "status \<in> {401, 403, 404, 405} \<Longrightarrow> triple I (write_error req status code message) (\<lambda>r w. I w \<and> refused r) (\<lambda>_. False)"
  unfolding write_error_def by (rule triple_refuse) simp

lemma triple_unauthorized:
  "triple I (write_s3_authorization_error req s) (\<lambda>r w. I w \<and> refused r) (\<lambda>_. False)"
  unfolding write_s3_authorization_error_def by (cases s) (simp_all add: triple_write_error)

lemma triple_when_refused:
  assumes "triple I m (\<lambda>r w. I w \<and> snd r \<noteq> AuthAllowed) (\<lambda>_. False)"
  shows "triple I (when_allowed req m f) (\<lambda>r w. I w \<and> refused r) (\<lambda>_. False)"
  unfolding when_allowed_def
proof (rule triple_bnd [OF assms], clarify)
  fix actor s
  show "triple (\<lambda>w. I w \<and> snd (actor, s) \<noteq> AuthAllowed)
      (if s \<noteq> AuthAllowed then write_s3_authorization_error req s else f actor) (\<lambda>r w. I w \<and> refused r) (\<lambda>_. False)"
    by (cases "s = AuthAllowed")
       (simp add: triple_def, simp, rule triple_weaken [OF triple_unauthorized [of I]], simp_all)
qed

lemma anonymous_identity: "anonymous req \<Longrightarrow> authenticate_s3_identity E region req = ret (Map.empty, AuthUnauthenticated)"
  by (rule ext) (simp add: anonymous_def authenticate_s3_identity_def authorize_headers_def)

lemma triple_anonymous_role:
  "anonymous req \<Longrightarrow> triple I (authorize_s3_request E region req action resource) (\<lambda>r w. I w \<and> snd r \<noteq> AuthAllowed) (\<lambda>_. False)"
  unfolding authorize_s3_request_def by (subst anonymous_identity) (simp_all add: triple_def)

lemma triple_public_policy:
  assumes "no_public_policy ip6 d"
  shows "triple (untouched d k) (attempt (evaluate_bucket_policy E ip6 bucket_id ''*'' action resource rc))
    (\<lambda>r w. untouched d k w \<and> r \<noteq> Inr DecisionAllow) (\<lambda>_. False)"
proof -
  have g: "triple (untouched d k) (get_bucket_policy E bucket_id)
      (\<lambda>doc w. untouched d k w \<and> (\<exists>p \<in> set (t_policies d). bp_document p = doc)) (untouched d k)"
  proof -
    have "triple (untouched d k) (bnd (cast_uuid E bucket_id) (\<lambda>bid. query (\<lambda>d.
            case find (\<lambda>p. bp_bucket p = bid) (t_policies d) of
              None \<Rightarrow> Inl PgNoRows | Some p \<Rightarrow> Inr (bp_document p))))
        (\<lambda>doc w. untouched d k w \<and> (\<exists>p \<in> set (t_policies d). bp_document p = doc)) (untouched d k)"
      by (rule triple_bnd [OF triple_of_keeps [OF keeps_cast]], simp, rule triple_query)
         (auto simp: stable_untouched untouched_def split: option.splits dest!: find_SomeD)
    from triple_attempt [OF this, of "untouched d k"] show ?thesis
      unfolding get_bucket_policy_def by (rule triple_bnd) (auto simp: triple_def split: sum.split)
  qed
  have "triple (untouched d k) (evaluate_bucket_policy E ip6 bucket_id ''*'' action resource rc)
      (\<lambda>r w. untouched d k w \<and> r \<noteq> DecisionAllow) (untouched d k)"
    unfolding evaluate_bucket_policy_def
  proof (rule triple_bnd [OF triple_attempt [OF g, of "untouched d k"]])
    fix r
    show "triple (\<lambda>w. case r of Inl e \<Rightarrow> untouched d k w | Inr doc \<Rightarrow> untouched d k w \<and> (\<exists>p \<in> set (t_policies d). bp_document p = doc))
        (case r of Inl e \<Rightarrow> if e = ErrBucketPolicyNotFound then ret DecisionNone else fail e
         | Inr raw \<Rightarrow> bnd (of_result (normalize_bucket_policy (Some raw))) (\<lambda>(document, _).
             ret (evaluate_document ip6 document ''*'' action resource rc)))
        (\<lambda>r w. untouched d k w \<and> r \<noteq> DecisionAllow) (untouched d k)"
    proof (cases r)
      case (Inl e)
      then show ?thesis by (simp add: triple_def)
    next
      case (Inr raw)
      show ?thesis
      proof (cases "normalize_bucket_policy (Some raw)")
        case (Inl e)
        then show ?thesis using \<open>r = Inr raw\<close> by (simp add: triple_def)
      next
        case n: (Inr x)
        then show ?thesis using \<open>r = Inr raw\<close> assms
          by (cases x) (auto simp: triple_def no_public_policy_def)
      qed
    qed
  qed
  from triple_attempt [OF this, of "\<lambda>_. False"] show ?thesis
    by (rule triple_weaken) (auto split: sum.splits)
qed

lemma triple_anonymous_access:
  assumes "anonymous req" "no_public_policy ip6 d"
  shows "triple (untouched d k) (authorize_bucket_policy_aware E ip6 region req bucket_id action resource aws_action aws_resource)
    (\<lambda>r w. untouched d k w \<and> snd r \<noteq> AuthAllowed) (\<lambda>_. False)"
proof -
  have p: "policy_principal Map.empty = ''*''" by (simp add: policy_principal_def text_of_def)
  have e: "triple (untouched d k) (if b then attempt (evaluate_bucket_policy E ip6 bucket_id ''*'' aws_action aws_resource rc)
      else ret (Inr DecisionNone)) (\<lambda>r w. untouched d k w \<and> r \<noteq> Inr DecisionAllow) (\<lambda>_. False)" for b rc
    using triple_public_policy [OF assms(2)] by (simp add: triple_ret)
  show ?thesis
    unfolding authorize_bucket_policy_aware_def anonymous_identity [OF assms(1)]
    by (simp only: bnd_ret case_prod_conv p auth_status.distinct simp_thms if_False, rule triple_bnd [OF e]) (auto simp: triple_def split: sum.splits prod.splits)
qed

lemma triple_no_credential:
  assumes "\<forall>c \<in> set (t_credentials d). c_access c \<noteq> []"
  shows "triple (untouched d k) (validate_credential E [] secret) (\<lambda>_ _. False) (untouched d k)"
  unfolding validate_credential_def
  by (rule triple_bnd [where Q = "\<lambda>_ _. False"], rule triple_query [OF stable_untouched])
     (use assms in \<open>auto simp: find_credential_def untouched_def triple_def split: option.splits dest!: find_SomeD\<close>)

lemma triple_in_bucket:
  "(\<And>bkt. triple (untouched d k) (f bkt) (\<lambda>r w. untouched d k w \<and> refused r) (\<lambda>_. False)) \<Longrightarrow>
   triple (untouched d k) (handle (get_bucket_by_name C b) (\<lambda>_. no_such_bucket req) f) (\<lambda>r w. untouched d k w \<and> refused r) (\<lambda>_. False)"
  by (rule triple_handled [OF triple_of_keeps [OF keeps_untouched_bucket, where X = "untouched d k"]])
     (simp_all add: no_such_bucket_def triple_write_error)

lemma triple_anonymous_key:
  "anonymous req \<Longrightarrow> no_public_policy (sd_ip6 D) d \<Longrightarrow>
   triple (untouched d k) (when_allowed req (access_on E D req bucket_id b key action aws_action) f)
     (\<lambda>r w. untouched d k w \<and> refused r) (\<lambda>_. False)"
  unfolding access_on_def by (intro triple_when_refused triple_anonymous_access)

lemma triple_anonymous_bucket:
  "anonymous req \<Longrightarrow> no_public_policy (sd_ip6 D) d \<Longrightarrow>
   triple (untouched d k) (when_allowed req (bucket_access E D req bucket_id b aws_action) f)
     (\<lambda>r w. untouched d k w \<and> refused r) (\<lambda>_. False)"
  unfolding bucket_access_def by (intro triple_when_refused triple_anonymous_access)

lemma triple_anonymous_request:
  "anonymous req \<Longrightarrow> triple I (when_allowed req (authorize_s3_request E region req action resource) f)
     (\<lambda>r w. I w \<and> refused r) (\<lambda>_. False)"
  by (intro triple_when_refused triple_anonymous_role)

lemmas anonymous_triples = triple_in_bucket triple_anonymous_key triple_anonymous_bucket triple_anonymous_request

lemma triple_status: "triple I (status_reply 405) (\<lambda>r w. I w \<and> refused r) (\<lambda>_. False)"
  unfolding status_reply_def by (rule triple_refuse) simp

lemma triple_presign_refused:
  assumes "anonymous req" "\<forall>c \<in> set (t_credentials d). c_access c \<noteq> []"
  shows "triple (untouched d k) (post_presign E D parse_url req) (\<lambda>r w. untouched d k w \<and> refused r) (\<lambda>_. False)"
proof -
  have h: "header_get req ''X-S3P-Access-Key'' = []" using assms(1) by (simp add: anonymous_def)
  show ?thesis
    unfolding post_presign_def Let_def h
    by (rule triple_handled [OF triple_no_credential [OF assms(2)]]) (simp add: triple_write_error, simp add: triple_def)
qed

lemma triple_serve_refused:
  assumes a: "anonymous req" and p: "no_public_policy (sd_ip6 D) d" and c: "\<forall>c \<in> set (t_credentials d). c_access c \<noteq> []"
  shows "triple (untouched d k) (serve_s3 E D parse_url r req) (\<lambda>r w. untouched d k w \<and> refused r) (\<lambda>_. False)"
proof (cases r)
  case Root
  show ?thesis unfolding serve_s3_def Root Let_def get_root_def route.case
    by (auto intro: triple_status anonymous_triples a)
next
  case PresignRoute
  show ?thesis unfolding serve_s3_def PresignRoute Let_def route.case
    by (simp add: triple_status triple_presign_refused [OF a c])
next
  case (BucketRoute b)
  have "triple (untouched d k) (get_bucket E D req b) (\<lambda>r w. untouched d k w \<and> refused r) (\<lambda>_. False)"
    unfolding get_bucket_def get_policy_def get_versions_def get_listing_def Let_def
    by (rule triple_in_bucket) (auto intro: anonymous_triples a p)
  moreover have "triple (untouched d k) (put_bucket E D req b) (\<lambda>r w. untouched d k w \<and> refused r) (\<lambda>_. False)"
    unfolding put_bucket_def put_policy_def by (auto intro: anonymous_triples a)
  moreover have "triple (untouched d k) (delete_bucket_request E D req b) (\<lambda>r w. untouched d k w \<and> refused r) (\<lambda>_. False)"
    unfolding delete_bucket_request_def delete_policy_def by (auto intro: anonymous_triples a)
  ultimately show ?thesis unfolding serve_s3_def BucketRoute Let_def route.case by (auto intro: triple_status)
next
  case (KeyRoute b key)
  have "triple (untouched d k) (get_key E D req b key) (\<lambda>r w. untouched d k w \<and> refused r) (\<lambda>_. False)"
    unfolding get_key_def get_tagging_def by (auto intro!: triple_in_bucket triple_anonymous_key a p)
  moreover have "triple (untouched d k) (head_key E D req b key) (\<lambda>r w. untouched d k w \<and> refused r) (\<lambda>_. False)"
    unfolding head_key_def by (auto intro!: triple_in_bucket triple_anonymous_key a p)
  moreover have "triple (untouched d k) (put_key E D req b key) (\<lambda>r w. untouched d k w \<and> refused r) (\<lambda>_. False)"
    unfolding put_key_def put_tagging_def upload_part_def by (auto intro!: triple_in_bucket triple_anonymous_key a p)
  moreover have "triple (untouched d k) (delete_key E D req b key) (\<lambda>r w. untouched d k w \<and> refused r) (\<lambda>_. False)"
    unfolding delete_key_def abort_request_def by (auto intro!: triple_in_bucket triple_anonymous_key a p)
  moreover have "triple (untouched d k) (post_key E D req b key) (\<lambda>r w. untouched d k w \<and> refused r) (\<lambda>_. False)"
    unfolding post_key_def by (auto intro!: triple_in_bucket triple_anonymous_key a p)
  ultimately show ?thesis unfolding serve_s3_def KeyRoute Let_def route.case by (auto intro: triple_status)
qed

text \<open>
  C21: a request without credentials is refused, on every route, and leaves no trace, whatever
  fails, unless a bucket policy allows something to everybody: the reply is an error, no file
  and no row changes (but for the row of storage defaults that looking up a bucket creates).
\<close>

theorem anonymous_request_refused:
  assumes "anonymous req" "no_public_policy (sd_ip6 D) (db w)" "\<forall>c \<in> set (t_credentials (db w)). c_access c \<noteq> []"
    and "serve_s3 E D parse_url r req w = (res, w')"
  shows "\<exists>rep s. res = Inr rep \<and> rp_status rep \<in> {401, 403, 404, 405} \<and> disks w' = disks w \<and>
    db w' = (db w)\<lparr>t_storage_policy := s\<rparr>"
proof -
  have u: "untouched (db w) (disks w) w" unfolding untouched_def by (auto intro: exI [of _ "t_storage_policy (db w)"])
  note t = triple_serve_refused [OF assms(1-3), where k = "disks w" and E = E and r = r and parse_url = parse_url]
  show ?thesis
  proof (cases res)
    case (Inl e)
    then show ?thesis using tripleD_Inl [OF t u] assms(4) by simp
  next
    case (Inr rep)
    then show ?thesis using tripleD_Inr [OF t u] assms(4) by (auto simp: untouched_def refused_def)
  qed
qed

section \<open>Denied and failed requests\<close>

lemma handle_value: "m w = (Inr x, w') \<Longrightarrow> handle m h f w = f x w'"
  by (simp add: handle_def bnd_def)

lemma handle_error: "m w = (Inl e, w') \<Longrightarrow> handle m h f w = h e w'"
  by (simp add: handle_def bnd_def)

lemma when_allowed_yes: "m w = (Inr (actor, AuthAllowed), w') \<Longrightarrow> when_allowed req m f w = f actor w'"
  by (simp add: when_allowed_def bnd_def)

lemma when_allowed_no:
  "m w = (Inr (actor, s), w') \<Longrightarrow> s \<noteq> AuthAllowed \<Longrightarrow> when_allowed req m f w = write_s3_authorization_error req s w'"
  by (simp add: when_allowed_def bnd_def)

text \<open>The AWS action that a request on a key stands for, with the action of the roles.\<close>

definition required_action :: "request \<Rightarrow> string \<times> string" where
  "required_action req =
     (if rq_method req = ''GET'' then (''object.get'', if query_has req ''tagging'' then ''s3:GetObjectTagging'' else ''s3:GetObject'')
      else if rq_method req = ''HEAD'' then (''object.get'', ''s3:GetObject'')
      else if rq_method req = ''PUT'' then (''object.put'', if query_has req ''tagging'' then ''s3:PutObjectTagging'' else ''s3:PutObject'')
      else if rq_method req = ''DELETE'' then
        (''object.delete'', if query_get req ''uploadId'' \<noteq> [] then ''s3:AbortMultipartUpload'' else ''s3:DeleteObject'')
      else (''object.put'', ''s3:PutObject''))"

lemma key_request_refused:
  assumes "rq_method req \<in> {''GET'', ''HEAD'', ''PUT'', ''DELETE'', ''POST''}"
    and b: "get_bucket_by_name (sd_config D) b w = (Inr bkt, w1)"
    and a: "access_on E D req (bk_id bkt) b key (fst (required_action req)) (snd (required_action req)) w1 = (Inr (actor, s), w2)"
    and s: "s \<noteq> AuthAllowed"
  shows "serve_s3 E D parse_url (KeyRoute b key) req w = write_s3_authorization_error req s w2"
proof -
  note step = handle_value b when_allowed_no [OF _ s]
  consider "rq_method req = ''GET''" | "rq_method req = ''HEAD''" | "rq_method req = ''PUT''" | "rq_method req = ''DELETE''"
    | "rq_method req = ''POST''" using assms(1) by auto
  then show ?thesis
  proof cases
    case 1
    then show ?thesis using a
      by (cases "query_has req ''tagging''") (simp_all add: serve_s3_def required_action_def get_key_def get_tagging_def step)
  next
    case 2
    then show ?thesis using a by (simp add: serve_s3_def required_action_def head_key_def step)
  next
    case 3
    then show ?thesis using a
      by (cases "query_has req ''tagging''"; cases "query_get req ''uploadId'' = []")
         (simp_all add: serve_s3_def required_action_def put_key_def put_tagging_def upload_part_def step)
  next
    case 4
    then show ?thesis using a
      by (cases "query_get req ''uploadId'' = []") (simp_all add: serve_s3_def required_action_def delete_key_def abort_request_def step)
  next
    case 5
    then show ?thesis using a by (simp add: serve_s3_def required_action_def post_key_def step)
  qed
qed

text \<open>
  C22: an explicit denial wins. When the policy of the bucket denies the action of a request on a
  key to the principal of the request, the reply is 403 and the request ends there: no role,
  binding or other statement can allow it, and no service is called any more.
\<close>

theorem explicit_deny_wins:
  assumes "rq_method req \<in> {''GET'', ''HEAD'', ''PUT'', ''DELETE'', ''POST''}"
    and "get_bucket_by_name (sd_config D) b w = (Inr bkt, w1)" "bk_id bkt \<noteq> []"
    and "authenticate_s3_identity E (sd_region D) req w1 = (Inr (actor, s), w2)" "s \<noteq> AuthBadSignature"
    and "evaluate_bucket_policy E (sd_ip6 D) (bk_id bkt) (policy_principal actor) (snd (required_action req))
      (bucket_policy_resource b key) (bucket_policy_request_context req) w2 = (Inr DecisionDeny, w3)"
  shows "\<exists>rep. serve_s3 E D parse_url (KeyRoute b key) req w = (Inr rep, w3) \<and> rp_status rep = 403"
proof -
  have r: "bucket_policy_resource b key \<noteq> []" by (simp add: bucket_policy_resource_def)
  have v: "snd (required_action req) \<noteq> []" by (simp add: required_action_def)
  have "access_on E D req (bk_id bkt) b key (fst (required_action req)) (snd (required_action req)) w1
      = (Inr (Map.empty, AuthForbidden), w3)"
    using assms(3,4,5,6) r v by (simp add: access_on_def authorize_bucket_policy_aware_def bnd_def)
  from key_request_refused [OF assms(1,2) this] show ?thesis
    by (simp add: write_s3_authorization_error_def write_error_def)
qed

lemma ignore_run [simp]: "ignore_error m w = (Inr (), snd (m w))"
  by (simp add: ignore_error_def bnd_def)

lemma keeps_objects_exec:
  "(\<And>t d x d'. q t d = Inr (x, d') \<Longrightarrow> t_objects d' = t_objects d) \<Longrightarrow> keeps_inv (\<lambda>w. t_objects (db w) = os) (exec q)"
  by (rule keeps_exec [OF stable_db]) auto

lemma keeps_objects_audit: "keeps_inv (\<lambda>w. t_objects (db w) = os) (s3_audit req a b c j)"
  unfolding s3_audit_def record_audit_def by (intro keeps keeps_objects_exec) auto

lemma keeps_objects_emit: "keeps_inv (\<lambda>w. t_objects (db w) = os) (emit E e j)"
  unfolding emit_def matching_targets_def insert_delivery_def
  by (intro keeps keeps_objects_exec stable_db) (auto split: if_splits)

lemma keeps_objects_warnings: "keeps_inv (\<lambda>w. t_objects (db w) = os) (warning_headers E D i u)"
  unfolding warning_headers_def current_warnings_def bucket_snapshot_def user_snapshot_def Let_def
  by (intro keeps stable_db)

lemma written_reply:
  "\<exists>rep w'. object_written E D req actor bkt key source r w = (Inr rep, w') \<and> rp_status rep = 200 \<and>
     (''ETag'', quote_etag (md_etag (case r of Inl _ \<Rightarrow> zero_metadata | Inr m \<Rightarrow> m))) \<in> set (rp_headers rep) \<and>
     t_objects (db w') = t_objects (db w)"
proof -
  define item where "item = (case r of Inl _ \<Rightarrow> zero_metadata | Inr m \<Rightarrow> m)"
  obtain wa where a: "s3_audit req (if user_of actor \<noteq> [] then user_of actor else ''presigned'') (copy_action source) (path_resource bkt key)
        (JObj [(''bytes'', JNum (md_size item)), (''tagCount'', JNum (tag_count (md_tags item))),
               (''versionId'', JStr (md_version item))]) w = (Inr (), wa)"
    unfolding s3_audit_def by simp
  let ?e = "emit E (copy_event source) (JObj [(''bucketId'', JStr (bk_id bkt)), (''bucketName'', JStr (bk_name bkt)), (''key'', JStr key),
               (''objectId'', JStr (md_id item)), (''versionId'', JStr (md_version item))])"
  define we where "we = snd (?e wa)"
  obtain hs wh where h: "warning_headers E D (bk_id bkt) (user_of actor) we = (Inr hs, wh)"
    by (cases "cf_quotas (sd_config D)") (simp_all add: warning_headers_def bnd_def)
  have "t_objects (db wa) = t_objects (db w)" using keeps_invD [OF keeps_objects_audit _ a] by simp
  moreover have "t_objects (db we) = t_objects (db wa)"
    unfolding we_def using keeps_invD [OF keeps_objects_emit, of wa "t_objects (db wa)"] by (simp add: prod_eq_iff)
  moreover have "t_objects (db wh) = t_objects (db we)" using keeps_invD [OF keeps_objects_warnings _ h] by simp
  ultimately have "t_objects (db wh) = t_objects (db w)" by simp
  then show ?thesis
    unfolding object_written_def Let_def item_def [symmetric]
    by (simp add: bnd_def a h flip: we_def split: if_split)
qed

text \<open>
  C20: a failed write is acknowledged. When the object service refuses or fails a PUT (an
  incomplete body, a wrong digest, an exceeded quota, a store that is down), the client is
  answered 200 with an empty ETag. The table of versions is then as it was before the put; only
  when a call was reported as failed although it took effect (a late commit) has it the version.
\<close>

theorem failed_put_is_acknowledged:
  assumes "rq_method req = ''PUT''" "\<not> query_has req ''tagging''" "query_get req ''uploadId'' = []"
    and "header_get req ''X-Amz-Copy-Source'' = []" "parse_tags (header_get req ''X-Amz-Tagging'') = Inr tags"
    and "rq_length req \<le> sd_max_upload D" "int (length (rq_body req)) \<le> sd_max_upload D"
    and "get_bucket_by_name (sd_config D) b w = (Inr bkt, w1)"
    and "access_on E D req (bk_id bkt) b key ''object.put'' ''s3:PutObject'' w1 = (Inr (actor, AuthAllowed), w2)"
    and "good_config E (sd_config D)"
    and "put_object E (sd_config D) (bk_id bkt) (upload_input req key (user_of actor) tags) w2 = (Inl e, w3)"
  shows "\<exists>rep w'. serve_s3 E D parse_url (KeyRoute b key) req w = (Inr rep, w') \<and> rp_status rep = 200 \<and>
    (''ETag'', quote_etag []) \<in> set (rp_headers rep) \<and>
    (t_objects (db w') = t_objects (db w2) \<or>
     (e = Unavailable \<and> (\<exists>bid row. same_key bid key row \<and> t_objects (db w') = unset_latest bid key (t_objects (db w2)) @ [row])))"
proof -
  have "serve_s3 E D parse_url (KeyRoute b key) req w = object_written E D req actor bkt key [] (Inl e) w3"
    using assms by (simp add: serve_s3_def put_key_def handle_value when_allowed_yes
        put_request_def bnd_def Let_def)
  moreover have "t_objects (db w3) = t_objects (db w2) \<or> (e = Unavailable \<and>
      (\<exists>bid row. same_key bid key row \<and> t_objects (db w3) = unset_latest bid key (t_objects (db w2)) @ [row]))"
    using failed_put_rows [OF assms(10,11)] by (auto simp: version_added_def ledger_def upload_input_def)
  ultimately show ?thesis
    using written_reply [of E D req actor bkt key "[]" "Inl e" w3] by (force simp: zero_metadata_def)
qed

text \<open>
  C24: an upload is aborted under the permission on any bucket. A client that may delete in one
  bucket removes the multipart upload of another one: the upload named in the query is not
  compared with the bucket and the key of the request.
\<close>

theorem abort_ignores_bucket:
  assumes "rq_method req = ''DELETE''" "query_get req ''uploadId'' = upload_id" "upload_id \<noteq> []"
    and "get_bucket_by_name (sd_config D) b w = (Inr bkt, w1)"
    and "access_on E D req (bk_id bkt) b key ''object.delete'' ''s3:AbortMultipartUpload'' w1 = (Inr (actor, AuthAllowed), w2)"
    and "script w2 = []" "pg_uuid E upload_id = Some u" "\<forall>p \<in> set (t_parts (db w2)). pt_upload p \<noteq> u"
    and "victim \<in> set (t_uploads (db w2))" "m_id victim = u" "m_bucket victim \<noteq> bk_id bkt"
  shows "\<exists>rep w'. serve_s3 E D parse_url (KeyRoute b key) req w = (Inr rep, w') \<and> rp_status rep = 204 \<and>
    victim \<notin> set (t_uploads (db w'))"
proof -
  have no_parts: "filter (\<lambda>p. pt_upload p = u) (t_parts (db w2)) = []" using assms(8) by (simp add: filter_empty_conv)
  have "\<exists>w'. abort_upload E (sd_config D) upload_id w2 = (Inr (), w') \<and> victim \<notin> set (t_uploads (db w'))"
    using assms(6,7,10) by (simp add: abort_upload_def list_parts_def cleanup_def bnd_def cast_uuid_def query_calm exec_calm no_parts)
  then obtain w' where w': "abort_upload E (sd_config D) upload_id w2 = (Inr (), w')" "victim \<notin> set (t_uploads (db w'))" by blast
  have "serve_s3 E D parse_url (KeyRoute b key) req w = status_reply 204 w'"
    using assms(1-3) by (simp add: serve_s3_def delete_key_def abort_request_def handle_value
        when_allowed_yes assms(4,5) w'(1))
  then show ?thesis using w'(2) by (simp add: status_reply_def)
qed

section \<open>Listings by pages\<close>

definition page_query :: "int \<Rightarrow> string \<Rightarrow> (string \<times> string) list" where
  "page_query n token = [(''max-keys'', itoa n), (''continuation-token'', token)]"

text \<open>A client that follows the continuation tokens, for at most so many pages.\<close>

fun collect :: "nat \<Rightarrow> int \<Rightarrow> string \<Rightarrow> metadata list \<Rightarrow> list_entry list option" where
  "collect 0 n token items = None"
| "collect (Suc pages) n token items =
     (let p = build_list_objects_v2 [] [] (page_query n token) items in
      if lv_truncated p then map_option ((@) (lv_contents p)) (collect pages n (lv_next p) items)
      else Some (lv_contents p))"

definition items_after :: "string \<Rightarrow> metadata list \<Rightarrow> metadata list" where
  "items_after token items = (if trim_space token = [] then items else dropWhile (\<lambda>m. md_key m \<le> trim_space token) items)"

lemma page_fields:
  assumes "1 \<le> n" "n < 2 ^ 63" "items_after token items = rest"
  shows "lv_truncated (build_list_objects_v2 b p (page_query n token) items) \<longleftrightarrow> n < int (length rest)"
    "lv_contents (build_list_objects_v2 b p (page_query n token) items) = map list_entry_of (take (nat n) rest)"
    "n < int (length rest) \<Longrightarrow> lv_next (build_list_objects_v2 b p (page_query n token) items) = md_key (rest ! (nat n - 1))"
proof -
  have m: "max_keys_of (page_query n token) = n"
    using assms(1,2) by (simp add: max_keys_of_def page_query_def first_of_def text_of_def Let_def parse_int_itoa)
  have t: "first_of (page_query n token) ''continuation-token'' = token" "first_of (page_query n token) ''start-after'' = []"
    by (simp_all add: first_of_def page_query_def text_of_def)
  have r: "(if (if trim_space token = [] then trim_space [] else trim_space token) \<noteq> []
      then dropWhile (\<lambda>m. md_key m \<le> (if trim_space token = [] then trim_space [] else trim_space token)) items else items) = rest"
    using assms(3) by (auto simp: items_after_def)
  show "lv_truncated (build_list_objects_v2 b p (page_query n token) items) \<longleftrightarrow> n < int (length rest)"
    "lv_contents (build_list_objects_v2 b p (page_query n token) items) = map list_entry_of (take (nat n) rest)"
    "n < int (length rest) \<Longrightarrow> lv_next (build_list_objects_v2 b p (page_query n token) items) = md_key (rest ! (nat n - 1))"
    unfolding build_list_objects_v2_def Let_def m t r using assms(1) by simp_all
qed

lemma after_key:
  assumes "sorted_wrt (<) (map md_key (xs @ m # ys))"
  shows "dropWhile (\<lambda>x. md_key x \<le> md_key m) (xs @ m # ys) = ys"
proof -
  have "\<forall>x \<in> set xs. md_key x \<le> md_key m" "\<forall>y \<in> set ys. \<not> md_key y \<le> md_key m"
    using assms by (auto simp: sorted_wrt_append intro: less_imp_le)
  moreover have "dropWhile (\<lambda>x. md_key x \<le> md_key m) ys = ys" if "\<forall>y \<in> set ys. \<not> md_key y \<le> md_key m"
    using that by (cases ys) auto
  ultimately show ?thesis by (simp add: dropWhile_append2)
qed

lemma collect_rest:
  assumes n: "1 \<le> n" "n < 2 ^ 63" and s: "sorted_wrt (<) (map md_key items)"
    and clean: "\<forall>m \<in> set items. md_key m \<noteq> [] \<and> trim_space (md_key m) = md_key m"
  shows "items = done_items @ rest \<Longrightarrow> items_after token items = rest \<Longrightarrow> length rest < pages \<Longrightarrow>
    collect pages n token items = Some (map list_entry_of rest)"
proof (induction pages arbitrary: done_items rest token)
  case (Suc pages)
  note f = page_fields [OF n Suc.prems(2)]
  show ?case
  proof (cases "n < int (length rest)")
    case False
    then show ?thesis by (simp add: f Let_def)
  next
    case True
    define k where "k = nat n - 1"
    define m where "m = rest ! k"
    have k: "k < length rest" "nat n = Suc k" using True n by (simp_all add: k_def)
    have split: "rest = take k rest @ m # drop (Suc k) rest" unfolding m_def by (rule id_take_nth_drop [OF k(1)])
    have i: "items = (done_items @ take k rest) @ m # drop (Suc k) rest" using Suc.prems(1) split by simp
    then have "m \<in> set items" by simp
    then have c: "md_key m \<noteq> []" "trim_space (md_key m) = md_key m" using clean by auto
    have a: "items_after (md_key m) items = drop (Suc k) rest"
      using after_key [of "done_items @ take k rest" m "drop (Suc k) rest"] s i c by (simp add: items_after_def)
    have "items = (done_items @ take (Suc k) rest) @ drop (Suc k) rest" using Suc.prems(1) by simp
    from Suc.IH [OF this a] have "collect pages n (md_key m) items = Some (map list_entry_of (drop (Suc k) rest))"
      using Suc.prems(3) k by simp
    then show ?thesis using True k by (simp add: f Let_def k(2) m_def flip: map_append)
  qed
qed simp

text \<open>
  C25: following the continuation tokens of \<open>ListObjectsV2\<close> lists every object once, in order, in
  at most one page more than there are objects, whatever the page size, as long as no key is empty
  or begins or ends with a space.
\<close>

theorem pagination_complete:
  assumes "1 \<le> n" "n < 2 ^ 63" "sorted_wrt (<) (map md_key items)"
    and "\<forall>m \<in> set items. md_key m \<noteq> [] \<and> trim_space (md_key m) = md_key m"
  shows "collect (Suc (length items)) n [] items = Some (map list_entry_of items)"
  by (rule collect_rest [OF assms, where done_items = "[]"]) (simp_all add: items_after_def)

text \<open>
  With a key that ends with a space a listing may never end. The continuation token is
  trimmed, so that the page that ends with such a key is returned again and again.
\<close>

lemma listing_never_ends:
  assumes "trim_space (md_key m) \<noteq> []" "trim_space (md_key m) < md_key m" "others \<noteq> []"
  shows "collect pages 1 [] (m # others) = None"
proof -
  have a: "items_after [] (m # others) = m # others" "items_after (md_key m) (m # others) = m # others"
    using assms by (auto simp: items_after_def)
  have "token \<in> {[], md_key m} \<Longrightarrow> collect pages 1 token (m # others) = None" for token
  proof (induction pages arbitrary: token)
    case (Suc pages)
    then have "items_after token (m # others) = m # others" using a by auto
    note f = page_fields [OF _ _ this, of 1]
    show ?case using assms(3) Suc.IH [of "md_key m"] by (simp add: f Let_def)
  qed simp
  then show ?thesis by simp
qed

section \<open>Plain credentials\<close>

definition plain_request :: "request \<Rightarrow> string \<Rightarrow> string \<Rightarrow> bool" where
  "plain_request req access_key secret \<longleftrightarrow> \<not> is_sigv4_presigned req \<and> \<not> is_presigned req \<and>
     \<not> has_prefix (header_get req ''Authorization'') algorithm \<and>
     header_get req ''X-S3P-Access-Key'' = access_key \<and> header_get req ''X-S3P-Secret'' = secret \<and> access_key \<noteq> [] \<and> secret \<noteq> []"

definition touch_credential :: "string \<Rightarrow> world \<Rightarrow> world" where
  "touch_credential access_key w = w\<lparr>db := (db w)\<lparr>t_credentials :=
     map (\<lambda>c. if c_access c = access_key then c\<lparr>c_last_used := Some (clock w)\<rparr> else c) (t_credentials (db w))\<rparr>\<rparr>"

lemma plain_identity:
  assumes "plain_request req access_key secret" "script w = []"
    and "find_credential access_key (db w) = Inr row" "c_hash row = hash_secret E secret"
  shows "authenticate_s3_identity E region req w =
    (Inr ([''userID'' \<mapsto> text_of (c_user row), ''role'' \<mapsto> c_role row], AuthAllowed), touch_credential access_key w)"
proof -
  have "validate_credential E access_key secret w =
      (Inr [''userID'' \<mapsto> text_of (c_user row), ''role'' \<mapsto> c_role row], touch_credential access_key w)"
    using assms(2,3,4) by (simp add: validate_credential_def bnd_def query_calm exec_calm touch_credential_def)
  then show ?thesis
    using assms(1) by (simp add: plain_request_def authenticate_s3_identity_def authorize_headers_def bnd_def)
qed

lemma named_principals_silent:
  assumes "\<forall>st \<in> set (nd_statements document). ns_principals st \<noteq> [] \<and> ''*'' \<notin> set (ns_principals st)"
  shows "evaluate_document ip6 document ''*'' action resource rc = DecisionNone"
proof -
  have "\<not> policy_applies ip6 ''*'' action resource rc st" if "st \<in> set (nd_statements document)" for st
  proof -
    have "\<not> principal_matches (ns_principals st) ''*''"
      using assms that unfolding principal_matches_def list_ex_iff by metis
    then show ?thesis using assms that by (simp add: policy_applies_def statement_principal_matches_def)
  qed
  then show ?thesis by (auto simp: evaluate_document_def evaluate_document_from_spec Let_def)
qed

lemma plain_access:
  assumes "plain_request req access_key secret" "script w = []"
    and "find_credential access_key (db w) = Inr row" "c_hash row = hash_secret E secret"
    and "stored_policy E bucket_id (db w) = Some policy" "normalize_bucket_policy (Some policy) = Inr (document, canonical)"
    and "\<forall>st \<in> set (nd_statements document). ns_principals st \<noteq> [] \<and> ''*'' \<notin> set (ns_principals st)"
    and "authorize_subject ''credential'' [] (c_role row) action (object_resource b key) (touch_credential access_key w) =
      (Inr (True, role), w')"
  shows "access_on E D req bucket_id b key action aws_action w =
    (Inr ([''role'' \<mapsto> role, ''userID'' \<mapsto> text_of (c_user row), ''accessKey'' \<mapsto> []], AuthAllowed), w')"
proof -
  let ?w = "touch_credential access_key w" and ?actor = "[''userID'' \<mapsto> text_of (c_user row), ''role'' \<mapsto> c_role row]"
  have c: "script ?w = []" "stored_policy E bucket_id (db ?w) = Some policy"
    using assms(2,5) by (simp_all add: touch_credential_def stored_policy_def)
  have p: "policy_principal ?actor = ''*''" by (simp add: policy_principal_def text_of_def)
  have "evaluate_bucket_policy E ip6 bucket_id ''*'' aws_action resource rc ?w = (Inr DecisionNone, ?w)" for ip6 resource rc
    using c assms(6) named_principals_silent [OF assms(7)]
    by (simp add: evaluate_bucket_policy_def bnd_def get_bucket_policy_calm)
  moreover have "authorize_actor ?actor action (object_resource b key) ?w =
      (Inr ([''role'' \<mapsto> role, ''userID'' \<mapsto> text_of (c_user row), ''accessKey'' \<mapsto> []], AuthAllowed), w')"
    using assms(8) by (simp add: authorize_actor_def check_subject_def text_of_def bnd_def Let_def)
  ultimately show ?thesis
    unfolding access_on_def authorize_bucket_policy_aware_def
    by (simp add: bnd_def plain_identity [OF assms(1-4)] p)
qed

text \<open>
  C23: plain credentials escape a denial. A request that sends its key and secret in the headers
  has no access key for the policies: a bucket policy whose statements name their principals, a
  denial of this very key included, is passed over, and so are the role bindings of the key; the
  role of the credential decides alone.
\<close>

theorem plain_credentials_escape_deny:
  assumes "plain_request req access_key secret" "script w = []"
    and "find_credential access_key (db w) = Inr row" "c_hash row = hash_secret E secret"
    and "stored_policy E bucket_id (db w) = Some policy" "normalize_bucket_policy (Some policy) = Inr (document, canonical)"
    and "\<forall>st \<in> set (nd_statements document). ns_principals st \<noteq> [] \<and> ''*'' \<notin> set (ns_principals st)"
    and "authorize_subject ''credential'' [] (c_role row) action (object_resource b key) (touch_credential access_key w) =
      (Inr (True, role), w')"
  shows "access_on E D req bucket_id b key action aws_action w =
    (Inr ([''role'' \<mapsto> role, ''userID'' \<mapsto> text_of (c_user row), ''accessKey'' \<mapsto> []], AuthAllowed), w')"
  by (rule plain_access [OF assms])

section \<open>Examples\<close>

definition example_deps :: s3_deps where
  "example_deps = \<lparr>sd_config = example_config, sd_max_upload = 100, sd_region = ''r'', sd_presign_ttl = 900000000000,
     sd_ip6 = (\<lambda>_. None), sd_xml_tags = (\<lambda>_. None), sd_xml_parts = (\<lambda>_. None), sd_json = (\<lambda>_. None),
     sd_time = (\<lambda>_. []), sd_error = (\<lambda>_. [])\<rparr>"

definition example_request :: "string \<Rightarrow> (string \<times> string) list \<Rightarrow> (string \<times> string) list \<Rightarrow> request" where
  "example_request verb q hs = \<lparr>rq_method = verb, rq_host = ''h'', rq_path = ''/s3/b/k'', rq_escaped = ''/s3/b/k'', rq_query = q,
     rq_headers = hs, rq_body = ''data'', rq_length = 5, rq_remote = ''10.0.0.1:5''\<rparr>"

definition plain_headers :: "(string \<times> string) list" where
  "plain_headers = [(''X-S3P-Access-Key'', ''eve''), (''X-S3P-Secret'', ''pw'')]"

definition example_eve :: credential_row where
  "example_eve = \<lparr>c_user = None, c_access = ''eve'', c_hash = hash_secret plain_ext ''pw'', c_cipher = [], c_desc = [],
     c_role = ''writer'', c_last_used = None, c_created = 0\<rparr>"

definition example_s3_db :: database where
  "example_s3_db = example_db\<lparr>t_credentials := [example_eve],
     t_statements := [\<lparr>s_id = ''s'', s_role = ''writer'', s_action = ''*'', s_resource = ''*'', s_effect = ''allow'', s_conds = Map.empty\<rparr>],
     t_policies := [\<lparr>bp_bucket = ''b'', bp_document = example_canonical\<rparr>],
     t_uploads := [\<lparr>m_id = ''u'', m_bucket = ''other'', m_key = ''secret'', m_by = None, m_ctype = [], m_cache = [], m_disp = [],
       m_enc = [], m_meta = Map.empty, m_expires = 0, m_created = 0\<rparr>]\<rparr>"

lemma example_plain_request: "q = [] \<or> q = [(''uploadId'', ''u'')] \<Longrightarrow> plain_request (example_request verb q plain_headers) ''eve'' ''pw''"
  by (auto simp: plain_request_def example_request_def plain_headers_def is_sigv4_presigned_def is_presigned_def query_get_def
      first_of_def text_of_def header_get_def header_values_def equal_fold_def to_lower_def algorithm_def has_prefix_def)

lemma example_find: "find_credential ''eve'' (db (calm_world example_s3_db)) = Inr example_eve"
  by (simp add: find_credential_def example_s3_db_def example_eve_def)

lemma example_normalize: "normalize_bucket_policy (Some example_canonical) = Inr (example_normalized, example_canonical)"
  by code_simp

lemma example_policy: "stored_policy plain_ext ''b'' example_s3_db = Some example_canonical"
  by (simp add: stored_policy_def example_s3_db_def example_b)

lemma example_bucket:
  obtains bkt where "get_bucket_by_name example_config ''b'' (calm_world example_s3_db) = (Inr bkt, calm_world example_s3_db)"
    "bk_id bkt = ''b''"
proof -
  have "\<exists>bkt. get_bucket_by_name example_config ''b'' (calm_world example_s3_db) = (Inr bkt, calm_world example_s3_db) \<and> bk_id bkt = ''b''"
    by (simp add: get_bucket_by_name_def bnd_def query_calm apply_effective_durability_def inherited_class_def policy_or_none_def
        example_config_def example_s3_db_def example_db_def bucket_of_row_def Let_def)
  then show ?thesis using that by blast
qed

lemma example_writer:
  "authorize_subject ''credential'' [] (c_role example_eve) action resource (touch_credential ''eve'' (calm_world example_s3_db)) =
    (Inr (True, ''writer''), touch_credential ''eve'' (calm_world example_s3_db))"
proof -
  have "\<not> equal_fold ''allow'' ''deny''" "equal_fold ''allow'' ''allow''" by code_simp+
  then show ?thesis
    by (simp add: authorize_subject_def resolve_role_def roles_for_subject_resource_def authorize_role_def list_statements_for_role_def
        bnd_def query_calm touch_credential_def example_s3_db_def example_eve_def evaluate_def pattern_match_star)
qed

lemma example_denial:
  "\<forall>st \<in> set (nd_statements example_normalized). ns_principals st \<noteq> [] \<and> ''*'' \<notin> set (ns_principals st)"
  by (simp add: example_normalized_def)

lemma example_access:
  assumes "q = [] \<or> q = [(''uploadId'', ''u'')]"
  shows "access_on plain_ext example_deps (example_request verb q plain_headers) ''b'' ''b'' ''k'' action aws_action (calm_world example_s3_db) =
    (Inr ([''role'' \<mapsto> ''writer'', ''userID'' \<mapsto> [], ''accessKey'' \<mapsto> []], AuthAllowed), touch_credential ''eve'' (calm_world example_s3_db))"
  using plain_access [OF example_plain_request [OF assms] _ example_find _ _ example_normalize example_denial example_writer,
      where bucket_id = "''b''"]
  by (simp add: example_policy example_eve_def text_of_def)

theorem plain_credentials_escape_deny_witness:
  "access_on plain_ext example_deps (example_request ''GET'' [] plain_headers) ''b'' ''b'' ''k'' ''object.get'' ''s3:GetObject''
      (calm_world example_s3_db) =
    (Inr ([''role'' \<mapsto> ''writer'', ''userID'' \<mapsto> [], ''accessKey'' \<mapsto> []], AuthAllowed), touch_credential ''eve'' (calm_world example_s3_db)) \<and>
   evaluate_document (\<lambda>_. None) example_normalized ''eve'' ''s3:GetObject'' ''arn:aws:s3:::b/k'' Map.empty = DecisionDeny"
proof -
  have n: "evaluate_document (\<lambda>_. None) example_normalized ''eve'' ''s3:GetObject'' ''arn:aws:s3:::b/k'' Map.empty = DecisionDeny"
    by code_simp
  have h: "c_hash example_eve = hash_secret plain_ext ''pw''" "text_of (c_user example_eve) = []"
    by (simp_all add: example_eve_def text_of_def)
  have s: "script (calm_world example_s3_db) = []" "stored_policy plain_ext ''b'' (db (calm_world example_s3_db)) = Some example_canonical"
    by (simp_all add: example_policy)
  show ?thesis
    using plain_credentials_escape_deny [OF example_plain_request [of "[]" "''GET''", simplified] s(1) example_find h(1) s(2) example_normalize
        example_denial example_writer, of example_deps] n h(2) by (simp only: simp_thms)
qed

theorem anonymous_request_refused_witness:
  "\<exists>rep w'. serve_s3 plain_ext example_deps (\<lambda>_. None) (KeyRoute ''b'' ''k'') (example_request ''GET'' [] []) (calm_world example_db) =
     (Inr rep, w') \<and> rp_status rep \<in> {401, 403, 404, 405}"
proof -
  let ?req = "example_request ''GET'' [] []"
  obtain res w' where r: "serve_s3 plain_ext example_deps (\<lambda>_. None) (KeyRoute ''b'' ''k'') ?req (calm_world example_db) = (res, w')"
    by (rule prod.exhaust)
  have a: "anonymous ?req"
    by (simp add: anonymous_def example_request_def is_sigv4_presigned_def is_presigned_def query_get_def first_of_def text_of_def
        header_get_def header_values_def algorithm_def has_prefix_def)
  have p: "no_public_policy (sd_ip6 example_deps) (db (calm_world example_db))"
    by (simp add: no_public_policy_def example_db_def empty_db_def)
  have c: "\<forall>c \<in> set (t_credentials (db (calm_world example_db))). c_access c \<noteq> []"
    by (simp add: example_db_def empty_db_def)
  from anonymous_request_refused [OF a p c r] r show ?thesis by blast
qed

text \<open>The older presigned form, signed for \<open>eve\<close>, whom the policy of the bucket denies.\<close>

definition presigned_query :: "(string \<times> string) list" where
  "presigned_query = [(''accessKey'', ''eve''), (''expires'', ''100''),
     (''signature'', sign_presigned plain_ext ''eve'' (c_hash example_eve) ''GET'' ''/s3/b/k'' 100)]"

lemma example_presigned:
  "authenticate_s3_identity plain_ext region (example_request ''GET'' presigned_query []) (calm_world example_s3_db) =
    (Inr ([''userID'' \<mapsto> [], ''role'' \<mapsto> ''writer'', ''accessKey'' \<mapsto> ''eve''], AuthAllowed), calm_world example_s3_db)"
proof -
  let ?req = "example_request ''GET'' presigned_query []"
  have q: "query_get ?req ''accessKey'' = ''eve''" "query_get ?req ''expires'' = ''100''" "query_get ?req ''X-Amz-Algorithm'' = []"
    "query_get ?req ''signature'' = sign_presigned plain_ext ''eve'' (c_hash example_eve) ''GET'' ''/s3/b/k'' 100"
    by (simp_all add: query_get_def first_of_def text_of_def example_request_def presigned_query_def)
  have i: "parse_int ''100'' = Some 100" by code_simp
  have l: "lookup_credential plain_ext ''eve'' (calm_world example_s3_db) =
      (Inr \<lparr>ci_user = [], ci_role = ''writer'', ci_hash = c_hash example_eve, ci_secret = []\<rparr>, calm_world example_s3_db)"
    using example_find by (simp add: lookup_credential_def bnd_def query_calm) (simp add: example_eve_def text_of_def)
  show ?thesis
    by (simp add: authenticate_s3_identity_def is_sigv4_presigned_def is_presigned_def q algorithm_def validate_presigned_def i l bnd_def Let_def)
       (simp add: example_request_def)
qed

theorem explicit_deny_wins_witness:
  "\<exists>rep. serve_s3 plain_ext example_deps (\<lambda>_. None) (KeyRoute ''b'' ''k'') (example_request ''GET'' presigned_query [])
      (calm_world example_s3_db) = (Inr rep, calm_world example_s3_db) \<and> rp_status rep = 403"
proof -
  let ?req = "example_request ''GET'' presigned_query []" and ?w = "calm_world example_s3_db"
  obtain bkt where b: "get_bucket_by_name (sd_config example_deps) ''b'' ?w = (Inr bkt, ?w)" "bk_id bkt = ''b''"
    using example_bucket by (auto simp: example_deps_def)
  have m: "rq_method ?req \<in> {''GET'', ''HEAD'', ''PUT'', ''DELETE'', ''POST''}" by (simp add: example_request_def)
  have n: "bk_id bkt \<noteq> []" "AuthAllowed \<noteq> AuthBadSignature" by (simp_all add: b(2))
  have r: "snd (required_action ?req) = ''s3:GetObject''"
    by (simp add: required_action_def example_request_def query_has_def presigned_query_def)
  have pm: "pattern_match ''s3:GetObject'' ''s3:GetObject''" by code_simp
  have d: "evaluate_document (\<lambda>_. None) example_normalized ''eve'' ''s3:GetObject'' ''arn:aws:s3:::b/k'' rc = DecisionDeny" for rc
    by (simp add: evaluate_document_def evaluate_document_from_spec policy_applies_def example_normalized_def Let_def
        statement_principal_matches_def principal_matches_def any_matches_def pm)
  have e: "evaluate_bucket_policy plain_ext (sd_ip6 example_deps) (bk_id bkt) (policy_principal [''userID'' \<mapsto> [], ''role'' \<mapsto> ''writer'', ''accessKey'' \<mapsto> ''eve''])
      (snd (required_action ?req)) (bucket_policy_resource ''b'' ''k'') (bucket_policy_request_context ?req) ?w = (Inr DecisionDeny, ?w)"
    using example_policy
    by (simp add: evaluate_bucket_policy_def bnd_def get_bucket_policy_calm b(2) example_normalize policy_principal_def text_of_def r
        bucket_policy_resource_def example_deps_def d)
  from explicit_deny_wins [OF m b(1) n(1) example_presigned n(2) e] show ?thesis .
qed

theorem failed_put_is_acknowledged_witness:
  "\<exists>rep w'. serve_s3 plain_ext example_deps (\<lambda>_. None) (KeyRoute ''b'' ''k'') (example_request ''PUT'' [] plain_headers)
      (calm_world example_s3_db) = (Inr rep, w') \<and> rp_status rep = 200 \<and> t_objects (db w') = []"
proof -
  let ?req = "example_request ''PUT'' [] plain_headers" and ?w = "calm_world example_s3_db"
  let ?w2 = "touch_credential ''eve'' ?w"
  let ?actor = "[''role'' \<mapsto> ''writer'', ''userID'' \<mapsto> [], ''accessKey'' \<mapsto> []]"
  obtain bkt where b: "get_bucket_by_name (sd_config example_deps) ''b'' ?w = (Inr bkt, ?w)" "bk_id bkt = ''b''"
    using example_bucket by (auto simp: example_deps_def)
  have a: "access_on plain_ext example_deps ?req (bk_id bkt) ''b'' ''k'' ''object.put'' ''s3:PutObject'' ?w = (Inr (?actor, AuthAllowed), ?w2)"
    by (simp add: b(2) example_access)
  have h: "header_get ?req ''X-Amz-Copy-Source'' = []" "header_get ?req ''X-Amz-Tagging'' = []"
    by (simp_all add: header_get_def header_values_def example_request_def plain_headers_def equal_fold_def to_lower_def)
  have p: "put_object plain_ext (sd_config example_deps) (bk_id bkt) (upload_input ?req ''k'' (user_of ?actor) Map.empty) ?w2 =
      (Inl ErrIncompleteBody, ?w2)"
    by (simp add: put_object_def bnd_def upload_input_def validate_payload_def example_request_def expected_content_length_def touch_credential_def)
  have q: "rq_method ?req = ''PUT''" "\<not> query_has ?req ''tagging''" "query_get ?req ''uploadId'' = []"
    "parse_tags (header_get ?req ''X-Amz-Tagging'') = Inr Map.empty"
    "rq_length ?req \<le> sd_max_upload example_deps" "int (length (rq_body ?req)) \<le> sd_max_upload example_deps"
    by (simp_all add: h parse_tags_def) (simp_all add: example_request_def query_has_def query_get_def first_of_def text_of_def example_deps_def)
  have "t_objects (db ?w2) = []" by (simp add: touch_credential_def example_s3_db_def example_db_def empty_db_def)
  moreover have "good_config plain_ext (sd_config example_deps)" using example_good by (simp add: example_deps_def)
  ultimately show ?thesis using failed_put_is_acknowledged [OF q(1-3) h(1) q(4-6) b(1) a _ p, of "\<lambda>_. None"] by force
qed

theorem abort_ignores_bucket_witness:
  "\<exists>rep w'. serve_s3 plain_ext example_deps (\<lambda>_. None) (KeyRoute ''b'' ''k'') (example_request ''DELETE'' [(''uploadId'', ''u'')] plain_headers)
      (calm_world example_s3_db) = (Inr rep, w') \<and> rp_status rep = 204"
proof -
  let ?req = "example_request ''DELETE'' [(''uploadId'', ''u'')] plain_headers" and ?w = "calm_world example_s3_db"
  let ?w2 = "touch_credential ''eve'' ?w"
  obtain bkt where b: "get_bucket_by_name (sd_config example_deps) ''b'' ?w = (Inr bkt, ?w)" "bk_id bkt = ''b''"
    using example_bucket by (auto simp: example_deps_def)
  have a: "access_on plain_ext example_deps ?req (bk_id bkt) ''b'' ''k'' ''object.delete'' ''s3:AbortMultipartUpload'' ?w =
      (Inr ([''role'' \<mapsto> ''writer'', ''userID'' \<mapsto> [], ''accessKey'' \<mapsto> []], AuthAllowed), ?w2)"
    by (simp add: b(2) example_access)
  have q: "rq_method ?req = ''DELETE''" "query_get ?req ''uploadId'' = ''u''" "''u'' \<noteq> []" "script ?w2 = []"
    "pg_uuid plain_ext ''u'' = Some ''u''"
    by (simp_all add: example_request_def query_get_def first_of_def text_of_def touch_credential_def plain_ext_def plain_elem_def slash_def)
  have t: "\<forall>p \<in> set (t_parts (db ?w2)). pt_upload p \<noteq> ''u''"
    by (simp add: touch_credential_def example_s3_db_def example_db_def empty_db_def)
  obtain victim where v: "victim \<in> set (t_uploads (db ?w2))" "m_id victim = ''u''" "m_bucket victim \<noteq> bk_id bkt"
    by (simp add: touch_credential_def example_s3_db_def b(2))
  from abort_ignores_bucket [OF q(1-3) b(1) a q(4,5) t v] show ?thesis by blast
qed

definition example_items :: "metadata list" where
  "example_items = map (\<lambda>k. zero_metadata\<lparr>md_key := k\<rparr>) [''a'', ''b'', ''c'']"

theorem pagination_complete_witness:
  "collect (Suc (length example_items)) 2 [] example_items = Some (map list_entry_of example_items)"
proof -
  have "trim_space ''a'' = ''a''" "trim_space ''b'' = ''b''" "trim_space ''c'' = ''c''" by code_simp+
  then have "\<forall>m \<in> set example_items. md_key m \<noteq> [] \<and> trim_space (md_key m) = md_key m" by (simp add: example_items_def)
  moreover have "sorted_wrt (<) (map md_key example_items)" by (simp add: example_items_def)
  ultimately show ?thesis by (intro pagination_complete) simp_all
qed

theorem listing_never_ends_witness:
  "collect pages 1 [] (map (\<lambda>k. zero_metadata\<lparr>md_key := k\<rparr>) [''a '', ''b'']) = None"
proof -
  have "trim_space ''a '' = ''a''" by code_simp
  moreover have "''a'' < ''a ''" by simp
  ultimately show ?thesis
    using listing_never_ends [of "zero_metadata\<lparr>md_key := ''a ''\<rparr>" "[zero_metadata\<lparr>md_key := ''b''\<rparr>]" pages] by simp
qed

end
