(* ===== verification/Topology.thy ===== *)
theory Topology
  imports Accounts
begin

text \<open>
  The registry of the blob nodes: \<open>backend/internal/storage/topology.go\<close>. Nodes join with a
  one-time token, are probed, and keep the replicas of every object; the worker refreshes the
  health of placements, repairs and rebalances them. The answer of a node's \<open>/healthz\<close> and the
  certificate it shows are the function \<open>probe\<close> of the configuration; \<open>url.Parse\<close> is
  \<open>hostname\<close>. A loop that returns a count with an error returns both here.
\<close>

section \<open>State\<close>

record probe_result =
  pr_service :: string
  pr_capacity :: int
  pr_used :: int
  pr_files :: int
  pr_fingerprint :: string
  pr_common_name :: string

record topology =
  tp_store :: bool                 \<comment> \<open>a distributed store is present\<close>
  tp_sealer :: bool
  tp_replicas :: int
  tp_probe :: "world \<Rightarrow> string \<Rightarrow> err + probe_result"
  tp_hostname :: "string \<Rightarrow> string option"

record node =
  nv_id :: string
  nv_name :: string
  nv_endpoint :: string
  nv_zone :: string
  nv_status :: string
  nv_state :: string
  nv_capacity :: int
  nv_used :: int
  nv_meta :: "(string \<times> json) list"
  nv_heartbeat :: "int option"
  nv_created :: int

definition node_of_row :: "node_row \<Rightarrow> node" where
  "node_of_row n = \<lparr>nv_id = n_id n, nv_name = n_name n, nv_endpoint = n_endpoint n, nv_zone = n_zone n, nv_status = n_status n,
     nv_state = n_state n, nv_capacity = n_capacity n, nv_used = n_used n, nv_meta = n_meta n, nv_heartbeat = n_heartbeat n,
     nv_created = n_created n\<rparr>"

definition list_nodes :: "node list prog" where
  "list_nodes = query (\<lambda>d. Inr (map node_of_row (sort_key n_name (t_nodes d))))"

definition node_by_id :: "ext \<Rightarrow> string \<Rightarrow> node prog" where
  "node_by_id E node_id = bnd (cast_uuid E node_id) (\<lambda>i. query (\<lambda>d.
     case find (\<lambda>n. n_id n = i) (t_nodes d) of None \<Rightarrow> Inl PgNoRows | Some n \<Rightarrow> Inr (node_of_row n)))"

definition change_nodes :: "(node_row list \<Rightarrow> node_row list) \<Rightarrow> database \<Rightarrow> database" where
  "change_nodes f d = d\<lparr>t_nodes := f (t_nodes d)\<rparr>"

text \<open>A field of a JSON object, as a Go map has it.\<close>

definition set_member :: "string \<Rightarrow> json \<Rightarrow> (string \<times> json) list \<Rightarrow> (string \<times> json) list" where
  "set_member k v fs = filter (\<lambda>(k', _). k' \<noteq> k) fs @ [(k, v)]"

definition string_member :: "string \<Rightarrow> (string \<times> json) list \<Rightarrow> string" where
  "string_member k fs = (case map_of fs k of Some (JStr s) \<Rightarrow> s | _ \<Rightarrow> [])"

section \<open>The configuration of the store\<close>

fun set_tokens :: "ext \<Rightarrow> (string \<times> string) list \<Rightarrow> unit prog" where
  "set_tokens E [] = ret ()"
| "set_tokens E ((endpoint, ciphertext) # rows) =
     bnd (of_result (open_string E ciphertext)) (\<lambda>token.
     bnd (set_endpoint_token endpoint token) (\<lambda>_. set_tokens E rows))"

definition sync_store_tokens :: "ext \<Rightarrow> topology \<Rightarrow> unit prog" where
  "sync_store_tokens E T =
     (if \<not> tp_store T \<or> \<not> tp_sealer T then ret ()
      else bnd (query (\<lambda>d. Inr (map (\<lambda>n. (n_endpoint n, n_rpc_cipher n)) (filter (\<lambda>n. n_rpc_cipher n \<noteq> []) (t_nodes d)))))
        (set_tokens E))"

definition sync_store_configuration :: "ext \<Rightarrow> topology \<Rightarrow> unit prog" where
  "sync_store_configuration E T =
     (if \<not> tp_store T then ret ()
      else bnd (sync_store_tokens E T) (\<lambda>_.
        bnd (query (\<lambda>d. Inr (map n_endpoint (sort_key (\<lambda>n. (n_name n, n_endpoint n)) (t_nodes d)))))
          replace_endpoints))"

section \<open>Join tokens\<close>

definition hash_join_token :: "ext \<Rightarrow> string \<Rightarrow> string" where
  "hash_join_token E value = hex_encode (sha256 E (trim_space value))"

definition random_join_token :: "ext \<Rightarrow> string prog" where
  "random_join_token E = bnd (random_bytes E 24) (\<lambda>b. ret (hex_encode b))"

record issued_token =
  it_token :: string
  it_row :: join_token_row

definition insert_join_token :: "join_token_row \<Rightarrow> database \<Rightarrow> err + (unit \<times> database)" where
  "insert_join_token row d =
     (if list_ex (\<lambda>r. j_hash r = j_hash row) (t_join_tokens d) then Inl PgUniqueViolation
      else Inr ((), d\<lparr>t_join_tokens := t_join_tokens d @ [row]\<rparr>))"

definition issue_join_token :: "ext \<Rightarrow> string \<Rightarrow> string \<Rightarrow> string \<Rightarrow> string \<Rightarrow> int \<Rightarrow> issued_token prog" where
  "issue_join_token E description intended_name intended_endpoint zone expires_in0 =
     (let expires_in = (if expires_in0 \<le> 0 then 15 * 60 * 1000000000 else expires_in0) in
      bnd (random_join_token E) (\<lambda>raw.
      bnd now (\<lambda>t.
      bnd (new_uuid E) (\<lambda>i.
      let row = \<lparr>j_id = i, j_hash = hash_join_token E raw, j_desc = trim_space description, j_name = trim_space intended_name,
                 j_endpoint = trim_space intended_endpoint, j_zone = trim_space zone, j_expires = t + expires_in, j_used = None\<rparr> in
      bnd (exec (\<lambda>_. insert_join_token row)) (\<lambda>_. ret \<lparr>it_token = raw, it_row = row\<rparr>)))))"

definition generate_rpc_credential :: "ext \<Rightarrow> topology \<Rightarrow> (string \<times> string \<times> string) prog" where
  "generate_rpc_credential E T =
     bnd (random_join_token E) (\<lambda>plaintext.
     if \<not> tp_sealer T then fail (Failure ''storage node sealer unavailable'')
     else bnd (seal_string E plaintext) (\<lambda>ciphertext. ret (plaintext, hash_secret E plaintext, ciphertext)))"

text \<open>\<open>INSERT ... ON CONFLICT (endpoint) DO UPDATE\<close>; names are unique too.\<close>

definition upsert_node :: "node_row \<Rightarrow> (node_row \<Rightarrow> node_row) \<Rightarrow> database \<Rightarrow> err + (unit \<times> database)" where
  "upsert_node row update d =
     (if list_ex (\<lambda>n. n_endpoint n = n_endpoint row) (t_nodes d) then
        (if list_ex (\<lambda>n. n_endpoint n \<noteq> n_endpoint row \<and> n_name n = n_name row) (t_nodes d) then Inl PgUniqueViolation
         else Inr ((), change_nodes (map (\<lambda>n. if n_endpoint n = n_endpoint row then update n else n)) d))
      else if list_ex (\<lambda>n. n_name n = n_name row) (t_nodes d) then Inl PgUniqueViolation
      else Inr ((), change_nodes (\<lambda>ns. ns @ [row]) d))"

definition new_node :: "string \<Rightarrow> string \<Rightarrow> string \<Rightarrow> string \<Rightarrow> string \<Rightarrow> (string \<times> json) list \<Rightarrow> int \<Rightarrow> node_row" where
  "new_node i name endpoint zone state meta t =
     \<lparr>n_id = i, n_name = name, n_endpoint = endpoint, n_zone = zone, n_status = ''configured'', n_state = state, n_capacity = 0,
      n_used = 0, n_meta = meta, n_rpc_hash = [], n_rpc_cipher = [], n_heartbeat = None, n_created = t\<rparr>"

definition joined_meta :: "(string \<times> json) list" where
  "joined_meta = [(''joined'', JBool True)]"

record enrollment =
  en_node :: node
  en_rpc_token :: string

definition find_join_token :: "ext \<Rightarrow> string \<Rightarrow> int \<Rightarrow> database \<Rightarrow> err + join_token_row" where
  "find_join_token E raw t d =
     (case find (\<lambda>j. j_hash j = hash_join_token E raw \<and> j_expires j > t) (t_join_tokens d) of
        None \<Rightarrow> Inl PgNoRows | Some j \<Rightarrow> Inr j)"

definition bound_to :: "string \<Rightarrow> string \<Rightarrow> bool" where
  "bound_to intended value \<longleftrightarrow> intended = [] \<or> intended = value"

definition join_transaction :: "ext \<Rightarrow> topology \<Rightarrow> string \<Rightarrow> string \<Rightarrow> string \<Rightarrow> string \<Rightarrow> int \<Rightarrow> enrollment prog" where
  "join_transaction E T raw name endpoint zone t =
     bnd (attempt (query (find_join_token E raw t))) (\<lambda>found. case found of
         Inl e \<Rightarrow> fail (if e = PgNoRows then ErrJoinTokenInvalid else e)
       | Inr j \<Rightarrow>
           if j_used j \<noteq> None then fail ErrJoinTokenUsed
           else if \<not> bound_to (j_name j) name then fail (Failure ''join token is bound to node name'')
           else if \<not> bound_to (j_endpoint j) endpoint then fail (Failure ''join token is bound to endpoint'')
           else if \<not> bound_to (j_zone j) zone then fail (Failure ''join token is bound to zone'')
           else
           bnd (generate_rpc_credential E T) (\<lambda>(rpc_token, rpc_hash, rpc_ciphertext).
           bnd (new_uuid E) (\<lambda>i.
           bnd (exec (\<lambda>_. upsert_node
             ((new_node i name endpoint zone ''maintenance'' joined_meta t)\<lparr>n_rpc_hash := rpc_hash, n_rpc_cipher := rpc_ciphertext\<rparr>)
             (\<lambda>n. n\<lparr>n_name := name, n_zone := zone, n_meta := joined_meta, n_rpc_hash := rpc_hash, n_rpc_cipher := rpc_ciphertext\<rparr>)))
             (\<lambda>_.
           bnd (exec (\<lambda>_ d. Inr ((), d\<lparr>t_join_tokens := map (\<lambda>r. if j_id r = j_id j then r\<lparr>j_used := Some t\<rparr> else r) (t_join_tokens d)\<rparr>)))
             (\<lambda>_.
           bnd (query (\<lambda>d. case find (\<lambda>n. n_endpoint n = endpoint) (t_nodes d) of
                 None \<Rightarrow> Inl PgNoRows | Some n \<Rightarrow> Inr (node_of_row n))) (\<lambda>item.
           ret \<lparr>en_node = item, en_rpc_token = rpc_token\<rparr>))))))"

definition join_node :: "ext \<Rightarrow> topology \<Rightarrow> string \<Rightarrow> string \<Rightarrow> string \<Rightarrow> string \<Rightarrow> enrollment prog" where
  "join_node E T raw name0 endpoint0 zone0 =
     (let name = trim_space name0; endpoint = trim_space endpoint0; zone = trim_space zone0 in
      if name = [] \<or> endpoint = [] then fail (Failure ''name and endpoint are required'')
      else
      bnd (transaction (join_transaction E T raw name endpoint zone)) (\<lambda>item.
      bnd (sync_store_configuration E T) (\<lambda>_. ret item)))"

section \<open>Registering and configuring nodes\<close>

definition valid_operator_state :: "string \<Rightarrow> bool" where
  "valid_operator_state s \<longleftrightarrow> s = ''active'' \<or> s = ''draining'' \<or> s = ''maintenance''"

definition insert_node :: "node_row \<Rightarrow> database \<Rightarrow> err + (unit \<times> database)" where
  "insert_node row d =
     (if list_ex (\<lambda>n. n_name n = n_name row \<or> n_endpoint n = n_endpoint row) (t_nodes d) then Inl PgUniqueViolation
      else Inr ((), change_nodes (\<lambda>ns. ns @ [row]) d))"

definition find_listed :: "(node \<Rightarrow> bool) \<Rightarrow> node prog" where
  "find_listed p = bnd list_nodes (\<lambda>nodes. case find p nodes of None \<Rightarrow> fail PgNoRows | Some n \<Rightarrow> ret n)"

definition register_node :: "ext \<Rightarrow> topology \<Rightarrow> string \<Rightarrow> string \<Rightarrow> string \<Rightarrow> string \<Rightarrow> node prog" where
  "register_node E T name0 endpoint0 zone0 operator_state0 =
     (let name = trim_space name0; endpoint = trim_space endpoint0; zone = trim_space zone0;
          wanted = to_lower (trim_space operator_state0);
          state = (if wanted = [] then ''maintenance'' else wanted) in
      if name = [] \<or> endpoint = [] then fail (Failure ''name and endpoint are required'')
      else if \<not> valid_operator_state state then fail ErrInvalidOperatorState
      else
      bnd (new_uuid E) (\<lambda>i.
      bnd (exec (\<lambda>t. insert_node (new_node i name endpoint zone state [(''configured'', JBool False)] t))) (\<lambda>_.
      bnd (sync_store_configuration E T) (\<lambda>_.
      find_listed (\<lambda>n. nv_endpoint n = endpoint)))))"

definition node_name_for_endpoint :: "topology \<Rightarrow> string \<Rightarrow> string" where
  "node_name_for_endpoint T raw = (case tp_hostname T raw of
      None \<Rightarrow> trim_space raw
    | Some h \<Rightarrow> if h \<noteq> [] then h
               else ''node-'' @ map (\<lambda>c. if c = CHR '':'' then CHR ''-'' else c) (trim_space raw))"

definition configured_meta :: "(string \<times> json) list" where
  "configured_meta = [(''configured'', JBool True)]"

definition sync_node :: "ext \<Rightarrow> topology \<Rightarrow> string \<Rightarrow> unit prog" where
  "sync_node E T endpoint0 =
     (let endpoint = trim_space endpoint0; name = node_name_for_endpoint T endpoint in
      if endpoint = [] then ret ()
      else bnd (new_uuid E) (\<lambda>i.
        exec (\<lambda>t. upsert_node (new_node i name endpoint [] ''active'' configured_meta t)
          (\<lambda>n. n\<lparr>n_name := name, n_status := ''configured'', n_meta := configured_meta\<rparr>))))"

definition sync_configured_nodes :: "ext \<Rightarrow> topology \<Rightarrow> string list \<Rightarrow> unit prog" where
  "sync_configured_nodes E T endpoints =
     bnd (for_each (sync_node E T) endpoints) (\<lambda>_. sync_store_configuration E T)"

section \<open>Probing nodes\<close>

definition fetch_node_health :: "topology \<Rightarrow> string \<Rightarrow> probe_result prog" where
  "fetch_node_health T endpoint = external (\<lambda>w. (tp_probe T w endpoint, w))"

definition observed_meta :: "probe_result \<Rightarrow> (string \<times> json) list \<Rightarrow> (string \<times> json) list" where
  "observed_meta p fs = set_member ''fileCount'' (JNum (pr_files p)) (set_member ''service'' (JStr (pr_service p))
     (set_member ''reachable'' (JBool True) fs))"

definition common_name_meta :: "probe_result \<Rightarrow> (string \<times> json) list \<Rightarrow> (string \<times> json) list" where
  "common_name_meta p fs = (if pr_common_name p \<noteq> [] then set_member ''tlsCommonName'' (JStr (pr_common_name p)) fs else fs)"

definition pinned_meta :: "probe_result \<Rightarrow> (string \<times> json) list \<Rightarrow> string \<times> (string \<times> json) list" where
  "pinned_meta p fs =
     (if pr_fingerprint p = [] then (''healthy'', fs)
      else
      let expected = string_member ''tlsExpectedFingerprintSha256'' fs; observed = pr_fingerprint p;
          (status, fs') = (if trim_space expected = [] then
               (''healthy'', set_member ''tlsIdentityStatus'' (JStr ''pinned'')
                  (set_member ''tlsExpectedFingerprintSha256'' (JStr observed) fs))
             else if equal_fold expected observed then (''healthy'', set_member ''tlsIdentityStatus'' (JStr ''verified'') fs)
             else (''tls-mismatch'', set_member ''tlsIdentityStatus'' (JStr ''mismatch'') fs)) in
      (status, set_member ''tlsObservedFingerprintSha256'' (JStr observed) fs'))"

text \<open>The row of a node after a probe that gave \<open>r\<close>, from the metadata read before.\<close>

definition refreshed_node :: "err + probe_result \<Rightarrow> int \<Rightarrow> (string \<times> json) list \<Rightarrow> node_row \<Rightarrow> node_row" where
  "refreshed_node r t meta n =
     (let base = fold (\<lambda>(k, v). set_member k v) meta [(''reachable'', JBool False)] in
      case r of
        Inl _ \<Rightarrow> n\<lparr>n_status := ''offline'', n_capacity := 0, n_used := 0, n_meta := base, n_heartbeat := None\<rparr>
      | Inr p \<Rightarrow>
          (case pinned_meta p (observed_meta p base) of (status, fs) \<Rightarrow>
             n\<lparr>n_status := status, n_capacity := pr_capacity p, n_used := pr_used p, n_meta := common_name_meta p fs,
               n_heartbeat := Some t\<rparr>))"

definition refresh_node :: "topology \<Rightarrow> string \<times> (string \<times> json) list \<Rightarrow> int prog" where
  "refresh_node T item = (case item of (endpoint, meta) \<Rightarrow>
     bnd (attempt (fetch_node_health T endpoint)) (\<lambda>r.
     bnd now (\<lambda>t.
     bnd (exec (\<lambda>_ d. Inr ((), change_nodes (map (\<lambda>n. if n_endpoint n = endpoint then refreshed_node r t meta n else n)) d)))
       (\<lambda>_. ret 1))))"

definition refresh_configured_nodes :: "ext \<Rightarrow> topology \<Rightarrow> (int \<times> err option) prog" where
  "refresh_configured_nodes E T =
     bnd (attempt (bnd (sync_store_tokens E T) (\<lambda>_.
        query (\<lambda>d. Inr (map (\<lambda>n. (n_endpoint n, n_meta n)) (sort_key n_endpoint (t_nodes d))))))) (\<lambda>items.
     case items of Inl e \<Rightarrow> ret (0, Some e) | Inr ns \<Rightarrow> count_each (refresh_node T) 0 ns)"

definition update_node_operator_state :: "ext \<Rightarrow> string \<Rightarrow> string \<Rightarrow> node prog" where
  "update_node_operator_state E node_id operator_state0 =
     (let state = to_lower (trim_space operator_state0) in
      if \<not> valid_operator_state state then fail ErrInvalidOperatorState
      else
      bnd (cast_uuid E node_id) (\<lambda>i.
      bnd (exec (\<lambda>_ d. Inr (list_ex (\<lambda>n. n_id n = i) (t_nodes d),
             change_nodes (map (\<lambda>n. if n_id n = i then n\<lparr>n_state := state\<rparr> else n)) d))) (\<lambda>found.
      if \<not> found then fail PgNoRows
      else find_listed (\<lambda>n. nv_id n = node_id))))"

definition repin_node_tls_identity :: "ext \<Rightarrow> topology \<Rightarrow> string \<Rightarrow> node prog" where
  "repin_node_tls_identity E T node_id =
     bnd (node_by_id E node_id) (\<lambda>n.
     bnd (fetch_node_health T (nv_endpoint n)) (\<lambda>p.
     if trim_space (pr_fingerprint p) = [] then fail ErrNodeTLSIdentityUnavailable
     else
     let fs = set_member ''tlsIdentityStatus'' (JStr ''verified'')
                (set_member ''tlsObservedFingerprintSha256'' (JStr (pr_fingerprint p))
                (set_member ''tlsExpectedFingerprintSha256'' (JStr (pr_fingerprint p)) (observed_meta p (nv_meta n))));
         meta = common_name_meta p fs in
     bnd now (\<lambda>t.
     bnd (cast_uuid E node_id) (\<lambda>i.
     bnd (exec (\<lambda>_ d. Inr (list_ex (\<lambda>r. n_id r = i) (t_nodes d),
            change_nodes (map (\<lambda>r. if n_id r = i then r\<lparr>n_status := ''healthy'', n_capacity := pr_capacity p, n_used := pr_used p,
              n_meta := meta, n_heartbeat := Some t\<rparr> else r)) d))) (\<lambda>found.
     if \<not> found then fail PgNoRows else node_by_id E node_id)))))"

end
