(* ===== verification/Placements.thy ===== *)
theory Placements
  imports Topology
begin

text \<open>
  Replicas: the second half of \<open>backend/internal/storage/topology.go\<close>. The worker runs
  \<open>RefreshPlacementHealth\<close>, \<open>RepairDegradedPlacements\<close> and \<open>RebalancePlacements\<close> in turn. A query
  whose rows are read while other statements run sees the rows of its start.
\<close>

section \<open>Targets\<close>

definition effective_replica_count :: "topology \<Rightarrow> int \<Rightarrow> int" where
  "effective_replica_count T available =
     (if available \<le> 0 then 0
      else if tp_replicas T \<le> 0 \<or> tp_replicas T > available then available
      else tp_replicas T)"

definition target_replica_count :: "topology \<Rightarrow> int prog" where
  "target_replica_count T =
     bnd (query (\<lambda>d. Inr (int (length (filter (\<lambda>n. n_state n = ''active'') (t_nodes d)))))) (\<lambda>active_nodes.
       ret (if active_nodes = 0 then 0 else effective_replica_count T active_nodes))"

definition active_target_endpoints :: "topology \<Rightarrow> string list prog" where
  "active_target_endpoints T =
     bnd (query (\<lambda>d. Inr (map n_endpoint (sort_key n_name (filter (\<lambda>n. n_state n = ''active'') (t_nodes d)))))) (\<lambda>endpoints.
       ret (take (nat (effective_replica_count T (int (length endpoints)))) endpoints))"

definition replica_exists :: "ext \<Rightarrow> topology \<Rightarrow> string \<Rightarrow> string \<Rightarrow> bool prog" where
  "replica_exists E T endpoint locator =
     (if \<not> tp_store T then fail (Failure ''distributed store unavailable'')
      else bnd (attempt (exists_on_endpoint E endpoint locator)) (\<lambda>r. case r of
          Inr b \<Rightarrow> ret b
        | Inl e \<Rightarrow> if e = NotExist then ret False else fail e))"

section \<open>Placements with their nodes\<close>

record replica =
  rp_id :: string
  rp_object :: string
  rp_locator :: string
  rp_node :: string                \<comment> \<open>empty when the placement has no node\<close>
  rp_endpoint :: string
  rp_node_status :: string

definition replica_of :: "database \<Rightarrow> placement_row \<Rightarrow> replica" where
  "replica_of d p =
     (let n = (case p_node p of None \<Rightarrow> None | Some i \<Rightarrow> find (\<lambda>n. n_id n = i) (t_nodes d)) in
      \<lparr>rp_id = p_id p, rp_object = p_object p, rp_locator = p_locator p,
       rp_node = (case n of None \<Rightarrow> [] | Some r \<Rightarrow> n_id r), rp_endpoint = (case n of None \<Rightarrow> [] | Some r \<Rightarrow> n_endpoint r),
       rp_node_status = (case n of None \<Rightarrow> ''offline'' | Some r \<Rightarrow> n_status r)\<rparr>)"

definition change_placements :: "(placement_row list \<Rightarrow> placement_row list) \<Rightarrow> database \<Rightarrow> database" where
  "change_placements f d = d\<lparr>t_placements := f (t_placements d)\<rparr>"

definition set_state :: "(placement_row \<Rightarrow> bool) \<Rightarrow> string \<Rightarrow> int \<Rightarrow> placement_row list \<Rightarrow> placement_row list" where
  "set_state which state t = map (\<lambda>p. if which p then p\<lparr>p_state := state, p_updated := t\<rparr> else p)"

text \<open>A loop whose rounds count and may end it with an error.\<close>

fun count_until :: "('a \<Rightarrow> (int \<times> err option) prog) \<Rightarrow> int \<Rightarrow> 'a list \<Rightarrow> (int \<times> err option) prog" where
  "count_until f n [] = ret (n, None)"
| "count_until f n (x # xs) = bnd (f x) (\<lambda>(k, e). case e of
      Some err \<Rightarrow> ret (n + k, Some err) | None \<Rightarrow> count_until f (n + k) xs)"

section \<open>Health\<close>

definition observed_state :: "ext \<Rightarrow> topology \<Rightarrow> replica \<Rightarrow> string prog" where
  "observed_state E T r =
     (if rp_node_status r = ''healthy'' \<and> rp_endpoint r \<noteq> [] then
        bnd (attempt (replica_exists E T (rp_endpoint r) (rp_locator r))) (\<lambda>b.
          ret (if b = Inr True then ''stored'' else ''degraded''))
      else ret ''degraded'')"

definition refresh_placement :: "ext \<Rightarrow> topology \<Rightarrow> replica \<Rightarrow> int prog" where
  "refresh_placement E T r =
     bnd (observed_state E T r) (\<lambda>state.
     bnd (exec (\<lambda>t d. Inr ((), change_placements (set_state (\<lambda>p. p_id p = rp_id r \<and> p_state p \<noteq> state) state t) d)))
       (\<lambda>_. ret 1))"

definition object_state :: "int \<Rightarrow> placement_row list \<Rightarrow> string" where
  "object_state target ps =
     (if int (length ps) < target \<or> int (length (filter (\<lambda>p. p_state p = ''stored'') ps)) < target then ''degraded'' else ''stored'')"

definition object_states :: "int \<Rightarrow> database \<Rightarrow> (string \<times> string) list" where
  "object_states target d = map (\<lambda>i. (i, object_state target (filter (\<lambda>p. p_object p = i) (t_placements d))))
     (remdups (map p_object (t_placements d)))"

definition refresh_object :: "string \<times> string \<Rightarrow> int prog" where
  "refresh_object item = bnd (exec (\<lambda>t d. Inr ((), change_placements
     (set_state (\<lambda>p. p_object p = fst item \<and> p_state p \<noteq> snd item) (snd item) t) d))) (\<lambda>_. ret 0)"

definition refresh_placement_health :: "ext \<Rightarrow> topology \<Rightarrow> (int \<times> err option) prog" where
  "refresh_placement_health E T =
     bnd (attempt (target_replica_count T)) (\<lambda>target. case target of
         Inl e \<Rightarrow> ret (0, Some e)
       | Inr k \<Rightarrow>
           if k = 0 then ret (0, None)
           else
           bnd (attempt (query (\<lambda>d. Inr (map (replica_of d) (sort_key p_created (t_placements d)))))) (\<lambda>rows. case rows of
               Inl e \<Rightarrow> ret (0, Some e)
             | Inr rs \<Rightarrow>
                 bnd (count_each (refresh_placement E T) 0 rs) (\<lambda>(refreshed, e). case e of
                     Some err \<Rightarrow> ret (refreshed, Some err)
                   | None \<Rightarrow>
                       bnd (attempt (query (\<lambda>d. Inr (object_states k d)))) (\<lambda>objs. case objs of
                           Inl err \<Rightarrow> ret (refreshed, Some err)
                         | Inr os \<Rightarrow> count_each refresh_object refreshed os))))"

section \<open>Recording\<close>

definition record_placement_rows :: "ext \<Rightarrow> string \<Rightarrow> string \<Rightarrow> string list \<Rightarrow> unit prog" where
  "record_placement_rows E object_id locator endpoints =
     bnd (cast_uuid E object_id) (\<lambda>i.
     transaction (\<lambda>t.
       bnd (exec (\<lambda>_ d. Inr ((), change_placements (filter (\<lambda>p. p_object p \<noteq> i)) d))) (\<lambda>_.
       insert_placements E t i locator 0 endpoints)))"

section \<open>Repair\<close>

text \<open>The first placement whose replica is there.\<close>

fun find_source :: "ext \<Rightarrow> topology \<Rightarrow> replica list \<Rightarrow> string prog" where
  "find_source E T [] = ret []"
| "find_source E T (r # rs) =
     (if rp_endpoint r = [] then find_source E T rs
      else bnd (attempt (replica_exists E T (rp_endpoint r) (rp_locator r))) (\<lambda>b.
        if b = Inr True then ret (rp_endpoint r) else find_source E T rs))"

definition repair_one :: "ext \<Rightarrow> topology \<Rightarrow> string \<Rightarrow> replica \<Rightarrow> int prog" where
  "repair_one E T source_endpoint r =
     (if rp_endpoint r = [] \<or> rp_endpoint r = source_endpoint then ret 0
      else bnd (attempt (replica_exists E T (rp_endpoint r) (rp_locator r))) (\<lambda>b.
        if b = Inr True then ret 0
        else bnd (attempt (copy_between_endpoints E source_endpoint (rp_endpoint r) (rp_locator r))) (\<lambda>c. case c of
            Inl _ \<Rightarrow> ret 0
          | Inr _ \<Rightarrow>
              bnd (exec (\<lambda>t d. Inr ((), change_placements (set_state (\<lambda>p. p_id p = rp_id r) ''stored'' t) d))) (\<lambda>_. ret 1))))"

definition repair_group :: "ext \<Rightarrow> topology \<Rightarrow> replica list \<Rightarrow> (int \<times> err option) prog" where
  "repair_group E T rs =
     bnd (find_source E T rs) (\<lambda>source_endpoint.
       if source_endpoint = [] then ret (0, None) else count_each (repair_one E T source_endpoint) 0 rs)"

definition groups_by :: "(replica \<Rightarrow> string) \<Rightarrow> replica list \<Rightarrow> replica list list" where
  "groups_by f rs = map (\<lambda>k. filter (\<lambda>r. f r = k) rs) (rev (remdups (rev (map f rs))))"

definition repair_degraded_placements :: "ext \<Rightarrow> topology \<Rightarrow> (int \<times> err option) prog" where
  "repair_degraded_placements E T =
     (if \<not> tp_store T then ret (0, None)
      else
      bnd (attempt (query (\<lambda>d. Inr (map (replica_of d) (sort_key (\<lambda>p. (p_updated p, p_created p))
             (filter (\<lambda>p. p_state p = ''degraded'') (t_placements d))))))) (\<lambda>rows. case rows of
          Inl e \<Rightarrow> ret (0, Some e)
        | Inr rs \<Rightarrow> count_until (repair_group E T) 0 (groups_by rp_locator rs)))"

section \<open>Rebalancing\<close>

definition last_at :: "string \<Rightarrow> replica list \<Rightarrow> replica option" where
  "last_at endpoint rs = find (\<lambda>r. rp_endpoint r = endpoint) (rev rs)"

definition drop_replica :: "ext \<Rightarrow> string list \<Rightarrow> replica \<Rightarrow> int prog" where
  "drop_replica E targets r =
     (if rp_endpoint r = [] \<or> rp_endpoint r \<in> set targets then ret 0
      else bnd (ignore_error (delete_one E (rp_endpoint r) (rp_locator r))) (\<lambda>_.
        bnd (exec (\<lambda>_ d. Inr ((), change_placements (filter (\<lambda>p. p_id p \<noteq> rp_id r)) d))) (\<lambda>_. ret 1)))"

definition node_at :: "string \<Rightarrow> database \<Rightarrow> string option" where
  "node_at endpoint d = map_option n_id (find (\<lambda>n. n_endpoint n = endpoint) (t_nodes d))"

definition add_replica ::
    "ext \<Rightarrow> string \<Rightarrow> string \<Rightarrow> string \<Rightarrow> replica list \<Rightarrow> int \<times> string \<Rightarrow> int prog" where
  "add_replica E object_id locator source_endpoint rs target = (case target of (index, endpoint) \<Rightarrow>
     (case last_at endpoint rs of
        Some r \<Rightarrow>
          if rp_node r \<noteq> [] then ret 0
          else bnd (exec (\<lambda>t d. Inr ((), change_placements (map (\<lambda>p. if p_id p = rp_id r
                 then p\<lparr>p_node := node_at endpoint d, p_endpoint := endpoint, p_state := ''stored'', p_updated := t\<rparr> else p)) d)))
               (\<lambda>_. ret 1)
      | None \<Rightarrow>
          bnd (attempt (copy_between_endpoints E source_endpoint endpoint locator)) (\<lambda>c. case c of
              Inl _ \<Rightarrow> ret 0
            | Inr _ \<Rightarrow>
                bnd (new_uuid E) (\<lambda>i.
                bnd (exec (\<lambda>t d. insert_placement \<lparr>p_id = i, p_object = object_id, p_index = index, p_node = node_at endpoint d,
                       p_locator = locator, p_state = ''stored'', p_endpoint = endpoint, p_created = t, p_updated = t\<rparr> d))
                  (\<lambda>_. ret 1)))))"

text \<open>The index of a target is its place in the list; the later of two equal ones counts.\<close>

definition indexed_targets :: "string list \<Rightarrow> (int \<times> string) list" where
  "indexed_targets targets = map (\<lambda>e. (int (length targets) - 1 - int (length (takeWhile (\<lambda>x. x \<noteq> e) (rev targets))), e)) targets"

definition rebalance_object :: "ext \<Rightarrow> topology \<Rightarrow> string list \<Rightarrow> replica list \<Rightarrow> (int \<times> err option) prog" where
  "rebalance_object E T targets rs = (case rs of
     [] \<Rightarrow> ret (0, None)
   | r0 # _ \<Rightarrow>
       bnd (find_source E T rs) (\<lambda>source_endpoint.
       bnd (count_each (drop_replica E targets) 0 rs) (\<lambda>(dropped, e). case e of
           Some err \<Rightarrow> ret (dropped, Some err)
         | None \<Rightarrow>
             if source_endpoint = [] then ret (dropped, None)
             else count_each (add_replica E (rp_object r0) (rp_locator r0) source_endpoint rs) dropped (indexed_targets targets))))"

definition rebalance_placements :: "ext \<Rightarrow> topology \<Rightarrow> (int \<times> err option) prog" where
  "rebalance_placements E T =
     (if \<not> tp_store T then ret (0, None)
      else
      bnd (attempt (active_target_endpoints T)) (\<lambda>found. case found of
          Inl e \<Rightarrow> ret (0, Some e)
        | Inr targets \<Rightarrow>
            if targets = [] then ret (0, None)
            else
            bnd (attempt (query (\<lambda>d. Inr (map (replica_of d) (sort_key (\<lambda>p. (p_object p, p_index p)) (t_placements d)))))) (\<lambda>rows.
            case rows of
              Inl e \<Rightarrow> ret (0, Some e)
            | Inr rs \<Rightarrow> count_until (rebalance_object E T targets) 0 (groups_by rp_object rs))))"

section \<open>Listing\<close>

record placement_filter =
  pf_bucket :: string
  pf_key :: string
  pf_version :: string
  pf_limit :: int

record placement_view =
  pv_row :: placement_row
  pv_bucket :: string
  pv_key :: string
  pv_version :: string
  pv_node_name :: string

definition placement_view_of :: "database \<Rightarrow> object_row \<Rightarrow> placement_row \<Rightarrow> placement_view" where
  "placement_view_of d r p = \<lparr>pv_row = p, pv_bucket = o_bucket r, pv_key = o_key r, pv_version = o_version r,
     pv_node_name = (case p_node p of None \<Rightarrow> [] | Some i \<Rightarrow>
        (case find (\<lambda>n. n_id n = i) (t_nodes d) of None \<Rightarrow> [] | Some n \<Rightarrow> n_name n))\<rparr>"

definition list_placements :: "placement_filter \<Rightarrow> placement_view list prog" where
  "list_placements f =
     (let limit = (if pf_limit f \<le> 0 \<or> pf_limit f > 500 then 100 else pf_limit f);
          b = trim_space (pf_bucket f); k = trim_space (pf_key f); v = trim_space (pf_version f) in
      query (\<lambda>d. Inr (take (nat limit) (map (\<lambda>(r, p). placement_view_of d r p)
        (sort_key (\<lambda>(r, p). (- o_created r, p_index p))
          (filter (\<lambda>(r, p). (b = [] \<or> o_bucket r = b) \<and> (k = [] \<or> o_key r = k) \<and> (v = [] \<or> o_version r = v))
            (concat (map (\<lambda>p. map (\<lambda>r. (r, p)) (filter (\<lambda>r. o_id r = p_object p) (t_objects d))) (t_placements d)))))))))"

end
