(* ===== verification/TopologySafety.thy ===== *)
theory TopologySafety
  imports Placements
begin

text \<open>
  What the registry of the nodes guarantees and where it falls short: join tokens work once, a
  pinned certificate is enforced until the next start, replicas agree, the health of placements
  is that of their object, and rebalancing can lose the only replica.
\<close>

section \<open>Join tokens work once\<close>

datatype topology_call =
    IssueToken string string string string int
  | Join string string string string
  | Register string string string string
  | SyncNodes "string list"
  | RefreshNodes
  | SetOperatorState string string
  | RePin string

fun topology_step :: "ext \<Rightarrow> topology \<Rightarrow> topology_call \<Rightarrow> unit prog" where
  "topology_step E T (IssueToken d n e z x) = ignore_error (issue_join_token E d n e z x)"
| "topology_step E T (Join r n e z) = ignore_error (join_node E T r n e z)"
| "topology_step E T (Register n e z s) = ignore_error (register_node E T n e z s)"
| "topology_step E T (SyncNodes es) = ignore_error (sync_configured_nodes E T es)"
| "topology_step E T RefreshNodes = ignore_error (refresh_configured_nodes E T)"
| "topology_step E T (SetOperatorState i s) = ignore_error (update_node_operator_state E i s)"
| "topology_step E T (RePin i) = ignore_error (repin_node_tls_identity E T i)"

definition token_spent :: "string \<Rightarrow> world \<Rightarrow> bool" where
  "token_spent h w \<longleftrightarrow> (\<exists>j \<in> set (t_join_tokens (db w)). j_hash j = h) \<and>
     (\<forall>j \<in> set (t_join_tokens (db w)). j_hash j = h \<longrightarrow> j_used j \<noteq> None)"

lemma stable_spent: "stable (token_spent h)"
  unfolding token_spent_def by (rule stable_db)

lemma spent_exec:
  "(\<And>t d x d'. q t d = Inr (x, d') \<Longrightarrow> t_join_tokens d' = t_join_tokens d) \<Longrightarrow> keeps_inv (token_spent h) (exec q)"
  by (rule keeps_exec [OF stable_spent]) (auto simp: token_spent_def)

lemma same_tokens:
  "upsert_node row u d = Inr (x, d') \<Longrightarrow> t_join_tokens d' = t_join_tokens d"
  "insert_node row d = Inr (x, d') \<Longrightarrow> t_join_tokens d' = t_join_tokens d"
  by (auto simp: upsert_node_def insert_node_def change_nodes_def split: if_splits)

lemma spent_nodes [keeps]:
  "keeps_inv (token_spent h) (exec (\<lambda>t. upsert_node (r t) u))" "keeps_inv (token_spent h) (exec (\<lambda>t. insert_node (r t)))"
  "keeps_inv (token_spent h) (exec (\<lambda>t d. Inr (y d, change_nodes (f t) d)))"
  by (rule spent_exec; (drule same_tokens)?; auto simp: change_nodes_def)+

lemma spent_pure [keeps]:
  "keeps_inv (token_spent h) (query q)" "keeps_inv (token_spent h) (new_uuid E)" "keeps_inv (token_spent h) (random_bytes E n)"
  by (intro keeps stable_spent)+

lemma spent_store [keeps]:
  "keeps_inv (token_spent h) (set_endpoint_token e t)" "keeps_inv (token_spent h) (replace_endpoints es)"
  by (auto simp: keeps_inv_def set_endpoint_token_def replace_endpoints_def token_spent_def Let_def)

lemma spent_tokens [keeps]: "keeps_inv (token_spent h) (set_tokens E rows)"
  by (induction E rows rule: set_tokens.induct) (simp_all only: set_tokens.simps, (intro keeps, assumption?)+)

lemma spent_sync [keeps]: "keeps_inv (token_spent h) (sync_store_configuration E T)" "keeps_inv (token_spent h) (sync_store_tokens E T)"
  unfolding sync_store_configuration_def sync_store_tokens_def by (intro keeps)+

lemma spent_map:
  "token_spent h w \<Longrightarrow> set (t_join_tokens d) = f ` set (t_join_tokens (db w)) \<Longrightarrow> (\<And>r. j_hash (f r) = j_hash r) \<Longrightarrow>
   (\<And>r. j_used r \<noteq> None \<Longrightarrow> j_used (f r) \<noteq> None) \<Longrightarrow> token_spent h (w\<lparr>db := d\<rparr>)"
  by (simp add: token_spent_def)

lemma spent_mark [keeps]:
  "keeps_inv (token_spent h) (exec (\<lambda>t' d. Inr ((), d\<lparr>t_join_tokens := map (\<lambda>r. if j_id r = i then r\<lparr>j_used := Some t\<rparr> else r) (t_join_tokens d)\<rparr>)))"
  by (rule keeps_exec [OF stable_spent],
      rule spent_map [where f = "\<lambda>r. if j_id r = i then r\<lparr>j_used := Some t\<rparr> else r"]) auto

lemma spent_issue [keeps]: "keeps_inv (token_spent h) (exec (\<lambda>_. insert_join_token row))"
  by (rule keeps_exec [OF stable_spent]) (fastforce simp: token_spent_def insert_join_token_def list_ex_iff split: if_splits)

lemma spent_probe [keeps]: "keeps_inv (token_spent h) (fetch_node_health T e)"
  unfolding fetch_node_health_def by (rule keeps_external [OF stable_spent]) (simp add: keeps_inv_def)

lemma spent_random [keeps]:
  "keeps_inv (token_spent h) (random_join_token E)" "keeps_inv (token_spent h) (generate_rpc_credential E T)"
  unfolding generate_rpc_credential_def random_join_token_def seal_string_def by (intro keeps)+

lemma db_only_random [keeps]: "db_only (random_bytes E n)"
  unfolding random_bytes_def by (rule db_only_external) (simp add: env_step_fields)

lemma db_only_generate [keeps]: "db_only (generate_rpc_credential E T)"
  unfolding generate_rpc_credential_def random_join_token_def seal_string_def by (intro keeps)

lemma spent_transaction [keeps]: "keeps_inv (token_spent h) (transaction (join_transaction E T raw n e z))"
  unfolding join_transaction_def by (intro keeps_transaction stable_spent keeps)

lemma spent_list [keeps]: "keeps_inv (token_spent h) list_nodes" "keeps_inv (token_spent h) (node_by_id E i)"
    "keeps_inv (token_spent h) (find_listed p)"
  unfolding list_nodes_def node_by_id_def find_listed_def by (intro keeps)+

lemma spent_step: "keeps_inv (token_spent h) (topology_step E T c)"
proof (cases c)
  case (IssueToken d n e z x)
  show ?thesis unfolding IssueToken topology_step.simps issue_join_token_def Let_def by (intro keeps)
next
  case (Join r n e z)
  show ?thesis unfolding Join topology_step.simps join_node_def Let_def by (intro keeps)
next
  case (Register n e z s)
  show ?thesis unfolding Register topology_step.simps register_node_def Let_def by (intro keeps)
next
  case (SyncNodes es)
  show ?thesis unfolding SyncNodes topology_step.simps sync_configured_nodes_def sync_node_def Let_def by (intro keeps)
next
  case RefreshNodes
  show ?thesis unfolding RefreshNodes topology_step.simps refresh_configured_nodes_def refresh_node_def by (intro keeps)
next
  case (SetOperatorState i s)
  show ?thesis unfolding SetOperatorState topology_step.simps update_node_operator_state_def Let_def by (intro keeps)
next
  case (RePin i)
  show ?thesis unfolding RePin topology_step.simps repin_node_tls_identity_def Let_def by (intro keeps)
qed

definition token_found :: "string \<Rightarrow> join_token_row \<Rightarrow> world \<Rightarrow> bool" where
  "token_found h j w \<longleftrightarrow> distinct (map j_hash (t_join_tokens (db w))) \<and> j \<in> set (t_join_tokens (db w)) \<and> j_hash j = h"

lemma stable_found: "stable (token_found h j)"
  unfolding token_found_def by (rule stable_db)

lemma found_exec:
  "(\<And>t d x d'. q t d = Inr (x, d') \<Longrightarrow> t_join_tokens d' = t_join_tokens d) \<Longrightarrow> keeps_inv (token_found h j) (exec q)"
  by (rule keeps_exec [OF stable_found]) (auto simp: token_found_def)

lemma found_spent:
  assumes "token_found h j w"
  shows "token_spent h (w\<lparr>db := (db w)\<lparr>t_join_tokens :=
     map (\<lambda>r. if j_id r = j_id j then r\<lparr>j_used := Some t\<rparr> else r) (t_join_tokens (db w))\<rparr>\<rparr>)"
proof -
  have d: "inj_on j_hash (set (t_join_tokens (db w)))" and j: "j \<in> set (t_join_tokens (db w))" "j_hash j = h"
    using assms by (simp_all add: token_found_def distinct_map)
  have u: "r = j" if "r \<in> set (t_join_tokens (db w))" "j_hash r = h" for r
    by (rule inj_onD [OF d]) (simp_all add: that j)
  define f where "f r = (if j_id r = j_id j then r\<lparr>j_used := Some t\<rparr> else r)" for r :: join_token_row
  have "j_hash (f r) = j_hash r" for r by (simp add: f_def)
  moreover have "j_used (f r) \<noteq> None" if "r \<in> set (t_join_tokens (db w))" "j_hash r = h" for r
    unfolding u [OF that] by (simp add: f_def)
  ultimately have "token_spent h (w\<lparr>db := (db w)\<lparr>t_join_tokens := map f (t_join_tokens (db w))\<rparr>\<rparr>)"
    using j unfolding token_spent_def by (auto simp: image_iff)
  then show ?thesis by (simp add: f_def [abs_def])
qed

lemma found_pure [keeps]: "keeps_inv (token_found h j) (new_uuid E)" "keeps_inv (token_found h j) (random_bytes E k)"
  by (intro keeps stable_found)+

lemma found_generate: "keeps_inv (token_found h j) (generate_rpc_credential E T)"
  unfolding generate_rpc_credential_def random_join_token_def seal_string_def by (intro keeps)

lemma found_upsert: "keeps_inv (token_found h j) (exec (\<lambda>t. upsert_node (r t) u))"
  by (rule found_exec) (rule same_tokens(1))

lemma triple_pass: "keeps_inv P m \<Longrightarrow> triple P m (\<lambda>_. P) (\<lambda>_. True)"
  by (rule triple_of_keeps) simp_all

lemma join_rest:
  "triple (token_found h j) (bnd (exec (\<lambda>_ d. Inr ((), d\<lparr>t_join_tokens :=
       map (\<lambda>r. if j_id r = j_id j then r\<lparr>j_used := Some t\<rparr> else r) (t_join_tokens d)\<rparr>)))
     (\<lambda>_. bnd (query f) (\<lambda>item. ret (g item)))) (\<lambda>_. token_spent h) (\<lambda>_. True)"
proof (rule triple_bnd [where Q = "\<lambda>_. token_spent h"])
  show "triple (token_found h j) (exec (\<lambda>_ d. Inr ((), d\<lparr>t_join_tokens :=
       map (\<lambda>r. if j_id r = j_id j then r\<lparr>j_used := Some t\<rparr> else r) (t_join_tokens d)\<rparr>))) (\<lambda>_. token_spent h) (\<lambda>_. True)"
    by (rule triple_exec [OF stable_found]) (auto simp: found_spent)
  show "triple (token_spent h) (bnd (query f) (\<lambda>item. ret (g item))) (\<lambda>_. token_spent h) (\<lambda>_. True)"
    by (rule triple_bnd [OF triple_pass [OF spent_pure(1)]], rule triple_ret)
qed

definition tokens_distinct :: "world \<Rightarrow> bool" where
  "tokens_distinct w \<longleftrightarrow> distinct (map j_hash (t_join_tokens (db w)))"

lemma stable_distinct: "stable tokens_distinct"
  unfolding tokens_distinct_def by (rule stable_db)

lemma join_spends:
  "triple tokens_distinct (join_transaction E T raw n e z t) (\<lambda>_. token_spent (hash_join_token E raw)) (\<lambda>_. True)"
proof -
  let ?h = "hash_join_token E raw"
  have "triple tokens_distinct (query (find_join_token E raw t)) (\<lambda>j. token_found ?h j) (\<lambda>_. True)"
    by (rule triple_query [OF stable_distinct]) (auto simp: tokens_distinct_def find_join_token_def token_found_def
        split: option.splits dest!: find_SomeD)
  then have q: "triple tokens_distinct (attempt (query (find_join_token E raw t)))
      (\<lambda>found w. case found of Inl e \<Rightarrow> True | Inr j \<Rightarrow> token_found ?h j w) (\<lambda>_. True)"
    by (intro triple_attempt_both) simp
  show ?thesis
    unfolding join_transaction_def
    apply (rule triple_bnd [OF q])
    subgoal for found
      by (cases found) (auto intro!: triple_fail triple_bnd [OF triple_pass] found_generate found_pure found_upsert join_rest split: prod.splits)
    done
qed

lemma spent_refused:
  "triple (token_spent (hash_join_token E raw)) (join_transaction E T raw n e z t) (\<lambda>_ _. False) (\<lambda>_. True)"
proof -
  let ?h = "hash_join_token E raw"
  have "triple (token_spent ?h) (query (find_join_token E raw t)) (\<lambda>j w. j_used j \<noteq> None) (\<lambda>_. True)"
    by (rule triple_query [OF stable_spent]) (auto simp: find_join_token_def token_spent_def split: option.splits dest!: find_SomeD)
  then have q: "triple (token_spent ?h) (attempt (query (find_join_token E raw t)))
      (\<lambda>found w. case found of Inl e \<Rightarrow> True | Inr j \<Rightarrow> j_used j \<noteq> None) (\<lambda>_. True)"
    by (intro triple_attempt_both) simp
  show ?thesis
    unfolding join_transaction_def
    apply (rule triple_bnd [OF q])
    subgoal for found
      by (cases found) (auto simp: triple_def)
    done
qed

lemma db_only_join [keeps]: "db_only (join_transaction E T raw n e z t)"
  unfolding join_transaction_def by (intro keeps)

lemma join_node_triple:
  assumes "\<And>t. triple P (join_transaction E T raw (trim_space n) (trim_space e) (trim_space z) t) (\<lambda>_. I) (\<lambda>_. True)"
    "stable P" "stable I" "keeps_inv I (sync_store_configuration E T)"
  shows "triple P (join_node E T raw n e z) (\<lambda>_. I) (\<lambda>_. True)"
proof -
  have "triple P (transaction (join_transaction E T raw (trim_space n) (trim_space e) (trim_space z))) (\<lambda>_. I) (\<lambda>_. True)"
    by (rule triple_transaction [OF assms(2) assms(1) db_only_join assms(3)]) simp_all
  then show ?thesis
    unfolding join_node_def Let_def
    by (auto intro!: triple_fail triple_bnd triple_pass [OF assms(4)] triple_ret)
qed

text \<open>
  C27: a join token enrols one node. After a join with it that reported success no sequence of
  calls on the registry, whatever fails in them, makes it usable again, for whatever node.
\<close>

theorem join_token_single_use:
  assumes "distinct (map j_hash (t_join_tokens (db w)))" "join_node E T raw n e z w = (Inr x, w1)"
  shows "isl (fst (join_node E T raw n' e' z' (snd (for_each (topology_step E T) calls w1))))"
proof -
  let ?h = "hash_join_token E raw" and ?w = "snd (for_each (topology_step E T) calls w1)"
  have "token_spent ?h w1"
    by (rule tripleD_Inr [OF join_node_triple [OF join_spends stable_distinct stable_spent spent_sync(1)] _ assms(2)])
       (use assms(1) in \<open>simp add: tokens_distinct_def\<close>)
  moreover have "keeps_inv (token_spent ?h) (for_each (topology_step E T) calls)" by (intro keeps spent_step)
  ultimately have s: "token_spent ?h ?w" by (simp add: keeps_inv_def)
  have t: "triple (token_spent ?h) (join_node E T raw n' e' z') (\<lambda>_ _. False) (\<lambda>_. True)"
    by (rule join_node_triple [OF spent_refused stable_spent]) (auto simp: keeps_inv_def stable_def)
  show ?thesis using tripleD_Inr [OF t s] by (cases "join_node E T raw n' e' z' ?w"; cases "fst (join_node E T raw n' e' z' ?w)") auto
qed

section \<open>Rebalancing deletes before it copies\<close>

lemma keeps_find_source [keeps]: "seen_free I \<Longrightarrow> keeps_inv I (find_source E T rs)"
  by (induction E T rs rule: find_source.induct) (auto intro!: keeps keeps_exists simp: replica_exists_def)

lemma delete_one_calm:
  assumes "good_ext E" "store_path p" "reachable E w e"
  obtains w' where "delete_one E e p w = (Inr (), w')" "script w' = []" "db w' = db w"
proof -
  obtain req where do: "blob_node_do E ''DELETE'' e p [] w = serve_blob E (node_of_endpoint e) req p (after_request E w e)"
    and m: "hq_method req = ''DELETE''"
    using node_do_reachable [OF assms, of "''DELETE''" "[]"] by metis
  have "script (after_request E w e) = []" "db (after_request E w e) = db w"
    using assms(3) by (simp_all add: reachable_def after_request_def)
  then have "\<exists>w'. local_delete E (NodeHost (node_of_endpoint e)) p (after_request E w e) = (Inr (), w') \<and> script w' = [] \<and> db w' = db w"
    by (auto simp: local_delete_def remove_file_def bnd_def set_file_def split: option.splits)
  then obtain w' where "local_delete E (NodeHost (node_of_endpoint e)) p (after_request E w e) = (Inr (), w')" "script w' = []" "db w' = db w"
    by blast
  then show ?thesis
    by (intro that [of w']) (auto simp: delete_one_def bnd_def do serve_delete [OF m] http_reply_def)
qed

lemma copy_from_nowhere:
  assumes "good_ext E" "store_path p" "vacant E w p"
  obtains er w' where "copy_between_endpoints E s t p w = (Inl er, w')" "vacant E w' p" "db w' = db w"
proof -
  obtain r w' where g: "get_one E s p w = (r, w')" by fastforce
  have sf: "seen_free (\<lambda>v. vacant E v p \<and> db v = db w)"
    unfolding vacant_def seen_free_def by (auto simp: stable_def blob_value_def env_step_fields)
  have "r \<noteq> Inr y" for y using get_one_value [OF assms(2,1), of s w y w'] g assms(3) by (auto simp: vacant_def)
  then obtain er where "r = Inl er" by (cases r) auto
  then show ?thesis
    using keeps_invD [OF keeps_get_one [OF sf] _ g] assms(3) g
    by (intro that [of er w']) (auto simp: copy_between_endpoints_def bnd_def)
qed

lemma add_from_nowhere:
  assumes "good_ext E" "store_path p" "\<forall>x \<in> set xs. rp_endpoint r \<noteq> snd x" "vacant E w p"
  shows "\<exists>w'. count_each (add_replica E i p s [r]) n xs w = (Inr (n, None), w') \<and> vacant E w' p \<and> db w' = db w"
  using assms(3,4)
proof (induction xs arbitrary: w n)
  case (Cons x xs)
  obtain er w1 where c: "copy_between_endpoints E s (snd x) p w = (Inl er, w1)" "vacant E w1 p" "db w1 = db w"
    using copy_from_nowhere [OF assms(1,2) Cons.prems(2)] .
  have "add_replica E i p s [r] x w = (Inr 0, w1)"
    using c Cons.prems(1) by (auto simp: add_replica_def last_at_def bnd_def split: prod.splits)
  then show ?case
    using Cons.IH [OF _ c(2), of n] Cons.prems(1) c(3) by (auto simp: bnd_def)
qed simp

lemma indexed_endpoints: "x \<in> set (indexed_targets targets) \<Longrightarrow> snd x \<in> set targets"
  by (auto simp: indexed_targets_def)

lemma drop_sole:
  assumes "good_ext E" "store_path (rp_locator r)" "reachable E w (rp_endpoint r)" "rp_endpoint r \<noteq> []"
    "rp_endpoint r \<notin> set targets"
    "\<forall>e. node_value E e w (rp_locator r) \<noteq> None \<longrightarrow> node_of_endpoint e = node_of_endpoint (rp_endpoint r)"
  obtains w' where "drop_replica E targets r w = (Inr 1, w')" "vacant E w' (rp_locator r)"
    "db w' = change_placements (filter (\<lambda>p. p_id p \<noteq> rp_id r)) (db w)"
proof -
  let ?p = "rp_locator r"
  obtain w1 where w1: "delete_one E (rp_endpoint r) ?p w = (Inr (), w1)" "script w1 = []" "db w1 = db w"
    using delete_one_calm [OF assms(1-3)] .
  have "node_value E e w1 ?p = None" for e
  proof (cases "node_of_endpoint e = node_of_endpoint (rp_endpoint r)")
    case True
    then show ?thesis using delete_one_removes [OF assms(1,2) w1(1)] by simp
  next
    case False
    then have "node_value E e w ?p = None" using assms(6) by blast
    then show ?thesis using delete_one_removes [OF assms(1,2) w1(1)] by metis
  qed
  then have "vacant E (w1\<lparr>db := d\<rparr>) ?p" for d by (simp add: vacant_def blob_value_def)
  then show ?thesis
    using w1 assms(4,5) by (intro that) (auto simp: drop_replica_def ignore_error_def bnd_def exec_calm)
qed

text \<open>
  C29: rebalancing loses data. When the only copy of an object is on a node that is no target any
  more, a drained one for instance, the copy is deleted before it is copied elsewhere: with
  every call of the rebalancer succeeding, the object ends with no copy on any node and no
  placement, and the run reports one placement updated and no error.
\<close>

theorem rebalance_loses_sole_replica:
  assumes "good_ext E" "tp_store T" "script w = []" "t_placements (db w) = [p]" "r = replica_of (db w) p"
    "store_path (p_locator p)" "rp_endpoint r \<noteq> []"
    "\<forall>e. node_value E e w (p_locator p) \<noteq> None \<longrightarrow> node_of_endpoint e = node_of_endpoint (rp_endpoint r)"
    "active_target_endpoints T w = (Inr targets, w)" "targets \<noteq> []" "rp_endpoint r \<notin> set targets"
    "find_source E T [r] w = (Inr s, w1)" "reachable E w1 (rp_endpoint r)"
  shows "\<exists>w'. rebalance_placements E T w = (Inr (1, None), w') \<and> vacant E w' (p_locator p) \<and> t_placements (db w') = []"
proof -
  have loc: "rp_locator r = p_locator p" and ids: "rp_id r = p_id p"
    using assms(5) by (simp_all add: replica_of_def Let_def)
  let ?P = "\<lambda>v. db v = db w \<and> (\<forall>e. node_value E e v (p_locator p) = node_value E e w (p_locator p))"
  have "seen_free ?P" by (auto simp: seen_free_def stable_def blob_value_def env_step_fields)
  then have same: "?P w1" by (rule keeps_invD [OF keeps_find_source _ assms(12)]) simp
  have only: "\<forall>e. node_value E e w1 (rp_locator r) \<noteq> None \<longrightarrow> node_of_endpoint e = node_of_endpoint (rp_endpoint r)"
    using same assms(8) loc by simp
  obtain w2 where w2: "drop_replica E targets r w1 = (Inr 1, w2)" "vacant E w2 (rp_locator r)"
    "db w2 = change_placements (filter (\<lambda>p. p_id p \<noteq> rp_id r)) (db w1)"
    using drop_sole [OF assms(1) _ assms(13,7,11) only] assms(6) loc by metis
  then have gone: "t_placements (db w2) = []" using same assms(4) ids by (simp add: change_placements_def)
  have dropped: "count_each (drop_replica E targets) 0 [r] w1 = (Inr (1, None), w2)" using w2(1) by (simp add: bnd_def)
  have "\<exists>w3. count_each (add_replica E (rp_object r) (rp_locator r) s [r]) 1 (indexed_targets targets) w2 = (Inr (1, None), w3)
      \<and> vacant E w3 (rp_locator r) \<and> db w3 = db w2"
    using add_from_nowhere [OF assms(1) _ _ w2(2)] assms(6,11) loc indexed_endpoints by metis
  then obtain w3 where w3: "rebalance_object E T targets [r] w = (Inr (1, None), w3)" "vacant E w3 (rp_locator r)" "db w3 = db w2"
    using w2(2) by (cases "s = []")
      (auto simp: rebalance_object_def bnd_def assms(12) dropped simp del: find_source.simps count_each.simps)
  have "rebalance_placements E T w = count_until (rebalance_object E T targets) 0 [[r]] w"
    using assms(2,3,4,5,9,10) by (simp add: rebalance_placements_def bnd_def query_calm groups_by_def)
  then show ?thesis using w3 gone loc by (simp add: bnd_def)
qed

lemma exists_calm: "good_ext E \<Longrightarrow> store_path p \<Longrightarrow> reachable E w e \<Longrightarrow> snd (exists_on_endpoint E e p w) = after_request E w e"
proof -
  assume a: "good_ext E" "store_path p" "reachable E w e"
  obtain req where do: "blob_node_do E ''HEAD'' e p [] w = serve_blob E (node_of_endpoint e) req p (after_request E w e)"
    and m: "hq_method req = ''HEAD''"
    using node_do_reachable [OF a, of "''HEAD''" "[]"] by metis
  have calm: "script (after_request E w e) = []" using a(3) by (simp add: reachable_def after_request_def)
  have "snd (local_get E (NodeHost (node_of_endpoint e)) p (after_request E w e)) = after_request E w e"
    using calm by (auto simp: local_get_def read_file_def bnd_def split: option.splits)
  then show ?thesis
    by (cases "local_get E (NodeHost (node_of_endpoint e)) p (after_request E w e)")
       (auto simp: exists_on_endpoint_def bnd_def do serve_head [OF m] http_reply_def split: sum.splits)
qed

definition example_topology :: topology where
  "example_topology = \<lparr>tp_store = True, tp_sealer = True, tp_replicas = 0, tp_probe = (\<lambda>_ _. Inl Unavailable), tp_hostname = Some\<rparr>"

definition example_placement :: placement_row where
  "example_placement = \<lparr>p_id = ''p'', p_object = ''o'', p_index = 0, p_node = Some ''i'', p_locator = ''a/b'', p_state = ''stored'',
     p_endpoint = ''http://n'', p_created = 0, p_updated = 0\<rparr>"

definition example_drained :: world where
  "example_drained = set_file (NodeHost ''http://n'') ''/data/a/b''
     (Some (sealed plain_ext (NodeHost ''http://n'') (replicate nonce_size (CHR ''s'')) ''data''))
     (example_cluster\<lparr>db := empty_db\<lparr>t_placements := [example_placement],
        t_nodes := [new_node ''i'' ''n'' ''http://n'' [] ''draining'' configured_meta 0,
                    new_node ''k'' ''m'' ''http://m'' [] ''active'' configured_meta 0]\<rparr>\<rparr>)"

lemma drained_file: "disks example_drained h f = (if h = NodeHost ''http://n'' \<and> f = ''/data/a/b''
    then Some (sealed plain_ext h (replicate nonce_size (CHR ''s'')) ''data'') else None)"
  by (auto simp: example_drained_def set_file_def example_cluster_def)

lemma drained_reachable:
  "reachable plain_ext example_drained ''http://n''"
  "reachable plain_ext (after_request plain_ext example_drained ''http://n'') ''http://n''"
proof -
  have "hex_encode (replicate 16 (CHR ''s'')) \<noteq> hex_encode (replicate 16 (CHR ''r''))"
    using hex_encode_inj [of "replicate 16 (CHR ''s'')" "replicate 16 (CHR ''r'')"] by auto
  then show "reachable plain_ext example_drained ''http://n''"
    "reachable plain_ext (after_request plain_ext example_drained ''http://n'') ''http://n''"
    by (auto simp: reachable_def example_drained_def example_cluster_def token_for_endpoint_def expected_token_def set_file_def
        plain_ext_def example_token example_node after_request_def nonce_guard_accept_def Let_def)
qed

theorem rebalance_loses_sole_replica_witness:
  "node_value plain_ext ''http://n'' example_drained ''a/b'' = Some ''data'' \<and>
   (\<exists>w'. rebalance_placements plain_ext example_topology example_drained = (Inr (1, None), w') \<and>
      vacant plain_ext w' ''a/b'' \<and> t_placements (db w') = [])"
proof -
  let ?w = example_drained and ?r = "replica_of (db example_drained) example_placement"
  have bf: "blob_file plain_ext h ''a/b'' = ''/data/a/b''" for h
    by (simp add: blob_file_def plain_ext_def) code_simp
  have v: "node_value plain_ext e ?w ''a/b'' = (if node_of_endpoint e = ''http://n'' then Some ''data'' else None)" for e
    using decode_sealed [OF good_plain_ext, of "replicate nonce_size (CHR ''s'')"]
    by (simp add: blob_value_def drained_file bf)
  have r: "rp_endpoint ?r = ''http://n''" "rp_locator ?r = ''a/b''"
    by (simp_all add: replica_of_def Let_def example_drained_def example_placement_def new_node_def set_file_def)
  have "snd (find_source plain_ext example_topology [?r] ?w) = after_request plain_ext ?w ''http://n''"
    using exists_calm [OF good_plain_ext example_store_path drained_reachable(1)] r
    by (auto simp: bnd_def replica_exists_def example_topology_def split: prod.splits sum.splits)
  moreover have "\<not> isl (fst (find_source plain_ext example_topology [?r] ?w))"
    by (auto simp: bnd_def r split: prod.splits sum.splits)
  ultimately obtain s where s: "find_source plain_ext example_topology [?r] ?w = (Inr s, after_request plain_ext ?w ''http://n'')"
    by (metis isl_def prod.collapse sum.collapse(2) sum.exhaust)
  have "\<exists>w'. rebalance_placements plain_ext example_topology ?w = (Inr (1, None), w') \<and>
      vacant plain_ext w' (p_locator example_placement) \<and> t_placements (db w') = []"
  proof (rule rebalance_loses_sole_replica [OF good_plain_ext _ _ _ refl _ _ _ _ _ _ s, where targets = "[''http://m'']"])
    show "active_target_endpoints example_topology ?w = (Inr [''http://m''], ?w)"
      by (simp add: active_target_endpoints_def effective_replica_count_def query_calm bnd_def example_drained_def
          example_topology_def new_node_def set_file_def example_cluster_def)
  qed (use v r drained_reachable(2) example_store_path in \<open>simp_all add: example_placement_def example_topology_def example_drained_def
        set_file_def example_cluster_def example_node\<close>)
  then show ?thesis using v [of "''http://n''"] by (simp add: example_placement_def example_node)
qed

definition example_join :: world where
  "example_join = calm_world (empty_db\<lparr>t_join_tokens := [\<lparr>j_id = ''j'', j_hash = hash_join_token plain_ext ''tok'', j_desc = [],
     j_name = [], j_endpoint = [], j_zone = [], j_expires = 5, j_used = None\<rparr>]\<rparr>)"

theorem join_token_single_use_witness:
  "isl (fst (join_node plain_ext (example_topology\<lparr>tp_store := False\<rparr>) ''tok'' ''b'' ''http://b'' []
     (snd (for_each (topology_step plain_ext (example_topology\<lparr>tp_store := False\<rparr>)) [RefreshNodes]
       (snd (join_node plain_ext (example_topology\<lparr>tp_store := False\<rparr>) ''tok'' ''a'' ''http://a'' [] example_join))))))"
proof -
  let ?T = "example_topology\<lparr>tp_store := False\<rparr>"
  have t: "trim_space ''a'' = ''a''" "trim_space ''http://a'' = ''http://a''" "trim_space [] = []"
    by code_simp+
  have "\<not> isl (fst (join_node plain_ext ?T ''tok'' ''a'' ''http://a'' [] example_join))"
    by (simp add: join_node_def Let_def t transaction_def join_transaction_def example_join_def find_join_token_def bnd_def
        query_calm exec_calm bound_to_def generate_rpc_credential_def random_join_token_def random_bytes_def new_uuid_def
        example_topology_def seal_string_def upsert_node_def change_nodes_def empty_db_def new_node_def sync_store_configuration_def
        node_of_row_def)
  then obtain x w1 where j: "join_node plain_ext ?T ''tok'' ''a'' ''http://a'' [] example_join = (Inr x, w1)"
    by (metis isl_def prod.collapse sum.collapse(2) sum.exhaust)
  have "distinct (map j_hash (t_join_tokens (db example_join)))" by (simp add: example_join_def)
  from join_token_single_use [OF this j, of "''b''" "''http://b''" "[]" "[RefreshNodes]"] show ?thesis by (simp add: j)
qed

section \<open>Replicas agree\<close>

lemma keeps_count_each_in: "(\<And>x. x \<in> set xs \<Longrightarrow> keeps_inv I (f x)) \<Longrightarrow> keeps_inv I (count_each f n xs)"
  by (induction xs arbitrary: n) (simp add: keeps_ret, auto intro!: keeps_bnd keeps_attempt keeps_sum keeps_ret)

lemma keeps_count_until_in: "(\<And>x. x \<in> set xs \<Longrightarrow> keeps_inv I (f x)) \<Longrightarrow> keeps_inv I (count_until f n xs)"
  by (induction xs arbitrary: n) (simp add: keeps_ret, auto intro!: keeps_bnd keeps_prod keeps_option keeps_ret)

lemma seen_free_no_other: "seen_free (no_other E x p)"
  unfolding seen_free_def stable_def no_other_def env_step_fields blob_value_def by simp

lemma stable_no_other: "stable (no_other E x p)"
  using seen_free_no_other by (simp add: seen_free_def)

lemma agree_exec [keeps]: "keeps_inv (no_other E x p) (exec q)" "keeps_inv (no_other E x p) (query r)"
  "keeps_inv (no_other E x p) (new_uuid E')"
proof -
  show "keeps_inv (no_other E x p) (exec q)"
    by (rule keeps_exec [OF stable_no_other]) (simp add: no_other_def blob_value_def)
  show "keeps_inv (no_other E x p) (query r)" "keeps_inv (no_other E x p) (new_uuid E')"
    by (intro keeps stable_no_other)+
qed

lemma agree_delete:
  assumes "sound_path E p" "sound_path E q"
  shows "keeps_inv (no_other E x p) (delete_one E e q)"
proof (cases "q = p")
  case True
  then show ?thesis using sound_pathD [OF assms(1)] by (simp add: keeps_no_other_delete)
next
  case False
  show ?thesis
    using sound_pathD [OF assms(2)] by (intro keeps_delete_one [OF unmoved_no_other [OF assms(2,1) False]]) auto
qed

lemma agree_copy:
  assumes "sound_path E p" "sound_path E q"
  shows "keeps_inv (no_other E x p) (copy_between_endpoints E s t q)"
proof (cases "q = p")
  case False
  have "keeps_inv (no_other E x p) (put_one E t q y)" for y
    using sound_pathD [OF assms(2)] by (intro keeps_put_one [OF unmoved_no_other [OF assms(2,1) False]]) auto
  then show ?thesis
    unfolding copy_between_endpoints_def by (intro keeps keeps_get_one seen_free_no_other)
next
  case True
  show ?thesis unfolding True keeps_inv_def
  proof (intro allI impI)
    fix w assume w: "no_other E x p w"
    obtain r w1 where g: "get_one E s p w = (r, w1)" by fastforce
    have w1: "no_other E x p w1" by (rule keeps_invD [OF keeps_get_one [OF seen_free_no_other] w g])
    show "no_other E x p (snd (copy_between_endpoints E s t p w))"
    proof (cases r)
      case (Inr y)
      then have "y = x" using get_one_value [OF sound_pathD(2,1) [OF assms(1)], of s w y w1] g w Inr unfolding no_other_def
        by (metis option.inject option.distinct(1))
      then show ?thesis
        using keeps_no_other_put [OF sound_pathD(1,2) [OF assms(1)], of x t] w1 g Inr
        by (simp add: copy_between_endpoints_def bnd_def keeps_inv_def)
    qed (use g w1 in \<open>simp add: copy_between_endpoints_def bnd_def\<close>)
  qed
qed

lemma agree_exists [keeps]: "keeps_inv (no_other E x p) (replica_exists E T e q)" "keeps_inv (no_other E x p) (find_source E T rs)"
  unfolding replica_exists_def by (intro keeps keeps_exists seen_free_no_other)+

lemma groups_members: "g \<in> set (groups_by f rs) \<Longrightarrow> r \<in> set g \<Longrightarrow> r \<in> set rs"
  by (auto simp: groups_by_def)

lemma agree_repair:
  assumes "sound_path E p" "\<forall>r \<in> set rs. sound_path E (rp_locator r)"
  shows "keeps_inv (no_other E x p) (repair_group E T rs)"
  unfolding repair_group_def repair_one_def
  by (intro keeps keeps_count_each_in agree_copy assms(1)) (use assms(2) in auto)

lemma agree_rebalance:
  assumes "sound_path E p" "\<forall>r \<in> set rs. sound_path E (rp_locator r)"
  shows "keeps_inv (no_other E x p) (rebalance_object E T targets rs)"
proof -
  have d: "keeps_inv (no_other E x p) (drop_replica E targets r)" if "r \<in> set rs" for r
    unfolding drop_replica_def by (intro keeps agree_delete assms(1)) (use assms(2) that in auto)
  have a: "keeps_inv (no_other E x p) (add_replica E i (rp_locator r) s rs target)" if "r \<in> set rs" for i r s target
    unfolding add_replica_def by (intro keeps agree_copy assms(1)) (use assms(2) that in auto)
  show ?thesis
    unfolding rebalance_object_def by (intro keeps keeps_count_each_in d a) auto
qed

lemma agree_rows:
  assumes f: "\<And>rs. \<forall>r \<in> set rs. sound_path E (rp_locator r) \<Longrightarrow> keeps_inv (no_other E x p) (f rs)"
    and q: "\<And>d rs. q d = Inr rs \<Longrightarrow> rp_locator ` set rs \<subseteq> p_locator ` set (t_placements d)"
    and w: "no_other E x p w" "\<forall>r \<in> set (t_placements (db w)). sound_path E (p_locator r)"
  shows "no_other E x p (snd (bnd (attempt (query q)) (\<lambda>rows. case rows of Inl e \<Rightarrow> ret (0, Some e) | Inr rs \<Rightarrow> f rs) w))"
proof -
  obtain r w1 where r: "query q w = (r, w1)" by fastforce
  have w1: "no_other E x p w1" by (rule keeps_invD [OF agree_exec(2) w(1) r])
  have "keeps_inv (no_other E x p) (f rs)" if "r = Inr rs" for rs
  proof (rule f)
    have "q (db w) = Inr rs" using query_step [of q w rs w1] r that by simp
    then have "rp_locator ` set rs \<subseteq> p_locator ` set (t_placements (db w))" by (rule q)
    then show "\<forall>r \<in> set rs. sound_path E (rp_locator r)" using w(2) by (metis image_subset_iff imageE)
  qed
  then have "no_other E x p (snd (f rs w1))" if "r = Inr rs" for rs
    using that w1 unfolding keeps_inv_def by blast
  then show ?thesis using r w1 by (cases r) (simp_all add: bnd_def)
qed

text \<open>
  C28: replicas agree. Whatever calls fail, are lost or take effect late, the repair and the
  rebalancing of placements never leave a node with content that the others do not have: if
  every node held the blob \<open>x\<close> or nothing before, every node does afterwards.
\<close>

theorem replicas_agree:
  assumes "sound_path E p" "no_other E x p w" "\<forall>r \<in> set (t_placements (db w)). sound_path E (p_locator r)"
  shows "no_other E x p (snd (repair_degraded_placements E T w)) \<and> no_other E x p (snd (rebalance_placements E T w))"
proof
  show "no_other E x p (snd (repair_degraded_placements E T w))"
    unfolding repair_degraded_placements_def
    using assms(2) by (auto intro!: agree_rows keeps_count_until_in agree_repair assms dest: groups_members simp: replica_of_def Let_def)
  let ?rest = "\<lambda>targets. bnd (attempt (query (\<lambda>d. Inr (map (replica_of d) (sort_key (\<lambda>p. (p_object p, p_index p)) (t_placements d))))))
     (\<lambda>rows. case rows of Inl e \<Rightarrow> ret (0, Some e)
        | Inr rs \<Rightarrow> count_until (rebalance_object E T targets) 0 (groups_by rp_object rs))"
  obtain r w1 where r: "active_target_endpoints T w = (r, w1)" by fastforce
  have "stable (\<lambda>v. no_other E x p v \<and> db v = db w)"
    by (rule stable_conj [OF stable_no_other stable_db])
  then have k: "keeps_inv (\<lambda>v. no_other E x p v \<and> db v = db w) (active_target_endpoints T)"
    unfolding active_target_endpoints_def by (intro keeps)
  have "no_other E x p w1 \<and> db w1 = db w" using keeps_invD [OF k _ r] assms(2) by simp
  then have w1: "no_other E x p w1" "\<forall>r \<in> set (t_placements (db w1)). sound_path E (p_locator r)" using assms(3) by auto
  have "no_other E x p (snd (?rest targets w1))" for targets
    by (rule agree_rows) (auto intro!: keeps_count_until_in agree_rebalance assms(1) w1 dest: groups_members simp: replica_of_def Let_def)
  then show "no_other E x p (snd (rebalance_placements E T w))"
    using assms(2) w1(1) r by (cases r) (auto simp: rebalance_placements_def bnd_def split del: sum.splits)
qed

theorem replicas_agree_witness:
  "no_other plain_ext ''data'' ''a/b'' (snd (repair_degraded_placements plain_ext example_topology
      (example_drained\<lparr>script := [(Done, 1), (Late, 0), (Lost, 2)]\<rparr>)))"
proof -
  let ?w = "example_drained\<lparr>script := [(Done, 1), (Late, 0), (Lost, 2)]\<rparr>"
  have "sound_path plain_ext ''a/b''" by (simp add: sound_path_def good_plain_ext example_store_path)
  moreover have "\<forall>r \<in> set (t_placements (db ?w)). sound_path plain_ext (p_locator r)"
    using calculation by (simp add: example_drained_def example_placement_def set_file_def)
  moreover have "no_other plain_ext ''data'' ''a/b'' ?w"
    using decode_sealed [OF good_plain_ext, of "replicate nonce_size (CHR ''s'')"]
    by (simp add: no_other_def blob_value_def drained_file split: option.splits)
  ultimately show ?thesis using replicas_agree by blast
qed

section \<open>Pinned certificates\<close>

lemma map_of_filter_None: "map_of (filter (\<lambda>(k', _). k' \<noteq> k) fs) k = None"
  by (induction fs) auto

lemma map_of_filter_other: "k \<noteq> k' \<Longrightarrow> map_of (filter (\<lambda>(j, _). j \<noteq> k') fs) k = map_of fs k"
  by (induction fs) auto

lemma map_of_set_member: "map_of (set_member k v fs) = (map_of fs)(k \<mapsto> v)"
  by (rule ext) (auto simp: set_member_def map_of_append map_of_filter_None map_of_filter_other map_add_def split: option.splits)

lemma string_set [simp]: "string_member k (set_member k (JStr v) fs) = v"
  by (simp add: string_member_def map_of_set_member)

lemma string_other [simp]: "k \<noteq> k' \<Longrightarrow> string_member k (set_member k' v fs) = string_member k fs"
  by (simp add: string_member_def map_of_set_member)

lemma map_of_fold:
  "distinct (map fst meta) \<Longrightarrow> map_of (fold (\<lambda>(k, v). set_member k v) meta fs) k =
     (case map_of meta k of None \<Rightarrow> map_of fs k | Some v \<Rightarrow> Some v)"
proof (induction meta arbitrary: fs)
  case (Cons x meta)
  then have "map_of meta (fst x) = None" by (simp add: map_of_eq_None_iff)
  then show ?case using Cons by (auto simp: map_of_set_member split: prod.splits option.splits)
qed simp

text \<open>
  C30: a pinned certificate is enforced. A refresh keeps the fingerprint a node is pinned to,
  whatever the probe shows, and reports the node healthy only when its probe succeeded and showed
  that fingerprint (compared without case) or no certificate at all.
\<close>

theorem tls_pin_enforced:
  assumes "distinct (map fst (n_meta n))" "trim_space (string_member ''tlsExpectedFingerprintSha256'' (n_meta n)) \<noteq> []"
    "n' = refreshed_node r t (n_meta n) n"
  shows "string_member ''tlsExpectedFingerprintSha256'' (n_meta n') = string_member ''tlsExpectedFingerprintSha256'' (n_meta n) \<and>
    (n_status n' = ''healthy'' \<longrightarrow> (\<exists>p. r = Inr p \<and> (pr_fingerprint p = [] \<or>
       equal_fold (string_member ''tlsExpectedFingerprintSha256'' (n_meta n)) (pr_fingerprint p))))"
proof -
  let ?k = "''tlsExpectedFingerprintSha256''"
  let ?base = "fold (\<lambda>(k, v). set_member k v) (n_meta n) [(''reachable'', JBool False)]"
  have base: "string_member ?k ?base = string_member ?k (n_meta n)"
    by (simp add: string_member_def map_of_fold [OF assms(1)] split: option.splits)
  show ?thesis
  proof (cases r)
    case (Inl e)
    then show ?thesis using assms(3) base by (simp add: refreshed_node_def Let_def)
  next
    case (Inr p)
    have "string_member ?k (observed_meta p ?base) = string_member ?k (n_meta n)" by (simp add: observed_meta_def base)
    then show ?thesis
      using assms(2,3) Inr by (auto simp: refreshed_node_def pinned_meta_def common_name_meta_def Let_def)
  qed
qed

theorem tls_pin_enforced_witness:
  "n_status (refreshed_node (Inr \<lparr>pr_service = [], pr_capacity = 0, pr_used = 0, pr_files = 0, pr_fingerprint = ''ab'',
      pr_common_name = []\<rparr>) 5 [(''tlsExpectedFingerprintSha256'', JStr ''cd'')]
      (new_node ''i'' ''n'' ''http://n'' [] ''active'' [(''tlsExpectedFingerprintSha256'', JStr ''cd'')] 0)) \<noteq> ''healthy''"
proof -
  let ?n = "new_node ''i'' ''n'' ''http://n'' [] ''active'' [(''tlsExpectedFingerprintSha256'', JStr ''cd'')] 0"
  let ?r = "Inr \<lparr>pr_service = [], pr_capacity = 0, pr_used = 0, pr_files = 0, pr_fingerprint = ''ab'', pr_common_name = []\<rparr>"
  have "distinct (map fst (n_meta ?n))" by (simp add: new_node_def)
  moreover have "trim_space (string_member ''tlsExpectedFingerprintSha256'' (n_meta ?n)) \<noteq> []" by code_simp
  moreover have "\<not> equal_fold ''cd'' ''ab''" by code_simp
  ultimately show ?thesis
    using tls_pin_enforced [of ?n "refreshed_node ?r 5 (n_meta ?n) ?n" ?r 5] by (simp add: new_node_def string_member_def)
qed

text \<open>
  Starting the server forgets the pins. The nodes of the configuration are written again with
  fresh metadata; the next refresh of such a node accepts whatever certificate is shown, reports
  the node healthy and pins it to that certificate, with no operator action.
\<close>

lemma restart_forgets_tls_pin:
  assumes "sync_node E T e w = (Inr (), w1)" "trim_space e \<noteq> []" "n \<in> set (t_nodes (db w1))" "n_endpoint n = trim_space e"
    "pr_fingerprint p \<noteq> []"
  shows "n_status (refreshed_node (Inr p) t (n_meta n) n) = ''healthy'' \<and>
    string_member ''tlsExpectedFingerprintSha256'' (n_meta (refreshed_node (Inr p) t (n_meta n) n)) = pr_fingerprint p"
proof -
  let ?c = "\<lambda>w. \<forall>n \<in> set (t_nodes (db w)). n_endpoint n = trim_space e \<longrightarrow> n_meta n = configured_meta"
  let ?u = "\<lambda>n. n\<lparr>n_name := node_name_for_endpoint T (trim_space e), n_status := ''configured'', n_meta := configured_meta\<rparr>"
  have "triple (\<lambda>_. True) (exec (\<lambda>t. upsert_node (new_node i (node_name_for_endpoint T (trim_space e)) (trim_space e) []
      ''active'' configured_meta t) ?u)) (\<lambda>_. ?c) (\<lambda>_. True)" for i
    by (rule triple_exec) (auto simp: stable_def upsert_node_def change_nodes_def new_node_def list_ex_iff split: if_splits)
  then have "triple (\<lambda>_. True) (sync_node E T e) (\<lambda>_. ?c) (\<lambda>_. True)"
    using assms(2) unfolding sync_node_def Let_def
    by (auto intro!: triple_bnd [OF triple_pass [where P = "\<lambda>_. True"]] simp: keeps_inv_def)
  then have "?c w1" using assms(1) by (blast dest: tripleD_Inr)
  then have m: "n_meta n = [(''configured'', JBool True)]" using assms(3,4) by (simp add: configured_meta_def)
  have "trim_space [] = []" by code_simp
  then show ?thesis
    using assms(5)
    by (simp add: m refreshed_node_def pinned_meta_def common_name_meta_def observed_meta_def Let_def)
       (simp add: string_member_def set_member_def)
qed

theorem restart_forgets_tls_pin_witness:
  "let w1 = snd (sync_node plain_ext example_topology ''http://n'' example_drained); n = hd (t_nodes (db w1));
       p = \<lparr>pr_service = [], pr_capacity = 0, pr_used = 0, pr_files = 0, pr_fingerprint = ''ab'', pr_common_name = []\<rparr> in
   string_member ''tlsExpectedFingerprintSha256'' (n_meta (refreshed_node (Inr p) 5 (n_meta n) n)) = ''ab''"
proof -
  let ?r = "sync_node plain_ext example_topology ''http://n'' example_drained" and ?e = "''http://n''"
  let ?p = "\<lparr>pr_service = [], pr_capacity = 0, pr_used = 0, pr_files = 0, pr_fingerprint = ''ab'', pr_common_name = []\<rparr>"
  have t: "trim_space ?e = ?e" "node_name_for_endpoint example_topology ?e = ?e" by code_simp+
  have d: "script example_drained = []" "t_nodes (db example_drained) =
      [new_node ''i'' ''n'' ?e [] ''draining'' configured_meta 0, new_node ''k'' ''m'' ''http://m'' [] ''active'' configured_meta 0]"
    by (simp_all add: example_drained_def example_cluster_def set_file_def)
  have "fst ?r = Inr () \<and> n_endpoint (hd (t_nodes (db (snd ?r)))) = ?e \<and> t_nodes (db (snd ?r)) \<noteq> []"
    by (simp add: sync_node_def Let_def t bnd_def new_uuid_def exec_calm d upsert_node_def change_nodes_def new_node_def)
  then show ?thesis
    using restart_forgets_tls_pin [of plain_ext example_topology ?e example_drained "snd ?r" "hd (t_nodes (db (snd ?r)))" ?p 5] t
    by (simp add: Let_def) (metis hd_in_set prod.collapse)
qed

section \<open>The health of placements\<close>

lemma triple_count_each_end:
  assumes "\<And>x xs. triple (P (x # xs)) (f x) (\<lambda>_. P xs) (\<lambda>_. True)"
  shows "triple (P xs) (count_each f n xs) (\<lambda>(k, e) w. e = None \<longrightarrow> P [] w) (\<lambda>_. True)"
proof (induction xs arbitrary: n)
  case (Cons x xs)
  have a: "triple (P (x # xs)) (attempt (f x)) (\<lambda>r w. case r of Inl _ \<Rightarrow> True | Inr _ \<Rightarrow> P xs w) (\<lambda>_. True)"
    by (rule triple_attempt_both) (simp add: assms)
  show ?case
    unfolding count_each.simps
  proof (rule triple_bnd [OF a])
    fix r :: "err + int"
    show "triple (\<lambda>w. case r of Inl _ \<Rightarrow> True | Inr _ \<Rightarrow> P xs w)
        (case r of Inl e \<Rightarrow> ret (n, Some e) | Inr k \<Rightarrow> count_each f (n + k) xs) (\<lambda>(k, e) w. e = None \<longrightarrow> P [] w) (\<lambda>_. True)"
      using Cons.IH by (cases r) (auto simp: triple_def)
  qed
qed (simp add: triple_def)

lemma triple_nothing: "triple P m (\<lambda>_ _. True) (\<lambda>_. True)"
  by (simp add: triple_def split: prod.splits sum.splits)

text \<open>Every placement belongs to an object of \<open>os\<close>; those no longer in \<open>xs\<close> have its state.\<close>

definition marked :: "(string \<times> string) list \<Rightarrow> (string \<times> string) list \<Rightarrow> world \<Rightarrow> bool" where
  "marked os xs w \<longleftrightarrow> (\<forall>p \<in> set (t_placements (db w)). p_object p \<in> fst ` set os \<and>
     (p_object p \<notin> fst ` set xs \<longrightarrow> (p_object p, p_state p) \<in> set os))"

lemma stable_marked: "stable (marked os xs)"
  unfolding marked_def by (rule stable_db)

lemma marked_step:
  assumes "set (x # xs) \<subseteq> set os"
  shows "triple (marked os (x # xs)) (refresh_object x) (\<lambda>_. marked os xs) (\<lambda>_. True)"
  unfolding refresh_object_def
  by (rule triple_bnd [where Q = "\<lambda>_. marked os xs"], rule triple_exec [OF stable_marked])
     (use assms in \<open>force simp: marked_def change_placements_def set_state_def triple_def split: if_splits\<close>)+

lemma marked_all: "triple (marked os os) (count_each refresh_object n os) (\<lambda>(k, e) w. e = None \<longrightarrow> marked os [] w) (\<lambda>_. True)"
proof -
  have "triple (\<lambda>w. set xs \<subseteq> set os \<and> marked os xs w) (count_each refresh_object n xs)
     (\<lambda>(k, e) w. e = None \<longrightarrow> set [] \<subseteq> set os \<and> marked os [] w) (\<lambda>_. True)" for xs
  proof (rule triple_count_each_end)
    show "triple (\<lambda>w. set (x # xs) \<subseteq> set os \<and> marked os (x # xs) w) (refresh_object x)
        (\<lambda>_ w. set xs \<subseteq> set os \<and> marked os xs w) (\<lambda>_. True)" for x xs
    proof (cases "set (x # xs) \<subseteq> set os")
      case True
      then show ?thesis by (intro triple_weaken [OF marked_step [OF True]]) auto
    next
      case False
      then show ?thesis unfolding triple_def by blast
    qed
  qed
  from this [of os] show ?thesis by simp
qed

lemma object_states_cover: "marked (object_states k (db w)) (object_states k (db w)) w"
  by (auto simp: marked_def object_states_def image_iff)

lemma object_states_fun: "(i, s) \<in> set (object_states k d) \<Longrightarrow> (i, s') \<in> set (object_states k d) \<Longrightarrow> s = s'"
  by (auto simp: object_states_def)

lemma object_states_values: "(i, s) \<in> set (object_states k d) \<Longrightarrow> s = ''stored'' \<or> s = ''degraded''"
  unfolding object_states_def object_state_def by (auto split: if_splits)

text \<open>
  The health of a placement is the health of its object. After a refresh that reported no
  error, with some node active, every placement is \<open>stored\<close> or \<open>degraded\<close> and all placements of
  one object are in the same state.
\<close>

lemma placement_health_is_per_object:
  assumes "refresh_placement_health E T w = (Inr (n, None), w')" "\<exists>x \<in> set (t_nodes (db w)). n_state x = ''active''"
    "p \<in> set (t_placements (db w'))" "q \<in> set (t_placements (db w'))" "p_object p = p_object q"
  shows "p_state p = p_state q \<and> p_state p \<in> {''stored'', ''degraded''}"
proof -
  let ?Q = "\<lambda>(k, e) w. e = None \<longrightarrow> (\<exists>k d. marked (object_states k d) [] w)"
  have last: "triple (\<lambda>_. True) (bnd (attempt (query (\<lambda>d. Inr (object_states k d)))) (\<lambda>objs. case objs of
        Inl err \<Rightarrow> ret (c, Some err) | Inr os \<Rightarrow> count_each refresh_object c os)) ?Q (\<lambda>_. True)" for k c
  proof (rule triple_bnd)
    show "triple (\<lambda>_. True) (attempt (query (\<lambda>d. Inr (object_states k d))))
       (\<lambda>objs w. case objs of Inl e \<Rightarrow> True | Inr os \<Rightarrow> (\<exists>d. os = object_states k d) \<and> marked os os w) (\<lambda>_. True)"
      by (rule triple_attempt_both, rule triple_query) (auto simp: stable_def object_states_cover)
    show "triple (\<lambda>w. case objs of Inl e \<Rightarrow> True | Inr os \<Rightarrow> (\<exists>d. os = object_states k d) \<and> marked os os w)
       (case objs of Inl err \<Rightarrow> ret (c, Some err) | Inr os \<Rightarrow> count_each refresh_object c os) ?Q (\<lambda>_. True)" for objs
      using marked_all [of "projr objs" c] by (cases objs) (fastforce simp: triple_def split: prod.splits sum.splits)+
  qed
  have "triple (\<lambda>v. db v = db w) (target_replica_count T) (\<lambda>k _. k \<noteq> 0) (\<lambda>_. True)"
    unfolding target_replica_count_def
    by (rule triple_bnd [where Q = "\<lambda>k _. k > 0"], rule triple_query [OF stable_db])
       (use assms(2) in \<open>auto simp: triple_def effective_replica_count_def filter_empty_conv\<close>)
  then have target: "triple (\<lambda>v. db v = db w) (attempt (target_replica_count T))
      (\<lambda>r _. case r of Inl e \<Rightarrow> True | Inr k \<Rightarrow> k \<noteq> 0) (\<lambda>_. True)"
    by (intro triple_attempt_both) simp
  have refused: "triple P (ret (c, Some e)) ?Q (\<lambda>_. True)" for P :: "world \<Rightarrow> bool" and c e by (rule triple_ret) simp
  let ?more = "\<lambda>(k :: int) (refreshed :: int, e). case e of
       Some err \<Rightarrow> ret (refreshed, Some err)
     | None \<Rightarrow>
         bnd (attempt (query (\<lambda>d. Inr (object_states k d)))) (\<lambda>objs. case objs of
             Inl err \<Rightarrow> ret (refreshed, Some err)
           | Inr os \<Rightarrow> count_each refresh_object refreshed os)"
  have rows: "triple (\<lambda>_. True) (bnd (attempt (query q)) (\<lambda>rows. case rows of
               Inl e \<Rightarrow> ret (0, Some e)
             | Inr rs \<Rightarrow>
                 bnd (count_each (refresh_placement E T) 0 rs) (?more k))) ?Q (\<lambda>_. True)" for q k
  proof (rule triple_bnd [OF triple_nothing])
    fix rows :: "err + replica list"
    show "triple (\<lambda>_. True) (case rows of
               Inl e \<Rightarrow> ret (0, Some e)
             | Inr rs \<Rightarrow> bnd (count_each (refresh_placement E T) 0 rs) (?more k)) ?Q (\<lambda>_. True)"
    proof (cases rows)
      case (Inr rs)
      have "triple (\<lambda>_. True) (?more k x) ?Q (\<lambda>_. True)" for x
        by (cases x; cases "snd x") (simp_all add: refused last)
      then show ?thesis unfolding Inr sum.case by (rule triple_bnd [OF triple_nothing])
    qed (simp add: refused)
  qed
  have "triple (\<lambda>v. db v = db w) (refresh_placement_health E T) ?Q (\<lambda>_. True)"
    unfolding refresh_placement_health_def
    apply (rule triple_bnd [OF target])
    subgoal for r
    proof (cases r)
      case (Inr k)
      have none: "triple (\<lambda>_. False) m ?Q (\<lambda>_. True)" for m by (simp add: triple_def)
      show ?thesis
        by (cases "k = 0") (simp_all only: Inr sum.case if_True if_False not_True_eq_False not_False_eq_True refl none rows)
    qed (simp add: refused)
    done
  from tripleD_Inr [OF this refl assms(1)] obtain k d where m: "marked (object_states k d) [] w'" by auto
  then have "(p_object p, p_state p) \<in> set (object_states k d)" "(p_object p, p_state q) \<in> set (object_states k d)"
    using assms(3-5) by (auto simp: marked_def)
  note s = this
  show ?thesis using object_states_fun [OF s] object_states_values [OF s(1)] by simp
qed

theorem placement_health_is_per_object_witness:
  "\<exists>n w'. refresh_placement_health plain_ext (example_topology\<lparr>tp_store := False\<rparr>) example_drained = (Inr (n, None), w') \<and>
     (\<forall>p \<in> set (t_placements (db w')). p_state p \<in> {''stored'', ''degraded''})"
proof -
  let ?T = "example_topology\<lparr>tp_store := False\<rparr>"
  have d: "script example_drained = []" "t_nodes (db example_drained) =
      [new_node ''i'' ''n'' ''http://n'' [] ''draining'' configured_meta 0, new_node ''k'' ''m'' ''http://m'' [] ''active'' configured_meta 0]"
    "t_placements (db example_drained) = [example_placement]"
    by (simp_all add: example_drained_def example_cluster_def set_file_def)
  have "\<exists>n w'. refresh_placement_health plain_ext ?T example_drained = (Inr (n, None), w')"
    by (simp add: refresh_placement_health_def target_replica_count_def effective_replica_count_def query_calm d bnd_def new_node_def
        refresh_placement_def observed_state_def replica_of_def Let_def exec_calm example_placement_def object_states_def
        refresh_object_def change_placements_def set_state_def example_topology_def)
  then obtain n w' where r: "refresh_placement_health plain_ext ?T example_drained = (Inr (n, None), w')" by blast
  have "\<exists>x \<in> set (t_nodes (db example_drained)). n_state x = ''active''" by (simp add: d new_node_def)
  then show ?thesis using placement_health_is_per_object [OF r] r by blast
qed

end
