(* ===== verification/Overview.thy ===== *)
theory Overview
  imports Malware Placements Events
begin

text \<open>
  What the administration pages list: the dashboard (\<open>backend/internal/dashboard/service.go\<close>) and
  the recent scan states (\<open>ListRecent\<close> of \<open>backend/internal/malware/service.go\<close>). The time a
  version was last updated is a parameter, as in \<open>Malware\<close>.
\<close>

section \<open>Scan states\<close>

record scan_item =
  sc_id :: string
  sc_bucket :: string
  sc_bucket_name :: string
  sc_key :: string
  sc_status :: string
  sc_deleted :: "int option"
  sc_updated :: int

definition scan_item_of :: "(object_row \<Rightarrow> int) \<Rightarrow> database \<Rightarrow> object_row \<Rightarrow> scan_item option" where
  "scan_item_of updated d r = (case find (\<lambda>b. b_id b = o_bucket r) (t_buckets d) of
     None \<Rightarrow> None
   | Some b \<Rightarrow> Some \<lparr>sc_id = o_id r, sc_bucket = o_bucket r, sc_bucket_name = b_name b, sc_key = o_key r,
       sc_status = o_scan r, sc_deleted = o_deleted r, sc_updated = updated r\<rparr>)"

definition list_recent :: "(object_row \<Rightarrow> int) \<Rightarrow> int \<Rightarrow> scan_item list prog" where
  "list_recent updated limit0 =
     (let limit = (if limit0 \<le> 0 \<or> limit0 > 200 then 100 else limit0) in
      query (\<lambda>d. Inr (take (nat limit) (sort_key (\<lambda>s. - sc_updated s)
        (List.map_filter (scan_item_of updated d) (t_objects d))))))"

section \<open>The dashboard\<close>

record summary =
  su_buckets :: int
  su_live :: int
  su_bytes :: int
  su_pending :: int
  su_dead :: int
  su_nodes :: int
  su_target :: int
  su_offline :: int
  su_degraded :: int
  su_gap :: int
  su_audit :: int
  su_latest :: "int option"     \<comment> \<open>the empty text without entries\<close>

definition visible_object :: "object_row \<Rightarrow> bool" where
  "visible_object r \<longleftrightarrow> o_deleted r = None \<and> \<not> o_marker r \<and> o_latest r"

definition counted :: "('a \<Rightarrow> bool) \<Rightarrow> 'a list \<Rightarrow> int" where
  "counted p xs = int (length (filter p xs))"

definition replica_goal :: "int \<Rightarrow> database \<Rightarrow> int" where
  "replica_goal n d = max (min n (counted (\<lambda>r. n_state r = ''active'') (t_nodes d))) 0"

text \<open>The objects with placements, but with fewer than the goal.\<close>

definition rebalance_gap :: "int \<Rightarrow> placement_row list \<Rightarrow> int" where
  "rebalance_gap goal ps =
     counted (\<lambda>i. counted (\<lambda>p. p_object p = i) ps < goal) (remdups (map p_object ps))"

definition latest_audit :: "audit_row list \<Rightarrow> int option" where
  "latest_audit rows = (if rows = [] then None else Some (Max (set (map au_created rows))))"

definition summary_of :: "int \<Rightarrow> int \<Rightarrow> database \<Rightarrow> summary" where
  "summary_of replicas t d =
     \<lparr>su_buckets = int (length (t_buckets d)), su_live = counted visible_object (t_objects d),
      su_bytes = sum_list (map o_size (filter visible_object (t_objects d))),
      su_pending = counted (\<lambda>r. o_deleted r = None \<and> o_scan r = ''pending-scan'') (t_objects d),
      su_dead = counted (\<lambda>r. dl_status r = ''dead_letter'') (t_deliveries d),
      su_nodes = int (length (t_nodes d)), su_target = replica_goal replicas d,
      su_offline = counted (\<lambda>r. n_status r \<noteq> ''healthy'') (t_nodes d),
      su_degraded = counted (\<lambda>p. p_state p = ''degraded'') (t_placements d),
      su_gap = rebalance_gap (replica_goal replicas d) (t_placements d),
      su_audit = counted (\<lambda>r. au_created r \<ge> t - 24 * 3600 * 1000000000) (t_audit d),
      su_latest = latest_audit (t_audit d)\<rparr>"

text \<open>The replica count of the default class, when the policy of the settings has one.\<close>

definition default_replicas :: "storage_policy \<Rightarrow> int \<Rightarrow> int" where
  "default_replicas policy fallback =
     (case find (\<lambda>c. cp_name c = spv_default policy \<and> cp_replicas c > 0) (spv_policies policy) of
        None \<Rightarrow> fallback | Some c \<Rightarrow> cp_replicas c)"

definition dashboard_summary :: "service_config \<Rightarrow> summary prog" where
  "dashboard_summary C =
     bnd (if cf_settings C then bnd (attempt (resolve_storage_policy C)) (\<lambda>r. ret (case r of
            Inl _ \<Rightarrow> cf_policy_replicas C | Inr policy \<Rightarrow> default_replicas policy (cf_policy_replicas C)))
          else ret (cf_policy_replicas C)) (\<lambda>replicas.
     exec (\<lambda>t d. let s = summary_of replicas t d in map_sum id (\<lambda>_. (s, d)) (scan_int64 (su_bytes s))))"

end
