(* ===== verification/Config.thy ===== *)
theory Config
  imports Accounts Malware
begin

text \<open>
  \<open>backend/internal/config/config.go\<close>: the configuration read from the environment and its
  validation. The environment is a function from names to values, empty where a variable is not
  set; the files of secrets are a function from paths to contents. Base64 is a parameter.
\<close>

section \<open>The configuration\<close>

record config =
  cg_app_env :: string
  cg_api_port :: string
  cg_postgres_dsn :: string
  cg_redis_addr :: string
  cg_redis_password :: string
  cg_jwt_secret :: string
  cg_jwt_issuer :: string
  cg_access_ttl :: int
  cg_refresh_ttl :: int
  cg_admin_email :: string
  cg_admin_password :: string
  cg_backend :: string
  cg_root :: string
  cg_endpoints :: "string list"
  cg_replicas :: int
  cg_shared_secret :: string
  cg_node_ca :: string
  cg_node_cert :: string
  cg_node_key :: string
  cg_blob_cert :: string
  cg_blob_key :: string
  cg_blob_client_ca :: string
  cg_default_class :: string
  cg_region :: string
  cg_tenant :: string
  cg_presign_ttl :: int
  cg_max_upload :: int
  cg_cors :: "string list"
  cg_log_level :: string
  cg_clamav :: bool
  cg_clamav_host :: string
  cg_clamav_port :: int
  cg_scan_mode :: string
  cg_allowlist :: "string list"
  cg_master_key :: string
  cg_retention :: int
  cg_oidc :: bool
  cg_oidc_issuer :: string
  cg_oidc_client :: string
  cg_oidc_secret :: string
  cg_oidc_redirect :: string
  cg_oidc_scopes :: "string list"
  cg_oidc_claim :: string
  cg_oidc_roles :: smap
  cg_oidc_default :: string

section \<open>Reading the environment\<close>

definition and_then :: "'e + 'a \<Rightarrow> ('a \<Rightarrow> 'e + 'b) \<Rightarrow> 'e + 'b" where
  "and_then r f = (case r of Inl e \<Rightarrow> Inl e | Inr x \<Rightarrow> f x)"

definition get_env :: "(string \<Rightarrow> string) \<Rightarrow> string \<Rightarrow> string \<Rightarrow> string" where
  "get_env env key fallback = (if env key \<noteq> [] then env key else fallback)"

definition get_secret_env :: "(string \<Rightarrow> string) \<Rightarrow> (string \<Rightarrow> string option) \<Rightarrow> string \<Rightarrow> string \<Rightarrow> err + string" where
  "get_secret_env env file_of key fallback =
     (if env key \<noteq> [] then Inr (env key)
      else let file_path = env (key @ ''_FILE'') in
      if file_path = [] then Inr fallback
      else (case file_of file_path of None \<Rightarrow> Inl (Failure (''read '' @ key @ ''_FILE'')) | Some content \<Rightarrow> Inr (trim_space content)))"

definition split_csv :: "string \<Rightarrow> string list" where
  "split_csv value = (if value = [] then [] else filter (\<lambda>p. p \<noteq> []) (map trim_space (split_on (CHR '','') value)))"

definition role_entry :: "string \<Rightarrow> (string \<times> string) option" where
  "role_entry entry0 =
     (let entry = trim_space entry0 in
      if entry = [] then None
      else case split_first (CHR ''='') entry of
        None \<Rightarrow> None
      | Some (k, v) \<Rightarrow> if trim_space k = [] \<or> trim_space v = [] then None else Some (trim_space k, trim_space v))"

definition parse_role_map :: "string \<Rightarrow> smap" where
  "parse_role_map value =
     (if value = [] then Map.empty
      else fold (\<lambda>entry out. case role_entry entry of None \<Rightarrow> out | Some (k, v) \<Rightarrow> out(k \<mapsto> v)) (split_on (CHR '','') value) Map.empty)"

subsection \<open>time.ParseDuration\<close>

definition duration_unit :: "string \<Rightarrow> nat option" where
  "duration_unit u = map_of [(''ns'', 1), (''us'', 1000), ([CHR 0xC2, CHR 0xB5, CHR ''s''], 1000), ([CHR 0xCE, CHR 0xBC, CHR ''s''], 1000),
     (''ms'', 1000000), (''s'', 1000000000), (''m'', 60 * 1000000000), (''h'', 3600 * 1000000000)] u"

definition digits_of :: "string \<Rightarrow> nat" where
  "digits_of ds = foldl (\<lambda>n c. n * 10 + (case digit_val c of None \<Rightarrow> 0 | Some d \<Rightarrow> d)) 0 ds"

definition is_digit :: "char \<Rightarrow> bool" where
  "is_digit c \<longleftrightarrow> digit_val c \<noteq> None"

text \<open>
  One number with its unit: the digits before and after the point, and the text of the unit. The
  value of the fraction is truncated (Go multiplies in floating point and truncates).
\<close>

definition duration_part :: "string \<Rightarrow> (nat \<times> string) option" where
  "duration_part s =
     (let whole = takeWhile is_digit s; s1 = dropWhile is_digit s;
          point = (case s1 of c # _ \<Rightarrow> c = CHR ''.'' | [] \<Rightarrow> False);
          frac = (if point then takeWhile is_digit (tl s1) else []);
          s2 = (if point then dropWhile is_digit (tl s1) else s1);
          u = takeWhile (\<lambda>c. c \<noteq> CHR ''.'' \<and> \<not> is_digit c) s2 in
      if whole = [] \<and> frac = [] then None
      else case duration_unit u of
        None \<Rightarrow> None
      | Some unit \<Rightarrow>
          let v = digits_of whole * unit + digits_of frac * unit div 10 ^ length frac in
          if digits_of whole > 2 ^ 63 \<or> v > 2 ^ 63 then None
          else Some (v, dropWhile (\<lambda>c. c \<noteq> CHR ''.'' \<and> \<not> is_digit c) s2))"

lemma duration_part_shorter: "duration_part s = Some (v, rest) \<Longrightarrow> length rest < length s"
proof -
  assume a: "duration_part s = Some (v, rest)"
  let ?s1 = "dropWhile is_digit s" and ?unit = "\<lambda>c. c \<noteq> CHR ''.'' \<and> \<not> is_digit c"
  define point where "point = (case ?s1 of c # _ \<Rightarrow> c = CHR ''.'' | [] \<Rightarrow> False)"
  define s2 where "s2 = (if point then dropWhile is_digit (tl ?s1) else ?s1)"
  have u: "takeWhile ?unit s2 \<noteq> []" and r: "rest = dropWhile ?unit s2"
    using a by (auto simp: duration_part_def Let_def point_def [symmetric] s2_def duration_unit_def split: if_splits option.splits)
  have "length s2 \<le> length ?s1"
    using length_dropWhile_le [of is_digit "tl ?s1"] by (auto simp: s2_def intro: le_trans)
  moreover have "length ?s1 \<le> length s" by (rule length_dropWhile_le)
  moreover have "length s2 = length (takeWhile ?unit s2) + length rest" unfolding r by (simp flip: length_append)
  ultimately show ?thesis using u by (cases "takeWhile ?unit s2") auto
qed

function duration_parts :: "nat \<Rightarrow> string \<Rightarrow> nat option" where
  "duration_parts d s =
     (if s = [] then Some d
      else case duration_part s of
        None \<Rightarrow> None
      | Some (v, rest) \<Rightarrow> if d + v > 2 ^ 63 then None else duration_parts (d + v) rest)"
  by pat_completeness auto
termination
  by (relation "measure (\<lambda>(d, s). length s)") (auto dest: duration_part_shorter)

declare duration_parts.simps [simp del]

definition parse_duration :: "string \<Rightarrow> int option" where
  "parse_duration s0 =
     (let neg = (case s0 of c # _ \<Rightarrow> c = CHR ''-'' | [] \<Rightarrow> False);
          s = (case s0 of c # cs \<Rightarrow> if c = CHR ''-'' \<or> c = CHR ''+'' then cs else s0 | [] \<Rightarrow> []) in
      if s = ''0'' then Some 0
      else if s = [] then None
      else case duration_parts 0 s of
        None \<Rightarrow> None
      | Some d \<Rightarrow> if neg then Some (- int d) else if d > 2 ^ 63 - 1 then None else Some (int d))"

section \<open>Validation\<close>

definition valid_platform_roles :: "string list" where
  "valid_platform_roles = [''superadmin'', ''admin'', ''auditor'', ''bucket-admin'', ''readonly'']"

definition is_valid_platform_role :: "string \<Rightarrow> bool" where
  "is_valid_platform_role value \<longleftrightarrow> List.member valid_platform_roles value"

definition decode_storage_key :: "ext \<Rightarrow> string \<Rightarrow> err + bytes" where
  "decode_storage_key E value =
     (case b64_decode E value of
        None \<Rightarrow> Inl (Failure ''illegal base64 data'')
      | Some key \<Rightarrow> if length key \<noteq> 32 then Inl (Failure ''expected 32 decoded bytes'') else Inr key)"

definition is_placeholder :: "string \<Rightarrow> bool" where
  "is_placeholder value0 =
     (let value = trim_space (to_lower value0) in
      value = [] \<or> value = ''change_me'' \<or> value = ''change_me_now'' \<or> value = ''change_me_long_random_value'' \<or>
      occurs_in ''change_me'' value)"

definition after_scheme :: "string \<Rightarrow> string" where
  "after_scheme s = (case find (\<lambda>n. has_prefix (drop n s) ''://'') [0..<length s] of None \<Rightarrow> s | Some n \<Rightarrow> drop (n + 3) s)"

definition extract_password :: "string \<Rightarrow> string" where
  "extract_password dsn =
     (if \<not> occurs_in ''://'' dsn \<or> \<not> occurs_in ''@'' dsn then []
      else let user_info = takeWhile (\<lambda>c. c \<noteq> CHR ''@'') (after_scheme dsn) in
      case split_first (CHR '':'') user_info of None \<Rightarrow> [] | Some (_, password) \<Rightarrow> password)"

text \<open>The checks of \<open>Validate\<close> in their order: the first that fires gives the error.\<close>

definition basic_checks :: "config \<Rightarrow> (bool \<times> string) list" where
  "basic_checks c =
     [(cg_jwt_secret c = [], ''JWT_SECRET is required''),
      (cg_admin_email c = [] \<or> cg_admin_password c = [], ''bootstrap admin credentials are required''),
      (cg_root c = [], ''STORAGE_ROOT is required''),
      (cg_backend c \<noteq> [] \<and> cg_backend c \<noteq> ''local'' \<and> cg_backend c \<noteq> ''distributed'', ''STORAGE_BACKEND must be local or distributed''),
      (cg_replicas c < 0, ''STORAGE_DISTRIBUTED_REPLICAS must be zero or greater''),
      (cg_default_class c \<noteq> [] \<and> \<not> is_valid_storage_class (cg_default_class c), ''STORAGE_DEFAULT_CLASS must be one of''),
      (cg_backend c = ''distributed'' \<and> cg_endpoints c = [], ''STORAGE_DISTRIBUTED_ENDPOINTS is required when STORAGE_BACKEND is distributed''),
      (cg_backend c = ''distributed'' \<and> cg_replicas c > int (length (cg_endpoints c)),
         ''STORAGE_DISTRIBUTED_REPLICAS cannot exceed configured storage endpoints''),
      (cg_master_key c = [], ''STORAGE_MASTER_KEY is required''),
      (cg_shared_secret c = [], ''STORAGE_NODE_SHARED_SECRET is required''),
      ((cg_node_cert c = []) \<noteq> (cg_node_key c = []), ''STORAGE_NODE_TLS_CLIENT_CERT_FILE and STORAGE_NODE_TLS_CLIENT_KEY_FILE must be set together''),
      ((cg_blob_cert c = []) \<noteq> (cg_blob_key c = []), ''BLOBNODE_TLS_CERT_FILE and BLOBNODE_TLS_KEY_FILE must be set together''),
      (cg_blob_client_ca c \<noteq> [] \<and> (cg_blob_cert c = [] \<or> cg_blob_key c = []),
         ''BLOBNODE_TLS_CERT_FILE and BLOBNODE_TLS_KEY_FILE are required when BLOBNODE_TLS_CLIENT_CA_FILE is set'')]"

definition limit_checks :: "ext \<Rightarrow> config \<Rightarrow> (bool \<times> string) list" where
  "limit_checks E c =
     [(isl (decode_storage_key E (cg_master_key c)), ''invalid STORAGE_MASTER_KEY''),
      (cg_max_upload c \<le> 0, ''MAX_UPLOAD_SIZE_BYTES must be greater than zero''),
      (cg_retention c \<le> 0, ''SOFT_DELETE_RETENTION must be greater than zero''),
      (cg_scan_mode c \<noteq> [] \<and> cg_scan_mode c \<noteq> ''advisory'' \<and> cg_scan_mode c \<noteq> ''enforcement'', ''MALWARE_SCAN_MODE must be advisory or enforcement'')]"

text \<open>\<open>OIDC_ROLE_MAP\<close> is checked over its entries; \<open>keys\<close> are those it was parsed from.\<close>

definition oidc_checks :: "string list \<Rightarrow> config \<Rightarrow> (bool \<times> string) list" where
  "oidc_checks keys c =
     [(cg_oidc c \<and> (cg_oidc_issuer c = [] \<or> cg_oidc_client c = [] \<or> cg_oidc_redirect c = []),
         ''OIDC_ISSUER_URL, OIDC_CLIENT_ID, and OIDC_REDIRECT_URL are required when OIDC is enabled''),
      (cg_oidc c \<and> cg_oidc_default c = [], ''OIDC_DEFAULT_ROLE is required when OIDC is enabled''),
      (cg_oidc c \<and> \<not> is_valid_platform_role (cg_oidc_default c), ''OIDC_DEFAULT_ROLE must be one of''),
      (cg_oidc c \<and> list_ex (\<lambda>k. case cg_oidc_roles c k of None \<Rightarrow> False | Some role \<Rightarrow> \<not> is_valid_platform_role role) keys,
         ''OIDC_ROLE_MAP entry targets invalid role'')]"

definition placeholder_checks :: "config \<Rightarrow> (bool \<times> string) list" where
  "placeholder_checks c =
     (if cg_app_env c = ''development'' then []
      else [(is_placeholder (cg_jwt_secret c), ''JWT_SECRET uses a placeholder value outside development''),
        (is_placeholder (cg_admin_password c), ''ADMIN_BOOTSTRAP_PASSWORD uses a placeholder value outside development''),
        (is_placeholder (extract_password (cg_postgres_dsn c)), ''POSTGRES_PASSWORD uses a placeholder value outside development''),
        (is_placeholder (cg_redis_password c), ''REDIS_PASSWORD uses a placeholder value outside development''),
        (is_placeholder (cg_master_key c), ''STORAGE_MASTER_KEY uses a placeholder value outside development''),
        (is_placeholder (cg_shared_secret c), ''STORAGE_NODE_SHARED_SECRET uses a placeholder value outside development''),
        (cg_oidc c \<and> is_placeholder (cg_oidc_secret c), ''OIDC_CLIENT_SECRET uses a placeholder value outside development'')])"

definition validate_config :: "ext \<Rightarrow> string list \<Rightarrow> config \<Rightarrow> err + unit" where
  "validate_config E keys c =
     (case find fst (basic_checks c @ limit_checks E c @ oidc_checks keys c @ placeholder_checks c) of
        None \<Rightarrow> Inr () | Some (_, message) \<Rightarrow> Inl (Failure message))"

section \<open>Load\<close>

definition parsed :: "string \<Rightarrow> 'a option \<Rightarrow> err + 'a" where
  "parsed name r = (case r of None \<Rightarrow> Inl (Failure (''parse '' @ name)) | Some x \<Rightarrow> Inr x)"

definition role_keys :: "string \<Rightarrow> string list" where
  "role_keys value = map fst (List.map_filter role_entry (split_on (CHR '','') value))"

definition base_config :: "(string \<Rightarrow> string) \<Rightarrow> int \<Rightarrow> int \<Rightarrow> int \<Rightarrow> int \<Rightarrow> int \<Rightarrow> int \<Rightarrow> int \<Rightarrow> config" where
  "base_config env access_ttl refresh_ttl presign_ttl clam_port max_upload replicas retention =
     \<lparr>cg_app_env = get_env env ''APP_ENV'' ''development'', cg_api_port = get_env env ''API_PORT'' ''8080'', cg_postgres_dsn = [],
      cg_redis_addr = get_env env ''REDIS_HOST'' ''redis'' @ '':'' @ get_env env ''REDIS_PORT'' ''6379'', cg_redis_password = [],
      cg_jwt_secret = [], cg_jwt_issuer = get_env env ''JWT_ISSUER'' ''harborshield'', cg_access_ttl = access_ttl,
      cg_refresh_ttl = refresh_ttl, cg_admin_email = get_env env ''ADMIN_BOOTSTRAP_EMAIL'' ''admin@example.com'', cg_admin_password = [],
      cg_backend = to_lower (get_env env ''STORAGE_BACKEND'' ''local''), cg_root = get_env env ''STORAGE_ROOT'' ''/data'',
      cg_endpoints = split_csv (get_env env ''STORAGE_DISTRIBUTED_ENDPOINTS'' []), cg_replicas = replicas, cg_shared_secret = [],
      cg_node_ca = get_env env ''STORAGE_NODE_TLS_CA_FILE'' [], cg_node_cert = get_env env ''STORAGE_NODE_TLS_CLIENT_CERT_FILE'' [],
      cg_node_key = get_env env ''STORAGE_NODE_TLS_CLIENT_KEY_FILE'' [], cg_blob_cert = get_env env ''BLOBNODE_TLS_CERT_FILE'' [],
      cg_blob_key = get_env env ''BLOBNODE_TLS_KEY_FILE'' [], cg_blob_client_ca = get_env env ''BLOBNODE_TLS_CLIENT_CA_FILE'' [],
      cg_default_class = normalize_storage_class (get_env env ''STORAGE_DEFAULT_CLASS'' ''standard''),
      cg_region = get_env env ''S3_REGION'' ''us-east-1'', cg_tenant = get_env env ''S3_DEFAULT_TENANT'' ''default'',
      cg_presign_ttl = presign_ttl, cg_max_upload = max_upload,
      cg_cors = split_csv (get_env env ''CORS_ORIGINS'' ''http://localhost:3000''), cg_log_level = get_env env ''LOG_LEVEL'' ''info'',
      cg_clamav = equal_fold (get_env env ''ENABLE_CLAMAV'' ''false'') ''true'', cg_clamav_host = get_env env ''CLAMAV_HOST'' ''clamav'',
      cg_clamav_port = clam_port, cg_scan_mode = to_lower (get_env env ''MALWARE_SCAN_MODE'' ''advisory''),
      cg_allowlist = split_csv (get_env env ''ADMIN_IP_ALLOWLIST'' []), cg_master_key = [], cg_retention = retention,
      cg_oidc = equal_fold (get_env env ''OIDC_ENABLED'' ''false'') ''true'', cg_oidc_issuer = get_env env ''OIDC_ISSUER_URL'' [],
      cg_oidc_client = get_env env ''OIDC_CLIENT_ID'' [], cg_oidc_secret = [], cg_oidc_redirect = get_env env ''OIDC_REDIRECT_URL'' [],
      cg_oidc_scopes = split_csv (get_env env ''OIDC_SCOPES'' ''openid,email,profile''), cg_oidc_claim = get_env env ''OIDC_ROLE_CLAIM'' [],
      cg_oidc_roles = parse_role_map (get_env env ''OIDC_ROLE_MAP'' []), cg_oidc_default = get_env env ''OIDC_DEFAULT_ROLE'' ''admin''\<rparr>"

definition postgres_dsn :: "(string \<Rightarrow> string) \<Rightarrow> string \<Rightarrow> string" where
  "postgres_dsn env password = ''postgres://'' @ get_env env ''POSTGRES_USER'' ''s3platform'' @ '':'' @ password @ ''@'' @
     get_env env ''POSTGRES_HOST'' ''postgres'' @ '':'' @ get_env env ''POSTGRES_PORT'' ''5432'' @ ''/'' @
     get_env env ''POSTGRES_DB'' ''s3platform'' @ ''?sslmode=disable''"

definition with_secrets :: "(string \<Rightarrow> string) \<Rightarrow> (string \<Rightarrow> string option) \<Rightarrow> config \<Rightarrow> err + config" where
  "with_secrets env file_of cfg =
     and_then (get_secret_env env file_of ''POSTGRES_PASSWORD'' ''change_me'') (\<lambda>postgres_password.
     and_then (get_secret_env env file_of ''REDIS_PASSWORD'' []) (\<lambda>redis_password.
     and_then (get_secret_env env file_of ''JWT_SECRET'' []) (\<lambda>jwt_secret.
     and_then (get_secret_env env file_of ''ADMIN_BOOTSTRAP_PASSWORD'' ''change_me_now'') (\<lambda>admin_password.
     and_then (get_secret_env env file_of ''STORAGE_MASTER_KEY'' []) (\<lambda>master_key.
     and_then (get_secret_env env file_of ''STORAGE_NODE_SHARED_SECRET'' []) (\<lambda>shared_secret.
     and_then (get_secret_env env file_of ''OIDC_CLIENT_SECRET'' []) (\<lambda>oidc_secret.
       Inr (cfg\<lparr>cg_postgres_dsn := postgres_dsn env postgres_password, cg_redis_password := redis_password, cg_jwt_secret := jwt_secret,
         cg_admin_password := admin_password, cg_master_key := master_key,
         cg_shared_secret := (if shared_secret = [] then master_key else shared_secret), cg_oidc_secret := oidc_secret\<rparr>))))))))"

definition load_config :: "ext \<Rightarrow> (string \<Rightarrow> string) \<Rightarrow> (string \<Rightarrow> string option) \<Rightarrow> err + config" where
  "load_config E env file_of =
     and_then (parsed ''ACCESS_TOKEN_TTL'' (parse_duration (get_env env ''ACCESS_TOKEN_TTL'' ''15m''))) (\<lambda>access_ttl.
     and_then (parsed ''REFRESH_TOKEN_TTL'' (parse_duration (get_env env ''REFRESH_TOKEN_TTL'' ''168h''))) (\<lambda>refresh_ttl.
     and_then (parsed ''S3_PRESIGN_TTL'' (parse_duration (get_env env ''S3_PRESIGN_TTL'' ''15m''))) (\<lambda>presign_ttl.
     and_then (parsed ''CLAMAV_PORT'' (parse_int (get_env env ''CLAMAV_PORT'' ''3310''))) (\<lambda>clam_port.
     and_then (parsed ''MAX_UPLOAD_SIZE_BYTES'' (parse_int (get_env env ''MAX_UPLOAD_SIZE_BYTES'' ''104857600''))) (\<lambda>max_upload.
     and_then (parsed ''STORAGE_DISTRIBUTED_REPLICAS'' (parse_int (get_env env ''STORAGE_DISTRIBUTED_REPLICAS'' ''0''))) (\<lambda>replicas.
     and_then (parsed ''SOFT_DELETE_RETENTION'' (parse_duration (get_env env ''SOFT_DELETE_RETENTION'' ''24h''))) (\<lambda>retention.
     and_then (with_secrets env file_of (base_config env access_ttl refresh_ttl presign_ttl clam_port max_upload replicas retention)) (\<lambda>cfg.
     and_then (validate_config E (role_keys (get_env env ''OIDC_ROLE_MAP'' [])) cfg) (\<lambda>_.
       Inr (if cg_backend cfg = ''distributed'' \<and> cg_replicas cfg = 0
            then cfg\<lparr>cg_replicas := int (length (cg_endpoints cfg))\<rparr> else cfg))))))))))"

text \<open>What \<open>main\<close> builds the services from.\<close>

definition service_config_of :: "config \<Rightarrow> service_config" where
  "service_config_of c =
     \<lparr>cf_tenant = cg_tenant c, cf_backend = cg_backend c, cf_placement_endpoints = cg_endpoints c,
      cf_placement_replicas = cg_replicas c, cf_default_class = normalize_storage_class (cg_default_class c),
      cf_policy_class = cg_default_class c, cf_policy_replicas = cg_replicas c, cf_endpoint_count = int (length (cg_endpoints c)),
      cf_settings = True, cf_quotas = True, cf_distributed = (cg_backend c = ''distributed'' \<or> cg_endpoints c \<noteq> []),
      cf_scan_mode = cg_scan_mode c\<rparr>"

section \<open>Classes\<close>

definition storage_class_label :: "string \<Rightarrow> string" where
  "storage_class_label class_name =
     (let c = normalize_storage_class class_name in
      if c = ''reduced-redundancy'' then ''Reduced Redundancy'' else if c = ''archive-ready'' then ''Archive Ready'' else ''Standard'')"

definition storage_class_description :: "string \<Rightarrow> int \<Rightarrow> string" where
  "storage_class_description class_name target =
     (let c = normalize_storage_class class_name; n = itoa (effective_replica_target class_name target) in
      if c = ''reduced-redundancy'' then ''Lower replica count for less critical data. Defaults to '' @ n @ '' replicas.''
      else if c = ''archive-ready'' then ''Single replica staging class for archive-oriented or easily reproducible data.''
      else ''Balanced default durability class. Defaults to '' @ n @ '' replicas.'')"

definition storage_class_policies :: "int \<Rightarrow> class_policy list" where
  "storage_class_policies target =
     map (\<lambda>c. \<lparr>cp_name = c, cp_label = storage_class_label c, cp_description = storage_class_description c target,
       cp_replicas = effective_replica_target c target\<rparr>) supported_storage_classes"

end
