(* ===== verification/Settings.thy ===== *)
theory Settings
  imports Config
begin

text \<open>
  The rest of \<open>backend/internal/settings/service.go\<close>: the settings of OIDC with their sealed
  client secret, the deployment setup, and the snapshot of all settings. Lists and maps are stored
  as JSON and read back, the rows hold them as values. \<open>url.Parse\<close> is a parameter.
\<close>

section \<open>Values\<close>

record oidc_settings =
  os_enabled :: bool
  os_issuer :: string
  os_client :: string
  os_secret :: string
  os_configured :: bool
  os_redirect :: string
  os_scopes :: "string list"
  os_claim :: string
  os_default :: string
  os_roles :: smap

text \<open>The role map of an input is the list of its entries in the order Go visits them.\<close>

record oidc_input =
  oin_enabled :: bool
  oin_issuer :: string
  oin_client :: string
  oin_secret :: string
  oin_redirect :: string
  oin_scopes :: "string list"
  oin_claim :: string
  oin_default :: string
  oin_roles :: "(string \<times> string) list"

record setup_input =
  si_mode :: string
  si_distributed :: string
  si_remote :: "string list"

record deployment_setup =
  ds_completed :: bool
  ds_required :: bool
  ds_backend :: string
  ds_scope :: string
  ds_remote :: "string list"
  ds_runtime :: string
  ds_runtime_count :: int
  ds_apply :: bool

record parsed_url =
  pu_scheme :: string
  pu_host :: string
  pu_query :: string
  pu_fragment :: string
  pu_text :: string

section \<open>Normalisation\<close>

definition normalize_scopes :: "string list \<Rightarrow> string list" where
  "normalize_scopes values =
     (let items = filter (\<lambda>v. v \<noteq> []) (map trim_space values) in
      if items = [] then [''openid'', ''email'', ''profile''] else items)"

definition normalize_role_map :: "(string \<times> string) list \<Rightarrow> (string \<times> string) list" where
  "normalize_role_map values =
     filter (\<lambda>(k, v). k \<noteq> [] \<and> v \<noteq> []) (map (\<lambda>(k, v). (trim_space k, trim_space v)) values)"

definition map_from :: "(string \<times> string) list \<Rightarrow> smap" where
  "map_from kvs = fold (\<lambda>(k, v) m. m(k \<mapsto> v)) kvs Map.empty"

definition normalize_endpoints :: "string list \<Rightarrow> string list" where
  "normalize_endpoints values = filter (\<lambda>v. v \<noteq> []) (map (\<lambda>v. trim_right_by (\<lambda>c. c = CHR ''/'') (trim_space v)) values)"

definition default_oidc_role :: "string \<Rightarrow> string" where
  "default_oidc_role value = (if trim_space value = [] then ''admin'' else trim_space value)"

definition validate_oidc_settings :: "(string \<times> string) list \<Rightarrow> oidc_settings \<Rightarrow> err + unit" where
  "validate_oidc_settings roles value =
     (if \<not> os_enabled value then Inr ()
      else if os_issuer value = [] \<or> os_client value = [] \<or> os_redirect value = []
      then Inl (Failure ''issuer URL, client ID, and redirect URL are required when OIDC is enabled'')
      else if trim_space (os_secret value) = [] then Inl (Failure ''client secret is required when OIDC is enabled'')
      else if \<not> is_valid_platform_role (default_oidc_role (os_default value)) then Inl (Failure ''default role must be one of'')
      else if list_ex (\<lambda>(k, _). case os_roles value k of None \<Rightarrow> False | Some role \<Rightarrow> \<not> is_valid_platform_role role) roles
      then Inl (Failure ''role mapping targets invalid role'')
      else Inr ())"

text \<open>\<open>normalized\<close> are the endpoints seen before.\<close>

fun validate_remote_endpoints :: "(string \<Rightarrow> parsed_url option) \<Rightarrow> string list \<Rightarrow> string list \<Rightarrow> err + unit" where
  "validate_remote_endpoints parse seen [] = Inr ()"
| "validate_remote_endpoints parse seen (value # values) =
     (case parse value of
        None \<Rightarrow> Inl (Failure ''remote endpoint is not a valid URL'')
      | Some u \<Rightarrow>
          if pu_scheme u \<noteq> ''http'' \<and> pu_scheme u \<noteq> ''https'' then Inl (Failure ''remote endpoint must start with http:// or https://'')
          else if trim_space (pu_host u) = [] then Inl (Failure ''remote endpoint must include a host'')
          else if pu_query u \<noteq> [] \<or> pu_fragment u \<noteq> [] then Inl (Failure ''remote endpoint cannot include a query string or fragment'')
          else
          let normalized = trim_right_by (\<lambda>c. c = CHR ''/'') (pu_text u) in
          if List.member seen normalized then Inl (Failure ''remote endpoint is duplicated'')
          else validate_remote_endpoints parse (normalized # seen) values)"

section \<open>OIDC\<close>

definition ensure_oidc_settings :: "ext \<Rightarrow> config \<Rightarrow> unit prog" where
  "ensure_oidc_settings E cfg =
     bnd (if trim_space (cg_oidc_secret cfg) \<noteq> [] then seal_string E (cg_oidc_secret cfg) else ret []) (\<lambda>cipher.
     exec (\<lambda>_ d. Inr ((), case t_oidc d of
         Some _ \<Rightarrow> d
       | None \<Rightarrow> d\<lparr>t_oidc := Some \<lparr>oi_enabled = cg_oidc cfg, oi_issuer = cg_oidc_issuer cfg, oi_client = cg_oidc_client cfg,
           oi_cipher = cipher, oi_redirect = cg_oidc_redirect cfg, oi_scopes = normalize_scopes (cg_oidc_scopes cfg),
           oi_claim = cg_oidc_claim cfg, oi_default = default_oidc_role (cg_oidc_default cfg), oi_roles = cg_oidc_roles cfg\<rparr>\<rparr>)))"

definition oidc_of_row :: "string \<Rightarrow> oidc_row \<Rightarrow> oidc_settings" where
  "oidc_of_row secret r = \<lparr>os_enabled = oi_enabled r, os_issuer = oi_issuer r, os_client = oi_client r, os_secret = secret,
     os_configured = (trim_space (oi_cipher r) \<noteq> []), os_redirect = oi_redirect r, os_scopes = normalize_scopes (oi_scopes r),
     os_claim = oi_claim r, os_default = oi_default r, os_roles = oi_roles r\<rparr>"

definition resolve_oidc_settings :: "ext \<Rightarrow> config \<Rightarrow> oidc_settings prog" where
  "resolve_oidc_settings E cfg =
     bnd (ensure_oidc_settings E cfg) (\<lambda>_.
     bnd (query (\<lambda>d. case t_oidc d of None \<Rightarrow> Inl PgNoRows | Some r \<Rightarrow> Inr r)) (\<lambda>r.
     bnd (if trim_space (oi_cipher r) \<noteq> [] then of_result (open_string E (oi_cipher r)) else ret []) (\<lambda>secret.
       ret (oidc_of_row secret r))))"

definition next_settings :: "oidc_input \<Rightarrow> oidc_settings \<Rightarrow> oidc_settings" where
  "next_settings input current =
     (let new_secret = trim_space (oin_secret input) in
      \<lparr>os_enabled = oin_enabled input, os_issuer = trim_space (oin_issuer input), os_client = trim_space (oin_client input),
       os_secret = (if new_secret \<noteq> [] then new_secret else os_secret current),
       os_configured = (if new_secret \<noteq> [] then True else os_configured current),
       os_redirect = trim_space (oin_redirect input), os_scopes = normalize_scopes (oin_scopes input),
       os_claim = trim_space (oin_claim input), os_default = trim_space (oin_default input),
       os_roles = map_from (normalize_role_map (oin_roles input))\<rparr>)"

definition set_oidc :: "(oidc_row \<Rightarrow> oidc_row) \<Rightarrow> unit prog" where
  "set_oidc f = exec (\<lambda>_ d. Inr ((), d\<lparr>t_oidc := map_option f (t_oidc d)\<rparr>))"

definition update_oidc_settings :: "ext \<Rightarrow> config \<Rightarrow> oidc_input \<Rightarrow> oidc_settings prog" where
  "update_oidc_settings E cfg input =
     bnd (ensure_oidc_settings E cfg) (\<lambda>_.
     bnd (resolve_oidc_settings E cfg) (\<lambda>current.
     let next = next_settings input current in
     bnd (of_result (validate_oidc_settings (normalize_role_map (oin_roles input)) next)) (\<lambda>_.
     bnd (if trim_space (os_secret next) \<noteq> [] then seal_string E (os_secret next) else ret []) (\<lambda>cipher.
     bnd (set_oidc (\<lambda>_. \<lparr>oi_enabled = os_enabled next, oi_issuer = os_issuer next, oi_client = os_client next, oi_cipher = cipher,
            oi_redirect = os_redirect next, oi_scopes = os_scopes next, oi_claim = os_claim next, oi_default = os_default next,
            oi_roles = os_roles next\<rparr>)) (\<lambda>_.
     resolve_oidc_settings E cfg)))))"

definition clear_oidc_client_secret :: "ext \<Rightarrow> config \<Rightarrow> oidc_settings prog" where
  "clear_oidc_client_secret E cfg =
     bnd (ensure_oidc_settings E cfg) (\<lambda>_.
     bnd (set_oidc (\<lambda>r. r\<lparr>oi_cipher := []\<rparr>)) (\<lambda>_.
     resolve_oidc_settings E cfg))"

section \<open>The deployment setup\<close>

definition ensure_deployment_setup :: "config \<Rightarrow> unit prog" where
  "ensure_deployment_setup cfg =
     exec (\<lambda>_ d. Inr ((), case t_setup d of
         Some _ \<Rightarrow> d
       | None \<Rightarrow> d\<lparr>t_setup := Some \<lparr>su_completed = False, su_backend = cg_backend cfg, su_scope = [], su_remote = []\<rparr>\<rparr>))"

definition apply_required :: "config \<Rightarrow> deployment_setup \<Rightarrow> bool" where
  "apply_required cfg s =
     (if \<not> ds_completed s then False
      else if ds_backend s \<noteq> ds_runtime s then True
      else if ds_backend s \<noteq> ''distributed'' then False
      else if ds_scope s = ''remote'' then ds_remote s \<noteq> cg_endpoints cfg
      else False)"

definition deployment_setup_status :: "config \<Rightarrow> deployment_setup prog" where
  "deployment_setup_status cfg =
     bnd (ensure_deployment_setup cfg) (\<lambda>_.
     bnd (query (\<lambda>d. case t_setup d of None \<Rightarrow> Inl PgNoRows | Some r \<Rightarrow> Inr r)) (\<lambda>r.
     let status = \<lparr>ds_completed = su_completed r, ds_required = (\<not> su_completed r), ds_backend = su_backend r, ds_scope = su_scope r,
           ds_remote = normalize_endpoints (su_remote r), ds_runtime = cg_backend cfg,
           ds_runtime_count = int (length (cg_endpoints cfg)), ds_apply = False\<rparr> in
     ret (status\<lparr>ds_apply := apply_required cfg status\<rparr>)))"

text \<open>The row a setup asks for: backend, scope and remote endpoints.\<close>

definition wanted_setup :: "(string \<Rightarrow> parsed_url option) \<Rightarrow> setup_input \<Rightarrow> err + (string \<times> string \<times> string list)" where
  "wanted_setup parse input =
     (let mode = to_lower (trim_space (si_mode input)); distributed_mode = to_lower (trim_space (si_distributed input));
          remote = normalize_endpoints (si_remote input) in
      if mode = ''single-node'' then Inr (''local'', [], [])
      else if mode = ''distributed'' then
        if distributed_mode \<noteq> ''local'' \<and> distributed_mode \<noteq> ''remote'' then Inl (Failure ''distributed mode must be local or remote'')
        else if distributed_mode = ''remote'' \<and> remote = [] then Inl (Failure ''remote distributed mode requires at least one endpoint'')
        else if distributed_mode = ''remote'' then
          and_then (validate_remote_endpoints parse [] remote) (\<lambda>_. Inr (''distributed'', distributed_mode, remote))
        else Inr (''distributed'', distributed_mode, [])
      else Inl (Failure ''mode must be single-node or distributed''))"

definition complete_deployment_setup :: "(string \<Rightarrow> parsed_url option) \<Rightarrow> config \<Rightarrow> setup_input \<Rightarrow> deployment_setup prog" where
  "complete_deployment_setup parse cfg input =
     bnd (ensure_deployment_setup cfg) (\<lambda>_.
     bnd (of_result (wanted_setup parse input)) (\<lambda>(backend, scope, remote).
     bnd (exec (\<lambda>_ d. Inr ((), d\<lparr>t_setup := map_option (\<lambda>_. \<lparr>su_completed = True, su_backend = backend, su_scope = scope,
            su_remote = remote\<rparr>) (t_setup d)\<rparr>))) (\<lambda>_.
     deployment_setup_status cfg)))"

section \<open>The snapshot\<close>

definition resolve_distributed_endpoints :: "config \<Rightarrow> string list prog" where
  "resolve_distributed_endpoints cfg =
     bnd (query (\<lambda>d. Inr (map (\<lambda>n. trim_space (n_endpoint n)) (sort_key (\<lambda>n. (n_name n, n_endpoint n)) (t_nodes d))))) (\<lambda>endpoints.
       ret (if endpoints \<noteq> [] then endpoints else cg_endpoints cfg))"

text \<open>The presign TTL is a duration here and its text in the code.\<close>

record snapshot_view =
  sn_env :: string
  sn_region :: string
  sn_tenant :: string
  sn_presign :: int
  sn_max_upload :: int
  sn_backend :: string
  sn_root :: string
  sn_endpoints :: "string list"
  sn_replicas :: int
  sn_default_class :: string
  sn_classes :: "string list"
  sn_policies :: "class_policy list"
  sn_encrypted :: bool
  sn_clamav :: bool
  sn_scan_mode :: string
  sn_allowlist :: "string list"
  sn_cors :: "string list"
  sn_log_level :: string
  sn_oidc :: oidc_settings

definition settings_snapshot :: "ext \<Rightarrow> config \<Rightarrow> snapshot_view prog" where
  "settings_snapshot E cfg =
     bnd (resolve_storage_policy (service_config_of cfg)) (\<lambda>policy.
     bnd (resolve_distributed_endpoints cfg) (\<lambda>endpoints.
     bnd (resolve_malware_settings (service_config_of cfg)) (\<lambda>mode.
     bnd (resolve_oidc_settings E cfg) (\<lambda>oidc.
       ret \<lparr>sn_env = cg_app_env cfg, sn_region = cg_region cfg, sn_tenant = cg_tenant cfg, sn_presign = cg_presign_ttl cfg,
            sn_max_upload = cg_max_upload cfg, sn_backend = cg_backend cfg, sn_root = cg_root cfg, sn_endpoints = endpoints,
            sn_replicas = cg_replicas cfg, sn_default_class = spv_default policy, sn_classes = supported_storage_classes,
            sn_policies = spv_policies policy, sn_encrypted = (cg_master_key cfg \<noteq> []), sn_clamav = cg_clamav cfg,
            sn_scan_mode = mode, sn_allowlist = cg_allowlist cfg, sn_cors = cg_cors cfg, sn_log_level = cg_log_level cfg,
            sn_oidc = oidc\<lparr>os_secret := []\<rparr>\<rparr>))))"

end
