(* ===== verification/Oidc.thy ===== *)
theory Oidc
  imports Settings Decode
begin

text \<open>
  Login with an identity provider: \<open>backend/internal/oidc/service.go\<close>. The provider (discovery,
  code exchange, verification of the ID token), the URL it is asked with, the order Go visits the
  role map in, and the text of the session page are parameters. The provider the service keeps in
  memory is passed along.
\<close>

section \<open>The provider\<close>

record discovery =
  di_issuer :: string
  di_authorization :: string
  di_token :: string
  di_userinfo :: string
  di_jwks :: string

record oidc_env =
  oe_discover :: "string \<Rightarrow> world \<Rightarrow> err + discovery"
  oe_auth_url :: "oidc_settings \<Rightarrow> discovery \<Rightarrow> string \<Rightarrow> string \<Rightarrow> string"   \<comment> \<open>state, nonce\<close>
  oe_exchange :: "oidc_settings \<Rightarrow> discovery \<Rightarrow> string \<Rightarrow> world \<Rightarrow> err + string"   \<comment> \<open>the ID token, empty without\<close>
  oe_verify :: "discovery \<Rightarrow> string \<Rightarrow> string \<Rightarrow> world \<Rightarrow> err + json"   \<comment> \<open>client, token; the claims\<close>
  oe_entries :: "smap \<Rightarrow> (string \<times> string) list"
  oe_marshal :: "session \<Rightarrow> string"
  oe_quote :: "string \<Rightarrow> string"   \<comment> \<open>\<open>json.Marshal\<close> of a string\<close>
  oe_page :: "string \<Rightarrow> string"

type_synonym provider_cache = "(string \<times> discovery \<times> oidc_settings) option"

section \<open>Settings in force\<close>

definition configured_settings :: "config \<Rightarrow> oidc_settings" where
  "configured_settings cfg =
     \<lparr>os_enabled = cg_oidc cfg, os_issuer = cg_oidc_issuer cfg, os_client = cg_oidc_client cfg, os_secret = cg_oidc_secret cfg,
      os_configured = (cg_oidc_secret cfg \<noteq> []), os_redirect = cg_oidc_redirect cfg, os_scopes = cg_oidc_scopes cfg,
      os_claim = cg_oidc_claim cfg, os_default = cg_oidc_default cfg, os_roles = cg_oidc_roles cfg\<rparr>"

definition current_settings :: "ext \<Rightarrow> config \<Rightarrow> oidc_settings prog" where
  "current_settings E cfg = bnd (attempt (resolve_oidc_settings E cfg)) (\<lambda>r. case r of
     Inr current \<Rightarrow> ret current | Inl _ \<Rightarrow> ret (configured_settings cfg))"

definition flatten_role_mappings :: "oidc_env \<Rightarrow> smap \<Rightarrow> string list" where
  "flatten_role_mappings P m =
     map (\<lambda>(k, role). k @ '' => '' @ role) (filter (\<lambda>(k, role). trim_space k \<noteq> [] \<and> trim_space role \<noteq> []) (oe_entries P m))"

record oidc_status =
  ot_enabled :: bool
  ot_configured :: bool
  ot_ready :: bool
  ot_issuer :: string
  ot_client :: string
  ot_redirect :: string
  ot_scopes :: "string list"
  ot_claim :: string
  ot_default :: string
  ot_mappings :: "string list"
  ot_message :: string

definition oidc_status_of :: "oidc_env \<Rightarrow> oidc_settings \<Rightarrow> oidc_status" where
  "oidc_status_of P c =
     (let configured = (os_enabled c \<and> os_issuer c \<noteq> [] \<and> os_client c \<noteq> [] \<and> os_redirect c \<noteq> [] \<and> os_secret c \<noteq> []) in
      \<lparr>ot_enabled = os_enabled c, ot_configured = configured, ot_ready = configured, ot_issuer = os_issuer c, ot_client = os_client c,
       ot_redirect = os_redirect c, ot_scopes = os_scopes c, ot_claim = os_claim c, ot_default = os_default c,
       ot_mappings = flatten_role_mappings P (os_roles c),
       ot_message = (if configured then ''OIDC is configured and ready for authorization-code login''
                     else if os_enabled c then ''OIDC is enabled but incomplete'' else ''OIDC is disabled'')\<rparr>)"

definition oidc_status :: "ext \<Rightarrow> oidc_env \<Rightarrow> config \<Rightarrow> oidc_status prog" where
  "oidc_status E P cfg = bnd (current_settings E cfg) (\<lambda>c. ret (oidc_status_of P c))"

definition cache_key :: "oidc_env \<Rightarrow> oidc_settings \<Rightarrow> string" where
  "cache_key P c = join_with ''|'' [if os_enabled c then ''true'' else ''false'', os_issuer c, os_client c, os_secret c, os_redirect c,
     join_with '','' (os_scopes c), os_claim c, os_default c, join_with '','' (flatten_role_mappings P (os_roles c))]"

definition discover :: "oidc_env \<Rightarrow> string \<Rightarrow> discovery prog" where
  "discover P issuer = external (\<lambda>w. (oe_discover P issuer w, w))"

definition ensure_provider ::
    "ext \<Rightarrow> oidc_env \<Rightarrow> config \<Rightarrow> provider_cache \<Rightarrow> (oidc_settings \<times> discovery \<times> provider_cache) prog" where
  "ensure_provider E P cfg cache =
     bnd (current_settings E cfg) (\<lambda>current.
     let fresh = bnd (discover P (os_issuer current)) (\<lambda>d. ret (current, d, Some (cache_key P current, d, current))) in
     case cache of
       Some (key, d, _) \<Rightarrow> if key = cache_key P current then ret (current, d, cache) else fresh
     | None \<Rightarrow> fresh)"

text \<open>The OAuth configuration and the verifier are those the provider was set up with.\<close>

definition active_settings :: "provider_cache \<Rightarrow> oidc_settings \<Rightarrow> oidc_settings" where
  "active_settings cache current = (case cache of None \<Rightarrow> current | Some (_, _, active) \<Rightarrow> active)"

section \<open>State tokens\<close>

definition url_base64 :: "ext \<Rightarrow> bytes \<Rightarrow> string" where
  "url_base64 E b = map (\<lambda>c. if c = CHR ''+'' then CHR ''-'' else if c = CHR ''/'' then CHR ''_'' else c)
     (trim_right_by (\<lambda>c. c = CHR ''='') (b64_encode E b))"

definition new_state_token :: "ext \<Rightarrow> config \<Rightarrow> (string \<times> string) prog" where
  "new_state_token E cfg =
     bnd (random_bytes E 24) (\<lambda>b.
     let nonce = url_base64 E b in
     bnd now (\<lambda>t.
     ret (jwt_sign E (cg_jwt_secret cfg) (JObj [(''nonce'', JStr nonce),
        (''exp'', JNum (unix_seconds (t + 10 * 60 * 1000000000))), (''iat'', JNum (unix_seconds t))]), nonce)))"

definition parse_state_token :: "ext \<Rightarrow> config \<Rightarrow> string \<Rightarrow> string prog" where
  "parse_state_token E cfg value =
     bnd now (\<lambda>t. case jwt_open E (cg_jwt_secret cfg) value of
        None \<Rightarrow> fail (Failure ''invalid oidc state'')
      | Some c \<Rightarrow> (case Option.bind (struct_members c) (str_field ''nonce'') of
            None \<Rightarrow> fail (Failure ''invalid oidc state'')
          | Some nonce \<Rightarrow> if times_valid c t then ret nonce else fail (Failure ''invalid oidc state'')))"

section \<open>Login\<close>

text \<open>
  Once the provider is set up the service keeps it, whatever follows: both operations give the
  provider they leave in memory, with their result.
\<close>

definition keeping :: "provider_cache \<Rightarrow> 'a prog \<Rightarrow> ((err + 'a) \<times> provider_cache) prog" where
  "keeping cache m = bnd (attempt m) (\<lambda>r. ret (r, cache))"

definition with_provider ::
    "ext \<Rightarrow> oidc_env \<Rightarrow> config \<Rightarrow> provider_cache \<Rightarrow> (oidc_settings \<Rightarrow> discovery \<Rightarrow> oidc_settings \<Rightarrow> 'a prog) \<Rightarrow>
     ((err + 'a) \<times> provider_cache) prog" where
  "with_provider E P cfg cache f = bnd (attempt (ensure_provider E P cfg cache)) (\<lambda>r. case r of
     Inl e \<Rightarrow> ret (Inl e, cache)
   | Inr (current, d, cache') \<Rightarrow> keeping cache' (f current d (active_settings cache' current)))"

definition start_login :: "ext \<Rightarrow> oidc_env \<Rightarrow> config \<Rightarrow> provider_cache \<Rightarrow> ((err + string) \<times> provider_cache) prog" where
  "start_login E P cfg cache =
     bnd (oidc_status E P cfg) (\<lambda>status.
     if \<not> ot_configured status then ret (Inl (Failure ''oidc is not configured''), cache)
     else with_provider E P cfg cache (\<lambda>current d active.
       bnd (new_state_token E cfg) (\<lambda>(state_token, nonce). ret (oe_auth_url P active d state_token nonce))))"

definition claim_values :: "json \<Rightarrow> string list" where
  "claim_values value = (case value of
       JStr s \<Rightarrow> if trim_space s = [] then [] else [s]
     | JArr items \<Rightarrow> List.map_filter (\<lambda>item. case item of JStr s \<Rightarrow> if trim_space s \<noteq> [] then Some s else None | _ \<Rightarrow> None) items
     | _ \<Rightarrow> [])"

definition resolve_oidc_role :: "oidc_settings \<Rightarrow> (string \<times> json) list \<Rightarrow> string" where
  "resolve_oidc_role current raw_claims =
     (let default_role = (if os_default current = [] then ''admin'' else os_default current) in
      if os_claim current = [] \<or> os_roles current = Map.empty then default_role
      else case map_of (rev raw_claims) (os_claim current) of
        None \<Rightarrow> default_role
      | Some value \<Rightarrow>
          (case find (\<lambda>c. case os_roles current c of None \<Rightarrow> False | Some role \<Rightarrow> role \<noteq> []) (claim_values value) of
             None \<Rightarrow> default_role | Some c \<Rightarrow> the (os_roles current c)))"

record id_claims =
  ic_subject :: string
  ic_email :: string
  ic_verified :: bool
  ic_nonce :: string

definition decode_id_claims :: "json \<Rightarrow> id_claims option" where
  "decode_id_claims j = (case struct_members j of None \<Rightarrow> None | Some fs \<Rightarrow>
     (case (str_field ''sub'' fs, str_field ''email'' fs, bool_field ''email_verified'' fs, str_field ''nonce'' fs) of
        (Some s, Some e, Some v, Some n) \<Rightarrow> Some \<lparr>ic_subject = s, ic_email = e, ic_verified = v, ic_nonce = n\<rparr>
      | _ \<Rightarrow> None))"

definition render_session_bootstrap :: "oidc_env \<Rightarrow> string \<Rightarrow> string" where
  "render_session_bootstrap P payload = oe_page P (oe_quote P payload)"

definition login_callback ::
    "ext \<Rightarrow> oidc_env \<Rightarrow> config \<Rightarrow> auth_config \<Rightarrow> provider_cache \<Rightarrow> string \<Rightarrow> string \<Rightarrow> ((err + string) \<times> provider_cache) prog" where
  "login_callback E P cfg A cache code state =
     (if code = [] \<or> state = [] then ret (Inl (Failure ''missing oidc code or state''), cache)
      else with_provider E P cfg cache (\<lambda>current d active.
      bnd (parse_state_token E cfg state) (\<lambda>state_nonce.
      bnd (external (\<lambda>w. (oe_exchange P active d code w, w))) (\<lambda>raw_id_token.
      if raw_id_token = [] then fail (Failure ''provider did not return id_token'')
      else
      bnd (external (\<lambda>w. (oe_verify P d (os_client active) raw_id_token w, w))) (\<lambda>c.
      case (decode_id_claims c, struct_members c) of
        (Some claims, Some raw_claims) \<Rightarrow>
          if ic_nonce claims \<noteq> state_nonce then fail (Failure ''oidc nonce mismatch'')
          else if ic_subject claims = [] \<or> ic_email claims = [] then fail (Failure ''provider did not return required subject or email claims'')
          else
          bnd (login_oidc E A (os_issuer current) (ic_subject claims) (ic_email claims) (ic_verified claims)
                 (resolve_oidc_role current raw_claims)) (\<lambda>s.
          ret (render_session_bootstrap P (oe_marshal P s)))
      | _ \<Rightarrow> fail (Failure ''oidc: failed to unmarshal claims''))))))"

record test_result =
  te_issuer :: string
  te_authorization :: string
  te_token :: string
  te_userinfo :: string
  te_jwks :: string
  te_scopes :: "string list"

definition coalesce :: "string \<Rightarrow> string \<Rightarrow> string" where
  "coalesce value fallback = (if trim_space value \<noteq> [] then value else fallback)"

definition test_connection :: "ext \<Rightarrow> oidc_env \<Rightarrow> config \<Rightarrow> test_result prog" where
  "test_connection E P cfg =
     bnd (current_settings E cfg) (\<lambda>current.
     if os_issuer current = [] \<or> os_client current = [] \<or> os_redirect current = []
     then fail (Failure ''issuer URL, client ID, and redirect URL are required before testing OIDC'')
     else if trim_space (os_secret current) = [] then fail (Failure ''client secret is required before testing OIDC'')
     else
     bnd (discover P (os_issuer current)) (\<lambda>d.
     ret \<lparr>te_issuer = coalesce (di_issuer d) (os_issuer current), te_authorization = di_authorization d, te_token = di_token d,
          te_userinfo = di_userinfo d, te_jwks = di_jwks d, te_scopes = os_scopes current\<rparr>))"

end
