(* ===== verification/AdminAuth.thy ===== *)
theory AdminAuth
  imports S3Router Overview Oidc
begin

text \<open>
  Who may call the administration interface: \<open>backend/internal/middleware/middleware.go\<close>, and the
  replies and helpers of \<open>backend/internal/admin/router.go\<close>. Logging and metrics are left out.
\<close>

section \<open>Networks\<close>

definition request_ip :: "request \<Rightarrow> string" where
  "request_ip req = (case split_host_port (trim_space (rq_remote req)) of
      Some host \<Rightarrow> if host \<noteq> [] then host else trim_space (rq_remote req)
    | None \<Rightarrow> trim_space (rq_remote req))"

definition ip_allowed :: "(string \<Rightarrow> ip option) \<Rightarrow> string \<Rightarrow> string list \<Rightarrow> bool" where
  "ip_allowed ip6 client_ip allowlist = (case parse_ip ip6 client_ip of
     None \<Rightarrow> False
   | Some a \<Rightarrow> list_ex (\<lambda>entry. entry = client_ip \<or> parse_ip ip6 entry = Some a \<or>
       (case parse_cidr ip6 entry of None \<Rightarrow> False | Some net \<Rightarrow> in_network net a)) allowlist)"

definition admin_ip_allowlist :: "(string \<Rightarrow> ip option) \<Rightarrow> string list \<Rightarrow> request \<Rightarrow> bool" where
  "admin_ip_allowlist ip6 allowlist req \<longleftrightarrow> allowlist = [] \<or>
     request_ip req \<noteq> [] \<and> ip_allowed ip6 (request_ip req) (filter (\<lambda>e. e \<noteq> []) (map trim_space allowlist))"

section \<open>Tokens\<close>

text \<open>The token of the request, if any, is an access token or an admin token.\<close>

definition admin_auth :: "ext \<Rightarrow> auth_config \<Rightarrow> request \<Rightarrow> (string + claims) prog" where
  "admin_auth E A req =
     (let token = trim_prefix (header_get req ''Authorization'') ''Bearer '' in
      if token = [] then ret (Inl ''missing bearer token'')
      else bnd (attempt (parse_token E A token)) (\<lambda>r. case r of
          Inr c \<Rightarrow> ret (Inr c)
        | Inl _ \<Rightarrow> bnd (attempt (authenticate_admin_token E token)) (\<lambda>r. ret (case r of
              Inr c \<Rightarrow> Inr c | Inl _ \<Rightarrow> Inl ''invalid token''))))"

section \<open>Replies\<close>

datatype admin_body =
    Empty
  | Json json
  | Page string
  | Content bytes
  | SessionBody session
  | RenewedBody string string
  | ClaimsBody claims
  | SetupBody deployment_setup
  | OidcBody oidc_settings                \<comment> \<open>without the client secret\<close>
  | OidcStatusBody oidc_status
  | OidcTestBody test_result
  | ScanModeBody string
  | SnapshotBody snapshot_view
  | StoragePolicyBody storage_policy
  | BucketBody bucket
  | BucketsBody "bucket list"
  | ObjectBody metadata
  | ObjectsBody "metadata list"
  | TagsBody smap
  | UsersBody "user_view list"
  | CredentialBody new_credential
  | CredentialsBody "credential_view list"
  | AuditBody "audit_view list"
  | SummaryBody summary
  | TargetBody target_view
  | TargetsBody "target_view list"
  | DeliveriesBody "(delivery_row \<times> string) list"
  | ScansBody "scan_item list"
  | NodeBody node
  | NodesBody "node list"
  | EnrollmentBody enrollment
  | JoinTokenBody issued_token
  | MigrationBody migration_status
  | PlacementsBody "placement_view list"
  | QuotasBody "bucket_quota_view list" "user_quota_view list"
  | RolesBody "role_view list"
  | StatementBody statement_row
  | StatementsBody "statement_row list"
  | BindingBody binding_row
  | BindingsBody "binding_row list"
  | EvaluationBody evaluation_result
  | AdminTokenBody issued_admin_token
  | AdminTokensBody "admin_token_view list"

record admin_reply =
  ar_status :: nat
  ar_headers :: "(string \<times> string) list"
  ar_body :: admin_body

record form_file =
  ff_name :: string
  ff_type :: string
  ff_size :: int
  ff_content :: bytes

record upload_form =
  uf_file :: "form_file option"
  uf_values :: "(string \<times> string) list"

text \<open>
  What the handlers use: the configuration and the services, \<open>encoding/json\<close> (the first value of
  a body), the multipart form of a request, \<open>url.Parse\<close>, \<open>Error()\<close>, the text of a JSON value and
  the times rows were last updated.
\<close>

record admin_deps =
  ad_config :: config
  ad_auth :: auth_config
  ad_topology :: topology
  ad_oidc :: oidc_env
  ad_json :: "bytes \<Rightarrow> json option"
  ad_form :: "request \<Rightarrow> upload_form option"
  ad_ip6 :: "string \<Rightarrow> ip option"
  ad_url :: "string \<Rightarrow> parsed_url option"
  ad_error :: "err \<Rightarrow> string"
  ad_text :: "json \<Rightarrow> string"
  ad_updated :: "object_row \<Rightarrow> int"

definition write_json :: "nat \<Rightarrow> admin_body \<Rightarrow> admin_reply prog" where
  "write_json status body =
     ret \<lparr>ar_status = status, ar_headers = [(''Content-Type'', ''application/json'')], ar_body = body\<rparr>"

definition error_reply :: "nat \<Rightarrow> string \<Rightarrow> admin_reply prog" where
  "error_reply status message = write_json status (Json (JObj [(''error'', JStr message)]))"

definition status_text :: "string \<Rightarrow> admin_reply prog" where
  "status_text message = write_json 200 (Json (JObj [(''status'', JStr message)]))"

definition no_content :: "admin_reply prog" where
  "no_content = ret \<lparr>ar_status = 204, ar_headers = [], ar_body = Empty\<rparr>"

definition on_result :: "'a prog \<Rightarrow> (err \<Rightarrow> 'b prog) \<Rightarrow> ('a \<Rightarrow> 'b prog) \<Rightarrow> 'b prog" where
  "on_result m on_error f = bnd (attempt m) (\<lambda>r. case r of Inl e \<Rightarrow> on_error e | Inr x \<Rightarrow> f x)"

text \<open>A call whose error is the reply with the given status.\<close>

definition or_error :: "admin_deps \<Rightarrow> nat \<Rightarrow> 'a prog \<Rightarrow> ('a \<Rightarrow> admin_reply prog) \<Rightarrow> admin_reply prog" where
  "or_error D status m f = on_result m (\<lambda>e. error_reply status (ad_error D e)) f"

definition authorized :: "admin_deps \<Rightarrow> claims \<Rightarrow> string \<Rightarrow> string \<Rightarrow> admin_reply prog \<Rightarrow> admin_reply prog" where
  "authorized D c action resource f =
     on_result (check_subject (cl_subject_type c) (cl_subject c) (cl_role c) action resource)
       (\<lambda>e. error_reply (if e = ErrForbidden then 403 else 500) (ad_error D e)) (\<lambda>_. f)"

section \<open>Request bodies\<close>

definition both_fields :: "('x \<Rightarrow> 'a option) \<Rightarrow> ('x \<Rightarrow> 'b option) \<Rightarrow> 'x \<Rightarrow> ('a \<times> 'b) option" where
  "both_fields f g x = (case (f x, g x) of (Some a, Some b) \<Rightarrow> Some (a, b) | _ \<Rightarrow> None)"

definition decode_body :: "admin_deps \<Rightarrow> ((string \<times> json) list \<Rightarrow> 'a option) \<Rightarrow> bytes \<Rightarrow> 'a option" where
  "decode_body D fields_of content = Option.bind (Option.bind (ad_json D content) struct_members) fields_of"

definition with_body :: "admin_deps \<Rightarrow> request \<Rightarrow> ((string \<times> json) list \<Rightarrow> 'a option) \<Rightarrow> ('a \<Rightarrow> admin_reply prog) \<Rightarrow> admin_reply prog" where
  "with_body D req fields_of f =
     on_result (bnd (external (ret (rq_body req))) (\<lambda>content. case decode_body D fields_of content of
          None \<Rightarrow> fail (Failure ''json'') | Some x \<Rightarrow> ret x))
       (\<lambda>_. error_reply 400 ''invalid payload'') f"

definition dec_map :: "json \<Rightarrow> smap option \<Rightarrow> smap option option" where
  "dec_map v acc = (case v of
       JObj fs \<Rightarrow> (case all_some (map (\<lambda>(k, x). map_option (Pair k) (dec_string x [])) fs) of
           None \<Rightarrow> None
         | Some kvs \<Rightarrow> Some (Some (fold (\<lambda>(k, x) m. m(k \<mapsto> x)) kvs (case acc of None \<Rightarrow> Map.empty | Some m \<Rightarrow> m))))
     | JNull \<Rightarrow> Some None
     | _ \<Rightarrow> None)"

definition map_field :: "string \<Rightarrow> (string \<times> json) list \<Rightarrow> smap option option" where
  "map_field name fs = field_with dec_map name None fs"

definition opt_int_field :: "string \<Rightarrow> (string \<times> json) list \<Rightarrow> int option option" where
  "opt_int_field name fs = field_with dec_opt_int name None fs"

definition opt_int32_field :: "string \<Rightarrow> (string \<times> json) list \<Rightarrow> int option option" where
  "opt_int32_field name fs = field_with dec_opt_int32 name None fs"

section \<open>Audit entries\<close>

definition admin_audit_as :: "request \<Rightarrow> string \<Rightarrow> string \<Rightarrow> string \<Rightarrow> string \<Rightarrow> json \<Rightarrow> unit prog" where
  "admin_audit_as req actor action resource outcome detail = ignore_error (record_audit
     \<lparr>en_actor = actor, en_action = action, en_resource = resource, en_outcome = outcome,
      en_request = header_get req ''X-Request-Id'', en_detail = detail\<rparr>)"

definition admin_audit :: "request \<Rightarrow> claims \<Rightarrow> string \<Rightarrow> string \<Rightarrow> json \<Rightarrow> unit prog" where
  "admin_audit req c action resource detail = admin_audit_as req (cl_email c) action resource ''success'' detail"

text \<open>\<open>fmt.Sprintf\<close> with \<open>%v\<close> of the values that are compared.\<close>

fun go_text :: "json \<Rightarrow> string" where
  "go_text (JStr s) = s"
| "go_text (JNum n) = itoa n"
| "go_text (JBool b) = (if b then ''true'' else ''false'')"
| "go_text JNull = ''<nil>''"
| "go_text (JArr vs) = ''['' @ join_with '' '' (map go_text vs) @ '']''"
| "go_text (JObj fs) = ''map['' @ join_with '' '' (map (\<lambda>(k, v). k @ '':'' @ go_text v) fs) @ '']''"

text \<open>A map of strings, its keys in order.\<close>

definition json_of_map :: "smap \<Rightarrow> json" where
  "json_of_map m = JObj (map (\<lambda>(k, v). (k, JStr v)) (tag_pairs m))"

definition json_strings :: "string list \<Rightarrow> json" where
  "json_strings vs = JArr (map JStr vs)"

definition json_opt :: "int option \<Rightarrow> json" where
  "json_opt v = (case v of None \<Rightarrow> JNull | Some n \<Rightarrow> JNum n)"

definition diff_settings_fields :: "(string \<times> json) list \<Rightarrow> (string \<times> json) list \<Rightarrow> string list" where
  "diff_settings_fields before after =
     map fst (filter (\<lambda>(key, v). case map_of after key of None \<Rightarrow> True | Some v' \<Rightarrow> go_text v \<noteq> go_text v') before) @
     filter (\<lambda>key. map_of before key = None) (map fst after)"

definition change_detail :: "(string \<times> json) list \<Rightarrow> (string \<times> json) list \<Rightarrow> json" where
  "change_detail before after = JObj [(''before'', JObj before), (''after'', JObj after),
     (''changedFields'', json_strings (diff_settings_fields before after))]"

section \<open>Helpers of the handlers\<close>

definition or_null :: "('a \<Rightarrow> json) \<Rightarrow> 'a option \<Rightarrow> json" where
  "or_null f x = (case x of None \<Rightarrow> JNull | Some y \<Rightarrow> f y)"

definition find_bucket_quota :: "bucket_quota_view list \<Rightarrow> string \<Rightarrow> json" where
  "find_bucket_quota items bucket_id = or_null (\<lambda>v. JObj [(''bucketId'', JStr (bv_bucket v)), (''bucketName'', JStr (bv_name v)),
     (''maxBytes'', json_opt (bv_max_bytes v)), (''maxObjects'', json_opt (bv_max_objects v)),
     (''warningThresholdPercent'', json_opt (bv_warn v))]) (find (\<lambda>v. bv_bucket v = bucket_id) items)"

definition find_user_quota :: "user_quota_view list \<Rightarrow> string \<Rightarrow> json" where
  "find_user_quota items user_id = or_null (\<lambda>v. JObj [(''userId'', JStr (uv_user v)), (''email'', JStr (uv_email v)),
     (''maxBytes'', json_opt (uv_max_bytes v)), (''warningThresholdPercent'', json_opt (uv_warn v))])
     (find (\<lambda>v. uv_user v = user_id) items)"

definition statement_json :: "statement_row \<Rightarrow> json" where
  "statement_json s = JObj [(''id'', JStr (s_id s)), (''roleName'', JStr (s_role s)), (''action'', JStr (s_action s)),
     (''resource'', JStr (s_resource s)), (''effect'', JStr (s_effect s)), (''conditions'', json_of_map (s_conds s))]"

definition find_statement :: "statement_row list \<Rightarrow> string \<Rightarrow> json" where
  "find_statement items statement_id = or_null statement_json (find (\<lambda>s. s_id s = statement_id) items)"

definition binding_json :: "binding_row \<Rightarrow> json" where
  "binding_json b = JObj [(''id'', JStr (bd_id b)), (''subjectType'', JStr (bd_type b)), (''subjectId'', JStr (bd_subject b)),
     (''resource'', JStr (bd_resource b)), (''roleName'', JStr (bd_role b))]"

definition find_binding :: "binding_row list \<Rightarrow> string \<Rightarrow> json" where
  "find_binding items binding_id = or_null binding_json (find (\<lambda>b. bd_id b = binding_id) items)"

text \<open>Times are texts in the code and numbers here.\<close>

definition user_json :: "user_view \<Rightarrow> json" where
  "user_json u = JObj [(''id'', JStr (us_id u)), (''email'', JStr (us_email u)), (''role'', JStr (us_role u)),
     (''mustChangePassword'', JBool (us_must_change u)), (''createdAt'', JNum (us_created u))]"

definition find_user :: "user_view list \<Rightarrow> string \<Rightarrow> json" where
  "find_user items user_id = or_null user_json (find (\<lambda>u. us_id u = user_id) items)"

definition credential_json :: "credential_view \<Rightarrow> json" where
  "credential_json v = JObj [(''accessKey'', JStr (cw_access v)), (''userId'', JStr (cw_user v)), (''role'', JStr (cw_role v)),
     (''description'', JStr (cw_description v)), (''lastUsedAt'', json_opt (cw_last_used v)), (''createdAt'', JNum (cw_created v))]"

definition find_credential_view :: "credential_view list \<Rightarrow> string \<Rightarrow> json" where
  "find_credential_view items access_key = or_null credential_json (find (\<lambda>v. cw_access v = access_key) items)"

definition find_storage_node :: "node list \<Rightarrow> string \<Rightarrow> node option" where
  "find_storage_node items node_id = find (\<lambda>n. nv_id n = node_id) items"

definition healthy_active :: "node \<Rightarrow> bool" where
  "healthy_active n \<longleftrightarrow> nv_state n = ''active'' \<and> nv_status n = ''healthy''"

definition should_block_node_state_change :: "node option \<Rightarrow> string \<Rightarrow> node list \<Rightarrow> bool" where
  "should_block_node_state_change current requested nodes = (case current of
     None \<Rightarrow> False
   | Some n \<Rightarrow> if \<not> healthy_active n \<or> requested = ''active'' then False
       else length (filter healthy_active nodes) \<le> 1)"

definition policy_error_status :: "err \<Rightarrow> nat" where
  "policy_error_status e =
     (if e \<in> {ErrInvalidRoleName, ErrInvalidEffect, ErrInvalidAction, ErrInvalidResource, ErrInvalidSubjectID, ErrInvalidSubjectType} then 400
      else if e \<in> {ErrStatementNotFound, ErrBindingNotFound} then 404
      else if e = ErrProtectedRoleStatement then 409 else 500)"

definition write_policy_error :: "admin_deps \<Rightarrow> err \<Rightarrow> admin_reply prog" where
  "write_policy_error D e = error_reply (policy_error_status e) (ad_error D e)"

definition admin_warning_headers :: "ext \<Rightarrow> string \<Rightarrow> string \<Rightarrow> (string \<times> string) list prog" where
  "admin_warning_headers E bucket_id user_id =
     bnd (attempt (current_warnings E bucket_id user_id)) (\<lambda>r. ret (case r of
        Inl _ \<Rightarrow> []
      | Inr ws \<Rightarrow>
          (if ws_bucket_bytes ws then [(''X-S3P-Quota-Warning-Bucket-Bytes'', ''true'')] else []) @
          (if ws_bucket_count ws then [(''X-S3P-Quota-Warning-Bucket-Objects'', ''true'')] else []) @
          (if ws_user_bytes ws then [(''X-S3P-Quota-Warning-User-Bytes'', ''true'')] else [])))"

definition replica_for_policy :: "class_policy list \<Rightarrow> string \<Rightarrow> int" where
  "replica_for_policy policies name = (case find (\<lambda>p. cp_name p = name) policies of None \<Rightarrow> 0 | Some p \<Rightarrow> cp_replicas p)"

definition object_put_input :: "form_file \<Rightarrow> string \<Rightarrow> string \<Rightarrow> string \<Rightarrow> put_input" where
  "object_put_input f key content_type created_by =
     \<lparr>pi_key = key, pi_ctype = content_type, pi_cache = [], pi_disp = [], pi_enc = [], pi_meta = None, pi_created_by = created_by,
      pi_retain = None, pi_expire = None, pi_tags = None, pi_size = (if ff_size f = 0 then -1 else ff_size f), pi_md5 = [],
      pi_body = ff_content f\<rparr>"

text \<open>Seconds times nanoseconds in 64 bits.\<close>

definition wrap64 :: "int \<Rightarrow> int" where
  "wrap64 n = sint (word_of_int n :: i64)"

definition query_limit :: "request \<Rightarrow> int \<Rightarrow> int option" where
  "query_limit req fallback = (let raw = query_get req ''limit'' in if raw = [] then Some fallback else parse_int raw)"

end
