(* ===== verification/AdminRouter.thy ===== *)
theory AdminRouter
  imports AdminAuth
begin

text \<open>
  The administration interface: the handlers of \<open>backend/internal/admin/router.go\<close>. Every handler
  is a program that gives a reply. chi hands a handler the parameters of its path: \<open>endpoint\<close> has
  one constructor per registered route. The audit and event calls whose errors the code drops are
  dropped here.
\<close>

section \<open>Sessions\<close>

definition post_login :: "ext \<Rightarrow> admin_deps \<Rightarrow> request \<Rightarrow> admin_reply prog" where
  "post_login E D req =
     with_body D req (both_fields (str_field ''email'') (str_field ''password'')) (\<lambda>(email, password).
     on_result (login E (ad_auth D) email password)
       (\<lambda>e. if e = ErrInvalidCredentials then error_reply 401 ''invalid credentials'' else error_reply 500 ''login failed'') (\<lambda>response.
     bnd (admin_audit_as req email ''auth.login'' ''session'' ''success'' (JObj [(''email'', JStr email)])) (\<lambda>_.
     write_json 200 (SessionBody response))))"

definition post_refresh :: "ext \<Rightarrow> admin_deps \<Rightarrow> request \<Rightarrow> admin_reply prog" where
  "post_refresh E D req =
     with_body D req (str_field ''refreshToken'') (\<lambda>refresh_token.
     or_error D 401 (refresh E (ad_auth D) refresh_token) (\<lambda>(access, renewed).
     bnd (admin_audit_as req ''refresh-token'' ''auth.refresh'' ''session'' ''success'' JNull) (\<lambda>_.
     write_json 200 (RenewedBody access renewed))))"

definition post_logout :: "ext \<Rightarrow> admin_deps \<Rightarrow> request \<Rightarrow> admin_reply prog" where
  "post_logout E D req =
     with_body D req (str_field ''refreshToken'') (\<lambda>refresh_token.
     if refresh_token = [] then error_reply 400 ''refreshToken is required''
     else
     on_result (logout E refresh_token) (\<lambda>_. error_reply 500 ''logout failed'') (\<lambda>_.
     bnd (admin_audit_as req ''refresh-token'' ''auth.logout'' ''session'' ''success'' JNull) (\<lambda>_.
     status_text ''logged_out'')))"

definition post_change_password :: "ext \<Rightarrow> admin_deps \<Rightarrow> claims \<Rightarrow> request \<Rightarrow> admin_reply prog" where
  "post_change_password E D c req =
     with_body D req (both_fields (str_field ''currentPassword'') (str_field ''newPassword'')) (\<lambda>(current, next).
     if current = [] \<or> next = [] then error_reply 400 ''currentPassword and newPassword are required''
     else
     or_error D 400 (change_password E (cl_user c) current next) (\<lambda>_.
     bnd (admin_audit req c ''auth.change-password'' (cl_email c) JNull) (\<lambda>_. status_text ''updated'')))"

definition post_logout_all :: "ext \<Rightarrow> admin_deps \<Rightarrow> claims \<Rightarrow> request \<Rightarrow> admin_reply prog" where
  "post_logout_all E D c req =
     on_result (logout_all E (cl_user c)) (\<lambda>_. error_reply 500 ''logout failed'') (\<lambda>_.
     bnd (admin_audit req c ''auth.logout-all'' (cl_email c) JNull) (\<lambda>_. status_text ''logged_out''))"

section \<open>Login with an identity provider\<close>

definition get_oidc_status :: "ext \<Rightarrow> admin_deps \<Rightarrow> admin_reply prog" where
  "get_oidc_status E D =
     bnd (oidc_status E (ad_oidc D) (ad_config D)) (\<lambda>status. write_json 200 (OidcStatusBody status))"

text \<open>A reply, and the provider the service keeps in memory.\<close>

definition with_kept :: "admin_deps \<Rightarrow> provider_cache \<Rightarrow> ((err + 'a) \<times> provider_cache) prog \<Rightarrow> ('a \<Rightarrow> admin_reply prog) \<Rightarrow>
    (admin_reply \<times> provider_cache) prog" where
  "with_kept D cache m f =
     bnd (attempt m) (\<lambda>r. case (case r of Inl e \<Rightarrow> (Inl e, cache) | Inr rc \<Rightarrow> rc) of
        (Inl e, cache') \<Rightarrow> bnd (error_reply 400 (ad_error D e)) (\<lambda>reply. ret (reply, cache'))
      | (Inr x, cache') \<Rightarrow> bnd (f x) (\<lambda>reply. ret (reply, cache')))"

definition post_oidc_start :: "ext \<Rightarrow> admin_deps \<Rightarrow> provider_cache \<Rightarrow> (admin_reply \<times> provider_cache) prog" where
  "post_oidc_start E D cache = with_kept D cache (start_login E (ad_oidc D) (ad_config D) cache)
     (\<lambda>start_url. write_json 200 (Json (JObj [(''url'', JStr start_url)])))"

definition get_oidc_start :: "ext \<Rightarrow> admin_deps \<Rightarrow> provider_cache \<Rightarrow> (admin_reply \<times> provider_cache) prog" where
  "get_oidc_start E D cache = with_kept D cache (start_login E (ad_oidc D) (ad_config D) cache)
     (\<lambda>start_url. ret \<lparr>ar_status = 302, ar_headers = [(''Location'', start_url)], ar_body = Empty\<rparr>)"

definition get_oidc_callback :: "ext \<Rightarrow> admin_deps \<Rightarrow> provider_cache \<Rightarrow> request \<Rightarrow> (admin_reply \<times> provider_cache) prog" where
  "get_oidc_callback E D cache req =
     with_kept D cache (login_callback E (ad_oidc D) (ad_config D) (ad_auth D) cache (query_get req ''code'') (query_get req ''state''))
       (\<lambda>page. ret \<lparr>ar_status = 200, ar_headers = [(''Content-Type'', ''text/html; charset=utf-8'')], ar_body = Page page\<rparr>)"

section \<open>Settings\<close>

definition oidc_fields :: "oidc_settings \<Rightarrow> (string \<times> json) list" where
  "oidc_fields s = [(''enabled'', JBool (os_enabled s)), (''issuerUrl'', JStr (os_issuer s)), (''clientId'', JStr (os_client s)),
     (''redirectUrl'', JStr (os_redirect s)), (''clientSecretConfigured'', JBool (os_configured s)),
     (''scopes'', json_strings (os_scopes s)), (''roleClaim'', JStr (os_claim s)), (''defaultRole'', JStr (os_default s)),
     (''roleMap'', json_of_map (os_roles s))]"

definition oidc_input_fields :: "(string \<times> json) list \<Rightarrow> oidc_input option" where
  "oidc_input_fields fs = map_option
     (\<lambda>(enabled, issuer, client, secret, redirect, scopes, claim, default_role, roles).
        \<lparr>oin_enabled = enabled, oin_issuer = issuer, oin_client = client, oin_secret = secret, oin_redirect = redirect,
         oin_scopes = scopes, oin_claim = claim, oin_default = default_role, oin_roles = roles\<rparr>)
     (both_fields (bool_field ''enabled'') (both_fields (str_field ''issuerUrl'') (both_fields (str_field ''clientId'')
       (both_fields (str_field ''clientSecret'') (both_fields (str_field ''redirectUrl'') (both_fields (strings_field ''scopes'')
       (both_fields (str_field ''roleClaim'') (both_fields (str_field ''defaultRole'') (entries_field ''roleMap'')))))))) fs)"

definition patch_oidc :: "ext \<Rightarrow> admin_deps \<Rightarrow> claims \<Rightarrow> request \<Rightarrow> admin_reply prog" where
  "patch_oidc E D c req =
     authorized D c ''settings.manage'' ''*'' (
     or_error D 500 (resolve_oidc_settings E (ad_config D)) (\<lambda>before.
     with_body D req oidc_input_fields (\<lambda>input.
     or_error D 400 (update_oidc_settings E (ad_config D) input) (\<lambda>item.
     bnd (admin_audit req c ''settings.oidc.update'' ''oidc'' (change_detail (oidc_fields before) (oidc_fields item))) (\<lambda>_.
     write_json 200 (OidcBody item))))))"

definition patch_malware :: "admin_deps \<Rightarrow> claims \<Rightarrow> request \<Rightarrow> admin_reply prog" where
  "patch_malware D c req =
     authorized D c ''settings.manage'' ''*'' (
     or_error D 500 (resolve_malware_settings (service_config_of (ad_config D))) (\<lambda>before.
     with_body D req (str_field ''scanMode'') (\<lambda>scan_mode.
     or_error D 400 (update_malware_settings (service_config_of (ad_config D)) scan_mode) (\<lambda>item.
     bnd (admin_audit req c ''settings.malware.update'' ''malware''
       (change_detail [(''scanMode'', JStr before)] [(''scanMode'', JStr item)])) (\<lambda>_.
     write_json 200 (ScanModeBody item))))))"

definition post_clear_oidc_secret :: "ext \<Rightarrow> admin_deps \<Rightarrow> claims \<Rightarrow> request \<Rightarrow> admin_reply prog" where
  "post_clear_oidc_secret E D c req =
     authorized D c ''settings.manage'' ''*'' (
     or_error D 500 (resolve_oidc_settings E (ad_config D)) (\<lambda>before.
     or_error D 500 (clear_oidc_client_secret E (ad_config D)) (\<lambda>item.
     bnd (admin_audit req c ''settings.oidc.clear-secret'' ''oidc''
       (JObj [(''before'', JObj [(''clientSecretConfigured'', JBool (os_configured before))]),
              (''after'', JObj [(''clientSecretConfigured'', JBool (os_configured item))]),
              (''changedFields'', json_strings [''clientSecretConfigured''])])) (\<lambda>_.
     write_json 200 (OidcBody item)))))"

definition oidc_test_status :: "string \<Rightarrow> nat" where
  "oidc_test_status message =
     (if has_prefix (to_lower message) ''get '' \<or> occurs_in ''oidc:'' (to_lower message) then 502 else 400)"

definition post_oidc_test :: "ext \<Rightarrow> admin_deps \<Rightarrow> claims \<Rightarrow> request \<Rightarrow> admin_reply prog" where
  "post_oidc_test E D c req =
     authorized D c ''settings.manage'' ''*'' (
     on_result (test_connection E (ad_oidc D) (ad_config D))
       (\<lambda>e. bnd (admin_audit_as req (cl_email c) ''settings.oidc.test'' ''oidc'' ''failure'' (JObj [(''error'', JStr (ad_error D e))])) (\<lambda>_.
            error_reply (oidc_test_status (ad_error D e)) (ad_error D e))) (\<lambda>item.
     bnd (admin_audit req c ''settings.oidc.test'' ''oidc''
       (JObj [(''issuerUrl'', JStr (te_issuer item)), (''authorizationEndpoint'', JStr (te_authorization item)),
              (''tokenEndpoint'', JStr (te_token item)), (''jwksUrl'', JStr (te_jwks item))])) (\<lambda>_.
     write_json 200 (OidcTestBody item))))"

definition get_setup_status :: "admin_deps \<Rightarrow> admin_reply prog" where
  "get_setup_status D = or_error D 500 (deployment_setup_status (ad_config D)) (\<lambda>status. write_json 200 (SetupBody status))"

definition post_setup_complete :: "admin_deps \<Rightarrow> claims \<Rightarrow> request \<Rightarrow> admin_reply prog" where
  "post_setup_complete D c req =
     authorized D c ''settings.manage'' ''*'' (
     with_body D req (both_fields (str_field ''mode'') (both_fields (str_field ''distributedMode'') (strings_field ''remoteEndpoints'')))
       (\<lambda>(mode, distributed_mode, remote).
     or_error D 400 (complete_deployment_setup (ad_url D) (ad_config D)
         \<lparr>si_mode = mode, si_distributed = distributed_mode, si_remote = remote\<rparr>) (\<lambda>status.
     bnd (admin_audit req c ''setup.complete'' ''deployment''
       (JObj [(''desiredStorageBackend'', JStr (ds_backend status)), (''distributedScope'', JStr (ds_scope status)),
              (''remoteEndpoints'', json_strings (ds_remote status)), (''applyRequired'', JBool (ds_apply status))])) (\<lambda>_.
     write_json 200 (SetupBody status)))))"

definition get_settings :: "ext \<Rightarrow> admin_deps \<Rightarrow> claims \<Rightarrow> admin_reply prog" where
  "get_settings E D c = authorized D c ''settings.read'' ''*'' (
     or_error D 500 (settings_snapshot E (ad_config D)) (\<lambda>s. write_json 200 (SnapshotBody s)))"

definition storage_policy_fields :: "storage_policy \<Rightarrow> (string \<times> json) list" where
  "storage_policy_fields p = [(''defaultStorageClass'', JStr (spv_default p)),
     (''standardReplicas'', JNum (replica_for_policy (spv_policies p) ''standard'')),
     (''reducedRedundancyReplicas'', JNum (replica_for_policy (spv_policies p) ''reduced-redundancy'')),
     (''archiveReadyReplicas'', JNum (replica_for_policy (spv_policies p) ''archive-ready''))]"

definition patch_storage_policy :: "admin_deps \<Rightarrow> claims \<Rightarrow> request \<Rightarrow> admin_reply prog" where
  "patch_storage_policy D c req =
     authorized D c ''settings.manage'' ''*'' (
     or_error D 500 (resolve_storage_policy (service_config_of (ad_config D))) (\<lambda>before.
     with_body D req (both_fields (str_field ''defaultStorageClass'') (both_fields (int_field ''standardReplicas'')
         (both_fields (int_field ''reducedRedundancyReplicas'') (int_field ''archiveReadyReplicas''))))
       (\<lambda>(default_class, standard, reduced, archive).
     or_error D 400 (update_storage_policy (service_config_of (ad_config D)) default_class
         (\<lambda>k. if k = ''standard'' then standard else if k = ''reduced-redundancy'' then reduced
              else if k = ''archive-ready'' then archive else 0)) (\<lambda>policy.
     bnd (admin_audit req c ''settings.storage-policy.update'' ''cluster-storage-policy''
       (change_detail (storage_policy_fields before) (storage_policy_fields policy))) (\<lambda>_.
     write_json 200 (StoragePolicyBody policy))))))"

section \<open>Buckets\<close>

definition bucket_scope :: "string \<Rightarrow> string" where
  "bucket_scope bucket_id = ''bucket:'' @ bucket_id"

definition get_buckets :: "admin_deps \<Rightarrow> claims \<Rightarrow> admin_reply prog" where
  "get_buckets D c = authorized D c ''bucket.list'' ''*'' (
     or_error D 500 (list_buckets (service_config_of (ad_config D))) (\<lambda>items. write_json 200 (BucketsBody items)))"

definition post_bucket :: "ext \<Rightarrow> admin_deps \<Rightarrow> claims \<Rightarrow> request \<Rightarrow> admin_reply prog" where
  "post_bucket E D c req =
     authorized D c ''bucket.create'' ''*'' (
     with_body D req (both_fields (str_field ''name'') (both_fields (str_field ''storageClass'') (int_field ''replicaTarget'')))
       (\<lambda>(name, class_name, target).
     or_error D 400 (create_bucket E (service_config_of (ad_config D)) name ''default'' (cl_user c) class_name target) (\<lambda>item.
     bnd (admin_audit req c ''bucket.create'' name
       (JObj [(''bucketId'', JStr (bk_id item)), (''storageClass'', JStr (bk_class item)), (''replicaTarget'', JNum (bk_replica_target item)),
              (''effectiveStorageClass'', JStr (bk_effective_class item)), (''effectiveReplicaTarget'', JNum (bk_effective_replicas item))])) (\<lambda>_.
     bnd (ignore_error (emit E ''bucket.created''
       (JObj [(''bucketId'', JStr (bk_id item)), (''bucketName'', JStr (bk_name item))]))) (\<lambda>_.
     write_json 201 (BucketBody item))))))"

definition get_bucket_item :: "ext \<Rightarrow> admin_deps \<Rightarrow> claims \<Rightarrow> string \<Rightarrow> admin_reply prog" where
  "get_bucket_item E D c bucket_id = authorized D c ''bucket.list'' ''*'' (
     or_error D 404 (get_bucket_by_id E (service_config_of (ad_config D)) bucket_id) (\<lambda>item. write_json 200 (BucketBody item)))"

definition patch_durability :: "ext \<Rightarrow> admin_deps \<Rightarrow> claims \<Rightarrow> request \<Rightarrow> string \<Rightarrow> admin_reply prog" where
  "patch_durability E D c req bucket_id =
     authorized D c ''bucket.create'' ''*'' (
     with_body D req (both_fields (str_field ''storageClass'') (int_field ''replicaTarget'')) (\<lambda>(class_name, target).
     or_error D 400 (update_durability E (service_config_of (ad_config D)) bucket_id class_name target) (\<lambda>item.
     bnd (admin_audit req c ''bucket.durability.update'' (bk_name item)
       (JObj [(''bucketId'', JStr (bk_id item)), (''storageClass'', JStr (bk_class item)), (''replicaTarget'', JNum (bk_replica_target item))])) (\<lambda>_.
     write_json 200 (BucketBody item)))))"

section \<open>Objects\<close>

definition get_objects :: "ext \<Rightarrow> admin_deps \<Rightarrow> claims \<Rightarrow> request \<Rightarrow> string \<Rightarrow> admin_reply prog" where
  "get_objects E D c req bucket_id = authorized D c ''object.list'' (bucket_scope bucket_id) (
     or_error D 500 (list_objects E bucket_id (query_get req ''prefix'')) (\<lambda>items. write_json 200 (ObjectsBody items)))"

text \<open>The handlers that need a key in the query.\<close>

definition with_key :: "request \<Rightarrow> (string \<Rightarrow> admin_reply prog) \<Rightarrow> admin_reply prog" where
  "with_key req f = (let key = query_get req ''key'' in if key = [] then error_reply 400 ''key is required'' else f key)"

definition get_object_versions :: "ext \<Rightarrow> admin_deps \<Rightarrow> claims \<Rightarrow> request \<Rightarrow> string \<Rightarrow> admin_reply prog" where
  "get_object_versions E D c req bucket_id = authorized D c ''object.list'' (bucket_scope bucket_id) (
     with_key req (\<lambda>key.
     or_error D 500 (list_versions E bucket_id key) (\<lambda>items. write_json 200 (ObjectsBody items))))"

definition post_restore :: "ext \<Rightarrow> admin_deps \<Rightarrow> claims \<Rightarrow> request \<Rightarrow> string \<Rightarrow> admin_reply prog" where
  "post_restore E D c req bucket_id =
     authorized D c ''object.restore'' (bucket_scope bucket_id) (
     with_body D req (str_field ''key'') (\<lambda>key.
     if key = [] then error_reply 400 ''key is required''
     else
     on_result (restore_latest E bucket_id key)
       (\<lambda>e. error_reply (if e = ErrNoRestorableVersion then 409 else 500) (ad_error D e)) (\<lambda>item.
     bnd (admin_audit req c ''object.restore'' key
       (JObj [(''bucketId'', JStr bucket_id), (''versionId'', JStr (md_version item))])) (\<lambda>_.
     bnd (ignore_error (emit E ''object.restored''
       (JObj [(''bucketId'', JStr bucket_id), (''key'', JStr key), (''objectId'', JStr (md_id item)), (''versionId'', JStr (md_version item))]))) (\<lambda>_.
     write_json 200 (ObjectBody item))))))"

definition get_object_tags :: "ext \<Rightarrow> admin_deps \<Rightarrow> claims \<Rightarrow> request \<Rightarrow> string \<Rightarrow> admin_reply prog" where
  "get_object_tags E D c req bucket_id = authorized D c ''object.get'' (bucket_scope bucket_id) (
     with_key req (\<lambda>key.
     or_error D 404 (get_tags E (service_config_of (ad_config D)) bucket_id key (query_get req ''versionId'')) (\<lambda>tags.
     write_json 200 (TagsBody tags))))"

definition put_object_tags :: "ext \<Rightarrow> admin_deps \<Rightarrow> claims \<Rightarrow> request \<Rightarrow> string \<Rightarrow> admin_reply prog" where
  "put_object_tags E D c req bucket_id =
     authorized D c ''object.put'' (bucket_scope bucket_id) (
     with_body D req (both_fields (str_field ''key'') (both_fields (str_field ''versionId'') (map_field ''tags''))) (\<lambda>(key, version_id, tags).
     if key = [] then error_reply 400 ''key is required''
     else
     or_error D 404 (put_tags E bucket_id key version_id tags) (\<lambda>item.
     bnd (admin_audit req c ''object.tagging.put'' key
       (JObj [(''bucketId'', JStr bucket_id), (''versionId'', JStr (md_version item)), (''tagCount'', JNum (tag_count (md_tags item)))])) (\<lambda>_.
     write_json 200 (ObjectBody item)))))"

definition put_legal_hold :: "ext \<Rightarrow> admin_deps \<Rightarrow> claims \<Rightarrow> request \<Rightarrow> string \<Rightarrow> admin_reply prog" where
  "put_legal_hold E D c req bucket_id =
     authorized D c ''object.delete'' (bucket_scope bucket_id) (
     with_body D req (both_fields (str_field ''key'') (both_fields (str_field ''versionId'') (bool_field ''legalHold''))) (\<lambda>(key, version_id, hold).
     if key = [] then error_reply 400 ''key is required''
     else
     or_error D 404 (set_legal_hold E bucket_id key version_id hold) (\<lambda>item.
     bnd (admin_audit req c ''object.legal-hold.put'' key
       (JObj [(''bucketId'', JStr bucket_id), (''versionId'', JStr (md_version item)), (''legalHold'', JBool (md_hold item))])) (\<lambda>_.
     write_json 200 (ObjectBody item)))))"

record copy_form =
  cy_bucket :: string
  cy_key :: string
  cy_version :: string
  cy_target :: string
  cy_replace_meta :: bool
  cy_replace_tags :: bool
  cy_ctype :: string
  cy_cache :: string
  cy_disp :: string
  cy_enc :: string
  cy_meta :: "smap option"
  cy_tags :: "smap option"

definition copy_fields :: "(string \<times> json) list \<Rightarrow> copy_form option" where
  "copy_fields fs = map_option
     (\<lambda>(source, key, version, target, replace_meta, replace_tags, ctype, cache, disp, enc, meta, tags).
        \<lparr>cy_bucket = source, cy_key = key, cy_version = version, cy_target = target, cy_replace_meta = replace_meta,
         cy_replace_tags = replace_tags, cy_ctype = ctype, cy_cache = cache, cy_disp = disp, cy_enc = enc, cy_meta = meta, cy_tags = tags\<rparr>)
     (both_fields (str_field ''sourceBucketId'') (both_fields (str_field ''sourceKey'') (both_fields (str_field ''sourceVersionId'')
       (both_fields (str_field ''destinationKey'') (both_fields (bool_field ''replaceMetadata'') (both_fields (bool_field ''replaceTags'')
       (both_fields (str_field ''contentType'') (both_fields (str_field ''cacheControl'') (both_fields (str_field ''contentDisposition'')
       (both_fields (str_field ''contentEncoding'') (both_fields (map_field ''userMetadata'') (map_field ''tags''))))))))))) fs)"

definition copy_form_input :: "claims \<Rightarrow> copy_form \<Rightarrow> put_input" where
  "copy_form_input c b =
     (let replaced = (\<lambda>s. if cy_replace_meta b then s else []) in
      \<lparr>pi_key = cy_target b, pi_ctype = replaced (cy_ctype b), pi_cache = replaced (cy_cache b), pi_disp = replaced (cy_disp b),
       pi_enc = replaced (cy_enc b), pi_meta = (if cy_replace_meta b then cy_meta b else None), pi_created_by = cl_user c,
       pi_retain = None, pi_expire = None, pi_tags = (if cy_replace_tags b then cy_tags b else None),
       pi_size = 0, pi_md5 = [], pi_body = []\<rparr>)"

definition write_failed :: "admin_deps \<Rightarrow> err \<Rightarrow> admin_reply prog" where
  "write_failed D e = error_reply (if e = ErrQuotaExceeded then 409 else 400) (ad_error D e)"

definition created_with :: "(string \<times> string) list \<Rightarrow> admin_body \<Rightarrow> admin_reply prog" where
  "created_with headers body = ret \<lparr>ar_status = 201, ar_headers = headers @ [(''Content-Type'', ''application/json'')], ar_body = body\<rparr>"

definition post_copy :: "ext \<Rightarrow> admin_deps \<Rightarrow> claims \<Rightarrow> request \<Rightarrow> string \<Rightarrow> admin_reply prog" where
  "post_copy E D c req bucket_id =
     authorized D c ''object.put'' (bucket_scope bucket_id) (
     with_body D req copy_fields (\<lambda>b.
     if cy_bucket b = [] \<or> cy_key b = [] \<or> cy_target b = [] then error_reply 400 ''sourceBucketId, sourceKey, and destinationKey are required''
     else
     authorized D c ''object.get'' (bucket_scope (cy_bucket b)) (
     on_result (copy_object E (service_config_of (ad_config D)) (cy_bucket b) (cy_key b) (cy_version b) bucket_id (copy_form_input c b))
       (write_failed D) (\<lambda>item.
     bnd (admin_warning_headers E bucket_id (cl_user c)) (\<lambda>warnings.
     bnd (admin_audit req c ''object.copy'' (cy_target b)
       (JObj [(''bucketId'', JStr bucket_id), (''versionId'', JStr (md_version item)), (''sourceBucketId'', JStr (cy_bucket b)),
              (''sourceKey'', JStr (cy_key b))])) (\<lambda>_.
     bnd (ignore_error (emit E ''object.copied''
       (JObj [(''bucketId'', JStr bucket_id), (''key'', JStr (cy_target b)), (''objectId'', JStr (md_id item)),
              (''sourceBucketId'', JStr (cy_bucket b)), (''sourceKey'', JStr (cy_key b))]))) (\<lambda>_.
     created_with warnings (ObjectBody item))))))))"

definition post_upload :: "ext \<Rightarrow> admin_deps \<Rightarrow> claims \<Rightarrow> request \<Rightarrow> string \<Rightarrow> admin_reply prog" where
  "post_upload E D c req bucket_id =
     authorized D c ''object.put'' (bucket_scope bucket_id) (
     on_result (bnd (external (ret ())) (\<lambda>_. case ad_form D req of None \<Rightarrow> fail (Failure ''form'') | Some form \<Rightarrow> ret form))
       (\<lambda>_. error_reply 400 ''invalid multipart payload'') (\<lambda>form.
     case uf_file form of
       None \<Rightarrow> error_reply 400 ''file is required''
     | Some f \<Rightarrow>
         let form_value = (\<lambda>name. first_of (rq_query req @ uf_values form) name);
             key = (if form_value ''key'' = [] then ff_name f else form_value ''key'');
             content_type = (if ff_type f = [] then form_value ''contentType'' else ff_type f) in
         on_result (put_object E (service_config_of (ad_config D)) bucket_id (object_put_input f key content_type (cl_user c)))
           (write_failed D) (\<lambda>item.
         bnd (admin_warning_headers E bucket_id (cl_user c)) (\<lambda>warnings.
         bnd (admin_audit req c ''object.put'' key (JObj [(''bucketId'', JStr bucket_id), (''objectId'', JStr (md_id item))])) (\<lambda>_.
         bnd (ignore_error (emit E ''object.created''
           (JObj [(''bucketId'', JStr bucket_id), (''key'', JStr key), (''objectId'', JStr (md_id item))]))) (\<lambda>_.
         created_with warnings (ObjectBody item)))))))"

definition download_headers :: "metadata \<Rightarrow> (string \<times> string) list" where
  "download_headers m =
     [(''Content-Type'', md_ctype m), (''Content-Length'', itoa (md_size m)), (''ETag'', quote_etag (md_etag m)),
      (''Content-Disposition'', if md_disp m \<noteq> [] then md_disp m
         else ''attachment; filename='' @ [CHR 0x22] @ md_key m @ [CHR 0x22])] @
     (if md_cache m \<noteq> [] then [(''Cache-Control'', md_cache m)] else []) @
     (if md_enc m \<noteq> [] then [(''Content-Encoding'', md_enc m)] else [])"

definition get_download :: "ext \<Rightarrow> admin_deps \<Rightarrow> claims \<Rightarrow> request \<Rightarrow> string \<Rightarrow> admin_reply prog" where
  "get_download E D c req bucket_id = authorized D c ''object.get'' (bucket_scope bucket_id) (
     with_key req (\<lambda>key.
     let version_id = query_get req ''versionId'' in
     or_error D 404 (if version_id = [] then get_by_key E (service_config_of (ad_config D)) bucket_id key
         else get_version E (service_config_of (ad_config D)) bucket_id key version_id) (\<lambda>(item, content).
     ret \<lparr>ar_status = 200, ar_headers = download_headers item, ar_body = Content content\<rparr>)))"

definition delete_object_request :: "ext \<Rightarrow> admin_deps \<Rightarrow> claims \<Rightarrow> request \<Rightarrow> string \<Rightarrow> admin_reply prog" where
  "delete_object_request E D c req bucket_id = authorized D c ''object.delete'' (bucket_scope bucket_id) (
     with_key req (\<lambda>key.
     on_result (delete_object E bucket_id key)
       (\<lambda>e. error_reply (if e = ErrRetentionActive \<or> e = ErrLegalHoldActive then 409 else 404) (ad_error D e)) (\<lambda>_.
     bnd (admin_audit req c ''object.delete'' key (JObj [(''bucketId'', JStr bucket_id)])) (\<lambda>_.
     bnd (ignore_error (emit E ''object.deleted'' (JObj [(''bucketId'', JStr bucket_id), (''key'', JStr key)]))) (\<lambda>_.
     no_content)))))"

section \<open>Users, credentials and tokens\<close>

definition get_users :: "admin_deps \<Rightarrow> claims \<Rightarrow> admin_reply prog" where
  "get_users D c = authorized D c ''user.manage'' ''*'' (or_error D 500 list_users (\<lambda>items. write_json 200 (UsersBody items)))"

definition post_credential :: "ext \<Rightarrow> admin_deps \<Rightarrow> claims \<Rightarrow> request \<Rightarrow> admin_reply prog" where
  "post_credential E D c req =
     authorized D c ''credential.create'' ''*'' (
     with_body D req (both_fields (str_field ''userId'') (both_fields (str_field ''role'') (str_field ''description'')))
       (\<lambda>(user_id, role, description).
     or_error D 500 (create_credential E user_id role description) (\<lambda>item.
     bnd (admin_audit req c ''credential.create'' role
       (JObj [(''accessKey'', JStr (nc_access item)), (''userId'', JStr user_id), (''role'', JStr role), (''description'', JStr description)])) (\<lambda>_.
     bnd (ignore_error (emit E ''credential.created''
       (JObj [(''description'', JStr description), (''role'', JStr role), (''userId'', JStr user_id)]))) (\<lambda>_.
     write_json 201 (CredentialBody item))))))"

definition get_credentials :: "admin_deps \<Rightarrow> claims \<Rightarrow> admin_reply prog" where
  "get_credentials D c = authorized D c ''credential.create'' ''*'' (
     or_error D 500 list_credentials (\<lambda>items. write_json 200 (CredentialsBody items)))"

text \<open>After the update the list is read again for the audit entry, which is left out when that fails.\<close>

definition patch_user_role :: "ext \<Rightarrow> admin_deps \<Rightarrow> claims \<Rightarrow> request \<Rightarrow> string \<Rightarrow> admin_reply prog" where
  "patch_user_role E D c req user_id =
     authorized D c ''role.manage'' ''*'' (
     with_body D req (str_field ''role'') (\<lambda>role.
     if role = [] then error_reply 400 ''role is required''
     else
     or_error D 500 list_users (\<lambda>before.
     or_error D 500 (update_user_role E user_id role) (\<lambda>_.
     bnd (on_result list_users (\<lambda>_. ret ()) (\<lambda>after.
       admin_audit req c ''user.role.update'' user_id
         (JObj [(''before'', find_user before user_id), (''after'', find_user after user_id)]))) (\<lambda>_.
     status_text ''updated'')))))"

definition patch_credential_role :: "admin_deps \<Rightarrow> claims \<Rightarrow> request \<Rightarrow> string \<Rightarrow> admin_reply prog" where
  "patch_credential_role D c req access_key =
     authorized D c ''role.manage'' ''*'' (
     with_body D req (str_field ''role'') (\<lambda>role.
     if role = [] then error_reply 400 ''role is required''
     else
     or_error D 500 list_credentials (\<lambda>before.
     or_error D 500 (update_credential_role access_key role) (\<lambda>_.
     bnd (on_result list_credentials (\<lambda>_. ret ()) (\<lambda>after.
       admin_audit req c ''credential.role.update'' access_key
         (JObj [(''before'', find_credential_view before access_key), (''after'', find_credential_view after access_key)]))) (\<lambda>_.
     status_text ''updated'')))))"

definition get_admin_tokens :: "admin_deps \<Rightarrow> claims \<Rightarrow> admin_reply prog" where
  "get_admin_tokens D c = authorized D c ''admin-token.read'' ''*'' (
     or_error D 500 (list_admin_tokens 100) (\<lambda>items. write_json 200 (AdminTokensBody items)))"

definition post_admin_token :: "ext \<Rightarrow> admin_deps \<Rightarrow> claims \<Rightarrow> request \<Rightarrow> admin_reply prog" where
  "post_admin_token E D c req =
     authorized D c ''admin-token.create'' ''*'' (
     with_body D req (both_fields (str_field ''role'') (both_fields (str_field ''description'') (int_field ''expiresInDays'')))
       (\<lambda>(role0, description, days0).
     let role = (if role0 = [] then cl_role c else role0); days = (if days0 \<le> 0 then 30 else days0) in
     if cl_role c \<noteq> ''superadmin'' \<and> role \<noteq> cl_role c then error_reply 403 ''cannot create admin token for a different role''
     else if days > 365 then error_reply 400 ''expiresInDays must be 365 or less''
     else
     bnd now (\<lambda>t.
     or_error D 500 (create_admin_token E (cl_user c) role description (t + days * 24 * 3600 * 1000000000)) (\<lambda>item.
     bnd (admin_audit req c ''admin-token.create'' role
       (JObj [(''description'', JStr description), (''expiresInDays'', JNum days)])) (\<lambda>_.
     write_json 201 (AdminTokenBody item))))))"

section \<open>Audit, events, scans and health\<close>

text \<open>The limit of the query; a text that is no number is an error.\<close>

definition with_limit :: "request \<Rightarrow> (int \<Rightarrow> admin_reply prog) \<Rightarrow> admin_reply prog" where
  "with_limit req f = (case query_limit req 100 of None \<Rightarrow> error_reply 400 ''invalid limit'' | Some limit \<Rightarrow> f limit)"

definition get_audit :: "admin_deps \<Rightarrow> claims \<Rightarrow> request \<Rightarrow> admin_reply prog" where
  "get_audit D c req = authorized D c ''audit.read'' ''*'' (
     with_limit req (\<lambda>limit.
     or_error D 500 (list_audit (ad_text D)
         \<lparr>fi_actor = query_get req ''actor'', fi_action = query_get req ''action'', fi_outcome = query_get req ''outcome'',
          fi_category = query_get req ''category'', fi_severity = query_get req ''severity'', fi_query = query_get req ''query'',
          fi_limit = limit\<rparr>) (\<lambda>items. write_json 200 (AuditBody items))))"

definition get_health :: "admin_deps \<Rightarrow> claims \<Rightarrow> admin_reply prog" where
  "get_health D c = authorized D c ''health.read'' ''*'' (status_text ''ok'')"

definition get_dashboard :: "admin_deps \<Rightarrow> claims \<Rightarrow> admin_reply prog" where
  "get_dashboard D c = authorized D c ''health.read'' ''*'' (
     or_error D 500 (dashboard_summary (service_config_of (ad_config D))) (\<lambda>s. write_json 200 (SummaryBody s)))"

definition get_event_targets :: "admin_deps \<Rightarrow> claims \<Rightarrow> admin_reply prog" where
  "get_event_targets D c = authorized D c ''event.read'' ''*'' (
     or_error D 500 list_targets (\<lambda>items. write_json 200 (TargetsBody items)))"

definition post_event_target :: "ext \<Rightarrow> admin_deps \<Rightarrow> claims \<Rightarrow> request \<Rightarrow> admin_reply prog" where
  "post_event_target E D c req =
     authorized D c ''event.manage'' ''*'' (
     with_body D req (both_fields (str_field ''name'') (both_fields (str_field ''endpointUrl'')
         (both_fields (str_field ''signingSecret'') (strings_field ''eventTypes'')))) (\<lambda>(name, endpoint_url, secret, event_types).
     if name = [] \<or> endpoint_url = [] then error_reply 400 ''name and endpointUrl are required''
     else
     or_error D 500 (create_target E name endpoint_url secret event_types) (\<lambda>item.
     bnd (admin_audit req c ''event-target.create'' (tv_name item)
       (JObj [(''targetId'', JStr (tv_id item)), (''targetType'', JStr (tv_type item)), (''endpointUrl'', JStr (tv_url item)),
              (''eventTypes'', json_strings (tv_events item)), (''secretStored'', JBool (secret \<noteq> []))])) (\<lambda>_.
     write_json 201 (TargetBody item)))))"

definition get_event_deliveries :: "ext \<Rightarrow> admin_deps \<Rightarrow> claims \<Rightarrow> request \<Rightarrow> admin_reply prog" where
  "get_event_deliveries E D c req = authorized D c ''event.read'' ''*'' (
     with_limit req (\<lambda>limit.
     or_error D 500 (list_deliveries E \<lparr>df_status = query_get req ''status'', df_target = query_get req ''targetId'',
         df_event = query_get req ''eventType'', df_limit = limit\<rparr>) (\<lambda>items. write_json 200 (DeliveriesBody items))))"

definition get_malware_status :: "admin_deps \<Rightarrow> claims \<Rightarrow> request \<Rightarrow> admin_reply prog" where
  "get_malware_status D c req = authorized D c ''malware.read'' ''*'' (
     with_limit req (\<lambda>limit.
     or_error D 500 (list_recent (ad_updated D) limit) (\<lambda>items. write_json 200 (ScansBody items))))"

section \<open>Storage nodes\<close>

definition get_nodes :: "admin_deps \<Rightarrow> claims \<Rightarrow> admin_reply prog" where
  "get_nodes D c = authorized D c ''settings.read'' ''*'' (or_error D 500 list_nodes (\<lambda>items. write_json 200 (NodesBody items)))"

definition get_migration_status :: "admin_deps \<Rightarrow> claims \<Rightarrow> admin_reply prog" where
  "get_migration_status D c = authorized D c ''settings.read'' ''*'' (
     or_error D 500 migration_status_of (\<lambda>s. write_json 200 (MigrationBody s)))"

text \<open>Here a limit that is no number is the default.\<close>

definition lenient_limit :: "request \<Rightarrow> int \<Rightarrow> int" where
  "lenient_limit req fallback = (case query_limit req fallback of None \<Rightarrow> fallback | Some n \<Rightarrow> n)"

definition get_migration_history :: "admin_deps \<Rightarrow> claims \<Rightarrow> request \<Rightarrow> admin_reply prog" where
  "get_migration_history D c req = authorized D c ''settings.read'' ''*'' (
     or_error D 500 (list_audit (ad_text D)
         \<lparr>fi_actor = [], fi_action = ''storage.migration.local-to-distributed'', fi_outcome = [], fi_category = [], fi_severity = [],
          fi_query = [], fi_limit = lenient_limit req 20\<rparr>) (\<lambda>items. write_json 200 (AuditBody items)))"

definition post_join_token :: "ext \<Rightarrow> admin_deps \<Rightarrow> claims \<Rightarrow> request \<Rightarrow> admin_reply prog" where
  "post_join_token E D c req =
     authorized D c ''storage.manage'' ''*'' (
     with_body D req (both_fields (str_field ''description'') (both_fields (str_field ''intendedName'')
         (both_fields (str_field ''intendedEndpoint'') (both_fields (str_field ''zone'') (int_field ''expiresInMinutes'')))))
       (\<lambda>(description, name, endpoint, zone, minutes).
     let expires_in = (if minutes > 0 then wrap64 (minutes * 60 * 1000000000) else 15 * 60 * 1000000000) in
     or_error D 500 (issue_join_token E description name endpoint zone expires_in) (\<lambda>item.
     bnd (admin_audit req c ''storage.join-token.create'' (j_name (it_row item))
       (JObj [(''joinTokenId'', JStr (j_id (it_row item))), (''intendedEndpoint'', JStr (j_endpoint (it_row item))),
              (''zone'', JStr (j_zone (it_row item))), (''expiresAt'', JNum (j_expires (it_row item)))])) (\<lambda>_.
     write_json 201 (JoinTokenBody item)))))"

definition post_join :: "ext \<Rightarrow> admin_deps \<Rightarrow> request \<Rightarrow> admin_reply prog" where
  "post_join E D req =
     with_body D req (both_fields (str_field ''token'') (both_fields (str_field ''name'') (both_fields (str_field ''endpoint'') (str_field ''zone''))))
       (\<lambda>(token, name, endpoint, zone).
     on_result (join_node E (ad_topology D) token name endpoint zone)
       (\<lambda>e. error_reply (if e = ErrJoinTokenInvalid \<or> e = ErrJoinTokenUsed then 401 else 400) (ad_error D e)) (\<lambda>item.
     write_json 201 (EnrollmentBody item)))"

definition post_node :: "ext \<Rightarrow> admin_deps \<Rightarrow> claims \<Rightarrow> request \<Rightarrow> admin_reply prog" where
  "post_node E D c req =
     authorized D c ''storage.manage'' ''*'' (
     with_body D req (both_fields (str_field ''name'') (both_fields (str_field ''endpoint'') (both_fields (str_field ''zone'') (str_field ''operatorState''))))
       (\<lambda>(name, endpoint, zone, operator_state).
     on_result (register_node E (ad_topology D) name endpoint zone operator_state)
       (\<lambda>e. error_reply (if e = ErrInvalidOperatorState then 400 else 500) (ad_error D e)) (\<lambda>item.
     bnd (admin_audit req c ''storage.node.register'' (nv_name item)
       (JObj [(''nodeId'', JStr (nv_id item)), (''endpoint'', JStr (nv_endpoint item)), (''operatorState'', JStr (nv_state item))])) (\<lambda>_.
     write_json 201 (NodeBody item)))))"

definition node_update_status :: "err \<Rightarrow> err \<Rightarrow> nat" where
  "node_update_status bad e = (if e = bad then 400 else if e = PgNoRows then 404 else 500)"

definition state_change_refused :: "migration_status \<Rightarrow> admin_reply prog" where
  "state_change_refused s = error_reply 409
     (''cannot move the last healthy active node out of service while '' @ itoa (ms_pending_objects s) @ '' local objects ('' @
      itoa (ms_pending_bytes s) @ '' bytes) are still waiting for migration'')"

definition update_node_state :: "ext \<Rightarrow> admin_deps \<Rightarrow> claims \<Rightarrow> request \<Rightarrow> string \<Rightarrow> string \<Rightarrow> admin_reply prog" where
  "update_node_state E D c req node_id operator_state =
     on_result (update_node_operator_state E node_id operator_state)
       (\<lambda>e. error_reply (node_update_status ErrInvalidOperatorState e) (ad_error D e)) (\<lambda>item.
     bnd (admin_audit req c ''storage.node.update'' (nv_name item)
       (JObj [(''nodeId'', JStr (nv_id item)), (''operatorState'', JStr (nv_state item))])) (\<lambda>_.
     write_json 200 (NodeBody item)))"

definition change_node_state :: "ext \<Rightarrow> admin_deps \<Rightarrow> claims \<Rightarrow> request \<Rightarrow> string \<Rightarrow> string \<Rightarrow> node list \<Rightarrow> admin_reply prog" where
  "change_node_state E D c req node_id operator_state nodes =
     (if find_storage_node nodes node_id = None then error_reply 404 ''storage node not found''
      else if should_block_node_state_change (find_storage_node nodes node_id) (to_lower (trim_space operator_state)) nodes then
        or_error D 500 migration_status_of (\<lambda>s.
        if ms_pending_objects s > 0 then state_change_refused s
        else update_node_state E D c req node_id operator_state)
      else update_node_state E D c req node_id operator_state)"

definition patch_node :: "ext \<Rightarrow> admin_deps \<Rightarrow> claims \<Rightarrow> request \<Rightarrow> string \<Rightarrow> admin_reply prog" where
  "patch_node E D c req node_id =
     authorized D c ''storage.manage'' ''*'' (
     with_body D req (str_field ''operatorState'') (\<lambda>operator_state.
     or_error D 500 list_nodes (change_node_state E D c req node_id operator_state)))"

definition meta_value :: "string \<Rightarrow> (string \<times> json) list \<Rightarrow> json" where
  "meta_value key meta = (case map_of meta key of None \<Rightarrow> JNull | Some v \<Rightarrow> v)"

definition post_repin :: "ext \<Rightarrow> admin_deps \<Rightarrow> claims \<Rightarrow> request \<Rightarrow> string \<Rightarrow> admin_reply prog" where
  "post_repin E D c req node_id =
     authorized D c ''storage.manage'' ''*'' (
     on_result (repin_node_tls_identity E (ad_topology D) node_id)
       (\<lambda>e. error_reply (node_update_status ErrNodeTLSIdentityUnavailable e) (ad_error D e)) (\<lambda>item.
     bnd (admin_audit req c ''storage.node.tls.repin'' (nv_name item)
       (JObj [(''nodeId'', JStr (nv_id item)), (''endpoint'', JStr (nv_endpoint item)),
              (''tlsIdentity'', meta_value ''tlsIdentityStatus'' (nv_meta item)),
              (''tlsFingerprint'', meta_value ''tlsExpectedFingerprintSha256'' (nv_meta item))])) (\<lambda>_.
     write_json 200 (NodeBody item))))"

definition migration_json :: "int \<Rightarrow> migration_status \<Rightarrow> json" where
  "migration_json migrated s = JObj [(''migratedCount'', JNum migrated), (''pendingLocalObjects'', JNum (ms_pending_objects s)),
     (''pendingLocalBytes'', JNum (ms_pending_bytes s)), (''distributedObjects'', JNum (ms_distributed_objects s)),
     (''distributedBytes'', JNum (ms_distributed_bytes s))]"

text \<open>A body without a value (\<open>io.EOF\<close>) is no error here: the limit is then zero.\<close>

definition json_space :: "char \<Rightarrow> bool" where
  "json_space ch \<longleftrightarrow> ch \<in> {CHR '' '', CHR 0x09, CHR 0x0A, CHR 0x0D}"

definition migration_limit :: "admin_deps \<Rightarrow> bytes \<Rightarrow> int option" where
  "migration_limit D content = (if list_all json_space content then Some 0 else decode_body D (int_field ''limit'') content)"

definition post_migration :: "ext \<Rightarrow> admin_deps \<Rightarrow> claims \<Rightarrow> request \<Rightarrow> admin_reply prog" where
  "post_migration E D c req =
     authorized D c ''storage.manage'' ''*'' (
     on_result (bnd (external (ret (rq_body req))) (\<lambda>content. case migration_limit D content of
          None \<Rightarrow> fail (Failure ''json'') | Some n \<Rightarrow> ret n))
       (\<lambda>_. error_reply 400 ''invalid payload'') (\<lambda>limit.
     or_error D 500 (migrate_local_objects E (service_config_of (ad_config D)) limit) (\<lambda>(migrated, failure).
     case failure of
       Some e \<Rightarrow> error_reply 500 (ad_error D e)
     | None \<Rightarrow>
         or_error D 500 migration_status_of (\<lambda>s.
         bnd (admin_audit req c ''storage.migration.local-to-distributed'' ''storage'' (migration_json migrated s)) (\<lambda>_.
         write_json 200 (Json (migration_json migrated s)))))))"

definition get_placements :: "admin_deps \<Rightarrow> claims \<Rightarrow> request \<Rightarrow> admin_reply prog" where
  "get_placements D c req = authorized D c ''settings.read'' ''*'' (
     or_error D 500 (list_placements \<lparr>pf_bucket = query_get req ''bucketId'', pf_key = query_get req ''key'',
         pf_version = query_get req ''versionId'', pf_limit = lenient_limit req 100\<rparr>) (\<lambda>items. write_json 200 (PlacementsBody items)))"

section \<open>Quotas\<close>

definition get_quotas :: "admin_deps \<Rightarrow> claims \<Rightarrow> admin_reply prog" where
  "get_quotas D c = authorized D c ''quota.read'' ''*'' (
     or_error D 500 list_bucket_quotas (\<lambda>bs.
     or_error D 500 list_user_quotas (\<lambda>us.
     write_json 200 (QuotasBody bs us))))"

definition put_bucket_quota :: "ext \<Rightarrow> admin_deps \<Rightarrow> claims \<Rightarrow> request \<Rightarrow> string \<Rightarrow> admin_reply prog" where
  "put_bucket_quota E D c req bucket_id =
     authorized D c ''quota.manage'' ''*'' (
     with_body D req (both_fields (opt_int_field ''maxBytes'') (both_fields (opt_int_field ''maxObjects'') (opt_int32_field ''warningThresholdPercent'')))
       (\<lambda>(max_bytes, max_objects, warn).
     or_error D 500 list_bucket_quotas (\<lambda>before.
     or_error D 500 (update_bucket_quota E bucket_id max_bytes max_objects warn) (\<lambda>_.
     bnd (on_result list_bucket_quotas (\<lambda>_. ret ()) (\<lambda>after.
       admin_audit req c ''quota.bucket.update'' bucket_id
         (JObj [(''before'', find_bucket_quota before bucket_id), (''after'', find_bucket_quota after bucket_id)]))) (\<lambda>_.
     status_text ''updated'')))))"

definition put_user_quota :: "ext \<Rightarrow> admin_deps \<Rightarrow> claims \<Rightarrow> request \<Rightarrow> string \<Rightarrow> admin_reply prog" where
  "put_user_quota E D c req user_id =
     authorized D c ''quota.manage'' ''*'' (
     with_body D req (both_fields (opt_int_field ''maxBytes'') (opt_int32_field ''warningThresholdPercent'')) (\<lambda>(max_bytes, warn).
     or_error D 500 list_user_quotas (\<lambda>before.
     or_error D 500 (update_user_quota E user_id max_bytes warn) (\<lambda>_.
     bnd (on_result list_user_quotas (\<lambda>_. ret ()) (\<lambda>after.
       admin_audit req c ''quota.user.update'' user_id
         (JObj [(''before'', find_user_quota before user_id), (''after'', find_user_quota after user_id)]))) (\<lambda>_.
     status_text ''updated'')))))"

section \<open>Roles\<close>

definition get_roles :: "admin_deps \<Rightarrow> claims \<Rightarrow> admin_reply prog" where
  "get_roles D c = authorized D c ''role.read'' ''*'' (or_error D 500 list_roles (\<lambda>items. write_json 200 (RolesBody items)))"

definition get_role_statements :: "admin_deps \<Rightarrow> claims \<Rightarrow> string \<Rightarrow> admin_reply prog" where
  "get_role_statements D c role_name = authorized D c ''role.read'' ''*'' (
     or_error D 500 (list_statements_for_role role_name) (\<lambda>items. write_json 200 (StatementsBody items)))"

definition statement_fields :: "(string \<times> json) list \<Rightarrow> (string \<times> string \<times> string \<times> smap option) option" where
  "statement_fields = both_fields (str_field ''action'') (both_fields (str_field ''resource'')
     (both_fields (str_field ''effect'') (map_field ''conditions'')))"

definition post_role_statement :: "ext \<Rightarrow> admin_deps \<Rightarrow> claims \<Rightarrow> request \<Rightarrow> string \<Rightarrow> admin_reply prog" where
  "post_role_statement E D c req role_name =
     authorized D c ''role.manage'' ''*'' (
     with_body D req statement_fields (\<lambda>(action, resource, effect, conditions).
     if action = [] \<or> resource = [] \<or> effect = [] then error_reply 400 ''action, resource, and effect are required''
     else
     on_result (create_statement E role_name action resource effect conditions) (write_policy_error D) (\<lambda>item.
     bnd (admin_audit req c ''role.statement.create'' role_name (statement_json item)) (\<lambda>_.
     write_json 201 (StatementBody item)))))"

definition patch_role_statement :: "ext \<Rightarrow> admin_deps \<Rightarrow> claims \<Rightarrow> request \<Rightarrow> string \<Rightarrow> string \<Rightarrow> admin_reply prog" where
  "patch_role_statement E D c req role_name statement_id =
     authorized D c ''role.manage'' ''*'' (
     with_body D req statement_fields (\<lambda>(action, resource, effect, conditions).
     or_error D 500 (list_statements_for_role role_name) (\<lambda>before.
     on_result (update_statement E statement_id action resource effect conditions) (write_policy_error D) (\<lambda>item.
     bnd (admin_audit req c ''role.statement.update'' role_name
       (JObj [(''before'', find_statement before statement_id), (''after'', statement_json item)])) (\<lambda>_.
     write_json 200 (StatementBody item))))))"

definition delete_role_statement :: "ext \<Rightarrow> admin_deps \<Rightarrow> claims \<Rightarrow> request \<Rightarrow> string \<Rightarrow> string \<Rightarrow> admin_reply prog" where
  "delete_role_statement E D c req role_name statement_id =
     authorized D c ''role.manage'' ''*'' (
     or_error D 500 (list_statements_for_role role_name) (\<lambda>before.
     on_result (delete_statement E statement_id) (write_policy_error D) (\<lambda>_.
     bnd (admin_audit req c ''role.statement.delete'' role_name (JObj [(''before'', find_statement before statement_id)])) (\<lambda>_.
     no_content))))"

definition get_role_bindings :: "admin_deps \<Rightarrow> claims \<Rightarrow> admin_reply prog" where
  "get_role_bindings D c = authorized D c ''role.read'' ''*'' (or_error D 500 list_bindings (\<lambda>items. write_json 200 (BindingsBody items)))"

definition post_role_binding :: "ext \<Rightarrow> admin_deps \<Rightarrow> claims \<Rightarrow> request \<Rightarrow> admin_reply prog" where
  "post_role_binding E D c req =
     authorized D c ''role.manage'' ''*'' (
     with_body D req (both_fields (str_field ''subjectType'') (both_fields (str_field ''subjectId'')
         (both_fields (str_field ''resource'') (str_field ''roleName'')))) (\<lambda>(subject_type, subject_id, resource0, role_name).
     if subject_type = [] \<or> subject_id = [] \<or> role_name = [] then error_reply 400 ''subjectType, subjectId, and roleName are required''
     else
     let resource = (if resource0 = [] then ''*'' else resource0) in
     on_result (upsert_binding E subject_type subject_id resource role_name) (write_policy_error D) (\<lambda>item.
     bnd (admin_audit req c ''role-binding.create'' resource (binding_json item)) (\<lambda>_.
     write_json 201 (BindingBody item)))))"

definition post_policy_evaluate :: "admin_deps \<Rightarrow> claims \<Rightarrow> request \<Rightarrow> admin_reply prog" where
  "post_policy_evaluate D c req =
     authorized D c ''role.read'' ''*'' (
     with_body D req (both_fields (str_field ''subjectType'') (both_fields (str_field ''subjectId'')
         (both_fields (str_field ''fallbackRole'') (both_fields (str_field ''action'') (str_field ''resource'')))))
       (\<lambda>(subject_type, subject_id, fallback_role, action, resource).
     if subject_type = [] \<or> subject_id = [] \<or> fallback_role = [] \<or> action = [] \<or> resource = []
     then error_reply 400 ''subjectType, subjectId, fallbackRole, action, and resource are required''
     else
     on_result (explain_subject_authorization subject_type subject_id fallback_role action resource) (write_policy_error D) (\<lambda>item.
     write_json 200 (EvaluationBody item))))"

definition delete_role_binding :: "ext \<Rightarrow> admin_deps \<Rightarrow> claims \<Rightarrow> request \<Rightarrow> string \<Rightarrow> admin_reply prog" where
  "delete_role_binding E D c req binding_id =
     authorized D c ''role.manage'' ''*'' (
     or_error D 500 list_bindings (\<lambda>before.
     on_result (delete_binding E binding_id) (write_policy_error D) (\<lambda>_.
     bnd (admin_audit req c ''role-binding.delete'' binding_id (JObj [(''before'', find_binding before binding_id)])) (\<lambda>_.
     no_content))))"

section \<open>Routes\<close>

text \<open>The routes anyone may call, and those in the group behind \<open>AdminAuth\<close>.\<close>

datatype public_endpoint =
    PostLogin | PostRefresh | PostLogout | GetOidc | PostJoin | PostOidcStart | GetOidcStart | GetOidcCallback

datatype endpoint =
    GetMe | GetSetupStatus | PatchOidc | PatchMalware | PostClearSecret | PostOidcTest | PostSetupComplete
  | PostChangePassword | PostLogoutAll
  | GetBuckets | PostBucket | GetBucketItem string | PatchDurability string
  | GetObjects string | GetObjectVersions string | PostRestore string | GetObjectTags string | PutObjectTags string
  | PutLegalHold string | PostCopy string | PostUpload string | GetDownload string | DeleteObjectAt string
  | GetUsers | PostCredential | GetAudit | GetHealth | GetDashboard
  | GetEventTargets | PostEventTarget | GetEventDeliveries | GetMalwareStatus
  | GetSettings | PatchStoragePolicy
  | GetNodes | GetMigrationStatus | GetMigrationHistory | PostJoinToken | PostNode | PatchNode string | PostRepin string
  | PostMigration | GetPlacements
  | GetQuotas | PutBucketQuota string | PutUserQuota string
  | GetRoles | GetRoleStatements string | PostRoleStatement string | PatchRoleStatement string string | DeleteRoleStatement string string
  | GetRoleBindings | PostRoleBinding | PostPolicyEvaluate | DeleteRoleBinding string
  | GetAdminTokens | PostAdminToken | GetCredentials | PatchUserRole string | PatchCredentialRole string

primrec serve_protected :: "ext \<Rightarrow> admin_deps \<Rightarrow> claims \<Rightarrow> endpoint \<Rightarrow> request \<Rightarrow> admin_reply prog" where
  "serve_protected E D c GetMe req = write_json 200 (ClaimsBody c)"
| "serve_protected E D c GetSetupStatus req = get_setup_status D"
| "serve_protected E D c PatchOidc req = patch_oidc E D c req"
| "serve_protected E D c PatchMalware req = patch_malware D c req"
| "serve_protected E D c PostClearSecret req = post_clear_oidc_secret E D c req"
| "serve_protected E D c PostOidcTest req = post_oidc_test E D c req"
| "serve_protected E D c PostSetupComplete req = post_setup_complete D c req"
| "serve_protected E D c PostChangePassword req = post_change_password E D c req"
| "serve_protected E D c PostLogoutAll req = post_logout_all E D c req"
| "serve_protected E D c GetBuckets req = get_buckets D c"
| "serve_protected E D c PostBucket req = post_bucket E D c req"
| "serve_protected E D c (GetBucketItem i) req = get_bucket_item E D c i"
| "serve_protected E D c (PatchDurability i) req = patch_durability E D c req i"
| "serve_protected E D c (GetObjects i) req = get_objects E D c req i"
| "serve_protected E D c (GetObjectVersions i) req = get_object_versions E D c req i"
| "serve_protected E D c (PostRestore i) req = post_restore E D c req i"
| "serve_protected E D c (GetObjectTags i) req = get_object_tags E D c req i"
| "serve_protected E D c (PutObjectTags i) req = put_object_tags E D c req i"
| "serve_protected E D c (PutLegalHold i) req = put_legal_hold E D c req i"
| "serve_protected E D c (PostCopy i) req = post_copy E D c req i"
| "serve_protected E D c (PostUpload i) req = post_upload E D c req i"
| "serve_protected E D c (GetDownload i) req = get_download E D c req i"
| "serve_protected E D c (DeleteObjectAt i) req = delete_object_request E D c req i"
| "serve_protected E D c GetUsers req = get_users D c"
| "serve_protected E D c PostCredential req = post_credential E D c req"
| "serve_protected E D c GetAudit req = get_audit D c req"
| "serve_protected E D c GetHealth req = get_health D c"
| "serve_protected E D c GetDashboard req = get_dashboard D c"
| "serve_protected E D c GetEventTargets req = get_event_targets D c"
| "serve_protected E D c PostEventTarget req = post_event_target E D c req"
| "serve_protected E D c GetEventDeliveries req = get_event_deliveries E D c req"
| "serve_protected E D c GetMalwareStatus req = get_malware_status D c req"
| "serve_protected E D c GetSettings req = get_settings E D c"
| "serve_protected E D c PatchStoragePolicy req = patch_storage_policy D c req"
| "serve_protected E D c GetNodes req = get_nodes D c"
| "serve_protected E D c GetMigrationStatus req = get_migration_status D c"
| "serve_protected E D c GetMigrationHistory req = get_migration_history D c req"
| "serve_protected E D c PostJoinToken req = post_join_token E D c req"
| "serve_protected E D c PostNode req = post_node E D c req"
| "serve_protected E D c (PatchNode i) req = patch_node E D c req i"
| "serve_protected E D c (PostRepin i) req = post_repin E D c req i"
| "serve_protected E D c PostMigration req = post_migration E D c req"
| "serve_protected E D c GetPlacements req = get_placements D c req"
| "serve_protected E D c GetQuotas req = get_quotas D c"
| "serve_protected E D c (PutBucketQuota i) req = put_bucket_quota E D c req i"
| "serve_protected E D c (PutUserQuota i) req = put_user_quota E D c req i"
| "serve_protected E D c GetRoles req = get_roles D c"
| "serve_protected E D c (GetRoleStatements r) req = get_role_statements D c r"
| "serve_protected E D c (PostRoleStatement r) req = post_role_statement E D c req r"
| "serve_protected E D c (PatchRoleStatement r i) req = patch_role_statement E D c req r i"
| "serve_protected E D c (DeleteRoleStatement r i) req = delete_role_statement E D c req r i"
| "serve_protected E D c GetRoleBindings req = get_role_bindings D c"
| "serve_protected E D c PostRoleBinding req = post_role_binding E D c req"
| "serve_protected E D c PostPolicyEvaluate req = post_policy_evaluate D c req"
| "serve_protected E D c (DeleteRoleBinding i) req = delete_role_binding E D c req i"
| "serve_protected E D c GetAdminTokens req = get_admin_tokens D c"
| "serve_protected E D c PostAdminToken req = post_admin_token E D c req"
| "serve_protected E D c GetCredentials req = get_credentials D c"
| "serve_protected E D c (PatchUserRole i) req = patch_user_role E D c req i"
| "serve_protected E D c (PatchCredentialRole k) req = patch_credential_role D c req k"

primrec serve_public :: "ext \<Rightarrow> admin_deps \<Rightarrow> provider_cache \<Rightarrow> public_endpoint \<Rightarrow> request \<Rightarrow> (admin_reply \<times> provider_cache) prog" where
  "serve_public E D cache PostLogin req = bnd (post_login E D req) (\<lambda>r. ret (r, cache))"
| "serve_public E D cache PostRefresh req = bnd (post_refresh E D req) (\<lambda>r. ret (r, cache))"
| "serve_public E D cache PostLogout req = bnd (post_logout E D req) (\<lambda>r. ret (r, cache))"
| "serve_public E D cache GetOidc req = bnd (get_oidc_status E D) (\<lambda>r. ret (r, cache))"
| "serve_public E D cache PostJoin req = bnd (post_join E D req) (\<lambda>r. ret (r, cache))"
| "serve_public E D cache PostOidcStart req = post_oidc_start E D cache"
| "serve_public E D cache GetOidcStart req = get_oidc_start E D cache"
| "serve_public E D cache GetOidcCallback req = get_oidc_callback E D cache req"

definition serve_admin :: "ext \<Rightarrow> admin_deps \<Rightarrow> provider_cache \<Rightarrow> public_endpoint + endpoint \<Rightarrow> request \<Rightarrow>
    (admin_reply \<times> provider_cache) prog" where
  "serve_admin E D cache route req =
     (if \<not> admin_ip_allowlist (ad_ip6 D) (cg_allowlist (ad_config D)) req
      then bnd (error_reply 403 ''admin access denied from this network'') (\<lambda>r. ret (r, cache))
      else case route of
        Inl p \<Rightarrow> serve_public E D cache p req
      | Inr p \<Rightarrow> bnd (admin_auth E (ad_auth D) req) (\<lambda>who. case who of
            Inl message \<Rightarrow> bnd (error_reply 401 message) (\<lambda>r. ret (r, cache))
          | Inr c \<Rightarrow> bnd (serve_protected E D c p req) (\<lambda>r. ret (r, cache))))"

end
