(* ===== verification/AdminSafety.thy ===== *)
theory AdminSafety
  imports AdminRouter
begin

text \<open>
  What the administration interface guarantees: a request whose token or permission does not
  suffice changes nothing, the last healthy node stays in service while objects wait for
  migration, tokens are issued for the role of the caller; and where it falls short.
\<close>

section \<open>Refused requests\<close>

text \<open>What each protected route asks for first.\<close>

primrec endpoint_action :: "endpoint \<Rightarrow> (string \<times> string) option" where
  "endpoint_action GetMe = None"
| "endpoint_action GetSetupStatus = None"
| "endpoint_action PatchOidc = Some (''settings.manage'', ''*'')"
| "endpoint_action PatchMalware = Some (''settings.manage'', ''*'')"
| "endpoint_action PostClearSecret = Some (''settings.manage'', ''*'')"
| "endpoint_action PostOidcTest = Some (''settings.manage'', ''*'')"
| "endpoint_action PostSetupComplete = Some (''settings.manage'', ''*'')"
| "endpoint_action PostChangePassword = None"
| "endpoint_action PostLogoutAll = None"
| "endpoint_action GetBuckets = Some (''bucket.list'', ''*'')"
| "endpoint_action PostBucket = Some (''bucket.create'', ''*'')"
| "endpoint_action (GetBucketItem i) = Some (''bucket.list'', ''*'')"
| "endpoint_action (PatchDurability i) = Some (''bucket.create'', ''*'')"
| "endpoint_action (GetObjects i) = Some (''object.list'', bucket_scope i)"
| "endpoint_action (GetObjectVersions i) = Some (''object.list'', bucket_scope i)"
| "endpoint_action (PostRestore i) = Some (''object.restore'', bucket_scope i)"
| "endpoint_action (GetObjectTags i) = Some (''object.get'', bucket_scope i)"
| "endpoint_action (PutObjectTags i) = Some (''object.put'', bucket_scope i)"
| "endpoint_action (PutLegalHold i) = Some (''object.delete'', bucket_scope i)"
| "endpoint_action (PostCopy i) = Some (''object.put'', bucket_scope i)"
| "endpoint_action (PostUpload i) = Some (''object.put'', bucket_scope i)"
| "endpoint_action (GetDownload i) = Some (''object.get'', bucket_scope i)"
| "endpoint_action (DeleteObjectAt i) = Some (''object.delete'', bucket_scope i)"
| "endpoint_action GetUsers = Some (''user.manage'', ''*'')"
| "endpoint_action PostCredential = Some (''credential.create'', ''*'')"
| "endpoint_action GetAudit = Some (''audit.read'', ''*'')"
| "endpoint_action GetHealth = Some (''health.read'', ''*'')"
| "endpoint_action GetDashboard = Some (''health.read'', ''*'')"
| "endpoint_action GetEventTargets = Some (''event.read'', ''*'')"
| "endpoint_action PostEventTarget = Some (''event.manage'', ''*'')"
| "endpoint_action GetEventDeliveries = Some (''event.read'', ''*'')"
| "endpoint_action GetMalwareStatus = Some (''malware.read'', ''*'')"
| "endpoint_action GetSettings = Some (''settings.read'', ''*'')"
| "endpoint_action PatchStoragePolicy = Some (''settings.manage'', ''*'')"
| "endpoint_action GetNodes = Some (''settings.read'', ''*'')"
| "endpoint_action GetMigrationStatus = Some (''settings.read'', ''*'')"
| "endpoint_action GetMigrationHistory = Some (''settings.read'', ''*'')"
| "endpoint_action PostJoinToken = Some (''storage.manage'', ''*'')"
| "endpoint_action PostNode = Some (''storage.manage'', ''*'')"
| "endpoint_action (PatchNode i) = Some (''storage.manage'', ''*'')"
| "endpoint_action (PostRepin i) = Some (''storage.manage'', ''*'')"
| "endpoint_action PostMigration = Some (''storage.manage'', ''*'')"
| "endpoint_action GetPlacements = Some (''settings.read'', ''*'')"
| "endpoint_action GetQuotas = Some (''quota.read'', ''*'')"
| "endpoint_action (PutBucketQuota i) = Some (''quota.manage'', ''*'')"
| "endpoint_action (PutUserQuota i) = Some (''quota.manage'', ''*'')"
| "endpoint_action GetRoles = Some (''role.read'', ''*'')"
| "endpoint_action (GetRoleStatements r) = Some (''role.read'', ''*'')"
| "endpoint_action (PostRoleStatement r) = Some (''role.manage'', ''*'')"
| "endpoint_action (PatchRoleStatement r i) = Some (''role.manage'', ''*'')"
| "endpoint_action (DeleteRoleStatement r i) = Some (''role.manage'', ''*'')"
| "endpoint_action GetRoleBindings = Some (''role.read'', ''*'')"
| "endpoint_action PostRoleBinding = Some (''role.manage'', ''*'')"
| "endpoint_action PostPolicyEvaluate = Some (''role.read'', ''*'')"
| "endpoint_action (DeleteRoleBinding i) = Some (''role.manage'', ''*'')"
| "endpoint_action GetAdminTokens = Some (''admin-token.read'', ''*'')"
| "endpoint_action PostAdminToken = Some (''admin-token.create'', ''*'')"
| "endpoint_action GetCredentials = Some (''credential.create'', ''*'')"
| "endpoint_action (PatchUserRole i) = Some (''role.manage'', ''*'')"
| "endpoint_action (PatchCredentialRole k) = Some (''role.manage'', ''*'')"


definition denied :: "admin_reply \<Rightarrow> bool" where
  "denied rep \<longleftrightarrow> ar_status rep \<in> {401, 403, 500} \<and> (\<exists>m. ar_body rep = Json (JObj [(''error'', JStr m)]))"

definition may :: "database \<Rightarrow> claims \<Rightarrow> string \<Rightarrow> string \<Rightarrow> bool" where
  "may d c action resource \<longleftrightarrow> fst (decide_subject d (cl_subject_type c) (cl_subject c) (cl_role c) action resource)"

text \<open>Nothing is stored but when an admin token was last used.\<close>

definition unused :: "admin_token_row \<Rightarrow> admin_token_row" where
  "unused r = r\<lparr>at_last_used := None\<rparr>"

definition same_data :: "world \<Rightarrow> world \<Rightarrow> bool" where
  "same_data w w' \<longleftrightarrow> (\<exists>ts. db w' = (db w)\<lparr>t_admin_tokens := ts\<rparr> \<and> map unused ts = map unused (t_admin_tokens (db w))) \<and>
     disks w' = disks w"

text \<open>The claims of the token of a request: those signed into it, else those of the admin token.\<close>

definition token_claims :: "database \<Rightarrow> admin_token_row \<Rightarrow> claims" where
  "token_claims d r = \<lparr>cl_user = text_of (at_creator r), cl_role = at_role r, cl_email = email_of (at_creator r) d,
     cl_subject_type = ''admin_token'', cl_subject = at_id r\<rparr>"

definition presented :: "ext \<Rightarrow> auth_config \<Rightarrow> request \<Rightarrow> world \<Rightarrow> claims \<Rightarrow> bool" where
  "presented E A req w c \<longleftrightarrow> (let token = trim_prefix (header_get req ''Authorization'') ''Bearer '' in
     token \<noteq> [] \<and> (case fst (parse_token E A token w) of
        Inr c' \<Rightarrow> c = c'
      | Inl _ \<Rightarrow> (\<exists>r \<in> set (t_admin_tokens (db w)). token_usable (hash_secret E token) (clock w) r \<and> c = token_claims (db w) r)))"

lemma stable_env: "stable (env_step w0)"
  by (auto simp: stable_def intro: env_step_trans)

lemma same_data_env: "env_step w w' \<Longrightarrow> same_data w w'"
  unfolding same_data_def by (rule conjI, rule exI [of _ "t_admin_tokens (db w)"]) (auto simp: env_step_fields)

lemma stable_same_data: "stable (same_data w0)"
  by (auto simp: stable_def same_data_def env_step_fields)

lemma same_data_stamp:
  "env_step w0 w \<Longrightarrow> same_data w0 (w\<lparr>db := (db w)\<lparr>t_admin_tokens :=
     map (\<lambda>r. if at_hash r = h then r\<lparr>at_last_used := Some t\<rparr> else r) (t_admin_tokens (db w))\<rparr>\<rparr>)"
  by (auto simp: same_data_def env_step_fields unused_def)

lemma decide_same_data: "same_data w w' \<Longrightarrow> may (db w') c action resource = may (db w) c action resource"
proof -
  assume "same_data w w'"
  then obtain ts where d: "db w' = (db w)\<lparr>t_admin_tokens := ts\<rparr>" by (auto simp: same_data_def)
  have r: "role_allows (db w') = role_allows (db w)" and b: "bound_roles (db w') = bound_roles (db w)"
    by (intro ext, simp add: d role_allows_def, intro ext, simp add: d bound_roles_def)
  show ?thesis unfolding may_def decide_subject_def r b ..
qed

lemma keeps_authorize_role [keeps]: "stable I \<Longrightarrow> keeps_inv I (authorize_role r a res)"
  unfolding authorize_role_def list_statements_for_role_def Let_def by (intro keeps)

lemma keeps_first_allowed [keeps]: "stable I \<Longrightarrow> keeps_inv I (first_allowed a res roles)"
  by (induction roles) (auto intro!: keeps)

lemma keeps_check_subject [keeps]: "stable I \<Longrightarrow> keeps_inv I (check_subject ty sid fb a res)"
  unfolding check_subject_def authorize_subject_def resolve_role_def roles_for_subject_resource_def by (intro keeps)

lemma triple_not_allowed:
  assumes "stable I" "\<And>w. I w \<Longrightarrow> \<not> may (db w) c action resource"
  shows "triple I (check_subject (cl_subject_type c) (cl_subject c) (cl_role c) action resource) (\<lambda>_ _. False) I"
  unfolding triple_def
proof (intro allI impI)
  fix w assume w: "I w"
  let ?m = "check_subject (cl_subject_type c) (cl_subject c) (cl_role c) action resource"
  obtain r w' where m: "?m w = (r, w')" by (cases "?m w")
  have "I w'" using keeps_invD [OF keeps_check_subject [OF assms(1)] w m] .
  moreover have False if "r = Inr x" for x
  proof -
    from m that obtain b w1 where "authorize_subject (cl_subject_type c) (cl_subject c) (cl_role c) action resource w = (Inr (b, x), w1)" "b"
      by (auto simp: check_subject_def bnd_Inr_iff split: if_splits)
    from authorize_subject_Inr [OF this(1)] this(2) assms(2) [OF w] show False
      by (metis fst_conv may_def)
  qed
  ultimately show "case ?m w of (Inr x, w') \<Rightarrow> False | (Inl e, w') \<Rightarrow> I w'"
    using m by (cases r) auto
qed

lemma triple_on_result:
  "triple P m Q X \<Longrightarrow> (\<And>e. triple X (h e) R Y) \<Longrightarrow> (\<And>x. triple (Q x) (f x) R Y) \<Longrightarrow> triple P (on_result m h f) R Y"
  unfolding on_result_def
  by (rule triple_bnd [OF triple_attempt]) (auto split: sum.split)

lemma triple_error_reply:
  "status \<in> {401, 403, 500} \<Longrightarrow> triple I (error_reply status message) (\<lambda>rep w. I w \<and> denied rep) (\<lambda>_. False)"
  by (simp add: error_reply_def write_json_def triple_def denied_def)

lemma triple_refused:
  assumes "stable I" "\<And>w. I w \<Longrightarrow> \<not> may (db w) c action resource"
  shows "triple I (authorized D c action resource f) (\<lambda>rep w. I w \<and> denied rep) (\<lambda>_. False)"
  unfolding authorized_def
  by (rule triple_on_result [OF triple_not_allowed [OF assms]]) (simp_all add: triple_error_reply, simp add: triple_def)

lemmas handler_defs =
  patch_oidc_def patch_malware_def post_clear_oidc_secret_def post_oidc_test_def post_setup_complete_def get_settings_def
  patch_storage_policy_def get_buckets_def post_bucket_def get_bucket_item_def patch_durability_def get_objects_def
  get_object_versions_def post_restore_def get_object_tags_def put_object_tags_def put_legal_hold_def post_copy_def post_upload_def
  get_download_def delete_object_request_def get_users_def post_credential_def get_credentials_def patch_user_role_def
  patch_credential_role_def get_admin_tokens_def post_admin_token_def get_audit_def get_health_def get_dashboard_def
  get_event_targets_def post_event_target_def get_event_deliveries_def get_malware_status_def get_nodes_def
  get_migration_status_def get_migration_history_def post_join_token_def post_node_def patch_node_def post_repin_def
  post_migration_def get_placements_def get_quotas_def put_bucket_quota_def put_user_quota_def get_roles_def
  get_role_statements_def post_role_statement_def patch_role_statement_def delete_role_statement_def get_role_bindings_def
  post_role_binding_def post_policy_evaluate_def delete_role_binding_def

lemma triple_protected_refused:
  assumes "stable I" "endpoint_action p = Some (action, resource)" "\<And>w. I w \<Longrightarrow> \<not> may (db w) c action resource"
  shows "triple I (serve_protected E D c p req) (\<lambda>rep w. I w \<and> denied rep) (\<lambda>_. False)"
  using assms(2) by (cases p) (auto simp: handler_defs intro!: triple_refused assms(1) dest: assms(3))

lemma parse_token_same [simp]: "snd (parse_token E A token w) = w"
  by (simp add: parse_token_def bnd_def split: option.splits)

lemma triple_authenticate:
  "triple (env_step w0) (authenticate_admin_token E token)
    (\<lambda>c w. same_data w0 w \<and> (\<exists>r \<in> set (t_admin_tokens (db w0)). token_usable (hash_secret E token) (clock w0) r \<and> c = token_claims (db w0) r))
    (same_data w0)"
proof -
  let ?h = "hash_secret E token"
  let ?found = "\<lambda>x w. env_step w0 w \<and> (\<exists>r \<in> set (t_admin_tokens (db w0)). token_usable ?h (clock w0) r \<and>
     x = (at_id r, text_of (at_creator r), email_of (at_creator r) (db w0), at_role r))"
  have f: "triple (env_step w0) (exec (\<lambda>t d. case find (token_usable ?h t) (t_admin_tokens d) of
             None \<Rightarrow> Inl PgNoRows
           | Some r \<Rightarrow> Inr ((at_id r, text_of (at_creator r), email_of (at_creator r) d, at_role r), d))) ?found (same_data w0)"
    by (rule triple_exec [OF stable_env])
       (auto simp: env_step_fields token_usable_def same_data_env split: option.splits dest!: find_SomeD)
  show ?thesis
    unfolding authenticate_admin_token_def Let_def
  proof (rule triple_bnd [OF triple_attempt [OF f]])
    fix x
    show "triple (\<lambda>w. case x of Inl e \<Rightarrow> same_data w0 w | Inr y \<Rightarrow> ?found y w)
        (case x of Inl _ \<Rightarrow> fail ErrInvalidToken
         | Inr (i, user_id, email, role) \<Rightarrow>
          bnd (ignore_error (exec (\<lambda>t d. Inr ((), d\<lparr>t_admin_tokens :=
            map (\<lambda>r. if at_hash r = ?h then r\<lparr>at_last_used := Some t\<rparr> else r) (t_admin_tokens d)\<rparr>))))
          (\<lambda>_. ret \<lparr>cl_user = user_id, cl_role = role, cl_email = email, cl_subject_type = ''admin_token'', cl_subject = i\<rparr>))
        (\<lambda>c w. same_data w0 w \<and> (\<exists>r \<in> set (t_admin_tokens (db w0)). token_usable ?h (clock w0) r \<and> c = token_claims (db w0) r))
        (same_data w0)"
    proof (cases x)
      case (Inl e)
      then show ?thesis by (simp add: triple_fail)
    next
      case (Inr y)
      obtain i u e ro where y: "y = (i, u, e, ro)" by (cases y)
      let ?there = "\<exists>r \<in> set (t_admin_tokens (db w0)). token_usable ?h (clock w0) r \<and>
         (i, u, e, ro) = (at_id r, text_of (at_creator r), email_of (at_creator r) (db w0), at_role r)"
      have "triple (\<lambda>w. env_step w0 w \<and> ?there) (exec (\<lambda>t d. Inr ((), d\<lparr>t_admin_tokens :=
            map (\<lambda>r. if at_hash r = ?h then r\<lparr>at_last_used := Some t\<rparr> else r) (t_admin_tokens d)\<rparr>)))
          (\<lambda>_ w. same_data w0 w \<and> ?there) (\<lambda>w. same_data w0 w \<and> ?there)"
        by (rule triple_exec) (auto simp: stable_def same_data_stamp same_data_env intro: env_step_trans)
      then have "triple (\<lambda>w. env_step w0 w \<and> ?there) (ignore_error (exec (\<lambda>t d. Inr ((), d\<lparr>t_admin_tokens :=
            map (\<lambda>r. if at_hash r = ?h then r\<lparr>at_last_used := Some t\<rparr> else r) (t_admin_tokens d)\<rparr>))))
          (\<lambda>_ w. same_data w0 w \<and> ?there) (same_data w0)"
        unfolding ignore_error_def by (rule triple_bnd [OF triple_attempt]) (auto simp: triple_def split: sum.splits)
      then show ?thesis unfolding Inr y sum.case prod.case
        by (rule triple_bnd) (auto simp: triple_def token_claims_def)
    qed
  qed
qed

lemma triple_admin_auth:
  "triple (\<lambda>w. w = w0) (admin_auth E A req)
    (\<lambda>who w. same_data w0 w \<and> (case who of Inl _ \<Rightarrow> True | Inr c \<Rightarrow> presented E A req w0 c)) (\<lambda>_. False)"
proof -
  let ?token = "trim_prefix (header_get req ''Authorization'') ''Bearer ''"
  let ?Q = "\<lambda>who w. same_data w0 w \<and> (case who of Inl _ \<Rightarrow> True | Inr c \<Rightarrow> presented E A req w0 c)"
  have refl: "same_data w0 w0" by (rule same_data_env) simp
  show ?thesis
  proof (cases "?token = []")
    case True
    then show ?thesis by (simp add: admin_auth_def triple_def refl)
  next
    case False
    show ?thesis
    proof (cases "fst (parse_token E A ?token w0)")
      case (Inr c)
      then show ?thesis using False
        by (simp add: admin_auth_def triple_def bnd_def refl presented_def Let_def)
    next
      case (Inl e)
      obtain r w' where m: "authenticate_admin_token E ?token w0 = (r, w')" by (cases "authenticate_admin_token E ?token w0")
      have "?Q (case r of Inl _ \<Rightarrow> Inl ''invalid token'' | Inr c \<Rightarrow> Inr c) w'"
      proof (cases r)
        case i: (Inl e')
        then show ?thesis using tripleD_Inl [OF triple_authenticate env_step_refl, of E ?token w0] m by simp
      next
        case i: (Inr c)
        then show ?thesis using tripleD_Inr [OF triple_authenticate env_step_refl, of E ?token w0] m Inl False
          by (simp add: presented_def Let_def)
      qed
      then show ?thesis using False Inl m
        by (simp add: admin_auth_def triple_def bnd_def Let_def split: sum.splits)
    qed
  qed
qed

text \<open>
  C5: a request on a protected route that asks for a permission changes nothing but the time its
  admin token was last used, and is answered by an error, unless the token it carries is accepted
  and the decision of the database for that token's subject and role is to allow the action. This
  holds whatever calls fail.
\<close>

theorem admin_change_needs_permission:
  assumes "serve_admin E D cache (Inr p) req w = (r, w')" "endpoint_action p = Some (action, resource)"
    and "\<not> (\<exists>c. presented E (ad_auth D) req w c \<and> may (db w) c action resource)"
  shows "same_data w w' \<and> (\<exists>rep. r = Inr (rep, cache) \<and> denied rep)"
proof -
  have "triple (\<lambda>v. v = w) (serve_admin E D cache (Inr p) req) (\<lambda>x v. same_data w v \<and> (\<exists>rep. x = (rep, cache) \<and> denied rep)) (\<lambda>_. False)"
  proof (cases "admin_ip_allowlist (ad_ip6 D) (cg_allowlist (ad_config D)) req")
    case False
    then show ?thesis
      by (simp add: serve_admin_def triple_def bnd_def error_reply_def write_json_def denied_def same_data_env)
  next
    case True
    have "triple (\<lambda>v. same_data w v \<and> (case who of Inl _ \<Rightarrow> True | Inr c \<Rightarrow> presented E (ad_auth D) req w c))
        (case who of Inl message \<Rightarrow> bnd (error_reply 401 message) (\<lambda>r. ret (r, cache))
          | Inr c \<Rightarrow> bnd (serve_protected E D c p req) (\<lambda>r. ret (r, cache)))
        (\<lambda>x v. same_data w v \<and> (\<exists>rep. x = (rep, cache) \<and> denied rep)) (\<lambda>_. False)" for who
    proof (cases who)
      case (Inl message)
      then show ?thesis
        by (simp add: triple_def bnd_def error_reply_def write_json_def denied_def)
    next
      case (Inr c)
      show ?thesis
      proof (cases "presented E (ad_auth D) req w c")
        case False
        then show ?thesis using Inr by (simp add: triple_def)
      next
        case pr: True
        then have n: "\<not> may (db v) c action resource" if "same_data w v" for v
          using assms(3) decide_same_data [OF that] by blast
        have "triple (same_data w) (serve_protected E D c p req) (\<lambda>rep v. same_data w v \<and> denied rep) (\<lambda>_. False)"
          by (rule triple_protected_refused [OF stable_same_data assms(2) n])
        from triple_bnd [OF this, of "\<lambda>r. ret (r, cache)" "\<lambda>x v. same_data w v \<and> (\<exists>rep. x = (rep, cache) \<and> denied rep)"]
        show ?thesis using pr Inr by (simp add: triple_def)
      qed
    qed
    then show ?thesis using True unfolding serve_admin_def
      by (simp, intro triple_bnd [OF triple_admin_auth])
  qed
  then show ?thesis using assms(1) by (cases r) (auto simp: triple_def)
qed

section \<open>A state token is an access token\<close>

text \<open>
  What the code relies on of signed tokens: a token that was signed opens under the same secret,
  and is not empty.
\<close>

definition good_jwt :: "ext \<Rightarrow> bool" where
  "good_jwt E \<longleftrightarrow> (\<forall>s c. jwt_open E s (jwt_sign E s c) = Some c \<and> jwt_sign E s c \<noteq> [])"

definition nobody :: claims where
  "nobody = \<lparr>cl_user = [], cl_role = [], cl_email = [], cl_subject_type = [], cl_subject = []\<rparr>"

lemma state_token_parses:
  assumes "good_jwt E" "new_state_token E cfg w = (Inr (token, nonce), w1)" "ac_secret A = cg_jwt_secret cfg"
    and "clock w2 < clock w + 9 * 60 * 1000000000"
  shows "token \<noteq> [] \<and> parse_token E A token w2 = (Inr nobody, w2)"
proof -
  obtain b w' where r: "random_bytes E 24 w = (Inr b, w')"
    and token: "token = jwt_sign E (cg_jwt_secret cfg) (JObj [(''nonce'', JStr nonce),
        (''exp'', JNum (unix_seconds (clock w' + 10 * 60 * 1000000000))), (''iat'', JNum (unix_seconds (clock w')))])"
    using assms(2) by (auto simp: new_state_token_def bnd_Inr_iff Let_def)
  have "clock w \<le> clock w'" using r unfolding random_bytes_def by (auto elim!: external_Inr)
  then have "clock w2 < unix_seconds (clock w' + 10 * 60 * 1000000000) * 1000000000"
    using assms(4) by (simp add: unix_seconds_def)
  then show ?thesis
    using assms(1,3) token
    by (simp add: parse_token_def bnd_def good_jwt_def decode_claims_def claim_string_def times_valid_def claim_time_def nobody_def)
qed

definition bearer :: "string \<Rightarrow> request \<Rightarrow> bool" where
  "bearer token req \<longleftrightarrow> header_get req ''Authorization'' = ''Bearer '' @ token"

lemma trim_bearer: "bearer token req \<Longrightarrow> trim_prefix (header_get req ''Authorization'') ''Bearer '' = token"
  by (simp add: bearer_def trim_prefix_def has_prefix_def)

lemma stable_clock: "stable (\<lambda>w. t \<le> clock w)"
  by (auto simp: stable_def env_step_fields)

lemma keeps_clock_settings: "keeps_inv (\<lambda>w. t \<le> clock w) (current_settings E cfg)"
  unfolding current_settings_def resolve_oidc_settings_def ensure_oidc_settings_def seal_string_def
  by (intro keeps keeps_exec stable_clock) simp

lemma keeps_clock_provider:
  "keeps_inv (\<lambda>w. t \<le> clock w) (oidc_status E P cfg)" "keeps_inv (\<lambda>w. t \<le> clock w) (ensure_provider E P cfg cache)"
  unfolding oidc_status_def ensure_provider_def discover_def Let_def
  by (intro keeps keeps_clock_settings keeps_external stable_clock | simp add: keeps_inv_def)+

text \<open>
  C10: whoever starts a login with the identity provider, without any token, holds in the URL a
  state token that the administration interface takes as an access token for nine minutes: it has
  the same secret and nothing tells the two apart. The routes that ask for no permission answer.
\<close>

theorem state_token_authenticates:
  assumes "good_jwt E" "ac_secret (ad_auth D) = cg_jwt_secret (ad_config D)"
    and "start_login E (ad_oidc D) (ad_config D) cache w = (Inr (Inr u, cache'), w1)"
  shows "\<exists>active d token nonce. u = oe_auth_url (ad_oidc D) active d token nonce \<and>
    (\<forall>req w2. bearer token req \<and> clock w2 < clock w + 9 * 60 * 1000000000 \<and>
        admin_ip_allowlist (ad_ip6 D) (cg_allowlist (ad_config D)) req \<longrightarrow>
       serve_admin E D cache' (Inr GetMe) req w2 =
         (Inr (\<lparr>ar_status = 200, ar_headers = [(''Content-Type'', ''application/json'')], ar_body = ClaimsBody nobody\<rparr>, cache'), w2))"
proof -
  obtain status v1 where st: "oidc_status E (ad_oidc D) (ad_config D) w = (Inr status, v1)" "ot_configured status"
    and p: "with_provider E (ad_oidc D) (ad_config D) cache (\<lambda>current d active.
       bnd (new_state_token E (ad_config D)) (\<lambda>(state_token, nonce). ret (oe_auth_url (ad_oidc D) active d state_token nonce))) v1
        = (Inr (Inr u, cache'), w1)"
    using assms(3) by (auto simp: start_login_def bnd_Inr_iff split: if_splits)
  obtain current d c' v2 token nonce v3 where e: "ensure_provider E (ad_oidc D) (ad_config D) cache v1 = (Inr (current, d, c'), v2)"
    and n: "new_state_token E (ad_config D) v2 = (Inr (token, nonce), v3)"
    and u: "u = oe_auth_url (ad_oidc D) (active_settings c' current) d token nonce"
    using p by (cases "ensure_provider E (ad_oidc D) (ad_config D) cache v1")
      (auto simp: with_provider_def keeping_def bnd_Inr_iff bnd_def split: sum.splits prod.splits)
  have "clock w \<le> clock v1" using keeps_invD [OF keeps_clock_provider(1) _ st(1), of "clock w"] by simp
  then have "clock w \<le> clock v2" using keeps_invD [OF keeps_clock_provider(2) _ e, of "clock w"] by simp
  then have "serve_admin E D cache' (Inr GetMe) req w2 =
         (Inr (\<lparr>ar_status = 200, ar_headers = [(''Content-Type'', ''application/json'')], ar_body = ClaimsBody nobody\<rparr>, cache'), w2)"
    if "bearer token req" "clock w2 < clock w + 9 * 60 * 1000000000" "admin_ip_allowlist (ad_ip6 D) (cg_allowlist (ad_config D)) req" for req w2
    using state_token_parses [OF assms(1) n assms(2), of w2] that
    by (simp add: serve_admin_def admin_auth_def Let_def trim_bearer bnd_def write_json_def)
  then show ?thesis using u by blast
qed

section \<open>The last healthy node\<close>

definition serving :: "node_row \<Rightarrow> bool" where
  "serving n \<longleftrightarrow> n_state n = ''active'' \<and> n_status n = ''healthy''"

lemma healthy_active_of_row: "healthy_active (node_of_row n) = serving n"
  by (simp add: healthy_active_def serving_def node_of_row_def)

definition some_serving :: "world \<Rightarrow> bool" where
  "some_serving w \<longleftrightarrow> (\<exists>n \<in> set (t_nodes (db w)). serving n)"

lemma two_of: "2 \<le> length (filter p xs) \<Longrightarrow> distinct (map f xs) \<Longrightarrow> \<exists>x \<in> set xs. p x \<and> f x \<noteq> i"
proof (rule ccontr)
  assume l: "2 \<le> length (filter p xs)" and d: "distinct (map f xs)" and n: "\<not> (\<exists>x \<in> set xs. p x \<and> f x \<noteq> i)"
  have "map f (filter p xs) = replicate (length (filter p xs)) i" using n by (intro nth_equalityI) (auto simp: list_all_iff dest!: nth_mem)
  moreover have "distinct (map f (filter p xs))" using d by (rule distinct_map_filter)
  moreover obtain a b zs where "filter p xs = a # b # zs" using l by (metis Suc_le_length_iff numeral_2_eq_2)
  ultimately show False by simp
qed

lemma state_update_serves:
  assumes ids: "distinct (map n_id ns)" and some: "\<exists>n \<in> set ns. serving n"
    and nodes: "find_storage_node (map node_of_row (sort_key n_name ns)) i = Some cur"
    and free: "\<not> should_block_node_state_change (Some cur) state (map node_of_row (sort_key n_name ns))"
  shows "\<exists>n \<in> set (map (\<lambda>n. if n_id n = i then n\<lparr>n_state := state\<rparr> else n) ns). serving n"
proof -
  obtain c where c: "c \<in> set ns" "cur = node_of_row c" "n_id c = i"
    using nodes by (auto simp: find_storage_node_def node_of_row_def dest!: find_SomeD)
  have other: ?thesis if "m \<in> set ns" "serving m" "n_id m \<noteq> i" for m
    using that by (force intro!: bexI [of _ m])
  consider "\<not> serving c" | "serving c" "state = ''active''" | "2 \<le> length (filter serving (sort_key n_name ns))"
    using free c by (fastforce simp: should_block_node_state_change_def healthy_active_of_row filter_map o_def split: if_splits)
  then show ?thesis
  proof cases
    case 1
    obtain m where m: "m \<in> set ns" "serving m" using some by blast
    then have "n_id m \<noteq> i" using ids c 1 by (metis inj_onD distinct_map)
    with m show ?thesis by (rule other)
  next
    case 2
    then have "serving (c\<lparr>n_state := state\<rparr>)" by (simp add: serving_def)
    then show ?thesis using c by (force intro!: bexI [of _ "c\<lparr>n_state := state\<rparr>"])
  next
    case 3
    then have "2 \<le> length (filter serving ns)" by (metis length_sort filter_sort)
    from two_of [OF this ids] show ?thesis using other by blast
  qed
qed

lemma stable_serving: "stable some_serving"
  unfolding some_serving_def [abs_def] by (rule stable_db)

lemma keeps_admin_audit: "stable I \<Longrightarrow> (\<And>w a. I w \<Longrightarrow> I (w\<lparr>db := (db w)\<lparr>t_audit := a\<rparr>\<rparr>)) \<Longrightarrow> keeps_inv I (admin_audit req c a r j)"
  unfolding admin_audit_def admin_audit_as_def record_audit_def
  by (intro keeps keeps_exec) auto

lemma keeps_admin_reply [keeps]: "keeps_inv I (error_reply status m)" "keeps_inv I (write_json status b)"
  by (simp_all add: error_reply_def write_json_def keeps)

lemma keeps_on_result [keeps]:
  "keeps_inv I m \<Longrightarrow> (\<And>e. keeps_inv I (h e)) \<Longrightarrow> (\<And>x. keeps_inv I (f x)) \<Longrightarrow> keeps_inv I (on_result m h f)"
  unfolding on_result_def by (intro keeps)

definition nodes_are :: "node_row list \<Rightarrow> object_row list \<Rightarrow> world \<Rightarrow> bool" where
  "nodes_are ns os w \<longleftrightarrow> t_nodes (db w) = ns \<and> t_objects (db w) = os"

lemma stable_nodes_are: "stable (nodes_are ns os)"
  unfolding nodes_are_def [abs_def] by (rule stable_db)

lemma triple_update_serves:
  assumes ids: "distinct (map n_id ns)" and some: "\<exists>n \<in> set ns. serving n" and uuid: "\<forall>n \<in> set ns. pg_uuid E (n_id n) = Some (n_id n)"
    and nodes: "find_storage_node (map node_of_row (sort_key n_name ns)) i = Some cur"
    and free: "\<not> should_block_node_state_change (Some cur) (to_lower (trim_space state0)) (map node_of_row (sort_key n_name ns))"
  shows "triple (nodes_are ns os) (update_node_state E D c req i state0) (\<lambda>_. some_serving) some_serving"
proof -
  let ?state = "to_lower (trim_space state0)"
  have before: "some_serving w" if "nodes_are ns os w" for w
    using that some by (simp add: nodes_are_def some_serving_def)
  have i: "pg_uuid E i = Some i"
    using nodes uuid by (auto simp: find_storage_node_def node_of_row_def dest!: find_SomeD)
  have upd: "some_serving (w\<lparr>db := change_nodes (map (\<lambda>n. if n_id n = i then n\<lparr>n_state := ?state\<rparr> else n)) (db w)\<rparr>)"
    if "nodes_are ns os w" for w
    using state_update_serves [OF ids some nodes free] that by (simp add: some_serving_def nodes_are_def change_nodes_def)
  have listed: "triple some_serving (find_listed p) (\<lambda>_. some_serving) some_serving" for p
    unfolding find_listed_def list_nodes_def keeps_inv_triple [symmetric] by (intro keeps stable_serving)
  have "triple (nodes_are ns os) (update_node_operator_state E i state0) (\<lambda>_. some_serving) some_serving"
    unfolding update_node_operator_state_def Let_def
  proof (cases "valid_operator_state ?state")
    case False
    then show "triple (nodes_are ns os) (if \<not> valid_operator_state ?state then fail ErrInvalidOperatorState else bnd (cast_uuid E i) (\<lambda>i'.
        bnd (exec (\<lambda>_ d. Inr (list_ex (\<lambda>n. n_id n = i') (t_nodes d), change_nodes (map (\<lambda>n. if n_id n = i' then n\<lparr>n_state := ?state\<rparr> else n)) d)))
          (\<lambda>found. if \<not> found then fail PgNoRows else find_listed (\<lambda>n. nv_id n = i)))) (\<lambda>_. some_serving) some_serving"
      by (simp add: triple_def before)
  next
    case True
    have e: "triple (nodes_are ns os) (exec (\<lambda>_ d. Inr (list_ex (\<lambda>n. n_id n = i) (t_nodes d),
        change_nodes (map (\<lambda>n. if n_id n = i then n\<lparr>n_state := ?state\<rparr> else n)) d))) (\<lambda>_. some_serving) some_serving"
      by (rule triple_exec [OF stable_nodes_are]) (auto simp: upd before)
    show "triple (nodes_are ns os) (if \<not> valid_operator_state ?state then fail ErrInvalidOperatorState else bnd (cast_uuid E i) (\<lambda>i'.
        bnd (exec (\<lambda>_ d. Inr (list_ex (\<lambda>n. n_id n = i') (t_nodes d), change_nodes (map (\<lambda>n. if n_id n = i' then n\<lparr>n_state := ?state\<rparr> else n)) d)))
          (\<lambda>found. if \<not> found then fail PgNoRows else find_listed (\<lambda>n. nv_id n = i)))) (\<lambda>_. some_serving) some_serving"
      using True by (simp add: cast_uuid_def i, intro triple_bnd [OF e]) (simp add: listed triple_fail)
  qed
  then show ?thesis
    unfolding update_node_state_def
    by (rule triple_on_result)
       (auto simp: keeps_inv_triple [symmetric] some_serving_def intro!: keeps keeps_admin_audit stable_serving)
qed

lemma triple_migration_pending:
  assumes "\<exists>r \<in> set os. pending_migration r"
  shows "triple (nodes_are ns os) migration_status_of (\<lambda>s w. nodes_are ns os w \<and> 0 < ms_pending_objects s) (nodes_are ns os)"
  unfolding migration_status_of_def
  by (rule triple_query [OF stable_nodes_are])
     (use assms in \<open>auto simp: nodes_are_def pending_migration_def Let_def filter_empty_conv\<close>)

lemma triple_error_serves: "(\<And>w. P w \<Longrightarrow> some_serving w) \<Longrightarrow> triple P (error_reply status m) (\<lambda>_. some_serving) some_serving"
  by (simp add: triple_def error_reply_def write_json_def)

lemma triple_change_serves:
  assumes "distinct (map n_id ns)" "\<exists>n \<in> set ns. serving n" "\<forall>n \<in> set ns. pg_uuid E (n_id n) = Some (n_id n)"
    and "\<exists>r \<in> set os. pending_migration r"
  shows "triple (nodes_are ns os) (change_node_state E D c req i state (map node_of_row (sort_key n_name ns))) (\<lambda>_. some_serving) some_serving"
proof -
  let ?nodes = "map node_of_row (sort_key n_name ns)"
  have before: "some_serving w" if "nodes_are ns os w" for w using that assms(2) by (simp add: nodes_are_def some_serving_def)
  show ?thesis
  proof (cases "find_storage_node ?nodes i")
    case None
    then show ?thesis by (simp add: change_node_state_def triple_error_serves before)
  next
    case (Some cur)
    show ?thesis
    proof (cases "should_block_node_state_change (Some cur) (to_lower (trim_space state)) ?nodes")
      case True
      have "triple (nodes_are ns os) (or_error D 500 migration_status_of (\<lambda>s. if ms_pending_objects s > 0 then state_change_refused s
          else update_node_state E D c req i state)) (\<lambda>_. some_serving) some_serving"
        unfolding or_error_def
        by (rule triple_on_result [OF triple_migration_pending [OF assms(4)]])
           (simp_all add: triple_def error_reply_def write_json_def state_change_refused_def before)
      then show ?thesis using Some True by (simp add: change_node_state_def)
    next
      case False
      then show ?thesis using Some triple_update_serves [OF assms(1-3) Some False] by (simp add: change_node_state_def)
    qed
  qed
qed

text \<open>
  C8: no request to change the state of a node takes the last node that is active and healthy out of
  service while an object still waits for its migration from the local store, whatever calls fail.
\<close>

theorem last_serving_node_kept:
  assumes "distinct (map n_id (t_nodes (db w)))" "\<forall>n \<in> set (t_nodes (db w)). pg_uuid E (n_id n) = Some (n_id n)"
    and "some_serving w" "\<exists>r \<in> set (t_objects (db w)). pending_migration r"
    and "serve_protected E D c (PatchNode i) req w = (r, w')"
  shows "some_serving w'"
proof -
  let ?P = "nodes_are (t_nodes (db w)) (t_objects (db w))"
  have some: "\<exists>n \<in> set (t_nodes (db w)). serving n" using assms(3) by (simp add: some_serving_def)
  have reply: "triple ?P (error_reply status m) (\<lambda>_. some_serving) some_serving" for status m
    by (rule triple_error_serves) (use assms(3) in \<open>simp add: nodes_are_def some_serving_def\<close>)
  have nodes: "triple ?P list_nodes (\<lambda>nodes v. ?P v \<and> nodes = map node_of_row (sort_key n_name (t_nodes (db w)))) ?P"
    unfolding list_nodes_def by (rule triple_query [OF stable_nodes_are]) (auto simp: nodes_are_def)
  have changed: "triple ?P (or_error D 500 list_nodes (change_node_state E D c req i state)) (\<lambda>_. some_serving) some_serving" for state
    unfolding or_error_def
  proof (rule triple_on_result [OF nodes reply])
    fix x
    show "triple (\<lambda>v. ?P v \<and> x = map node_of_row (sort_key n_name (t_nodes (db w)))) (change_node_state E D c req i state x)
        (\<lambda>_. some_serving) some_serving"
      using triple_change_serves [OF assms(1) some assms(2,4)] by (auto simp: triple_def)
  qed
  have body: "triple ?P (bnd (external (ret (rq_body req))) (\<lambda>content. case decode_body D (str_field ''operatorState'') content of
      None \<Rightarrow> fail (Failure ''json'') | Some x \<Rightarrow> ret x)) (\<lambda>_. ?P) ?P"
    unfolding keeps_inv_triple [symmetric] by (intro keeps keeps_external stable_nodes_are)
  have subject: "triple ?P (check_subject (cl_subject_type c) (cl_subject c) (cl_role c) ''storage.manage'' ''*'') (\<lambda>_. ?P) ?P"
    unfolding keeps_inv_triple [symmetric] by (intro keeps stable_nodes_are)
  have "triple ?P (serve_protected E D c (PatchNode i) req) (\<lambda>_. some_serving) some_serving"
    unfolding serve_protected.simps patch_node_def authorized_def with_body_def
    by (rule triple_on_result [OF subject reply], rule triple_on_result [OF body reply], rule changed)
  then show ?thesis using assms(5) by (cases r) (auto simp: triple_def nodes_are_def)
qed

end
