(* ===== verification/AdminGrants.thy ===== *)
theory AdminGrants
  imports AdminSafety
begin

text \<open>
  What the administration interface hands out: admin tokens for the role of the caller, and S3
  credentials for any role.
\<close>

section \<open>Tokens and credentials\<close>

definition year :: int where
  "year = 365 * 24 * 3600 * 1000000000"

definition bounded_tokens :: "claims \<Rightarrow> admin_token_row set \<Rightarrow> world \<Rightarrow> bool" where
  "bounded_tokens c old w \<longleftrightarrow> (\<forall>row \<in> set (t_admin_tokens (db w)). row \<in> old \<or>
     ((cl_role c = ''superadmin'' \<or> at_role row = cl_role c) \<and> at_expires row \<le> clock w + year))"

lemma stable_bounded: "stable (bounded_tokens c old)"
  by (fastforce simp: stable_def bounded_tokens_def env_step_fields)

lemma stable_bounded_expiry: "stable (\<lambda>w. bounded_tokens c old w \<and> x \<le> clock w + year)"
  by (fastforce simp: stable_def bounded_tokens_def env_step_fields)

lemma triple_create_token:
  assumes "cl_role c = ''superadmin'' \<or> role = cl_role c"
  shows "triple (\<lambda>w. bounded_tokens c old w \<and> x \<le> clock w + year) (create_admin_token E u role description x)
    (\<lambda>_. bounded_tokens c old) (bounded_tokens c old)"
proof -
  let ?I = "\<lambda>w. bounded_tokens c old w \<and> x \<le> clock w + year"
  have ins: "keeps_inv ?I (exec (\<lambda>t. insert_admin_token
       \<lparr>at_id = i, at_creator = u', at_role = role, at_hash = h, at_desc = description,
        at_last_used = None, at_expires = x, at_revoked = None, at_created = t\<rparr>))" for i u' h
    using assms by (intro keeps_exec stable_bounded_expiry)
      (auto simp: bounded_tokens_def insert_admin_token_def split: if_splits)
  have "keeps_inv ?I (create_admin_token E u role description x)"
    unfolding create_admin_token_def random_admin_token_def cast_optional_uuid_def
    by (intro keeps ins stable_bounded_expiry)
  then show ?thesis by (auto simp: keeps_inv_triple elim!: triple_weaken)
qed

lemma keeps_bounded_audit: "keeps_inv (bounded_tokens c old) (admin_audit req c' a r j)"
  by (intro keeps_admin_audit stable_bounded) (simp add: bounded_tokens_def)

lemma keeps_authorized: "stable I \<Longrightarrow> keeps_inv I f \<Longrightarrow> keeps_inv I (authorized D c a r f)"
  unfolding authorized_def by (intro keeps)

lemma keeps_with_body: "stable I \<Longrightarrow> (\<And>x. keeps_inv I (f x)) \<Longrightarrow> keeps_inv I (with_body D req fs f)"
  unfolding with_body_def by (intro keeps keeps_external)

lemma keeps_if_known: "(b \<Longrightarrow> keeps_inv I m) \<Longrightarrow> (\<not> b \<Longrightarrow> keeps_inv I n) \<Longrightarrow> keeps_inv I (if b then m else n)"
  by simp

text \<open>
  C9: whatever a request to create an admin token leaves in the table that was not there before is a
  token of the role of the caller, unless the caller is a superadmin, and ends within a year.
\<close>

theorem admin_token_bounded:
  assumes "serve_protected E D c PostAdminToken req w = (r, w')"
    and "row \<in> set (t_admin_tokens (db w'))" "row \<notin> set (t_admin_tokens (db w))"
  shows "(cl_role c = ''superadmin'' \<or> at_role row = cl_role c) \<and> at_expires row \<le> clock w' + year"
proof -
  let ?I = "bounded_tokens c (set (t_admin_tokens (db w)))"
  have created: "triple ?I (bnd now (\<lambda>t. or_error D 500 (create_admin_token E (cl_user c) role description (t + days * 24 * 3600 * 1000000000)) (\<lambda>item.
     bnd (admin_audit req c ''admin-token.create'' role (detail days)) (\<lambda>_. write_json 201 (AdminTokenBody item))))) (\<lambda>_. ?I) ?I"
    if role: "cl_role c = ''superadmin'' \<or> role = cl_role c" and days: "days \<le> 365" for role description days detail
  proof (rule triple_bnd [where Q = "\<lambda>t w. ?I w \<and> t \<le> clock w"])
    fix t
    have "triple (\<lambda>w. ?I w \<and> t \<le> clock w) (create_admin_token E (cl_user c) role description (t + days * 24 * 3600 * 1000000000)) (\<lambda>_. ?I) ?I"
      by (rule triple_weaken [OF triple_create_token [OF role]]) (use days in \<open>auto simp: year_def\<close>)
    then show "triple (\<lambda>w. ?I w \<and> t \<le> clock w) (or_error D 500 (create_admin_token E (cl_user c) role description (t + days * 24 * 3600 * 1000000000))
        (\<lambda>item. bnd (admin_audit req c ''admin-token.create'' role (detail days)) (\<lambda>_. write_json 201 (AdminTokenBody item)))) (\<lambda>_. ?I) ?I"
      unfolding or_error_def
      by (rule triple_on_result) (simp_all add: keeps_inv_triple [symmetric] keeps keeps_bounded_audit)
  qed (simp add: triple_def)
  have "keeps_inv ?I (serve_protected E D c PostAdminToken req)"
    unfolding serve_protected.simps post_admin_token_def
  proof (intro keeps_authorized keeps_with_body stable_bounded)
    fix x :: "string \<times> string \<times> int"
    obtain role0 description days0 where x: "x = (role0, description, days0)" by (cases x)
    show "keeps_inv ?I (case x of (role0, description, days0) \<Rightarrow>
       let role = (if role0 = [] then cl_role c else role0); days = (if days0 \<le> 0 then 30 else days0) in
       if cl_role c \<noteq> ''superadmin'' \<and> role \<noteq> cl_role c then error_reply 403 ''cannot create admin token for a different role''
       else if days > 365 then error_reply 400 ''expiresInDays must be 365 or less''
       else
       bnd now (\<lambda>t.
       or_error D 500 (create_admin_token E (cl_user c) role description (t + days * 24 * 3600 * 1000000000)) (\<lambda>item.
       bnd (admin_audit req c ''admin-token.create'' role
         (JObj [(''description'', JStr description), (''expiresInDays'', JNum days)])) (\<lambda>_.
       write_json 201 (AdminTokenBody item)))))"
      unfolding x prod.case Let_def
      by (intro keeps_if_known keeps_admin_reply created [folded keeps_inv_triple]) (blast, linarith)
  qed
  moreover have "?I w" by (simp add: bounded_tokens_def)
  ultimately have "?I w'" using keeps_invD assms(1) by blast
  then show ?thesis using assms(2,3) by (auto simp: bounded_tokens_def)
qed

definition has_credential :: "string \<Rightarrow> string \<Rightarrow> world \<Rightarrow> bool" where
  "has_credential access_key role w \<longleftrightarrow> (\<exists>row \<in> set (t_credentials (db w)). c_access row = access_key \<and> c_role row = role)"

lemma stable_has_credential: "stable (has_credential a r)"
  unfolding has_credential_def [abs_def] by (rule stable_db)

lemma keeps_has_credential:
  "keeps_inv (has_credential a r) (admin_audit req c x y j)"
  "keeps_inv (has_credential a r) (emit E ty p)"
  unfolding emit_def matching_targets_def insert_delivery_def
  by (intro keeps_admin_audit stable_has_credential, simp add: has_credential_def)
     (intro keeps keeps_exec stable_has_credential, auto simp: has_credential_def split: if_splits)

lemma triple_top: "triple P m (\<lambda>_ _. True) (\<lambda>_. True)"
  by (auto simp: triple_def split: prod.splits sum.splits)

lemma triple_insert_credential:
  "triple (\<lambda>_. True) (exec (\<lambda>t. insert_credential (row t))) (\<lambda>_ w. \<exists>t. row t \<in> set (t_credentials (db w))) (\<lambda>_. True)"
  by (rule triple_exec) (auto simp: insert_credential_def stable_def split: if_splits)

lemma triple_create_credential:
  "triple (\<lambda>_. True) (create_credential E u role description) (\<lambda>item w. nc_role item = role \<and> has_credential (nc_access item) role w)
    (\<lambda>_. True)"
  unfolding create_credential_def
  by (rule triple_bnd [OF triple_top], rule triple_bnd [OF triple_top], rule triple_bnd [OF triple_top],
      rule triple_bnd [OF triple_top], rule triple_bnd [OF triple_insert_credential])
     (force simp: triple_def has_credential_def)

definition created_reply :: "string \<Rightarrow> admin_reply \<Rightarrow> world \<Rightarrow> bool" where
  "created_reply role rep w \<longleftrightarrow> (ar_status rep = 201 \<longrightarrow>
     (\<exists>item. ar_body rep = CredentialBody item \<and> nc_role item = role \<and> has_credential (nc_access item) role w))"

lemma triple_refusal: "status \<noteq> 201 \<Longrightarrow> triple (\<lambda>_. True) (error_reply status m) (created_reply role) (\<lambda>_. True)"
  by (simp add: triple_def error_reply_def write_json_def created_reply_def)

lemma triple_credential_created:
  "triple (\<lambda>_. True) (or_error D 500 (create_credential E u role description) (\<lambda>item.
     bnd (admin_audit req c ''credential.create'' role (detail item)) (\<lambda>_.
     bnd (ignore_error (emit E ''credential.created'' payload)) (\<lambda>_.
     write_json 201 (CredentialBody item))))) (created_reply role) (\<lambda>_. True)"
  unfolding or_error_def
proof (rule triple_on_result [OF triple_create_credential])
  fix item :: new_credential
  let ?I = "has_credential (nc_access item) role"
  have "triple ?I (bnd (admin_audit req c ''credential.create'' role (detail item)) (\<lambda>_.
     bnd (ignore_error (emit E ''credential.created'' payload)) (\<lambda>_. write_json 201 (CredentialBody item))))
     (\<lambda>rep w. rep = \<lparr>ar_status = 201, ar_headers = [(''Content-Type'', ''application/json'')], ar_body = CredentialBody item\<rparr> \<and> ?I w) ?I"
    by (rule triple_bnd [where Q = "\<lambda>_. ?I"], simp add: keeps_inv_triple [symmetric] keeps_has_credential,
        rule triple_bnd [where Q = "\<lambda>_. ?I"])
       (simp_all add: keeps_inv_triple [symmetric] keeps_has_credential keeps_ignore, simp add: write_json_def triple_def)
  then show "triple (\<lambda>w. nc_role item = role \<and> ?I w) (bnd (admin_audit req c ''credential.create'' role (detail item)) (\<lambda>_.
     bnd (ignore_error (emit E ''credential.created'' payload)) (\<lambda>_. write_json 201 (CredentialBody item))))
     (created_reply role) (\<lambda>_. True)"
    by (cases "nc_role item = role") (auto simp: created_reply_def triple_def [of "\<lambda>_. False"] elim!: triple_weaken)
qed (simp_all add: triple_refusal)

text \<open>
  A credential is created with the role the request names, whatever the role of the caller:
  who may create credentials may create one of a superadmin.
\<close>

lemma credential_takes_any_role:
  assumes "serve_protected E D c PostCredential req w = (Inr rep, w')" "ar_status rep = 201"
    and "decode_body D (both_fields (str_field ''userId'') (both_fields (str_field ''role'') (str_field ''description''))) (rq_body req)
      = Some (user_id, role, description)"
  shows "\<exists>item row. ar_body rep = CredentialBody item \<and> nc_role item = role \<and>
      row \<in> set (t_credentials (db w')) \<and> c_access row = nc_access item \<and> c_role row = role"
proof -
  have "triple (\<lambda>_. True) (serve_protected E D c PostCredential req) (created_reply role) (\<lambda>_. True)"
    unfolding serve_protected.simps post_credential_def authorized_def with_body_def
  proof (rule triple_on_result [OF triple_top], simp add: triple_refusal, rule triple_on_result)
    show "triple (\<lambda>_. True) (bnd (external (ret (rq_body req))) (\<lambda>content. case decode_body D (both_fields (str_field ''userId'')
        (both_fields (str_field ''role'') (str_field ''description''))) content of None \<Rightarrow> fail (Failure ''json'') | Some x \<Rightarrow> ret x))
        (\<lambda>x _. x = (user_id, role, description)) (\<lambda>_. True)"
      by (rule triple_bnd [where Q = "\<lambda>content _. content = rq_body req"], rule triple_external)
         (auto simp: stable_def triple_def assms(3))
  next
    fix x
    show "triple (\<lambda>_. x = (user_id, role, description)) (case x of (user_id, role, description) \<Rightarrow>
        or_error D 500 (create_credential E user_id role description) (\<lambda>item.
        bnd (admin_audit req c ''credential.create'' role
          (JObj [(''accessKey'', JStr (nc_access item)), (''userId'', JStr user_id), (''role'', JStr role), (''description'', JStr description)])) (\<lambda>_.
        bnd (ignore_error (emit E ''credential.created''
          (JObj [(''description'', JStr description), (''role'', JStr role), (''userId'', JStr user_id)]))) (\<lambda>_.
        write_json 201 (CredentialBody item))))) (created_reply role) (\<lambda>_. True)"
    proof (cases "x = (user_id, role, description)")
      case True
      then show ?thesis by (simp add: triple_credential_created)
    qed (simp add: triple_def)
  qed (simp add: triple_refusal)
  from tripleD_Inr [OF this _ assms(1)] assms(2) show ?thesis
    by (auto simp: created_reply_def has_credential_def)
qed

end
