(* ===== verification/BlobNode.thy ===== *)
theory BlobNode
  imports AdminSafety
begin

text \<open>
  The start of a blob node: \<open>backend/cmd/blobnode/main.go\<close>, around the handler of \<open>BlobStore\<close>. The
  node reads the token it kept, joins the cluster when it is told to, keeps the token it was
  given, and answers health probes. The environment is a function of names; HTTP is a function of
  the URL and the body; \<open>walk\<close> lists the files under the root.
\<close>

section \<open>The token of a node\<close>

definition node_name_of :: "(string \<Rightarrow> string) \<Rightarrow> string" where
  "node_name_of env = get_env env ''BLOBNODE_NAME'' ''blobnode''"

definition node_token_file :: "(string \<Rightarrow> string) \<Rightarrow> config \<Rightarrow> string" where
  "node_token_file env cfg =
     (let root = get_env env ''BLOBNODE_ROOT'' (cg_root cfg) in
      get_env env ''BLOBNODE_RPC_TOKEN_FILE'' (filepath_join [root, ''.blobnode-rpc-token'']))"

definition load_node_token :: "string \<Rightarrow> string \<Rightarrow> string prog" where
  "load_node_token node file_path =
     bnd (attempt (read_file (NodeHost node) file_path)) (\<lambda>r. case r of
        Inl e \<Rightarrow> if e = NotExist then ret [] else fail e
      | Inr content \<Rightarrow> ret (trim_space content))"

definition persist_node_token :: "string \<Rightarrow> string \<Rightarrow> string \<Rightarrow> unit prog" where
  "persist_node_token node file_path token =
     bnd (external (ret ())) (\<lambda>_.
     bnd (create_file (NodeHost node) file_path) (\<lambda>_.
     write_file (NodeHost node) file_path (token @ newline)))"

section \<open>Joining\<close>

definition trim_url :: "string \<Rightarrow> string" where
  "trim_url value = trim_right_by (\<lambda>c. c = slash) (trim_space value)"

text \<open>\<open>post\<close> gives the status and the body of a reply, when it is JSON.\<close>

type_synonym json_post = "string \<Rightarrow> json \<Rightarrow> (nat \<times> json option) prog"

definition join_payload :: "(string \<Rightarrow> string) \<Rightarrow> string \<Rightarrow> json" where
  "join_payload env name = JObj [(''endpoint'', JStr (trim_url (env ''BLOBNODE_ADVERTISE_URL''))), (''name'', JStr name),
     (''token'', JStr (trim_space (env ''BLOBNODE_JOIN_TOKEN''))), (''zone'', JStr (trim_space (env ''BLOBNODE_ZONE'')))]"

definition maybe_join_cluster :: "(string \<Rightarrow> string) \<Rightarrow> json_post \<Rightarrow> string \<Rightarrow> string \<Rightarrow> string prog" where
  "maybe_join_cluster env post node file_path =
     (let api_url = trim_url (env ''BLOBNODE_API_URL'') in
      if api_url = [] \<or> trim_space (env ''BLOBNODE_JOIN_TOKEN'') = [] \<or> trim_url (env ''BLOBNODE_ADVERTISE_URL'') = [] then ret []
      else
      bnd (post (api_url @ ''/api/v1/internal/storage/join'') (join_payload env (node_name_of env))) (\<lambda>(status, content).
      if status \<noteq> 201 \<and> status \<noteq> 200 then fail (Failure ''join request failed'')
      else (case Option.bind (Option.bind content struct_members) (str_field ''rpcToken'') of
          None \<Rightarrow> fail (Failure ''join response'')
        | Some token \<Rightarrow>
            if trim_space token = [] then fail (Failure ''join response missing rpcToken'')
            else bnd (persist_node_token node file_path token) (\<lambda>_. ret token))))"

text \<open>Without the file, or when joining fails, the node goes on with what it has. No nonce is known at the start.\<close>

definition start_node :: "(string \<Rightarrow> string) \<Rightarrow> config \<Rightarrow> json_post \<Rightarrow> string \<Rightarrow> unit prog" where
  "start_node env cfg post node =
     bnd (load_node_token node (node_token_file env cfg)) (\<lambda>stored.
     bnd (attempt (maybe_join_cluster env post node (node_token_file env cfg))) (\<lambda>joined.
     let token = (case joined of Inl _ \<Rightarrow> stored | Inr t \<Rightarrow> if t \<noteq> [] then t else stored) in
     (\<lambda>w. (Inr (), w\<lparr>node_token := (node_token w)(node := token), node_seen := (node_seen w)(node := Map.empty)\<rparr>))))"

text \<open>The request as the API answers it; times are texts in the code and numbers here.\<close>

definition node_members :: "node \<Rightarrow> (string \<times> json) list" where
  "node_members n = [(''id'', JStr (nv_id n)), (''name'', JStr (nv_name n)), (''endpoint'', JStr (nv_endpoint n)),
     (''backendType'', JStr ''distributed''), (''zone'', JStr (nv_zone n)), (''status'', JStr (nv_status n)),
     (''operatorState'', JStr (nv_state n)), (''capacityBytes'', JNum (nv_capacity n)), (''usedBytes'', JNum (nv_used n)),
     (''metadata'', JObj (nv_meta n))] @
     (case nv_heartbeat n of None \<Rightarrow> [] | Some t \<Rightarrow> [(''lastHeartbeatAt'', JNum t)]) @ [(''createdAt'', JNum (nv_created n))]"

definition reply_json :: "admin_reply \<Rightarrow> json option" where
  "reply_json rep = (case ar_body rep of
     EnrollmentBody item \<Rightarrow> Some (JObj (node_members (en_node item) @ [(''rpcToken'', JStr (en_rpc_token item))]))
   | Json j \<Rightarrow> Some j
   | _ \<Rightarrow> None)"

definition join_exchange :: "ext \<Rightarrow> admin_deps \<Rightarrow> request \<Rightarrow> json_post" where
  "join_exchange E D req url content =
     external (bnd (post_join E (D\<lparr>ad_json := (\<lambda>_. Some content)\<rparr>) req) (\<lambda>rep. ret (ar_status rep, reply_json rep)))"

section \<open>Health\<close>

definition storage_stats :: "(world \<Rightarrow> string list) \<Rightarrow> string \<Rightarrow> world \<Rightarrow> int \<times> int \<times> int" where
  "storage_stats walk node w =
     (let files = walk w in
      (0, sum_list (map (\<lambda>f. case disks w (NodeHost node) f of None \<Rightarrow> 0 | Some c \<Rightarrow> int (length c)) files), int (length files)))"

definition health_reply :: "(world \<Rightarrow> string list) \<Rightarrow> string \<Rightarrow> string \<Rightarrow> json prog" where
  "health_reply walk node name = external (\<lambda>w. (Inr (case storage_stats walk node w of (capacity, used, files) \<Rightarrow>
     JObj [(''capacityBytes'', JNum capacity), (''fileCount'', JNum files), (''name'', JStr name), (''service'', JStr ''blobnode''),
       (''status'', JStr ''ok''), (''usedBytes'', JNum used)]), w))"

text \<open>
  What \<open>fetchNodeHealth\<close> makes of a reply: the status, the body and, over TLS, the first
  certificate of the peer with its common name.
\<close>

definition probe_of_reply :: "ext \<Rightarrow> nat \<times> json option \<times> (bytes \<times> string) option \<Rightarrow> err + probe_result" where
  "probe_of_reply E reply = (case reply of (status, content, peer) \<Rightarrow>
     if status \<noteq> 200 then Inl (Failure ''unexpected node health status'')
     else (case Option.bind content struct_members of None \<Rightarrow> Inl (Failure ''json'') | Some fs \<Rightarrow>
       (case (both_fields (str_field ''status'') (str_field ''name'') fs, str_field ''service'' fs, int_field ''capacityBytes'' fs, int_field ''usedBytes'' fs, int_field ''fileCount'' fs) of
          (Some _, Some service, Some capacity, Some used, Some files) \<Rightarrow>
            Inr \<lparr>pr_service = service, pr_capacity = capacity, pr_used = used, pr_files = files,
              pr_fingerprint = (case peer of None \<Rightarrow> [] | Some (cert, _) \<Rightarrow> hex_encode (sha256 E cert)),
              pr_common_name = (case peer of None \<Rightarrow> [] | Some (_, name) \<Rightarrow> name)\<rparr>
        | _ \<Rightarrow> Inl (Failure ''json''))))"

section \<open>Transport security\<close>

text \<open>
  The TLS files: \<open>pair\<close> loads a certificate with its key, \<open>file_of\<close> reads a file, \<open>certificates\<close>
  says whether a text has a certificate. A node without a server certificate serves plain HTTP,
  and refuses every blob request when it has an authority.
\<close>

record 'p tls_config =
  tl_pair :: "'p option"
  tl_authority :: "bytes option"     \<comment> \<open>of the peers; a server with one requires certificates\<close>

definition load_authority :: "(string \<Rightarrow> bytes option) \<Rightarrow> (bytes \<Rightarrow> bool) \<Rightarrow> string \<Rightarrow> err + bytes option" where
  "load_authority file_of certificates ca_file =
     (if trim_space ca_file = [] then Inr None
      else case file_of ca_file of
        None \<Rightarrow> Inl (Failure ''read CA file'')
      | Some pem \<Rightarrow> if \<not> certificates pem then Inl (Failure ''parse CA file'') else Inr (Some pem))"

definition load_server_tls ::
    "(string \<Rightarrow> string \<Rightarrow> err + 'p) \<Rightarrow> (string \<Rightarrow> bytes option) \<Rightarrow> (bytes \<Rightarrow> bool) \<Rightarrow> string \<Rightarrow> string \<Rightarrow> string \<Rightarrow> err + 'p tls_config option" where
  "load_server_tls pair file_of certificates cert_file key_file ca_file =
     (if trim_space cert_file = [] \<and> trim_space key_file = [] then Inr None
      else case pair cert_file key_file of
        Inl e \<Rightarrow> Inl e
      | Inr p \<Rightarrow> (case load_authority file_of certificates ca_file of
            Inl e \<Rightarrow> Inl e | Inr authority \<Rightarrow> Inr (Some \<lparr>tl_pair = Some p, tl_authority = authority\<rparr>)))"

definition load_client_tls ::
    "(string \<Rightarrow> string \<Rightarrow> err + 'p) \<Rightarrow> (string \<Rightarrow> bytes option) \<Rightarrow> (bytes \<Rightarrow> bool) \<Rightarrow> string \<Rightarrow> string \<Rightarrow> string \<Rightarrow> err + 'p tls_config option" where
  "load_client_tls pair file_of certificates ca_file cert_file key_file =
     (if trim_space ca_file = [] \<and> trim_space cert_file = [] \<and> trim_space key_file = [] then Inr None
      else case load_authority file_of certificates ca_file of
        Inl e \<Rightarrow> Inl e
      | Inr authority \<Rightarrow>
          if trim_space cert_file \<noteq> [] \<or> trim_space key_file \<noteq> []
          then (case pair cert_file key_file of
              Inl e \<Rightarrow> Inl e | Inr p \<Rightarrow> Inr (Some \<lparr>tl_pair = Some p, tl_authority = authority\<rparr>))
          else Inr (Some \<lparr>tl_pair = None, tl_authority = authority\<rparr>))"

text \<open>What the handler asks of the connection, given the chains that were verified, if there is TLS.\<close>

definition tls_missing :: "config \<Rightarrow> bytes list option \<Rightarrow> bool" where
  "tls_missing cfg verified \<longleftrightarrow> trim_space (cg_blob_client_ca cfg) \<noteq> [] \<and> (verified = None \<or> verified = Some [])"

section \<open>The node and the API agree on the token\<close>

lemma set_tokens_sets:
  assumes "set_tokens E rows w = (Inr (), w')" "k \<noteq> []" "trim_space tok \<noteq> []"
    and "\<forall>(e, c) \<in> set rows. trim_endpoint e = k \<longrightarrow> open_string E c = Inr tok"
    and "dist_tokens w k = Some tok \<or> (\<exists>(e, c) \<in> set rows. trim_endpoint e = k)"
  shows "dist_tokens w' k = Some tok"
  using assms(1,4,5)
proof (induction E rows arbitrary: w rule: set_tokens.induct)
  case (2 E e c rows)
  obtain t w1 where t: "open_string E c = Inr t" and w1: "set_endpoint_token e t w = (Inr (), w1)"
    and rest: "set_tokens E rows w1 = (Inr (), w')"
    using "2.prems"(1) by (auto simp: bnd_Inr_iff of_result_def split: sum.splits)
  have "dist_tokens w1 k = (if trim_endpoint e = k then Some tok else dist_tokens w k)"
    using w1 t "2.prems"(2) assms(2,3) by (auto simp: set_endpoint_token_def Let_def split: if_splits)
  then show ?case using "2.IH" [OF rest] "2.prems"(2,3) by (auto split: if_splits)
qed simp

definition enrolled :: "ext \<Rightarrow> string \<Rightarrow> string \<Rightarrow> database \<Rightarrow> bool" where
  "enrolled E k tok d \<longleftrightarrow>
     (\<exists>n \<in> set (t_nodes d). trim_endpoint (n_endpoint n) = k \<and> n_rpc_cipher n \<noteq> []) \<and>
     (\<forall>n \<in> set (t_nodes d). trim_endpoint (n_endpoint n) = k \<and> n_rpc_cipher n \<noteq> [] \<longrightarrow> open_string E (n_rpc_cipher n) = Inr tok)"

text \<open>No enrolled row of the registry spells the endpoint in another way.\<close>

definition lone :: "string \<Rightarrow> database \<Rightarrow> bool" where
  "lone endpoint d \<longleftrightarrow> (\<forall>n \<in> set (t_nodes d).
     trim_endpoint (n_endpoint n) = trim_endpoint endpoint \<and> n_rpc_cipher n \<noteq> [] \<longrightarrow> n_endpoint n = endpoint)"

definition good_token :: "string \<Rightarrow> bool" where
  "good_token tok \<longleftrightarrow> tok \<noteq> [] \<and> (\<forall>x \<in> set tok. \<not> is_space x)"

lemma good_token_trim: "good_token tok \<Longrightarrow> trim_space tok = tok"
  by (simp add: good_token_def trim_space_clean)

lemma upsert_enrols:
  assumes "upsert_node row u d = Inr (x, d')" "lone (n_endpoint row) d"
    and "open_string E (n_rpc_cipher row) = Inr tok" "n_rpc_cipher row \<noteq> []"
    and "\<And>n. n_endpoint (u n) = n_endpoint n \<and> n_rpc_cipher (u n) = n_rpc_cipher row"
  shows "enrolled E (trim_endpoint (n_endpoint row)) tok d'"
proof -
  let ?e = "n_endpoint row"
  have same: "n_endpoint n = ?e" if "n \<in> set (t_nodes d)" "trim_endpoint (n_endpoint n) = trim_endpoint ?e" "n_rpc_cipher n \<noteq> []" for n
    using assms(2) that by (simp add: lone_def)
  show ?thesis
  proof (cases "list_ex (\<lambda>n. n_endpoint n = ?e) (t_nodes d)")
    case True
    then have d': "t_nodes d' = map (\<lambda>n. if n_endpoint n = ?e then u n else n) (t_nodes d)"
      using assms(1) by (auto simp: upsert_node_def change_nodes_def split: if_splits)
    obtain n where n: "n \<in> set (t_nodes d)" "n_endpoint n = ?e" using True by (auto simp: list_ex_iff)
    have "u n \<in> set (t_nodes d')" using n unfolding d' by force
    moreover have "open_string E (n_rpc_cipher m) = Inr tok"
      if m: "m \<in> set (t_nodes d')" "trim_endpoint (n_endpoint m) = trim_endpoint ?e" "n_rpc_cipher m \<noteq> []" for m
    proof -
      obtain q where q: "q \<in> set (t_nodes d)" "m = (if n_endpoint q = ?e then u q else q)" using m(1) unfolding d' by auto
      then have "n_endpoint q = ?e" using m(2,3) same assms(5) by (auto split: if_splits)
      then show ?thesis using q assms(3,5) by simp
    qed
    ultimately show ?thesis using n assms(4,5) unfolding enrolled_def by (metis (no_types))
  next
    case False
    then have d': "t_nodes d' = t_nodes d @ [row]"
      using assms(1) by (auto simp: upsert_node_def change_nodes_def split: if_splits)
    have "trim_endpoint (n_endpoint n) \<noteq> trim_endpoint ?e" if "n \<in> set (t_nodes d)" "n_rpc_cipher n \<noteq> []" for n
      using same [OF that(1) _ that(2)] False that by (auto simp: list_ex_iff)
    then show ?thesis using assms(3,4) by (auto simp: enrolled_def d')
  qed
qed

lemma triple_random_token:
  "good_ext E \<Longrightarrow> stable P \<Longrightarrow> triple P (random_join_token E) (\<lambda>tok w. P w \<and> good_token tok) (\<lambda>_. True)"
proof -
  assume g: "good_ext E" and st: "stable P"
  have "triple P (random_bytes E 24) (\<lambda>b w. P w \<and> length b = 24) (\<lambda>_. True)"
    unfolding random_bytes_def
    by (rule triple_external [OF st]) (use g in \<open>auto simp: good_ext_def env_step_fields elim!: stableD [OF st]\<close>)
  then show ?thesis
    unfolding random_join_token_def
    by (rule triple_bnd) (auto simp: triple_def good_token_def dest!: hex_chars dest: not_space_ge)
qed

lemma triple_sealed:
  assumes "good_ext E" "good_b64 E" "stable P"
  shows "triple P (seal_string E p) (\<lambda>c w. P w \<and> open_string E c = Inr p) (\<lambda>_. True)"
  unfolding triple_def
proof (intro allI impI)
  fix w assume w: "P w"
  obtain r w' where m: "seal_string E p w = (r, w')" by (cases "seal_string E p w")
  have "keeps_inv P (seal_string E p)" unfolding seal_string_def by (intro keeps assms(3))
  then have "P w'" using keeps_invD w m by blast
  then show "case seal_string E p w of (Inr c, w') \<Rightarrow> P w' \<and> open_string E c = Inr p | (Inl e, w') \<Rightarrow> True"
    using seal_string_Inr [OF assms(1,2)] m by (cases r) auto
qed

lemma triple_rpc_credential:
  assumes "good_ext E" "good_b64 E" "stable P"
  shows "triple P (generate_rpc_credential E T) (\<lambda>(tok, h, c) w. P w \<and> good_token tok \<and> open_string E c = Inr tok) (\<lambda>_. True)"
proof -
  have "triple (\<lambda>w. P w \<and> good_token tok) (seal_string E tok) (\<lambda>c w. P w \<and> good_token tok \<and> open_string E c = Inr tok) (\<lambda>_. True)" for tok
  proof (cases "good_token tok")
    case True
    then show ?thesis using triple_sealed [OF assms] by simp
  qed (simp add: triple_def)
  then show ?thesis
    unfolding generate_rpc_credential_def
    by (intro triple_bnd [OF triple_random_token [OF assms(1,3)]])
       (auto intro!: triple_fail triple_bnd triple_ret)
qed

definition enrols :: "ext \<Rightarrow> string \<Rightarrow> enrollment \<Rightarrow> world \<Rightarrow> bool" where
  "enrols E endpoint item w \<longleftrightarrow> good_token (en_rpc_token item) \<and> enrolled E (trim_endpoint endpoint) (en_rpc_token item) (db w)"

lemma stable_lone: "stable (\<lambda>w. lone e (db w))" "stable (\<lambda>w. enrolled E k tok (db w))" "stable (enrols E e item)"
  unfolding enrols_def [abs_def] by (rule stable_db)+

lemma triple_known: "(b \<Longrightarrow> triple P m Q X) \<Longrightarrow> triple (\<lambda>w. P w \<and> b) m Q X"
  by (cases b) (simp_all add: triple_def)

lemma join_enrols:
  assumes g: "good_ext E" "good_b64 E"
  shows "triple (\<lambda>w. lone endpoint (db w)) (join_transaction E T raw name endpoint zone t) (enrols E endpoint) (\<lambda>_. True)"
proof -
  let ?P = "\<lambda>w. lone endpoint (db w)" and ?R = "\<lambda>tok w. enrolled E (trim_endpoint endpoint) tok (db w)"
  have none: "open_string E [] \<noteq> Inr tok" for tok
    using g(2) by (simp add: open_string_def good_b64_def nonce_size_def)
  have upsert: "triple ?P (exec (\<lambda>_. upsert_node
       ((new_node i name endpoint zone ''maintenance'' joined_meta t)\<lparr>n_rpc_hash := h, n_rpc_cipher := c\<rparr>)
       (\<lambda>n. n\<lparr>n_name := name, n_zone := zone, n_meta := joined_meta, n_rpc_hash := h, n_rpc_cipher := c\<rparr>))) (\<lambda>_. ?R tok) (\<lambda>_. True)"
    if "open_string E c = Inr tok" for i h c tok
  proof (rule triple_exec [OF stable_lone(1)])
    fix w x d
    let ?row = "(new_node i name endpoint zone ''maintenance'' joined_meta t)\<lparr>n_rpc_hash := h, n_rpc_cipher := c\<rparr>"
    assume "lone endpoint (db w)" "upsert_node ?row (\<lambda>n. n\<lparr>n_name := name, n_zone := zone, n_meta := joined_meta, n_rpc_hash := h,
      n_rpc_cipher := c\<rparr>) (db w) = Inr (x, d)"
    then have "enrolled E (trim_endpoint (n_endpoint ?row)) tok d"
      using that none by (intro upsert_enrols [of ?row]) (auto simp: new_node_def)
    then show "?R tok (w\<lparr>db := d\<rparr>) \<and> True" by (simp add: new_node_def)
  qed simp
  have mark: "keeps_inv (?R tok) (exec (\<lambda>_ d. Inr ((), d\<lparr>t_join_tokens := f (t_join_tokens d)\<rparr>)))" for f tok
    by (rule keeps_exec [OF stable_lone(2)]) (auto simp: enrolled_def)
  have last: "triple (?R tok) (bnd (exec (\<lambda>_ d. Inr ((), d\<lparr>t_join_tokens := f (t_join_tokens d)\<rparr>))) (\<lambda>_.
      bnd (query q) (\<lambda>item. ret \<lparr>en_node = item, en_rpc_token = tok\<rparr>))) (enrols E endpoint) (\<lambda>_. True)"
    if "good_token tok" for f q tok
    by (rule triple_bnd [OF triple_of_keeps [OF mark]], simp, rule triple_bnd [OF triple_of_keeps], rule keeps_query [OF stable_lone(2)])
       (simp_all add: triple_def enrols_def that)
  have rest: "triple (\<lambda>w. ?P w \<and> good_token tok \<and> open_string E c = Inr tok) (bnd (new_uuid E) (\<lambda>i.
      bnd (exec (\<lambda>_. upsert_node
       ((new_node i name endpoint zone ''maintenance'' joined_meta t)\<lparr>n_rpc_hash := h, n_rpc_cipher := c\<rparr>)
       (\<lambda>n. n\<lparr>n_name := name, n_zone := zone, n_meta := joined_meta, n_rpc_hash := h, n_rpc_cipher := c\<rparr>))) (\<lambda>_.
      bnd (exec (\<lambda>_ d. Inr ((), d\<lparr>t_join_tokens := f (t_join_tokens d)\<rparr>))) (\<lambda>_.
      bnd (query q) (\<lambda>item. ret \<lparr>en_node = item, en_rpc_token = tok\<rparr>))))) (enrols E endpoint) (\<lambda>_. True)" for tok h c f q
    by (rule triple_known, elim conjE, rule triple_bnd [OF triple_of_keeps [OF keeps_new_uuid [OF stable_lone(1)]]], simp,
        rule triple_bnd [OF upsert], assumption, rule last)
  have found: "triple ?P (attempt (query f)) (\<lambda>_. ?P) (\<lambda>_. True)" for f :: "database \<Rightarrow> err + join_token_row"
    by (rule triple_of_keeps) (intro keeps stable_lone, simp)
  show ?thesis
    unfolding join_transaction_def
  proof (rule triple_bnd [OF found])
    fix x :: "err + join_token_row"
    show "triple ?P (case x of Inl e \<Rightarrow> fail (if e = PgNoRows then ErrJoinTokenInvalid else e)
       | Inr j \<Rightarrow>
           if j_used j \<noteq> None then fail ErrJoinTokenUsed
           else if \<not> bound_to (j_name j) name then fail (Failure ''join token is bound to node name'')
           else if \<not> bound_to (j_endpoint j) endpoint then fail (Failure ''join token is bound to endpoint'')
           else if \<not> bound_to (j_zone j) zone then fail (Failure ''join token is bound to zone'')
           else
           bnd (generate_rpc_credential E T) (\<lambda>(rpc_token, rpc_hash, rpc_ciphertext).
           bnd (new_uuid E) (\<lambda>i.
           bnd (exec (\<lambda>_. upsert_node
             ((new_node i name endpoint zone ''maintenance'' joined_meta t)\<lparr>n_rpc_hash := rpc_hash, n_rpc_cipher := rpc_ciphertext\<rparr>)
             (\<lambda>n. n\<lparr>n_name := name, n_zone := zone, n_meta := joined_meta, n_rpc_hash := rpc_hash, n_rpc_cipher := rpc_ciphertext\<rparr>)))
             (\<lambda>_.
           bnd (exec (\<lambda>_ d. Inr ((), d\<lparr>t_join_tokens := map (\<lambda>r. if j_id r = j_id j then r\<lparr>j_used := Some t\<rparr> else r) (t_join_tokens d)\<rparr>)))
             (\<lambda>_.
           bnd (query (\<lambda>d. case find (\<lambda>n. n_endpoint n = endpoint) (t_nodes d) of
                 None \<Rightarrow> Inl PgNoRows | Some n \<Rightarrow> Inr (node_of_row n))) (\<lambda>item.
           ret \<lparr>en_node = item, en_rpc_token = rpc_token\<rparr>)))))) (enrols E endpoint) (\<lambda>_. True)"
      by (cases x) (auto intro!: triple_fail triple_bnd [OF triple_rpc_credential [OF g stable_lone(1)]] rest split: prod.splits)
  qed
qed

lemma dropWhile_none: "(\<And>x. x \<in> set s \<Longrightarrow> \<not> p x) \<Longrightarrow> dropWhile p s = s"
  by (cases s) auto

definition api_sends :: "string \<Rightarrow> string \<Rightarrow> world \<Rightarrow> bool" where
  "api_sends k tok w \<longleftrightarrow> dist_tokens w k = Some tok"

lemma stable_sends: "stable (api_sends k tok)"
  by (auto simp: stable_def api_sends_def env_step_fields)

lemma sync_sends:
  assumes "tp_store T" "tp_sealer T" "k \<noteq> []" "good_token tok"
  shows "triple (\<lambda>w. enrolled E k tok (db w)) (sync_store_configuration E T) (\<lambda>_. api_sends k tok) (\<lambda>_. True)"
proof -
  let ?rows = "\<lambda>d. map (\<lambda>n. (n_endpoint n, n_rpc_cipher n)) (filter (\<lambda>n. n_rpc_cipher n \<noteq> []) (t_nodes d))"
  have rows: "triple (\<lambda>w. enrolled E k tok (db w)) (query (\<lambda>d. Inr (?rows d))) (\<lambda>rows _. (\<exists>(e, c) \<in> set rows. trim_endpoint e = k) \<and>
      (\<forall>(e, c) \<in> set rows. trim_endpoint e = k \<longrightarrow> open_string E c = Inr tok)) (\<lambda>_. True)"
    by (rule triple_query [OF stable_lone(2)]) (auto simp: enrolled_def)
  have set: "triple (\<lambda>_. (\<exists>(e, c) \<in> set rows. trim_endpoint e = k) \<and>
      (\<forall>(e, c) \<in> set rows. trim_endpoint e = k \<longrightarrow> open_string E c = Inr tok)) (set_tokens E rows) (\<lambda>_. api_sends k tok) (\<lambda>_. True)" for rows
    unfolding triple_def
  proof (intro allI impI)
    fix w assume r: "(\<exists>(e, c) \<in> set rows. trim_endpoint e = k) \<and> (\<forall>(e, c) \<in> set rows. trim_endpoint e = k \<longrightarrow> open_string E c = Inr tok)"
    obtain x w' where m: "set_tokens E rows w = (x, w')" by (cases "set_tokens E rows w")
    have "trim_space tok \<noteq> []" using assms(4) by (simp add: good_token_trim) (simp add: good_token_def)
    then show "case set_tokens E rows w of (Inr x, w') \<Rightarrow> api_sends k tok w' | (Inl e, w') \<Rightarrow> True"
      using set_tokens_sets [OF _ assms(3), of E rows w w' tok] r m by (cases x) (simp_all add: api_sends_def)
  qed
  have tokens: "triple (\<lambda>w. enrolled E k tok (db w)) (sync_store_tokens E T) (\<lambda>_. api_sends k tok) (\<lambda>_. True)"
    using assms(1,2) triple_bnd [OF rows set] unfolding sync_store_tokens_def by simp
  have endpoints: "triple (api_sends k tok) (bnd (query f) replace_endpoints) (\<lambda>_. api_sends k tok) (\<lambda>_. True)"
    for f :: "database \<Rightarrow> err + string list"
    by (rule triple_bnd [OF triple_of_keeps [OF keeps_query [OF stable_sends]]])
       (simp_all add: triple_def replace_endpoints_def api_sends_def)
  show ?thesis
    using assms(1) unfolding sync_store_configuration_def
    by simp (rule triple_bnd [OF tokens endpoints])
qed

lemma db_only_join_transaction: "db_only (join_transaction E T raw n e z t)"
  unfolding join_transaction_def generate_rpc_credential_def random_join_token_def seal_string_def random_bytes_def
  by (intro keeps db_only_external) (auto simp: env_step_fields)

lemma join_sends:
  assumes "good_ext E" "good_b64 E" "tp_store T" "tp_sealer T" "trim_endpoint (trim_space e) \<noteq> []"
  shows "triple (\<lambda>w. lone (trim_space e) (db w)) (join_node E T raw n e z)
    (\<lambda>item w. good_token (en_rpc_token item) \<and> api_sends (trim_endpoint (trim_space e)) (en_rpc_token item) w) (\<lambda>_. True)"
proof -
  let ?e = "trim_space e"
  have tx: "triple (\<lambda>w. lone ?e (db w)) (transaction (join_transaction E T raw (trim_space n) ?e (trim_space z))) (enrols E ?e) (\<lambda>_. True)"
    by (rule triple_transaction [OF stable_lone(1) join_enrols [OF assms(1,2)] db_only_join_transaction stable_lone(3)]) simp_all
  have "triple (enrols E ?e item) (bnd (sync_store_configuration E T) (\<lambda>_. ret item))
    (\<lambda>item w. good_token (en_rpc_token item) \<and> api_sends (trim_endpoint ?e) (en_rpc_token item) w) (\<lambda>_. True)" for item
  proof (cases "good_token (en_rpc_token item)")
    case True
    then show ?thesis unfolding enrols_def
      by simp (rule triple_bnd [OF sync_sends [OF assms(3-5)]], simp_all add: triple_ret)
  qed (simp add: triple_def enrols_def)
  then show ?thesis
    unfolding join_node_def Let_def by (auto intro!: triple_fail triple_bnd [OF tx])
qed

lemma join_body_fields:
  "both_fields (str_field ''token'') (both_fields (str_field ''name'') (both_fields (str_field ''endpoint'') (str_field ''zone'')))
     [(''endpoint'', JStr e), (''name'', JStr n), (''token'', JStr t), (''zone'', JStr z)] = Some (t, n, e, z)"
  by (simp add: both_fields_def str_field_def dec_string_def equal_fold_def to_lower_def lower_char_def)

lemma enrollment_token:
  "str_field ''rpcToken'' (node_members n @ [(''rpcToken'', JStr tok)]) = Some tok"
  by (simp add: node_members_def str_field_def dec_string_def equal_fold_def to_lower_def lower_char_def split: option.split)

lemma refusal_token: "str_field ''rpcToken'' [(''error'', JStr m)] = Some []"
  by (simp add: str_field_def equal_fold_def to_lower_def lower_char_def)

definition joined :: "string \<Rightarrow> json option \<Rightarrow> world \<Rightarrow> bool" where
  "joined k content w \<longleftrightarrow> (\<exists>tok. Option.bind (Option.bind content struct_members) (str_field ''rpcToken'') = Some tok \<and>
     good_token tok \<and> api_sends k tok w)"

lemma triple_refused_join: "status \<noteq> 200 \<Longrightarrow> status \<noteq> 201 \<Longrightarrow>
    triple P (error_reply status m) (\<lambda>rep w. ar_status rep \<in> {200, 201} \<longrightarrow> joined k (reply_json rep) w) (\<lambda>_. True)"
  by (simp add: triple_def error_reply_def write_json_def)

lemma post_join_agrees:
  assumes "good_ext E" "good_b64 E" "tp_store (ad_topology D)" "tp_sealer (ad_topology D)" "trim_endpoint (trim_space e) \<noteq> []"
    and "\<And>b. ad_json D b = Some (JObj [(''endpoint'', JStr e), (''name'', JStr n), (''token'', JStr t), (''zone'', JStr z)])"
  shows "triple (\<lambda>w. lone (trim_space e) (db w)) (post_join E D req)
    (\<lambda>rep w. ar_status rep \<in> {200, 201} \<longrightarrow> joined (trim_endpoint (trim_space e)) (reply_json rep) w) (\<lambda>_. True)"
proof -
  let ?k = "trim_endpoint (trim_space e)" and ?P = "\<lambda>w. lone (trim_space e) (db w)"
  let ?fs = "both_fields (str_field ''token'') (both_fields (str_field ''name'') (both_fields (str_field ''endpoint'') (str_field ''zone'')))"
  have body: "triple ?P (bnd (external (ret (rq_body req))) (\<lambda>content. case decode_body D ?fs content of
      None \<Rightarrow> fail (Failure ''json'') | Some x \<Rightarrow> ret x)) (\<lambda>x w. ?P w \<and> x = (t, n, e, z)) (\<lambda>_. True)"
  proof (rule triple_bnd [where Q = "\<lambda>_. ?P"])
    show "triple ?P (external (ret (rq_body req))) (\<lambda>_. ?P) (\<lambda>_. True)"
      by (rule triple_of_keeps [OF keeps_external [OF stable_lone(1)]]) (simp_all add: keeps)
    show "triple ?P (case decode_body D ?fs content of None \<Rightarrow> fail (Failure ''json'') | Some x \<Rightarrow> ret x)
        (\<lambda>x w. ?P w \<and> x = (t, n, e, z)) (\<lambda>_. True)" for content
      by (simp add: decode_body_def assms(6) struct_members_def join_body_fields triple_ret)
  qed
  have join: "triple ?P (on_result (join_node E (ad_topology D) t n e z)
      (\<lambda>err. error_reply (if err = ErrJoinTokenInvalid \<or> err = ErrJoinTokenUsed then 401 else 400) (ad_error D err))
      (\<lambda>item. write_json 201 (EnrollmentBody item)))
      (\<lambda>rep w. ar_status rep \<in> {200, 201} \<longrightarrow> joined ?k (reply_json rep) w) (\<lambda>_. True)"
    by (rule triple_on_result [OF join_sends [OF assms(1-5)]], rule triple_refused_join)
       (auto simp: triple_def write_json_def reply_json_def joined_def struct_members_def enrollment_token)
  show ?thesis
    unfolding post_join_def with_body_def
  proof (rule triple_on_result [OF body])
    fix x :: "string \<times> string \<times> string \<times> string"
    show "triple (\<lambda>w. ?P w \<and> x = (t, n, e, z)) (case x of (token, name, endpoint, zone) \<Rightarrow>
      on_result (join_node E (ad_topology D) token name endpoint zone)
      (\<lambda>err. error_reply (if err = ErrJoinTokenInvalid \<or> err = ErrJoinTokenUsed then 401 else 400) (ad_error D err))
      (\<lambda>item. write_json 201 (EnrollmentBody item)))
      (\<lambda>rep w. ar_status rep \<in> {200, 201} \<longrightarrow> joined ?k (reply_json rep) w) (\<lambda>_. True)"
      using join by (cases "x = (t, n, e, z)") (simp_all add: triple_def)
  qed (rule triple_refused_join; simp)
qed

definition token_kept :: "string \<Rightarrow> string \<Rightarrow> string \<Rightarrow> string \<Rightarrow> world \<Rightarrow> bool" where
  "token_kept node file_path k tok w \<longleftrightarrow> good_token tok \<and> api_sends k tok w \<and>
     disks w (NodeHost node) file_path = Some (tok @ newline)"

lemma persist_keeps:
  "triple (\<lambda>w. good_token tok \<and> api_sends k tok w) (persist_node_token node file_path tok) (\<lambda>_. token_kept node file_path k tok) (\<lambda>_. True)"
proof -
  let ?P = "\<lambda>w. good_token tok \<and> api_sends k tok w"
  let ?E = "\<lambda>w. ?P w \<and> disks w (NodeHost node) file_path = Some []"
  have st: "stable ?P" "stable ?E"
    by (auto simp: stable_def api_sends_def env_step_fields)
  have made: "triple ?P (create_file (NodeHost node) file_path) (\<lambda>_. ?E) (\<lambda>_. True)"
    unfolding create_file_def by (rule triple_external [OF st(1)]) (auto simp: set_file_def api_sends_def)
  have written: "triple ?E (write_file (NodeHost node) file_path (tok @ newline)) (\<lambda>_. token_kept node file_path k tok) (\<lambda>_. True)"
    unfolding write_file_def by (rule triple_external [OF st(2)]) (auto simp: set_file_def api_sends_def token_kept_def)
  have dir: "triple ?P (external (ret ())) (\<lambda>_. ?P) (\<lambda>_. True)"
    by (rule triple_of_keeps [OF keeps_external [OF st(1)]]) (simp_all add: keeps)
  show ?thesis
    unfolding persist_node_token_def by (rule triple_bnd [OF dir], rule triple_bnd [OF made written])
qed

definition advertised :: "(string \<Rightarrow> string) \<Rightarrow> string" where
  "advertised env = trim_space (trim_url (env ''BLOBNODE_ADVERTISE_URL''))"

lemma maybe_join_agrees:
  assumes "good_ext E" "good_b64 E" "tp_store (ad_topology D)" "tp_sealer (ad_topology D)" "trim_endpoint (advertised env) \<noteq> []"
  shows "triple (\<lambda>w. lone (advertised env) (db w)) (maybe_join_cluster env (join_exchange E D req) node file_path)
    (\<lambda>tok w. tok = [] \<or> token_kept node file_path (trim_endpoint (advertised env)) tok w) (\<lambda>_. True)"
proof -
  let ?k = "trim_endpoint (advertised env)" and ?P = "\<lambda>w. lone (advertised env) (db w)"
  have exchange: "triple ?P (join_exchange E D req url (join_payload env name))
      (\<lambda>(status, content) w. status \<in> {200, 201} \<longrightarrow> joined ?k content w) (\<lambda>_. True)" for url name
  proof -
    have "triple ?P (bnd (post_join E (D\<lparr>ad_json := (\<lambda>_. Some (join_payload env name))\<rparr>) req) (\<lambda>rep. ret (ar_status rep, reply_json rep)))
        (\<lambda>(status, content) w. status \<in> {200, 201} \<longrightarrow> joined ?k content w) (\<lambda>_. True)"
      unfolding advertised_def
      by (rule triple_bnd [OF post_join_agrees]) (use assms in \<open>simp_all add: advertised_def join_payload_def triple_ret\<close>)
    then show ?thesis
      unfolding join_exchange_def
      by (intro triple_external [OF stable_lone(1)]) (auto simp: triple_def split: prod.splits sum.splits)
  qed
  show ?thesis
    unfolding maybe_join_cluster_def Let_def
  proof (split if_split, intro conjI impI)
    show "triple ?P (bnd (join_exchange E D req (trim_url (env ''BLOBNODE_API_URL'') @ ''/api/v1/internal/storage/join'')
         (join_payload env (node_name_of env))) (\<lambda>(status, content).
      if status \<noteq> 201 \<and> status \<noteq> 200 then fail (Failure ''join request failed'')
      else (case Option.bind (Option.bind content struct_members) (str_field ''rpcToken'') of
          None \<Rightarrow> fail (Failure ''join response'')
        | Some token \<Rightarrow>
            if trim_space token = [] then fail (Failure ''join response missing rpcToken'')
            else bnd (persist_node_token node file_path token) (\<lambda>_. ret token))))
      (\<lambda>tok w. tok = [] \<or> token_kept node file_path ?k tok w) (\<lambda>_. True)"
    proof (rule triple_bnd [OF exchange])
      fix x :: "nat \<times> json option"
      obtain status content where x: "x = (status, content)" by (cases x)
      have kept: "triple (\<lambda>w. joined ?k content w) (bnd (persist_node_token node file_path tok) (\<lambda>_. ret tok))
          (\<lambda>tok w. tok = [] \<or> token_kept node file_path ?k tok w) (\<lambda>_. True)"
        if "Option.bind (Option.bind content struct_members) (str_field ''rpcToken'') = Some tok" for tok
      proof -
        have "joined ?k content = (\<lambda>w. good_token tok \<and> api_sends ?k tok w)" using that by (auto simp: joined_def)
        then show ?thesis by simp (rule triple_bnd [OF persist_keeps triple_ret], simp)
      qed
      show "triple (case x of (status, content) \<Rightarrow> \<lambda>w. status \<in> {200, 201} \<longrightarrow> joined ?k content w) (case x of (status, content) \<Rightarrow>
        if status \<noteq> 201 \<and> status \<noteq> 200 then fail (Failure ''join request failed'')
        else (case Option.bind (Option.bind content struct_members) (str_field ''rpcToken'') of
            None \<Rightarrow> fail (Failure ''join response'')
          | Some token \<Rightarrow>
              if trim_space token = [] then fail (Failure ''join response missing rpcToken'')
              else bnd (persist_node_token node file_path token) (\<lambda>_. ret token)))
        (\<lambda>tok w. tok = [] \<or> token_kept node file_path ?k tok w) (\<lambda>_. True)"
        unfolding x prod.case
        by (cases "status = 200 \<or> status = 201") (auto intro!: triple_fail kept split: option.split)
    qed
  qed (simp add: triple_ret)
qed

text \<open>
  The hypothesis on the registry below is needed: the store keeps one token for all spellings of an
  endpoint, and of two enrolled rows that differ by a slash at the end the later one gives it, so
  that the API signs its requests to the first node with the token of the second.
\<close>

lemma respelled_endpoint_takes_token:
  assumes "sync_store_tokens E T w = (Inr u, w')" "tp_store T" "tp_sealer T" "t_nodes (db w) = [n1, n2]"
    and "n_rpc_cipher n1 \<noteq> []" "n_rpc_cipher n2 \<noteq> []" "open_string E (n_rpc_cipher n2) = Inr tok2" "good_token tok2"
    and "trim_endpoint (n_endpoint n1) = trim_endpoint (n_endpoint n2)" "trim_endpoint (n_endpoint n1) \<noteq> []"
  shows "fst (token_for_endpoint E (n_endpoint n1) w') = Inr tok2"
proof -
  obtain rows w1 where q: "query (\<lambda>d. Inr (map (\<lambda>n. (n_endpoint n, n_rpc_cipher n)) (filter (\<lambda>n. n_rpc_cipher n \<noteq> []) (t_nodes d)))) w = (Inr rows, w1)"
    and s: "set_tokens E rows w1 = (Inr u, w')"
    using assms(1-3) by (auto simp: sync_store_tokens_def bnd_Inr_iff)
  have rows: "rows = [(n_endpoint n1, n_rpc_cipher n1), (n_endpoint n2, n_rpc_cipher n2)]"
    using query_step [OF q] assms(4-6) by simp
  obtain v where last: "set_tokens E [(n_endpoint n2, n_rpc_cipher n2)] v = (Inr (), w')"
    using s by (auto simp: rows bnd_Inr_iff)
  have "trim_space tok2 \<noteq> []" using assms(8) by (simp add: good_token_trim) (simp add: good_token_def)
  then have "dist_tokens w' (trim_endpoint (n_endpoint n1)) = Some tok2"
    using assms(7,9,10) by (intro set_tokens_sets [OF last]) auto
  then show ?thesis using assms(8) by (simp add: token_for_endpoint_def good_token_def)
qed

text \<open>
  C7: provided no enrolled row of the registry spells the endpoint of the node in another way (with
  another slash or space at an end), when a node that was told to join came back with a token,
  whatever else failed, the API signs its requests to that node with this token and the node keeps
  it in its file; started again from that file without a join token, it expects exactly this token.
\<close>

theorem joined_node_agrees:
  assumes "good_ext E" "good_b64 E" "tp_store (ad_topology D)" "tp_sealer (ad_topology D)" "trim_endpoint (advertised env) \<noteq> []"
    and "\<forall>n \<in> set (t_nodes (db w)). trim_endpoint (n_endpoint n) = trim_endpoint (advertised env) \<and> n_rpc_cipher n \<noteq> [] \<longrightarrow>
      n_endpoint n = advertised env"
    and "maybe_join_cluster env (join_exchange E D req) node (node_token_file env cfg) w = (Inr tok, w1)" "tok \<noteq> []"
    and "disks w2 (NodeHost node) (node_token_file env' cfg) = disks w1 (NodeHost node) (node_token_file env cfg)"
    and "trim_space (env' ''BLOBNODE_JOIN_TOKEN'') = []" "start_node env' cfg post node w2 = (Inr (), w3)"
  shows "fst (token_for_endpoint E (advertised env) w1) = Inr tok \<and> fst (expected_token E node w3) = Inr tok \<and>
    node_seen w3 node = Map.empty"
proof -
  let ?f = "node_token_file env' cfg"
  have "lone (advertised env) (db w)" using assms(6) by (simp add: lone_def)
  from tripleD_Inr [OF maybe_join_agrees [OF assms(1-5)] this assms(7)] assms(8)
  have k: "token_kept node (node_token_file env cfg) (trim_endpoint (advertised env)) tok w1" by simp
  then have g: "good_token tok" and s: "dist_tokens w1 (trim_endpoint (advertised env)) = Some tok"
    and d: "disks w2 (NodeHost node) ?f = Some (tok @ newline)"
    using assms(9) by (simp_all add: token_kept_def api_sends_def)
  have trimmed: "trim_space (tok @ newline) = tok"
    using g good_token_trim [OF g] dropWhile_none [of tok is_space] dropWhile_none [of "rev tok" is_space]
    by (cases tok) (simp_all add: good_token_def trim_space_def trim_right_by_def newline_def is_space_def)
  have none: "maybe_join_cluster env' post node ?f = ret []" using assms(10) by (simp add: maybe_join_cluster_def Let_def)
  obtain stored v where l: "load_node_token node ?f w2 = (Inr stored, v)"
    and w3: "w3 = v\<lparr>node_token := (node_token v)(node := stored), node_seen := (node_seen v)(node := Map.empty)\<rparr>"
    using assms(11) by (auto simp: start_node_def none bnd_Inr_iff bnd_def attempt_def Let_def split: sum.splits prod.splits)
  have "stored = tok"
  proof -
    obtain r v1 where r: "read_file (NodeHost node) ?f w2 = (r, v1)" by (cases "read_file (NodeHost node) ?f w2")
    show ?thesis
    proof (cases r)
      case (Inr content)
      then have "content = tok @ newline" using r d by (auto simp: read_file_def elim!: external_Inr)
      then show ?thesis using l r Inr trimmed by (simp add: load_node_token_def bnd_def)
    next
      case (Inl e)
      then have "e \<noteq> NotExist" using r d by (auto simp: read_file_def external_def Let_def split: list.splits fate.splits)
      then show ?thesis using l r Inl by (simp add: load_node_token_def bnd_def)
    qed
  qed
  moreover have "tok \<noteq> []" "trim_space tok = tok" using g good_token_trim by (auto simp: good_token_def)
  ultimately show ?thesis using s w3 by (simp add: token_for_endpoint_def expected_token_def)
qed

end
