(* ===== verification/SettingsSafety.thy ===== *)
theory SettingsSafety
  imports Oidc
begin

text \<open>
  What a loaded configuration and stored OIDC settings guarantee: the checks of \<open>Validate\<close> hold of
  the configuration the services are built from, and the settings of an update are those that are
  read back, with roles of the platform only.
\<close>

section \<open>The configuration\<close>

lemma and_then_Inr: "and_then r f = Inr y \<longleftrightarrow> (\<exists>x. r = Inr x \<and> f x = Inr y)"
  by (cases r) (auto simp: and_then_def)

lemma validate_config_Inr:
  "validate_config E keys c = Inr () \<Longrightarrow>
   list_all (\<lambda>x. \<not> fst x) (basic_checks c) \<and> list_all (\<lambda>x. \<not> fst x) (limit_checks E c) \<and>
   list_all (\<lambda>x. \<not> fst x) (oidc_checks keys c) \<and> list_all (\<lambda>x. \<not> fst x) (placeholder_checks c)"
  by (auto simp: validate_config_def find_None_iff list_all_iff split: option.splits)

lemma get_env_some: "fallback \<noteq> [] \<Longrightarrow> get_env env key fallback \<noteq> []"
  by (simp add: get_env_def)

lemma to_lower_Nil [simp]: "to_lower s = [] \<longleftrightarrow> s = []"
  by (simp add: to_lower_def)

lemma role_fold_keys:
  "fold (\<lambda>entry out. case role_entry entry of None \<Rightarrow> out | Some (k, v) \<Rightarrow> out(k \<mapsto> v)) entries m k = Some role \<Longrightarrow>
   k \<in> set (map fst (List.map_filter role_entry entries)) \<or> m k = Some role"
proof (induction entries arbitrary: m)
  case (Cons e es)
  then show ?case
    by (fastforce simp: List.map_filter_simps split: option.splits prod.splits if_splits)
qed simp

lemma role_map_keys: "parse_role_map value k = Some role \<Longrightarrow> k \<in> set (role_keys value)"
  using role_fold_keys [of "split_on (CHR '','') value" Map.empty k role]
  by (auto simp: parse_role_map_def role_keys_def split: if_splits)

text \<open>A secret of the environment that fails nothing.\<close>

definition sound_secrets :: "config \<Rightarrow> bool" where
  "sound_secrets c \<longleftrightarrow> \<not> is_placeholder (cg_jwt_secret c) \<and> \<not> is_placeholder (cg_admin_password c) \<and>
     \<not> is_placeholder (cg_redis_password c) \<and> \<not> is_placeholder (cg_master_key c) \<and> \<not> is_placeholder (cg_shared_secret c) \<and>
     (cg_oidc c \<longrightarrow> \<not> is_placeholder (cg_oidc_secret c))"

text \<open>The facts of the checks that the proofs below use.\<close>

definition valid_config :: "ext \<Rightarrow> config \<Rightarrow> bool" where
  "valid_config E c \<longleftrightarrow>
     cg_jwt_secret c \<noteq> [] \<and> cg_backend c \<in> {''local'', ''distributed''} \<and>
     (\<exists>key. b64_decode E (cg_master_key c) = Some key \<and> length key = 32) \<and>
     (cg_default_class c = [] \<or> is_valid_storage_class (cg_default_class c)) \<and>
     0 < cg_max_upload c \<and> 0 < cg_retention c \<and> cg_scan_mode c \<in> {''advisory'', ''enforcement''} \<and>
     (cg_backend c = ''distributed'' \<longrightarrow> 0 < cg_replicas c \<and> cg_replicas c \<le> int (length (cg_endpoints c))) \<and>
     (cg_oidc c \<longrightarrow> is_valid_platform_role (cg_oidc_default c) \<and>
        (\<forall>k role. cg_oidc_roles c k = Some role \<longrightarrow> is_valid_platform_role role)) \<and>
     (cg_app_env c \<noteq> ''development'' \<longrightarrow> sound_secrets c)"

lemma checked_config:
  assumes v: "validate_config E keys c = Inr ()"
    and "cg_backend c \<noteq> []" "cg_scan_mode c \<noteq> []" "\<And>k role. cg_oidc_roles c k = Some role \<Longrightarrow> k \<in> set keys"
  shows "valid_config E (if cg_backend c = ''distributed'' \<and> cg_replicas c = 0 then c\<lparr>cg_replicas := int (length (cg_endpoints c))\<rparr> else c)"
proof -
  note checks = validate_config_Inr [OF v]
  have basic: "cg_jwt_secret c \<noteq> []" "cg_backend c = [] \<or> cg_backend c = ''local'' \<or> cg_backend c = ''distributed''"
      "cg_default_class c = [] \<or> is_valid_storage_class (cg_default_class c)" "0 \<le> cg_replicas c"
      "cg_backend c = ''distributed'' \<longrightarrow> cg_endpoints c \<noteq> [] \<and> cg_replicas c \<le> int (length (cg_endpoints c))"
    using conjunct1 [OF checks] by (auto simp: basic_checks_def)
  have limit: "\<not> isl (decode_storage_key E (cg_master_key c))" "0 < cg_max_upload c" "0 < cg_retention c"
      "cg_scan_mode c = [] \<or> cg_scan_mode c = ''advisory'' \<or> cg_scan_mode c = ''enforcement''"
    using conjunct1 [OF conjunct2 [OF checks]] by (auto simp: limit_checks_def)
  have key: "\<exists>key. b64_decode E (cg_master_key c) = Some key \<and> length key = 32"
    using limit(1) by (auto simp: decode_storage_key_def split: option.splits if_splits)
  have oidc: "is_valid_platform_role (cg_oidc_default c) \<and> (\<forall>k role. cg_oidc_roles c k = Some role \<longrightarrow> is_valid_platform_role role)"
    if "cg_oidc c"
  proof -
    have "is_valid_platform_role (cg_oidc_default c)"
      and "\<not> list_ex (\<lambda>k. case cg_oidc_roles c k of None \<Rightarrow> False | Some role \<Rightarrow> \<not> is_valid_platform_role role) keys"
      using conjunct1 [OF conjunct2 [OF conjunct2 [OF checks]]] that by (simp_all add: oidc_checks_def)
    then show ?thesis using assms(4) by (fastforce simp: list_ex_iff)
  qed
  have secrets: "sound_secrets c" if "cg_app_env c \<noteq> ''development''"
    using conjunct2 [OF conjunct2 [OF conjunct2 [OF checks]]] that by (simp add: placeholder_checks_def sound_secrets_def)
  show ?thesis
    using basic limit(2-4) key oidc secrets assms(2,3) by (auto simp: valid_config_def sound_secrets_def)
qed

lemma with_secrets_fields:
  "with_secrets env file_of cfg = Inr c \<Longrightarrow>
   cg_backend c = cg_backend cfg \<and> cg_scan_mode c = cg_scan_mode cfg \<and> cg_oidc_roles c = cg_oidc_roles cfg"
  by (auto simp: with_secrets_def and_then_Inr)

lemma loaded_config_valid:
  assumes "load_config E env file_of = Inr c"
  shows "valid_config E c"
proof -
  obtain a b p q m r t c0 where
    s: "with_secrets env file_of (base_config env a b p q m r t) = Inr c0"
    and v: "validate_config E (role_keys (get_env env ''OIDC_ROLE_MAP'' [])) c0 = Inr ()"
    and c: "c = (if cg_backend c0 = ''distributed'' \<and> cg_replicas c0 = 0 then c0\<lparr>cg_replicas := int (length (cg_endpoints c0))\<rparr> else c0)"
    using assms unfolding load_config_def by (auto simp: and_then_Inr)
  have f: "cg_backend c0 = to_lower (get_env env ''STORAGE_BACKEND'' ''local'')"
      "cg_scan_mode c0 = to_lower (get_env env ''MALWARE_SCAN_MODE'' ''advisory'')"
      "cg_oidc_roles c0 = parse_role_map (get_env env ''OIDC_ROLE_MAP'' [])"
    using with_secrets_fields [OF s] by (simp_all add: base_config_def)
  show ?thesis unfolding c
    by (rule checked_config [OF v]) (auto simp: f get_env_some dest: role_map_keys)
qed

definition example_env :: "string \<Rightarrow> string" where
  "example_env = (\<lambda>k. if k = ''JWT_SECRET'' then ''s'' else if k = ''STORAGE_MASTER_KEY'' then replicate 32 (CHR ''k'')
     else if k = ''STORAGE_BACKEND'' then ''distributed'' else if k = ''STORAGE_DISTRIBUTED_ENDPOINTS'' then ''http://a, http://b'' else [])"

lemma example_parts:
  "duration_part ''15m'' = Some (900000000000, [])" "duration_part ''168h'' = Some (604800000000000, [])"
  "duration_part ''24h'' = Some (86400000000000, [])"
  by (simp_all add: duration_part_def duration_unit_def is_digit_def digits_of_def digit_val_def)

lemma example_durations:
  "parse_duration ''15m'' = Some 900000000000" "parse_duration ''168h'' = Some 604800000000000" "parse_duration ''24h'' = Some 86400000000000"
  by (simp_all add: parse_duration_def duration_parts.simps [of 0] duration_parts.simps [of _ "[]"] example_parts)

lemma example_numbers: "parse_int ''3310'' = Some 3310" "parse_int ''104857600'' = Some 104857600" "parse_int ''0'' = Some 0"
  by (simp_all add: parse_int_def digit_val_def int64_of_def)

definition example_base :: config where
  "example_base = base_config example_env 900000000000 604800000000000 900000000000 3310 104857600 0 86400000000000"

lemma example_unset:
  "example_env ''POSTGRES_PASSWORD'' = []" "example_env ''REDIS_PASSWORD'' = []" "example_env ''ADMIN_BOOTSTRAP_PASSWORD'' = []"
  "example_env ''STORAGE_NODE_SHARED_SECRET'' = []" "example_env ''OIDC_CLIENT_SECRET'' = []" "example_env ''POSTGRES_PASSWORD_FILE'' = []"
  "example_env ''REDIS_PASSWORD_FILE'' = []" "example_env ''ADMIN_BOOTSTRAP_PASSWORD_FILE'' = []"
  "example_env ''STORAGE_NODE_SHARED_SECRET_FILE'' = []" "example_env ''OIDC_CLIENT_SECRET_FILE'' = []"
  "example_env ''JWT_SECRET'' = ''s''" "example_env ''STORAGE_MASTER_KEY'' = replicate 32 (CHR ''k'')"
  by (simp_all add: example_env_def)

lemma example_secrets:
  "with_secrets example_env (\<lambda>_. None) cfg = Inr (cfg\<lparr>cg_postgres_dsn := postgres_dsn example_env ''change_me'', cg_redis_password := [],
     cg_jwt_secret := ''s'', cg_admin_password := ''change_me_now'', cg_master_key := replicate 32 (CHR ''k''),
     cg_shared_secret := replicate 32 (CHR ''k''), cg_oidc_secret := []\<rparr>)"
  by (simp add: with_secrets_def get_secret_env_def example_unset and_then_def)

lemma example_validates:
  "validate_config plain_ext [] (example_base\<lparr>cg_postgres_dsn := postgres_dsn example_env ''change_me'', cg_redis_password := [],
     cg_jwt_secret := ''s'', cg_admin_password := ''change_me_now'', cg_master_key := replicate 32 (CHR ''k''),
     cg_shared_secret := replicate 32 (CHR ''k''), cg_oidc_secret := []\<rparr>) = Inr ()"
  by code_simp

lemma example_values:
  "get_env example_env ''ACCESS_TOKEN_TTL'' ''15m'' = ''15m''" "get_env example_env ''REFRESH_TOKEN_TTL'' ''168h'' = ''168h''"
  "get_env example_env ''S3_PRESIGN_TTL'' ''15m'' = ''15m''" "get_env example_env ''CLAMAV_PORT'' ''3310'' = ''3310''"
  "get_env example_env ''MAX_UPLOAD_SIZE_BYTES'' ''104857600'' = ''104857600''"
  "get_env example_env ''STORAGE_DISTRIBUTED_REPLICAS'' ''0'' = ''0''" "get_env example_env ''SOFT_DELETE_RETENTION'' ''24h'' = ''24h''"
  "role_keys (get_env example_env ''OIDC_ROLE_MAP'' []) = []"
  by code_simp+

lemma example_loads: "\<exists>c. load_config plain_ext example_env (\<lambda>_. None) = Inr c \<and> cg_backend c = ''distributed'' \<and> cg_oidc_secret c = []"
  by (simp add: load_config_def and_then_def parsed_def example_values example_durations example_numbers example_secrets
      example_validates [unfolded example_base_def])
     (simp add: base_config_def get_env_def example_env_def to_lower_def lower_char_def equal_fold_def)

text \<open>
  Lifetimes are parsed and never compared with zero: a configuration with access tokens that have
  expired before they are issued is loaded.
\<close>

lemma negative_lifetime_loads:
  "\<exists>c. load_config plain_ext (example_env(''ACCESS_TOKEN_TTL'' := ''-15m'')) (\<lambda>_. None) = Inr c \<and> cg_access_ttl c < 0"
proof -
  let ?env = "example_env(''ACCESS_TOKEN_TTL'' := ''-15m'')"
  have d: "parse_duration ''-15m'' = Some (- 900000000000)"
    by (simp add: parse_duration_def duration_parts.simps [of 0] duration_parts.simps [of _ "[]"] example_parts)
  have env: "get_env ?env k f = (if k = ''ACCESS_TOKEN_TTL'' then ''-15m'' else get_env example_env k f)" for k f
    by (simp add: get_env_def)
  have base: "base_config ?env = base_config example_env"
    by (simp add: fun_eq_iff base_config_def env)
  have secret: "get_secret_env ?env (\<lambda>_. None) k f = get_secret_env example_env (\<lambda>_. None) k f"
    if "k \<noteq> ''ACCESS_TOKEN_TTL''" "k @ ''_FILE'' \<noteq> ''ACCESS_TOKEN_TTL''" for k f
    using that by (simp add: get_secret_env_def Let_def)
  have secrets: "with_secrets ?env (\<lambda>_. None) cfg = with_secrets example_env (\<lambda>_. None) cfg" for cfg
    by (simp add: with_secrets_def secret postgres_dsn_def env)
  have v: "validate_config plain_ext [] (base_config example_env (- 900000000000) 604800000000000 900000000000 3310 104857600 0 86400000000000
     \<lparr>cg_postgres_dsn := postgres_dsn example_env ''change_me'',
     cg_redis_password := [], cg_jwt_secret := ''s'', cg_admin_password := ''change_me_now'', cg_master_key := replicate 32 (CHR ''k''),
     cg_shared_secret := replicate 32 (CHR ''k''), cg_oidc_secret := []\<rparr>) = Inr ()"
    by code_simp
  show ?thesis
    by (simp add: load_config_def and_then_def parsed_def env d example_values example_durations example_numbers base secrets example_secrets v)
       (simp add: base_config_def)
qed

section \<open>The settings of OIDC\<close>

lemma dropWhile_trim_right: "(s = [] \<or> \<not> p (hd s)) \<Longrightarrow> dropWhile p (trim_right_by p s) = trim_right_by p s"
proof (cases "trim_right_by p s")
  case (Cons x xs)
  assume a: "s = [] \<or> \<not> p (hd s)"
  have "rev (rev s) = rev (dropWhile p (rev s)) @ rev (takeWhile p (rev s))"
    by (metis rev_append takeWhile_dropWhile_id)
  then have "s = trim_right_by p s @ rev (takeWhile p (rev s))" by (simp add: trim_right_by_def)
  then have "hd s = x" "s \<noteq> []" using Cons by (metis append_Cons list.sel(1), metis append_Cons list.distinct(1))
  then show ?thesis using a Cons by simp
qed simp

lemma trim_space_idem [simp]: "trim_space (trim_space s) = trim_space s"
proof -
  let ?t = "dropWhile is_space s"
  have "?t = [] \<or> \<not> is_space (hd ?t)" using hd_dropWhile [of is_space s] by blast
  then have "dropWhile is_space (trim_space s) = trim_space s"
    unfolding trim_space_def by (rule dropWhile_trim_right)
  then show ?thesis unfolding trim_space_def [of "trim_space s"] by (simp add: trim_space_def trim_right_by_def)
qed

lemma default_scopes: "map trim_space [''openid'', ''email'', ''profile''] = [''openid'', ''email'', ''profile'']"
  by code_simp

lemma normalize_scopes_idem: "normalize_scopes (normalize_scopes vs) = normalize_scopes vs"
proof -
  let ?items = "filter (\<lambda>v. v \<noteq> []) (map trim_space vs)"
  have m: "map trim_space ?items = ?items" by (rule map_idI) auto
  show ?thesis
  proof (cases "?items = []")
    case True
    then show ?thesis using default_scopes by (simp add: normalize_scopes_def)
  next
    case False
    then have "normalize_scopes vs = ?items" by (simp add: normalize_scopes_def Let_def)
    then show ?thesis using False m by (simp add: normalize_scopes_def Let_def)
  qed
qed

text \<open>The secret a row holds.\<close>

definition opened_secret :: "ext \<Rightarrow> oidc_row \<Rightarrow> err + string" where
  "opened_secret E r = (if trim_space (oi_cipher r) \<noteq> [] then open_string E (oi_cipher r) else Inr [])"

lemma ensure_oidc_keeps:
  assumes "ensure_oidc_settings E cfg w = (Inr u, w')" "t_oidc (db w) = Some r"
  shows "t_oidc (db w') = Some r"
proof -
  obtain c w1 where c: "(if trim_space (cg_oidc_secret cfg) \<noteq> [] then seal_string E (cg_oidc_secret cfg) else ret []) w = (Inr c, w1)"
    and e: "exec (\<lambda>_ d. Inr ((), case t_oidc d of
         Some _ \<Rightarrow> d
       | None \<Rightarrow> d\<lparr>t_oidc := Some \<lparr>oi_enabled = cg_oidc cfg, oi_issuer = cg_oidc_issuer cfg, oi_client = cg_oidc_client cfg,
           oi_cipher = c, oi_redirect = cg_oidc_redirect cfg, oi_scopes = normalize_scopes (cg_oidc_scopes cfg),
           oi_claim = cg_oidc_claim cfg, oi_default = default_oidc_role (cg_oidc_default cfg), oi_roles = cg_oidc_roles cfg\<rparr>\<rparr>)) w1 = (Inr u, w')"
    using assms(1) unfolding ensure_oidc_settings_def bnd_Inr_iff by blast
  have "db w1 = db w"
    using c unfolding seal_string_def random_bytes_def by (auto simp: bnd_Inr_iff elim!: external_Inr split: if_splits)
  then show ?thesis using exec_step [OF e] assms(2) by auto
qed

lemma resolve_oidc_Inr:
  assumes "resolve_oidc_settings E cfg w = (Inr s, w')" "t_oidc (db w) = Some r"
  obtains secret where "opened_secret E r = Inr secret" "s = oidc_of_row secret r" "t_oidc (db w') = Some r"
proof -
  obtain u w1 r' w2 secret where e: "ensure_oidc_settings E cfg w = (Inr u, w1)"
    and q: "query (\<lambda>d. case t_oidc d of None \<Rightarrow> Inl PgNoRows | Some r \<Rightarrow> Inr r) w1 = (Inr r', w2)"
    and o: "(if trim_space (oi_cipher r') \<noteq> [] then of_result (open_string E (oi_cipher r')) else ret []) w2 = (Inr secret, w')"
    and s: "s = oidc_of_row secret r'"
    using assms(1) unfolding resolve_oidc_settings_def by (auto simp: bnd_Inr_iff)
  have r1: "t_oidc (db w1) = Some r" by (rule ensure_oidc_keeps [OF e assms(2)])
  with query_step [OF q] have r': "r' = r" "db w2 = db w1" by (auto simp: env_step_fields)
  show ?thesis using that [of secret] o s r1 r' by (auto simp: opened_secret_def split: if_splits)
qed

lemma set_oidc_row: "set_oidc f w = (Inr u, w') \<Longrightarrow> t_oidc (db w) = Some r \<Longrightarrow> t_oidc (db w') = Some (f r)"
proof -
  assume s: "set_oidc f w = (Inr u, w')" and r: "t_oidc (db w) = Some r"
  then have "(db w)\<lparr>t_oidc := Some (f r)\<rparr> = db w'" unfolding set_oidc_def by (auto dest!: exec_step)
  from this [symmetric] show ?thesis by simp
qed

lemma seal_string_form:
  "seal_string E p w = (Inr c, w') \<Longrightarrow> good_ext E \<Longrightarrow> \<exists>b. b \<noteq> [] \<and> c = b64_encode E b"
proof -
  assume s: "seal_string E p w = (Inr c, w')" and g: "good_ext E"
  obtain nonce w1 where n: "random_bytes E nonce_size w = (Inr nonce, w1)"
    and c: "c = b64_encode E (nonce @ aead_seal E ApiHost nonce p)"
    using s by (auto simp: seal_string_def bnd_Inr_iff)
  have "length nonce = nonce_size"
    using n g unfolding random_bytes_def by (auto elim!: external_Inr simp: good_ext_def)
  then have "nonce @ aead_seal E ApiHost nonce p \<noteq> []" by (auto simp: nonce_size_def)
  with c show ?thesis by blast
qed

lemma valid_roles_resolved:
  assumes "validate_oidc_settings roles s = Inr ()" "os_enabled s" "os_default s = trim_space d"
    and "\<And>k role. os_roles s k = Some role \<Longrightarrow> k \<in> fst ` set roles"
  shows "is_valid_platform_role (resolve_oidc_role s raw_claims)"
proof -
  have d: "is_valid_platform_role (default_oidc_role (os_default s))"
    and r: "\<not> list_ex (\<lambda>(k, _). case os_roles s k of None \<Rightarrow> False | Some role \<Rightarrow> \<not> is_valid_platform_role role) roles"
    using assms(1,2) by (auto simp: validate_oidc_settings_def split: if_splits)
  have d': "is_valid_platform_role (if os_default s = [] then ''admin'' else os_default s)"
    using d assms(3) by (auto simp: default_oidc_role_def)
  have m: "is_valid_platform_role role" if "os_roles s k = Some role" for k role
    using r assms(4) [OF that] that by (fastforce simp: list_ex_iff)
  show ?thesis
    using d' m by (auto simp: resolve_oidc_role_def Let_def split: option.splits dest!: find_SomeD)
qed

lemma map_from_keys: "map_from kvs k = Some v \<Longrightarrow> k \<in> fst ` set kvs"
proof -
  have "fold (\<lambda>(k, v) m. m(k \<mapsto> v)) kvs m k = Some v \<Longrightarrow> k \<in> fst ` set kvs \<or> m k = Some v" for m
    by (induction kvs arbitrary: m) (force split: if_splits)+
  then show "map_from kvs k = Some v \<Longrightarrow> k \<in> fst ` set kvs" by (auto simp: map_from_def)
qed

text \<open>
  C12: after an update of the OIDC settings that enables OIDC and reports success, the settings that
  are read back are those of the input, with the stored client secret where the input has none; and
  whatever the claims of an identity token say, the role they are given is a role of the platform.
\<close>

theorem oidc_update_reads_back:
  assumes "good_ext E" "good_b64 E" "\<forall>b. b \<noteq> [] \<longrightarrow> trim_space (b64_encode E b) \<noteq> []"
    and "t_oidc (db w) = Some r" "opened_secret E r = Inr stored" "oin_enabled input"
    and "update_oidc_settings E cfg input w = (Inr s, w')"
  shows "s = next_settings input (oidc_of_row stored r) \<and> is_valid_platform_role (resolve_oidc_role s raw_claims)"
proof -
  let ?next = "next_settings input (oidc_of_row stored r)"
  obtain u w1 current w2 where e: "ensure_oidc_settings E cfg w = (Inr u, w1)"
    and cur: "resolve_oidc_settings E cfg w1 = (Inr current, w2)"
    using assms(7) unfolding update_oidc_settings_def by (auto simp: bnd_Inr_iff)
  have r1: "t_oidc (db w1) = Some r" by (rule ensure_oidc_keeps [OF e assms(4)])
  have current: "current = oidc_of_row stored r" "t_oidc (db w2) = Some r"
    using resolve_oidc_Inr [OF cur r1] assms(5) by (metis sum.inject(2))+
  obtain cipher w3 w4 where v: "validate_oidc_settings (normalize_role_map (oin_roles input)) ?next = Inr ()"
    and seal: "(if trim_space (os_secret ?next) \<noteq> [] then seal_string E (os_secret ?next) else ret []) w2 = (Inr cipher, w3)"
    and upd: "set_oidc (\<lambda>_. \<lparr>oi_enabled = os_enabled ?next, oi_issuer = os_issuer ?next, oi_client = os_client ?next, oi_cipher = cipher,
            oi_redirect = os_redirect ?next, oi_scopes = os_scopes ?next, oi_claim = os_claim ?next, oi_default = os_default ?next,
            oi_roles = os_roles ?next\<rparr>) w3 = (Inr (), w4)"
    and last: "resolve_oidc_settings E cfg w4 = (Inr s, w')"
    using assms(7) e cur current unfolding update_oidc_settings_def Let_def by (auto simp: bnd_Inr_iff)
  have en: "os_enabled ?next" using assms(6) by (simp add: next_settings_def Let_def)
  have secret: "trim_space (os_secret ?next) \<noteq> []"
    using v en by (auto simp: validate_oidc_settings_def split: if_splits)
  then have seal': "seal_string E (os_secret ?next) w2 = (Inr cipher, w3)" using seal by simp
  have cipher: "trim_space cipher \<noteq> []" "open_string E cipher = Inr (os_secret ?next)"
    using seal_string_form [OF seal' assms(1)] assms(3) seal_string_Inr [OF assms(1,2) seal'] by auto
  have "db w3 = db w2"
    using seal' unfolding seal_string_def random_bytes_def by (auto simp: bnd_Inr_iff elim!: external_Inr)
  then have r4: "t_oidc (db w4) = Some \<lparr>oi_enabled = os_enabled ?next, oi_issuer = os_issuer ?next, oi_client = os_client ?next,
      oi_cipher = cipher, oi_redirect = os_redirect ?next, oi_scopes = os_scopes ?next, oi_claim = os_claim ?next,
      oi_default = os_default ?next, oi_roles = os_roles ?next\<rparr>"
    using set_oidc_row [OF upd] current(2) by simp
  have conf: "os_configured ?next"
  proof (cases "trim_space (oin_secret input) = []")
    case True
    then have "os_secret ?next = stored" by (simp add: next_settings_def oidc_of_row_def)
    then have "trim_space (oi_cipher r) \<noteq> []" using secret assms(5) by (auto simp: opened_secret_def split: if_splits)
    then show ?thesis using True by (simp add: next_settings_def oidc_of_row_def)
  qed (simp add: next_settings_def)
  have s: "s = ?next"
  proof -
    obtain sec where o: "opened_secret E \<lparr>oi_enabled = os_enabled ?next, oi_issuer = os_issuer ?next, oi_client = os_client ?next,
      oi_cipher = cipher, oi_redirect = os_redirect ?next, oi_scopes = os_scopes ?next, oi_claim = os_claim ?next,
      oi_default = os_default ?next, oi_roles = os_roles ?next\<rparr> = Inr sec"
      and s: "s = oidc_of_row sec \<lparr>oi_enabled = os_enabled ?next, oi_issuer = os_issuer ?next, oi_client = os_client ?next,
      oi_cipher = cipher, oi_redirect = os_redirect ?next, oi_scopes = os_scopes ?next, oi_claim = os_claim ?next,
      oi_default = os_default ?next, oi_roles = os_roles ?next\<rparr>"
      by (rule resolve_oidc_Inr [OF last r4])
    have "sec = os_secret ?next" using o cipher by (simp add: opened_secret_def)
    then show ?thesis using s cipher conf
      by (simp add: oidc_of_row_def) (simp add: next_settings_def Let_def normalize_scopes_idem)
  qed
  have "is_valid_platform_role (resolve_oidc_role ?next raw_claims)"
    by (rule valid_roles_resolved [OF v en])
       (auto simp: next_settings_def Let_def dest: map_from_keys)
  then show ?thesis using s by blast
qed

text \<open>An enabled row without a secret, and an input that brings one.\<close>

definition example_oidc_row :: oidc_row where
  "example_oidc_row = \<lparr>oi_enabled = False, oi_issuer = [], oi_client = [], oi_cipher = [], oi_redirect = [], oi_scopes = [''openid''],
     oi_claim = [], oi_default = ''admin'', oi_roles = Map.empty\<rparr>"

definition example_oidc_input :: oidc_input where
  "example_oidc_input = \<lparr>oin_enabled = True, oin_issuer = ''i'', oin_client = ''c'', oin_secret = ''s'', oin_redirect = ''r'',
     oin_scopes = [], oin_claim = ''g'', oin_default = ''readonly'', oin_roles = [(''a'', ''admin'')]\<rparr>"

text \<open>An encoding of base64 without white space in front.\<close>

definition letter_ext :: ext where
  "letter_ext = plain_ext\<lparr>b64_encode := (\<lambda>b. CHR ''b'' # b), b64_decode := (\<lambda>s. Some (tl s))\<rparr>"

lemma good_letter_ext: "good_ext letter_ext" "good_b64 letter_ext"
  using good_plain_ext by (simp_all add: good_ext_def good_b64_def letter_ext_def)

lemma letter_not_blank: "trim_space (b64_encode letter_ext b) \<noteq> []"
  by (simp add: letter_ext_def trim_space_def trim_right_by_def is_space_def)

definition example_oidc_world :: world where
  "example_oidc_world = calm_world (empty_db\<lparr>t_oidc := Some example_oidc_row\<rparr>)"

lemma example_oidc_valid:
  "validate_oidc_settings (normalize_role_map (oin_roles example_oidc_input)) (next_settings example_oidc_input (oidc_of_row [] example_oidc_row)) = Inr ()"
  by code_simp

lemma example_next_secret: "os_secret (next_settings example_oidc_input (oidc_of_row [] example_oidc_row)) = ''s''"
  by code_simp

lemma example_letters: "trim_space (oi_cipher example_oidc_row) = []" "trim_space ''s'' = ''s''" "trim_space (cg_oidc_secret example_base) = []"
  by code_simp+

lemma example_update:
  obtains s w' where "update_oidc_settings letter_ext example_base example_oidc_input example_oidc_world = (Inr s, w')"
proof -
  have seal: "\<exists>c. seal_string letter_ext ''s'' w = (Inr c, w\<lparr>rnd_pos := Suc (rnd_pos w)\<rparr>) \<and> \<not> isl (open_string letter_ext c)"
    if "script w = []" for w
    using that by (simp add: seal_string_def random_bytes_def bnd_def open_string_def letter_ext_def plain_ext_def nonce_size_def)
  have ens: "ensure_oidc_settings letter_ext example_base w = (Inr (), w)" if "script w = []" "t_oidc (db w) = Some r" for w r
    using that by (simp add: ensure_oidc_settings_def bnd_def exec_def example_letters)
  have res: "\<exists>s. resolve_oidc_settings letter_ext example_base w = (Inr s, w)"
    if "script w = []" "t_oidc (db w) = Some r" "opened_secret letter_ext r = Inr k" for w r k
    using that ens [OF that(1,2)] by (auto simp: resolve_oidc_settings_def bnd_def query_def opened_secret_def split: if_splits)
  have first: "resolve_oidc_settings letter_ext example_base example_oidc_world = (Inr (oidc_of_row [] example_oidc_row), example_oidc_world)"
    by (simp add: resolve_oidc_settings_def bnd_def query_def ens [of _ example_oidc_row] example_oidc_world_def example_letters)
  obtain c where c: "seal_string letter_ext ''s'' example_oidc_world = (Inr c, example_oidc_world\<lparr>rnd_pos := Suc (rnd_pos example_oidc_world)\<rparr>)"
      "\<not> isl (open_string letter_ext c)"
    using seal [of example_oidc_world] by (auto simp: example_oidc_world_def)
  then obtain k where k: "(if trim_space c \<noteq> [] then open_string letter_ext c else Inr []) = Inr k"
    by (cases "open_string letter_ext c"; cases "trim_space c = []") auto
  let ?next = "next_settings example_oidc_input (oidc_of_row [] example_oidc_row)"
  let ?row = "\<lparr>oi_enabled = os_enabled ?next, oi_issuer = os_issuer ?next, oi_client = os_client ?next, oi_cipher = c,
            oi_redirect = os_redirect ?next, oi_scopes = os_scopes ?next, oi_claim = os_claim ?next, oi_default = os_default ?next,
            oi_roles = os_roles ?next\<rparr>"
  let ?w2 = "example_oidc_world\<lparr>rnd_pos := Suc (rnd_pos example_oidc_world)\<rparr>"
  let ?w4 = "?w2\<lparr>db := (db ?w2)\<lparr>t_oidc := Some ?row\<rparr>\<rparr>"
  have set: "set_oidc (\<lambda>_. ?row) ?w2 = (Inr (), ?w4)"
    by (simp add: set_oidc_def exec_def example_oidc_world_def)
  have p: "script ?w4 = []" "t_oidc (db ?w4) = Some ?row" "opened_secret letter_ext ?row = Inr k"
    using k by (simp_all add: example_oidc_world_def opened_secret_def split: if_splits)
  obtain s where s: "resolve_oidc_settings letter_ext example_base ?w4 = (Inr s, ?w4)"
    using res [OF p] by blast
  have e: "ensure_oidc_settings letter_ext example_base example_oidc_world = (Inr (), example_oidc_world)"
    by (rule ens [of _ example_oidc_row]) (simp_all add: example_oidc_world_def)
  have "update_oidc_settings letter_ext example_base example_oidc_input example_oidc_world = (Inr s, ?w4)"
    unfolding update_oidc_settings_def bnd_def e first Let_def prod.case sum.case example_oidc_valid of_result_simps
      example_next_secret example_letters(2) c(1)
    using set s c(1) by (simp add: example_letters)
  then show ?thesis by (rule that)
qed

theorem oidc_update_reads_back_witness:
  "\<exists>s w'. update_oidc_settings letter_ext example_base example_oidc_input example_oidc_world = (Inr s, w') \<and> os_secret s = ''s'' \<and>
     is_valid_platform_role (resolve_oidc_role s [(''g'', JStr ''a'')])"
proof -
  obtain s w' where u: "update_oidc_settings letter_ext example_base example_oidc_input example_oidc_world = (Inr s, w')"
    by (rule example_update)
  have "t_oidc (db example_oidc_world) = Some example_oidc_row" "opened_secret letter_ext example_oidc_row = Inr []"
      "oin_enabled example_oidc_input"
    by (simp_all add: example_oidc_world_def opened_secret_def example_letters example_oidc_input_def)
  from oidc_update_reads_back [OF good_letter_ext _ this u, of "[(''g'', JStr ''a'')]"] letter_not_blank
  show ?thesis using u example_next_secret by auto
qed

section \<open>The first start with a loaded configuration\<close>

lemma first_storage_policy:
  assumes "resolve_storage_policy C w = (Inr p, w1)" "t_storage_policy (db w) = None"
  shows "p = policy_of_row \<lparr>sp_default = cf_policy_class C, sp_standard = effective_replica_target ''standard'' (cf_policy_replicas C),
      sp_reduced = effective_replica_target ''reduced-redundancy'' (cf_policy_replicas C),
      sp_archive = effective_replica_target ''archive-ready'' (cf_policy_replicas C)\<rparr> \<and> t_oidc (db w1) = t_oidc (db w)"
proof -
  obtain u v where e: "ensure_storage_policy C w = (Inr u, v)"
    and q: "query (\<lambda>d. case t_storage_policy d of None \<Rightarrow> Inl PgNoRows | Some r \<Rightarrow> Inr (policy_of_row r)) v = (Inr p, w1)"
    using assms(1) by (auto simp: resolve_storage_policy_def bnd_Inr_iff)
  have v: "db v = (db w)\<lparr>t_storage_policy := Some \<lparr>sp_default = cf_policy_class C,
      sp_standard = effective_replica_target ''standard'' (cf_policy_replicas C),
      sp_reduced = effective_replica_target ''reduced-redundancy'' (cf_policy_replicas C),
      sp_archive = effective_replica_target ''archive-ready'' (cf_policy_replicas C)\<rparr>\<rparr>"
    using e assms(2) unfolding ensure_storage_policy_def Let_def by (auto dest!: exec_step)
  then show ?thesis using query_step [OF q] by (auto simp: env_step_fields)
qed

lemma first_oidc_settings:
  assumes "resolve_oidc_settings E cfg w = (Inr s, w')" "t_oidc (db w) = None"
  shows "os_enabled s = cg_oidc cfg \<and> os_default s = default_oidc_role (cg_oidc_default cfg) \<and> os_roles s = cg_oidc_roles cfg"
proof -
  obtain u w1 r w2 secret where e: "ensure_oidc_settings E cfg w = (Inr u, w1)"
    and q: "query (\<lambda>d. case t_oidc d of None \<Rightarrow> Inl PgNoRows | Some r \<Rightarrow> Inr r) w1 = (Inr r, w2)"
    and s: "s = oidc_of_row secret r"
    using assms(1) unfolding resolve_oidc_settings_def by (auto simp: bnd_Inr_iff)
  obtain c v where c: "(if trim_space (cg_oidc_secret cfg) \<noteq> [] then seal_string E (cg_oidc_secret cfg) else ret []) w = (Inr c, v)"
    and x: "exec (\<lambda>_ d. Inr ((), case t_oidc d of
         Some _ \<Rightarrow> d
       | None \<Rightarrow> d\<lparr>t_oidc := Some \<lparr>oi_enabled = cg_oidc cfg, oi_issuer = cg_oidc_issuer cfg, oi_client = cg_oidc_client cfg,
           oi_cipher = c, oi_redirect = cg_oidc_redirect cfg, oi_scopes = normalize_scopes (cg_oidc_scopes cfg),
           oi_claim = cg_oidc_claim cfg, oi_default = default_oidc_role (cg_oidc_default cfg), oi_roles = cg_oidc_roles cfg\<rparr>\<rparr>)) v = (Inr u, w1)"
    using e unfolding ensure_oidc_settings_def bnd_Inr_iff by blast
  have "db v = db w"
    using c unfolding seal_string_def random_bytes_def by (auto simp: bnd_Inr_iff elim!: external_Inr split: if_splits)
  then have "t_oidc (db w1) = Some \<lparr>oi_enabled = cg_oidc cfg, oi_issuer = cg_oidc_issuer cfg, oi_client = cg_oidc_client cfg,
           oi_cipher = c, oi_redirect = cg_oidc_redirect cfg, oi_scopes = normalize_scopes (cg_oidc_scopes cfg),
           oi_claim = cg_oidc_claim cfg, oi_default = default_oidc_role (cg_oidc_default cfg), oi_roles = cg_oidc_roles cfg\<rparr>"
    using exec_step [OF x, simplified] assms(2) by (cases w1) (auto dest!: sym [of "_\<lparr>t_oidc := _\<rparr>"])
  then show ?thesis using query_step [OF q] s by (auto simp: oidc_of_row_def)
qed

lemma trimmed_role: "is_valid_platform_role r \<Longrightarrow> default_oidc_role r = r \<and> r \<noteq> []"
proof -
  have "list_all (\<lambda>r. default_oidc_role r = r \<and> r \<noteq> []) valid_platform_roles" by code_simp
  then show "is_valid_platform_role r \<Longrightarrow> default_oidc_role r = r \<and> r \<noteq> []"
    by (simp add: is_valid_platform_role_def list_all_iff)
qed

text \<open>
  C11: what a loaded configuration makes of an empty installation can be served. The storage policy
  that is created from it wants for every storage class at least one replica and, with the
  distributed backend, no more than there are endpoints; and the OIDC settings that are created from
  it, when OIDC is enabled, give every identity a role of the platform, whatever its claims say.
\<close>

theorem first_start_feasible:
  assumes "load_config E env file_of = Inr c"
    and "t_storage_policy (db w) = None" "resolve_storage_policy (service_config_of c) w = (Inr p, w1)"
    and "t_oidc (db w) = None" "resolve_oidc_settings E c w1 = (Inr s, w2)"
  shows "(\<forall>cls \<in> set supported_storage_classes. \<exists>n. class_replicas p cls = Some n \<and> 1 \<le> n \<and>
      (cg_backend c = ''distributed'' \<longrightarrow> n \<le> int (length (cg_endpoints c)))) \<and>
    (os_enabled s \<longrightarrow> is_valid_platform_role (resolve_oidc_role s raw_claims))"
proof
  have valid: "valid_config E c" by (rule loaded_config_valid [OF assms(1)])
  note p = first_storage_policy [OF assms(3,2)]
  have t: "1 \<le> effective_replica_target cls (cg_replicas c)" for cls
    using effective_replica_target_pos [of cls "cg_replicas c"] by simp
  have le: "effective_replica_target cls (cg_replicas c) \<le> int (length (cg_endpoints c))" if "cg_backend c = ''distributed''" for cls
    using valid that by (auto simp: valid_config_def effective_replica_target_def Let_def)
  show "\<forall>cls \<in> set supported_storage_classes. \<exists>n. class_replicas p cls = Some n \<and> 1 \<le> n \<and>
      (cg_backend c = ''distributed'' \<longrightarrow> n \<le> int (length (cg_endpoints c)))"
    using p t le effective_replica_target_pos by (auto simp: class_replicas_def policy_of_row_def supported_storage_classes_def service_config_of_def)
  have "t_oidc (db w1) = None" using p assms(4) by simp
  note s = first_oidc_settings [OF assms(5) this]
  show "os_enabled s \<longrightarrow> is_valid_platform_role (resolve_oidc_role s raw_claims)"
  proof
    assume "os_enabled s"
    then have v: "is_valid_platform_role (cg_oidc_default c)" "\<And>k role. cg_oidc_roles c k = Some role \<Longrightarrow> is_valid_platform_role role"
      using valid s by (auto simp: valid_config_def)
    then show "is_valid_platform_role (resolve_oidc_role s raw_claims)"
      using s trimmed_role [OF v(1)] by (auto simp: resolve_oidc_role_def Let_def split: option.splits dest!: find_SomeD)
  qed
qed

theorem first_start_feasible_witness:
  "\<exists>c p w1. load_config plain_ext example_env (\<lambda>_. None) = Inr c \<and>
     resolve_storage_policy (service_config_of c) (calm_world empty_db) = (Inr p, w1) \<and>
     (\<exists>n. class_replicas p ''standard'' = Some n \<and> n \<le> int (length (cg_endpoints c)))"
proof -
  obtain c where c: "load_config plain_ext example_env (\<lambda>_. None) = Inr c" "cg_backend c = ''distributed''" "cg_oidc_secret c = []"
    using example_loads by blast
  obtain p w1 where p: "resolve_storage_policy (service_config_of c) (calm_world empty_db) = (Inr p, w1)" "script w1 = []"
      "t_oidc (db w1) = None"
    by (simp add: resolve_storage_policy_def ensure_storage_policy_def bnd_def exec_calm query_calm calm_world_def empty_db_def Let_def)
  have "trim_space [] = []" by simp
  then obtain s w2 where s: "resolve_oidc_settings plain_ext c w1 = (Inr s, w2)"
    using p(2,3) c(3) by (simp add: resolve_oidc_settings_def ensure_oidc_settings_def opened_secret_def bnd_def ret_def exec_calm query_calm)
  have n: "t_storage_policy (db (calm_world empty_db)) = None" "t_oidc (db (calm_world empty_db)) = None"
    by (simp_all add: empty_db_def)
  from first_start_feasible [OF c(1) n(1) p(1) n(2) s] show ?thesis
    using c p(1) by (fastforce simp: supported_storage_classes_def)
qed

end
