(* ===== verification/AdminExamples.thy ===== *)
theory AdminExamples
  imports AdminGrants BlobNode SettingsSafety "HOL-Library.Countable"
begin

text \<open>
  The properties of the administration interface and of joining nodes at concrete requests.
\<close>

section \<open>A deployment\<close>

definition example_discovery :: discovery where
  "example_discovery = \<lparr>di_issuer = ''i'', di_authorization = ''a'', di_token = ''t'', di_userinfo = ''u'', di_jwks = ''j''\<rparr>"

definition example_provider :: oidc_env where
  "example_provider = \<lparr>oe_discover = (\<lambda>_ _. Inr example_discovery), oe_auth_url = (\<lambda>_ _ state _. ''a?state='' @ state),
     oe_exchange = (\<lambda>_ _ _ _. Inr ''t''), oe_verify = (\<lambda>_ _ _ _. Inr JNull), oe_entries = (\<lambda>_. []), oe_marshal = se_access,
     oe_quote = (\<lambda>s. s), oe_page = (\<lambda>s. s)\<rparr>"

text \<open>The dependencies of the handlers, where every body reads as the given members.\<close>

definition example_deps :: "(string \<times> json) list \<Rightarrow> admin_deps" where
  "example_deps fs = \<lparr>ad_config = example_base\<lparr>cg_jwt_secret := ''s''\<rparr>,
     ad_auth = \<lparr>ac_secret = ''s'', ac_issuer = ''i'', ac_access_ttl = 1, ac_refresh_ttl = 1\<rparr>,
     ad_topology = \<lparr>tp_store = True, tp_sealer = True, tp_replicas = 2, tp_probe = (\<lambda>_ _. Inl PgNoRows), tp_hostname = (\<lambda>_. None)\<rparr>,
     ad_oidc = example_provider, ad_json = (\<lambda>_. Some (JObj fs)), ad_form = (\<lambda>_. None), ad_ip6 = (\<lambda>_. None), ad_url = (\<lambda>_. None),
     ad_error = (\<lambda>_. ''error''), ad_text = (\<lambda>_. []), ad_updated = o_created\<rparr>"

definition example_admin_request :: "string \<Rightarrow> request" where
  "example_admin_request token = \<lparr>rq_method = ''POST'', rq_host = ''h'', rq_path = ''/'', rq_escaped = ''/'', rq_query = [],
     rq_headers = [(''Authorization'', ''Bearer '' @ token)], rq_body = [], rq_length = 0, rq_remote = ''10.0.0.1:1''\<rparr>"

lemma example_allowlist: "cg_allowlist (ad_config (example_deps fs)) = []"
  by (simp add: example_deps_def example_base_def base_config_def get_env_def example_env_def split_csv_def)

lemma example_open: "admin_ip_allowlist ip6 [] req"
  by (simp add: admin_ip_allowlist_def)

lemma example_secret: "cg_jwt_secret (ad_config (example_deps fs)) = ''s''" "ac_secret (ad_auth (example_deps fs)) = ''s''"
  "ad_oidc (example_deps fs) = example_provider"
  by (simp_all add: example_deps_def)

lemma example_bearer: "bearer token (example_admin_request token)"
  by (simp add: bearer_def example_admin_request_def header_get_def header_values_def)

definition allow_all :: "string \<Rightarrow> string \<Rightarrow> statement_row" where
  "allow_all role action = \<lparr>s_id = ''s'' @ role, s_role = role, s_action = action, s_resource = ''*'', s_effect = ''allow'', s_conds = Map.empty\<rparr>"

section \<open>A token of a role that may not\<close>

definition reader_token :: admin_token_row where
  "reader_token = \<lparr>at_id = ''i'', at_creator = None, at_role = ''readonly'', at_hash = hash_secret plain_ext ''t'', at_desc = [],
     at_last_used = None, at_expires = 10, at_revoked = None, at_created = 0\<rparr>"

definition reader_db :: database where
  "reader_db = empty_db\<lparr>t_statements := [allow_all ''readonly'' ''bucket.list''], t_admin_tokens := [reader_token]\<rparr>"

lemma reader_may:
  "\<not> may reader_db (token_claims reader_db reader_token) ''bucket.create'' ''*''"
  "may reader_db (token_claims reader_db reader_token) ''bucket.list'' ''*''"
  by code_simp+

lemma reader_presented:
  assumes "presented plain_ext (ad_auth (example_deps fs)) (example_admin_request ''t'') (calm_world reader_db) c"
  shows "c = token_claims reader_db reader_token"
  using assms unfolding presented_def Let_def trim_bearer [OF example_bearer]
  by (simp add: parse_token_def bnd_def plain_ext_def reader_db_def)

theorem admin_change_needs_permission_witness:
  "\<exists>r w'. serve_admin plain_ext (example_deps []) None (Inr PostBucket) (example_admin_request ''t'') (calm_world reader_db) = (r, w') \<and>
     same_data (calm_world reader_db) w' \<and> (\<exists>rep. r = Inr (rep, None) \<and> denied rep)"
proof -
  obtain r w' where s: "serve_admin plain_ext (example_deps []) None (Inr PostBucket) (example_admin_request ''t'') (calm_world reader_db) = (r, w')"
    by fastforce
  have "\<not> (\<exists>c. presented plain_ext (ad_auth (example_deps [])) (example_admin_request ''t'') (calm_world reader_db) c \<and>
      may (db (calm_world reader_db)) c ''bucket.create'' ''*'')"
    using reader_presented reader_may(1) by auto
  then show ?thesis using admin_change_needs_permission [OF s, of "''bucket.create''" "''*''"] s by auto
qed

section \<open>A login that is started\<close>

text \<open>Tokens as numbers of their claims.\<close>

instance json :: countable
  by countable_datatype

definition signing_ext :: ext where
  "signing_ext = plain_ext\<lparr>jwt_sign := (\<lambda>s c. CHR ''j'' # replicate (to_nat c) (CHR ''x'')),
     jwt_open := (\<lambda>s t. Some (from_nat (length t - 1)))\<rparr>"

lemma good_signing_ext: "good_jwt signing_ext"
  by (simp add: good_jwt_def signing_ext_def)

definition login_row :: oidc_row where
  "login_row = \<lparr>oi_enabled = True, oi_issuer = ''i'', oi_client = ''c'', oi_cipher = replicate 12 (CHR ''n'') @ ''ts'', oi_redirect = ''r'',
     oi_scopes = [''openid''], oi_claim = [], oi_default = ''admin'', oi_roles = Map.empty\<rparr>"

definition login_world :: world where
  "login_world = calm_world (empty_db\<lparr>t_oidc := Some login_row\<rparr>)"

lemma login_cipher: "trim_space (oi_cipher login_row) = oi_cipher login_row" "oi_cipher login_row \<noteq> []"
  "open_string signing_ext (oi_cipher login_row) = Inr ''s''"
  by (simp_all add: login_row_def trim_space_def trim_right_by_def is_space_def numeral_eq_Suc open_string_def signing_ext_def plain_ext_def
      nonce_size_def)

lemma login_no_secret: "trim_space (cg_oidc_secret (ad_config (example_deps fs))) = []"
  by (simp add: example_deps_def example_base_def base_config_def trim_space_def trim_right_by_def)

lemma login_settings: "current_settings signing_ext (ad_config (example_deps fs)) login_world = (Inr (oidc_of_row ''s'' login_row), login_world)"
  by (simp add: current_settings_def resolve_oidc_settings_def ensure_oidc_settings_def login_no_secret bnd_def exec_def query_def
      login_world_def login_cipher)

lemma login_configured: "ot_configured (oidc_status_of P (oidc_of_row ''s'' login_row))"
  by (simp add: oidc_status_of_def Let_def oidc_of_row_def login_row_def)

lemma login_calm: "script login_world = []" "clock login_world = 0"
  by (simp_all add: login_world_def)

lemma login_started:
  obtains u cache w1 where "start_login signing_ext example_provider (ad_config (example_deps fs)) None login_world = (Inr (Inr u, cache), w1)"
proof -
  let ?cfg = "ad_config (example_deps fs)" and ?s = "oidc_of_row ''s'' login_row"
  have e: "ensure_provider signing_ext example_provider ?cfg None login_world
      = (Inr (?s, example_discovery, Some (cache_key example_provider ?s, example_discovery, ?s)), login_world)"
    by (simp add: ensure_provider_def bnd_def login_settings discover_def login_calm example_provider_def)
  obtain token nonce w2 where n: "new_state_token signing_ext ?cfg login_world = (Inr (token, nonce), w2)"
    by (simp add: new_state_token_def bnd_def random_bytes_def login_calm Let_def)
  show ?thesis
    by (rule that) (simp add: start_login_def oidc_status_def bnd_def login_settings login_configured with_provider_def e keeping_def n)
qed

theorem state_token_authenticates_witness:
  "\<exists>token w1 cache. start_login signing_ext example_provider (ad_config (example_deps [])) None login_world
       = (Inr (Inr (''a?state='' @ token), cache), w1) \<and>
     fst (serve_admin signing_ext (example_deps []) cache (Inr GetMe) (example_admin_request token) login_world) =
       Inr (\<lparr>ar_status = 200, ar_headers = [(''Content-Type'', ''application/json'')], ar_body = ClaimsBody nobody\<rparr>, cache)"
proof -
  obtain u cache w1 where s: "start_login signing_ext example_provider (ad_config (example_deps [])) None login_world = (Inr (Inr u, cache), w1)"
    by (rule login_started)
  have "start_login signing_ext (ad_oidc (example_deps [])) (ad_config (example_deps [])) None login_world = (Inr (Inr u, cache), w1)"
    using s by (simp add: example_secret)
  from state_token_authenticates [OF good_signing_ext _ this] obtain active d token nonce where
    u: "u = oe_auth_url (ad_oidc (example_deps [])) active d token nonce"
    and a: "\<And>req w2. bearer token req \<Longrightarrow> clock w2 < clock login_world + 9 * 60 * 1000000000 \<Longrightarrow>
        admin_ip_allowlist (ad_ip6 (example_deps [])) (cg_allowlist (ad_config (example_deps []))) req \<Longrightarrow>
       serve_admin signing_ext (example_deps []) cache (Inr GetMe) req w2 =
         (Inr (\<lparr>ar_status = 200, ar_headers = [(''Content-Type'', ''application/json'')], ar_body = ClaimsBody nobody\<rparr>, cache), w2)"
    by (auto simp: example_secret)
  show ?thesis
    using s u a [OF example_bearer, of login_world] by (auto simp: example_secret example_allowlist example_open example_provider_def login_calm)
qed

section \<open>The only healthy node\<close>

definition example_node_row :: "string \<Rightarrow> string \<Rightarrow> node_row" where
  "example_node_row i status = \<lparr>n_id = i, n_name = i, n_endpoint = i, n_zone = [], n_status = status, n_state = ''active'', n_capacity = 0,
     n_used = 0, n_meta = [], n_rpc_hash = [], n_rpc_cipher = [], n_heartbeat = None, n_created = 0\<rparr>"

definition local_row :: object_row where
  "local_row = \<lparr>o_id = ''o'', o_bucket = ''b'', o_key = ''k'', o_version = ''v'', o_latest = True, o_marker = False, o_size = 1, o_etag = [],
     o_ctype = [], o_cache = [], o_disp = [], o_enc = [], o_meta = Map.empty, o_tags = Map.empty, o_path = ''b/v'', o_backend = ''filesystem'',
     o_owner = None, o_retain = None, o_expire = None, o_deleted = None, o_scan = [], o_hold = False, o_created = 0\<rparr>"

definition nodes_db :: database where
  "nodes_db = empty_db\<lparr>t_nodes := [example_node_row ''m'' ''offline'', example_node_row ''n'' ''healthy''], t_objects := [local_row],
     t_statements := [allow_all ''superadmin'' ''*'']\<rparr>"

definition example_superadmin :: claims where
  "example_superadmin = \<lparr>cl_user = [], cl_role = ''superadmin'', cl_email = [], cl_subject_type = [], cl_subject = []\<rparr>"

definition drain :: "admin_reply prog" where
  "drain = serve_protected plain_ext (example_deps [(''operatorState'', JStr ''draining'')]) example_superadmin (PatchNode ''n'')
     (example_admin_request ''t'')"

lemma drain_refused: "map_sum (\<lambda>_. ()) ar_status (fst (drain (calm_world nodes_db))) = Inr 409"
  unfolding drain_def serve_protected.simps by code_simp

theorem last_serving_node_kept_witness:
  "map_sum (\<lambda>_. ()) ar_status (fst (drain (calm_world nodes_db))) = Inr 409 \<and> some_serving (snd (drain (calm_world nodes_db)))"
proof -
  obtain r w' where s: "serve_protected plain_ext (example_deps [(''operatorState'', JStr ''draining'')]) example_superadmin (PatchNode ''n'')
     (example_admin_request ''t'') (calm_world nodes_db) = (r, w')"
    by fastforce
  have "distinct (map n_id (t_nodes (db (calm_world nodes_db))))" "some_serving (calm_world nodes_db)"
    "\<forall>n \<in> set (t_nodes (db (calm_world nodes_db))). pg_uuid plain_ext (n_id n) = Some (n_id n)"
    "\<exists>r \<in> set (t_objects (db (calm_world nodes_db))). pending_migration r"
    by (simp_all add: nodes_db_def example_node_row_def some_serving_def serving_def local_row_def pending_migration_def plain_ext_def
        plain_elem_def slash_def)
  from last_serving_node_kept [OF this(1,3,2,4) s] drain_refused s show ?thesis by (simp add: drain_def)
qed

section \<open>Tokens and credentials\<close>

definition owner_db :: database where
  "owner_db = empty_db\<lparr>t_statements := [allow_all ''admin'' ''*'']\<rparr>"

definition example_admin :: claims where
  "example_admin = \<lparr>cl_user = [], cl_role = ''admin'', cl_email = [], cl_subject_type = [], cl_subject = []\<rparr>"

lemma token_created: "map at_role (t_admin_tokens (db (snd (serve_protected plain_ext (example_deps [(''role'', JStr [])]) example_admin
    PostAdminToken (example_admin_request ''t'') (calm_world owner_db))))) = [''admin'']"
  unfolding serve_protected.simps by code_simp

theorem admin_token_bounded_witness:
  "\<exists>r w' row. serve_protected plain_ext (example_deps [(''role'', JStr [])]) example_admin PostAdminToken (example_admin_request ''t'')
       (calm_world owner_db) = (r, w') \<and> t_admin_tokens (db w') = [row] \<and> at_role row = ''admin'' \<and> at_expires row \<le> clock w' + year"
proof -
  obtain r w' where s: "serve_protected plain_ext (example_deps [(''role'', JStr [])]) example_admin PostAdminToken (example_admin_request ''t'')
       (calm_world owner_db) = (r, w')"
    by fastforce
  then obtain row where row: "t_admin_tokens (db w') = [row]" using token_created by auto
  have "row \<notin> set (t_admin_tokens (db (calm_world owner_db)))" by (simp add: owner_db_def empty_db_def)
  from admin_token_bounded [OF s _ this] show ?thesis using s row by (auto simp: example_admin_def)
qed

definition chief_request :: "(string \<times> json) list" where
  "chief_request = [(''userId'', JStr []), (''role'', JStr ''superadmin''), (''description'', JStr [])]"

lemma credential_created:
  "map_sum (\<lambda>_. ()) ar_status (fst (serve_protected plain_ext (example_deps chief_request) example_admin PostCredential
    (example_admin_request ''t'') (calm_world owner_db))) = Inr 201"
  unfolding serve_protected.simps by code_simp

lemma chief_decoded: "decode_body (example_deps chief_request) (both_fields (str_field ''userId'') (both_fields (str_field ''role'')
    (str_field ''description''))) b = Some ([], ''superadmin'', [])"
  by (simp add: decode_body_def example_deps_def) code_simp

theorem credential_takes_any_role_witness:
  "\<exists>rep w' row. serve_protected plain_ext (example_deps chief_request) example_admin PostCredential (example_admin_request ''t'')
       (calm_world owner_db) = (Inr rep, w') \<and> row \<in> set (t_credentials (db w')) \<and> c_role row = ''superadmin''"
proof -
  obtain r w' where s: "serve_protected plain_ext (example_deps chief_request) example_admin PostCredential (example_admin_request ''t'')
       (calm_world owner_db) = (r, w')"
    by fastforce
  then obtain rep where rep: "r = Inr rep" "ar_status rep = 201" using credential_created by (cases r) auto
  from credential_takes_any_role [OF s [unfolded rep(1)] rep(2) chief_decoded] show ?thesis using s rep by blast
qed

section \<open>A node that joins\<close>

definition joining_env :: "string \<Rightarrow> string" where
  "joining_env k = (if k = ''BLOBNODE_API_URL'' then ''http://a'' else if k = ''BLOBNODE_ADVERTISE_URL'' then ''http://n/''
     else if k = ''BLOBNODE_JOIN_TOKEN'' then ''t'' else [])"

definition joining_db :: database where
  "joining_db = empty_db\<lparr>t_join_tokens := [\<lparr>j_id = ''j'', j_hash = hash_join_token letter_ext ''t'', j_desc = [], j_name = [],
     j_endpoint = ''http://n'', j_zone = [], j_expires = 1, j_used = None\<rparr>]\<rparr>"

lemma joining_evaluates:
  "case fst (maybe_join_cluster joining_env (join_exchange letter_ext (example_deps []) (example_admin_request [])) ''n''
     (node_token_file joining_env example_base) (calm_world joining_db)) of Inl _ \<Rightarrow> False | Inr tok \<Rightarrow> tok \<noteq> []"
  by code_simp

lemma joining_advertised: "advertised joining_env = ''http://n''" "trim_endpoint ''http://n'' \<noteq> []"
  by code_simp+

theorem joined_node_agrees_witness:
  "\<exists>tok w1 w3. maybe_join_cluster joining_env (join_exchange letter_ext (example_deps []) (example_admin_request [])) ''n''
       (node_token_file joining_env example_base) (calm_world joining_db) = (Inr tok, w1) \<and> tok \<noteq> [] \<and>
     start_node (\<lambda>_. []) example_base (\<lambda>_ _. fail PgNoRows) ''n'' ((calm_world empty_db)\<lparr>disks := disks w1\<rparr>) = (Inr (), w3) \<and>
     fst (token_for_endpoint letter_ext ''http://n'' w1) = Inr tok \<and> fst (expected_token letter_ext ''n'' w3) = Inr tok"
proof -
  obtain r w1 where m: "maybe_join_cluster joining_env (join_exchange letter_ext (example_deps []) (example_admin_request [])) ''n''
       (node_token_file joining_env example_base) (calm_world joining_db) = (r, w1)"
    by fastforce
  then obtain tok where r: "r = Inr tok" "tok \<noteq> []" using joining_evaluates by (cases r) auto
  let ?w2 = "(calm_world empty_db)\<lparr>disks := disks w1\<rparr>"
  have f: "node_token_file (\<lambda>_. []) example_base = node_token_file joining_env example_base"
    by (simp add: node_token_file_def get_env_def joining_env_def)
  obtain w3 where s: "start_node (\<lambda>_. []) example_base (\<lambda>_ _. fail PgNoRows) ''n'' ?w2 = (Inr (), w3)"
    by (cases "disks w1 (NodeHost ''n'') (node_token_file (\<lambda>_. []) example_base)")
      (simp_all add: start_node_def load_node_token_def read_file_def maybe_join_cluster_def bnd_def trim_url_def trim_right_by_def Let_def)
  have d: "tp_store (ad_topology (example_deps []))" "tp_sealer (ad_topology (example_deps []))"
    by (simp_all add: example_deps_def)
  from joined_node_agrees [OF good_letter_ext d _ _ m [unfolded r(1)] r(2) _ _ s]
  show ?thesis using m r s f joining_advertised by (auto simp: joining_db_def empty_db_def)
qed

end
