(* ===== verification/Jobs.thy ===== *)
theory Jobs
  imports Quotas "HOL-Library.Product_Lexorder"
begin

text \<open>
  The job queue of the worker: \<open>backend/internal/jobs\<close> and the loop of \<open>backend/cmd/worker\<close>. A
  recurring job is one row of \<open>t_jobs\<close>; a worker claims it, runs its handler and makes it due
  again. Durations are nanoseconds.
\<close>

section \<open>Operations\<close>

record job =
  jo_id :: string
  jo_type :: string
  jo_payload :: "(string \<times> json) list"
  jo_attempts :: int
  jo_next :: int

definition change_jobs :: "(job_row list \<Rightarrow> job_row list) \<Rightarrow> database \<Rightarrow> database" where
  "change_jobs f d = d\<lparr>t_jobs := f (t_jobs d)\<rparr>"

definition stale :: "int \<Rightarrow> int \<Rightarrow> job_row \<Rightarrow> bool" where
  "stale stale_after t j \<longleftrightarrow> jb_status j = ''running'' \<and> jb_updated j \<le> t - stale_after"

definition reset_stale_running :: "int \<Rightarrow> unit prog" where
  "reset_stale_running stale_after =
     exec (\<lambda>t d. Inr ((), change_jobs (map (\<lambda>j. if stale stale_after t j
       then j\<lparr>jb_status := ''pending'', jb_updated := t, jb_error := ''recovered_after_worker_restart''\<rparr> else j)) d))"

definition ensure_recurring :: "ext \<Rightarrow> string \<Rightarrow> int \<Rightarrow> json \<Rightarrow> unit prog" where
  "ensure_recurring E job_type interval payload =
     bnd (new_uuid E) (\<lambda>i. exec (\<lambda>t d.
       if list_ex (\<lambda>j. jb_type j = job_type) (t_jobs d)
       then Inr ((), change_jobs (map (\<lambda>j. if jb_type j = job_type then j\<lparr>jb_payload := payload\<rparr> else j)) d)
       else if list_ex (\<lambda>j. jb_id j = i) (t_jobs d) then Inl PgUniqueViolation
       else Inr ((), change_jobs (\<lambda>js. js @
         [\<lparr>jb_id = i, jb_type = job_type, jb_payload = payload, jb_status = ''pending'', jb_attempts = 0,
           jb_next = t + interval, jb_error = [], jb_created = t, jb_updated = t\<rparr>]) d)))"

definition due :: "int \<Rightarrow> job_row \<Rightarrow> bool" where
  "due t j \<longleftrightarrow> jb_status j = ''pending'' \<and> jb_next j \<le> t"

definition set_job :: "string \<Rightarrow> (job_row \<Rightarrow> job_row) \<Rightarrow> database \<Rightarrow> database" where
  "set_job i f = change_jobs (map (\<lambda>j. if jb_id j = i then f j else j))"

text \<open>A payload that is neither an object nor null does not decode.\<close>

definition decode_payload :: "json \<Rightarrow> (string \<times> json) list prog" where
  "decode_payload p = (case p of JObj ms \<Rightarrow> ret ms | JNull \<Rightarrow> ret [] | _ \<Rightarrow> fail (Failure ''cannot unmarshal''))"

definition claim_due :: "job prog" where
  "claim_due = transaction (\<lambda>t.
     bnd (attempt (exec (\<lambda>_ d.
       case sort_key (\<lambda>j. (jb_next j, jb_created j)) (filter (due t) (t_jobs d)) of
         [] \<Rightarrow> Inl PgNoRows
       | j # _ \<Rightarrow> Inr (j, set_job (jb_id j)
             (\<lambda>j. j\<lparr>jb_status := ''running'', jb_attempts := jb_attempts j + 1, jb_updated := t, jb_error := []\<rparr>) d)))) (\<lambda>r.
     case r of
       Inl e \<Rightarrow> fail (if e = PgNoRows then ErrNoDueJobs else e)
     | Inr j \<Rightarrow> bnd (decode_payload (jb_payload j)) (\<lambda>payload.
         ret \<lparr>jo_id = jb_id j, jo_type = jb_type j, jo_payload = payload,
              jo_attempts = jb_attempts j + 1, jo_next = jb_next j\<rparr>)))"

definition complete_job :: "ext \<Rightarrow> string \<Rightarrow> int \<Rightarrow> unit prog" where
  "complete_job E job_id next_run =
     bnd (cast_uuid E job_id) (\<lambda>i. exec (\<lambda>t d. Inr ((), set_job i
       (\<lambda>j. j\<lparr>jb_status := ''pending'', jb_next := next_run, jb_updated := t, jb_error := []\<rparr>) d)))"

definition fail_job :: "ext \<Rightarrow> string \<Rightarrow> int \<Rightarrow> string \<Rightarrow> unit prog" where
  "fail_job E job_id next_run message =
     bnd (cast_uuid E job_id) (\<lambda>i. exec (\<lambda>t d. Inr ((), set_job i
       (\<lambda>j. j\<lparr>jb_status := ''pending'', jb_next := next_run, jb_updated := t, jb_error := message\<rparr>) d)))"

section \<open>The worker\<close>

definition seconds :: "int \<Rightarrow> int" where
  "seconds n = n * 1000000000"

text \<open>
  One round of \<open>runDueJobs\<close>: claim, run, record. The result says whether the loop goes on;
  \<open>handlers\<close> gives the interval and the program of a job type.
\<close>

definition run_next_job ::
    "ext \<Rightarrow> (err \<Rightarrow> string) \<Rightarrow> (string \<Rightarrow> (int \<times> int prog) option) \<Rightarrow> bool prog" where
  "run_next_job E message handlers =
     bnd (attempt claim_due) (\<lambda>claimed. case claimed of
        Inl _ \<Rightarrow> ret False
      | Inr j \<Rightarrow> (case handlers (jo_type j) of
           None \<Rightarrow> bnd now (\<lambda>t.
             bnd (ignore_error (fail_job E (jo_id j) (t + seconds 30) ''missing handler'')) (\<lambda>_. ret True))
         | Some (interval, run) \<Rightarrow> bnd (attempt run) (\<lambda>r. bnd now (\<lambda>t. case r of
             Inl e \<Rightarrow> bnd (ignore_error (fail_job E (jo_id j) (t + seconds 15) (message e))) (\<lambda>_. ret True)
           | Inr _ \<Rightarrow> bnd (ignore_error (complete_job E (jo_id j) (t + interval))) (\<lambda>_. ret True)))))"

text \<open>\<open>runDueJobs\<close>, for at most \<open>n\<close> rounds.\<close>

fun run_rounds ::
    "ext \<Rightarrow> (err \<Rightarrow> string) \<Rightarrow> (string \<Rightarrow> (int \<times> int prog) option) \<Rightarrow> nat \<Rightarrow> unit prog" where
  "run_rounds E message handlers 0 = ret ()"
| "run_rounds E message handlers (Suc n) =
     bnd (run_next_job E message handlers) (\<lambda>go. if go then run_rounds E message handlers n else ret ())"

definition run_due_jobs ::
    "ext \<Rightarrow> (err \<Rightarrow> string) \<Rightarrow> (string \<Rightarrow> (int \<times> int prog) option) \<Rightarrow> nat \<Rightarrow> unit prog" where
  "run_due_jobs E message handlers n =
     bnd (attempt (reset_stale_running (seconds 10))) (\<lambda>r. case r of
        Inl _ \<Rightarrow> ret ()
      | Inr _ \<Rightarrow> run_rounds E message handlers n)"

section \<open>A claimed job is claimed once\<close>

text \<open>
  The calls of other workers while one runs a job: they claim, complete and fail other jobs and
  reset what they find stale.
\<close>

datatype job_call =
    ResetStale int
  | EnsureRecurring string int json
  | ClaimDue
  | CompleteJob string int
  | FailJob string int string

fun job_step :: "ext \<Rightarrow> job_call \<Rightarrow> unit prog" where
  "job_step E (ResetStale n) = ignore_error (reset_stale_running n)"
| "job_step E (EnsureRecurring ty i p) = ignore_error (ensure_recurring E ty i p)"
| "job_step E ClaimDue = ignore_error claim_due"
| "job_step E (CompleteJob i t) = ignore_error (complete_job E i t)"
| "job_step E (FailJob i t m) = ignore_error (fail_job E i t m)"

definition jobs_ok :: "job_row list \<Rightarrow> bool" where
  "jobs_ok js \<longleftrightarrow> distinct (map jb_id js)"

text \<open>The job \<open>i\<close> was claimed at \<open>t\<close> and is still running.\<close>

definition held_since :: "string \<Rightarrow> int \<Rightarrow> world \<Rightarrow> bool" where
  "held_since i t w \<longleftrightarrow> jobs_ok (t_jobs (db w)) \<and>
     (\<exists>j \<in> set (t_jobs (db w)). jb_id j = i \<and> jb_status j = ''running'' \<and> jb_updated j = t)"

lemma set_job_ids: "(\<And>j. jb_id (f j) = jb_id j) \<Longrightarrow> jobs_ok (map (\<lambda>j. if b j then f j else j) js) = jobs_ok js"
proof -
  assume f: "\<And>j. jb_id (f j) = jb_id j"
  have "map jb_id (map (\<lambda>j. if b j then f j else j) js) = map jb_id js" using f by simp
  then show ?thesis unfolding jobs_ok_def by presburger
qed

text \<open>An update that spares the job.\<close>

lemma held_update:
  assumes "held_since i t w" "\<And>j. jb_id (f j) = jb_id j" "\<And>j. jb_id j = i \<Longrightarrow> jb_status j = ''running'' \<Longrightarrow> jb_updated j = t \<Longrightarrow> \<not> b j"
  shows "held_since i t (w\<lparr>db := change_jobs (map (\<lambda>j. if b j then f j else j)) (db w)\<rparr>)"
  using assms set_job_ids [of f b "t_jobs (db w)"] by (force simp: held_since_def change_jobs_def)

lemma held_same:
  assumes "held_since i t w" "\<And>j. jb_id (f j) = jb_id j \<and> jb_status (f j) = jb_status j \<and> jb_updated (f j) = jb_updated j"
  shows "held_since i t (w\<lparr>db := change_jobs (map (\<lambda>j. if b j then f j else j)) (db w)\<rparr>)"
proof -
  obtain j where j: "j \<in> set (t_jobs (db w))" "jb_id j = i" "jb_status j = ''running''" "jb_updated j = t"
    using assms(1) by (auto simp: held_since_def)
  have "\<exists>j' \<in> set (map (\<lambda>j. if b j then f j else j) (t_jobs (db w))). jb_id j' = i \<and> jb_status j' = ''running'' \<and> jb_updated j' = t"
    by (rule bexI [of _ "if b j then f j else j"]) (use j assms(2) in auto)
  then show ?thesis using assms set_job_ids [of f b "t_jobs (db w)"] by (simp add: held_since_def change_jobs_def)
qed

definition held_until :: "string \<Rightarrow> int \<Rightarrow> int \<Rightarrow> world \<Rightarrow> bool" where
  "held_until i t D w \<longleftrightarrow> held_since i t w \<or> D \<le> clock w"

lemma stable_held: "stable (held_until i t D)"
  by (auto simp: stable_def held_until_def held_since_def env_step_fields)

lemma held_exec:
  assumes "\<And>w x d. held_since i t w \<Longrightarrow> clock w < D \<Longrightarrow> q (clock w) (db w) = Inr (x, d) \<Longrightarrow> held_since i t (w\<lparr>db := d\<rparr>)"
  shows "keeps_inv (held_until i t D) (exec q)"
proof (rule keeps_exec [OF stable_held])
  fix w x d assume h: "held_until i t D w" and q: "q (clock w) (db w) = Inr (x, d)"
  show "held_until i t D (w\<lparr>db := d\<rparr>)"
  proof (cases "D \<le> clock w")
    case False
    then have "held_since i t (w\<lparr>db := d\<rparr>)" using assms [OF _ _ q] h by (simp add: held_until_def)
    then show ?thesis by (simp add: held_until_def)
  qed (simp add: held_until_def)
qed

lemma held_other_job:
  assumes "j \<noteq> i" "\<And>r. jb_id (f r) = jb_id r"
  shows "held_since i t w \<Longrightarrow> held_since i t (w\<lparr>db := set_job j f (db w)\<rparr>)"
  unfolding set_job_def by (rule held_update) (use assms in auto)

lemma keeps_reset: "D \<le> t + n \<Longrightarrow> keeps_inv (held_until i t D) (reset_stale_running n)"
  unfolding reset_stale_running_def
  by (rule held_exec) (auto intro!: held_update simp: stale_def)

lemma keeps_set_job: "j \<noteq> i \<Longrightarrow> (\<And>t r. jb_id (f t r) = jb_id r) \<Longrightarrow>
    keeps_inv (held_until i t D) (exec (\<lambda>t d. Inr (x, set_job j (f t) d)))"
  by (rule held_exec) (auto intro: held_other_job)

lemma keeps_cast_then: "(\<And>u. pg_uuid E s = Some u \<Longrightarrow> keeps_inv I (f u)) \<Longrightarrow> keeps_inv I (bnd (cast_uuid E s) f)"
  by (simp add: keeps_inv_def bnd_def cast_uuid_def split: option.splits)

lemma keeps_done:
  "pg_uuid E j \<noteq> Some i \<Longrightarrow> keeps_inv (held_until i t D) (complete_job E j n)"
  "pg_uuid E j \<noteq> Some i \<Longrightarrow> keeps_inv (held_until i t D) (fail_job E j n m)"
  unfolding complete_job_def fail_job_def by (auto intro!: keeps_cast_then keeps_set_job)

lemma keeps_recurring: "keeps_inv (held_until i t D) (ensure_recurring E ty n p)"
  unfolding ensure_recurring_def
proof (intro keeps keeps_new_uuid [OF stable_held] held_exec)
  fix u w x d
  assume h: "held_since i t w" and q: "(if list_ex (\<lambda>j. jb_type j = ty) (t_jobs (db w))
       then Inr ((), change_jobs (map (\<lambda>j. if jb_type j = ty then j\<lparr>jb_payload := p\<rparr> else j)) (db w))
       else if list_ex (\<lambda>j. jb_id j = u) (t_jobs (db w)) then Inl PgUniqueViolation
       else Inr ((), change_jobs (\<lambda>js. js @
         [\<lparr>jb_id = u, jb_type = ty, jb_payload = p, jb_status = ''pending'', jb_attempts = 0,
           jb_next = clock w + n, jb_error = [], jb_created = clock w, jb_updated = clock w\<rparr>]) (db w))) = Inr (x, d)"
  show "held_since i t (w\<lparr>db := d\<rparr>)"
  proof (cases "list_ex (\<lambda>j. jb_type j = ty) (t_jobs (db w))")
    case True
    then have "d = change_jobs (map (\<lambda>j. if jb_type j = ty then j\<lparr>jb_payload := p\<rparr> else j)) (db w)" using q by simp
    then show ?thesis using held_same [OF h] by simp
  next
    case False
    then have "\<not> list_ex (\<lambda>j. jb_id j = u) (t_jobs (db w))" using q by (auto split: if_splits)
    then show ?thesis using False q h by (auto simp: held_since_def change_jobs_def jobs_ok_def list_ex_iff image_iff)
  qed
qed (rule stable_held)

lemma db_only_payload [keeps]: "db_only (decode_payload p)" "keeps_inv I (decode_payload p)"
  unfolding decode_payload_def by (cases p; simp add: keeps)+

text \<open>A claim takes another job.\<close>

lemma triple_claim_due:
  "triple (held_until i t D) claim_due (\<lambda>j w. held_until i t D w \<and> (jo_id j \<noteq> i \<or> D \<le> clock w)) (held_until i t D)"
  unfolding claim_due_def
proof (rule triple_transaction [OF stable_held, where Y = "\<lambda>_. True"])
  fix t0
  let ?q = "\<lambda>_ d. case sort_key (\<lambda>j. (jb_next j, jb_created j)) (filter (due t0) (t_jobs d)) of
         [] \<Rightarrow> Inl PgNoRows
       | j # _ \<Rightarrow> Inr (j, set_job (jb_id j)
             (\<lambda>j. j\<lparr>jb_status := ''running'', jb_attempts := jb_attempts j + 1, jb_updated := t0, jb_error := []\<rparr>) d)"
  let ?Q = "\<lambda>j w. held_until i t D w \<and> (jb_id j \<noteq> i \<or> D \<le> clock w)"
  have e: "triple (held_until i t D) (exec ?q) ?Q (\<lambda>_. True)"
  proof (rule triple_exec [OF stable_held])
    fix w x d assume h: "held_until i t D w" and "?q (clock w) (db w) = Inr (x, d)"
    then obtain rs where rs: "sort_key (\<lambda>j. (jb_next j, jb_created j)) (filter (due t0) (t_jobs (db w))) = x # rs"
      and d: "d = set_job (jb_id x) (\<lambda>j. j\<lparr>jb_status := ''running'', jb_attempts := jb_attempts j + 1, jb_updated := t0, jb_error := []\<rparr>) (db w)"
      by (auto split: list.splits)
    have "x \<in> set (filter (due t0) (t_jobs (db w)))"
      by (subst set_sort [symmetric, where f = "\<lambda>j. (jb_next j, jb_created j)"]) (simp add: rs)
    then have x: "x \<in> set (t_jobs (db w))" "jb_status x = ''pending''" by (auto simp: due_def)
    show "?Q x (w\<lparr>db := d\<rparr>) \<and> True"
    proof (cases "D \<le> clock w")
      case False
      then have hs: "held_since i t w" using h by (simp add: held_until_def)
      then obtain j where j: "j \<in> set (t_jobs (db w))" "jb_id j = i" "jb_status j = ''running''" "distinct (map jb_id (t_jobs (db w)))"
        by (auto simp: held_since_def jobs_ok_def)
      then have "jb_id x \<noteq> i" using distinct_map_unique [of jb_id "t_jobs (db w)" x j] x by auto
      then show ?thesis using held_other_job [OF _ _ hs] by (simp add: held_until_def d)
    qed (simp add: held_until_def)
  qed simp
  have a: "triple (held_until i t D) (attempt (exec ?q)) (\<lambda>r w. case r of Inl _ \<Rightarrow> True | Inr j \<Rightarrow> ?Q j w) (\<lambda>_. True)"
    by (rule triple_attempt_both) (use e in simp)
  show "triple (held_until i t D) (bnd (attempt (exec ?q)) (\<lambda>r. case r of
       Inl e \<Rightarrow> fail (if e = PgNoRows then ErrNoDueJobs else e)
     | Inr j \<Rightarrow> bnd (decode_payload (jb_payload j)) (\<lambda>payload.
         ret \<lparr>jo_id = jb_id j, jo_type = jb_type j, jo_payload = payload, jo_attempts = jb_attempts j + 1, jo_next = jb_next j\<rparr>)))
     (\<lambda>j w. held_until i t D w \<and> (jo_id j \<noteq> i \<or> D \<le> clock w)) (\<lambda>_. True)"
  proof (rule triple_bnd [OF a])
    fix r :: "err + job_row"
    show "triple (\<lambda>w. case r of Inl _ \<Rightarrow> True | Inr j \<Rightarrow> ?Q j w) (case r of
       Inl e \<Rightarrow> fail (if e = PgNoRows then ErrNoDueJobs else e)
     | Inr j \<Rightarrow> bnd (decode_payload (jb_payload j)) (\<lambda>payload.
         ret \<lparr>jo_id = jb_id j, jo_type = jb_type j, jo_payload = payload, jo_attempts = jb_attempts j + 1, jo_next = jb_next j\<rparr>))
     (\<lambda>j w. held_until i t D w \<and> (jo_id j \<noteq> i \<or> D \<le> clock w)) (\<lambda>_. True)"
      by (cases r) (auto simp: triple_def bnd_def decode_payload_def split: json.splits)
  qed
next
  fix x show "stable (\<lambda>w. held_until i t D w \<and> (jo_id x \<noteq> i \<or> D \<le> clock w))"
    using stable_held by (auto simp: stable_def env_step_fields held_until_def held_since_def)
qed (auto intro!: keeps split: list.splits)

definition spares :: "ext \<Rightarrow> string \<Rightarrow> int \<Rightarrow> int \<Rightarrow> job_call \<Rightarrow> bool" where
  "spares E i t D c = (case c of
     ResetStale n \<Rightarrow> D \<le> t + n
   | CompleteJob j _ \<Rightarrow> pg_uuid E j \<noteq> Some i
   | FailJob j _ _ \<Rightarrow> pg_uuid E j \<noteq> Some i
   | _ \<Rightarrow> True)"

lemma keeps_claim_due: "keeps_inv (held_until i t D) claim_due"
  unfolding keeps_inv_triple by (rule triple_weaken [OF triple_claim_due]) auto

lemma keeps_job_step: "spares E i t D c \<Longrightarrow> keeps_inv (held_until i t D) (job_step E c)"
  by (cases c) (auto simp: spares_def intro!: keeps_ignore keeps_reset keeps_recurring keeps_claim_due keeps_done)

lemma keeps_job_run: "list_all (spares E i t D) calls \<Longrightarrow> keeps_inv (held_until i t D) (for_each (job_step E) calls)"
  by (induction calls) (auto intro!: keeps_bnd keeps_job_step keeps_ret)

text \<open>
  C34: a job that a worker claimed is given to no other worker before the deadline of the stale
  check: whatever the other calls are and whatever fails in them, as long as none completes or
  fails this job and the time is before the deadline, the job stays claimed and a claim that
  succeeds returns another job.
\<close>

theorem claimed_job_exclusive:
  assumes "held_since i t w" "list_all (spares E i t D) calls"
    and "w1 = snd (for_each (job_step E) calls w)" "clock w1 < D"
  shows "held_since i t w1 \<and> (\<forall>j w2. claim_due w1 \<noteq> (Inr j, w2) \<or> jo_id j \<noteq> i \<or> D \<le> clock w2)"
proof -
  have "held_until i t D w" using assms(1) by (simp add: held_until_def)
  then have h: "held_until i t D w1" using keeps_job_run [OF assms(2)] assms(3) by (simp add: keeps_inv_def)
  then show ?thesis using tripleD_Inr [OF triple_claim_due h] assms(4) by (fastforce simp: held_until_def)
qed

section \<open>A job that runs for long is claimed twice\<close>

text \<open>
  The stale check of the worker takes a job that has been running for ten seconds for one
  whose worker died: the next worker that looks for jobs runs it a second time while the first
  one is still at it.
\<close>

lemma long_job_claimed_twice:
  assumes "script w = []" "t_jobs (db w) = [j]" "jb_status j = ''running''" "jb_payload j = JObj ms"
    and "jb_updated j + seconds 10 \<le> clock w" "jb_next j \<le> clock w"
  shows "\<exists>j2 w2. bnd (reset_stale_running (seconds 10)) (\<lambda>_. claim_due) w = (Inr j2, w2) \<and> jo_id j2 = jb_id j \<and>
    jo_attempts j2 = jb_attempts j + 1"
  using assms
  by (simp add: bnd_def reset_stale_running_def exec_calm stale_def change_jobs_def claim_due_def transaction_def now_def
      due_def attempt_def set_job_def decode_payload_def)

definition example_job :: job_row where
  "example_job = \<lparr>jb_id = ''j'', jb_type = ''malware_scan'', jb_payload = JObj [], jb_status = ''running'', jb_attempts = 1,
     jb_next = 0, jb_error = [], jb_created = 0, jb_updated = 0\<rparr>"

definition example_job_world :: "int \<Rightarrow> world" where
  "example_job_world t = (calm_world (empty_db\<lparr>t_jobs := [example_job]\<rparr>))\<lparr>clock := t\<rparr>"

theorem long_job_claimed_twice_witness:
  "\<exists>j2 w2. bnd (reset_stale_running (seconds 10)) (\<lambda>_. claim_due) (example_job_world (seconds 10)) = (Inr j2, w2) \<and>
     jo_id j2 = ''j'' \<and> jo_attempts j2 = 2"
  using long_job_claimed_twice [of "example_job_world (seconds 10)" example_job "[]"]
  by (simp add: example_job_world_def example_job_def seconds_def)

theorem claimed_job_exclusive_witness:
  "let w1 = snd (for_each (job_step plain_ext) [ResetStale (seconds 10), ClaimDue, EnsureRecurring ''x'' 0 (JObj [])]
        (example_job_world (seconds 5))) in
   held_since ''j'' 0 w1"
proof -
  let ?w = "example_job_world (seconds 5)"
  let ?cs = "[ResetStale (seconds 10), ClaimDue, EnsureRecurring ''x'' 0 (JObj [])]"
  have h: "held_since ''j'' 0 ?w"
    by (simp add: held_since_def jobs_ok_def example_job_world_def example_job_def)
  have s: "list_all (spares plain_ext ''j'' 0 (seconds 10)) ?cs" by (simp add: spares_def)
  have "clock (snd (for_each (job_step plain_ext) ?cs ?w)) < seconds 10"
    by (simp add: bnd_def ignore_error_def attempt_def reset_stale_running_def exec_calm claim_due_def transaction_def now_def
        due_def example_job_world_def example_job_def change_jobs_def stale_def seconds_def ensure_recurring_def new_uuid_def)
  then show ?thesis using claimed_job_exclusive [OF h s refl] by (simp only: Let_def)
qed

end
