(* ===== verification/Deployment.thy ===== *)
theory Deployment
  imports Service Jobs Placements SettingsSafety
begin

text \<open>
  The two programs that run the services: the start of \<open>backend/cmd/api\<close> and the worker of
  \<open>backend/cmd/worker\<close> with the jobs it repeats, and what the worker keeps of the stored objects.
\<close>

section \<open>Start-up\<close>

definition auth_config_of :: "config \<Rightarrow> auth_config" where
  "auth_config_of cfg = \<lparr>ac_secret = cg_jwt_secret cfg, ac_issuer = cg_jwt_issuer cfg, ac_access_ttl = cg_access_ttl cfg,
     ac_refresh_ttl = cg_refresh_ttl cfg\<rparr>"

text \<open>
  What the worker uses besides the configuration: the registry of the nodes with the answers of
  their probes, the webhooks, the ClamAV daemon, texts of errors and of JSON, and the times rows
  were last updated.
\<close>

record worker_env =
  we_topology :: topology
  we_hook :: webhook
  we_json_text :: "json \<Rightarrow> string"
  we_message :: "err \<Rightarrow> string"
  we_daemon :: "bytes \<Rightarrow> string"
  we_updated :: "object_row \<Rightarrow> int"

text \<open>
  \<open>db.Migrate\<close>: every SQL file of the directory is run at every start, in the order of the names;
  \<open>run\<close> is the effect of a file on the database.
\<close>

definition file_ext :: "string \<Rightarrow> string" where
  "file_ext name = (let after_dot = takeWhile (\<lambda>c. c \<noteq> CHR ''.'' \<and> c \<noteq> slash) (rev name) in
     if drop (length after_dot) (rev name) \<noteq> [] \<and> hd (drop (length after_dot) (rev name)) = CHR ''.''
     then CHR ''.'' # rev after_dot else [])"

definition migrate :: "(string \<times> bool) list \<Rightarrow> (string \<Rightarrow> bytes option) \<Rightarrow> (bytes \<Rightarrow> unit prog) \<Rightarrow> unit prog" where
  "migrate entries file_of run =
     for_each (\<lambda>(name, is_dir). if is_dir \<or> file_ext name \<noteq> ''.sql'' then ret ()
       else (case file_of name of None \<Rightarrow> fail (Failure ''read migration'') | Some content \<Rightarrow> run content))
       (sort_key fst entries)"

text \<open>A count that comes with an error is dropped by the loop of the jobs.\<close>

definition or_failure :: "(int \<times> err option) prog \<Rightarrow> int prog" where
  "or_failure m = bnd m (\<lambda>(n, e). case e of None \<Rightarrow> ret n | Some x \<Rightarrow> fail x)"

text \<open>In a distributed deployment both programs write and probe the configured nodes first.\<close>

definition prepare_nodes :: "ext \<Rightarrow> topology \<Rightarrow> config \<Rightarrow> unit prog" where
  "prepare_nodes E T cfg =
     (if cg_backend cfg = ''distributed''
      then bnd (sync_configured_nodes E T (cg_endpoints cfg)) (\<lambda>_.
           bnd (or_failure (refresh_configured_nodes E T)) (\<lambda>_. ret ()))
      else ret ())"

definition start_api :: "ext \<Rightarrow> topology \<Rightarrow> config \<Rightarrow> unit prog" where
  "start_api E T cfg =
     bnd (ensure_bootstrap_admin E (cg_admin_email cfg) (cg_admin_password cfg)) (\<lambda>_. prepare_nodes E T cfg)"

section \<open>The jobs of the worker\<close>

definition object_jobs :: "ext \<Rightarrow> worker_env \<Rightarrow> config \<Rightarrow> (string \<times> int \<times> int prog) list" where
  "object_jobs E W cfg =
     (let C = service_config_of cfg in
      [(''multipart_cleanup'', 30, or_failure (cleanup_expired E C)),
       (''soft_delete_purge'', 30, bnd now (\<lambda>t. or_failure (purge_deleted_before E C (t - cg_retention cfg)))),
       (''lifecycle_expiration'', 30, bnd now apply_lifecycle_expirations),
       (''bucket_quota_recalc'', 30, recalculate_bucket_usage),
       (''user_quota_recalc'', 30, recalculate_user_usage),
       (''event_delivery_retry'', 15, or_failure (deliver_pending E (we_hook W) (we_json_text W) (we_message W) 10)),
       (''malware_scan'', 15, or_failure (process_pending E C (we_message W) (we_daemon W)
          (Some (new_scanner (cg_clamav cfg))) (we_updated W) 10))])"

definition storage_jobs :: "ext \<Rightarrow> worker_env \<Rightarrow> config \<Rightarrow> (string \<times> int \<times> int prog) list" where
  "storage_jobs E W cfg =
     (if cg_backend cfg = ''distributed''
      then [(''storage_topology_refresh'', 15, or_failure (refresh_configured_nodes E (we_topology W))),
            (''storage_placement_health'', 20, or_failure (refresh_placement_health E (we_topology W))),
            (''storage_repair'', 20, or_failure (repair_degraded_placements E (we_topology W))),
            (''storage_rebalance'', 30, or_failure (rebalance_placements E (we_topology W)))]
      else [])"

definition recurring_jobs :: "ext \<Rightarrow> worker_env \<Rightarrow> config \<Rightarrow> (string \<times> int \<times> int prog) list" where
  "recurring_jobs E W cfg = object_jobs E W cfg @ storage_jobs E W cfg"

definition interval_payload :: "int \<Rightarrow> json" where
  "interval_payload interval = JObj [(''interval'', JStr (itoa interval @ ''s''))]"

definition ensure_jobs :: "ext \<Rightarrow> (string \<times> int \<times> int prog) list \<Rightarrow> unit prog" where
  "ensure_jobs E = for_each (\<lambda>(name, interval, _). ensure_recurring E name (seconds interval) (interval_payload interval))"

definition job_handlers :: "(string \<times> int \<times> int prog) list \<Rightarrow> string \<Rightarrow> (int \<times> int prog) option" where
  "job_handlers recurring name = map_option (\<lambda>(interval, run). (seconds interval, run)) (map_of recurring name)"

definition start_worker :: "ext \<Rightarrow> worker_env \<Rightarrow> config \<Rightarrow> unit prog" where
  "start_worker E W cfg =
     bnd (prepare_nodes E (we_topology W) cfg) (\<lambda>_. ensure_jobs E (recurring_jobs E W cfg))"

text \<open>A tick of the worker, for at most \<open>n\<close> jobs.\<close>

definition worker_tick :: "ext \<Rightarrow> worker_env \<Rightarrow> config \<Rightarrow> nat \<Rightarrow> unit prog" where
  "worker_tick E W cfg n = run_due_jobs E (we_message W) (job_handlers (recurring_jobs E W cfg)) n"

section \<open>What the worker keeps\<close>

lemma keeps_or_failure [keeps]: "keeps_inv I m \<Longrightarrow> keeps_inv I (or_failure m)"
  unfolding or_failure_def by (intro keeps) (auto split: option.split intro: keeps)

lemma keeps_answer: "keeps_inv I (\<lambda>w. (g w, w))" "keeps_inv I (Pair x)"
  by (simp_all add: keeps_inv_def)

lemma keeps_deliver_pending:
  assumes "row_inv I"
  shows "keeps_inv I (deliver_pending E H json_text message limit)"
proof -
  note st = row_inv_stable [OF assms]
  have claim: "keeps_inv I claim_next_delivery"
    unfolding claim_next_delivery_def
    by (intro keeps_transaction st keeps keeps_exec_same [OF assms])
       (auto simp: update_delivery_def split: list.splits option.splits)
  have failed: "keeps_inv I (mark_failure message item n e)" for item n e
    unfolding mark_failure_def record_audit_def Let_def
    by (intro keeps keeps_exec_same [OF assms]) (auto simp: update_delivery_def)
  have one: "keeps_inv I (deliver_one E H json_text message item)" for item
    unfolding deliver_one_def record_audit_def Let_def
    by (auto intro!: keeps keeps_external st failed keeps_answer keeps_exec_same [OF assms] simp: update_delivery_def split: sum.split)
  have "keeps_inv I (deliver_rounds E H json_text message k n)" for k n
    by (induction n arbitrary: k) (auto intro!: keeps claim one split: sum.split)
  then show ?thesis unfolding deliver_pending_def .
qed

lemma keeps_claim_job:
  assumes "row_inv I"
  shows "keeps_inv I claim_due"
  unfolding claim_due_def
  by (intro keeps_transaction row_inv_stable [OF assms] keeps keeps_exec_same [OF assms])
     (auto intro!: keeps simp: set_job_def change_jobs_def split: list.splits sum.split)

lemma keeps_end_job:
  assumes "row_inv I"
  shows "keeps_inv I (complete_job E i t)" "keeps_inv I (fail_job E i t m)" "keeps_inv I (reset_stale_running n)"
    "keeps_inv I (ensure_recurring E ty n p)"
  unfolding complete_job_def fail_job_def reset_stale_running_def ensure_recurring_def
  by (intro keeps keeps_exec_same [OF assms] row_inv_stable [OF assms]; auto simp: set_job_def change_jobs_def split: if_splits)+

lemma keeps_run_next:
  assumes "row_inv I" "\<And>name interval run. handlers name = Some (interval, run) \<Longrightarrow> keeps_inv I run"
  shows "keeps_inv I (run_next_job E message handlers)"
  unfolding run_next_job_def
  by (auto intro!: keeps keeps_claim_job keeps_end_job assms split: sum.split option.split)

lemma keeps_run_rounds:
  assumes "row_inv I" "\<And>name interval run. handlers name = Some (interval, run) \<Longrightarrow> keeps_inv I run"
  shows "keeps_inv I (run_rounds E message handlers n)"
  by (induction n) (auto intro!: keeps keeps_answer keeps_run_next assms)

lemma keeps_object_jobs:
  assumes "good_config E (service_config_of cfg)" "(name, interval, run) \<in> set (object_jobs E W cfg)"
  shows "keeps_inv (intact E (service_config_of cfg)) run"
  using assms(2) unfolding object_jobs_def Let_def
  by (auto intro!: keeps call_keeps assms(1) keeps_deliver_pending row_inv_intact)

text \<open>The jobs of a deployment without a distributed backend are those of the objects.\<close>

lemma keeps_worker_tick:
  assumes "good_config E (service_config_of cfg)" "cg_backend cfg \<noteq> ''distributed''"
  shows "keeps_inv (intact E (service_config_of cfg)) (worker_tick E W cfg n)"
proof -
  have run: "keeps_inv (intact E (service_config_of cfg)) run"
    if "job_handlers (recurring_jobs E W cfg) name = Some (interval, run)" for name interval run
    using that keeps_object_jobs [OF assms(1)] assms(2)
    by (auto simp: job_handlers_def recurring_jobs_def storage_jobs_def dest!: map_of_SomeD)
  show ?thesis
    unfolding worker_tick_def run_due_jobs_def
    by (auto intro!: keeps keeps_end_job keeps_run_rounds row_inv_intact run split: sum.split)
qed

lemma keeps_hash_password: "stable I \<Longrightarrow> keeps_inv I (hash_password E p)"
  unfolding keeps_inv_def hash_password_def by (auto elim!: stableD simp: env_step_fields)

lemma keeps_start:
  assumes "row_inv I" "cg_backend cfg \<noteq> ''distributed''"
  shows "keeps_inv I (start_worker E W cfg)" "keeps_inv I (start_api E T cfg)"
proof -
  have p: "prepare_nodes E T cfg = ret ()" for T using assms(2) by (simp add: prepare_nodes_def)
  have "keeps_inv I (ensure_jobs E js)" for js
    unfolding ensure_jobs_def by (intro keeps) (auto intro!: keeps_end_job assms(1))
  then show "keeps_inv I (start_worker E W cfg)" unfolding start_worker_def p by (intro keeps)
  show "keeps_inv I (start_api E T cfg)"
    unfolding start_api_def p ensure_bootstrap_admin_def
    by (intro keeps keeps_exec_same [OF assms(1)] keeps_hash_password row_inv_stable [OF assms(1)])
       (auto intro!: keeps simp: insert_user_def split: if_splits sum.split)
qed

text \<open>
  A deployment: clients call the object service, any number of workers tick, programs start again,
  and time passes.
\<close>

inductive deployment_step :: "ext \<Rightarrow> worker_env \<Rightarrow> config \<Rightarrow> world \<Rightarrow> world \<Rightarrow> bool" for E W cfg where
  Client: "w' = snd (perform E (service_config_of cfg) c w) \<Longrightarrow> deployment_step E W cfg w w'"
| Tick: "w' = snd (worker_tick E W cfg n w) \<Longrightarrow> deployment_step E W cfg w w'"
| Worker_start: "w' = snd (start_worker E W cfg w) \<Longrightarrow> deployment_step E W cfg w w'"
| Api_start: "w' = snd (start_api E (we_topology W) cfg w) \<Longrightarrow> deployment_step E W cfg w w'"
| Passing: "env_step w w' \<Longrightarrow> deployment_step E W cfg w w'"

inductive_cases deployment_stepE: "deployment_step E W cfg w w'"

lemma deployment_step_intact:
  assumes "good_config E (service_config_of cfg)" "cg_backend cfg \<noteq> ''distributed''"
    and "deployment_step E W cfg w w'" "intact E (service_config_of cfg) w"
  shows "intact E (service_config_of cfg) w'"
  using assms(3)
proof cases
  case (Client c)
  then show ?thesis using keeps_perform [OF assms(1)] assms(4) by (simp add: keeps_inv_def)
next
  case (Tick n)
  then show ?thesis using keeps_worker_tick [OF assms(1,2)] assms(4) by (simp add: keeps_inv_def)
next
  case Worker_start
  then show ?thesis using keeps_start(1) [OF row_inv_intact assms(2)] assms(4) by (simp add: keeps_inv_def)
next
  case Api_start
  then show ?thesis using keeps_start(2) [OF row_inv_intact assms(2)] assms(4) by (simp add: keeps_inv_def)
next
  case Passing
  then show ?thesis using stableD [OF stable_intact assms(4)] by simp
qed

text \<open>
  C6: in a deployment on the local store, whatever clients call, however often the worker ticks
  and the programs start again, and whatever calls fail inside, every live version has a blob
  where its row says, of the length and SHA-256 of the row. The jobs of the worker (purging,
  expiring, cleaning, scanning, delivering) take part.
\<close>

theorem deployment_keeps_versions:
  assumes "good_config E (service_config_of cfg)" "cg_backend cfg \<noteq> ''distributed''"
    and "(deployment_step E W cfg)\<^sup>*\<^sup>* w w'" "intact E (service_config_of cfg) w"
    and "r \<in> set (t_objects (db w'))" "visible r"
  shows "\<exists>x. stored_as E (service_config_of cfg) r x w'"
proof -
  have "intact E (service_config_of cfg) w'"
    using assms(3,4) by (induction rule: rtranclp_induct) (auto intro: deployment_step_intact [OF assms(1,2)])
  then show ?thesis using assms(5,6) by (auto simp: intact_def blobs_ok_def)
qed

text \<open>What the invariant reads of the configuration.\<close>

lemma intact_same:
  assumes "cf_tenant C = cf_tenant C'" "cf_distributed C = cf_distributed C'"
  shows "intact E C w = intact E C' w" "stored_as E C r x w = stored_as E C' r x w"
  using assms
  by (simp_all add: intact_def catalog_ok_def blobs_ok_def stored_as_def row_ok_def object_path_def part_path_def future_def in_distributed_def)

definition example_local :: config where
  "example_local = example_base\<lparr>cg_backend := ''local'', cg_endpoints := [], cg_tenant := ''t''\<rparr>"

definition example_worker :: worker_env where
  "example_worker = \<lparr>we_topology = \<lparr>tp_store = False, tp_sealer = False, tp_replicas = 1, tp_probe = (\<lambda>_ _. Inl PgNoRows),
     tp_hostname = (\<lambda>_. None)\<rparr>, we_hook = (\<lambda>_ _. Inr 200), we_json_text = (\<lambda>_. []), we_message = (\<lambda>_. []),
     we_daemon = (\<lambda>_. ''OK''), we_updated = o_created\<rparr>"

lemma local_config: "cf_tenant (service_config_of example_local) = cf_tenant example_config"
  "cf_distributed (service_config_of example_local) = cf_distributed example_config" "cg_backend example_local \<noteq> ''distributed''"
  by (simp_all add: example_local_def service_config_of_def example_config_def)

theorem deployment_keeps_versions_witness:
  "\<exists>w w' r x. (deployment_step plain_ext example_worker example_local)\<^sup>*\<^sup>* w w' \<and>
     w' = snd (start_worker plain_ext example_worker example_local (snd (start_api plain_ext (we_topology example_worker) example_local w))) \<and>
     r \<in> set (t_objects (db w')) \<and> visible r \<and> stored_as plain_ext (service_config_of example_local) r x w'"
proof -
  let ?E = plain_ext and ?W = example_worker and ?c = example_local
  obtain md w where p: "put_object ?E example_config ''b'' example_input (calm_world example_db) = (Inr md, w)"
    by (rule example_put_object)
  obtain row where row: "row \<in> set (t_objects (db w))" "visible row"
    using tripleD_Inr [OF triple_put_object [OF example_good] example_fresh p] by (auto simp: new_version_def)
  have i: "intact ?E (service_config_of ?c) w"
    using run_intact [OF example_good example_run [OF p] example_fresh] intact_same(1) [OF local_config(1,2)] by simp
  have g: "good_config ?E (service_config_of ?c)"
    using example_good local_config(1) by (simp add: good_config_def)
  let ?w1 = "snd (start_api ?E (we_topology ?W) ?c w)" and ?I = "\<lambda>v. t_objects (db v) = t_objects (db w)"
  let ?w2 = "snd (start_worker ?E ?W ?c ?w1)"
  have I: "row_inv ?I" by (simp add: row_inv_def) (rule stable_db)
  have "?I ?w1" using keeps_start(2) [OF I local_config(3), of ?E "we_topology ?W"] by (simp add: keeps_inv_def)
  then have "?I ?w2" using keeps_start(1) [OF I local_config(3), of ?E ?W] by (simp add: keeps_inv_def)
  then have r: "row \<in> set (t_objects (db ?w2))" using row(1) by simp
  have "deployment_step ?E ?W ?c w ?w1" "deployment_step ?E ?W ?c ?w1 ?w2"
    by (rule deployment_step.Api_start [OF refl], rule deployment_step.Worker_start [OF refl])
  then have run: "(deployment_step ?E ?W ?c)\<^sup>*\<^sup>* w ?w2" by simp
  from deployment_keeps_versions [OF g local_config(3) run i r row(2)] show ?thesis using run r row(2) by blast
qed

end
