(* ===== verification/Spec2Isabelle.thy ===== *)
theory Spec2Isabelle
  imports S3Safety TopologySafety AdminExamples Deployment
begin

text \<open>
  HarborShield is an S3-compatible object store in Go. This development models the code under
  \<open>src/backend\<close>: the API (\<open>cmd/api\<close>), the worker (\<open>cmd/worker\<close>), the blob nodes (\<open>cmd/blobnode\<close>) and
  the services of \<open>internal\<close> they share, and proves what they guarantee and where they fall short.

  \<^bold>\<open>The program.\<close> The API serves two interfaces. The S3 interface (\<open>internal/s3\<close>) identifies a request
  by AWS signatures, plain credentials or presigned URLs, authorizes it by role statements, subject
  bindings and bucket policies (\<open>internal/authz\<close>, \<open>internal/policies\<close>), checks quotas and calls the
  object, multipart and bucket services. The administration interface (\<open>internal/admin\<close>) does the
  same behind bearer tokens for every table there is: users, credentials, tokens, policies, quotas,
  settings, nodes, events, audit. The object service writes blobs to a sealed local store or to a
  set of blob nodes, over signed requests (\<open>internal/storage\<close>). The worker claims recurring jobs
  (\<open>internal/jobs\<close>) that purge, expire, clean up, recount, deliver events, scan, and refresh, repair
  and rebalance replicas. Everything else is kept in PostgreSQL.

  \<^bold>\<open>The world.\<close> \<open>World\<close> has the state as one record: the database (one list of rows per table of
  \<open>backend/migrations\<close>), the disks of the API host and of the nodes, the endpoints and tokens the
  distributed store keeps in memory, the tokens and seen nonces of the nodes, the clock, the
  position in a supply of random values, and a \<open>script\<close>. A Go function that returns a value and an
  error is a program, a function of the world to \<open>Inl\<close> an error or \<open>Inr\<close> a value and the next
  world; \<open>bnd\<close> is the sequence with its early return, \<open>attempt\<close> and \<open>ignore_error\<close> are the calls
  whose error the code looks at or drops. Every statement, file operation and HTTP request is
  \<open>external\<close>: the script says of each whether it is done, lost before it has an effect, or done and
  reported as failed, and how long it takes. Theorems about \<open>any\<close> world hold for every script, so
  for every combination of failures at every point. \<open>transaction\<close> undoes the changes of the
  database when its body fails. \<open>keeps_inv\<close> (an invariant) and \<open>triple\<close> (a precondition, what holds
  of the value and what holds after an error) are the two judgements, with a rule for each
  construct; the rules of invariants are collected in \<open>keeps\<close>. \<open>Prelude\<close> holds the collections
  and facts on lists, \<open>GoLib\<close> the functions of Go's library (strings, numbers, paths, escapes,
  dates, IPv4), \<open>Decode\<close> how \<open>encoding/json\<close> fills a struct.

  \<^bold>\<open>The theories and the code.\<close>
  \<^item> \<open>Policies\<close>: \<open>policies/policies.go\<close> and \<open>service.go\<close>. Evaluation of statements, bindings, the
    simulation, the statements of the superadmin.
  \<^item> \<open>BucketPolicy\<close>: \<open>policies/aws_bucket_policy.go\<close>. Documents, their canonical
    text and the \<open>jsonb\<close> value it is stored as, decoding over earlier values as \<open>encoding/json\<close> does it,
    evaluation.
  \<^item> \<open>BlobStore\<close>: \<open>storage/storage.go\<close> and the handler of \<open>cmd/blobnode\<close>. The local store, signed
    requests with nonces, the distributed store. The interface of a store is the locale
    \<open>blob_store\<close>, with \<open>available_blob_store\<close> for stores that answer; both stores and the tier of an
    object are instances.
  \<^item> \<open>Quotas\<close>, \<open>Buckets\<close>, \<open>Objects\<close>, \<open>Multipart\<close>, \<open>Malware\<close>: the services of these names, storage
    classes and the storage policy with \<open>Buckets\<close>, the scan mode with \<open>Malware\<close>.
  \<^item> \<open>Integrity\<close>, \<open>Calls\<close>, \<open>Service\<close>: the invariant that every live version has its blob, the rules
    for each statement that touches it, each call of the services, and sequences of calls.
    \<open>Writes\<close>: what a put leaves in the tables when it reports success and when it fails, and the
    limits of the quotas after it.
  \<^item> \<open>Accounts\<close> (\<open>crypto\<close>, \<open>credentials\<close>, \<open>users\<close>, \<open>auth\<close>, \<open>adminapi\<close>), \<open>AuditLog\<close> (\<open>audit\<close>), \<open>Events\<close>
    (\<open>events\<close>), \<open>Jobs\<close> (\<open>jobs\<close> and the loop of the worker).
  \<^item> \<open>SigV4\<close>, \<open>S3Auth\<close>, \<open>S3Router\<close>: \<open>s3/sigv4.go\<close>, \<open>authz\<close>, \<open>s3/router.go\<close> with all its routes;
    \<open>S3Safety\<close> what the interface guarantees.
  \<^item> \<open>Topology\<close>, \<open>Placements\<close>: the two halves of \<open>storage/topology.go\<close>, the registry of the nodes and the
    replicas of the objects; \<open>TopologySafety\<close> what they guarantee.
  \<^item> \<open>Config\<close>, \<open>Settings\<close>, \<open>Oidc\<close>, \<open>Overview\<close>: \<open>config\<close>, \<open>settings\<close>, \<open>oidc\<close>, \<open>dashboard\<close>;
    \<open>SettingsSafety\<close> what is loaded, what an empty installation makes of it, and what is read back.
  \<^item> \<open>AdminAuth\<close>, \<open>AdminRouter\<close>: \<open>middleware\<close> and \<open>admin/router.go\<close> with all its routes;
    \<open>AdminSafety\<close> and \<open>AdminGrants\<close> what the interface guarantees, \<open>AdminExamples\<close> the same at
    concrete requests.
  \<^item> \<open>BlobNode\<close>: the start of \<open>cmd/blobnode\<close>, joining over the route of the API, health, TLS files.
    \<open>Deployment\<close>: the start of the API and of the worker, the jobs of the worker, and a deployment
    of clients, workers and restarts as one step relation.

  \<^bold>\<open>What is shown.\<close>
  \<^item> Data: after any sequence of calls, with the worker's jobs and restarts among them, live versions
    have a blob of their size and hash, reads are faithful, an acknowledged write is read back; the
    local put refines an update of a map; a put to the nodes is read back; replicas agree.
  \<^item> Decisions: the evaluation of role statements and of bucket policies are equal to declarative
    specifications; the services decide as functions of the database; explicit denials win;
    anonymous requests and admin requests without the permission change nothing.
  \<^item> Tokens: refresh, join and presigned tokens work as often and as long as they should, signatures
    bind the whole request up to a collision of HMAC, the two ends of a join agree on the credential, admin tokens are
    bounded, listings of the audit log are redacted.
  \<^item> Bounds: quotas in 64 bits for new keys (an overwrite may exceed them, a lemma), replicas the
    endpoints can hold on a first start, attempts of deliveries, exclusive jobs, complete pagination.
  \<^item> Faults: theorems that show a failed upload acknowledged, a denial escaped by plain credentials,
    an upload of another bucket aborted, the only replica deleted before it is copied, a signed
    request replayed, and a state token taken as an access token; further faults are lemmas.

  \<^bold>\<open>Bounds and fuel.\<close> Loops over rows and pages are structural recursions on lists. The loop of the worker
  (\<open>run_rounds\<close>) and a pass of deliveries take the number of rounds: the code bounds the second by
  its limit, and what is proved of the first holds for every number, since time passes in the jobs
  and new ones may fall due while it runs. The number of pages of a listing is bounded by that of
  the objects, which is proved. Integers of 64 bits wrap where the code adds them; durations are
  nanoseconds.

  \<^bold>\<open>Parameters.\<close> Code that is not in the repository is an argument: hashes, HMAC, AES-GCM, bcrypt,
  JWT, base64, UUIDs and their parsing in PostgreSQL, IPv6 texts, \<open>url.Parse\<close>, XML and JSON texts,
  forms, the ClamAV daemon, webhooks, the identity provider, X.509. What is relied on is a named
  predicate (\<open>good_ext\<close>, \<open>good_b64\<close>, \<open>good_jwt\<close>): what was sealed opens, what was encoded decodes,
  random identifiers differ, lengths are as asked. Each has an instance that the examples use.

  \<^bold>\<open>Not modelled, and why.\<close> White space and letter case outside ASCII, with the exceptions \<open>Malware\<close>
  names. Calls run one after the other, with any failures and any time inside each: races between
  the statements of two handlers (two joins with one token, two changes of the last node) are
  findings of the manifest, not theorems. Logging, Prometheus metrics,
  tracing, opening connections, timeouts, panics and their recovery, chi's routing and its RealIP
  (its effect on the allowlist is a finding), listening and shutting down have no state of the
  program's own. The user interface, scripts and deployment files are not Go. The text of SQL
  migrations is the data model; running them is \<open>migrate\<close>. \<open>ParseTags\<close> is called by nothing.
  One write call to a file happens entirely or not at all. \<open>jsonb\<close> is modelled where the order or the
  repetition of members can matter, in bucket policies; the other \<open>jsonb\<close> columns hold Go maps. A
  text that \<open>jsonb\<close> refuses (with a NUL) is a statement that fails.
\<close>

end
